(* ===== verification/Prelude.thy ===== *)
theory Prelude
  imports Main "HOL-Library.Char_ord"
begin

text \<open>
  Shared vocabulary of the development: identifiers and clock values, HTTP failures,
  the Python string and truth-value operations the code uses, the operations on a
  database table (a list of rows in insertion order), and two locales that every
  component instantiates: \<open>step_system\<close> (an invariant kept by each operation is kept by
  each run) and \<open>row_update\<close> (a row update that keeps the key keeps the key discipline
  of the table).

  Text is modelled as \<open>string\<close>, a list of Latin-1 code points. Vietnamese message texts
  of the source are written without diacritics.
\<close>

named_theorems table_simps \<open>rewrite rules for the operations on tables\<close>
named_theorems py_simps \<open>rewrite rules for the Python operations\<close>

subsection \<open>Identifiers, clock, failures\<close>

type_synonym uuid = nat
type_synonym time = int  \<comment> \<open>microseconds since the epoch, UTC\<close>

abbreviation seconds :: "int \<Rightarrow> time" where
  "seconds n \<equiv> n * 1000000"

abbreviation minutes :: "int \<Rightarrow> time" where
  "minutes n \<equiv> seconds (60 * n)"

abbreviation hours :: "int \<Rightarrow> time" where
  "hours n \<equiv> seconds (3600 * n)"

abbreviation days :: "int \<Rightarrow> time" where
  "days n \<equiv> seconds (86400 * n)"

datatype http_error = HTTPException nat string

subsection \<open>Python truth values and Optional strings\<close>

definition truthy :: "string option \<Rightarrow> bool" where
  "truthy x = (case x of None \<Rightarrow> False | Some s \<Rightarrow> s \<noteq> [])"

definition py_or :: "string option \<Rightarrow> string option \<Rightarrow> string option" where
  "py_or a b = (if truthy a then a else b)"

lemma truthy_simps [simp, py_simps]:
  "\<not> truthy None" "truthy (Some s) \<longleftrightarrow> s \<noteq> []"
  by (simp_all add: truthy_def)

lemma py_or_simps [simp, py_simps]:
  "py_or None b = b" "py_or (Some []) b = b" "s \<noteq> [] \<Longrightarrow> py_or (Some s) b = Some s"
  by (simp_all add: py_or_def)

subsection \<open>Python string operations\<close>

definition code :: "char \<Rightarrow> nat" where
  "code c = of_char c"

definition is_space :: "char \<Rightarrow> bool" where
  "is_space c = (code c \<in> {9, 10, 11, 12, 13, 28, 29, 30, 31, 32, 133, 160})"

definition lstrip :: "string \<Rightarrow> string" where
  "lstrip s = dropWhile is_space s"

definition strip :: "string \<Rightarrow> string" where
  "strip s = rev (lstrip (rev (lstrip s)))"

definition lower_char :: "char \<Rightarrow> char" where
  "lower_char c =
     (if 65 \<le> code c \<and> code c \<le> 90 \<or> 192 \<le> code c \<and> code c \<le> 222 \<and> code c \<noteq> 215
      then char_of (code c + 32) else c)"

definition lower :: "string \<Rightarrow> string" where
  "lower s = map lower_char s"

definition is_digit :: "char \<Rightarrow> bool" where
  "is_digit c \<longleftrightarrow> 48 \<le> code c \<and> code c \<le> 57"

definition starts_with :: "string \<Rightarrow> string \<Rightarrow> bool" where
  "starts_with p s \<longleftrightarrow> take (length p) s = p"

fun contains :: "string \<Rightarrow> string \<Rightarrow> bool" where
  "contains p [] = (p = [])"
| "contains p (c # s) = (starts_with p (c # s) \<or> contains p s)"

fun split_on :: "char \<Rightarrow> string \<Rightarrow> string list" where
  "split_on d [] = [[]]"
| "split_on d (c # s) =
     (if c = d then [] # split_on d s
      else (case split_on d s of [] \<Rightarrow> [[c]] | w # ws \<Rightarrow> (c # w) # ws))"

fun split_ws_aux :: "string \<Rightarrow> string \<Rightarrow> string list" where
  "split_ws_aux w [] = (if w = [] then [] else [rev w])"
| "split_ws_aux w (c # s) =
     (if is_space c then (if w = [] then [] else [rev w]) @ split_ws_aux [] s
      else split_ws_aux (c # w) s)"

definition split_ws :: "string \<Rightarrow> string list" where
  "split_ws s = split_ws_aux [] s"

fun join :: "string \<Rightarrow> string list \<Rightarrow> string" where
  "join sep [] = []"
| "join sep [w] = w"
| "join sep (w # ws) = w @ sep @ join sep ws"

fun digits_of :: "nat \<Rightarrow> string" where
  "digits_of n = (if n < 10 then [char_of (48 + n)]
                  else digits_of (n div 10) @ [char_of (48 + n mod 10)])"

declare digits_of.simps [simp del]

definition str_int :: "int \<Rightarrow> string" where
  "str_int i = (if i < 0 then ''-'' @ digits_of (nat (- i)) else digits_of (nat i))"

text \<open>Facts with which the simplifier evaluates characters.\<close>

lemmas char_eval = code_def char_of_def bit_Suc_0_iff

text \<open>Numbers are read back from their decimal text.\<close>

definition read_digits :: "string \<Rightarrow> nat" where
  "read_digits s = fold (\<lambda>c n. 10 * n + (code c - 48)) s 0"

lemma code_digit [simp]: "n < 10 \<Longrightarrow> code (char_of (48 + n)) = 48 + n"
  by (simp add: code_def)

lemma digits_of_digits: "c \<in> set (digits_of n) \<Longrightarrow> is_digit c"
proof (induction n rule: digits_of.induct)
  case (1 n)
  show ?case
  proof (cases "n < 10")
    case True
    with "1.prems" show ?thesis by (simp add: digits_of.simps [of n] is_digit_def)
  next
    case False
    have "is_digit (char_of (48 + n mod 10))" by (simp add: is_digit_def)
    with 1 False show ?thesis by (auto simp: digits_of.simps [of n])
  qed
qed

lemma read_digits_of [simp]: "read_digits (digits_of n) = n"
proof (induction n rule: digits_of.induct)
  case (1 n)
  show ?case
  proof (cases "n < 10")
    case True
    then show ?thesis by (simp add: digits_of.simps [of n] read_digits_def)
  next
    case False
    have "code (char_of (48 + n mod 10)) = 48 + n mod 10" by (rule code_digit) simp
    with 1 False show ?thesis by (simp add: digits_of.simps [of n] read_digits_def)
  qed
qed

lemma digits_of_nonempty [simp]: "digits_of n \<noteq> []"
  by (simp add: digits_of.simps)

lemma length_digits_of: "n < 10 ^ k \<Longrightarrow> 0 < k \<Longrightarrow> length (digits_of n) \<le> k"
proof (induction n arbitrary: k rule: digits_of.induct)
  case (1 n)
  show ?case
  proof (cases "n < 10")
    case True
    with 1 show ?thesis by (simp add: digits_of.simps [of n])
  next
    case False
    with "1.prems" obtain j where k: "k = Suc j" "0 < j" by (cases k; cases "k = 1") auto
    with "1.prems" have "n div 10 < 10 ^ j" by (simp add: less_mult_imp_div_less mult.commute)
    with "1.IH" [OF False, of j] k False show ?thesis by (simp add: digits_of.simps [of n])
  qed
qed

lemma starts_with_iff [py_simps]: "starts_with p s \<longleftrightarrow> (\<exists>r. s = p @ r)"
proof
  assume "starts_with p s"
  then have "s = p @ drop (length p) s"
    by (metis append_take_drop_id starts_with_def)
  then show "\<exists>r. s = p @ r" ..
qed (auto simp: starts_with_def)

lemma starts_with_append [simp]: "starts_with p (p @ r)"
  by (auto simp: starts_with_iff)

lemma contains_append [simp]: "contains p (u @ p @ v)"
proof (induction u)
  case Nil
  show ?case
  proof (cases "p @ v")
    case (Cons c s)
    then have "starts_with p (c # s)" by (auto simp: starts_with_iff intro: sym)
    with Cons show ?thesis by simp
  qed simp
qed simp

lemma split_on_nonempty [simp]: "split_on d s \<noteq> []"
  by (induction s) (auto split: list.splits)

lemma split_on_append: "split_on d (s @ d # t) = split_on d s @ split_on d t"
proof (induction s)
  case (Cons c s)
  obtain w ws where "split_on d s = w # ws" by (cases "split_on d s") auto
  with Cons show ?case by simp
qed simp

lemma lstrip_idem [simp]: "lstrip (lstrip s) = lstrip s"
  by (induction s) (auto simp: lstrip_def)

subsection \<open>Deduplication that keeps the first occurrence (dict.fromkeys)\<close>

definition dedup :: "'a list \<Rightarrow> 'a list" where
  "dedup xs = rev (remdups (rev xs))"

lemma set_dedup [simp]: "set (dedup xs) = set xs"
  by (simp add: dedup_def)

lemma distinct_dedup [simp]: "distinct (dedup xs)"
  by (simp add: dedup_def)

lemma dedup_Nil [simp]: "dedup [] = []"
  by (simp add: dedup_def)

subsection \<open>Tables\<close>

definition update_where :: "('r \<Rightarrow> bool) \<Rightarrow> ('r \<Rightarrow> 'r) \<Rightarrow> 'r list \<Rightarrow> 'r list" where
  "update_where P f rows = map (\<lambda>r. if P r then f r else r) rows"

definition delete_where :: "('r \<Rightarrow> bool) \<Rightarrow> 'r list \<Rightarrow> 'r list" where
  "delete_where P rows = filter (\<lambda>r. \<not> P r) rows"

definition insert_row :: "'r \<Rightarrow> 'r list \<Rightarrow> 'r list" where
  "insert_row r rows = rows @ [r]"

lemma set_insert_row [simp, table_simps]: "set (insert_row r rows) = insert r (set rows)"
  by (auto simp: insert_row_def)

lemma set_delete_where [simp, table_simps]:
  "set (delete_where P rows) = {r \<in> set rows. \<not> P r}"
  by (simp add: delete_where_def)

lemma set_update_where [simp, table_simps]:
  "set (update_where P f rows) = (\<lambda>r. if P r then f r else r) ` set rows"
  by (simp add: update_where_def)

lemma update_whereE:
  assumes "t \<in> set (update_where P f rows)"
  obtains r where "r \<in> set rows" "P r" "t = f r" | "t \<in> set rows" "\<not> P t"
proof -
  from assms obtain r where "r \<in> set rows" "t = (if P r then f r else r)"
    unfolding set_update_where by (rule imageE)
  then show ?thesis using that by (cases "P r") simp_all
qed

lemma filter_update_where:
  "(\<And>r. r \<in> set rows \<Longrightarrow> P r \<Longrightarrow> \<not> Q r \<and> \<not> Q (f r)) \<Longrightarrow> filter Q (update_where P f rows) = filter Q rows"
  by (induction rows) (auto simp: update_where_def)

lemma filter_delete_where:
  "(\<And>r. r \<in> set rows \<Longrightarrow> P r \<Longrightarrow> \<not> Q r) \<Longrightarrow> filter Q (delete_where P rows) = filter Q rows"
  by (induction rows) (auto simp: delete_where_def)

lemma length_update_where [simp, table_simps]: "length (update_where P f rows) = length rows"
  by (simp add: update_where_def)

lemma length_insert_row [simp, table_simps]: "length (insert_row r rows) = Suc (length rows)"
  by (simp add: insert_row_def)

lemma update_where_idle [table_simps]:
  "(\<And>r. r \<in> set rows \<Longrightarrow> \<not> P r) \<Longrightarrow> update_where P f rows = rows"
  by (auto simp: update_where_def intro: map_idI)

lemma find_SomeD: "find P xs = Some x \<Longrightarrow> x \<in> set xs \<and> P x"
  by (induction xs) (auto split: if_splits)

lemma find_NoneD: "find P xs = None \<Longrightarrow> x \<in> set xs \<Longrightarrow> \<not> P x"
  by (induction xs) (auto split: if_splits)

lemma find_SomeI: "x \<in> set xs \<Longrightarrow> P x \<Longrightarrow> \<exists>y. find P xs = Some y"
  by (induction xs) auto

lemma find_append:
  "find P (xs @ ys) = (case find P xs of Some x \<Rightarrow> Some x | None \<Rightarrow> find P ys)"
  by (induction xs) auto

lemma find_key:
  "distinct (map key xs) \<Longrightarrow> x \<in> set xs \<Longrightarrow> find (\<lambda>r. key r = key x) xs = Some x"
  by (induction xs) (auto simp: rev_image_eqI)

lemma distinct_map_subfilter:
  "distinct (map f (filter Q xs)) \<Longrightarrow> distinct (map f (filter (\<lambda>x. R x \<and> Q x) xs))"
  by (induction xs) (auto split: if_splits)

text \<open>A row update that leaves the key of every row alone.\<close>

locale row_update =
  fixes key :: "'r \<Rightarrow> 'k" and f :: "'r \<Rightarrow> 'r"
  assumes key_f [simp]: "key (f r) = key r"
begin

lemma keys_update_where: "map key (update_where P f rows) = map key rows"
  by (simp add: update_where_def)

lemma distinct_update_where:
  "distinct (map key rows) \<Longrightarrow> distinct (map key (update_where P f rows))"
  by (simp add: keys_update_where)

lemma find_update_where:
  assumes "\<And>r. r \<in> set rows \<Longrightarrow> key r = k \<Longrightarrow> P r"
  shows "find (\<lambda>r. key r = k) (update_where P f rows) =
           map_option f (find (\<lambda>r. key r = k) rows)"
  using assms by (induction rows) (auto simp: update_where_def)

lemma find_update_where_other:
  assumes "\<And>r. r \<in> set rows \<Longrightarrow> key r = k \<Longrightarrow> \<not> P r"
  shows "find (\<lambda>r. key r = k) (update_where P f rows) = find (\<lambda>r. key r = k) rows"
  using assms by (induction rows) (auto simp: update_where_def)

end

subsection \<open>Runs of a component\<close>

text \<open>
  A component is a step function over its state; a run is a list of events. What one
  step keeps, each run keeps.
\<close>

primrec run :: "('e \<Rightarrow> 's \<Rightarrow> 's) \<Rightarrow> 'e list \<Rightarrow> 's \<Rightarrow> 's" where
  "run step [] s = s"
| "run step (e # es) s = run step es (step e s)"

lemma run_append [simp]: "run step (es @ es') s = run step es' (run step es s)"
  by (induction es arbitrary: s) auto

locale step_system =
  fixes step :: "'e \<Rightarrow> 's \<Rightarrow> 's" and ok :: "'e \<Rightarrow> 's \<Rightarrow> bool" and inv :: "'s \<Rightarrow> bool"
  assumes step_inv: "ok e s \<Longrightarrow> inv s \<Longrightarrow> inv (step e s)"
begin

primrec admissible :: "'e list \<Rightarrow> 's \<Rightarrow> bool" where
  "admissible [] s = True"
| "admissible (e # es) s = (ok e s \<and> admissible es (step e s))"

lemma run_inv: "admissible es s \<Longrightarrow> inv s \<Longrightarrow> inv (run step es s)"
  by (induction es arbitrary: s) (auto intro: step_inv)

end

end
