(* ===== verification/IpAddress.thy ===== *)
theory IpAddress
  imports Prelude
begin

text \<open>
  The part of Python's ipaddress module that the client-address code calls: reading and
  printing IPv4 and IPv6 addresses, reading networks, membership in a network, loopback, link-local and
  IPv4-mapped tests (CPython 3.12).
\<close>

datatype ip = V4 nat | V6 nat "string option"  \<comment> \<open>value; scope id\<close>

datatype net = Net4 nat nat | Net6 nat nat  \<comment> \<open>network value; prefix length\<close>

definition digit_val :: "char \<Rightarrow> nat" where
  "digit_val c =
     (if is_digit c then code c - 48
      else if 97 \<le> code c \<and> code c \<le> 102 then code c - 87
      else if 65 \<le> code c \<and> code c \<le> 70 then code c - 55 else 16)"

definition read_num :: "nat \<Rightarrow> string \<Rightarrow> nat" where
  "read_num b s = foldl (\<lambda>n c. b * n + digit_val c) 0 s"

definition parse_octet :: "string \<Rightarrow> nat option" where
  "parse_octet s =
     (if s = [] \<or> \<not> list_all is_digit s \<or> 3 < length s then None
      else if s \<noteq> ''0'' \<and> hd s = CHR ''0'' then None
      else if 255 < read_num 10 s then None else Some (read_num 10 s))"

fun all_some :: "'a option list \<Rightarrow> 'a list option" where
  "all_some [] = Some []"
| "all_some (x # xs) =
     (case x of None \<Rightarrow> None | Some v \<Rightarrow> map_option ((#) v) (all_some xs))"

definition parse_v4 :: "string \<Rightarrow> nat option" where
  "parse_v4 s =
     (let ps = split_on (CHR ''.'') s
      in if length ps \<noteq> 4 then None
         else map_option (foldl (\<lambda>n b. 256 * n + b) 0) (all_some (map parse_octet ps)))"

definition hex_text :: "nat \<Rightarrow> string" where
  "hex_text n =
     (let hx = (\<lambda>d. if d < 10 then char_of (48 + d) else char_of (87 + d));
          ds = map (\<lambda>i. n div 16 ^ i mod 16) [3, 2, 1, 0]
      in (case dropWhile (\<lambda>d. d = 0) ds of [] \<Rightarrow> ''0'' | r \<Rightarrow> map hx r))"

definition parse_hextet :: "string \<Rightarrow> nat option" where
  "parse_hextet s =
     (if s = [] \<or> 4 < length s \<or> list_ex (\<lambda>c. digit_val c = 16) s then None
      else Some (read_num 16 s))"

definition combine16 :: "nat list \<Rightarrow> nat" where
  "combine16 ws = foldl (\<lambda>n w. 65536 * n + w) 0 ws"

text \<open>Embedded IPv4 tail, then the position of the elided run.\<close>

definition expand_v4_tail :: "string list \<Rightarrow> string list option" where
  "expand_v4_tail ps =
     (if CHR ''.'' \<in> set (last ps)
      then map_option (\<lambda>v. butlast ps @ [hex_text (v div 65536), hex_text (v mod 65536)]) (parse_v4 (last ps))
      else Some ps)"

definition inner_empties :: "string list \<Rightarrow> nat list" where
  "inner_empties ps = filter (\<lambda>i. ps ! i = []) [1..<length ps - 1]"

definition v6_parts :: "string list \<Rightarrow> nat option" where
  "v6_parts ps =
     (case inner_empties ps of
        [] \<Rightarrow> if length ps \<noteq> 8 then None
              else map_option combine16 (all_some (map parse_hextet ps))
      | [k] \<Rightarrow>
          (let hi0 = k; lo0 = length ps - k - 1;
               hi = (if hd ps = [] then hi0 - 1 else hi0);
               lo = (if last ps = [] then lo0 - 1 else lo0)
           in if hd ps = [] \<and> hi \<noteq> 0 then None
              else if last ps = [] \<and> lo \<noteq> 0 then None
              else if 8 < hi + lo + 1 then None
              else (case (all_some (map parse_hextet (take hi ps)),
                          all_some (map parse_hextet (drop (length ps - lo) ps))) of
                      (Some h, Some l) \<Rightarrow> Some (combine16 (h @ replicate (8 - (hi + lo)) 0 @ l))
                    | _ \<Rightarrow> None))
      | _ \<Rightarrow> None)"

definition parse_v6_body :: "string \<Rightarrow> nat option" where
  "parse_v6_body s =
     (let ps = split_on (CHR '':'') s
      in if length ps < 3 then None
         else (case expand_v4_tail ps of
                 None \<Rightarrow> None
               | Some qs \<Rightarrow> if 9 < length qs then None else v6_parts qs))"

definition parse_v6 :: "string \<Rightarrow> ip option" where
  "parse_v6 s =
     (case split_on (CHR ''%'') s of
        [b] \<Rightarrow> map_option (\<lambda>v. V6 v None) (parse_v6_body b)
      | [b, z] \<Rightarrow> if z = [] then None else map_option (\<lambda>v. V6 v (Some z)) (parse_v6_body b)
      | _ \<Rightarrow> None)"

text \<open>\<open>ipaddress.ip_address\<close>: IPv4 is tried first; \<open>None\<close> is the ValueError.\<close>

definition ip_address :: "string \<Rightarrow> ip option" where
  "ip_address s = (case parse_v4 s of Some v \<Rightarrow> Some (V4 v) | None \<Rightarrow> parse_v6 s)"

subsection \<open>Networks\<close>

text \<open>
  \<open>ipaddress.ip_network(s, strict=False)\<close>. The mask is a prefix length; for IPv4 it may also be a netmask or, failing
  that, a host mask, both written as an address.
\<close>

definition prefix_from_text :: "nat \<Rightarrow> string \<Rightarrow> nat option" where
  "prefix_from_text width s =
     (if s = [] \<or> \<not> list_all is_digit s then None
      else if width < read_num 10 s then None else Some (read_num 10 s))"

definition prefix_from_mask :: "nat \<Rightarrow> nat option" where
  "prefix_from_mask v = find (\<lambda>p. v = (2 ^ p - 1) * 2 ^ (32 - p)) [0..<33]"

definition prefix_v4 :: "string \<Rightarrow> nat option" where
  "prefix_v4 s =
     (case prefix_from_text 32 s of
        Some p \<Rightarrow> Some p
      | None \<Rightarrow>
          (case parse_v4 s of
             None \<Rightarrow> None
           | Some v \<Rightarrow> (case prefix_from_mask v of Some p \<Rightarrow> Some p | None \<Rightarrow> prefix_from_mask (2 ^ 32 - 1 - v))))"

definition net4_of :: "nat \<Rightarrow> nat \<Rightarrow> net" where
  "net4_of v p = Net4 (v div 2 ^ (32 - p) * 2 ^ (32 - p)) p"

definition net6_of :: "nat \<Rightarrow> nat \<Rightarrow> net" where
  "net6_of v p = Net6 (v div 2 ^ (128 - p) * 2 ^ (128 - p)) p"

definition read_net6 :: "string \<Rightarrow> nat option \<Rightarrow> net option" where
  "read_net6 a p =
     (case (parse_v6 a, p) of (Some (V6 v z), Some n) \<Rightarrow> Some (net6_of v n) | _ \<Rightarrow> None)"

definition read_network :: "string \<Rightarrow> net option" where
  "read_network s =
     (case split_on (CHR ''/'') s of
        [a] \<Rightarrow> (case parse_v4 a of Some v \<Rightarrow> Some (net4_of v 32) | None \<Rightarrow> read_net6 a (Some 128))
      | [a, m] \<Rightarrow>
          (case (parse_v4 a, prefix_v4 m) of
             (Some v, Some p) \<Rightarrow> Some (net4_of v p)
           | _ \<Rightarrow> read_net6 a (prefix_from_text 128 m))
      | _ \<Rightarrow> None)"

fun net_version :: "net \<Rightarrow> nat" where
  "net_version (Net4 a p) = 4"
| "net_version (Net6 a p) = 6"

fun ip_version :: "ip \<Rightarrow> nat" where
  "ip_version (V4 v) = 4"
| "ip_version (V6 v z) = 6"

fun single_address :: "net \<Rightarrow> bool" where
  "single_address (Net4 a p) = (p = 32)"
| "single_address (Net6 a p) = (p = 128)"

subsection \<open>Printing\<close>

definition v4_text :: "nat \<Rightarrow> string" where
  "v4_text v = join ''.'' (map (\<lambda>i. digits_of (v div 256 ^ i mod 256)) [3, 2, 1, 0])"

definition zero_run :: "nat list \<Rightarrow> nat \<Rightarrow> nat" where
  "zero_run ws i = length (takeWhile (\<lambda>w. w = 0) (drop i ws))"

definition best_run :: "nat list \<Rightarrow> nat \<times> nat" where
  "best_run ws =
     foldl (\<lambda>(p, n) i. if n < zero_run ws i then (i, zero_run ws i) else (p, n)) (0, 0) [0..<length ws]"

definition v6_text :: "nat \<Rightarrow> string" where
  "v6_text v =
     (let ws = map (\<lambda>i. v div 65536 ^ i mod 65536) [7, 6, 5, 4, 3, 2, 1, 0];
          hs = map hex_text ws
      in (case best_run ws of (p, n) \<Rightarrow>
            if n \<le> 1 then join '':'' hs
            else join '':'' (take p hs) @ ''::'' @ join '':'' (drop (p + n) hs)))"

fun ip_text :: "ip \<Rightarrow> string" where
  "ip_text (V4 v) = v4_text v"
| "ip_text (V6 v z) = v6_text v @ (case z of None \<Rightarrow> [] | Some s \<Rightarrow> ''%'' @ s)"

subsection \<open>Tests\<close>

fun ipv4_mapped :: "ip \<Rightarrow> nat option" where
  "ipv4_mapped (V4 v) = None"
| "ipv4_mapped (V6 v z) = (if v div 2 ^ 32 = 65535 then Some (v mod 2 ^ 32) else None)"

fun in_net :: "ip \<Rightarrow> net \<Rightarrow> bool" where
  "in_net (V4 v) (Net4 a p) = (v div 2 ^ (32 - p) = a div 2 ^ (32 - p))"
| "in_net (V6 v z) (Net6 a p) = (v div 2 ^ (128 - p) = a div 2 ^ (128 - p))"
| "in_net _ _ = False"

fun is_loopback :: "ip \<Rightarrow> bool" where
  "is_loopback (V4 v) = (v div 2 ^ 24 = 127)"
| "is_loopback (V6 v z) = (v = 1)"

fun is_link_local :: "ip \<Rightarrow> bool" where
  "is_link_local (V4 v) = (v div 2 ^ 16 = 43518)"
| "is_link_local (V6 v z) = (v div 2 ^ 118 = 1018)"

end
