(* ===== verification/ClientIp.thy ===== *)
theory ClientIp
  imports IpAddress
begin

text \<open>
  The client address of a request behind proxies (\<open>server/app/core/client_ip.py\<close>): the
  trusted-proxy networks, the right-to-left reading of X-Forwarded-For, the normalisation
  of addresses, and the order of preference among the headers and the peer address. The
  header dictionary is a map from lower-case names.
\<close>

record request =
  req_peer :: "string option"
  req_headers :: "string \<rightharpoonup> string"

subsection \<open>Trusted proxies\<close>

definition default_cidrs :: "string list" where
  "default_cidrs = [''127.0.0.0/8'', ''::1/128'', ''10.0.0.0/8'', ''172.16.0.0/12'',
     ''192.168.0.0/16'', ''fc00::/7'']"

text \<open>The second component is the module's cache.\<close>

definition parse_trusted :: "string \<Rightarrow> net list option \<Rightarrow> net list \<times> net list option" where
  "parse_trusted raw cache =
     (case cache of
        Some nets \<Rightarrow> (nets, cache)
      | None \<Rightarrow>
          (let cidrs = filter (\<lambda>c. c \<noteq> []) (map strip (split_on (CHR '','') raw));
               nets = List.map_filter read_network cidrs;
               nets = (if nets = [] then List.map_filter read_network default_cidrs else nets)
           in (nets, Some nets)))"

definition reset_trusted_cache :: "net list option \<Rightarrow> net list option" where
  "reset_trusted_cache cache = None"

definition unmap :: "ip \<Rightarrow> ip" where
  "unmap i = (case ipv4_mapped i of Some v \<Rightarrow> V4 v | None \<Rightarrow> i)"

definition peer_is_trusted :: "net list \<Rightarrow> string \<Rightarrow> bool" where
  "peer_is_trusted nets peer_ip =
     (if peer_ip = [] then False
      else case ip_address peer_ip of
        None \<Rightarrow> False
      | Some i \<Rightarrow> list_ex (in_net (unmap i)) nets)"

subsection \<open>X-Forwarded-For\<close>

definition is_proxy_hop :: "net list \<Rightarrow> string \<Rightarrow> bool" where
  "is_proxy_hop nets raw =
     (case ip_address raw of
        None \<Rightarrow> False
      | Some i \<Rightarrow> if is_loopback i \<or> is_link_local i then True else peer_is_trusted nets (ip_text i))"

definition xff_parts :: "string \<Rightarrow> string list" where
  "xff_parts xff = filter (\<lambda>p. p \<noteq> []) (map strip (split_on (CHR '','') xff))"

definition parse_xff :: "net list \<Rightarrow> string \<Rightarrow> string option" where
  "parse_xff nets xff =
     (if xff = [] then None
      else (let parts = xff_parts xff
            in if parts = [] then None
               else (case find (\<lambda>raw. \<not> is_proxy_hop nets raw) (rev parts) of
                       Some raw \<Rightarrow> Some raw
                     | None \<Rightarrow> Some (hd parts))))"

definition normalize :: "string \<Rightarrow> string" where
  "normalize ip_str =
     (if ip_str = [] then []
      else (let s = (if CHR ''%'' \<in> set ip_str then hd (split_on (CHR ''%'') ip_str) else ip_str);
                s = (if length (filter (\<lambda>c. c = CHR '':'') s) = 1 then hd (split_on (CHR '':'') s) else s)
            in (case ip_address s of
                  None \<Rightarrow> s
                | Some i \<Rightarrow> (case ipv4_mapped i of Some v \<Rightarrow> v4_text v | None \<Rightarrow> ip_text i))))"

subsection \<open>The client address\<close>

definition get_client_ip :: "net list \<Rightarrow> string set option \<Rightarrow> request \<Rightarrow> string option" where
  "get_client_ip nets trusted_override req =
     (let peer = req_peer req;
          peer_normalized = (if truthy peer then Some (normalize (the peer)) else None);
          is_trusted = (truthy peer_normalized \<and>
            (case trusted_override of
               None \<Rightarrow> peer_is_trusted nets (the peer_normalized)
             | Some ov \<Rightarrow> the peer_normalized \<in> ov));
          fallback = (if truthy peer then Some (normalize (the peer)) else None);
          xri = req_headers req ''x-real-ip'';
          after_xff = (if truthy xri then Some (normalize (strip (the xri))) else fallback)
      in if is_trusted
         then (let xff = req_headers req ''x-forwarded-for''
               in if truthy xff
                  then (case parse_xff nets (the xff) of
                          Some real_ip \<Rightarrow> if real_ip \<noteq> [] then Some (normalize real_ip) else after_xff
                        | None \<Rightarrow> after_xff)
                  else after_xff)
         else fallback)"

definition rate_limit_key :: "net list \<Rightarrow> request \<Rightarrow> string" where
  "rate_limit_key nets req =
     (case py_or (get_client_ip nets None req) (Some ''unknown'') of Some k \<Rightarrow> k | None \<Rightarrow> ''unknown'')"

subsection \<open>Reading the header from the right\<close>

lemma xff_parts_append: "xff_parts (s @ CHR '','' # t) = xff_parts s @ xff_parts t"
  by (simp add: xff_parts_def split_on_append)

definition hop_list :: "net list \<Rightarrow> string \<Rightarrow> bool" where
  "hop_list nets s = list_all (is_proxy_hop nets) (xff_parts s)"

lemma find_rev_append:
  "find P (rev (xs @ x # ys)) = Some x" if "P x" "list_all (\<lambda>y. \<not> P y) ys" for P x xs ys
  using that by (induction ys arbitrary: xs rule: rev_induct) auto

lemma parse_xff_vouched:
  assumes "xff_parts c = [client]" "\<not> is_proxy_hop nets client" "hop_list nets hops"
  shows "parse_xff nets (spoof @ CHR '','' # c @ CHR '','' # hops) = Some client"
proof -
  have parts: "xff_parts (spoof @ CHR '','' # c @ CHR '','' # hops) =
      xff_parts spoof @ client # xff_parts hops"
    by (simp add: xff_parts_append assms(1))
  have "find (\<lambda>raw. \<not> is_proxy_hop nets raw) (rev (xff_parts spoof @ client # xff_parts hops)) = Some client"
    using assms(2,3) by (intro find_rev_append) (auto simp: hop_list_def)
  then show ?thesis by (simp add: parse_xff_def Let_def parts)
qed

lemma parse_xff_nonempty: "parse_xff nets xff = Some r \<Longrightarrow> r \<noteq> []"
proof -
  have ne: "[] \<notin> set (xff_parts xff)" by (auto simp: xff_parts_def)
  assume "parse_xff nets xff = Some r"
  then have "r \<in> set (xff_parts xff)"
    by (auto simp: parse_xff_def Let_def split: if_splits option.splits dest!: find_SomeD)
  with ne show ?thesis by auto
qed

lemma get_client_ip_trusted:
  assumes "req_peer req = Some peer" "peer \<noteq> []" "normalize peer \<noteq> []"
    "peer_is_trusted nets (normalize peer)"
    "req_headers req ''x-forwarded-for'' = Some xff" "xff \<noteq> []" "parse_xff nets xff = Some r"
  shows "get_client_ip nets None req = Some (normalize r)"
  using assms parse_xff_nonempty [OF assms(7)] by (simp add: get_client_ip_def Let_def)

subsection \<open>Properties\<close>

text \<open>C5: a peer that is not a trusted proxy cannot influence its recorded address: whatever
  headers it sends, the result is its own normalised address.\<close>

theorem untrusted_peer_headers_ignored:
  assumes "\<not> peer_is_trusted nets (normalize peer)" and "peer \<noteq> []"
  shows "get_client_ip nets None \<lparr>req_peer = Some peer, req_headers = h\<rparr> = Some (normalize peer)"
  using assms by (simp add: get_client_ip_def Let_def)

text \<open>C6: behind trusted proxies, when the proxies appended a client address that is not
  itself a proxy hop followed only by proxy hops, the result is that client address,
  whatever the client had put in the header in front of it.\<close>

theorem xff_not_spoofable:
  assumes "peer \<noteq> []" "normalize peer \<noteq> []" "peer_is_trusted nets (normalize peer)"
    and "xff_parts c = [client]" "\<not> is_proxy_hop nets client" "hop_list nets hops"
    and "h ''x-forwarded-for'' = Some (spoof @ CHR '','' # c @ CHR '','' # hops)"
  shows "get_client_ip nets None \<lparr>req_peer = Some peer, req_headers = h\<rparr> = Some (normalize client)"
  by (rule get_client_ip_trusted [OF _ assms(1-3) _ _ parse_xff_vouched [OF assms(4-6)]])
    (use assms(7) in auto)

text \<open>The guarantee stops at clients whose own address lies in a trusted network (any LAN
  client under the default networks): the address such a client wrote in front of the one
  the proxy appended is what the program records.\<close>

theorem xff_internal_client_chooses:
  assumes "peer \<noteq> []" "normalize peer \<noteq> []" "peer_is_trusted nets (normalize peer)"
    and "xff_parts spoof = [fake]" "\<not> is_proxy_hop nets fake" "hop_list nets own"
    and "h ''x-forwarded-for'' = Some (spoof @ CHR '','' # own)"
  shows "get_client_ip nets None \<lparr>req_peer = Some peer, req_headers = h\<rparr> = Some (normalize fake)"
proof -
  have "find (\<lambda>raw. \<not> is_proxy_hop nets raw) (rev ([] @ fake # xff_parts own)) = Some fake"
    using assms(5,6) by (intro find_rev_append) (auto simp: hop_list_def)
  then have "parse_xff nets (spoof @ CHR '','' # own) = Some fake"
    by (simp add: parse_xff_def Let_def xff_parts_append assms(4))
  then show ?thesis
    by (rule get_client_ip_trusted [OF _ assms(1-3), rotated 3]) (use assms(7) in auto)
qed

lemmas ip_eval = char_eval normalize_def ip_address_def parse_v4_def parse_octet_def read_num_def
  digit_val_def is_digit_def peer_is_trusted_def is_proxy_hop_def unmap_def v4_text_def
  xff_parts_def hop_list_def strip_def lstrip_def is_space_def digits_of.simps Let_def

definition lan_net :: "net list" where
  "lan_net = [Net4 (10 * 2 ^ 24) 8]"

lemma untrusted_peer_headers_ignored_witness:
  "get_client_ip lan_net None
     \<lparr>req_peer = Some ''203.0.113.9'', req_headers = [''x-forwarded-for'' \<mapsto> ''10.0.0.1'']\<rparr> =
   Some (normalize ''203.0.113.9'')"
proof (rule untrusted_peer_headers_ignored)
  show "\<not> peer_is_trusted lan_net (normalize ''203.0.113.9'')" by (simp add: ip_eval lan_net_def)
qed simp

lemma xff_not_spoofable_witness:
  "get_client_ip lan_net None
     \<lparr>req_peer = Some ''10.0.0.2'',
      req_headers = [''x-forwarded-for'' \<mapsto> ''1.1.1.1'' @ CHR '','' # ''203.0.113.9'' @ CHR '','' # '' 10.0.0.3'']\<rparr> =
   Some (normalize ''203.0.113.9'')"
proof (rule xff_not_spoofable)
  show "normalize ''10.0.0.2'' \<noteq> []" by (simp add: ip_eval lan_net_def)
  show "peer_is_trusted lan_net (normalize ''10.0.0.2'')" by (simp add: ip_eval lan_net_def)
  show "xff_parts ''203.0.113.9'' = [''203.0.113.9'']" by (simp add: ip_eval lan_net_def)
  show "\<not> is_proxy_hop lan_net ''203.0.113.9''" by (simp add: ip_eval lan_net_def)
  show "hop_list lan_net '' 10.0.0.3''" by (simp add: ip_eval lan_net_def)
qed simp_all

lemma xff_internal_client_chooses_witness:
  "get_client_ip lan_net None
     \<lparr>req_peer = Some ''10.0.0.2'', req_headers = [''x-forwarded-for'' \<mapsto> ''8.8.8.8'' @ CHR '','' # '' 10.1.2.3'']\<rparr> =
   Some (normalize ''8.8.8.8'')"
proof (rule xff_internal_client_chooses)
  show "normalize ''10.0.0.2'' \<noteq> []" by (simp add: ip_eval lan_net_def)
  show "peer_is_trusted lan_net (normalize ''10.0.0.2'')" by (simp add: ip_eval lan_net_def)
  show "xff_parts ''8.8.8.8'' = [''8.8.8.8'']" by (simp add: ip_eval lan_net_def)
  show "\<not> is_proxy_hop lan_net ''8.8.8.8''" by (simp add: ip_eval lan_net_def)
  show "hop_list lan_net '' 10.1.2.3''" by (simp add: ip_eval lan_net_def)
qed simp_all

end
