(* ===== verification/Json.thy ===== *)
theory Json
  imports Prelude
begin

text \<open>
  The part of Python's json module the program uses: \<open>json.dumps(..., ensure_ascii=False)\<close>
  on values built from None, booleans, integers, strings, lists and dicts with string
  keys (floats appear through their \<open>repr\<close> text), with the default or the compact
  separators and with or without \<open>sort_keys\<close>. The lemmas show that string escaping is
  uniquely decodable, from which the canonical payloads that are hashed are injective.
\<close>

datatype json =
    JNull
  | JBool bool
  | JInt int
  | JFloat string  \<comment> \<open>the text of repr\<close>
  | JStr string
  | JArr "json list"
  | JObj "(string \<times> json) list"

abbreviation dquote :: char where "dquote \<equiv> CHR 0x22"
abbreviation bslash :: char where "bslash \<equiv> CHR 0x5C"

definition hex_digit :: "nat \<Rightarrow> char" where
  "hex_digit n = char_of (if n < 10 then 48 + n else 87 + n)"

definition esc_char :: "char \<Rightarrow> string" where
  "esc_char c =
     (if c = dquote then [bslash, dquote]
      else if c = bslash then [bslash, bslash]
      else if code c = 10 then bslash # ''n''
      else if code c = 13 then bslash # ''r''
      else if code c = 9 then bslash # ''t''
      else if code c = 12 then bslash # ''f''
      else if code c = 8 then bslash # ''b''
      else if code c < 32 then bslash # ''u00'' @ [hex_digit (code c div 16), hex_digit (code c mod 16)]
      else [c])"

definition esc :: "string \<Rightarrow> string" where
  "esc s = concat (map esc_char s)"

definition quote :: "string \<Rightarrow> string" where
  "quote s = dquote # esc s @ [dquote]"

fun dumps :: "string \<Rightarrow> string \<Rightarrow> json \<Rightarrow> string" where
  "dumps isep ksep JNull = ''null''"
| "dumps isep ksep (JBool b) = (if b then ''true'' else ''false'')"
| "dumps isep ksep (JInt i) = str_int i"
| "dumps isep ksep (JFloat s) = s"
| "dumps isep ksep (JStr s) = quote s"
| "dumps isep ksep (JArr xs) = ''['' @ join isep (map (dumps isep ksep) xs) @ '']''"
| "dumps isep ksep (JObj kvs) =
     ''{'' @ join isep (map (\<lambda>(k, v). quote k @ ksep @ dumps isep ksep v) kvs) @ ''}''"

abbreviation dumps_default :: "json \<Rightarrow> string" where
  "dumps_default \<equiv> dumps '', '' '': ''"

abbreviation dumps_compact :: "json \<Rightarrow> string" where
  "dumps_compact \<equiv> dumps '','' '':''"

text \<open>\<open>sort_keys\<close>: the members of each object in the order of their keys.\<close>

fun str_le :: "string \<Rightarrow> string \<Rightarrow> bool" where
  "str_le [] t = True"
| "str_le (c # s) [] = False"
| "str_le (c # s) (d # t) = (code c < code d \<or> c = d \<and> str_le s t)"

fun insort_kv :: "(string \<times> json) \<Rightarrow> (string \<times> json) list \<Rightarrow> (string \<times> json) list" where
  "insort_kv kv [] = [kv]"
| "insort_kv kv (x # xs) = (if str_le (fst kv) (fst x) then kv # x # xs else x # insort_kv kv xs)"

fun sort_keys :: "json \<Rightarrow> json" where
  "sort_keys (JArr xs) = JArr (map sort_keys xs)"
| "sort_keys (JObj kvs) = JObj (foldr insort_kv (map (\<lambda>(k, v). (k, sort_keys v)) kvs) [])"
| "sort_keys j = j"

definition opt_str :: "string option \<Rightarrow> json" where
  "opt_str x = (case x of None \<Rightarrow> JNull | Some s \<Rightarrow> JStr s)"

subsection \<open>Escaping is uniquely decodable\<close>

definition unhex :: "char \<Rightarrow> nat" where
  "unhex c = (if code c < 58 then code c - 48 else code c - 87)"

fun unesc1 :: "string \<Rightarrow> (char \<times> string) option" where
  "unesc1 [] = None"
| "unesc1 (c # s) =
     (if c \<noteq> bslash then Some (c, s)
      else (case s of
          [] \<Rightarrow> None
        | d # s' \<Rightarrow>
            if d = CHR ''n'' then Some (CHR 0x0A, s')
            else if d = CHR ''r'' then Some (CHR 0x0D, s')
            else if d = CHR ''t'' then Some (CHR 0x09, s')
            else if d = CHR ''f'' then Some (CHR 0x0C, s')
            else if d = CHR ''b'' then Some (CHR 0x08, s')
            else if d = CHR ''u'' then Some (char_of (16 * unhex (s' ! 2) + unhex (s' ! 3)), drop 4 s')
            else Some (d, s')))"

lemma code_inject [simp]: "code c = code d \<longleftrightarrow> c = d"
  by (simp add: code_def)

lemma code_char_of [simp]: "n < 256 \<Longrightarrow> code (char_of n) = n"
  by (simp add: code_def)

lemma char_of_code [simp]: "char_of (code c) = c"
  by (simp add: code_def)

lemma unhex_hex_digit: "n < 16 \<Longrightarrow> unhex (hex_digit n) = n"
  by (simp add: unhex_def hex_digit_def)

lemma code_numerals:
  "code c = 10 \<Longrightarrow> c = CHR 0x0A" "code c = 13 \<Longrightarrow> c = CHR 0x0D" "code c = 9 \<Longrightarrow> c = CHR 0x09"
  "code c = 12 \<Longrightarrow> c = CHR 0x0C" "code c = 8 \<Longrightarrow> c = CHR 0x08"
  by (simp_all only: code_inject [symmetric]) (simp_all add: code_def)

lemma unesc1_esc_char: "unesc1 (esc_char c @ r) = Some (c, r)"
proof (cases "code c < 32 \<and> code c \<notin> {8, 9, 10, 12, 13}")
  case True
  then have "esc_char c = bslash # ''u00'' @ [hex_digit (code c div 16), hex_digit (code c mod 16)]"
    by (auto simp: esc_char_def code_def)
  moreover have "unhex (hex_digit (code c div 16)) = code c div 16"
    using True by (intro unhex_hex_digit) linarith
  moreover have "unhex (hex_digit (code c mod 16)) = code c mod 16"
    by (intro unhex_hex_digit) simp
  ultimately show ?thesis by simp
next
  case False
  then show ?thesis
    by (auto simp: esc_char_def dest: code_numerals)
qed

lemma esc_char_not_quote: "esc_char c = x # xs \<Longrightarrow> x \<noteq> dquote"
  by (auto simp: esc_char_def split: if_splits)

lemma esc_char_nonempty: "esc_char c \<noteq> []"
  by (simp add: esc_char_def)

lemma esc_char_head:
  obtains x xs where "esc_char c = x # xs" and "x \<noteq> dquote"
  by (metis esc_char_not_quote esc_char_nonempty list.exhaust)

lemma esc_unique:
  "esc s @ dquote # r = esc t @ dquote # q \<Longrightarrow> s = t \<and> r = q"
proof (induction s arbitrary: t)
  case Nil
  show ?case
  proof (cases t)
    case Nil
    with \<open>esc [] @ dquote # r = esc t @ dquote # q\<close> show ?thesis by (simp add: esc_def)
  next
    case (Cons d t')
    obtain x xs where "esc_char d = x # xs" "x \<noteq> dquote" by (rule esc_char_head)
    with Cons Nil.prems show ?thesis by (simp add: esc_def)
  qed
next
  case (Cons c s)
  show ?case
  proof (cases t)
    case Nil
    obtain x xs where "esc_char c = x # xs" "x \<noteq> dquote" by (rule esc_char_head)
    with Nil Cons.prems show ?thesis by (simp add: esc_def)
  next
    case (Cons d t')
    from Cons.prems Cons have eq:
      "esc_char c @ (esc s @ dquote # r) = esc_char d @ (esc t' @ dquote # q)"
      by (simp add: esc_def)
    have "Some (c, esc s @ dquote # r) = Some (d, esc t' @ dquote # q)"
      using arg_cong [OF eq, of unesc1] by (simp only: unesc1_esc_char)
    with Cons.IH [of t'] Cons show ?thesis by simp
  qed
qed

lemma quote_unique: "quote s @ r = quote t @ q \<longleftrightarrow> s = t \<and> r = q"
  by (auto simp: quote_def dest: esc_unique)

lemma opt_str_unique:
  "dumps i k (opt_str x) @ r = dumps i k (opt_str y) @ q \<longleftrightarrow> x = y \<and> r = q"
proof (cases x; cases y)
  fix s t assume "x = Some s" "y = Some t"
  then show ?thesis by (simp add: opt_str_def quote_unique)
qed (auto simp: opt_str_def quote_def)

end
