(* ===== verification/Sha256.thy ===== *)
theory Sha256
  imports Json "HOL-Library.Word"
begin

text \<open>
  \<open>hashlib.sha256(s.encode("utf-8")).hexdigest()\<close>, the digest the program uses for token
  hashes, audit rows, fingerprints and configuration hashes: UTF-8 encoding, padding,
  message schedule and compression on 32-bit words. The components only rely on the
  length of the digest and never unfold it.
\<close>

unbundle bit_operations_syntax

definition utf8_char :: "char \<Rightarrow> nat list" where
  "utf8_char c = (if code c < 128 then [code c] else [192 + code c div 64, 128 + code c mod 64])"

definition utf8 :: "string \<Rightarrow> nat list" where
  "utf8 s = concat (map utf8_char s)"

text \<open>
  The round constants are the first 32 fractional bits of the cube roots of the first 64
  primes, the initial state those of the square roots of the first 8 primes; integer roots
  are found bit by bit.
\<close>

fun iroot :: "nat \<Rightarrow> int \<Rightarrow> nat \<Rightarrow> int \<Rightarrow> int" where
  "iroot k n 0 r = r"
| "iroot k n (Suc b) r = iroot k n b (if (r + 2 ^ b) ^ k \<le> n then r + 2 ^ b else r)"

definition root_bits :: "nat \<Rightarrow> int \<Rightarrow> 32 word" where
  "root_bits k p = word_of_int (iroot k (p * (2 ^ 32) ^ k) 40 0)"

definition is_prime :: "int \<Rightarrow> bool" where
  "is_prime n \<longleftrightarrow> list_all (\<lambda>d. n = d \<or> n mod d \<noteq> 0) [2, 3, 5, 7, 11, 13, 17]"

definition sha_k :: "32 word list" where
  "sha_k = map (root_bits 3) (filter is_prime [2..311])"

definition sha_h0 :: "32 word list" where
  "sha_h0 = map (root_bits 2) (filter is_prime [2..19])"

definition length_bytes :: "nat \<Rightarrow> nat list" where
  "length_bytes n = map (\<lambda>i. nat (int n div 256 ^ (7 - i) mod 256)) [0..<8]"

definition sha_pad :: "nat list \<Rightarrow> nat list" where
  "sha_pad bs =
     bs @ [128] @ replicate (nat ((55 - int (length bs)) mod 64)) 0 @ length_bytes (8 * length bs)"

fun be_words :: "nat list \<Rightarrow> 32 word list" where
  "be_words (a # b # c # d # bs) =
     word_of_int (((int a * 256 + int b) * 256 + int c) * 256 + int d) # be_words bs"
| "be_words _ = []"

definition rotr :: "nat \<Rightarrow> 32 word \<Rightarrow> 32 word" where
  "rotr n x = drop_bit n x OR push_bit (32 - n) x"

definition small_s0 :: "32 word \<Rightarrow> 32 word" where
  "small_s0 x = rotr 7 x XOR rotr 18 x XOR drop_bit 3 x"

definition small_s1 :: "32 word \<Rightarrow> 32 word" where
  "small_s1 x = rotr 17 x XOR rotr 19 x XOR drop_bit 10 x"

text \<open>The schedule is built newest word first.\<close>

fun extend :: "nat \<Rightarrow> 32 word list \<Rightarrow> 32 word list" where
  "extend 0 ws = ws"
| "extend (Suc n) ws =
     extend n ((small_s1 (ws ! 1) + ws ! 6 + small_s0 (ws ! 14) + ws ! 15) # ws)"

definition schedule :: "32 word list \<Rightarrow> 32 word list" where
  "schedule block = rev (extend 48 (rev block))"

fun sha_round :: "32 word \<times> 32 word \<Rightarrow> 32 word list \<Rightarrow> 32 word list" where
  "sha_round (k, w) [a, b, c, d, e, f, g, h] =
     (let t1 = h + (rotr 6 e XOR rotr 11 e XOR rotr 25 e)
                 + ((e AND f) XOR (NOT e AND g)) + k + w;
          t2 = (rotr 2 a XOR rotr 13 a XOR rotr 22 a)
                 + ((a AND b) XOR (a AND c) XOR (b AND c))
      in [t1 + t2, a, b, c, d + t1, e, f, g])"
| "sha_round _ hs = hs"

definition sha_block :: "32 word list \<Rightarrow> 32 word list \<Rightarrow> 32 word list" where
  "sha_block hs block = map2 (+) hs (fold sha_round (zip sha_k (schedule block)) hs)"

fun sha_blocks :: "nat \<Rightarrow> 32 word list \<Rightarrow> 32 word list \<Rightarrow> 32 word list" where
  "sha_blocks 0 hs ws = hs"
| "sha_blocks (Suc n) hs ws = sha_blocks n (sha_block hs (take 16 ws)) (drop 16 ws)"

definition hex_word :: "32 word \<Rightarrow> string" where
  "hex_word w = map (\<lambda>i. hex_digit (nat (uint w div 16 ^ (7 - i) mod 16))) [0..<8]"

definition sha256_hex :: "string \<Rightarrow> string" where
  "sha256_hex s =
     (let ws = be_words (sha_pad (utf8 s))
      in concat (map hex_word (sha_blocks (length ws div 16) sha_h0 ws)))"

lemma length_sha_round [simp]: "length (sha_round kw hs) = length hs"
  by (induction kw hs rule: sha_round.induct) (auto simp: Let_def)

lemma length_fold_sha_round [simp]: "length (fold sha_round kws hs) = length hs"
  by (induction kws arbitrary: hs) auto

lemma length_sha_block [simp]: "length (sha_block hs block) = length hs"
  by (simp add: sha_block_def)

lemma length_sha_blocks [simp]: "length (sha_blocks n hs ws) = length hs"
  by (induction n arbitrary: hs ws) auto

lemma length_sha256_hex [simp]: "length (sha256_hex s) = 64"
proof -
  have "length (concat (map hex_word ws)) = 8 * length ws" for ws
    by (induction ws) (auto simp: hex_word_def)
  then show ?thesis by (simp add: sha256_hex_def Let_def sha_h0_def is_prime_def)
qed

lemma sha256_hex_nonempty [simp]: "sha256_hex s \<noteq> []"
proof -
  have "length (sha256_hex s) \<noteq> 0" by simp
  then show ?thesis by (simp only: length_0_conv not_False_eq_True)
qed

end
