(* ===== verification/Datetime.thy ===== *)
theory Datetime
  imports Prelude
begin

text \<open>
  Python datetimes: an instant is a count of microseconds since the epoch; a datetime is
  naive (a wall-clock reading) or aware (a wall-clock reading and its offset from UTC).
  The calendar is the proleptic Gregorian one. The lemmas show that the day number can be
  read back from the calendar date, so the formatted dates identify days.
\<close>

datatype pydatetime = Naive time | Aware time int  \<comment> \<open>local reading; utcoffset\<close>

fun instant :: "pydatetime \<Rightarrow> time" where
  "instant (Naive t) = t"
| "instant (Aware t off) = t - off"

definition day_of :: "time \<Rightarrow> int" where
  "day_of t = t div days 1"

text \<open>Years here start in March, so that the leap day is the last day of a year.\<close>

definition yoe_of :: "int \<Rightarrow> int" where
  "yoe_of doe = (doe - doe div 1460 + doe div 36524 - doe div 146096) div 365"

definition doy_of :: "int \<Rightarrow> int" where
  "doy_of doe = doe - (365 * yoe_of doe + yoe_of doe div 4 - yoe_of doe div 100)"

definition civil :: "int \<Rightarrow> int \<times> int \<times> int" where
  "civil day =
     (let z = day + 719468; era = z div 146097; doe = z mod 146097;
          doy = doy_of doe; mp = (5 * doy + 2) div 153;
          d = doy - (153 * mp + 2) div 5 + 1;
          m = (if mp < 10 then mp + 3 else mp - 9)
      in (yoe_of doe + era * 400 + (if m \<le> 2 then 1 else 0), m, d))"

definition pad_to :: "nat \<Rightarrow> int \<Rightarrow> string" where
  "pad_to n i = (let s = digits_of (nat i) in replicate (n - length s) (CHR ''0'') @ s)"

text \<open>\<open>strftime("%Y-%m-%d")\<close> and the time-of-day part of the ISO format.\<close>

definition fmt_date :: "string \<Rightarrow> int \<Rightarrow> string" where
  "fmt_date sep day =
     (case civil day of (y, m, d) \<Rightarrow> pad_to 4 y @ sep @ pad_to 2 m @ sep @ pad_to 2 d)"

definition fmt_clock :: "time \<Rightarrow> string" where
  "fmt_clock t =
     (let us = t mod days 1; s = us div 1000000
      in pad_to 2 (s div 3600) @ '':'' @ pad_to 2 (s div 60 mod 60) @ '':'' @
         pad_to 2 (s mod 60) @ ''.'' @ pad_to 6 (us mod 1000000))"

definition strftime_us :: "time \<Rightarrow> string" where
  "strftime_us t = fmt_date ''-'' (day_of t) @ ''T'' @ fmt_clock t"

lemma civil_epoch: "civil 0 = (1970, 1, 1)" "civil 19782 = (2024, 2, 29)" "civil 19783 = (2024, 3, 1)"
  by code_simp+

lemma century:
  fixes r c t p :: int
  assumes c: "0 \<le> c" "c \<le> 3" and r0: "0 \<le> r" "r < 36524" 
  defines "p \<equiv> (24 * c + r) div 1460"
  defines "y \<equiv> (r - p) div 365"
  shows "0 \<le> y \<and> y \<le> 99 \<and> 0 \<le> r - 365 * y - y div 4 \<and> r - 365 * y - y div 4 \<le> 365"
proof -
  define t where "t = (24 * c + r) mod 1460"
  have r: "r = 1460 * p + t - 24 * c" by (simp add: p_def t_def)
  have t: "0 \<le> t" "t < 1460" by (simp_all add: t_def)
  have p: "0 \<le> p" "p \<le> 25" unfolding p_def using c r0 by simp_all
  define u where "u = (t - p - 24 * c) div 365"
  have y: "y = 4 * p + u" unfolding y_def u_def r by (simp add: algebra_simps)
  define w where "w = (t - p - 24 * c) mod 365"
  have w: "t - p - 24 * c = 365 * u + w" "0 \<le> w" "w < 365" by (simp_all add: u_def w_def)
  have u: "- 1 \<le> u" "u \<le> 3" using w t p c by linarith+
  then consider "u = - 1" | "0 \<le> u" "u < 4" by linarith
  then show ?thesis
  proof cases
    case 1
    then have yy: "y div 4 = p - 1" "y = 4 * p - 1" using y by simp_all
    then show ?thesis using 1 w r p t c r0 by (intro conjI; linarith)
  next
    case 2
    then have yy: "y div 4 = p" using y by simp
    then show ?thesis using y 2 w r p t c r0 by (intro conjI; linarith)
  qed
qed

lemma day_bounds:
  assumes doe: "0 \<le> doe" "doe < 146097"
  shows "0 \<le> yoe_of doe \<and> yoe_of doe \<le> 399 \<and> 0 \<le> doy_of doe \<and> doy_of doe \<le> 365"
proof (cases "doe = 146096")
  case True
  then show ?thesis by (simp add: yoe_of_def doy_of_def)
next
  case False
  define c where "c = doe div 36524"
  define r where "r = doe mod 36524"
  have d: "doe = 36524 * c + r" by (simp add: c_def r_def)
  have r: "0 \<le> r" "r < 36524" by (simp_all add: r_def)
  have c: "0 \<le> c" "c \<le> 3" using doe False r d by linarith+
  define y where "y = (r - (24 * c + r) div 1460) div 365"
  have "doe div 146096 = 0" using doe False by simp
  moreover have "doe div 1460 = 25 * c + (24 * c + r) div 1460"
  proof -
    have "doe = (24 * c + r) + 1460 * (25 * c)" using d by simp
    then show ?thesis by (metis add.commute div_mult_self2 zero_neq_numeral)
  qed
  ultimately have "yoe_of doe = (36500 * c + (r - (24 * c + r) div 1460)) div 365"
    by (simp add: yoe_of_def flip: c_def) (simp add: d algebra_simps)
  also have "\<dots> = 100 * c + y" by (simp add: y_def)
  finally have yoe: "yoe_of doe = 100 * c + y" .
  have bounds: "0 \<le> y" "y \<le> 99" "0 \<le> r - 365 * y - y div 4" "r - 365 * y - y div 4 \<le> 365"
    using century [OF c r] unfolding y_def by blast+
  have "(100 * c + y) div 4 = 25 * c + y div 4" "(100 * c + y) div 100 = c" using bounds by simp_all
  then have doy: "doy_of doe = r - 365 * y - y div 4" unfolding doy_of_def yoe by (simp add: d)
  show ?thesis using yoe doy bounds c by (intro conjI; linarith)
qed

text \<open>The inverse of \<open>civil\<close>, so dates determine days.\<close>

definition days_from_civil :: "int \<times> int \<times> int \<Rightarrow> int" where
  "days_from_civil ymd =
     (case ymd of (y, m, d) \<Rightarrow>
       let y' = (if m \<le> 2 then y - 1 else y); era = y' div 400; yoe = y' mod 400;
           mp = (if m > 2 then m - 3 else m + 9);
           doy = (153 * mp + 2) div 5 + d - 1
       in era * 146097 + (365 * yoe + yoe div 4 - yoe div 100 + doy) - 719468)"

lemma days_from_civil_civil: "days_from_civil (civil day) = day"
proof -
  define z where "z = day + 719468"
  define era where "era = z div 146097"
  define doe where "doe = z mod 146097"
  define mp where "mp = (5 * doy_of doe + 2) div 153"
  define m where "m = (if mp < 10 then mp + 3 else mp - 9)"
  have doe: "0 \<le> doe" "doe < 146097" by (simp_all add: doe_def)
  have b: "0 \<le> yoe_of doe" "yoe_of doe \<le> 399" "0 \<le> doy_of doe" "doy_of doe \<le> 365"
    using day_bounds [OF doe] by blast+
  have mp: "0 \<le> mp" "mp \<le> 11" unfolding mp_def using b by simp_all
  have civil: "civil day =
      (yoe_of doe + era * 400 + (if m \<le> 2 then 1 else 0), m, doy_of doe - (153 * mp + 2) div 5 + 1)"
    by (simp add: civil_def Let_def z_def era_def doe_def mp_def m_def)
  have undo: "(if m > 2 then m - 3 else m + 9) = mp" using mp by (simp add: m_def)
  have y: "(if m \<le> 2 then yoe_of doe + era * 400 + (if m \<le> 2 then 1 else 0) - 1
        else yoe_of doe + era * 400 + (if m \<le> 2 then 1 else 0)) = yoe_of doe + era * 400" by simp
  have eras: "(yoe_of doe + era * 400) div 400 = era" "(yoe_of doe + era * 400) mod 400 = yoe_of doe"
    using b by simp_all
  have "days_from_civil (civil day) =
      era * 146097 + (365 * yoe_of doe + yoe_of doe div 4 - yoe_of doe div 100 + doy_of doe) - 719468"
    unfolding civil days_from_civil_def prod.case Let_def undo y eras by simp
  also have "\<dots> = era * 146097 + doe - 719468" by (simp add: doy_of_def)
  also have "\<dots> = day" by (simp add: era_def doe_def z_def)
  finally show ?thesis .
qed

lemma civil_inject: "civil a = civil b \<longleftrightarrow> a = b"
  by (metis days_from_civil_civil)

subsection \<open>Formatted dates\<close>

lemma read_digits_zeros: "read_digits (replicate k (CHR ''0'') @ s) = read_digits s"
  by (induction k) (simp_all add: read_digits_def char_eval)

lemma pad_to_inject: "0 \<le> i \<Longrightarrow> 0 \<le> j \<Longrightarrow> pad_to n i = pad_to m j \<Longrightarrow> i = j"
  by (metis eq_nat_nat_iff pad_to_def read_digits_of read_digits_zeros)

lemma length_pad_to: "0 \<le> i \<Longrightarrow> i < 10 ^ n \<Longrightarrow> 0 < n \<Longrightarrow> length (pad_to n i) = n"
  using length_digits_of [of "nat i" n] by (simp add: pad_to_def nat_less_iff Let_def)

text \<open>The dates Python has: years 1 to 9999.\<close>

definition date_ok :: "int \<Rightarrow> bool" where
  "date_ok day = (case civil day of (y, m, d) \<Rightarrow> 1 \<le> y \<and> y \<le> 9999)"

lemma civil_ranges:
  "civil day = (y, m, d) \<Longrightarrow> 1 \<le> m \<and> m \<le> 12 \<and> 1 \<le> d \<and> d \<le> 31"
proof -
  assume civil: "civil day = (y, m, d)"
  define doy where "doy = doy_of ((day + 719468) mod 146097)"
  define mp where "mp = (5 * doy + 2) div 153"
  have doy: "0 \<le> doy" "doy \<le> 365"
    using day_bounds [of "(day + 719468) mod 146097"] by (simp_all add: doy_def)
  have mp: "0 \<le> mp" "mp \<le> 11" unfolding mp_def using doy by simp_all
  have md: "m = (if mp < 10 then mp + 3 else mp - 9)" "d = doy - (153 * mp + 2) div 5 + 1"
    using civil by (auto simp: civil_def Let_def doy_def mp_def)
  have "153 * mp \<le> 5 * doy + 2" "5 * doy + 2 < 153 * mp + 153" unfolding mp_def by linarith+
  then have "(153 * mp + 2) div 5 \<le> doy" "doy \<le> (153 * mp + 2) div 5 + 30" by linarith+
  then show ?thesis using md mp by auto
qed

lemma fmt_date_inject:
  assumes "date_ok a" "date_ok b" and "fmt_date sep a = fmt_date sep b"
  shows "a = b"
proof -
  obtain y m d where a: "civil a = (y, m, d)" by (cases "civil a")
  obtain y' m' d' where b: "civil b = (y', m', d')" by (cases "civil b")
  have ya: "0 \<le> y" "y < 10 ^ 4" "0 \<le> y'" "y' < 10 ^ 4" using assms a b by (simp_all add: date_ok_def)
  have mda: "0 \<le> m" "m < 10 ^ 2" "0 \<le> d" using civil_ranges [OF a] by simp_all
  have mdb: "0 \<le> m'" "m' < 10 ^ 2" "0 \<le> d'" using civil_ranges [OF b] by simp_all
  have eq: "pad_to 4 y @ sep @ pad_to 2 m @ sep @ pad_to 2 d =
      pad_to 4 y' @ sep @ pad_to 2 m' @ sep @ pad_to 2 d'"
    using assms(3) a b by (simp add: fmt_date_def)
  have "length (pad_to 4 y) = length (pad_to 4 y')"
    using length_pad_to [of y 4] length_pad_to [of y' 4] ya by simp
  then have y: "pad_to 4 y = pad_to 4 y'" and rest: "pad_to 2 m @ sep @ pad_to 2 d = pad_to 2 m' @ sep @ pad_to 2 d'"
    using eq by simp_all
  have "length (pad_to 2 m) = length (pad_to 2 m')"
    using length_pad_to [of m 2] length_pad_to [of m' 2] mda mdb by simp
  then have "pad_to 2 m = pad_to 2 m'" "pad_to 2 d = pad_to 2 d'" using rest by simp_all
  then have "civil a = civil b" using y a b ya mda mdb pad_to_inject by metis
  then show ?thesis by (simp add: civil_inject)
qed

end
