(* ===== verification/AuditLog.thy ===== *)
theory AuditLog
  imports Sha256 Datetime
begin

text \<open>
  The append-only audit log of \<open>server/app/core/audit.py\<close>: the canonical payload of a row
  and its digest, the append operation that links a row to the digest of the row before
  it, the verification loop and the anchor digest. The rows are kept in the order of their
  auto-incremented ids.
\<close>

subsection \<open>Rows\<close>

record audit_row =
  au_actor :: "string option"
  au_action :: string
  au_target :: "string option"
  au_ts :: pydatetime
  au_ip :: "string option"
  au_prev_hash :: string
  au_content_hash :: string
  au_request_id :: "string option"
  au_machine_id :: "uuid option"

subsection \<open>Operations\<close>

definition fmt_ts :: "pydatetime \<Rightarrow> string" where
  "fmt_ts ts = (case ts of
      Aware t off \<Rightarrow> strftime_us (t - off)
    | Naive t \<Rightarrow> strftime_us t)"

definition audit_payload ::
  "string \<Rightarrow> string option \<Rightarrow> string option \<Rightarrow> pydatetime \<Rightarrow> string" where
  "audit_payload action target actor ts =
     dumps_default (sort_keys (JObj
       [(''action'', JStr action), (''target'', opt_str target), (''actor'', opt_str actor),
        (''ts'', JStr (fmt_ts ts))]))"

definition content_hash ::
  "string \<Rightarrow> string option \<Rightarrow> string option \<Rightarrow> pydatetime \<Rightarrow> string" where
  "content_hash action target actor ts = sha256_hex (audit_payload action target actor ts)"

definition genesis_hash :: string where
  "genesis_hash = replicate 64 (CHR ''0'')"

text \<open>\<open>row or "0" * 64\<close>: an absent or empty digest gives the genesis digest.\<close>

definition get_last_hash :: "audit_row list \<Rightarrow> string" where
  "get_last_hash log =
     (if log = [] then genesis_hash
      else if au_content_hash (last log) = [] then genesis_hash
      else au_content_hash (last log))"

definition append_audit ::
  "time \<Rightarrow> string \<Rightarrow> string option \<Rightarrow> string option \<Rightarrow> string option \<Rightarrow> string option \<Rightarrow>
   uuid option \<Rightarrow> audit_row list \<Rightarrow> audit_row list" where
  "append_audit now action actor target ip request_id machine_id log =
     insert_row
       \<lparr>au_actor = actor, au_action = action, au_target = target, au_ts = Aware now 0,
        au_ip = ip, au_prev_hash = get_last_hash log,
        au_content_hash = content_hash action target actor (Aware now 0),
        au_request_id = request_id, au_machine_id = machine_id\<rparr> log"

definition row_hash :: "audit_row \<Rightarrow> string" where
  "row_hash r = content_hash (au_action r) (au_target r) (au_actor r) (au_ts r)"

fun verify_from :: "nat \<Rightarrow> string \<Rightarrow> audit_row list \<Rightarrow> bool \<times> nat option" where
  "verify_from i prev [] = (True, None)"
| "verify_from i prev (r # rs) =
     (if au_prev_hash r \<noteq> prev \<or> au_content_hash r \<noteq> row_hash r then (False, Some i)
      else verify_from (Suc i) (au_content_hash r) rs)"

definition verify_chain :: "audit_row list \<Rightarrow> bool \<times> nat option" where
  "verify_chain log = verify_from 0 genesis_hash log"

definition anchor_hash :: "audit_row list \<Rightarrow> string" where
  "anchor_hash log = get_last_hash log"

subsection \<open>The chain as a declarative invariant\<close>

fun linked :: "string \<Rightarrow> audit_row list \<Rightarrow> bool" where
  "linked prev [] = True"
| "linked prev (r # rs) \<longleftrightarrow>
     au_prev_hash r = prev \<and> au_content_hash r = row_hash r \<and> linked (au_content_hash r) rs"

definition chain_ok :: "audit_row list \<Rightarrow> bool" where
  "chain_ok log = linked genesis_hash log"

fun end_hash :: "string \<Rightarrow> audit_row list \<Rightarrow> string" where
  "end_hash prev [] = prev"
| "end_hash prev (r # rs) = end_hash (au_content_hash r) rs"

lemma linked_append [simp]:
  "linked prev (xs @ ys) \<longleftrightarrow> linked prev xs \<and> linked (end_hash prev xs) ys"
  by (induction xs arbitrary: prev) auto

lemma end_hash_last: "end_hash prev xs = (if xs = [] then prev else au_content_hash (last xs))"
  by (induction xs arbitrary: prev) auto

lemma row_hash_nonempty [simp]: "row_hash r \<noteq> []"
  by (simp add: row_hash_def content_hash_def)

lemma get_last_hash_linked: "chain_ok log \<Longrightarrow> get_last_hash log = end_hash genesis_hash log"
  by (cases log rule: rev_cases) (auto simp: get_last_hash_def end_hash_last chain_ok_def)

lemma verify_from_linked: "verify_from i prev log = (True, None) \<longleftrightarrow> linked prev log"
  by (induction i prev log rule: verify_from.induct) auto

lemma verify_chain_ok: "verify_chain log = (True, None) \<longleftrightarrow> chain_ok log"
  by (simp add: verify_chain_def chain_ok_def verify_from_linked)

lemma chain_ok_append_audit:
  "chain_ok log \<Longrightarrow> chain_ok (append_audit now action actor target ip rid mid log)"
  by (simp add: append_audit_def insert_row_def chain_ok_def get_last_hash_linked [unfolded chain_ok_def]
      row_hash_def)

text \<open>The log as a component: one event per append.\<close>

record audit_event =
  ev_now :: time
  ev_action :: string
  ev_actor :: "string option"
  ev_target :: "string option"
  ev_ip :: "string option"
  ev_request_id :: "string option"
  ev_machine_id :: "uuid option"

definition audit_step :: "audit_event \<Rightarrow> audit_row list \<Rightarrow> audit_row list" where
  "audit_step e = append_audit (ev_now e) (ev_action e) (ev_actor e) (ev_target e) (ev_ip e)
     (ev_request_id e) (ev_machine_id e)"

interpretation audit_log: step_system audit_step "\<lambda>_ _. True" chain_ok
  by unfold_locales (simp add: audit_step_def chain_ok_append_audit)

lemma audit_admissible [simp]: "audit_log.admissible es s"
  by (induction es arbitrary: s) auto

subsection \<open>What a digest identifies\<close>

lemma audit_payload_inj:
  assumes "audit_payload a t u ts = audit_payload a' t' u' ts'"
  shows "a = a' \<and> t = t' \<and> u = u' \<and> fmt_ts ts = fmt_ts ts'"
proof -
  have sorted: "sort_keys (JObj [(''action'', JStr a), (''target'', opt_str t), (''actor'', opt_str u),
      (''ts'', JStr s)]) = JObj [(''action'', JStr a), (''actor'', opt_str u), (''target'', opt_str t),
      (''ts'', JStr s)]" for a t u s
    by (cases t; cases u) (simp_all add: opt_str_def code_def)
  have shape: "audit_payload a t u ts =
      (''{'' @ quote ''action'' @ '': '') @ quote a @ ('', '' @ quote ''actor'' @ '': '') @
      dumps_default (opt_str u) @ ('', '' @ quote ''target'' @ '': '') @
      dumps_default (opt_str t) @ ('', '' @ quote ''ts'' @ '': '') @ quote (fmt_ts ts) @ ''}''"
    for a t u ts
    unfolding audit_payload_def sorted by simp
  show ?thesis
    using assms unfolding shape append_assoc same_append_eq quote_unique opt_str_unique by simp
qed

lemma chain_ok_take: "chain_ok log \<Longrightarrow> chain_ok (take n log)"
  unfolding chain_ok_def using linked_append [of genesis_hash "take n log" "drop n log"] by simp

lemma verify_from_break:
  "verify_from k prev log = (False, Some i) \<longleftrightarrow>
     k \<le> i \<and> i - k < length log \<and> linked prev (take (i - k) log) \<and>
     \<not> linked prev (take (Suc (i - k)) log)"
proof (induction k prev log rule: verify_from.induct)
  case (2 k prev r rs)
  show ?case
  proof (cases "au_prev_hash r \<noteq> prev \<or> au_content_hash r \<noteq> row_hash r")
    case True
    then show ?thesis by (cases "i - k") auto
  next
    case False
    show ?thesis
    proof (cases "k < i")
      case True
      then obtain j where "i = Suc k + j" by (metis Suc_leI le_iff_add)
      with False 2 show ?thesis by (simp add: Suc_diff_le)
    next
      case False': False
      with False 2 show ?thesis by (cases "k = i") auto
    qed
  qed
qed simp

subsection \<open>Properties\<close>

text \<open>C10: whatever sequence of entries is appended to the empty log, the verification loop
  accepts the result.\<close>

theorem audit_appends_verify: "verify_chain (run audit_step es []) = (True, None)"
  unfolding verify_chain_ok
  by (rule audit_log.run_inv) (simp_all add: chain_ok_def)

text \<open>\<open>verify_chain\<close> reports index \<open>i\<close> exactly when the first \<open>i\<close> rows form a valid chain
  and row \<open>i\<close> is the first one that does not continue it.\<close>

theorem verify_chain_first_break:
  "verify_chain log = (False, Some i) \<longleftrightarrow>
     i < length log \<and> verify_chain (take i log) = (True, None) \<and>
     verify_chain (take (Suc i) log) \<noteq> (True, None)"
  using verify_from_break [of 0 genesis_hash log i]
  by (simp add: verify_chain_def verify_from_linked)

text \<open>C3: editing a row of a valid log without touching the stored digests is either
  rejected, or leaves action, target, actor and formatted time as they were, or exhibits a
  SHA-256 collision between the two canonical payloads.\<close>

theorem audit_edit_detected:
  assumes "verify_chain log = (True, None)" and "i < length log"
    and "au_content_hash r' = au_content_hash (log ! i)"
    and "verify_chain (log[i := r']) = (True, None)"
  shows "au_action r' = au_action (log ! i) \<and> au_target r' = au_target (log ! i) \<and>
           au_actor r' = au_actor (log ! i) \<and> fmt_ts (au_ts r') = fmt_ts (au_ts (log ! i)) \<or>
         (let p = audit_payload (au_action (log ! i)) (au_target (log ! i)) (au_actor (log ! i)) (au_ts (log ! i));
              p' = audit_payload (au_action r') (au_target r') (au_actor r') (au_ts r')
          in p \<noteq> p' \<and> sha256_hex p = sha256_hex p')"
proof -
  have nth: "au_content_hash (xs ! j) = row_hash (xs ! j)" if "linked g xs" "j < length xs" for g xs j
    using that by (induction xs arbitrary: g j) (auto simp: nth_Cons split: nat.splits)
  have "row_hash r' = row_hash (log ! i)"
    using assms nth [of genesis_hash log i] nth [of genesis_hash "log[i := r']" i]
    by (simp add: verify_chain_ok chain_ok_def)
  then show ?thesis
    using audit_payload_inj unfolding row_hash_def content_hash_def Let_def by metis
qed

definition sample_event :: audit_event where
  "sample_event = \<lparr>ev_now = 0, ev_action = ''auth.login'', ev_actor = None, ev_target = None,
     ev_ip = None, ev_request_id = None, ev_machine_id = None\<rparr>"

lemma audit_edit_detected_witness:
  defines "log \<equiv> run audit_step [sample_event] []"
  shows "let r = log ! 0; r' = r\<lparr>au_ip := Some ''10.0.0.1''\<rparr>;
             p = audit_payload (au_action r) (au_target r) (au_actor r) (au_ts r);
             p' = audit_payload (au_action r') (au_target r') (au_actor r') (au_ts r')
         in verify_chain (log[0 := r']) = (True, None) \<and>
            (au_action r' = au_action r \<and> au_target r' = au_target r \<and> au_actor r' = au_actor r \<and>
             fmt_ts (au_ts r') = fmt_ts (au_ts r) \<or> p \<noteq> p' \<and> sha256_hex p = sha256_hex p')"
proof -
  have log: "log = audit_step sample_event []" by (simp add: log_def)
  have ok: "verify_chain log = (True, None)" unfolding log_def by (rule audit_log.run_inv
      [where s = "[]" and es = "[sample_event]", unfolded chain_ok_def [symmetric] verify_chain_ok [symmetric]])
      (simp_all add: verify_chain_def)
  have len: "0 < length log" by (simp add: log audit_step_def append_audit_def)
  have ok': "verify_chain (log[0 := (log ! 0)\<lparr>au_ip := Some ''10.0.0.1''\<rparr>]) = (True, None)"
    using ok len by (cases log) (auto simp: verify_chain_def row_hash_def log audit_step_def
        append_audit_def insert_row_def split: if_splits)
  have kept: "au_content_hash ((log ! 0)\<lparr>au_ip := Some ''10.0.0.1''\<rparr>) = au_content_hash (log ! 0)" by simp
  show ?thesis unfolding Let_def by (intro conjI ok' audit_edit_detected [OF ok len kept ok', unfolded Let_def])
qed

text \<open>The chain does not protect its end: removing any number of the newest rows leaves
  a log that the verification accepts.\<close>

theorem audit_truncation_undetected:
  "verify_chain log = (True, None) \<Longrightarrow> verify_chain (take n log) = (True, None)"
  by (simp add: verify_chain_ok chain_ok_take)

lemma audit_truncation_undetected_witness:
  "verify_chain (take 1 (run audit_step [sample_event, sample_event] [])) = (True, None)"
proof (rule audit_truncation_undetected)
  show "verify_chain (run audit_step [sample_event, sample_event] []) = (True, None)"
    unfolding verify_chain_ok by (rule audit_log.run_inv) (simp_all add: chain_ok_def)
qed

end
