(* ===== verification/Model.thy ===== *)
theory Model
  imports AuditLog
begin

text \<open>
  The part of the data model (\<open>server/app/db/models.py\<close>) the components share: the
  enumerations and the rows of the organisation tree, users, machines, tags, enrolment
  tokens, enrolment attempts, fingerprint drifts and refresh tokens. Enumerations that the
  database stores by value are datatypes.
\<close>

datatype user_role = SUPER_ADMIN | ORG_ADMIN | VIEWER | ADMIN_GLOBAL | ADMIN_ORG

datatype machine_status = ONLINE | OFFLINE | LOST | DECOMMISSIONED | PENDING

datatype token_status = TPENDING | TUSED | TREVOKED | TEXPIRED

datatype tag_kind = CLASSIFICATION | PURPOSE

record organization =
  org_id :: uuid
  org_parent_id :: "uuid option"
  org_name :: string
  org_type :: string

record user =
  u_id :: uuid
  u_org_id :: uuid
  u_full_name :: string
  u_email :: string
  u_role :: user_role
  u_password_hash :: "string option"
  u_totp_secret_encrypted :: "string option"
  u_backup_codes :: "string list option"
  u_is_2fa_enabled :: bool
  u_is_active :: bool
  u_last_login_at :: "time option"
  u_must_change_password :: bool
  u_totp_last_counter :: "int option"
  u_telegram_chat_id :: "string option"
  u_telegram_linked_at :: "time option"

type_synonym fingerprint = "(string \<times> string) list"

record machine =
  m_id :: uuid
  m_org_id :: uuid
  m_machine_uuid :: string
  m_hostname :: "string option"
  m_fingerprint :: fingerprint
  m_status :: machine_status
  m_is_vm :: "bool option"
  m_enrolled_at :: time
  m_last_seen_at :: "time option"
  m_assigned_user_id :: "uuid option"
  m_public_ip :: "string option"
  m_lifecycle :: string
  m_note :: "string option"

record tag =
  tag_id :: uuid
  tag_key :: string
  tag_label :: string
  tag_kind :: tag_kind
  tag_color :: "string option"
  tag_sort_order :: int
  tag_is_system :: bool

record machine_tag =
  mt_machine_id :: uuid
  mt_tag_id :: uuid
  mt_kind :: tag_kind
  mt_set_by :: "uuid option"

record enroll_token =
  et_id :: uuid
  et_token_hash :: string
  et_org_id :: uuid
  et_email :: "string option"
  et_expires_at :: time
  et_used_at :: "time option"
  et_used_by :: "uuid option"
  et_status :: token_status
  et_classification :: "string option"
  et_purpose_tags :: "string list option"
  et_created_by :: uuid
  et_full_name :: "string option"
  et_department :: "string option"
  et_position :: "string option"
  et_phone_encrypted :: "string option"
  et_note :: "string option"

record fingerprint_drift =
  fd_id :: uuid
  fd_machine_id :: uuid
  fd_old_fingerprint :: fingerprint
  fd_new_fingerprint :: fingerprint
  fd_reason :: string
  fd_status :: string
  fd_resolved_at :: "time option"
  fd_resolved_by :: "uuid option"

record enroll_attempt =
  ea_id :: uuid
  ea_org_id :: "uuid option"
  ea_token_id :: "uuid option"
  ea_token_status :: string
  ea_token_prefix :: string
  ea_machine_uuid :: string
  ea_hostname :: "string option"
  ea_ip :: "string option"
  ea_fingerprint :: fingerprint
  ea_matched_machine_id :: "uuid option"
  ea_status :: string
  ea_created_at :: time
  ea_note :: "string option"
  ea_decided_by :: "uuid option"
  ea_decided_at :: "time option"

record refresh_token =
  rt_id :: uuid
  rt_user_id :: uuid
  rt_token_hash :: string
  rt_family_id :: uuid
  rt_expires_at :: time
  rt_revoked_at :: "time option"
  rt_replaced_by :: "uuid option"

end
