(* ===== verification/Security.thy ===== *)
theory Security
  imports Model
begin

text \<open>
  \<open>server/app/core/security.py\<close> and the login-name normalisation of
  \<open>server/app/db/seed_org_admins.py\<close>: access and refresh tokens, passwords, AES-256-GCM
  values, time-based one-time codes with their replay counter, backup codes, enrolment
  tokens and token digests. bcrypt, PyJWT, the AES-GCM cipher and pyotp are parameters,
  collected in the record \<open>crypto\<close>; SHA-256, Base64, UUID text and base 62 are computed.
  Random values are arguments.
\<close>

subsection \<open>Text of UUIDs\<close>

primrec hex_fixed :: "nat \<Rightarrow> nat \<Rightarrow> string" where
  "hex_fixed 0 n = []"
| "hex_fixed (Suc k) n = hex_fixed k (n div 16) @ [hex_digit (n mod 16)]"

definition uuid_str :: "uuid \<Rightarrow> string" where
  "uuid_str u = (let h = hex_fixed 32 u in
     take 8 h @ ''-'' @ take 4 (drop 8 h) @ ''-'' @ take 4 (drop 12 h) @ ''-'' @
     take 4 (drop 16 h) @ ''-'' @ drop 20 h)"

definition hex_value :: "char \<Rightarrow> nat option" where
  "hex_value c =
     (if is_digit c then Some (code c - 48)
      else if 97 \<le> code c \<and> code c \<le> 102 then Some (code c - 87)
      else if 65 \<le> code c \<and> code c \<le> 70 then Some (code c - 55)
      else None)"

fun hex_number :: "nat \<Rightarrow> string \<Rightarrow> nat option" where
  "hex_number acc [] = Some acc"
| "hex_number acc (c # s) =
     (case hex_value c of None \<Rightarrow> None | Some d \<Rightarrow> hex_number (16 * acc + d) s)"

text \<open>\<open>uuid.UUID(s)\<close>: \<open>None\<close> stands for \<open>ValueError\<close>. Dashes are dropped wherever they are.\<close>

definition parse_uuid :: "string \<Rightarrow> uuid option" where
  "parse_uuid s = (let h = filter (\<lambda>c. c \<noteq> CHR ''-'') s in
     if length h \<noteq> 32 then None else hex_number 0 h)"

lemma length_hex_fixed [simp]: "length (hex_fixed k n) = k"
  by (induction k arbitrary: n) auto

lemma code_hex_digit: "n < 16 \<Longrightarrow> code (hex_digit n) = (if n < 10 then 48 + n else 87 + n)"
  by (simp add: hex_digit_def code_def)

lemma hex_value_digit [simp]: "n < 16 \<Longrightarrow> hex_value (hex_digit n) = Some n"
  by (simp add: hex_value_def is_digit_def code_hex_digit)

lemma hex_number_append:
  "hex_number a (s @ t) = (case hex_number a s of None \<Rightarrow> None | Some b \<Rightarrow> hex_number b t)"
  by (induction a s rule: hex_number.induct) (auto split: option.splits)

lemma hex_number_fixed: "n < 16 ^ k \<Longrightarrow> hex_number 0 (hex_fixed k n) = Some n"
  by (induction k arbitrary: n) (auto simp: hex_number_append less_mult_imp_div_less mult.commute)

lemma hex_fixed_no_dash: "c \<in> set (hex_fixed k n) \<Longrightarrow> c \<noteq> CHR ''-''"
proof (induction k arbitrary: n)
  case (Suc k)
  have "code (hex_digit (n mod 16)) \<noteq> code CHR ''-''"
    by (simp add: code_hex_digit) (simp add: code_def)
  with Suc show ?case by auto
qed simp

lemma filter_dash_hex [simp]: "set s \<subseteq> set (hex_fixed k n) \<Longrightarrow> filter (\<lambda>c. c \<noteq> CHR ''-'') s = s"
  by (auto intro!: filter_True dest: hex_fixed_no_dash)

lemma take_drop_step: "take k (drop m s) @ drop (k + m) s = drop m s"
  by (metis append_take_drop_id drop_drop)

lemma parse_uuid_str: "u < 16 ^ 32 \<Longrightarrow> parse_uuid (uuid_str u) = Some u"
proof -
  assume u: "u < 16 ^ 32"
  define h where "h = hex_fixed 32 u"
  have sub: "filter (\<lambda>c. c \<noteq> CHR ''-'') (take n (drop m h)) = take n (drop m h)"
    "filter (\<lambda>c. c \<noteq> CHR ''-'') (drop m h) = drop m h" for n m
    using set_take_subset set_drop_subset by (fastforce simp: h_def intro!: filter_dash_hex)+
  have pieces: "take 8 h @ take 4 (drop 8 h) @ take 4 (drop 12 h) @ take 4 (drop 16 h) @ drop 20 h = h"
    using take_drop_step [of 4 16 h] take_drop_step [of 4 12 h] take_drop_step [of 4 8 h] by simp
  have "filter (\<lambda>c. c \<noteq> CHR ''-'') (uuid_str u) = h"
    using sub(1) [of 8 0] pieces by (simp add: uuid_str_def Let_def sub flip: h_def)
  moreover have "length h = 32" by (simp add: h_def)
  moreover have "hex_number 0 h = Some u" unfolding h_def using u by (rule hex_number_fixed)
  ultimately show ?thesis by (simp add: parse_uuid_def Let_def)
qed

subsection \<open>Base64\<close>

definition b64_char :: "nat \<Rightarrow> char" where
  "b64_char n =
     char_of (if n < 26 then 65 + n else if n < 52 then 71 + n else if n < 62 then n - 4
              else if n = 62 then 43 else 47)"

definition b64_value :: "char \<Rightarrow> nat option" where
  "b64_value c = (let n = code c in
     if 65 \<le> n \<and> n \<le> 90 then Some (n - 65)
     else if 97 \<le> n \<and> n \<le> 122 then Some (n - 71)
     else if 48 \<le> n \<and> n \<le> 57 then Some (n + 4)
     else if n = 43 then Some 62 else if n = 47 then Some 63 else None)"

fun b64encode :: "nat list \<Rightarrow> string" where
  "b64encode (a # b # c # bs) =
     b64_char (a div 4) # b64_char (a mod 4 * 16 + b div 16) #
     b64_char (b mod 16 * 4 + c div 64) # b64_char (c mod 64) # b64encode bs"
| "b64encode [a, b] =
     [b64_char (a div 4), b64_char (a mod 4 * 16 + b div 16), b64_char (b mod 16 * 4), CHR ''='']"
| "b64encode [a] = [b64_char (a div 4), b64_char (a mod 4 * 16), CHR ''='', CHR ''='']"
| "b64encode [] = []"

text \<open>
  \<open>base64.b64decode\<close> without validation: characters outside the alphabet are skipped, a
  complete padding ends the input, an incomplete quantum is an error (\<open>None\<close>). The state is
  the sextets of the current quantum and the number of pads seen in it.
\<close>

fun b64_loop :: "nat list \<Rightarrow> nat \<Rightarrow> string \<Rightarrow> nat list option" where
  "b64_loop q pads [] = (if q = [] then Some [] else None)"
| "b64_loop q pads (ch # s) =
     (if ch = CHR ''='' then
        (if 2 \<le> length q \<and> 4 \<le> length q + Suc pads then Some []
         else b64_loop q (if 2 \<le> length q then Suc pads else pads) s)
      else case b64_value ch of
        None \<Rightarrow> b64_loop q pads s
      | Some v \<Rightarrow>
          (case q of
             [] \<Rightarrow> b64_loop [v] 0 s
           | [x] \<Rightarrow> map_option ((#) (x * 4 + v div 16)) (b64_loop [x, v] 0 s)
           | [x, y] \<Rightarrow> map_option ((#) (y mod 16 * 16 + v div 4)) (b64_loop [x, y, v] 0 s)
           | x # y # z # _ \<Rightarrow> map_option ((#) (z mod 4 * 64 + v)) (b64_loop [] 0 s)))"

definition b64decode :: "string \<Rightarrow> nat list option" where
  "b64decode s = b64_loop [] 0 s"

lemma code_b64_char [simp]:
  "n < 64 \<Longrightarrow> code (b64_char n) =
     (if n < 26 then 65 + n else if n < 52 then 71 + n else if n < 62 then n - 4
      else if n = 62 then 43 else 47)"
  by (auto simp: b64_char_def code_def)

lemma b64_value_char [simp]: "n < 64 \<Longrightarrow> b64_value (b64_char n) = Some n"
  by (auto simp: b64_value_def Let_def)

lemma b64_char_not_pad [simp]: "n < 64 \<Longrightarrow> b64_char n \<noteq> CHR ''=''"
proof
  assume "n < 64" and "b64_char n = CHR ''=''"
  then have "code (b64_char n) = 61" by (simp add: code_def)
  with \<open>n < 64\<close> show False by (auto split: if_splits)
qed

lemma b64_loop_char:
  assumes "v < 64"
  shows "b64_loop [] p (b64_char v # s) = b64_loop [v] 0 s"
    "b64_loop [x] p (b64_char v # s) = map_option ((#) (x * 4 + v div 16)) (b64_loop [x, v] 0 s)"
    "b64_loop [x, y] p (b64_char v # s) =
       map_option ((#) (y mod 16 * 16 + v div 4)) (b64_loop [x, y, v] 0 s)"
    "b64_loop [x, y, z] p (b64_char v # s) = map_option ((#) (z mod 4 * 64 + v)) (b64_loop [] 0 s)"
  using assms by simp_all

declare b64_loop.simps(2) [simp del]

lemma b64_pad [simp]:
  "b64_loop [x, y, z] p (CHR ''='' # s) = Some []"
  "b64_loop [x, y] 0 [CHR ''='', CHR ''=''] = Some []"
  by (simp_all add: b64_loop.simps(2))

lemma sextet_bounds [simp]:
  "(a::nat) < 256 \<Longrightarrow> a div 4 < 64" "(a::nat) mod 4 * 16 < 64" "(b::nat) mod 16 * 4 < 64"
  "(b::nat) < 256 \<Longrightarrow> a mod 4 * 16 + b div 16 < 64"
  "(c::nat) < 256 \<Longrightarrow> b mod 16 * 4 + c div 64 < 64"
  by arith+

lemma byte_parts [simp]:
  assumes "(b::nat) < 256"
  shows "b div 16 div 16 = 0" "b div 16 mod 16 = b div 16" "b div 64 mod 4 = b div 64"
    "b div 64 div 4 = 0"
proof -
  have "b div 16 < 16" "b div 64 < 4" using assms by (simp_all add: less_mult_imp_div_less)
  then show "b div 16 div 16 = 0" "b div 16 mod 16 = b div 16" "b div 64 mod 4 = b div 64"
    "b div 64 div 4 = 0" by simp_all
qed

lemma b64encode_Nil_iff [simp]: "b64encode bs = [] \<longleftrightarrow> bs = []"
  by (cases bs rule: b64encode.cases) simp_all

lemma b64_roundtrip: "\<forall>b\<in>set bs. b < 256 \<Longrightarrow> b64decode (b64encode bs) = Some bs"
  unfolding b64decode_def
  by (induction bs rule: b64encode.induct) (simp_all add: b64_loop_char)

subsection \<open>External cryptography and settings\<close>

record claims =
  cl_sub :: "string option"
  cl_role :: "user_role option"
  cl_org_id :: "string option"
  cl_exp :: time
  cl_type :: "string option"
  cl_jti :: "string option"

text \<open>
  \<open>jwt_decode now token\<close> is \<open>None\<close> where PyJWT raises (bad signature, bad format, expired);
  \<open>checkpw\<close> and \<open>hashpw\<close> are \<open>None\<close> where bcrypt raises \<open>ValueError\<close>; \<open>aes_open\<close> is
  \<open>None\<close> where the tag does not match; \<open>totp_at secret t\<close> is the code pyotp gives at the Unix
  time \<open>t\<close>.
\<close>

record crypto =
  jwt_encode :: "claims \<Rightarrow> string"
  jwt_decode :: "time \<Rightarrow> string \<Rightarrow> claims option"
  checkpw :: "string \<Rightarrow> string \<Rightarrow> bool option"
  hashpw :: "string \<Rightarrow> string \<Rightarrow> string option"
  aes_seal :: "nat list \<Rightarrow> nat list \<Rightarrow> nat list \<Rightarrow> nat list"
  aes_open :: "nat list \<Rightarrow> nat list \<Rightarrow> nat list \<Rightarrow> nat list option"
  totp_at :: "string \<Rightarrow> int \<Rightarrow> string"
  provisioning_uri :: "string \<Rightarrow> string \<Rightarrow> string \<Rightarrow> string"

record settings =
  access_token_expire_minutes :: int
  refresh_token_expire_days :: int
  require_agent_mtls_header :: bool
  data_encryption_key :: string

subsection \<open>Tokens\<close>

definition create_access_token ::
  "crypto \<Rightarrow> settings \<Rightarrow> time \<Rightarrow> string \<Rightarrow> user_role \<Rightarrow> string \<Rightarrow> int option \<Rightarrow> string" where
  "create_access_token x cfg now subject role org expires_minutes =
     (let m = (case expires_minutes of
                 None \<Rightarrow> access_token_expire_minutes cfg
               | Some e \<Rightarrow> if e = 0 then access_token_expire_minutes cfg else e)
      in jwt_encode x
           \<lparr>cl_sub = Some subject, cl_role = Some role, cl_org_id = Some org,
            cl_exp = now + minutes m, cl_type = Some ''access'', cl_jti = None\<rparr>)"

definition create_refresh_token ::
  "crypto \<Rightarrow> settings \<Rightarrow> time \<Rightarrow> string \<Rightarrow> string \<Rightarrow> string" where
  "create_refresh_token x cfg now jti subject =
     jwt_encode x
       \<lparr>cl_sub = Some subject, cl_role = None, cl_org_id = None,
        cl_exp = now + days (refresh_token_expire_days cfg), cl_type = Some ''refresh'',
        cl_jti = Some jti\<rparr>"

definition decode_token :: "crypto \<Rightarrow> time \<Rightarrow> string \<Rightarrow> string \<Rightarrow> claims option" where
  "decode_token x now token expected_type =
     (case jwt_decode x now token of
        None \<Rightarrow> None
      | Some payload \<Rightarrow> if cl_type payload \<noteq> Some expected_type then None else Some payload)"

definition hash_token :: "string \<Rightarrow> string" where
  "hash_token token = sha256_hex token"

lemma decode_token_type: "decode_token x now tok ty = Some c \<Longrightarrow> cl_type c = Some ty"
  by (auto simp: decode_token_def split: option.splits if_splits)

lemma decode_token_other_type:
  "decode_token x now tok ty = Some c \<Longrightarrow> ty \<noteq> ty' \<Longrightarrow> decode_token x now tok ty' = None"
  by (auto simp: decode_token_def split: option.splits if_splits)

subsection \<open>Passwords\<close>

definition hash_password :: "crypto \<Rightarrow> string \<Rightarrow> string \<Rightarrow> string option" where
  "hash_password x plain salt = hashpw x plain salt"

definition verify_password :: "crypto \<Rightarrow> string \<Rightarrow> string \<Rightarrow> bool" where
  "verify_password x plain hashed = (case checkpw x plain hashed of None \<Rightarrow> False | Some b \<Rightarrow> b)"

subsection \<open>AES-256-GCM values\<close>

definition word_bytes :: "32 word \<Rightarrow> nat list" where
  "word_bytes w = map (\<lambda>i. unat w div 256 ^ (3 - i) mod 256) [0..<4]"

definition sha256_digest :: "string \<Rightarrow> nat list" where
  "sha256_digest s =
     (let ws = be_words (sha_pad (utf8 s))
      in concat (map word_bytes (sha_blocks (length ws div 16) sha_h0 ws)))"

definition aes_key :: "settings \<Rightarrow> nat list" where
  "aes_key cfg = sha256_digest (data_encryption_key cfg)"

text \<open>UTF-8 decoding of what \<open>utf8\<close> produces; other byte sequences are an error.\<close>

fun utf8_decode :: "nat list \<Rightarrow> string option" where
  "utf8_decode [] = Some []"
| "utf8_decode (b # bs) =
     (if b < 128 then map_option ((#) (char_of b)) (utf8_decode bs)
      else case bs of
        [] \<Rightarrow> None
      | c # cs \<Rightarrow>
          if 194 \<le> b \<and> b \<le> 195 \<and> 128 \<le> c \<and> c < 192
          then map_option ((#) (char_of ((b - 192) * 64 + (c - 128)))) (utf8_decode cs)
          else None)"

definition encrypt_aes_gcm :: "crypto \<Rightarrow> settings \<Rightarrow> nat list \<Rightarrow> string \<Rightarrow> string" where
  "encrypt_aes_gcm x cfg iv plaintext =
     b64encode (iv @ aes_seal x (aes_key cfg) iv (utf8 plaintext))"

definition decrypt_aes_gcm :: "crypto \<Rightarrow> settings \<Rightarrow> string \<Rightarrow> string option" where
  "decrypt_aes_gcm x cfg payload =
     (case b64decode payload of
        None \<Rightarrow> None
      | Some raw \<Rightarrow>
          (case aes_open x (aes_key cfg) (take 12 raw) (drop 12 raw) of
             None \<Rightarrow> None
           | Some bs \<Rightarrow> utf8_decode bs))"

lemma code_less [simp]: "code c < 256"
  by (simp add: code_def)

lemma utf8_Cons: "utf8 (c # s) = utf8_char c @ utf8 s"
  by (simp add: utf8_def)

lemma utf8_roundtrip [simp]: "utf8_decode (utf8 s) = Some s"
proof (induction s)
  case (Cons c s)
  show ?case
  proof (cases "code c < 128")
    case False
    have b: "code c div 64 < 4" "2 \<le> code c div 64" "code c mod 64 < 64"
      using code_less [of c] False by (simp_all add: less_mult_imp_div_less)
    with Cons False show ?thesis by (simp add: utf8_Cons utf8_char_def)
  qed (use Cons in \<open>simp add: utf8_Cons utf8_char_def\<close>)
qed (simp add: utf8_def)

lemma utf8_bytes: "b \<in> set (utf8 s) \<Longrightarrow> b < 256"
proof (induction s)
  case (Cons c s)
  have "code c div 64 < 4" by (simp add: less_mult_imp_div_less)
  moreover have "code c mod 64 < 64" by simp
  ultimately have "b' < 256" if "b' \<in> set (utf8_char c)" for b'
    using that by (auto simp: utf8_char_def split: if_splits)
  with Cons show ?case by (auto simp: utf8_Cons)
qed (simp add: utf8_def)

subsection \<open>Time-based codes\<close>

definition internal_error :: http_error where
  "internal_error = HTTPException 500 ''Internal Server Error''"

definition is_ascii :: "string \<Rightarrow> bool" where
  "is_ascii s = list_all (\<lambda>c. code c < 128) s"

definition totp_interval :: int where
  "totp_interval = 30"

text \<open>
  \<open>hmac.compare_digest\<close> raises \<open>TypeError\<close> on text that is not ASCII, which no handler
  catches. The codes pyotp gives are digits.
\<close>

definition verify_totp_counter ::
  "crypto \<Rightarrow> time \<Rightarrow> string \<Rightarrow> string \<Rightarrow> http_error + int option" where
  "verify_totp_counter x clock secret totp_code =
     (let now = clock div 1000000 in
      if \<not> is_ascii (strip totp_code) then Inl internal_error
      else Inr (map_option (\<lambda>off. (now + off * totp_interval) div totp_interval)
             (find (\<lambda>off. totp_at x secret (now + off * totp_interval) = strip totp_code)
                [- 1, 0, 1])))"

lemma verify_totp_counter_bounds:
  assumes "verify_totp_counter x clock secret c = Inr (Some n)"
  shows "\<bar>n - clock div 1000000 div totp_interval\<bar> \<le> 1"
  using assms
  by (auto simp: verify_totp_counter_def Let_def totp_interval_def split: if_splits)

definition totp_uri :: "crypto \<Rightarrow> string \<Rightarrow> string \<Rightarrow> string" where
  "totp_uri x secret email = provisioning_uri x secret email ''ITAssetInventory''"

subsection \<open>Backup codes and enrolment tokens\<close>

definition upper_hex :: "nat \<Rightarrow> char" where
  "upper_hex n = char_of (if n < 10 then 48 + n else 55 + n)"

definition hex_upper :: "nat list \<Rightarrow> string" where
  "hex_upper bs = concat (map (\<lambda>b. [upper_hex (b div 16), upper_hex (b mod 16)]) bs)"

text \<open>One 5-byte random value per code.\<close>

definition generate_backup_codes :: "nat list list \<Rightarrow> string list" where
  "generate_backup_codes rnd = map hex_upper rnd"

definition from_bytes_big :: "nat list \<Rightarrow> nat" where
  "from_bytes_big bs = fold (\<lambda>b acc. 256 * acc + b) bs 0"

definition base62_char :: "nat \<Rightarrow> char" where
  "base62_char n = char_of (if n < 10 then 48 + n else if n < 36 then 55 + n else 61 + n)"

definition base62_value :: "char \<Rightarrow> nat" where
  "base62_value c =
     (if code c < 65 then code c - 48 else if code c < 97 then code c - 55 else code c - 61)"

fun base62_digits :: "nat \<Rightarrow> string" where
  "base62_digits num =
     (if num = 0 then [] else base62_char (num mod 62) # base62_digits (num div 62))"

declare base62_digits.simps [simp del]

definition rjust :: "nat \<Rightarrow> char \<Rightarrow> string \<Rightarrow> string" where
  "rjust n c s = replicate (n - length s) c @ s"

definition generate_enroll_token :: "nat list \<Rightarrow> string" where
  "generate_enroll_token raw =
     ''t_'' @ rjust 22 (CHR ''0'') (rev (base62_digits (from_bytes_big raw)))"

text \<open>Reading a token back as a number: the digits, most significant first.\<close>

definition base62_number :: "string \<Rightarrow> nat" where
  "base62_number s = fold (\<lambda>c acc. 62 * acc + base62_value c) s 0"

lemma base62_value_char [simp]: "n < 62 \<Longrightarrow> base62_value (base62_char n) = n"
  by (auto simp: base62_value_def base62_char_def)

lemma base62_number_digits: "base62_number (rev (base62_digits n)) = n"
proof (induction n rule: base62_digits.induct)
  case (1 n)
  show ?case
  proof (cases "n = 0")
    case False
    with 1 show ?thesis
      by (subst base62_digits.simps) (simp add: base62_number_def)
  qed (simp add: base62_digits.simps base62_number_def)
qed

lemma base62_number_pad: "base62_number (replicate k (CHR ''0'') @ s) = base62_number s"
proof -
  have "base62_value CHR ''0'' = 0" by (simp add: base62_value_def code_def)
  then have "fold (\<lambda>c acc. 62 * acc + base62_value c) (replicate k (CHR ''0'')) 0 = 0"
    by (induction k) auto
  then show ?thesis by (simp add: base62_number_def)
qed

lemma length_base62_digits: "n < 62 ^ k \<Longrightarrow> length (base62_digits n) \<le> k"
proof (induction k arbitrary: n)
  case (Suc k)
  then have "n div 62 < 62 ^ k" by (simp add: less_mult_imp_div_less mult.commute)
  then have "length (base62_digits (n div 62)) \<le> k" by (rule Suc.IH)
  then show ?case by (subst base62_digits.simps) simp
qed (simp add: base62_digits.simps)

lemma length_base62_digits_ge: "62 ^ k \<le> n \<Longrightarrow> k < length (base62_digits n)"
proof (induction k arbitrary: n)
  case (Suc k)
  then have "62 ^ k \<le> n div 62" by (simp add: less_eq_div_iff_mult_less_eq mult.commute)
  then have "k < length (base62_digits (n div 62))" by (rule Suc.IH)
  moreover have "n \<noteq> 0" using Suc.prems by (metis not_numeral_le_zero power_not_zero le_zero_eq zero_neq_numeral)
  ultimately show ?case by (subst base62_digits.simps) simp
qed (simp add: base62_digits.simps)

lemma from_bytes_big_snoc: "from_bytes_big (bs @ [b]) = 256 * from_bytes_big bs + b"
  by (simp add: from_bytes_big_def)

lemma from_bytes_big_less: "\<forall>b\<in>set bs. b < 256 \<Longrightarrow> from_bytes_big bs < 256 ^ length bs"
proof (induction bs rule: rev_induct)
  case (snoc b bs)
  then have "from_bytes_big bs + 1 \<le> 256 ^ length bs" "b < 256" by auto
  then have "256 * (from_bytes_big bs + 1) \<le> 256 * 256 ^ length bs" by simp
  with \<open>b < 256\<close> show ?case by (simp add: from_bytes_big_snoc)
qed (simp add: from_bytes_big_def)

lemma from_bytes_big_inj:
  "length bs = length cs \<Longrightarrow> \<forall>b\<in>set bs. b < 256 \<Longrightarrow> \<forall>c\<in>set cs. c < 256 \<Longrightarrow>
     from_bytes_big bs = from_bytes_big cs \<Longrightarrow> bs = cs"
proof (induction bs arbitrary: cs rule: rev_induct)
  case (snoc b bs)
  then obtain c cs' where cs: "cs = cs' @ [c]" by (cases cs rule: rev_cases) auto
  have bounds: "b < 256" "c < 256" using snoc.prems cs by auto
  have eq: "256 * from_bytes_big bs + b = 256 * from_bytes_big cs' + c"
    using snoc.prems(4) by (simp add: cs from_bytes_big_snoc)
  have "b = c" using bounds arg_cong [OF eq, of "\<lambda>n. n mod 256"] by simp
  moreover have "from_bytes_big bs = from_bytes_big cs'" using eq \<open>b = c\<close> by simp
  ultimately show ?case using snoc.IH [of cs'] snoc.prems cs by auto
qed simp

subsection \<open>Login names\<close>

text \<open>
  The NFKD decomposition of the Latin-1 characters, without combining marks. The fraction
  slash and the micro sign, which have no Latin-1 image, are rendered by a slash and by the
  character itself; \<open>resolve_login_username\<close> drops both.
\<close>

definition accent_table :: "(nat list \<times> string) list" where
  "accent_table =
     [([160, 168, 175, 180, 184], '' ''), ([170], ''a''), ([178], ''2''), ([179], ''3''),
      ([185], ''1''), ([186], ''o''), ([188], ''1/4''), ([189], ''1/2''), ([190], ''3/4''),
      ([192..<198], ''A''), ([199], ''C''), ([200..<204], ''E''), ([204..<208], ''I''),
      ([209], ''N''), ([210..<215], ''O''), ([217..<221], ''U''), ([221], ''Y''),
      ([224..<230], ''a''), ([231], ''c''), ([232..<236], ''e''), ([236..<240], ''i''),
      ([241], ''n''), ([242..<247], ''o''), ([249..<253], ''u''), ([253, 255], ''y'')]"

definition remove_vietnamese_accents :: "string \<Rightarrow> string" where
  "remove_vietnamese_accents s =
     concat (map (\<lambda>c. case find (\<lambda>(cs, _). code c \<in> set cs) accent_table of
                        None \<Rightarrow> [c] | Some (_, r) \<Rightarrow> r) s)"

definition username_aliases :: "(string \<times> string) list" where
  "username_aliases =
    [(''khoahoccongnghe'', ''skhcn''), (''khoahocvacongnghe'', ''skhcn''),
     (''sokhcn'', ''skhcn''), (''noivu'', ''snv''), (''sonoivu'', ''snv''),
     (''thanhtra'', ''thanhtratinh''), (''taichinh'', ''stc''), (''sotaichinh'', ''stc''),
     (''xaydung'', ''sxd''), (''soxaydung'', ''sxd''), (''nongnghiepmoitruong'', ''snnmt''),
     (''nongnghiepvamoitruong'', ''snnmt''), (''sonnmt'', ''snnmt''), (''tuphap'', ''stp''),
     (''sotuphap'', ''stp''), (''ngoaivu'', ''sngv''), (''songoaivu'', ''sngv''),
     (''giaoducdaotao'', ''sgddt''), (''giaoducvadaotao'', ''sgddt''), (''sogddt'', ''sgddt''),
     (''congthuong'', ''sct''), (''socongthuong'', ''sct''),
     (''vanhoathethaodulich'', ''svhttdl''), (''vanhoathethaovadulich'', ''svhttdl''),
     (''sovhttdl'', ''svhttdl''), (''yte'', ''syt''), (''soyte'', ''syt''),
     (''vanphongubnd'', ''vpubnd''), (''vanphongubndtinh'', ''vpubnd''),
     (''thanhsen'', ''phuongthanhsen''), (''tranphu'', ''phuongtranphu''),
     (''hahuytap'', ''phuonghahuytap''), (''vungang'', ''phuongvungang''),
     (''songtri'', ''phuongsongtri''), (''hoanhson'', ''phuonghoanhson''),
     (''haininh'', ''phuonghaininh''), (''bachonglinh'', ''phuongbachonglinh''),
     (''namhonglinh'', ''phuongnamhonglinh'')]"

definition is_slug_char :: "char \<Rightarrow> bool" where
  "is_slug_char c \<longleftrightarrow> is_digit c \<or> 97 \<le> code c \<and> code c \<le> 122"

definition resolve_login_username :: "string \<Rightarrow> string" where
  "resolve_login_username login_input =
     (let raw = lower (strip login_input);
          raw = (if CHR ''@'' \<in> set raw then hd (split_on (CHR ''@'') raw) else raw);
          clean = filter is_slug_char (remove_vietnamese_accents raw);
          clean = (if starts_with ''ubndxa'' clean \<and> length clean > 6 then drop 6 clean else clean)
      in case map_of username_aliases clean of None \<Rightarrow> clean | Some a \<Rightarrow> a)"

lemma decrypt_encrypt:
  assumes "\<forall>key iv m. (\<forall>b\<in>set m. b < 256) \<longrightarrow> aes_open x key iv (aes_seal x key iv m) = Some m"
    and "\<forall>key iv m. \<forall>b\<in>set (aes_seal x key iv m). b < 256"
    and "length iv = 12" and "\<forall>b\<in>set iv. b < 256"
  shows "decrypt_aes_gcm x cfg (encrypt_aes_gcm x cfg iv plaintext) = Some plaintext"
proof -
  let ?raw = "iv @ aes_seal x (aes_key cfg) iv (utf8 plaintext)"
  have "\<forall>b\<in>set ?raw. b < 256" using assms(2,4) by auto
  then have "b64decode (b64encode ?raw) = Some ?raw" by (rule b64_roundtrip)
  with assms(1,3) show ?thesis by (simp add: decrypt_aes_gcm_def encrypt_aes_gcm_def utf8_bytes)
qed

subsection \<open>Properties\<close>

text \<open>C14: a stored AES-256-GCM value opens to the text it was sealed from, with the key derived
  from the settings and the 12-byte initialisation vector in front, when the cipher opens what
  it sealed and yields bytes.\<close>

theorem aes_gcm_roundtrip:
  assumes "\<forall>key iv m. (\<forall>b\<in>set m. b < 256) \<longrightarrow> aes_open x key iv (aes_seal x key iv m) = Some m"
    and "\<forall>key iv m. \<forall>b\<in>set (aes_seal x key iv m). b < 256"
    and "length iv = 12" and "\<forall>b\<in>set iv. b < 256"
  shows "decrypt_aes_gcm x cfg (encrypt_aes_gcm x cfg iv plaintext) = Some plaintext"
  using assms by (rule decrypt_encrypt)

definition sample_crypto :: crypto where
  "sample_crypto =
     \<lparr>jwt_encode = (\<lambda>c. (if cl_type c = Some ''access'' then ''a'' else ''r'') @
                     (case cl_sub c of None \<Rightarrow> [] | Some s \<Rightarrow> s) @ ''.'' @
                     (case cl_jti c of None \<Rightarrow> [] | Some s \<Rightarrow> s)),
      jwt_decode = (\<lambda>now s. case s of
          [] \<Rightarrow> None
        | c # r \<Rightarrow> Some \<lparr>cl_sub = Some (takeWhile (\<lambda>d. d \<noteq> CHR ''.'') r), cl_role = None,
                       cl_org_id = None, cl_exp = now,
                       cl_type = Some (if c = CHR ''a'' then ''access'' else ''refresh''),
                       cl_jti = None\<rparr>),
      checkpw = (\<lambda>p h. Some (h = ''h'' @ p)), hashpw = (\<lambda>p s. Some (''h'' @ p)),
      aes_seal = (\<lambda>k iv m. map (\<lambda>b. b mod 256) m), aes_open = (\<lambda>k iv c. Some c),
      totp_at = (\<lambda>secret t. str_int (t div 30)),
      provisioning_uri = (\<lambda>secret name issuer. issuer @ '':'' @ name @ '':'' @ secret)\<rparr>"

lemma sample_aes_roundtrip:
  "length iv = 12 \<Longrightarrow> \<forall>b\<in>set iv. b < 256 \<Longrightarrow>
     decrypt_aes_gcm sample_crypto cfg (encrypt_aes_gcm sample_crypto cfg iv s) = Some s"
  by (rule decrypt_encrypt) (auto simp: sample_crypto_def intro: map_idI)

lemma aes_gcm_roundtrip_witness:
  "let cfg = \<lparr>access_token_expire_minutes = 15, refresh_token_expire_days = 7,
               require_agent_mtls_header = True, data_encryption_key = ''k''\<rparr>
   in decrypt_aes_gcm sample_crypto cfg (encrypt_aes_gcm sample_crypto cfg (replicate 12 7) ''JBSWY3DP'') =
        Some ''JBSWY3DP''"
  unfolding Let_def by (rule aes_gcm_roundtrip) (auto simp: sample_crypto_def intro: map_idI)

text \<open>An enrolment token is the prefix \<open>t_\<close> and 22 to 30 base-62 digits that spell the 22
  random bytes, so different random values give different tokens.\<close>

theorem enroll_token_spells_bytes:
  assumes "length raw = 22" and "\<forall>b\<in>set raw. b < 256"
  shows "base62_number (drop 2 (generate_enroll_token raw)) = from_bytes_big raw \<and>
    24 \<le> length (generate_enroll_token raw) \<and> length (generate_enroll_token raw) \<le> 32 \<and>
    (\<forall>raw'. length raw' = 22 \<and> (\<forall>b\<in>set raw'. b < 256) \<longrightarrow>
       generate_enroll_token raw' = generate_enroll_token raw \<longrightarrow> raw' = raw)"
proof -
  have spelled: "base62_number (drop 2 (generate_enroll_token r)) = from_bytes_big r" for r
    by (simp add: generate_enroll_token_def rjust_def base62_number_pad base62_number_digits)
  have "from_bytes_big raw < 62 ^ 30" using from_bytes_big_less [OF assms(2)] assms(1) by simp
  then have "length (base62_digits (from_bytes_big raw)) \<le> 30" by (rule length_base62_digits)
  then have "24 \<le> length (generate_enroll_token raw) \<and> length (generate_enroll_token raw) \<le> 32"
    by (auto simp: generate_enroll_token_def rjust_def)
  moreover have "raw' = raw" if "length raw' = 22" "\<forall>b\<in>set raw'. b < 256"
    "generate_enroll_token raw' = generate_enroll_token raw" for raw'
  proof (rule from_bytes_big_inj)
    show "from_bytes_big raw' = from_bytes_big raw" using that(3) by (metis spelled)
  qed (use that assms in simp_all)
  ultimately show ?thesis using spelled by blast
qed

lemma from_bytes_big_ones: "from_bytes_big (replicate n 255) + 1 = 256 ^ n"
proof (induction n)
  case (Suc n)
  then show ?case by (simp add: from_bytes_big_snoc flip: replicate_append_same)
qed (simp add: from_bytes_big_def)

lemma enroll_token_spells_bytes_witness:
  "base62_number (drop 2 (generate_enroll_token (replicate 22 255))) = 256 ^ 22 - 1 \<and>
   length (generate_enroll_token (replicate 22 255)) = 32"
proof -
  let ?raw = "replicate 22 255 :: nat list"
  have num: "from_bytes_big ?raw = 256 ^ 22 - 1" using from_bytes_big_ones [of 22] by simp
  have "29 < length (base62_digits (256 ^ 22 - 1))" by (rule length_base62_digits_ge) simp
  then have "32 \<le> length (generate_enroll_token ?raw)"
    by (simp add: generate_enroll_token_def rjust_def num)
  with enroll_token_spells_bytes [of ?raw] num show ?thesis by auto
qed

end
