(* ===== verification/OrgScope.thy ===== *)
theory OrgScope
  imports Model
begin

text \<open>
  The organisation tree: \<open>services/org_scope.py\<close> (scopes of alert rules) and
  \<open>visible_org_ids\<close> with the role tests of \<open>api/deps.py\<close>. Both walk the tree from a start
  node over the parent links with a visited collection; the walk terminates whatever the
  parent links are (cycles included) and visits exactly the reachable nodes, each once.
\<close>

type_synonym org_row = "uuid \<times> uuid option"

subsection \<open>The walk\<close>

text \<open>\<open>by_parent\<close>: the children of each node, in row order; \<open>None\<close> is the key "" of roots.\<close>

fun by_parent_aux :: "(uuid option \<Rightarrow> uuid list) \<Rightarrow> org_row list \<Rightarrow> uuid option \<Rightarrow> uuid list" where
  "by_parent_aux m [] = m"
| "by_parent_aux m ((oid, p) # rows) = by_parent_aux (m(p := m p @ [oid])) rows"

definition by_parent :: "org_row list \<Rightarrow> uuid option \<Rightarrow> uuid list" where
  "by_parent rows = by_parent_aux (\<lambda>_. []) rows"

lemma by_parent_aux_eq: "by_parent_aux m rows p = m p @ map fst (filter (\<lambda>r. snd r = p) rows)"
  by (induction rows arbitrary: m) (auto split: prod.splits)

lemma by_parent_eq: "by_parent rows p = map fst (filter (\<lambda>r. snd r = p) rows)"
  by (simp add: by_parent_def by_parent_aux_eq)

lemma by_parent_subset: "set (by_parent rows p) \<subseteq> fst ` set rows"
  by (auto simp: by_parent_eq)

function (domintros) org_walk :: "org_row list \<Rightarrow> uuid list \<Rightarrow> uuid list \<Rightarrow> uuid list" where
  "org_walk rows [] out = out"
| "org_walk rows (oid # todo) out =
     (if oid \<in> set out then org_walk rows todo out
      else org_walk rows todo (org_walk rows (by_parent rows (Some oid)) (out @ [oid])))"
  by pat_completeness auto

lemma org_walk_dom_mono: "org_walk_dom (rows, todo, out) \<Longrightarrow> set out \<subseteq> set (org_walk rows todo out)"
  by (induction rows todo out rule: org_walk.pinduct) (auto simp: org_walk.psimps)

definition unvisited :: "org_row list \<Rightarrow> uuid list \<Rightarrow> uuid list \<Rightarrow> uuid set" where
  "unvisited rows todo out = (fst ` set rows \<union> set todo) - set out"

termination org_walk
proof (relation "inv_image (finite_psubset <*lex*> less_than)
    (\<lambda>(rows, todo, out). (unvisited rows todo out, length todo))", goal_cases)
  case 1
  show ?case by (intro wf_inv_image wf_lex_prod) (auto simp: wf_finite_psubset)
next
  case (2 rows oid todo out)
  then have "unvisited rows todo out = unvisited rows (oid # todo) out"
    by (auto simp: unvisited_def)
  then show ?case by (simp add: in_lex_prod)
next
  case (3 rows oid todo out)
  then have "unvisited rows (by_parent rows (Some oid)) (out @ [oid]) \<subset> unvisited rows (oid # todo) out"
    using by_parent_subset [of rows "Some oid"] by (auto simp: unvisited_def)
  then show ?case by (simp add: finite_psubset_def unvisited_def)
next
  case (4 rows oid todo out)
  then have "set (out @ [oid]) \<subseteq> set (org_walk rows (by_parent rows (Some oid)) (out @ [oid]))"
    by (intro org_walk_dom_mono)
  with 4(1) have "unvisited rows todo (org_walk rows (by_parent rows (Some oid)) (out @ [oid])) \<subset>
      unvisited rows (oid # todo) out"
    by (auto simp: unvisited_def)
  then show ?case by (simp add: finite_psubset_def unvisited_def)
qed

lemma org_walk_mono: "set out \<subseteq> set (org_walk rows todo out)"
  by (induction rows todo out rule: org_walk.induct) auto

lemma org_walk_todo: "set todo \<subseteq> set (org_walk rows todo out)"
proof (induction rows todo out rule: org_walk.induct)
  case (2 rows oid todo out)
  let ?r1 = "org_walk rows (by_parent rows (Some oid)) (out @ [oid])"
  have "set (out @ [oid]) \<subseteq> set ?r1" "set ?r1 \<subseteq> set (org_walk rows todo ?r1)"
    "set out \<subseteq> set (org_walk rows todo out)"
    by (rule org_walk_mono)+
  with 2 show ?case by auto
qed simp

lemma org_walk_distinct: "distinct out \<Longrightarrow> distinct (org_walk rows todo out)"
  by (induction rows todo out rule: org_walk.induct) auto

text \<open>The parent links as a relation, and the nodes below a node.\<close>

definition child_rel :: "org_row list \<Rightarrow> (uuid \<times> uuid) set" where
  "child_rel rows = {(p, c). (c, Some p) \<in> set rows}"

definition descendants :: "org_row list \<Rightarrow> uuid \<Rightarrow> uuid set" where
  "descendants rows x = (child_rel rows)\<^sup>* `` {x}"

lemma by_parent_child_rel: "set (by_parent rows (Some p)) = child_rel rows `` {p}"
  by (auto simp: by_parent_eq child_rel_def image_iff)

lemma org_walk_sound: "set (org_walk rows todo out) \<subseteq> set out \<union> (child_rel rows)\<^sup>* `` set todo"
proof (induction rows todo out rule: org_walk.induct)
  case (2 rows oid todo out)
  have "child_rel rows `` {oid} \<subseteq> (child_rel rows)\<^sup>* `` {oid}" by auto
  then have step: "(child_rel rows)\<^sup>* `` (child_rel rows `` {oid}) \<subseteq> (child_rel rows)\<^sup>* `` {oid}"
    by (auto intro: converse_rtrancl_into_rtrancl)
  show ?case
    using 2 step by (auto simp: by_parent_child_rel) blast+
qed simp

lemma org_walk_closed:
  "z \<in> set (org_walk rows todo out) \<Longrightarrow> z \<notin> set out \<Longrightarrow>
     child_rel rows `` {z} \<subseteq> set (org_walk rows todo out)"
proof (induction rows todo out rule: org_walk.induct)
  case (2 rows oid todo out)
  show ?case
  proof (cases "oid \<in> set out")
    case True
    with 2 show ?thesis by simp
  next
    case False
    let ?r1 = "org_walk rows (by_parent rows (Some oid)) (out @ [oid])"
    have mono: "set ?r1 \<subseteq> set (org_walk rows todo ?r1)" by (rule org_walk_mono)
    have below: "child_rel rows `` {oid} \<subseteq> set ?r1"
      using org_walk_todo [of "by_parent rows (Some oid)" rows "out @ [oid]"]
      by (simp add: by_parent_child_rel)
    show ?thesis
    proof (cases "z \<in> set ?r1")
      case False
      with "2.IH"(3) [OF \<open>oid \<notin> set out\<close>] "2.prems" \<open>oid \<notin> set out\<close> show ?thesis by simp
    next
      case True
      have "child_rel rows `` {z} \<subseteq> set ?r1"
      proof (cases "z = oid")
        case False
        with "2.IH"(2) [OF \<open>oid \<notin> set out\<close> True] "2.prems"(2) show ?thesis by simp
      qed (use below in simp)
      with mono \<open>oid \<notin> set out\<close> show ?thesis by auto
    qed
  qed
qed simp

lemma org_walk_descendants: "set (org_walk rows [x] []) = descendants rows x"
proof
  show "set (org_walk rows [x] []) \<subseteq> descendants rows x"
    using org_walk_sound [of rows "[x]" "[]"] by (simp add: descendants_def)
next
  have closed: "child_rel rows `` set (org_walk rows [x] []) \<subseteq> set (org_walk rows [x] [])"
    using org_walk_closed [of _ rows "[x]" "[]"] by auto
  have "x \<in> set (org_walk rows [x] [])" using org_walk_todo [of "[x]" rows "[]"] by simp
  then show "descendants rows x \<subseteq> set (org_walk rows [x] [])"
    using Image_closed_trancl [OF closed] by (auto simp: descendants_def)
qed

declare org_walk.simps [simp del]

subsection \<open>Scopes of alert rules and of users\<close>

definition all_org_ids :: "org_row list \<Rightarrow> uuid list" where
  "all_org_ids rows = map fst rows"

text \<open>Every mode other than \<open>system\<close> and \<open>org_only\<close> walks the tree, as in the code.\<close>

definition scope_orgs :: "org_row list \<Rightarrow> uuid option \<Rightarrow> string \<Rightarrow> uuid list" where
  "scope_orgs rows oid scope_mode =
     (if scope_mode = ''system'' then all_org_ids rows
      else case oid of
        None \<Rightarrow> []
      | Some x \<Rightarrow> if scope_mode = ''org_only'' then [x] else org_walk rows [x] [])"

definition super_admin_roles :: "user_role set" where
  "super_admin_roles = {SUPER_ADMIN, ADMIN_GLOBAL}"

definition admin_roles :: "user_role set" where
  "admin_roles = {SUPER_ADMIN, ORG_ADMIN, ADMIN_GLOBAL, ADMIN_ORG}"

definition is_super_admin :: "user \<Rightarrow> bool" where
  "is_super_admin u \<longleftrightarrow> u_role u \<in> super_admin_roles"

definition visible_org_ids :: "org_row list \<Rightarrow> user \<Rightarrow> uuid set" where
  "visible_org_ids rows u =
     (if is_super_admin u then set (map fst rows) else set (org_walk rows [u_org_id u] []))"

text \<open>
  What the callers rely on: a scope contains, with each organisation, everything below it.
\<close>

locale closed_scope =
  fixes scope :: "org_row list \<Rightarrow> 'q \<Rightarrow> uuid set"
  assumes closed: "p \<in> scope rows q \<Longrightarrow> (c, Some p) \<in> set rows \<Longrightarrow> c \<in> scope rows q"
begin

lemma closed_below:
  assumes "p \<in> scope rows q" and "x \<in> descendants rows p"
  shows "x \<in> scope rows q"
proof -
  from assms(2) have "(p, x) \<in> (child_rel rows)\<^sup>*" by (simp add: descendants_def)
  then show ?thesis
    by (induction rule: rtrancl_induct) (use assms(1) closed in \<open>auto simp: child_rel_def\<close>)
qed

lemma descendants_subset: "p \<in> scope rows q \<Longrightarrow> descendants rows p \<subseteq> scope rows q"
  by (auto intro: closed_below)

end

lemma descendants_closed:
  "p \<in> descendants rows o' \<Longrightarrow> (c, Some p) \<in> set rows \<Longrightarrow> c \<in> descendants rows o'"
  by (auto simp: descendants_def child_rel_def intro: rtrancl_into_rtrancl)

interpretation visible: closed_scope visible_org_ids
  by unfold_locales
    (auto simp: visible_org_ids_def org_walk_descendants image_iff intro: descendants_closed
          split: if_splits, force)

interpretation tree_scope: closed_scope "\<lambda>rows q. set (scope_orgs rows (Some q) ''org_tree'')"
  by unfold_locales (auto simp: scope_orgs_def org_walk_descendants intro: descendants_closed)

interpretation system_scope: closed_scope "\<lambda>rows q. set (scope_orgs rows q ''system'')"
  by unfold_locales (auto simp: scope_orgs_def all_org_ids_def, force)

lemma self_descendant [simp]: "x \<in> descendants rows x"
  by (simp add: descendants_def)

subsection \<open>Properties\<close>

text \<open>C11: the walk behind the \<open>org_tree\<close> scope terminates on every set of parent links, cyclic
  ones included, and returns exactly the organisation and its descendants, each once.\<close>

theorem scope_orgs_tree_exact:
  "set (scope_orgs rows (Some x) ''org_tree'') = descendants rows x \<and>
   distinct (scope_orgs rows (Some x) ''org_tree'')"
  by (simp add: scope_orgs_def org_walk_descendants org_walk_distinct)

text \<open>An administrator or viewer who sees an organisation sees every organisation below
  it; one who is not a super admin sees exactly the tree below the own organisation, so the
  visible set is the \<open>org_tree\<close> alert scope of that organisation.\<close>

theorem visible_org_ids_tree:
  "(x \<in> visible_org_ids rows u \<longrightarrow> descendants rows x \<subseteq> visible_org_ids rows u) \<and>
   (\<not> is_super_admin u \<longrightarrow>
      visible_org_ids rows u = set (scope_orgs rows (Some (u_org_id u)) ''org_tree''))"
  using visible.descendants_subset [of x rows u]
  by (auto simp: visible_org_ids_def scope_orgs_def)

definition sample_user :: user where
  "sample_user =
     \<lparr>u_id = 1, u_org_id = 10, u_full_name = ''A'', u_email = ''a@x'', u_role = ORG_ADMIN,
      u_password_hash = Some ''h'', u_totp_secret_encrypted = None, u_backup_codes = None,
      u_is_2fa_enabled = False, u_is_active = True, u_last_login_at = None,
      u_must_change_password = False, u_totp_last_counter = None, u_telegram_chat_id = None,
      u_telegram_linked_at = None\<rparr>"

lemma visible_org_ids_tree_witness:
  "descendants [(10, None), (11, Some 10)] 10 \<subseteq> visible_org_ids [(10, None), (11, Some 10)] sample_user \<and>
   visible_org_ids [(10, None), (11, Some 10)] sample_user = {10, 11}"
proof -
  let ?rows = "[(10, None), (11, Some 10)] :: org_row list"
  have not_super: "\<not> is_super_admin sample_user"
    by (simp add: is_super_admin_def sample_user_def super_admin_roles_def)
  have tree: "set (scope_orgs ?rows (Some 10) ''org_tree'') = {10, 11}"
    by (auto simp: scope_orgs_def by_parent_eq org_walk.simps)
  have own: "u_org_id sample_user = 10" by (simp add: sample_user_def)
  have seen: "visible_org_ids ?rows sample_user = {10, 11}"
    using visible_org_ids_tree [of 10 ?rows sample_user] not_super tree own by simp
  then show ?thesis using visible_org_ids_tree [of 10 ?rows sample_user] by simp
qed

end
