(* ===== verification/Auth.thy ===== *)
theory Auth
  imports Security OrgScope
begin

text \<open>
  Sessions: the dependencies of \<open>server/app/api/deps.py\<close> that resolve a request to a user
  or to an agent, and the handlers of \<open>server/app/api/routes/auth.py\<close>. The state is the
  part of the database they touch: users, refresh tokens and the audit log. A handler
  returns the response or the HTTP failure together with the database after it; a failure
  before the commit leaves the database as it was.
\<close>

subsection \<open>State, requests, responses\<close>

record auth_db =
  ad_users :: "user list"
  ad_tokens :: "refresh_token list"
  ad_log :: "audit_row list"

record login_response =
  lr_access_token :: string
  lr_refresh_token :: string
  lr_requires_2fa :: bool
  lr_must_change_password :: bool

text \<open>Random values of a handler: the id of the new row, a new family, the token's jti.\<close>

record fresh =
  fr_row_id :: uuid
  fr_family :: uuid
  fr_jti :: string

definition put_user :: "user \<Rightarrow> auth_db \<Rightarrow> auth_db" where
  "put_user u db = db\<lparr>ad_users := update_where (\<lambda>r. u_id r = u_id u) (\<lambda>_. u) (ad_users db)\<rparr>"

definition log_audit ::
  "time \<Rightarrow> string \<Rightarrow> string option \<Rightarrow> string option \<Rightarrow> string option \<Rightarrow> auth_db \<Rightarrow> auth_db" where
  "log_audit now action actor target ip db =
     db\<lparr>ad_log := append_audit now action actor target ip None None (ad_log db)\<rparr>"

lemma put_user_sel [simp]: "ad_tokens (put_user u db) = ad_tokens db" "ad_log (put_user u db) = ad_log db"
  by (simp_all add: put_user_def)

lemma log_audit_sel [simp]:
  "ad_tokens (log_audit now action actor target ip db) = ad_tokens db"
  "ad_users (log_audit now action actor target ip db) = ad_users db"
  by (simp_all add: log_audit_def)

subsection \<open>Dependencies\<close>

definition resolve_user_from_token ::
  "crypto \<Rightarrow> time \<Rightarrow> user list \<Rightarrow> string option \<Rightarrow> http_error + user" where
  "resolve_user_from_token x now users credentials =
     (case credentials of
        None \<Rightarrow> Inl (HTTPException 401 ''Thieu token'')
      | Some tok \<Rightarrow>
          (case decode_token x now tok ''access'' of
             None \<Rightarrow> Inl (HTTPException 401 ''Token khong hop le hoac het han'')
           | Some payload \<Rightarrow>
               (case cl_sub payload of
                  None \<Rightarrow> Inl internal_error
                | Some sub \<Rightarrow>
                    (case parse_uuid sub of
                       None \<Rightarrow> Inl (HTTPException 401 ''Token khong hop le hoac het han'')
                     | Some user_id \<Rightarrow>
                         (case find (\<lambda>u. u_id u = user_id) users of
                            None \<Rightarrow> Inl (HTTPException 401 ''User khong ton tai hoac bi khoa'')
                          | Some u \<Rightarrow>
                              if \<not> u_is_active u
                              then Inl (HTTPException 401 ''User khong ton tai hoac bi khoa'')
                              else Inr u)))))"

definition get_current_user ::
  "crypto \<Rightarrow> time \<Rightarrow> user list \<Rightarrow> string option \<Rightarrow> http_error + user" where
  "get_current_user x now users credentials =
     (case resolve_user_from_token x now users credentials of
        Inl e \<Rightarrow> Inl e
      | Inr u \<Rightarrow> if u_must_change_password u then Inl (HTTPException 403 ''PASSWORD_CHANGE_REQUIRED'')
                 else Inr u)"

definition get_current_user_allow_password_change ::
  "crypto \<Rightarrow> time \<Rightarrow> user list \<Rightarrow> string option \<Rightarrow> http_error + user" where
  "get_current_user_allow_password_change x now users credentials =
     resolve_user_from_token x now users credentials"

definition require_roles ::
  "user_role set \<Rightarrow> string \<Rightarrow> crypto \<Rightarrow> time \<Rightarrow> user list \<Rightarrow> string option \<Rightarrow> http_error + user" where
  "require_roles roles detail x now users credentials =
     (case get_current_user x now users credentials of
        Inl e \<Rightarrow> Inl e
      | Inr u \<Rightarrow> if u_role u \<notin> roles then Inl (HTTPException 403 detail) else Inr u)"

definition require_role ::
  "user_role list \<Rightarrow> crypto \<Rightarrow> time \<Rightarrow> user list \<Rightarrow> string option \<Rightarrow> http_error + user" where
  "require_role roles = require_roles (set roles) ''Khong co quyen''"

definition require_admin ::
  "crypto \<Rightarrow> time \<Rightarrow> user list \<Rightarrow> string option \<Rightarrow> http_error + user" where
  "require_admin = require_roles admin_roles ''Khong co quyen''"

definition require_super_admin ::
  "crypto \<Rightarrow> time \<Rightarrow> user list \<Rightarrow> string option \<Rightarrow> http_error + user" where
  "require_super_admin = require_roles super_admin_roles ''Can quyen Super Admin''"

definition get_client_machine_id ::
  "settings \<Rightarrow> string option \<Rightarrow> string option \<Rightarrow> string option \<Rightarrow> http_error + string" where
  "get_client_machine_id cfg ssl_verify ssl_cn machine_header =
     (if require_agent_mtls_header cfg \<and> ssl_verify \<noteq> Some ''SUCCESS''
      then Inl (HTTPException 401 ''Thieu chung thuc mTLS hop le'')
      else
        let cn = (if ssl_cn = None \<and> \<not> require_agent_mtls_header cfg then machine_header else ssl_cn)
        in case cn of
             None \<Rightarrow> Inl (HTTPException 401 ''Thieu client cert CN'')
           | Some c \<Rightarrow> Inr (if starts_with ''machine-'' c then drop 8 c else c))"

subsection \<open>Refresh tokens\<close>

definition refresh_row ::
  "settings \<Rightarrow> time \<Rightarrow> fresh \<Rightarrow> uuid option \<Rightarrow> uuid \<Rightarrow> string \<Rightarrow> refresh_token" where
  "refresh_row cfg now fr family uid refr =
     \<lparr>rt_id = fr_row_id fr, rt_user_id = uid, rt_token_hash = hash_token refr,
      rt_family_id = (case family of Some f \<Rightarrow> f | None \<Rightarrow> fr_family fr),
      rt_expires_at = now + days (refresh_token_expire_days cfg),
      rt_revoked_at = None, rt_replaced_by = None\<rparr>"

definition issue_tokens ::
  "crypto \<Rightarrow> settings \<Rightarrow> time \<Rightarrow> fresh \<Rightarrow> uuid option \<Rightarrow> user \<Rightarrow> auth_db \<Rightarrow>
   http_error + login_response \<times> auth_db" where
  "issue_tokens x cfg now fr family u db =
     (let access = create_access_token x cfg now (uuid_str (u_id u)) (u_role u) (uuid_str (u_org_id u)) None;
          refr = create_refresh_token x cfg now (fr_jti fr) (uuid_str (u_id u));
          row = refresh_row cfg now fr family (u_id u) refr
      in if \<exists>r\<in>set (ad_tokens db). rt_id r = rt_id row \<or> rt_token_hash r = rt_token_hash row
         then Inl internal_error
         else Inr (\<lparr>lr_access_token = access, lr_refresh_token = refr, lr_requires_2fa = False,
                    lr_must_change_password = u_must_change_password u\<rparr>,
                   db\<lparr>ad_tokens := insert_row row (ad_tokens db)\<rparr>))"

definition is_live :: "refresh_token \<Rightarrow> bool" where
  "is_live r \<longleftrightarrow> rt_revoked_at r = None"

definition revoke_at :: "time \<Rightarrow> refresh_token \<Rightarrow> refresh_token" where
  "revoke_at now r = r\<lparr>rt_revoked_at := Some now\<rparr>"

definition link_to :: "uuid \<Rightarrow> refresh_token \<Rightarrow> refresh_token" where
  "link_to i r = r\<lparr>rt_replaced_by := Some i\<rparr>"

definition revoke_user_refresh_tokens :: "time \<Rightarrow> uuid \<Rightarrow> auth_db \<Rightarrow> auth_db" where
  "revoke_user_refresh_tokens now uid db =
     db\<lparr>ad_tokens := update_where (\<lambda>r. rt_user_id r = uid \<and> is_live r) (revoke_at now) (ad_tokens db)\<rparr>"

definition revoke_refresh_family :: "time \<Rightarrow> uuid \<Rightarrow> auth_db \<Rightarrow> auth_db" where
  "revoke_refresh_family now family db =
     db\<lparr>ad_tokens := update_where (\<lambda>r. rt_family_id r = family \<and> is_live r) (revoke_at now) (ad_tokens db)\<rparr>"

subsection \<open>Handlers\<close>

text \<open>The second factor of \<open>login\<close>: the user with the factor consumed, \<open>None\<close> if it is refused.\<close>

definition last_counter :: "user \<Rightarrow> int" where
  "last_counter u = (case u_totp_last_counter u of None \<Rightarrow> - 1 | Some c \<Rightarrow> if c = 0 then - 1 else c)"

definition use_backup_code :: "crypto \<Rightarrow> user \<Rightarrow> string \<Rightarrow> user option" where
  "use_backup_code x u totp_code =
     (let codes = (case u_backup_codes u of None \<Rightarrow> [] | Some cs \<Rightarrow> cs) in
      case find (\<lambda>h. verify_password x totp_code h) codes of
        None \<Rightarrow> None
      | Some h \<Rightarrow> Some (u\<lparr>u_backup_codes := Some (remove1 h codes)\<rparr>))"

definition second_factor ::
  "crypto \<Rightarrow> settings \<Rightarrow> time \<Rightarrow> user \<Rightarrow> string \<Rightarrow> http_error + user option" where
  "second_factor x cfg now u totp_code =
     (case (if truthy (u_totp_secret_encrypted u)
            then (case decrypt_aes_gcm x cfg (the (u_totp_secret_encrypted u)) of
                    None \<Rightarrow> Inl internal_error
                  | Some secret \<Rightarrow> verify_totp_counter x now secret totp_code)
            else Inr None) of
        Inl e \<Rightarrow> Inl e
      | Inr counter \<Rightarrow>
          (case counter of
             Some c \<Rightarrow> if c > last_counter u then Inr (Some (u\<lparr>u_totp_last_counter := Some c\<rparr>))
                       else Inr (use_backup_code x u totp_code)
           | None \<Rightarrow> Inr (use_backup_code x u totp_code)))"

definition login_candidates :: "string \<Rightarrow> string list" where
  "login_candidates email =
     (let login_id = lower (strip email); resolved = resolve_login_username login_id in
      [login_id, login_id @ ''@hatinh.gov.vn'', login_id @ ''@example.gov.vn'',
       resolved @ ''@hatinh.gov.vn'', resolved @ ''@example.gov.vn''])"

definition finish_login ::
  "crypto \<Rightarrow> settings \<Rightarrow> time \<Rightarrow> fresh \<Rightarrow> string \<Rightarrow> user \<Rightarrow> auth_db \<Rightarrow>
   (http_error + login_response) \<times> auth_db" where
  "finish_login x cfg now fr ip u db =
     (let u' = u\<lparr>u_last_login_at := Some now\<rparr>;
          db1 = log_audit now ''auth.login'' (Some (uuid_str (u_id u))) None (Some ip) (put_user u' db)
      in case issue_tokens x cfg now fr None u' db1 of
           Inl e \<Rightarrow> (Inl e, db)
         | Inr (resp, db2) \<Rightarrow> (Inr resp, db2))"

definition login ::
  "crypto \<Rightarrow> settings \<Rightarrow> time \<Rightarrow> fresh \<Rightarrow> string \<Rightarrow> string \<Rightarrow> string \<Rightarrow> string option \<Rightarrow> auth_db \<Rightarrow>
   (http_error + login_response) \<times> auth_db" where
  "login x cfg now fr ip email password totp_code db =
     (let found = find (\<lambda>u. u_email u \<in> set (login_candidates email)) (ad_users db);
          refuse = (\<lambda>action actor detail.
            (Inl (HTTPException 401 detail), log_audit now action actor None (Some ip) db))
      in case found of
        None \<Rightarrow> refuse ''auth.login_failed'' None ''Sai email hoac mat khau''
      | Some u \<Rightarrow>
          if \<not> truthy (u_password_hash u) \<or> \<not> verify_password x password (the (u_password_hash u))
          then refuse ''auth.login_failed'' (Some (uuid_str (u_id u))) ''Sai email hoac mat khau''
          else if \<not> u_is_active u
          then refuse ''auth.login_blocked'' (Some (uuid_str (u_id u))) ''Tai khoan da bi khoa''
          else if \<not> u_is_2fa_enabled u then finish_login x cfg now fr ip u db
          else if \<not> truthy totp_code
          then (Inr \<lparr>lr_access_token = [], lr_refresh_token = [], lr_requires_2fa = True,
                     lr_must_change_password = False\<rparr>, db)
          else (case second_factor x cfg now u (the totp_code) of
                  Inl e \<Rightarrow> (Inl e, db)
                | Inr None \<Rightarrow> refuse ''auth.totp_failed'' (Some (uuid_str (u_id u))) ''Ma 2FA khong dung''
                | Inr (Some u') \<Rightarrow> finish_login x cfg now fr ip u' db))"

definition bad_refresh :: http_error where
  "bad_refresh = HTTPException 401 ''Refresh token khong hop le''"

definition refresh ::
  "crypto \<Rightarrow> settings \<Rightarrow> time \<Rightarrow> fresh \<Rightarrow> string \<Rightarrow> auth_db \<Rightarrow>
   (http_error + login_response) \<times> auth_db" where
  "refresh x cfg now fr tok db =
     (case (case decode_token x now tok ''refresh'' of
              None \<Rightarrow> None | Some p \<Rightarrow> (case cl_sub p of None \<Rightarrow> None | Some s \<Rightarrow> parse_uuid s)) of
        None \<Rightarrow> (Inl bad_refresh, db)
      | Some user_id \<Rightarrow>
          (case find (\<lambda>r. rt_token_hash r = hash_token tok) (ad_tokens db) of
             None \<Rightarrow> (Inl bad_refresh, db)
           | Some row \<Rightarrow>
               if rt_expires_at row \<le> now then (Inl bad_refresh, db)
               else if rt_revoked_at row \<noteq> None then
                 (Inl bad_refresh,
                  log_audit now ''auth.refresh_reuse_detected'' (Some (uuid_str (rt_user_id row))) None None
                    (revoke_refresh_family now (rt_family_id row) db))
               else
                 (case find (\<lambda>u. u_id u = user_id) (ad_users db) of
                    None \<Rightarrow> (Inl (HTTPException 401 ''User khong ton tai''), db)
                  | Some u \<Rightarrow>
                      if \<not> u_is_active u then (Inl (HTTPException 401 ''User khong ton tai''), db)
                      else
                        (let db1 = db\<lparr>ad_tokens := update_where (\<lambda>r. rt_id r = rt_id row) (revoke_at now) (ad_tokens db)\<rparr>
                         in case issue_tokens x cfg now fr (Some (rt_family_id row)) u db1 of
                              Inl e \<Rightarrow> (Inl e, db)
                            | Inr (resp, db2) \<Rightarrow>
                                (case find (\<lambda>r. rt_token_hash r = hash_token (lr_refresh_token resp)) (ad_tokens db2) of
                                   None \<Rightarrow> (Inr resp, db2)
                                 | Some new_row \<Rightarrow>
                                     (Inr resp,
                                      db2\<lparr>ad_tokens := update_where (\<lambda>r. rt_id r = rt_id row)
                                             (link_to (rt_id new_row)) (ad_tokens db2)\<rparr>))))))"

record profile =
  pf_id :: string
  pf_email :: string
  pf_full_name :: string
  pf_role :: user_role
  pf_org_id :: string
  pf_is_2fa_enabled :: bool
  pf_must_change_password :: bool
  pf_last_login_at :: "time option"

definition profile_of :: "user \<Rightarrow> profile" where
  "profile_of u =
     \<lparr>pf_id = uuid_str (u_id u), pf_email = u_email u, pf_full_name = u_full_name u,
      pf_role = u_role u, pf_org_id = uuid_str (u_org_id u), pf_is_2fa_enabled = u_is_2fa_enabled u,
      pf_must_change_password = u_must_change_password u, pf_last_login_at = u_last_login_at u\<rparr>"

definition me :: "crypto \<Rightarrow> time \<Rightarrow> string option \<Rightarrow> auth_db \<Rightarrow> http_error + profile" where
  "me x now cred db =
     (case get_current_user_allow_password_change x now (ad_users db) cred of
        Inl e \<Rightarrow> Inl e | Inr u \<Rightarrow> Inr (profile_of u))"

record totp_setup_response =
  ts_secret :: string
  ts_uri :: string
  ts_backup_codes :: "string list"

text \<open>\<open>None\<close> where one of the passwords cannot be hashed.\<close>

fun hash_all :: "crypto \<Rightarrow> string list \<Rightarrow> string list \<Rightarrow> string list option" where
  "hash_all x (p # ps) (salt # salts) =
     (case hash_password x p salt of
        None \<Rightarrow> None | Some h \<Rightarrow> map_option ((#) h) (hash_all x ps salts))"
| "hash_all x _ _ = Some []"

definition totp_setup ::
  "crypto \<Rightarrow> settings \<Rightarrow> time \<Rightarrow> string \<Rightarrow> nat list list \<Rightarrow> string list \<Rightarrow> nat list \<Rightarrow>
   string option \<Rightarrow> auth_db \<Rightarrow> (http_error + totp_setup_response) \<times> auth_db" where
  "totp_setup x cfg now secret rnd salts iv cred db =
     (case get_current_user x now (ad_users db) cred of
        Inl e \<Rightarrow> (Inl e, db)
      | Inr u \<Rightarrow>
          (let uri = totp_uri x secret (u_email u); codes = generate_backup_codes rnd in
           case hash_all x codes salts of
             None \<Rightarrow> (Inl internal_error, db)
           | Some hs \<Rightarrow>
               (Inr \<lparr>ts_secret = secret, ts_uri = uri, ts_backup_codes = codes\<rparr>,
                put_user (u\<lparr>u_totp_secret_encrypted := Some (encrypt_aes_gcm x cfg iv secret),
                            u_backup_codes := Some hs, u_is_2fa_enabled := False\<rparr>) db)))"

definition totp_confirm ::
  "crypto \<Rightarrow> settings \<Rightarrow> time \<Rightarrow> fresh \<Rightarrow> string \<Rightarrow> string option \<Rightarrow> auth_db \<Rightarrow>
   (http_error + login_response) \<times> auth_db" where
  "totp_confirm x cfg now fr totp_code cred db =
     (case get_current_user x now (ad_users db) cred of
        Inl e \<Rightarrow> (Inl e, db)
      | Inr u \<Rightarrow>
          if \<not> truthy (u_totp_secret_encrypted u)
          then (Inl (HTTPException 400 ''Chua thiet lap 2FA''), db)
          else (case decrypt_aes_gcm x cfg (the (u_totp_secret_encrypted u)) of
                  None \<Rightarrow> (Inl internal_error, db)
                | Some secret \<Rightarrow>
                    (case verify_totp_counter x now secret totp_code of
                       Inl e \<Rightarrow> (Inl e, db)
                     | Inr None \<Rightarrow> (Inl (HTTPException 400 ''Ma xac nhan khong dung''), db)
                     | Inr (Some counter) \<Rightarrow>
                         (let u' = u\<lparr>u_is_2fa_enabled := True, u_totp_last_counter := Some counter\<rparr>;
                              db1 = log_audit now ''auth.totp_enabled'' (Some (uuid_str (u_id u))) None None
                                      (put_user u' db)
                          in case issue_tokens x cfg now fr None u' db1 of
                               Inl e \<Rightarrow> (Inl e, db)
                             | Inr (resp, db2) \<Rightarrow> (Inr resp, db2)))))"

definition logout ::
  "crypto \<Rightarrow> time \<Rightarrow> string option \<Rightarrow> string option \<Rightarrow> auth_db \<Rightarrow> (http_error + unit) \<times> auth_db" where
  "logout x now body cred db =
     (case get_current_user_allow_password_change x now (ad_users db) cred of
        Inl e \<Rightarrow> (Inl e, db)
      | Inr u \<Rightarrow>
          (let row = (if truthy body
                      then find (\<lambda>r. rt_token_hash r = hash_token (the body) \<and> is_live r) (ad_tokens db)
                      else None);
               db1 = (case row of
                        None \<Rightarrow> db
                      | Some r \<Rightarrow> db\<lparr>ad_tokens := update_where (\<lambda>t. rt_id t = rt_id r) (revoke_at now) (ad_tokens db)\<rparr>)
           in (Inr (), log_audit now ''auth.logout'' (Some (uuid_str (u_id u))) None None db1)))"

definition change_password ::
  "crypto \<Rightarrow> time \<Rightarrow> string \<Rightarrow> string \<Rightarrow> string \<Rightarrow> string option \<Rightarrow> auth_db \<Rightarrow>
   (http_error + unit) \<times> auth_db" where
  "change_password x now salt current_password new_password cred db =
     (case get_current_user_allow_password_change x now (ad_users db) cred of
        Inl e \<Rightarrow> (Inl e, db)
      | Inr u \<Rightarrow>
          (case u_password_hash u of
             None \<Rightarrow> (Inl internal_error, db)
           | Some h \<Rightarrow>
               if \<not> verify_password x current_password h
               then (Inl (HTTPException 401 ''Mat khau hien tai khong dung''), db)
               else if current_password = new_password
               then (Inl (HTTPException 400 ''Mat khau moi phai khac mat khau hien tai''), db)
               else (case hash_password x new_password salt of
                       None \<Rightarrow> (Inl internal_error, db)
                     | Some h' \<Rightarrow>
                         (let u' = u\<lparr>u_password_hash := Some h', u_must_change_password := False\<rparr>;
                              db1 = revoke_user_refresh_tokens now (u_id u) (put_user u' db)
                          in (Inr (), log_audit now ''auth.change_password'' (Some (uuid_str (u_id u)))
                                        (Some (uuid_str (u_id u))) None db1)))))"

definition update_my_profile ::
  "crypto \<Rightarrow> time \<Rightarrow> string \<Rightarrow> string option \<Rightarrow> auth_db \<Rightarrow> (http_error + profile) \<times> auth_db" where
  "update_my_profile x now full_name cred db =
     (case get_current_user x now (ad_users db) cred of
        Inl e \<Rightarrow> (Inl e, db)
      | Inr u \<Rightarrow>
          if strip full_name = [] then (Inl (HTTPException 400 ''Ho va ten khong duoc de trong''), db)
          else (let u' = u\<lparr>u_full_name := strip full_name\<rparr> in
                (Inr (profile_of u'),
                 log_audit now ''auth.update_profile'' (Some (uuid_str (u_id u)))
                   (Some (uuid_str (u_id u))) None (put_user u' db))))"

definition disable_my_totp ::
  "crypto \<Rightarrow> time \<Rightarrow> string \<Rightarrow> string option \<Rightarrow> auth_db \<Rightarrow> (http_error + unit) \<times> auth_db" where
  "disable_my_totp x now current_password cred db =
     (case get_current_user x now (ad_users db) cred of
        Inl e \<Rightarrow> (Inl e, db)
      | Inr u \<Rightarrow>
          (case u_password_hash u of
             None \<Rightarrow> (Inl internal_error, db)
           | Some h \<Rightarrow>
               if \<not> verify_password x current_password h
               then (Inl (HTTPException 401 ''Mat khau hien tai khong dung''), db)
               else (Inr (),
                     log_audit now ''auth.totp_disabled'' (Some (uuid_str (u_id u)))
                       (Some (uuid_str (u_id u))) None
                       (put_user (u\<lparr>u_is_2fa_enabled := False, u_totp_secret_encrypted := None,
                                    u_backup_codes := None, u_totp_last_counter := None\<rparr>) db))))"

subsection \<open>The component as a step system\<close>

datatype auth_event =
    Login time fresh string string string "string option"
  | Refresh time fresh string
  | TotpSetup time string "nat list list" "string list" "nat list" "string option"
  | TotpConfirm time fresh string "string option"
  | Logout time "string option" "string option"
  | ChangePassword time string string string "string option"
  | UpdateProfile time string "string option"
  | DisableTotp time string "string option"

fun auth_step :: "crypto \<Rightarrow> settings \<Rightarrow> auth_event \<Rightarrow> auth_db \<Rightarrow> auth_db" where
  "auth_step x cfg (Login now fr ip email pw totp) db = snd (login x cfg now fr ip email pw totp db)"
| "auth_step x cfg (Refresh now fr tok) db = snd (refresh x cfg now fr tok db)"
| "auth_step x cfg (TotpSetup now secret rnd salts iv cred) db =
     snd (totp_setup x cfg now secret rnd salts iv cred db)"
| "auth_step x cfg (TotpConfirm now fr c cred) db = snd (totp_confirm x cfg now fr c cred db)"
| "auth_step x cfg (Logout now body cred) db = snd (logout x now body cred db)"
| "auth_step x cfg (ChangePassword now salt cur new cred) db =
     snd (change_password x now salt cur new cred db)"
| "auth_step x cfg (UpdateProfile now name cred) db = snd (update_my_profile x now name cred db)"
| "auth_step x cfg (DisableTotp now cur cred) db = snd (disable_my_totp x now cur cred db)"

text \<open>A random family id is new: no row of the table carries it.\<close>

fun fresh_family :: "auth_event \<Rightarrow> auth_db \<Rightarrow> bool" where
  "fresh_family (Login now fr ip email pw totp) db \<longleftrightarrow> fr_family fr \<notin> rt_family_id ` set (ad_tokens db)"
| "fresh_family (TotpConfirm now fr c cred) db \<longleftrightarrow> fr_family fr \<notin> rt_family_id ` set (ad_tokens db)"
| "fresh_family _ db \<longleftrightarrow> True"

subsection \<open>What a step may do to the refresh tokens\<close>

inductive token_step :: "refresh_token list \<Rightarrow> refresh_token list \<Rightarrow> bool" where
  revoke: "token_step ts (update_where P (revoke_at now) ts)"
| link: "token_step ts (update_where P (link_to i) ts)"
| issue: "is_live row \<Longrightarrow> rt_id row \<notin> rt_id ` set ts \<Longrightarrow> rt_token_hash row \<notin> rt_token_hash ` set ts \<Longrightarrow>
    \<forall>r\<in>set ts. rt_family_id r = rt_family_id row \<longrightarrow> \<not> is_live r \<Longrightarrow> token_step ts (insert_row row ts)"

inductive_cases token_stepE: "token_step ts ts'"

interpretation revoke_id: row_update rt_id "revoke_at now" for now
  by unfold_locales (simp add: revoke_at_def)

interpretation revoke_hash: row_update rt_token_hash "revoke_at now" for now
  by unfold_locales (simp add: revoke_at_def)

interpretation link_id: row_update rt_id "link_to i" for i
  by unfold_locales (simp add: link_to_def)

interpretation link_hash: row_update rt_token_hash "link_to i" for i
  by unfold_locales (simp add: link_to_def)

lemma row_sel [simp]:
  "rt_family_id (revoke_at now r) = rt_family_id r" "\<not> is_live (revoke_at now r)"
  "rt_revoked_at (revoke_at now r) = Some now"
  "rt_expires_at (revoke_at now r) = rt_expires_at r" "rt_expires_at (link_to i r) = rt_expires_at r"
  "rt_family_id (link_to i r) = rt_family_id r" "is_live (link_to i r) \<longleftrightarrow> is_live r"
  by (simp_all add: revoke_at_def link_to_def is_live_def)

text \<open>
  The discipline of the table: ids and digests are unique, and of the tokens of a family at
  most one is live.
\<close>

definition tokens_ok :: "refresh_token list \<Rightarrow> bool" where
  "tokens_ok ts \<longleftrightarrow> distinct (map rt_id ts) \<and> distinct (map rt_token_hash ts) \<and>
     distinct (map rt_family_id (filter is_live ts))"

lemma live_families_revoke:
  "distinct (map rt_family_id (filter is_live ts)) \<Longrightarrow>
     distinct (map rt_family_id (filter is_live (update_where P (revoke_at now) ts)))"
  by (induction ts) (auto simp: update_where_def split: if_splits)

lemma live_families_link:
  "map rt_family_id (filter is_live (update_where P (link_to i) ts)) =
     map rt_family_id (filter is_live ts)"
  by (induction ts) (auto simp: update_where_def)

lemma token_step_ok: "token_step ts ts' \<Longrightarrow> tokens_ok ts \<Longrightarrow> tokens_ok ts'"
proof (induction rule: token_step.induct)
  case (revoke ts P now)
  then show ?case
    by (simp add: tokens_ok_def revoke_id.keys_update_where revoke_hash.keys_update_where live_families_revoke)
next
  case (link ts P i)
  then show ?case
    by (simp add: tokens_ok_def link_id.keys_update_where link_hash.keys_update_where live_families_link)
next
  case (issue row ts)
  then show ?case by (auto simp: tokens_ok_def insert_row_def image_iff)
qed

lemma token_steps_ok: "token_step\<^sup>*\<^sup>* ts ts' \<Longrightarrow> tokens_ok ts \<Longrightarrow> tokens_ok ts'"
  by (induction rule: rtranclp_induct) (auto intro: token_step_ok)

text \<open>A token that is revoked stays revoked, with its digest, family and expiry.\<close>

definition dead :: "string \<Rightarrow> uuid \<Rightarrow> time \<Rightarrow> refresh_token list \<Rightarrow> bool" where
  "dead h f ex ts \<longleftrightarrow> (\<exists>r\<in>set ts. rt_token_hash r = h \<and> rt_family_id r = f \<and> rt_expires_at r = ex \<and>
     \<not> is_live r)"

lemma token_step_dead: "token_step ts ts' \<Longrightarrow> dead h f ex ts \<Longrightarrow> dead h f ex ts'"
proof (induction rule: token_step.induct)
  case (revoke ts P now)
  then obtain r where r: "r \<in> set ts" "rt_token_hash r = h" "rt_family_id r = f" "rt_expires_at r = ex"
      "\<not> is_live r"
    by (auto simp: dead_def)
  let ?g = "\<lambda>r. if P r then revoke_at now r else r"
  have "rt_token_hash (?g r) = h \<and> rt_family_id (?g r) = f \<and> rt_expires_at (?g r) = ex \<and>
      \<not> is_live (?g r)" using r by simp
  moreover have "?g r \<in> ?g ` set ts" using r(1) by (rule imageI)
  ultimately show ?case unfolding dead_def set_update_where by (rule bexI [where x = "?g r"])
next
  case (link ts P i)
  then obtain r where r: "r \<in> set ts" "rt_token_hash r = h" "rt_family_id r = f" "rt_expires_at r = ex"
      "\<not> is_live r"
    by (auto simp: dead_def)
  let ?g = "\<lambda>r. if P r then link_to i r else r"
  have "rt_token_hash (?g r) = h \<and> rt_family_id (?g r) = f \<and> rt_expires_at (?g r) = ex \<and>
      \<not> is_live (?g r)" using r by simp
  moreover have "?g r \<in> ?g ` set ts" using r(1) by (rule imageI)
  ultimately show ?case unfolding dead_def set_update_where by (rule bexI [where x = "?g r"])
qed (auto simp: dead_def)

lemma token_steps_dead: "token_step\<^sup>*\<^sup>* ts ts' \<Longrightarrow> dead h f ex ts \<Longrightarrow> dead h f ex ts'"
  by (induction rule: rtranclp_induct) (auto intro: token_step_dead)

subsection \<open>Every handler is a sequence of such changes\<close>

lemma issue_tokens_step:
  assumes "issue_tokens x cfg now fr fam u db = Inr (resp, db')"
    and "\<forall>r\<in>set (ad_tokens db). rt_family_id r = (case fam of Some f \<Rightarrow> f | None \<Rightarrow> fr_family fr) \<longrightarrow> \<not> is_live r"
  shows "token_step (ad_tokens db) (ad_tokens db')"
proof -
  let ?row = "refresh_row cfg now fr fam (u_id u)
      (create_refresh_token x cfg now (fr_jti fr) (uuid_str (u_id u)))"
  have new: "rt_id ?row \<notin> rt_id ` set (ad_tokens db)" "rt_token_hash ?row \<notin> rt_token_hash ` set (ad_tokens db)"
    and tokens: "ad_tokens db' = insert_row ?row (ad_tokens db)"
    using assms(1) by (auto simp: issue_tokens_def Let_def image_iff split: if_splits)
  have "is_live ?row" "rt_family_id ?row = (case fam of Some f \<Rightarrow> f | None \<Rightarrow> fr_family fr)"
    by (simp_all add: refresh_row_def is_live_def)
  then show ?thesis unfolding tokens using new assms(2) by (intro token_step.issue) simp_all
qed

lemma issue_tokens_log:
  "issue_tokens x cfg now fr fam u db = Inr (resp, db') \<Longrightarrow> ad_log db' = ad_log db \<and> ad_users db' = ad_users db"
  by (auto simp: issue_tokens_def Let_def split: if_splits)

lemma finish_login_steps:
  assumes "fr_family fr \<notin> rt_family_id ` set (ad_tokens db)"
  shows "token_step\<^sup>*\<^sup>* (ad_tokens db) (ad_tokens (snd (finish_login x cfg now fr ip u db)))"
  using assms
  by (fastforce simp: finish_login_def Let_def image_iff split: sum.splits prod.splits
      dest!: issue_tokens_step)

lemma login_steps:
  assumes "fr_family fr \<notin> rt_family_id ` set (ad_tokens db)"
  shows "token_step\<^sup>*\<^sup>* (ad_tokens db) (ad_tokens (snd (login x cfg now fr ip email pw totp db)))"
  using finish_login_steps [OF assms]
  by (auto simp: login_def Let_def split: option.splits sum.splits)

lemma totp_confirm_steps:
  assumes "fr_family fr \<notin> rt_family_id ` set (ad_tokens db)"
  shows "token_step\<^sup>*\<^sup>* (ad_tokens db) (ad_tokens (snd (totp_confirm x cfg now fr c cred db)))"
  using assms
  by (fastforce simp: totp_confirm_def Let_def image_iff
      split: sum.splits prod.splits option.splits dest!: issue_tokens_step)

lemma live_family_unique:
  assumes "tokens_ok ts" "r \<in> set ts" "s \<in> set ts" "is_live r" "is_live s" "rt_family_id r = rt_family_id s"
  shows "r = s"
proof -
  have "inj_on rt_family_id (set (filter is_live ts))"
    using assms(1) by (simp add: tokens_ok_def distinct_map)
  then show ?thesis using assms(2-) by (auto dest: inj_onD)
qed

lemma refresh_steps:
  assumes "tokens_ok (ad_tokens db)"
  shows "token_step\<^sup>*\<^sup>* (ad_tokens db) (ad_tokens (snd (refresh x cfg now fr tok db)))"
proof -
  have rotate: "token_step\<^sup>*\<^sup>* (ad_tokens db) (ad_tokens db2)"
    if row: "find (\<lambda>r. rt_token_hash r = hash_token tok) (ad_tokens db) = Some row" "rt_revoked_at row = None"
      and new: "issue_tokens x cfg now fr (Some (rt_family_id row)) u
        (db\<lparr>ad_tokens := update_where (\<lambda>r. rt_id r = rt_id row) (revoke_at now) (ad_tokens db)\<rparr>) =
          Inr (resp, db2)" for row u resp db2
  proof -
    let ?ts = "update_where (\<lambda>r. rt_id r = rt_id row) (revoke_at now) (ad_tokens db)"
    have "row \<in> set (ad_tokens db)" using find_SomeD [OF row(1)] by simp
    then have "\<forall>r\<in>set ?ts. rt_family_id r = rt_family_id row \<longrightarrow> \<not> is_live r"
      using live_family_unique [OF assms, of _ row] row(2) by (auto simp: is_live_def)
    then have "token_step ?ts (ad_tokens db2)" using issue_tokens_step [OF new] by simp
    then show ?thesis using token_step.revoke by (meson converse_rtranclp_into_rtranclp r_into_rtranclp)
  qed
  have linked: "token_step\<^sup>*\<^sup>* ts (update_where P (link_to i) ts')"
    if "token_step\<^sup>*\<^sup>* ts ts'" for ts ts' P i
    using that token_step.link [of ts' P i] by simp
  have family: "token_step\<^sup>*\<^sup>* (ad_tokens db) (ad_tokens (revoke_refresh_family now f db))" for f
    by (auto simp: revoke_refresh_family_def intro: token_step.revoke)
  show ?thesis
    by (auto simp: refresh_def Let_def family is_live_def split: option.splits sum.splits prod.splits
        intro: linked rotate)
qed

lemma logout_steps: "token_step\<^sup>*\<^sup>* (ad_tokens db) (ad_tokens (snd (logout x now body cred db)))"
  by (auto simp: logout_def Let_def split: option.splits sum.splits intro: token_step.revoke)

lemma change_password_steps:
  "token_step\<^sup>*\<^sup>* (ad_tokens db) (ad_tokens (snd (change_password x now salt cur new cred db)))"
  by (auto simp: change_password_def Let_def revoke_user_refresh_tokens_def
      split: option.splits sum.splits intro: token_step.revoke)

lemma profile_steps:
  "ad_tokens (snd (totp_setup x cfg now secret rnd salts iv cred db)) = ad_tokens db"
  "ad_tokens (snd (update_my_profile x now name cred db)) = ad_tokens db"
  "ad_tokens (snd (disable_my_totp x now cur cred db)) = ad_tokens db"
  by (auto simp: totp_setup_def update_my_profile_def disable_my_totp_def Let_def
      split: option.splits sum.splits)

lemmas handler_steps =
  login_steps refresh_steps totp_confirm_steps logout_steps change_password_steps

lemma auth_step_tokens:
  "fresh_family e db \<Longrightarrow> tokens_ok (ad_tokens db) \<Longrightarrow>
     token_step\<^sup>*\<^sup>* (ad_tokens db) (ad_tokens (auth_step x cfg e db))"
  by (cases e) (simp_all add: handler_steps profile_steps)

interpretation sessions: step_system "auth_step x cfg" fresh_family "\<lambda>db. tokens_ok (ad_tokens db)" for x cfg
  by unfold_locales (blast intro: token_steps_ok auth_step_tokens)

text \<open>A digest that is dead stays dead along a run.\<close>

interpretation dead_digests: step_system "auth_step x cfg" fresh_family
    "\<lambda>db. tokens_ok (ad_tokens db) \<and> dead h f ex (ad_tokens db)" for x cfg h f ex
  by unfold_locales (blast intro: token_steps_ok token_steps_dead auth_step_tokens)

subsection \<open>The audit log of the component\<close>

definition log_grows :: "audit_row list \<Rightarrow> audit_row list \<Rightarrow> bool" where
  "log_grows log log' \<longleftrightarrow> (\<exists>es. log' = run audit_step es log)"

lemma log_grows_refl [simp]: "log_grows log log"
  unfolding log_grows_def by (rule exI [of _ "[]"]) simp

lemma log_grows_append [simp]: "log_grows log (append_audit now action actor target ip rid mid log)"
  unfolding log_grows_def
  by (rule exI [of _ "[\<lparr>ev_now = now, ev_action = action, ev_actor = actor, ev_target = target,
      ev_ip = ip, ev_request_id = rid, ev_machine_id = mid\<rparr>]"]) (simp add: audit_step_def)

lemma log_grows_chain: "log_grows log log' \<Longrightarrow> chain_ok log \<Longrightarrow> chain_ok log'"
  by (auto simp: log_grows_def intro: audit_log.run_inv)

lemma finish_login_log: "log_grows (ad_log db) (ad_log (snd (finish_login x cfg now fr ip u db)))"
  by (auto simp: finish_login_def Let_def log_audit_def dest: issue_tokens_log split: sum.splits)

lemma auth_step_log: "log_grows (ad_log db) (ad_log (auth_step x cfg e db))"
proof (cases e)
  case (Login now fr ip email pw totp)
  then show ?thesis using finish_login_log
    by (auto simp: login_def Let_def log_audit_def split: option.splits sum.splits)
next
  case (Refresh now fr tok)
  then show ?thesis
    by (auto simp: refresh_def Let_def log_audit_def revoke_refresh_family_def
        dest: issue_tokens_log split: option.splits sum.splits)
next
  case (TotpConfirm now fr c cred)
  then show ?thesis
    by (auto simp: totp_confirm_def Let_def log_audit_def dest: issue_tokens_log
        split: option.splits sum.splits)
next
  case (Logout now body cred)
  then show ?thesis
    by (auto simp: logout_def Let_def log_audit_def split: option.splits sum.splits)
qed (auto simp: totp_setup_def update_my_profile_def disable_my_totp_def change_password_def Let_def
      log_audit_def revoke_user_refresh_tokens_def split: option.splits sum.splits)

interpretation auth_audit: step_system "auth_step x cfg" "\<lambda>_ _. True" "\<lambda>db. chain_ok (ad_log db)" for x cfg
  by unfold_locales (blast intro: log_grows_chain auth_step_log)

subsection \<open>What a dead token does\<close>

lemma revoke_family_dead:
  assumes "t \<in> set (ad_tokens (revoke_refresh_family now f db))" and "rt_family_id t = f"
  shows "\<not> is_live t"
proof -
  from assms(1) have "t \<in> set (update_where (\<lambda>r. rt_family_id r = f \<and> is_live r) (revoke_at now) (ad_tokens db))"
    by (simp add: revoke_refresh_family_def del: set_update_where)
  then show ?thesis using assms(2) by (elim update_whereE) simp_all
qed

lemma refresh_of_dead:
  assumes ok: "tokens_ok (ad_tokens db)" and dead: "dead (hash_token tok) f ex (ad_tokens db)"
    and step: "refresh x cfg now fr tok db = (r, db')"
  shows "r = Inl bad_refresh"
    and "now < ex \<Longrightarrow> decode_token x now tok ''refresh'' = Some p \<Longrightarrow> cl_sub p = Some s \<Longrightarrow>
      parse_uuid s = Some i \<Longrightarrow> \<forall>t\<in>set (ad_tokens db'). rt_family_id t = f \<longrightarrow> \<not> is_live t"
proof -
  from dead obtain row where row: "row \<in> set (ad_tokens db)" "rt_token_hash row = hash_token tok"
      "rt_family_id row = f" "rt_expires_at row = ex" "rt_revoked_at row \<noteq> None"
    by (auto simp: dead_def is_live_def)
  have found: "find (\<lambda>r. rt_token_hash r = hash_token tok) (ad_tokens db) = Some row"
    using find_key [of rt_token_hash "ad_tokens db" row] ok row(1,2) by (simp add: tokens_ok_def)
  show "r = Inl bad_refresh" using step row(5)
    by (auto simp: refresh_def found split: option.splits if_splits)
  show "\<forall>t\<in>set (ad_tokens db'). rt_family_id t = f \<longrightarrow> \<not> is_live t"
    if "now < ex" "decode_token x now tok ''refresh'' = Some p" "cl_sub p = Some s" "parse_uuid s = Some i"
  proof -
    have "db' = log_audit now ''auth.refresh_reuse_detected'' (Some (uuid_str (rt_user_id row))) None None
        (revoke_refresh_family now f db)"
      using step that row(3,5) by (simp add: refresh_def found row(4))
    then show ?thesis using revoke_family_dead [of _ now f db] by simp
  qed
qed

lemma refresh_kills:
  assumes "tokens_ok (ad_tokens db)" and "refresh x cfg now fr tok db = (Inr resp, db1)"
  obtains row where "row \<in> set (ad_tokens db)" "rt_token_hash row = hash_token tok"
    "dead (hash_token tok) (rt_family_id row) (rt_expires_at row) (ad_tokens db1)"
proof -
  from assms(2) obtain row u db2 where row:
      "find (\<lambda>r. rt_token_hash r = hash_token tok) (ad_tokens db) = Some row"
    and new: "issue_tokens x cfg now fr (Some (rt_family_id row)) u
      (db\<lparr>ad_tokens := update_where (\<lambda>r. rt_id r = rt_id row) (revoke_at now) (ad_tokens db)\<rparr>) =
        Inr (resp, db2)"
    and db1: "ad_tokens db1 = ad_tokens db2 \<or> (\<exists>i. ad_tokens db1 = update_where (\<lambda>r. rt_id r = rt_id row) (link_to i) (ad_tokens db2))"
    by (auto simp: refresh_def Let_def split: option.splits sum.splits if_splits prod.splits) blast+
  note member = find_SomeD [OF row]
  let ?ts = "update_where (\<lambda>r. rt_id r = rt_id row) (revoke_at now) (ad_tokens db)"
  have "revoke_at now row \<in> set ?ts"
    unfolding set_update_where using member by (intro image_eqI [of _ _ row]) simp_all
  then have "dead (hash_token tok) (rt_family_id row) (rt_expires_at row) ?ts"
    using member unfolding dead_def by (intro bexI [of _ "revoke_at now row"]) simp_all
  then have "dead (hash_token tok) (rt_family_id row) (rt_expires_at row) (ad_tokens db2)"
    using new by (auto simp: issue_tokens_def Let_def dead_def split: if_splits)
  then have "dead (hash_token tok) (rt_family_id row) (rt_expires_at row) (ad_tokens db1)"
    using db1 token_step_dead [OF token_step.link] by metis
  then show ?thesis using that member by blast
qed

subsection \<open>Properties\<close>

text \<open>C4: along every run of the session operations (with fresh family ids) ids and digests of
  refresh tokens stay unique and no family has two live tokens, and the audit log stays one
  that the chain verification accepts.\<close>

theorem auth_run_keeps_sessions:
  assumes "tokens_ok (ad_tokens db)" and "verify_chain (ad_log db) = (True, None)"
    and "sessions.admissible x cfg es db"
  shows "tokens_ok (ad_tokens (run (auth_step x cfg) es db)) \<and>
    verify_chain (ad_log (run (auth_step x cfg) es db)) = (True, None)"
proof -
  have "auth_audit.admissible x cfg es db" by (induction es arbitrary: db) auto
  with assms show ?thesis
    using sessions.run_inv auth_audit.run_inv by (simp add: verify_chain_ok)
qed

text \<open>C1: a refresh token is good for one rotation. A successful rotation revokes its row, and a
  token whose row is revoked (by rotation, logout or a password change) is refused at every
  later presentation, whatever operations happened in between; if it would still have been
  valid, the presentation revokes every live token of its family.\<close>

theorem refresh_token_single_use:
  assumes "tokens_ok (ad_tokens db)"
  shows "(\<forall>resp db1. refresh x cfg now fr tok db = (Inr resp, db1) \<longrightarrow>
      (\<exists>f ex. dead (hash_token tok) f ex (ad_tokens db1))) \<and>
    (dead (hash_token tok) f ex (ad_tokens db) \<longrightarrow> sessions.admissible x cfg es db \<longrightarrow>
      fst (refresh x cfg now' fr' tok (run (auth_step x cfg) es db)) = Inl bad_refresh \<and>
      (now' < ex \<longrightarrow>
       (\<exists>p s i. decode_token x now' tok ''refresh'' = Some p \<and> cl_sub p = Some s \<and> parse_uuid s = Some i) \<longrightarrow>
         (\<forall>t\<in>set (ad_tokens (snd (refresh x cfg now' fr' tok (run (auth_step x cfg) es db)))).
            rt_family_id t = f \<longrightarrow> \<not> is_live t)))"
proof -
  have kept: "tokens_ok (ad_tokens (run (auth_step x cfg) es db)) \<and>
      dead (hash_token tok) f ex (ad_tokens (run (auth_step x cfg) es db))"
    if "dead (hash_token tok) f ex (ad_tokens db)" "sessions.admissible x cfg es db"
    using that assms dead_digests.run_inv by blast
  show ?thesis
  proof (intro conjI allI impI)
    fix resp db1
    assume "refresh x cfg now fr tok db = (Inr resp, db1)"
    then show "\<exists>f ex. dead (hash_token tok) f ex (ad_tokens db1)" using refresh_kills [OF assms] by metis
  next
    assume "dead (hash_token tok) f ex (ad_tokens db)" "sessions.admissible x cfg es db"
    then show "fst (refresh x cfg now' fr' tok (run (auth_step x cfg) es db)) = Inl bad_refresh"
      using refresh_of_dead(1) [OF conjunct1 [OF kept] conjunct2 [OF kept] surjective_pairing] by metis
  next
    assume "dead (hash_token tok) f ex (ad_tokens db)" "sessions.admissible x cfg es db" "now' < ex"
      "\<exists>p s i. decode_token x now' tok ''refresh'' = Some p \<and> cl_sub p = Some s \<and> parse_uuid s = Some i"
    then show "\<forall>t\<in>set (ad_tokens (snd (refresh x cfg now' fr' tok (run (auth_step x cfg) es db)))).
        rt_family_id t = f \<longrightarrow> \<not> is_live t"
      using refresh_of_dead(2) [OF conjunct1 [OF kept] conjunct2 [OF kept] surjective_pairing] by metis
  qed
qed

definition sample_cfg :: settings where
  "sample_cfg = \<lparr>access_token_expire_minutes = 15, refresh_token_expire_days = 7,
     require_agent_mtls_header = True, data_encryption_key = ''k''\<rparr>"

definition sample_tok :: string where
  "sample_tok = ''r00000000000000000000000000000001.j''"

definition sample_row :: "time option \<Rightarrow> refresh_token" where
  "sample_row revoked = \<lparr>rt_id = 5, rt_user_id = 1, rt_token_hash = hash_token sample_tok,
     rt_family_id = 7, rt_expires_at = seconds 100, rt_revoked_at = revoked, rt_replaced_by = None\<rparr>"

definition sample_db :: "time option \<Rightarrow> auth_db" where
  "sample_db revoked = \<lparr>ad_users = [sample_user], ad_tokens = [sample_row revoked], ad_log = []\<rparr>"

definition sample_fresh :: fresh where
  "sample_fresh = \<lparr>fr_row_id = 6, fr_family = 8, fr_jti = ''k''\<rparr>"

lemma sample_db_ok [simp]: "tokens_ok (ad_tokens (sample_db r))" "verify_chain (ad_log (sample_db r)) = (True, None)"
  by (simp_all add: tokens_ok_def sample_db_def verify_chain_def)

lemma auth_run_keeps_sessions_witness:
  "tokens_ok (ad_tokens (run (auth_step sample_crypto sample_cfg)
     [Login 0 sample_fresh ''ip'' ''a@x'' ''pw'' None, Refresh 1 sample_fresh sample_tok] (sample_db None)))"
proof -
  let ?es = "[Login 0 sample_fresh ''ip'' ''a@x'' ''pw'' None, Refresh 1 sample_fresh sample_tok]"
  have "sessions.admissible sample_crypto sample_cfg ?es (sample_db None)"
    by (simp add: sample_fresh_def sample_db_def sample_row_def)
  then show ?thesis by (intro conjunct1 [OF auth_run_keeps_sessions]) simp_all
qed

lemma sample_sub:
  "decode_token sample_crypto now sample_tok ''refresh'' =
     Some \<lparr>cl_sub = Some ''00000000000000000000000000000001'', cl_role = None, cl_org_id = None,
           cl_exp = now, cl_type = Some ''refresh'', cl_jti = None\<rparr>"
  "parse_uuid ''00000000000000000000000000000001'' = Some 1"
  by (simp_all add: decode_token_def sample_crypto_def sample_tok_def parse_uuid_def Let_def
      hex_value_def is_digit_def char_eval)

lemma refresh_token_single_use_witness:
  "fst (refresh sample_crypto sample_cfg (seconds 2) sample_fresh sample_tok
      (run (auth_step sample_crypto sample_cfg) [Logout 1 None None] (sample_db (Some 0)))) = Inl bad_refresh"
proof -
  have "dead (hash_token sample_tok) 7 (seconds 100) (ad_tokens (sample_db (Some 0)))"
    by (simp add: dead_def sample_db_def sample_row_def is_live_def)
  moreover have "sessions.admissible sample_crypto sample_cfg [Logout 1 None None] (sample_db (Some 0))" by simp
  ultimately show ?thesis
    using refresh_token_single_use [OF sample_db_ok(1) [of "Some 0"], of sample_crypto sample_cfg 0 sample_fresh
        sample_tok 7 "seconds 100" "[Logout 1 None None]" "seconds 2" sample_fresh] by blast
qed

text \<open>C9: a password change ends every session of the user: every refresh token issued to the
  user before it is refused from then on, whatever operations follow.\<close>

theorem change_password_ends_sessions:
  assumes "tokens_ok (ad_tokens db)"
    and "change_password x now salt cur new cred db = (Inr (), db1)"
    and "resolve_user_from_token x now (ad_users db) cred = Inr u"
    and "row \<in> set (ad_tokens db)" and "rt_user_id row = u_id u" and "rt_token_hash row = hash_token tok"
    and "sessions.admissible x cfg es db1"
  shows "fst (refresh x cfg now' fr' tok (run (auth_step x cfg) es db1)) = Inl bad_refresh"
proof -
  have tokens: "ad_tokens db1 = update_where (\<lambda>r. rt_user_id r = u_id u \<and> is_live r) (revoke_at now) (ad_tokens db)"
    using assms(2,3)
    by (auto simp: change_password_def get_current_user_allow_password_change_def Let_def
        revoke_user_refresh_tokens_def split: option.splits if_splits)
  let ?g = "\<lambda>r. if rt_user_id r = u_id u \<and> is_live r then revoke_at now r else r"
  have "?g row \<in> set (ad_tokens db1)" unfolding tokens set_update_where using assms(4) by (rule imageI)
  moreover have "rt_token_hash (?g row) = hash_token tok \<and> rt_family_id (?g row) = rt_family_id row \<and>
      rt_expires_at (?g row) = rt_expires_at row \<and> \<not> is_live (?g row)"
    using assms(5,6) by simp
  ultimately have "dead (hash_token tok) (rt_family_id row) (rt_expires_at row) (ad_tokens db1)"
    unfolding dead_def by blast
  moreover have "tokens_ok (ad_tokens db1)"
    using token_steps_ok [OF change_password_steps assms(1), of x now salt cur new cred] assms(2) by simp
  ultimately have "tokens_ok (ad_tokens (run (auth_step x cfg) es db1)) \<and>
      dead (hash_token tok) (rt_family_id row) (rt_expires_at row) (ad_tokens (run (auth_step x cfg) es db1))"
    using assms(7) dead_digests.run_inv by blast
  then show ?thesis using refresh_of_dead(1) [OF _ _ surjective_pairing] by blast
qed

definition sample_access :: string where
  "sample_access = ''a00000000000000000000000000000001.''"

lemma sample_resolve:
  "resolve_user_from_token sample_crypto now [sample_user] (Some sample_access) = Inr sample_user"
  by (simp add: resolve_user_from_token_def decode_token_def sample_crypto_def sample_access_def
      parse_uuid_def Let_def hex_value_def is_digit_def char_eval sample_user_def)

lemma change_password_ends_sessions_witness:
  "fst (change_password sample_crypto 9 ''s'' [] ''new'' (Some sample_access) (sample_db None)) = Inr () \<and>
   fst (refresh sample_crypto sample_cfg 10 sample_fresh sample_tok
      (snd (change_password sample_crypto 9 ''s'' [] ''new'' (Some sample_access) (sample_db None)))) =
     Inl bad_refresh"
proof -
  let ?r = "change_password sample_crypto 9 ''s'' [] ''new'' (Some sample_access) (sample_db None)"
  have users: "ad_users (sample_db None) = [sample_user]" by (simp add: sample_db_def)
  have pw: "u_password_hash sample_user = Some ''h''" by (simp add: sample_user_def)
  have ok: "?r = (Inr (), snd ?r)"
    unfolding change_password_def get_current_user_allow_password_change_def users sample_resolve
    by (simp add: pw verify_password_def hash_password_def sample_crypto_def Let_def)
  have "fst (refresh sample_crypto sample_cfg 10 sample_fresh sample_tok
      (run (auth_step sample_crypto sample_cfg) [] (snd ?r))) = Inl bad_refresh"
    by (rule change_password_ends_sessions [OF sample_db_ok(1) [of None] ok, where u = sample_user
          and row = "sample_row None"])
      (simp_all add: users sample_resolve, simp_all add: sample_db_def sample_row_def sample_user_def)
  then show ?thesis using ok by (metis fst_conv run.simps(1))
qed


text \<open>Without valid credentials \<open>login\<close> leaves users and tokens as they are and leaves one
  audit row, of the refusal; a first call without the second factor changes nothing at all.\<close>

theorem login_refusal_effects:
  assumes "login x cfg now fr ip email pw totp db = (Inl (HTTPException 401 detail), db')"
  shows "ad_users db' = ad_users db \<and> ad_tokens db' = ad_tokens db \<and>
    (\<exists>action actor. action \<in> {''auth.login_failed'', ''auth.login_blocked'', ''auth.totp_failed''} \<and>
       ad_log db' = append_audit now action actor None (Some ip) None None (ad_log db))"
proof -
  have no: "finish_login x cfg now fr ip u db \<noteq> (Inl (HTTPException 401 detail), db')" for u
    by (auto simp: finish_login_def Let_def internal_error_def issue_tokens_def split: sum.splits)
  have no': "second_factor x cfg now u c \<noteq> Inl (HTTPException 401 detail)" for u c
    by (auto simp: second_factor_def verify_totp_counter_def internal_error_def Let_def
        split: option.splits if_splits)
  have "\<exists>action actor. action \<in> {''auth.login_failed'', ''auth.login_blocked'', ''auth.totp_failed''} \<and>
      db' = log_audit now action actor None (Some ip) db"
  proof (cases "find (\<lambda>u. u_email u \<in> set (login_candidates email)) (ad_users db)")
    case None
    with assms show ?thesis by (auto simp: login_def)
  next
    case (Some u)
    note unfold = login_def Let_def Some option.case
    show ?thesis
    proof (cases "\<not> truthy (u_password_hash u) \<or> \<not> verify_password x pw (the (u_password_hash u))")
      case True
      with assms show ?thesis unfolding unfold by (simp only: if_True) auto
    next
      case pw: False
      show ?thesis
      proof (cases "u_is_active u \<and> u_is_2fa_enabled u \<and> truthy totp")
        case False
        with assms pw no show ?thesis unfolding unfold by (simp only: if_False) (auto split: if_splits)
      next
        case True
        with assms pw no no' show ?thesis unfolding unfold
          by (simp only: if_False simp_thms) (auto split: sum.splits option.splits)
      qed
    qed
  qed
  then obtain action actor where
      "action \<in> {''auth.login_failed'', ''auth.login_blocked'', ''auth.totp_failed''}"
      "db' = log_audit now action actor None (Some ip) db" by (elim exE conjE)
  moreover from this(2) have "ad_log db' = append_audit now action actor None (Some ip) None None (ad_log db)"
    "ad_users db' = ad_users db" "ad_tokens db' = ad_tokens db" by (simp_all add: log_audit_def)
  ultimately show ?thesis by blast
qed

text \<open>A concrete token format, with an expiry check, for the witnesses.\<close>

definition enc_str :: "string \<Rightarrow> string" where
  "enc_str s = concat (map (\<lambda>c. [CHR ''c'', c]) s) @ ''.''"

fun dec_str :: "string \<Rightarrow> string \<times> string" where
  "dec_str (k # c # r) = (if k = CHR ''c'' then (c # fst (dec_str r), snd (dec_str r)) else ([], c # r))"
| "dec_str _ = ([], [])"

lemma dec_enc_str [simp]: "dec_str (enc_str s @ r) = (s, r)"
proof (induction s)
  case Nil
  then show ?case by (cases r) (simp_all add: enc_str_def)
qed (simp add: enc_str_def)

definition enc_opt :: "string option \<Rightarrow> string" where
  "enc_opt v = enc_str (case v of None \<Rightarrow> [] | Some s \<Rightarrow> CHR ''s'' # s)"

definition opt_of :: "string \<Rightarrow> string option" where
  "opt_of s = (case s of [] \<Rightarrow> None | _ # r \<Rightarrow> Some r)"

definition role_text :: "user_role option \<Rightarrow> string" where
  "role_text r = (case r of None \<Rightarrow> ''n'' | Some SUPER_ADMIN \<Rightarrow> ''s'' | Some ORG_ADMIN \<Rightarrow> ''o''
     | Some VIEWER \<Rightarrow> ''v'' | Some ADMIN_GLOBAL \<Rightarrow> ''g'' | Some ADMIN_ORG \<Rightarrow> ''a'')"

definition role_of :: "string \<Rightarrow> user_role option" where
  "role_of s = map_of [(''s'', SUPER_ADMIN), (''o'', ORG_ADMIN), (''v'', VIEWER), (''g'', ADMIN_GLOBAL),
     (''a'', ADMIN_ORG)] s"

definition int_text :: "int \<Rightarrow> string" where
  "int_text i = (if i < 0 then CHR ''-'' else CHR ''+'') # replicate (nat \<bar>i\<bar>) (CHR ''1'')"

definition int_of_text :: "string \<Rightarrow> int" where
  "int_of_text s = (if hd s = CHR ''-'' then - int (length (tl s)) else int (length (tl s)))"

definition enc_claims :: "claims \<Rightarrow> string" where
  "enc_claims c = enc_opt (cl_sub c) @ enc_str (role_text (cl_role c)) @ enc_opt (cl_org_id c) @
     enc_str (int_text (cl_exp c)) @ enc_opt (cl_type c) @ enc_opt (cl_jti c)"

definition dec_claims :: "string \<Rightarrow> claims" where
  "dec_claims s0 =
     (let (sub, s1) = dec_str s0; (role, s2) = dec_str s1; (org, s3) = dec_str s2;
          (ex, s4) = dec_str s3; (ty, s5) = dec_str s4; (jti, s6) = dec_str s5
      in \<lparr>cl_sub = opt_of sub, cl_role = role_of role, cl_org_id = opt_of org,
          cl_exp = int_of_text ex, cl_type = opt_of ty, cl_jti = opt_of jti\<rparr>)"

lemma enc_parts [simp]:
  "dec_str (enc_opt v @ r) = (case v of None \<Rightarrow> [] | Some s \<Rightarrow> CHR ''s'' # s, r)"
  "opt_of (case v of None \<Rightarrow> [] | Some s \<Rightarrow> CHR ''s'' # s) = v"
  "role_of (role_text ro) = ro" "int_of_text (int_text i) = i"
  by (simp_all add: enc_opt_def opt_of_def role_of_def role_text_def int_of_text_def int_text_def
      split: option.splits user_role.splits)

lemma dec_enc_claims [simp]: "dec_claims (enc_claims c) = c"
  using enc_parts(1) [of "cl_jti c" "[]"] by (simp add: dec_claims_def enc_claims_def)

definition codec_crypto :: crypto where
  "codec_crypto = sample_crypto\<lparr>jwt_encode := enc_claims,
     jwt_decode := \<lambda>t s. if t < cl_exp (dec_claims s) then Some (dec_claims s) else None\<rparr>"


lemma login_refusal_effects_witness:
  "ad_tokens (snd (login sample_crypto sample_cfg 9 sample_fresh ''ip'' ''nobody'' ''pw'' None
     ((sample_db None)\<lparr>ad_users := []\<rparr>))) = ad_tokens (sample_db None)"
proof -
  let ?db = "(sample_db None)\<lparr>ad_users := []\<rparr>"
  let ?r = "login sample_crypto sample_cfg 9 sample_fresh ''ip'' ''nobody'' ''pw'' None ?db"
  have "?r = (Inl (HTTPException 401 ''Sai email hoac mat khau''), snd ?r)" by (simp add: login_def Let_def)
  then have "ad_tokens (snd ?r) = ad_tokens ?db" using login_refusal_effects by blast
  then show ?thesis by simp
qed

subsection \<open>The second factor\<close>

lemma find_put:
  assumes "distinct (map u_id users)" and "find P users = Some u" and "P u'" and "u_id u' = u_id u"
  shows "find P (update_where (\<lambda>r. u_id r = u_id u') (\<lambda>_. u') users) = Some u'"
  using assms(1,2)
proof (induction users)
  case (Cons v users)
  show ?case
  proof (cases "P v")
    case True
    with Cons assms show ?thesis by (simp add: update_where_def)
  next
    case False
    with Cons.prems have "u_id v \<noteq> u_id u'" using assms(4) by (auto dest!: find_SomeD)
    with Cons False show ?thesis by (simp add: update_where_def)
  qed
qed simp

lemma finish_login_users:
  "finish_login x cfg now fr ip u db = (Inr resp, db1) \<Longrightarrow>
     ad_users db1 = update_where (\<lambda>r. u_id r = u_id u) (\<lambda>_. u\<lparr>u_last_login_at := Some now\<rparr>) (ad_users db)"
  by (auto simp: finish_login_def Let_def put_user_def dest!: issue_tokens_log split: sum.splits)

text \<open>C7: a one-time code is accepted once. After a login that consumed the code of time step
  \<open>c\<close>, a login with a code of the same or an earlier step is refused, whichever clock reading
  it comes with, unless the code is also one of the user's backup codes.\<close>

theorem totp_code_single_use:
  assumes ids: "distinct (map u_id (ad_users db))"
    and found: "find (\<lambda>u. u_email u \<in> set (login_candidates email)) (ad_users db) = Some u"
    and two: "u_is_2fa_enabled u" "u_totp_secret_encrypted u = Some ct" "ct \<noteq> []"
      "decrypt_aes_gcm x cfg ct = Some secret"
    and first: "login x cfg now fr ip email pw (Some c1) db = (Inr resp, db1)" "c1 \<noteq> []"
      "verify_totp_counter x now secret c1 = Inr (Some n1)" "n1 \<noteq> 0" "use_backup_code x u c1 = None"
    and again: "verify_totp_counter x now' secret c2 = Inr (Some n2)" "n2 \<le> n1" "c2 \<noteq> []"
      "use_backup_code x u c2 = None"
  shows "fst (login x cfg now' fr' ip' email pw (Some c2) db1) = Inl (HTTPException 401 ''Ma 2FA khong dung'')"
proof -
  let ?u' = "u\<lparr>u_totp_last_counter := Some n1\<rparr>"
  have pw: "truthy (u_password_hash u)" "verify_password x pw (the (u_password_hash u))" "u_is_active u"
    using first(1) found by (auto simp: login_def Let_def split: if_splits)
  have second: "second_factor x cfg now u c1 = Inr (if n1 > last_counter u then Some ?u' else None)"
    using two first(3,5) by (simp add: second_factor_def)
  have "n1 > last_counter u"
    using first(1) found pw two first(2) second by (auto simp: login_def Let_def split: if_splits)
  then have "finish_login x cfg now fr ip ?u' db = (Inr resp, db1)"
    using first(1) found pw two first(2) second by (simp add: login_def Let_def)
  note users = finish_login_users [OF this]
  let ?v = "?u'\<lparr>u_last_login_at := Some now\<rparr>"
  have "find (\<lambda>u. u_email u \<in> set (login_candidates email)) (ad_users db1) = Some ?v"
    using find_put [OF ids found, of ?v] find_SomeD [OF found] users by simp
  moreover have "second_factor x cfg now' ?v c2 = Inr None"
    using two again first(4) by (auto simp: second_factor_def last_counter_def use_backup_code_def Let_def split: option.splits)
  ultimately show ?thesis using pw two again(3) by (simp add: login_def Let_def)
qed

definition sample_secret :: string where
  "sample_secret = encrypt_aes_gcm sample_crypto sample_cfg (replicate 12 7) ''JBSWY3DP''"

definition totp_user :: user where
  "totp_user = sample_user\<lparr>u_totp_secret_encrypted := Some sample_secret, u_is_2fa_enabled := True\<rparr>"

definition totp_db :: auth_db where
  "totp_db = \<lparr>ad_users = [totp_user], ad_tokens = [], ad_log = []\<rparr>"

lemma sample_secret_simps [simp]:
  "decrypt_aes_gcm sample_crypto sample_cfg sample_secret = Some ''JBSWY3DP''" "sample_secret \<noteq> []"
proof -
  show "decrypt_aes_gcm sample_crypto sample_cfg sample_secret = Some ''JBSWY3DP''"
    unfolding sample_secret_def by (rule sample_aes_roundtrip) simp_all
  show "sample_secret \<noteq> []"
    by (simp add: sample_secret_def encrypt_aes_gcm_def)
qed

lemma totp_user_simps [simp]:
  "u_is_2fa_enabled totp_user" "u_totp_secret_encrypted totp_user = Some sample_secret"
  "u_password_hash totp_user = Some ''h''" "u_is_active totp_user" "u_backup_codes totp_user = None"
  "u_email totp_user = ''a@x''" "u_totp_last_counter totp_user = None" "u_id totp_user = 1"
  "\<not> u_must_change_password totp_user"
  by (simp_all add: totp_user_def sample_user_def)

lemma sample_login_found:
  "find (\<lambda>u. u_email u \<in> set (login_candidates ''a@x'')) (ad_users totp_db) = Some totp_user"
proof -
  have "lower (strip ''a@x'') = ''a@x''"
    by (simp add: lower_def lower_char_def strip_def lstrip_def is_space_def char_eval)
  then have "''a@x'' \<in> set (login_candidates ''a@x'')" by (simp add: login_candidates_def Let_def)
  then show ?thesis by (simp add: totp_db_def)
qed

lemma sample_counter:
  "verify_totp_counter sample_crypto 3000000000 ''JBSWY3DP'' ''100'' = Inr (Some 100)"
  "verify_totp_counter sample_crypto 3020000000 ''JBSWY3DP'' ''100'' = Inr (Some 100)"
  "verify_totp_counter sample_crypto 3000000000 ''JBSWY3DP'' ''101'' = Inr (Some 101)"
  by (simp_all add: verify_totp_counter_def is_ascii_def strip_def lstrip_def is_space_def Let_def
      sample_crypto_def totp_interval_def str_int_def digits_of.simps char_eval)

lemma totp_code_single_use_witness:
  "fst (login sample_crypto sample_cfg 3000000000 sample_fresh ''ip'' ''a@x'' [] (Some ''100'') totp_db) \<noteq>
     Inl (HTTPException 401 ''Ma 2FA khong dung'') \<and>
   fst (login sample_crypto sample_cfg 3020000000 sample_fresh ''ip'' ''a@x'' [] (Some ''100'')
     (snd (login sample_crypto sample_cfg 3000000000 sample_fresh ''ip'' ''a@x'' [] (Some ''100'') totp_db))) =
     Inl (HTTPException 401 ''Ma 2FA khong dung'')"
proof -
  let ?l = "login sample_crypto sample_cfg 3000000000 sample_fresh ''ip'' ''a@x'' [] (Some ''100'') totp_db"
  have second: "second_factor sample_crypto sample_cfg 3000000000 totp_user ''100'' =
      Inr (Some (totp_user\<lparr>u_totp_last_counter := Some 100\<rparr>))"
    by (simp add: second_factor_def sample_counter(1) last_counter_def)
  have pw: "verify_password sample_crypto [] ''h''" by (simp add: verify_password_def sample_crypto_def)
  have "\<exists>resp. fst ?l = Inr resp"
    unfolding login_def sample_login_found Let_def option.case
    by (simp add: pw second finish_login_def issue_tokens_def totp_db_def Let_def put_user_def log_audit_def)
  then obtain resp where ok: "?l = (Inr resp, snd ?l)" by (metis prod.collapse)
  have "fst (login sample_crypto sample_cfg 3020000000 sample_fresh ''ip'' ''a@x'' [] (Some ''100'') (snd ?l)) =
     Inl (HTTPException 401 ''Ma 2FA khong dung'')"
    by (rule totp_code_single_use [OF _ sample_login_found _ _ _ sample_secret_simps(1) ok _ sample_counter(1)
          _ _ sample_counter(2)])
      (simp_all add: totp_db_def use_backup_code_def)
  with ok show ?thesis by (metis Inl_Inr_False fst_conv)
qed

lemma get_current_user_found:
  assumes "get_current_user x now users cred = Inr u"
  shows "find (\<lambda>v. u_id v = u_id u) users = Some u" "u_is_active u" "\<not> u_must_change_password u"
proof -
  obtain i where "find (\<lambda>v. u_id v = i) users = Some u"
    using assms by (auto simp: get_current_user_def resolve_user_from_token_def
        split: option.splits sum.splits if_splits)
  then show "find (\<lambda>v. u_id v = u_id u) users = Some u" using find_SomeD by fastforce
  show "u_is_active u" "\<not> u_must_change_password u"
    using assms by (auto simp: get_current_user_def resolve_user_from_token_def
        split: option.splits sum.splits if_splits)
qed

text \<open>Confirming the second factor sets the replay counter to the step of the confirming
  code, also when a later step has been consumed already: a code of a step above it, which
  \<open>login\<close> had consumed, is accepted again.\<close>

theorem totp_confirm_reopens_codes:
  assumes "distinct (map u_id (ad_users db))"
    and "get_current_user x now (ad_users db) cred = Inr u"
    and "u_totp_secret_encrypted u = Some ct" and "ct \<noteq> []" and "decrypt_aes_gcm x cfg ct = Some secret"
    and "verify_totp_counter x now secret c0 = Inr (Some n0)"
    and "totp_confirm x cfg now fr c0 cred db = (Inr resp, db1)"
    and "u_totp_last_counter u = Some n1" and "n0 < n1"
    and "verify_totp_counter x now' secret c1 = Inr (Some n1)"
  shows "\<exists>u1. find (\<lambda>v. u_id v = u_id u) (ad_users db1) = Some u1 \<and>
    u_totp_last_counter u1 = Some n0 \<and>
    second_factor x cfg now' u1 c1 = Inr (Some (u1\<lparr>u_totp_last_counter := Some n1\<rparr>))"
proof -
  let ?u1 = "u\<lparr>u_is_2fa_enabled := True, u_totp_last_counter := Some n0\<rparr>"
  have "ad_users db1 = update_where (\<lambda>r. u_id r = u_id u) (\<lambda>_. ?u1) (ad_users db)"
    using assms(2-7) by (auto simp: totp_confirm_def Let_def put_user_def dest!: issue_tokens_log
        split: sum.splits prod.splits)
  then have "find (\<lambda>v. u_id v = u_id u) (ad_users db1) = Some ?u1"
    using find_put [OF assms(1) get_current_user_found(1) [OF assms(2)], of ?u1] by simp
  then show ?thesis
    using assms(3-5,9,10) by (simp add: second_factor_def last_counter_def)
qed

definition reuse_user :: user where
  "reuse_user = totp_user\<lparr>u_totp_last_counter := Some 101\<rparr>"

lemma totp_confirm_reopens_codes_witness:
  "\<exists>u1. find (\<lambda>v. u_id v = 1)
       (ad_users (snd (totp_confirm sample_crypto sample_cfg 3000000000 sample_fresh ''100''
          (Some sample_access) (totp_db\<lparr>ad_users := [reuse_user]\<rparr>)))) = Some u1 \<and>
     second_factor sample_crypto sample_cfg 3000000000 u1 ''101'' =
       Inr (Some (u1\<lparr>u_totp_last_counter := Some 101\<rparr>))"
proof -
  let ?db = "totp_db\<lparr>ad_users := [reuse_user]\<rparr>"
  let ?r = "totp_confirm sample_crypto sample_cfg 3000000000 sample_fresh ''100'' (Some sample_access) ?db"
  have user: "u_totp_secret_encrypted reuse_user = Some sample_secret" "u_id reuse_user = 1"
    "u_is_active reuse_user" "\<not> u_must_change_password reuse_user" "u_totp_last_counter reuse_user = Some 101"
    by (simp_all add: reuse_user_def)
  have "decode_token sample_crypto 3000000000 sample_access ''access'' =
     Some \<lparr>cl_sub = Some ''00000000000000000000000000000001'', cl_role = None, cl_org_id = None,
           cl_exp = 3000000000, cl_type = Some ''access'', cl_jti = None\<rparr>"
    by (simp add: decode_token_def sample_crypto_def sample_access_def)
  then have current: "get_current_user sample_crypto 3000000000 (ad_users ?db) (Some sample_access) = Inr reuse_user"
    by (simp add: get_current_user_def resolve_user_from_token_def sample_sub(2) user)
  have "\<exists>resp. fst ?r = Inr resp"
    unfolding totp_confirm_def current
    by (simp add: user sample_counter(1) issue_tokens_def totp_db_def Let_def put_user_def log_audit_def)
  then obtain resp where ok: "?r = (Inr resp, snd ?r)" by (metis prod.collapse)
  show ?thesis
    using totp_confirm_reopens_codes [OF _ current user(1) sample_secret_simps(2,1) sample_counter(1) ok
        user(5) _ sample_counter(3)] user(2) by auto
qed

end
