(* ===== verification/AgentSettings.thy ===== *)
theory AgentSettings
  imports Auth
begin

text \<open>
  The configuration agents receive (\<open>services/agent_settings.py\<close>,
  \<open>Settings.agent_config_payload\<close> and \<open>effective_online_ttl_seconds\<close> of
  \<open>core/config.py\<close>, the handlers of \<open>api/routes/agent_settings.py\<close> and
  \<open>api/routes/agent_config.py\<close>): the environment defaults, the single override row, the
  effective configuration, its canonical digest, and the bounded update.
\<close>

subsection \<open>Configuration\<close>

record env =
  es_online_ttl_seconds :: "int option"
  es_heartbeat_interval_seconds :: int
  es_heartbeat_jitter_seconds :: int
  es_inventory_interval_hours :: int
  es_agent_server_url :: string
  es_portal_url :: string
  es_client_cert_valid_days :: int

record config_override =
  co_heartbeat_interval_seconds :: "int option"
  co_heartbeat_jitter_seconds :: "int option"
  co_inventory_interval_hours :: "int option"
  co_agent_server_url :: "string option"
  co_portal_url :: "string option"
  co_updated_at :: time
  co_updated_by :: "uuid option"

record agent_cfg =
  ac_heartbeat_interval_seconds :: int
  ac_heartbeat_jitter_seconds :: int
  ac_online_ttl_seconds :: int
  ac_inventory_interval_hours :: int
  ac_renew_before_percent :: int
  ac_agent_server_url :: string
  ac_portal_url :: string

definition effective_online_ttl_seconds :: "env \<Rightarrow> int" where
  "effective_online_ttl_seconds e =
     (case es_online_ttl_seconds e of
        Some t \<Rightarrow> t
      | None \<Rightarrow> 2 * (es_heartbeat_interval_seconds e + es_heartbeat_jitter_seconds e))"

definition agent_config_payload :: "env \<Rightarrow> agent_cfg" where
  "agent_config_payload e =
     \<lparr>ac_heartbeat_interval_seconds = es_heartbeat_interval_seconds e,
      ac_heartbeat_jitter_seconds = es_heartbeat_jitter_seconds e,
      ac_online_ttl_seconds = effective_online_ttl_seconds e,
      ac_inventory_interval_hours = es_inventory_interval_hours e,
      ac_renew_before_percent = 70,
      ac_agent_server_url = es_agent_server_url e, ac_portal_url = es_portal_url e\<rparr>"

definition or_default :: "'a option \<Rightarrow> 'a \<Rightarrow> 'a" where
  "or_default x d = (case x of None \<Rightarrow> d | Some v \<Rightarrow> v)"

definition or_truthy :: "string option \<Rightarrow> string \<Rightarrow> string" where
  "or_truthy x d = (case x of None \<Rightarrow> d | Some v \<Rightarrow> if v = [] then d else v)"

definition effective_agent_config :: "env \<Rightarrow> config_override option \<Rightarrow> agent_cfg" where
  "effective_agent_config e ov =
     (let cfg = agent_config_payload e in
      case ov of
        None \<Rightarrow> cfg
      | Some r \<Rightarrow>
          (let hb = or_default (co_heartbeat_interval_seconds r) (ac_heartbeat_interval_seconds cfg);
               jit = or_default (co_heartbeat_jitter_seconds r) (ac_heartbeat_jitter_seconds cfg)
           in \<lparr>ac_heartbeat_interval_seconds = hb, ac_heartbeat_jitter_seconds = jit,
               ac_online_ttl_seconds = 2 * (hb + jit),
               ac_inventory_interval_hours =
                 or_default (co_inventory_interval_hours r) (ac_inventory_interval_hours cfg),
               ac_renew_before_percent = ac_renew_before_percent cfg,
               ac_agent_server_url = or_truthy (co_agent_server_url r) (es_agent_server_url e),
               ac_portal_url = or_truthy (co_portal_url r) (es_portal_url e)\<rparr>))"

definition agent_config_canonical :: "agent_cfg \<Rightarrow> string" where
  "agent_config_canonical cfg =
     dumps_compact (sort_keys (JObj
       [(''endpoints'', JArr [JStr (ac_agent_server_url cfg)]),
        (''heartbeat_interval_seconds'', JInt (ac_heartbeat_interval_seconds cfg)),
        (''heartbeat_jitter_seconds'', JInt (ac_heartbeat_jitter_seconds cfg)),
        (''inventory_interval_hours'', JInt (ac_inventory_interval_hours cfg)),
        (''renew_before_percent'', JInt (ac_renew_before_percent cfg))]))"

definition compute_agent_config_hash :: "agent_cfg \<Rightarrow> string" where
  "compute_agent_config_hash cfg = sha256_hex (agent_config_canonical cfg)"

subsection \<open>The update\<close>

definition limits :: "(string \<times> int \<times> int) list" where
  "limits = [(''heartbeat_interval_seconds'', 5, 3600), (''heartbeat_jitter_seconds'', 0, 600),
             (''inventory_interval_hours'', 1, 168)]"

record settings_update =
  su_heartbeat_interval_seconds :: "int option"
  su_heartbeat_jitter_seconds :: "int option"
  su_inventory_interval_hours :: "int option"
  su_agent_server_url :: "string option"
  su_portal_url :: "string option"

definition update_field :: "settings_update \<Rightarrow> string \<Rightarrow> int option" where
  "update_field body field =
     (if field = ''heartbeat_interval_seconds'' then su_heartbeat_interval_seconds body
      else if field = ''heartbeat_jitter_seconds'' then su_heartbeat_jitter_seconds body
      else su_inventory_interval_hours body)"

text \<open>The loop over \<open>LIMITS\<close>: the first field that is out of its range.\<close>

definition out_of_limits :: "settings_update \<Rightarrow> (string \<times> int \<times> int) option" where
  "out_of_limits body =
     find (\<lambda>(field, lo, hi). case update_field body field of
             None \<Rightarrow> False | Some v \<Rightarrow> \<not> (lo \<le> v \<and> v \<le> hi)) limits"

definition blank :: "string option \<Rightarrow> bool" where
  "blank x = (case x of None \<Rightarrow> False | Some s \<Rightarrow> strip s = [])"

definition override_value :: "int option \<Rightarrow> int \<Rightarrow> int option \<Rightarrow> int option" where
  "override_value v dflt old =
     (case v of None \<Rightarrow> old | Some n \<Rightarrow> if n = dflt then None else Some n)"

definition apply_settings_update ::
  "env \<Rightarrow> time \<Rightarrow> uuid \<Rightarrow> settings_update \<Rightarrow> config_override option \<Rightarrow> config_override" where
  "apply_settings_update e now admin body ov =
     (let r = (case ov of
                 Some r \<Rightarrow> r
               | None \<Rightarrow> \<lparr>co_heartbeat_interval_seconds = None, co_heartbeat_jitter_seconds = None,
                          co_inventory_interval_hours = None, co_agent_server_url = None,
                          co_portal_url = None, co_updated_at = now, co_updated_by = None\<rparr>)
      in \<lparr>co_heartbeat_interval_seconds =
            override_value (su_heartbeat_interval_seconds body) (es_heartbeat_interval_seconds e)
              (co_heartbeat_interval_seconds r),
          co_heartbeat_jitter_seconds =
            override_value (su_heartbeat_jitter_seconds body) (es_heartbeat_jitter_seconds e)
              (co_heartbeat_jitter_seconds r),
          co_inventory_interval_hours =
            override_value (su_inventory_interval_hours body) (es_inventory_interval_hours e)
              (co_inventory_interval_hours r),
          co_agent_server_url =
            (case su_agent_server_url body of None \<Rightarrow> co_agent_server_url r | Some u \<Rightarrow> Some (strip u)),
          co_portal_url =
            (case su_portal_url body of None \<Rightarrow> co_portal_url r | Some u \<Rightarrow> Some (strip u)),
          co_updated_at = now, co_updated_by = Some admin\<rparr>)"

record settings_db =
  sd_override :: "config_override option"
  sd_users :: "user list"
  sd_log :: "audit_row list"

definition update_agent_settings ::
  "crypto \<Rightarrow> env \<Rightarrow> time \<Rightarrow> string \<Rightarrow> settings_update \<Rightarrow> string option \<Rightarrow> settings_db \<Rightarrow>
   (http_error + agent_cfg) \<times> settings_db" where
  "update_agent_settings x e now ip body cred db =
     (case require_super_admin x now (sd_users db) cred of
        Inl err \<Rightarrow> (Inl err, db)
      | Inr admin \<Rightarrow>
          (case out_of_limits body of
             Some (field, lo, hi) \<Rightarrow>
               (Inl (HTTPException 422 (field @ '' phai trong ['' @ str_int lo @ '', '' @ str_int hi @ '']'')), db)
           | None \<Rightarrow>
               if blank (su_agent_server_url body) then (Inl (HTTPException 422 ''URL khong duoc rong''), db)
               else if blank (su_portal_url body) then (Inl (HTTPException 422 ''Portal URL khong duoc rong''), db)
               else (let ov = apply_settings_update e now (u_id admin) body (sd_override db) in
                     (Inr (effective_agent_config e (Some ov)),
                      db\<lparr>sd_override := Some ov,
                         sd_log := append_audit now ''agent_config.update'' (Some (uuid_str (u_id admin)))
                                     (Some ''1'') (Some ip) None None (sd_log db)\<rparr>))))"

text \<open>\<open>GET /api/agent/config\<close>: a valid client certificate is enough.\<close>

definition agent_config_route ::
  "settings \<Rightarrow> env \<Rightarrow> string option \<Rightarrow> string option \<Rightarrow> string option \<Rightarrow> config_override option \<Rightarrow>
   http_error + agent_cfg \<times> string" where
  "agent_config_route st e ssl_verify ssl_cn machine_header ov =
     (case get_client_machine_id st ssl_verify ssl_cn machine_header of
        Inl err \<Rightarrow> Inl err
      | Inr cn \<Rightarrow> (let cfg = effective_agent_config e ov in Inr (cfg, compute_agent_config_hash cfg)))"

subsection \<open>Limits as an invariant\<close>

definition within :: "int \<Rightarrow> int \<Rightarrow> int option \<Rightarrow> bool" where
  "within lo hi v \<longleftrightarrow> (case v of None \<Rightarrow> True | Some n \<Rightarrow> lo \<le> n \<and> n \<le> hi)"

definition override_ok :: "config_override option \<Rightarrow> bool" where
  "override_ok ov \<longleftrightarrow> (case ov of
      None \<Rightarrow> True
    | Some r \<Rightarrow> within 5 3600 (co_heartbeat_interval_seconds r) \<and>
                within 0 600 (co_heartbeat_jitter_seconds r) \<and>
                within 1 168 (co_inventory_interval_hours r))"

lemma within_override [simp]:
  "within lo hi v \<Longrightarrow> within lo hi old \<Longrightarrow> within lo hi (override_value v d old)"
  by (auto simp: within_def override_value_def split: option.splits)

lemma out_of_limits_None:
  "out_of_limits body = None \<longleftrightarrow>
     within 5 3600 (su_heartbeat_interval_seconds body) \<and> within 0 600 (su_heartbeat_jitter_seconds body) \<and>
     within 1 168 (su_inventory_interval_hours body)"
  by (auto simp: out_of_limits_def limits_def update_field_def within_def split: option.splits)

lemma override_ok_update:
  "override_ok ov \<Longrightarrow> out_of_limits body = None \<Longrightarrow>
     override_ok (Some (apply_settings_update e now admin body ov))"
  by (auto simp: override_ok_def apply_settings_update_def out_of_limits_None within_def [of _ _ None]
      Let_def split: option.splits)

subsection \<open>Numbers are read back from their text\<close>

lemma digits_of_unique:
  assumes "digits_of m @ c # r = digits_of n @ d # q" and "\<not> is_digit c" and "\<not> is_digit d"
  shows "m = n \<and> c # r = d # q"
proof -
  have "takeWhile is_digit (digits_of k @ e # s) = digits_of k" if "\<not> is_digit e" for k e s
    using that digits_of_digits by (simp add: takeWhile_append)
  then have "digits_of m = digits_of n" using assms by metis
  moreover from this have "m = n" by (metis read_digits_of)
  ultimately show ?thesis using assms(1) by simp
qed

lemma str_int_unique:
  assumes "str_int i @ c # r = str_int j @ d # q" and "\<not> is_digit c" and "\<not> is_digit d"
  shows "i = j \<and> c # r = d # q"
proof -
  have minus: "\<not> is_digit CHR ''-''" by (simp add: is_digit_def char_eval)
  have head: "hd (digits_of n @ s) \<noteq> CHR ''-''" for n s
    using digits_of_digits [of "hd (digits_of n)" n] minus by (metis digits_of_nonempty hd_append hd_in_set)
  show ?thesis
  proof (cases "i < 0"; cases "j < 0")
    assume "i < 0" "j < 0"
    with assms digits_of_unique [of "nat (- i)" c r "nat (- j)" d q] show ?thesis
      by (simp add: str_int_def eq_nat_nat_iff)
  next
    assume "\<not> i < 0" "\<not> j < 0"
    with assms digits_of_unique [of "nat i" c r "nat j" d q] show ?thesis
      by (simp add: str_int_def eq_nat_nat_iff)
  next
    assume "i < 0" "\<not> j < 0"
    with assms(1) head [of "nat j" "d # q"] show ?thesis by (metis append_Cons list.sel(1) str_int_def)
  next
    assume "\<not> i < 0" "j < 0"
    with assms(1) head [of "nat i" "c # r"] show ?thesis by (metis append_Cons list.sel(1) str_int_def)
  qed
qed

subsection \<open>What the digest identifies\<close>

definition digest_fields :: "agent_cfg \<Rightarrow> string \<times> int \<times> int \<times> int \<times> int" where
  "digest_fields c = (ac_agent_server_url c, ac_heartbeat_interval_seconds c,
     ac_heartbeat_jitter_seconds c, ac_inventory_interval_hours c, ac_renew_before_percent c)"

lemma canonical_shape:
  "agent_config_canonical c =
     (''{'' @ quote ''endpoints'' @ '':['') @ quote (ac_agent_server_url c) @
     '']'' @ ('','' @ quote ''heartbeat_interval_seconds'' @ '':'') @
     str_int (ac_heartbeat_interval_seconds c) @ ('','' @ quote ''heartbeat_jitter_seconds'' @ '':'') @
     str_int (ac_heartbeat_jitter_seconds c) @ ('','' @ quote ''inventory_interval_hours'' @ '':'') @
     str_int (ac_inventory_interval_hours c) @ ('','' @ quote ''renew_before_percent'' @ '':'') @
     str_int (ac_renew_before_percent c) @ ''}''"
  by (simp add: agent_config_canonical_def code_def)

lemma canonical_inj: "agent_config_canonical c = agent_config_canonical d \<Longrightarrow> digest_fields c = digest_fields d"
proof -
  assume eq: "agent_config_canonical c = agent_config_canonical d"
  have sep: "\<not> is_digit CHR '',''" "\<not> is_digit CHR ''}''" by (simp_all add: is_digit_def char_eval)
  note next_int = str_int_unique [OF _ sep(1) sep(1)] str_int_unique [OF _ sep(2) sep(2)]
  have url: "ac_agent_server_url c = ac_agent_server_url d"
    and r1: "str_int (ac_heartbeat_interval_seconds c) @ CHR '','' # quote ''heartbeat_jitter_seconds'' @ '':'' @
      str_int (ac_heartbeat_jitter_seconds c) @ CHR '','' # quote ''inventory_interval_hours'' @ '':'' @
      str_int (ac_inventory_interval_hours c) @ CHR '','' # quote ''renew_before_percent'' @ '':'' @
      str_int (ac_renew_before_percent c) @ ''}'' =
      str_int (ac_heartbeat_interval_seconds d) @ CHR '','' # quote ''heartbeat_jitter_seconds'' @ '':'' @
      str_int (ac_heartbeat_jitter_seconds d) @ CHR '','' # quote ''inventory_interval_hours'' @ '':'' @
      str_int (ac_inventory_interval_hours d) @ CHR '','' # quote ''renew_before_percent'' @ '':'' @
      str_int (ac_renew_before_percent d) @ ''}''"
    using eq unfolding canonical_shape append.assoc same_append_eq quote_unique by simp_all
  note s1 = next_int(1) [OF r1]
  from s1 have r2: "str_int (ac_heartbeat_jitter_seconds c) @ CHR '','' # quote ''inventory_interval_hours'' @ '':'' @
      str_int (ac_inventory_interval_hours c) @ CHR '','' # quote ''renew_before_percent'' @ '':'' @
      str_int (ac_renew_before_percent c) @ ''}'' =
      str_int (ac_heartbeat_jitter_seconds d) @ CHR '','' # quote ''inventory_interval_hours'' @ '':'' @
      str_int (ac_inventory_interval_hours d) @ CHR '','' # quote ''renew_before_percent'' @ '':'' @
      str_int (ac_renew_before_percent d) @ ''}''" by (simp add: quote_unique)
  note s2 = next_int(1) [OF r2]
  from s2 have r3: "str_int (ac_inventory_interval_hours c) @ CHR '','' # quote ''renew_before_percent'' @ '':'' @
      str_int (ac_renew_before_percent c) @ ''}'' =
      str_int (ac_inventory_interval_hours d) @ CHR '','' # quote ''renew_before_percent'' @ '':'' @
      str_int (ac_renew_before_percent d) @ ''}''" by (simp add: quote_unique)
  note s3 = next_int(1) [OF r3]
  from s3 have r4: "str_int (ac_renew_before_percent c) @ ''}'' = str_int (ac_renew_before_percent d) @ ''}''"
    by (simp add: quote_unique)
  note s4 = next_int(2) [OF r4]
  from url s1 s2 s3 s4 show ?thesis by (simp add: digest_fields_def)
qed

lemma effective_update:
  "ac_heartbeat_interval_seconds (effective_agent_config e (Some (apply_settings_update e now a body ov))) =
     or_default (su_heartbeat_interval_seconds body)
       (ac_heartbeat_interval_seconds (effective_agent_config e ov))"
  "ac_inventory_interval_hours (effective_agent_config e (Some (apply_settings_update e now a body ov))) =
     or_default (su_inventory_interval_hours body)
       (ac_inventory_interval_hours (effective_agent_config e ov))"
  by (simp_all add: effective_agent_config_def apply_settings_update_def or_default_def
      override_value_def agent_config_payload_def Let_def split: option.split)

lemma or_default_idem [simp]: "or_default v (or_default v d) = or_default v d"
  by (simp add: or_default_def split: option.split)

subsection \<open>Properties\<close>

text \<open>The stored override never leaves the limits: an update outside them is refused with 422
  and changes nothing; an accepted one keeps every field within its range, is audited, and
  the agents receive the values the administrator sent.\<close>

theorem settings_update_bounded:
  assumes "override_ok (sd_override db)"
    and "update_agent_settings x e now ip body cred db = (r, db')"
  shows "override_ok (sd_override db') \<and>
    (case r of
       Inl err \<Rightarrow> db' = db
     | Inr cfg \<Rightarrow> cfg = effective_agent_config e (sd_override db') \<and>
         (\<exists>admin\<in>set (sd_users db). is_super_admin admin \<and> u_is_active admin \<and> \<not> u_must_change_password admin) \<and>
         length (sd_log db') = Suc (length (sd_log db)) \<and>
         or_default (su_heartbeat_interval_seconds body) (ac_heartbeat_interval_seconds cfg) =
           ac_heartbeat_interval_seconds cfg \<and>
         or_default (su_inventory_interval_hours body) (ac_inventory_interval_hours cfg) =
           ac_inventory_interval_hours cfg)"
proof (cases "require_super_admin x now (sd_users db) cred")
  case (Inl err)
  with assms show ?thesis by (auto simp: update_agent_settings_def)
next
  case (Inr admin)
  then have current: "get_current_user x now (sd_users db) cred = Inr admin" "u_role admin \<in> super_admin_roles"
    by (auto simp: require_super_admin_def require_roles_def split: sum.splits if_splits)
  note admin = get_current_user_found [OF current(1)]
  have member: "admin \<in> set (sd_users db)" using find_SomeD [OF admin(1)] by simp
  show ?thesis
  proof (cases "out_of_limits body = None \<and> \<not> blank (su_agent_server_url body) \<and> \<not> blank (su_portal_url body)")
    case True
    let ?ov = "apply_settings_update e now (u_id admin) body (sd_override db)"
    have db': "sd_override db' = Some ?ov" "length (sd_log db') = Suc (length (sd_log db))"
      and r: "r = Inr (effective_agent_config e (Some ?ov))"
      using assms(2) True Inr by (auto simp: update_agent_settings_def Let_def append_audit_def)
    have "override_ok (sd_override db')" using override_ok_update assms(1) True db'(1) by simp
    moreover have "or_default (su_heartbeat_interval_seconds body)
          (ac_heartbeat_interval_seconds (effective_agent_config e (Some ?ov))) =
        ac_heartbeat_interval_seconds (effective_agent_config e (Some ?ov))"
      "or_default (su_inventory_interval_hours body)
          (ac_inventory_interval_hours (effective_agent_config e (Some ?ov))) =
        ac_inventory_interval_hours (effective_agent_config e (Some ?ov))"
      by (simp_all add: effective_update)
    ultimately show ?thesis
      unfolding r using db' member admin(2,3) current(2) by (auto simp: is_super_admin_def)
  next
    case False
    then show ?thesis using assms Inr
      by (auto simp: update_agent_settings_def split: option.splits if_splits)
  qed
qed

text \<open>The configuration digest an agent compares is that of the five fields it applies: two
  configurations have the same digest exactly when these fields agree, collisions of SHA-256
  on the canonical texts aside.\<close>

theorem config_hash_identifies:
  "compute_agent_config_hash c = compute_agent_config_hash d \<longleftrightarrow>
     digest_fields c = digest_fields d \<or>
     agent_config_canonical c \<noteq> agent_config_canonical d \<and>
       sha256_hex (agent_config_canonical c) = sha256_hex (agent_config_canonical d)"
proof -
  have "digest_fields c = digest_fields d \<Longrightarrow> agent_config_canonical c = agent_config_canonical d"
    unfolding canonical_shape by (simp add: digest_fields_def)
  then show ?thesis using canonical_inj [of c d] by (auto simp: compute_agent_config_hash_def)
qed

definition sample_env :: env where
  "sample_env = \<lparr>es_online_ttl_seconds = None, es_heartbeat_interval_seconds = 30,
     es_heartbeat_jitter_seconds = 8, es_inventory_interval_hours = 24, es_agent_server_url = ''u'',
     es_portal_url = ''p'', es_client_cert_valid_days = 365\<rparr>"

definition sample_settings_db :: settings_db where
  "sample_settings_db =
     \<lparr>sd_override = None, sd_users = [sample_user\<lparr>u_role := SUPER_ADMIN\<rparr>], sd_log = []\<rparr>"

definition sample_update :: settings_update where
  "sample_update = \<lparr>su_heartbeat_interval_seconds = Some 600, su_heartbeat_jitter_seconds = None,
     su_inventory_interval_hours = None, su_agent_server_url = None, su_portal_url = None\<rparr>"

lemma settings_update_bounded_witness:
  "\<exists>cfg. fst (update_agent_settings sample_crypto sample_env 0 ''ip'' sample_update (Some sample_access)
      sample_settings_db) = Inr cfg \<and> ac_heartbeat_interval_seconds cfg = 600 \<and>
    override_ok (sd_override (snd (update_agent_settings sample_crypto sample_env 0 ''ip'' sample_update
      (Some sample_access) sample_settings_db)))"
proof -
  let ?r = "update_agent_settings sample_crypto sample_env 0 ''ip'' sample_update (Some sample_access) sample_settings_db"
  have "decode_token sample_crypto 0 sample_access ''access'' =
     Some \<lparr>cl_sub = Some ''00000000000000000000000000000001'', cl_role = None, cl_org_id = None,
           cl_exp = 0, cl_type = Some ''access'', cl_jti = None\<rparr>"
    by (simp add: decode_token_def sample_crypto_def sample_access_def)
  then have "require_super_admin sample_crypto 0 (sd_users sample_settings_db) (Some sample_access) =
      Inr (sample_user\<lparr>u_role := SUPER_ADMIN\<rparr>)"
    by (simp add: require_super_admin_def require_roles_def get_current_user_def
        resolve_user_from_token_def sample_sub(2) sample_settings_db_def sample_user_def super_admin_roles_def)
  moreover have "out_of_limits sample_update = None" "\<not> blank (su_agent_server_url sample_update)"
    "\<not> blank (su_portal_url sample_update)"
    by (simp_all add: out_of_limits_None within_def blank_def sample_update_def)
  ultimately obtain cfg where cfg: "fst ?r = Inr cfg"
    by (simp add: update_agent_settings_def Let_def)
  have "override_ok (sd_override sample_settings_db)" by (simp add: override_ok_def sample_settings_db_def)
  note bounded = settings_update_bounded [OF this surjective_pairing, of sample_crypto sample_env 0 "''ip''"
      sample_update "Some sample_access"]
  have "or_default (su_heartbeat_interval_seconds sample_update) (ac_heartbeat_interval_seconds cfg) =
      ac_heartbeat_interval_seconds cfg"
    using bounded unfolding cfg sum.case by blast
  then have "ac_heartbeat_interval_seconds cfg = 600" by (simp add: sample_update_def or_default_def)
  with bounded cfg show ?thesis by blast
qed

end
