(* ===== verification/Tags.thy ===== *)
theory Tags
  imports Model "HOL-Library.Product_Lexorder" "HOL-Library.List_Lexorder"
begin

text \<open>
  Machine tags (\<open>server/app/services/tags.py\<close>): the only code that writes
  \<open>machine_tags\<close>. The state is the pair of tables \<open>tags\<close> and \<open>machine_tags\<close>. The invariant
  \<open>tags_ok\<close> contains the two constraints the database puts on \<open>machine_tags\<close> (primary key,
  one classification per machine), so its preservation says that no operation raises an
  integrity error.
\<close>

instantiation tag_kind :: linorder
begin

definition less_eq_tag_kind :: "tag_kind \<Rightarrow> tag_kind \<Rightarrow> bool" where
  "less_eq_tag_kind a b \<longleftrightarrow> a = CLASSIFICATION \<or> b = PURPOSE"

definition less_tag_kind :: "tag_kind \<Rightarrow> tag_kind \<Rightarrow> bool" where
  "less_tag_kind a b \<longleftrightarrow> a = CLASSIFICATION \<and> b = PURPOSE"

instance
proof
  fix a b c :: tag_kind
  show "a < b \<longleftrightarrow> a \<le> b \<and> \<not> b \<le> a" "a \<le> b \<or> b \<le> a" "a \<le> a" "a \<le> b \<Longrightarrow> b \<le> a \<Longrightarrow> a = b"
    by (cases a; cases b; simp add: less_eq_tag_kind_def less_tag_kind_def)+
  show "a \<le> b \<Longrightarrow> b \<le> c \<Longrightarrow> a \<le> c"
    by (cases a; cases b; cases c; simp add: less_eq_tag_kind_def)
qed

end

subsection \<open>State\<close>

record tag_db =
  td_tags :: "tag list"
  td_machine_tags :: "machine_tag list"

definition classification_keys :: "string list" where
  "classification_keys = [''personal'', ''official'', ''bmnn'']"

definition classification_tags :: "(string \<times> string) list" where
  "classification_tags =
     [(''personal'', ''May ca nhan''), (''official'', ''May cong vu''), (''bmnn'', ''May BMNN'')]"

definition default_classification :: string where
  "default_classification = ''official''"

definition classification_colors :: "(string \<times> string) list" where
  "classification_colors =
     [(''personal'', ''bg-sky-50 text-sky-700 ring-sky-600/20''),
      (''official'', ''bg-emerald-50 text-emerald-700 ring-emerald-600/20''),
      (''bmnn'', ''bg-amber-50 text-amber-700 ring-amber-600/20'')]"

subsection \<open>Operations\<close>

definition get_tag_by_key :: "string \<Rightarrow> tag list \<Rightarrow> tag option" where
  "get_tag_by_key key tags = find (\<lambda>t. tag_key t = key) tags"

text \<open>\<open>ids\<close> are the random ids of the rows the loop may add.\<close>

fun ensure_tags_loop :: "nat \<Rightarrow> (string \<times> string) list \<Rightarrow> uuid list \<Rightarrow> tag list \<Rightarrow> tag list" where
  "ensure_tags_loop idx ((key, label) # rest) (i # ids) tags =
     ensure_tags_loop (Suc idx) rest ids
       (case get_tag_by_key key tags of
          Some _ \<Rightarrow> tags
        | None \<Rightarrow> insert_row
            \<lparr>tag_id = i, tag_key = key, tag_label = label, tag_kind = CLASSIFICATION,
             tag_color = map_of classification_colors key, tag_sort_order = int idx,
             tag_is_system = True\<rparr> tags)"
| "ensure_tags_loop idx _ _ tags = tags"

definition ensure_system_tags :: "uuid list \<Rightarrow> tag_db \<Rightarrow> tag_db" where
  "ensure_system_tags ids db = db\<lparr>td_tags := ensure_tags_loop 1 classification_tags ids (td_tags db)\<rparr>"

definition tag_order :: "tag \<Rightarrow> tag_kind \<times> int \<times> string" where
  "tag_order t = (tag_kind t, tag_sort_order t, tag_label t)"

definition list_tags :: "tag_db \<Rightarrow> tag list" where
  "list_tags db = sort_key tag_order (td_tags db)"

definition get_machine_tags :: "uuid \<Rightarrow> tag_db \<Rightarrow> tag list" where
  "get_machine_tags mid db =
     sort_key tag_order
       [t. mt \<leftarrow> td_machine_tags db, mt_machine_id mt = mid, t \<leftarrow> td_tags db, tag_id t = mt_tag_id mt]"

definition get_machine_tag_keys :: "uuid \<Rightarrow> tag_db \<Rightarrow> string option \<times> string list" where
  "get_machine_tag_keys mid db =
     (let tags = get_machine_tags mid db in
      (map_option tag_key (find (\<lambda>t. tag_kind t = CLASSIFICATION) tags),
       map tag_key (filter (\<lambda>t. tag_kind t = PURPOSE) tags)))"

definition has_classification :: "uuid \<Rightarrow> machine_tag list \<Rightarrow> bool" where
  "has_classification mid mts \<longleftrightarrow> (\<exists>mt\<in>set mts. mt_machine_id mt = mid \<and> mt_kind mt = CLASSIFICATION)"

definition new_machine_tag :: "uuid \<Rightarrow> tag \<Rightarrow> tag_kind \<Rightarrow> uuid option \<Rightarrow> machine_tag" where
  "new_machine_tag mid t k actor =
     \<lparr>mt_machine_id = mid, mt_tag_id = tag_id t, mt_kind = k, mt_set_by = actor\<rparr>"

definition ensure_classification :: "uuid \<Rightarrow> string \<Rightarrow> uuid option \<Rightarrow> tag_db \<Rightarrow> tag_db" where
  "ensure_classification mid key0 actor db =
     (let key = (if key0 \<notin> set classification_keys then default_classification else key0) in
      case get_tag_by_key key (td_tags db) of
        None \<Rightarrow> db
      | Some t \<Rightarrow>
          if has_classification mid (td_machine_tags db) then db
          else db\<lparr>td_machine_tags := insert_row (new_machine_tag mid t CLASSIFICATION actor) (td_machine_tags db)\<rparr>)"

definition set_machine_classification :: "uuid \<Rightarrow> string \<Rightarrow> uuid option \<Rightarrow> tag_db \<Rightarrow> bool \<times> tag_db" where
  "set_machine_classification mid key actor db =
     (if key \<notin> set classification_keys then (False, db)
      else case get_tag_by_key key (td_tags db) of
        None \<Rightarrow> (False, db)
      | Some t \<Rightarrow>
          (True, db\<lparr>td_machine_tags :=
             insert_row (new_machine_tag mid t CLASSIFICATION actor)
               (delete_where (\<lambda>mt. mt_machine_id mt = mid \<and> mt_kind mt = CLASSIFICATION)
                  (td_machine_tags db))\<rparr>))"

fun add_purpose_tags :: "uuid \<Rightarrow> uuid option \<Rightarrow> tag list \<Rightarrow> string list \<Rightarrow> machine_tag list \<Rightarrow> machine_tag list" where
  "add_purpose_tags mid actor tags [] mts = mts"
| "add_purpose_tags mid actor tags (key # keys) mts =
     add_purpose_tags mid actor tags keys
       (case get_tag_by_key key tags of
          None \<Rightarrow> mts
        | Some t \<Rightarrow> insert_row (new_machine_tag mid t PURPOSE actor) mts)"

definition valid_purpose_keys :: "string list \<Rightarrow> tag list \<Rightarrow> string list" where
  "valid_purpose_keys keys tags =
     filter (\<lambda>key. case get_tag_by_key key tags of None \<Rightarrow> False | Some t \<Rightarrow> tag_kind t = PURPOSE) (dedup keys)"

definition set_machine_purpose_tags :: "uuid \<Rightarrow> string list \<Rightarrow> uuid option \<Rightarrow> tag_db \<Rightarrow> tag_db" where
  "set_machine_purpose_tags mid keys actor db =
     db\<lparr>td_machine_tags :=
       add_purpose_tags mid actor (td_tags db) (valid_purpose_keys keys (td_tags db))
         (delete_where (\<lambda>mt. mt_machine_id mt = mid \<and> mt_kind mt = PURPOSE) (td_machine_tags db))\<rparr>"

definition apply_token_tags ::
  "uuid \<Rightarrow> string option \<Rightarrow> string list option \<Rightarrow> uuid option \<Rightarrow> tag_db \<Rightarrow> tag_db" where
  "apply_token_tags mid token_classification token_purpose actor db =
     (let classification = (case py_or token_classification (Some default_classification) of
                              None \<Rightarrow> default_classification | Some c \<Rightarrow> c);
          db1 = ensure_classification mid classification actor db;
          purpose = (case token_purpose of None \<Rightarrow> [] | Some ks \<Rightarrow> ks)
      in if purpose \<noteq> [] then set_machine_purpose_tags mid purpose actor db1 else db1)"

definition classification_tag_id :: "string \<Rightarrow> tag_db \<Rightarrow> uuid option" where
  "classification_tag_id key db = map_option tag_id (get_tag_by_key key (td_tags db))"

subsection \<open>Invariant\<close>

definition tag_table_ok :: "tag list \<Rightarrow> bool" where
  "tag_table_ok tags \<longleftrightarrow> distinct (map tag_id tags) \<and> distinct (map tag_key tags) \<and>
     (\<forall>t\<in>set tags. tag_key t \<in> set classification_keys \<longrightarrow> tag_kind t = CLASSIFICATION)"

definition mtags_ok :: "tag list \<Rightarrow> machine_tag list \<Rightarrow> bool" where
  "mtags_ok tags mts \<longleftrightarrow>
     distinct (map (\<lambda>mt. (mt_machine_id mt, mt_tag_id mt)) mts) \<and>
     distinct (map mt_machine_id (filter (\<lambda>mt. mt_kind mt = CLASSIFICATION) mts)) \<and>
     (\<forall>mt\<in>set mts. \<exists>t\<in>set tags. tag_id t = mt_tag_id mt \<and> tag_kind t = mt_kind mt)"

definition tags_ok :: "tag_db \<Rightarrow> bool" where
  "tags_ok db \<longleftrightarrow> tag_table_ok (td_tags db) \<and> mtags_ok (td_tags db) (td_machine_tags db)"

lemma get_tag_SomeD: "get_tag_by_key key tags = Some t \<Longrightarrow> t \<in> set tags \<and> tag_key t = key"
  unfolding get_tag_by_key_def by (drule find_SomeD) simp

lemma tag_id_unique:
  "tag_table_ok tags \<Longrightarrow> s \<in> set tags \<Longrightarrow> t \<in> set tags \<Longrightarrow> tag_id s = tag_id t \<Longrightarrow> s = t"
  by (auto simp: tag_table_ok_def distinct_map dest: inj_onD)

lemma mtags_ok_delete: "mtags_ok tags mts \<Longrightarrow> mtags_ok tags (delete_where P mts)"
  by (auto simp: mtags_ok_def delete_where_def distinct_map_filter distinct_map_subfilter)

lemma mtags_ok_insert:
  assumes "mtags_ok tags mts" and "t \<in> set tags" and "k = tag_kind t"
    and "\<forall>mt\<in>set mts. \<not> (mt_machine_id mt = mid \<and> mt_tag_id mt = tag_id t)"
    and "k = CLASSIFICATION \<longrightarrow> \<not> has_classification mid mts"
  shows "mtags_ok tags (insert_row (new_machine_tag mid t k actor) mts)"
  using assms by (auto simp: mtags_ok_def insert_row_def new_machine_tag_def has_classification_def)

lemma no_row_of_kind:
  assumes "tag_table_ok tags" "mtags_ok tags mts" "t \<in> set tags"
    and "\<forall>mt\<in>set mts. mt_machine_id mt = mid \<longrightarrow> mt_kind mt \<noteq> tag_kind t"
  shows "\<forall>mt\<in>set mts. \<not> (mt_machine_id mt = mid \<and> mt_tag_id mt = tag_id t)"
  using assms tag_id_unique [OF assms(1) _ assms(3)] by (fastforce simp: mtags_ok_def)

lemma classification_tag_kind:
  "tag_table_ok tags \<Longrightarrow> get_tag_by_key key tags = Some t \<Longrightarrow> key \<in> set classification_keys \<Longrightarrow>
     tag_kind t = CLASSIFICATION \<and> t \<in> set tags"
  by (auto simp: tag_table_ok_def dest: get_tag_SomeD)

lemma ensure_classification_ok: "tags_ok db \<Longrightarrow> tags_ok (ensure_classification mid key actor db)"
proof -
  assume ok: "tags_ok db"
  let ?key = "if key \<notin> set classification_keys then default_classification else key"
  have key: "?key \<in> set classification_keys" by (simp add: default_classification_def classification_keys_def)
  show ?thesis
  proof (cases "get_tag_by_key ?key (td_tags db)")
    case (Some t)
    note t = classification_tag_kind [OF _ Some key]
    show ?thesis
    proof (cases "has_classification mid (td_machine_tags db)")
      case False
      have "mtags_ok (td_tags db) (insert_row (new_machine_tag mid t CLASSIFICATION actor) (td_machine_tags db))"
        by (rule mtags_ok_insert)
          (use ok t False no_row_of_kind [of "td_tags db" "td_machine_tags db" t mid] in
            \<open>auto simp: tags_ok_def has_classification_def\<close>)
      with ok Some False show ?thesis by (simp add: ensure_classification_def Let_def tags_ok_def)
    qed (use ok Some in \<open>simp add: ensure_classification_def Let_def\<close>)
  qed (use ok in \<open>simp add: ensure_classification_def Let_def\<close>)
qed

lemma set_machine_classification_ok:
  assumes "tags_ok db"
  shows "tags_ok (snd (set_machine_classification mid key actor db))"
proof (cases "key \<in> set classification_keys")
  case True
  show ?thesis
  proof (cases "get_tag_by_key key (td_tags db)")
    case (Some t)
    let ?mts = "delete_where (\<lambda>mt. mt_machine_id mt = mid \<and> mt_kind mt = CLASSIFICATION) (td_machine_tags db)"
    have t: "tag_kind t = CLASSIFICATION" "t \<in> set (td_tags db)"
      using classification_tag_kind [OF _ Some True] assms by (simp_all add: tags_ok_def)
    have ok: "tag_table_ok (td_tags db)" "mtags_ok (td_tags db) ?mts"
      using assms by (simp_all add: tags_ok_def mtags_ok_delete)
    have "mtags_ok (td_tags db) (insert_row (new_machine_tag mid t CLASSIFICATION actor) ?mts)"
      by (rule mtags_ok_insert [OF ok(2) t(2)])
        (use t no_row_of_kind [OF ok t(2), of mid] in \<open>auto simp: has_classification_def\<close>)
    with assms True Some show ?thesis by (simp add: set_machine_classification_def tags_ok_def)
  qed (use assms True in \<open>simp add: set_machine_classification_def\<close>)
qed (use assms in \<open>simp add: set_machine_classification_def\<close>)

lemma add_purpose_ok:
  assumes "tag_table_ok tags" and "mtags_ok tags mts" and "distinct keys"
    and "\<forall>key\<in>set keys. \<exists>t. get_tag_by_key key tags = Some t \<and> tag_kind t = PURPOSE \<and>
      (\<forall>mt\<in>set mts. \<not> (mt_machine_id mt = mid \<and> mt_tag_id mt = tag_id t))"
  shows "mtags_ok tags (add_purpose_tags mid actor tags keys mts)"
  using assms(2-4)
proof (induction keys arbitrary: mts)
  case (Cons key keys)
  then obtain t where t: "get_tag_by_key key tags = Some t" "tag_kind t = PURPOSE"
    "\<forall>mt\<in>set mts. \<not> (mt_machine_id mt = mid \<and> mt_tag_id mt = tag_id t)" by auto
  have member: "t \<in> set tags" "tag_key t = key" using get_tag_SomeD [OF t(1)] by simp_all
  let ?mts = "insert_row (new_machine_tag mid t PURPOSE actor) mts"
  have ok: "mtags_ok tags ?mts" by (rule mtags_ok_insert) (use Cons.prems(1) member t in simp_all)
  have "\<exists>t'. get_tag_by_key k tags = Some t' \<and> tag_kind t' = PURPOSE \<and>
      (\<forall>mt\<in>set ?mts. \<not> (mt_machine_id mt = mid \<and> mt_tag_id mt = tag_id t'))" if "k \<in> set keys" for k
  proof -
    from that Cons.prems(3) obtain t' where t': "get_tag_by_key k tags = Some t'" "tag_kind t' = PURPOSE"
      "\<forall>mt\<in>set mts. \<not> (mt_machine_id mt = mid \<and> mt_tag_id mt = tag_id t')" by auto
    have "tag_key t' = k" "t' \<in> set tags" using get_tag_SomeD [OF t'(1)] by simp_all
    then have "tag_id t \<noteq> tag_id t'"
      using tag_id_unique [OF assms(1) member(1)] member(2) that Cons.prems(2) by auto
    with t' show ?thesis by (auto simp: new_machine_tag_def)
  qed
  then show ?case using Cons.IH [OF ok] Cons.prems(2) t(1) by simp
qed simp

lemma valid_purpose_keysD:
  "key \<in> set (valid_purpose_keys keys tags) \<Longrightarrow>
     \<exists>t. get_tag_by_key key tags = Some t \<and> tag_kind t = PURPOSE"
  by (auto simp: valid_purpose_keys_def split: option.splits)

lemma set_machine_purpose_tags_ok:
  assumes "tags_ok db"
  shows "tags_ok (set_machine_purpose_tags mid keys actor db)"
proof -
  let ?mts = "delete_where (\<lambda>mt. mt_machine_id mt = mid \<and> mt_kind mt = PURPOSE) (td_machine_tags db)"
  have ok: "tag_table_ok (td_tags db)" "mtags_ok (td_tags db) ?mts"
    using assms by (simp_all add: tags_ok_def mtags_ok_delete)
  have "mtags_ok (td_tags db)
      (add_purpose_tags mid actor (td_tags db) (valid_purpose_keys keys (td_tags db)) ?mts)"
  proof (rule add_purpose_ok [OF ok])
    show "distinct (valid_purpose_keys keys (td_tags db))" by (simp add: valid_purpose_keys_def)
    show "\<forall>key\<in>set (valid_purpose_keys keys (td_tags db)). \<exists>t. get_tag_by_key key (td_tags db) = Some t \<and>
        tag_kind t = PURPOSE \<and> (\<forall>mt\<in>set ?mts. \<not> (mt_machine_id mt = mid \<and> mt_tag_id mt = tag_id t))"
    proof
      fix key
      assume "key \<in> set (valid_purpose_keys keys (td_tags db))"
      then obtain t where t: "get_tag_by_key key (td_tags db) = Some t" "tag_kind t = PURPOSE"
        using valid_purpose_keysD by blast
      have "\<forall>mt\<in>set ?mts. \<not> (mt_machine_id mt = mid \<and> mt_tag_id mt = tag_id t)"
        by (rule no_row_of_kind [OF ok]) (use t get_tag_SomeD [OF t(1)] in auto)
      with t show "\<exists>t. get_tag_by_key key (td_tags db) = Some t \<and> tag_kind t = PURPOSE \<and>
          (\<forall>mt\<in>set ?mts. \<not> (mt_machine_id mt = mid \<and> mt_tag_id mt = tag_id t))" by blast
    qed
  qed
  with assms show ?thesis by (simp add: tags_ok_def set_machine_purpose_tags_def)
qed

lemma apply_token_tags_ok: "tags_ok db \<Longrightarrow> tags_ok (apply_token_tags mid c ks actor db)"
  by (simp add: apply_token_tags_def Let_def ensure_classification_ok set_machine_purpose_tags_ok)

subsection \<open>The component as a step system\<close>

datatype tag_event =
    EnsureClassification uuid string "uuid option"
  | SetClassification uuid string "uuid option"
  | SetPurpose uuid "string list" "uuid option"
  | ApplyToken uuid "string option" "string list option" "uuid option"

fun tag_step :: "tag_event \<Rightarrow> tag_db \<Rightarrow> tag_db" where
  "tag_step (EnsureClassification mid key actor) db = ensure_classification mid key actor db"
| "tag_step (SetClassification mid key actor) db = snd (set_machine_classification mid key actor db)"
| "tag_step (SetPurpose mid keys actor) db = set_machine_purpose_tags mid keys actor db"
| "tag_step (ApplyToken mid c ks actor) db = apply_token_tags mid c ks actor db"

lemma tag_step_ok: "tags_ok db \<Longrightarrow> tags_ok (tag_step e db)"
  by (cases e) (simp_all add: ensure_classification_ok set_machine_classification_ok
      set_machine_purpose_tags_ok apply_token_tags_ok)

interpretation tagging: step_system tag_step "\<lambda>_ _. True" tags_ok
  by unfold_locales (rule tag_step_ok)

lemma tagging_admissible [simp]: "tagging.admissible es db"
  by (induction es arbitrary: db) auto

subsection \<open>What the readers see\<close>

lemma set_get_machine_tags:
  "set (get_machine_tags mid db) =
     {t \<in> set (td_tags db). \<exists>mt\<in>set (td_machine_tags db). mt_machine_id mt = mid \<and> mt_tag_id mt = tag_id t}"
  by (auto simp: get_machine_tags_def)

lemma get_machine_tags_cong:
  assumes "td_tags db' = td_tags db"
    and "filter (\<lambda>mt. mt_machine_id mt = mid) (td_machine_tags db') =
      filter (\<lambda>mt. mt_machine_id mt = mid) (td_machine_tags db)"
  shows "get_machine_tags mid db' = get_machine_tags mid db"
proof -
  have by_machine: "[t. mt \<leftarrow> mts, mt_machine_id mt = mid, t \<leftarrow> tags, tag_id t = mt_tag_id mt] =
      [t. mt \<leftarrow> filter (\<lambda>mt. mt_machine_id mt = mid) mts, t \<leftarrow> tags, tag_id t = mt_tag_id mt]" for mts tags
    by (induction mts) auto
  show ?thesis by (simp add: get_machine_tags_def by_machine assms)
qed

lemma classification_key_eq:
  assumes "tags_ok db" and "mt \<in> set (td_machine_tags db)" and "mt_machine_id mt = mid"
    and "mt_kind mt = CLASSIFICATION" and "t \<in> set (td_tags db)" and "mt_tag_id mt = tag_id t"
  shows "fst (get_machine_tag_keys mid db) = Some (tag_key t)"
proof -
  have table: "tag_table_ok (td_tags db)" and links: "mtags_ok (td_tags db) (td_machine_tags db)"
    using assms(1) by (simp_all add: tags_ok_def)
  have kind: "tag_kind t = CLASSIFICATION"
    using links assms(2,4-6) tag_id_unique [OF table _ assms(5)] by (fastforce simp: mtags_ok_def)
  have only: "s = t" if s: "s \<in> set (get_machine_tags mid db)" "tag_kind s = CLASSIFICATION" for s
  proof -
    from s(1) obtain ms where ms: "ms \<in> set (td_machine_tags db)" "mt_machine_id ms = mid"
      "mt_tag_id ms = tag_id s" "s \<in> set (td_tags db)"
      unfolding set_get_machine_tags by blast
    have "mt_kind ms = CLASSIFICATION"
      using links ms s(2) tag_id_unique [OF table _ ms(4)] by (fastforce simp: mtags_ok_def)
    then have "ms = mt" using links ms(1,2) assms(2-4)
      by (auto simp: mtags_ok_def distinct_map dest: inj_onD)
    with ms assms(5,6) show ?thesis using tag_id_unique [OF table] by metis
  qed
  have "t \<in> set (get_machine_tags mid db)" using assms(2,3,5,6) by (auto simp: set_get_machine_tags)
  then obtain s where "find (\<lambda>t. tag_kind t = CLASSIFICATION) (get_machine_tags mid db) = Some s"
    using find_SomeI [of t "get_machine_tags mid db" "\<lambda>t. tag_kind t = CLASSIFICATION"] kind by blast
  with only [of s] show ?thesis
    by (auto simp: get_machine_tag_keys_def Let_def dest: find_SomeD)
qed

lemma set_purpose_keys:
  "set (snd (get_machine_tag_keys mid db)) =
     tag_key ` {t \<in> set (td_tags db). tag_kind t = PURPOSE \<and>
       (\<exists>mt\<in>set (td_machine_tags db). mt_machine_id mt = mid \<and> mt_tag_id mt = tag_id t)}"
  by (auto simp: get_machine_tag_keys_def Let_def set_get_machine_tags)

subsection \<open>Properties\<close>

text \<open>No sequence of tag operations violates a constraint of \<open>machine_tags\<close>: each machine has
  at most one classification, each pair of machine and tag occurs once, each row's kind is
  the kind of its tag.\<close>

theorem tag_runs_keep_constraints:
  assumes "tags_ok db"
  shows "tags_ok (run tag_step es db)"
  using tagging.run_inv [OF tagging_admissible assms] .

text \<open>Changing the classification of a machine succeeds exactly for a known classification
  key; the machine then reads back as that class, with the same purpose tags, and no other
  machine changes.\<close>

theorem set_classification_view:
  assumes "tags_ok db"
  shows "(fst (set_machine_classification mid key actor db) \<longleftrightarrow>
      key \<in> set classification_keys \<and> get_tag_by_key key (td_tags db) \<noteq> None) \<and>
    (fst (set_machine_classification mid key actor db) \<longrightarrow>
      fst (get_machine_tag_keys mid (snd (set_machine_classification mid key actor db))) = Some key \<and>
      set (snd (get_machine_tag_keys mid (snd (set_machine_classification mid key actor db)))) =
        set (snd (get_machine_tag_keys mid db))) \<and>
    (other \<noteq> mid \<longrightarrow>
      get_machine_tags other (snd (set_machine_classification mid key actor db)) = get_machine_tags other db)"
    (is "?succeeds \<and> ?view \<and> ?frame")
proof -
  have ?succeeds by (auto simp: set_machine_classification_def split: option.splits)
  moreover have ?view
  proof
    assume "fst (set_machine_classification mid key actor db)"
    then obtain t where key: "key \<in> set classification_keys" and t: "get_tag_by_key key (td_tags db) = Some t"
      by (auto simp: set_machine_classification_def split: option.splits if_splits)
    let ?db = "snd (set_machine_classification mid key actor db)"
    let ?row = "new_machine_tag mid t CLASSIFICATION actor"
    have rows: "td_machine_tags ?db = insert_row ?row (delete_where
        (\<lambda>mt. mt_machine_id mt = mid \<and> mt_kind mt = CLASSIFICATION) (td_machine_tags db))"
      and tags: "td_tags ?db = td_tags db"
      using key t by (simp_all add: set_machine_classification_def)
    have kind: "tag_kind t = CLASSIFICATION" "t \<in> set (td_tags db)" "tag_key t = key"
      using classification_tag_kind [OF _ t key] get_tag_SomeD [OF t] assms by (simp_all add: tags_ok_def)
    have "fst (get_machine_tag_keys mid ?db) = Some (tag_key t)"
      by (rule classification_key_eq [OF set_machine_classification_ok [OF assms], of ?row])
        (simp_all add: rows tags kind new_machine_tag_def)
    moreover have "set (snd (get_machine_tag_keys mid ?db)) = set (snd (get_machine_tag_keys mid db))"
    proof -
      have "(\<exists>mt\<in>set (td_machine_tags ?db). mt_machine_id mt = mid \<and> mt_tag_id mt = tag_id s) \<longleftrightarrow>
          (\<exists>mt\<in>set (td_machine_tags db). mt_machine_id mt = mid \<and> mt_tag_id mt = tag_id s)"
        if s: "s \<in> set (td_tags db)" "tag_kind s = PURPOSE" for s
      proof -
        have "tag_id t \<noteq> tag_id s"
          using tag_id_unique [OF _ kind(2) s(1)] kind(1) s(2) assms by (auto simp: tags_ok_def)
        moreover have "mt_kind mt = PURPOSE" if "mt \<in> set (td_machine_tags db)" "mt_tag_id mt = tag_id s" for mt
          using that s assms tag_id_unique [OF _ _ s(1)] by (fastforce simp: tags_ok_def mtags_ok_def)
        ultimately show ?thesis by (auto simp: rows new_machine_tag_def)
      qed
      then show ?thesis unfolding set_purpose_keys tags by blast
    qed
    ultimately show "fst (get_machine_tag_keys mid ?db) = Some key \<and>
        set (snd (get_machine_tag_keys mid ?db)) = set (snd (get_machine_tag_keys mid db))"
      using kind(3) by simp
  qed
  moreover have ?frame
  proof
    assume other: "other \<noteq> mid"
    have "filter (\<lambda>mt. \<not> (mt_machine_id mt = mid \<and> mt_kind mt = CLASSIFICATION) \<and> mt_machine_id mt = other)
        (td_machine_tags db) = filter (\<lambda>mt. mt_machine_id mt = other) (td_machine_tags db)"
      using other by (intro filter_cong) auto
    with other show "get_machine_tags other (snd (set_machine_classification mid key actor db)) =
        get_machine_tags other db"
      by (intro get_machine_tags_cong)
        (auto simp: set_machine_classification_def insert_row_def delete_where_def new_machine_tag_def
          split: option.splits)
  qed
  ultimately show ?thesis by blast
qed

lemma has_classification_add_purpose [simp]:
  "has_classification mid (add_purpose_tags m actor tags keys mts) = has_classification mid mts"
  by (induction m actor tags keys mts rule: add_purpose_tags.induct)
    (auto simp: has_classification_def new_machine_tag_def split: option.splits)

lemma has_classification_set_purpose [simp]:
  "has_classification mid (td_machine_tags (set_machine_purpose_tags m keys actor db)) =
     has_classification mid (td_machine_tags db)"
  by (auto simp: set_machine_purpose_tags_def has_classification_def [of mid "delete_where P mts" for P mts]
      has_classification_def [of mid "td_machine_tags db"])

lemma ensure_classification_adds:
  assumes "\<forall>key\<in>set classification_keys. get_tag_by_key key (td_tags db) \<noteq> None"
    and "\<not> has_classification mid (td_machine_tags db)"
  obtains t where
    "get_tag_by_key (if key \<in> set classification_keys then key else default_classification) (td_tags db) = Some t"
    "ensure_classification mid key actor db =
       db\<lparr>td_machine_tags := insert_row (new_machine_tag mid t CLASSIFICATION actor) (td_machine_tags db)\<rparr>"
proof -
  let ?key = "if key \<in> set classification_keys then key else default_classification"
  have "?key \<in> set classification_keys" by (simp add: default_classification_def classification_keys_def)
  with assms(1) obtain t where "get_tag_by_key ?key (td_tags db) = Some t" by fastforce
  with that assms(2) show ?thesis by (auto simp: ensure_classification_def Let_def split: if_splits)
qed

lemma has_classification_unique:
  assumes "mtags_ok tags mts" and "has_classification mid mts"
  shows "\<exists>!mt. mt \<in> set mts \<and> mt_machine_id mt = mid \<and> mt_kind mt = CLASSIFICATION"
  using assms by (auto simp: mtags_ok_def has_classification_def distinct_map dest: inj_onD)

text \<open>With the system tags in place, a machine that takes the tags of its enrolment token ends
  up with exactly one classification: the one it already had, and otherwise that of the token,
  or \<open>official\<close> where the token names none of the three.\<close>

theorem enrolled_machine_classified:
  assumes "tags_ok db" and "\<forall>key\<in>set classification_keys. get_tag_by_key key (td_tags db) \<noteq> None"
  shows "(\<exists>!mt. mt \<in> set (td_machine_tags (apply_token_tags mid c ks actor db)) \<and>
      mt_machine_id mt = mid \<and> mt_kind mt = CLASSIFICATION) \<and>
    (if has_classification mid (td_machine_tags db) then ensure_classification mid key actor db = db
     else fst (get_machine_tag_keys mid (ensure_classification mid key actor db)) =
        Some (if key \<in> set classification_keys then key else default_classification))"
proof -
  have ensured: "has_classification mid (td_machine_tags (ensure_classification mid k actor db))" for k
  proof (cases "has_classification mid (td_machine_tags db)")
    case True
    then show ?thesis by (auto simp: ensure_classification_def Let_def split: option.splits)
  next
    case False
    then show ?thesis
      by (rule ensure_classification_adds [OF assms(2), where key = k and actor = actor])
        (simp add: has_classification_def new_machine_tag_def)
  qed
  have "has_classification mid (td_machine_tags (apply_token_tags mid c ks actor db))"
    by (simp add: apply_token_tags_def Let_def ensured)
  then have one: "\<exists>!mt. mt \<in> set (td_machine_tags (apply_token_tags mid c ks actor db)) \<and>
      mt_machine_id mt = mid \<and> mt_kind mt = CLASSIFICATION"
    using apply_token_tags_ok [OF assms(1), of mid c ks actor] has_classification_unique
    unfolding tags_ok_def by blast
  have reads: "fst (get_machine_tag_keys mid (ensure_classification mid key actor db)) =
      Some (if key \<in> set classification_keys then key else default_classification)"
    if none: "\<not> has_classification mid (td_machine_tags db)"
  proof -
    obtain t where t:
      "get_tag_by_key (if key \<in> set classification_keys then key else default_classification) (td_tags db) = Some t"
      "ensure_classification mid key actor db =
         db\<lparr>td_machine_tags := insert_row (new_machine_tag mid t CLASSIFICATION actor) (td_machine_tags db)\<rparr>"
      using ensure_classification_adds [OF assms(2) none] .
    have "fst (get_machine_tag_keys mid (ensure_classification mid key actor db)) = Some (tag_key t)"
      by (rule classification_key_eq [OF ensure_classification_ok [OF assms(1)],
            where mt = "new_machine_tag mid t CLASSIFICATION actor"])
        (use get_tag_SomeD [OF t(1)] in \<open>simp_all add: t(2) new_machine_tag_def\<close>)
    with get_tag_SomeD [OF t(1)] show ?thesis by simp
  qed
  have "ensure_classification mid key actor db = db" if "has_classification mid (td_machine_tags db)"
    using that by (simp add: ensure_classification_def Let_def split: option.split)
  with one reads show ?thesis by simp
qed

definition sample_tags :: tag_db where
  "sample_tags = ensure_system_tags [1, 2, 3] \<lparr>td_tags = [], td_machine_tags = []\<rparr>"

lemma sample_tags_simps:
  "td_tags sample_tags =
     [\<lparr>tag_id = 1, tag_key = ''personal'', tag_label = ''May ca nhan'', tag_kind = CLASSIFICATION,
       tag_color = Some ''bg-sky-50 text-sky-700 ring-sky-600/20'', tag_sort_order = 1, tag_is_system = True\<rparr>,
      \<lparr>tag_id = 2, tag_key = ''official'', tag_label = ''May cong vu'', tag_kind = CLASSIFICATION,
       tag_color = Some ''bg-emerald-50 text-emerald-700 ring-emerald-600/20'', tag_sort_order = 2, tag_is_system = True\<rparr>,
      \<lparr>tag_id = 3, tag_key = ''bmnn'', tag_label = ''May BMNN'', tag_kind = CLASSIFICATION,
       tag_color = Some ''bg-amber-50 text-amber-700 ring-amber-600/20'', tag_sort_order = 3, tag_is_system = True\<rparr>]"
  "td_machine_tags sample_tags = []"
  by (simp_all add: sample_tags_def ensure_system_tags_def classification_tags_def get_tag_by_key_def
      classification_colors_def insert_row_def)

lemma sample_tags_ok [simp]: "tags_ok sample_tags"
  by (simp add: tags_ok_def tag_table_ok_def mtags_ok_def sample_tags_simps classification_keys_def)

lemma tag_runs_keep_constraints_witness:
  "tags_ok (run tag_step [SetClassification 9 ''bmnn'' None, SetPurpose 9 [''x''] None] sample_tags)"
  by (rule tag_runs_keep_constraints) simp

lemma set_classification_view_witness:
  "fst (get_machine_tag_keys 9 (snd (set_machine_classification 9 ''bmnn'' None sample_tags))) = Some ''bmnn''"
proof -
  have "fst (set_machine_classification 9 ''bmnn'' None sample_tags)"
    by (simp add: set_machine_classification_def classification_keys_def get_tag_by_key_def sample_tags_simps)
  then show ?thesis using set_classification_view [OF sample_tags_ok] by blast
qed

lemma enrolled_machine_classified_witness:
  "\<exists>!mt. mt \<in> set (td_machine_tags (apply_token_tags 9 (Some ''bmnn'') None None sample_tags)) \<and>
     mt_machine_id mt = 9 \<and> mt_kind mt = CLASSIFICATION"
  by (rule conjunct1 [OF enrolled_machine_classified [OF sample_tags_ok]])
    (simp add: classification_keys_def get_tag_by_key_def sample_tags_simps)

end
