(* ===== verification/Fingerprint.thy ===== *)
theory Fingerprint
  imports Complex_Main Model
begin

text \<open>
  Machine fingerprints (\<open>server/app/services/fingerprint.py\<close>): the weighted identifier, the
  similarity score and the decision whether two fingerprints are of one machine. A
  fingerprint is a dict of strings. Floating-point weights are rational numbers; the number
  of digest characters each component contributes (\<open>int(w * 32)\<close> on floats) is the table
  \<open>prefix_lengths\<close> of its values for the seven sets of present components.
\<close>

definition get_str :: "fingerprint \<Rightarrow> string \<Rightarrow> string" where
  "get_str fp k = (case map_of fp k of None \<Rightarrow> [] | Some v \<Rightarrow> v)"

definition fp_fields :: "string list" where
  "fp_fields = [''smbios_uuid'', ''machine_guid'', ''mainboard_serial'']"

definition present :: "fingerprint \<Rightarrow> string list" where
  "present fp = filter (\<lambda>f. get_str fp f \<noteq> []) fp_fields"

definition prefix_lengths :: "string list \<Rightarrow> nat list" where
  "prefix_lengths ps =
     (if ps = [''smbios_uuid'', ''machine_guid''] then [20, 11]
      else if ps = [''smbios_uuid'', ''mainboard_serial''] then [22, 9]
      else if ps = [''machine_guid'', ''mainboard_serial''] then [19, 12]
      else if ps = fp_fields then [16, 9, 6]
      else [32])"

definition compute_weighted_id :: "fingerprint \<Rightarrow> string" where
  "compute_weighted_id fp =
     (if present fp = []
      then sha256_hex (dumps_default (sort_keys (JObj (map (\<lambda>(k, v). (k, JStr v)) fp))))
      else sha256_hex (concat (map2 (\<lambda>f n. take n (sha256_hex (get_str fp f)))
                                 (present fp) (prefix_lengths (present fp)))))"

subsection \<open>The ratio of difflib's SequenceMatcher\<close>

text \<open>
  \<open>b2j\<close>: the positions of a character in \<open>b\<close>, dropping characters that occur too often in a
  text of 200 or more characters. \<open>find_longest_match\<close>: the length table of the previous
  row is a function; then the two extension loops of the library.
\<close>

definition popular :: "string \<Rightarrow> char \<Rightarrow> bool" where
  "popular b c \<longleftrightarrow> 200 \<le> length b \<and> length b div 100 + 1 < length (filter ((=) c) b)"

definition b2j :: "string \<Rightarrow> char \<Rightarrow> nat list" where
  "b2j b c = (if popular b c then [] else filter (\<lambda>j. b ! j = c) [0..<length b])"

type_synonym match = "nat \<times> nat \<times> nat"

fun match_row ::
  "nat \<Rightarrow> nat list \<Rightarrow> (nat \<Rightarrow> nat) \<Rightarrow> (nat \<Rightarrow> nat) \<Rightarrow> match \<Rightarrow> (nat \<Rightarrow> nat) \<times> match" where
  "match_row i [] old new best = (new, best)"
| "match_row i (j # js) old new (bi, bj, sz) =
     (let k = (if j = 0 then 0 else old (j - 1)) + 1 in
      match_row i js old (new(j := k)) (if k > sz then (i + 1 - k, j + 1 - k, k) else (bi, bj, sz)))"

fun match_rows ::
  "string \<Rightarrow> string \<Rightarrow> nat \<Rightarrow> nat \<Rightarrow> nat list \<Rightarrow> (nat \<Rightarrow> nat) \<Rightarrow> match \<Rightarrow> match" where
  "match_rows a b blo bhi [] old best = best"
| "match_rows a b blo bhi (i # rest) old best =
     (let (new, best') = match_row i (filter (\<lambda>j. blo \<le> j \<and> j < bhi) (b2j b (a ! i))) old (\<lambda>_. 0) best
      in match_rows a b blo bhi rest new best')"

fun extend_back :: "string \<Rightarrow> string \<Rightarrow> nat \<Rightarrow> nat \<Rightarrow> nat \<Rightarrow> match \<Rightarrow> match" where
  "extend_back a b alo blo 0 m = m"
| "extend_back a b alo blo (Suc n) (i, j, k) =
     (if alo < i \<and> blo < j \<and> a ! (i - 1) = b ! (j - 1)
      then extend_back a b alo blo n (i - 1, j - 1, k + 1) else (i, j, k))"

fun extend_forward :: "string \<Rightarrow> string \<Rightarrow> nat \<Rightarrow> nat \<Rightarrow> nat \<Rightarrow> match \<Rightarrow> match" where
  "extend_forward a b ahi bhi 0 m = m"
| "extend_forward a b ahi bhi (Suc n) (i, j, k) =
     (if i + k < ahi \<and> j + k < bhi \<and> a ! (i + k) = b ! (j + k)
      then extend_forward a b ahi bhi n (i, j, k + 1) else (i, j, k))"

definition find_longest_match :: "string \<Rightarrow> string \<Rightarrow> nat \<Rightarrow> nat \<Rightarrow> nat \<Rightarrow> nat \<Rightarrow> match" where
  "find_longest_match a b alo ahi blo bhi =
     extend_forward a b ahi bhi (length a)
       (extend_back a b alo blo (length a)
          (match_rows a b blo bhi [alo..<ahi] (\<lambda>_. 0) (alo, blo, 0)))"

text \<open>Each nested call works on fewer characters of \<open>a\<close>, so \<open>length a\<close> levels are enough.\<close>

fun matches :: "nat \<Rightarrow> string \<Rightarrow> string \<Rightarrow> nat \<Rightarrow> nat \<Rightarrow> nat \<Rightarrow> nat \<Rightarrow> nat" where
  "matches 0 a b alo ahi blo bhi = 0"
| "matches (Suc n) a b alo ahi blo bhi =
     (let (i, j, k) = find_longest_match a b alo ahi blo bhi in
      if k = 0 then 0
      else k + (if alo < i \<and> blo < j then matches n a b alo i blo j else 0)
             + (if i + k < ahi \<and> j + k < bhi then matches n a b (i + k) ahi (j + k) bhi else 0))"

definition ratio :: "string \<Rightarrow> string \<Rightarrow> rat" where
  "ratio a b =
     (if a = [] \<and> b = [] then 1
      else 2 * of_nat (matches (length a) a b 0 (length a) 0 (length b)) / of_nat (length a + length b))"

subsection \<open>Similarity\<close>

definition weight :: "string \<Rightarrow> rat" where
  "weight k = (if k = ''smbios_uuid'' then 1 / 2 else if k = ''machine_guid'' then 3 / 10 else 1 / 5)"

definition component_score :: "string \<Rightarrow> string \<Rightarrow> rat" where
  "component_score v1 v2 =
     (if v1 = v2 then 1 else if ratio v1 v2 > 4 / 5 then ratio v1 v2 else 0)"

definition similarity_score :: "fingerprint \<Rightarrow> fingerprint \<Rightarrow> rat" where
  "similarity_score fp1 fp2 =
     (let ks = filter (\<lambda>k. get_str fp1 k \<noteq> [] \<and> get_str fp2 k \<noteq> []) fp_fields;
          total = sum_list (map weight ks);
          score = sum_list (map (\<lambda>k. weight k * component_score (get_str fp1 k) (get_str fp2 k)) ks)
      in if total = 0 then 0 else score / total)"

definition is_same_machine :: "fingerprint \<Rightarrow> fingerprint \<Rightarrow> bool" where
  "is_same_machine fp1 fp2 \<longleftrightarrow> similarity_score fp1 fp2 \<ge> 3 / 5"

lemma length_compute_weighted_id [simp]: "length (compute_weighted_id fp) = 64"
  by (simp add: compute_weighted_id_def)

lemma compute_weighted_id_nonempty [simp]: "compute_weighted_id fp \<noteq> []"
  by (simp add: compute_weighted_id_def)

lemma component_score_same [simp]: "component_score v v = 1"
  by (simp add: component_score_def)

subsection \<open>Properties\<close>

text \<open>The weighted identifier depends on the three hardware components only, as soon as one of
  them is present: whatever else the dict holds, and in whatever order, it is the same 64
  characters.\<close>

theorem weighted_id_components:
  assumes "\<forall>f\<in>set fp_fields. get_str fp f = get_str fp' f" and "present fp \<noteq> []"
  shows "compute_weighted_id fp = compute_weighted_id fp' \<and> length (compute_weighted_id fp) = 64"
proof -
  have same: "present fp' = present fp" using assms(1) by (auto simp: present_def intro!: filter_cong)
  have "get_str fp' f = get_str fp f" if "f \<in> set (present fp)" for f
    using that assms(1) by (auto simp: present_def)
  then have parts: "map2 (\<lambda>f n. take n (sha256_hex (get_str fp' f))) (present fp) ns =
      map2 (\<lambda>f n. take n (sha256_hex (get_str fp f))) (present fp) ns" for ns
    by (intro map_cong refl) (auto dest: set_zip_leftD)
  have "compute_weighted_id fp = compute_weighted_id fp'"
    by (simp only: compute_weighted_id_def same assms(2) parts if_False)
  then show ?thesis by simp
qed

lemma weighted_id_components_witness:
  "compute_weighted_id [(''note'', ''x''), (''machine_guid'', ''g'')] =
   compute_weighted_id [(''machine_guid'', ''g''), (''smbios_uuid'', [])]"
  by (rule conjunct1 [OF weighted_id_components]) (simp_all add: get_str_def present_def fp_fields_def)

text \<open>The decision table. Where each component that both fingerprints have is either equal or
  clearly different, they are of one machine exactly when the equal components carry at least
  three fifths of the common weight: the SMBIOS UUID decides against one other component,
  the GUID and the serial together do not decide against a different UUID, and without a
  UUID the GUID decides.\<close>

theorem same_machine_decision:
  assumes "\<forall>f\<in>set fp_fields. get_str fp1 f \<noteq> get_str fp2 f \<longrightarrow> ratio (get_str fp1 f) (get_str fp2 f) \<le> 4 / 5"
  defines "both f \<equiv> get_str fp1 f \<noteq> [] \<and> get_str fp2 f \<noteq> []"
    and "eq f \<equiv> get_str fp1 f \<noteq> [] \<and> get_str fp1 f = get_str fp2 f"
  shows "is_same_machine fp1 fp2 \<longleftrightarrow>
    (if both ''smbios_uuid''
     then eq ''smbios_uuid'' \<and> (eq ''machine_guid'' \<or> eq ''mainboard_serial'' \<or>
            \<not> (both ''machine_guid'' \<and> both ''mainboard_serial''))
     else if both ''machine_guid'' then eq ''machine_guid''
     else eq ''mainboard_serial'')"
proof -
  have score: "component_score (get_str fp1 f) (get_str fp2 f) = (if get_str fp1 f = get_str fp2 f then 1 else 0)"
    if "f \<in> set fp_fields" for f
    using assms(1) that by (fastforce simp: component_score_def)
  note score = score [unfolded fp_fields_def, simplified]
  show ?thesis
    by (cases "both ''smbios_uuid''"; cases "both ''machine_guid''"; cases "both ''mainboard_serial''";
        cases "get_str fp1 ''smbios_uuid'' = get_str fp2 ''smbios_uuid''";
        cases "get_str fp1 ''machine_guid'' = get_str fp2 ''machine_guid''";
        cases "get_str fp1 ''mainboard_serial'' = get_str fp2 ''mainboard_serial''")
      (auto simp: is_same_machine_def similarity_score_def both_def eq_def weight_def score Let_def fp_fields_def)
qed

lemma ratio_sample: "ratio ''g'' ''h'' = 0"
  by (simp add: ratio_def find_longest_match_def b2j_def popular_def)

lemma same_machine_decision_witness:
  "is_same_machine [(''smbios_uuid'', ''u''), (''machine_guid'', ''g'')]
     [(''smbios_uuid'', ''u''), (''machine_guid'', ''h'')]"
proof -
  let ?a = "[(''smbios_uuid'', ''u''), (''machine_guid'', ''g'')]"
  let ?b = "[(''smbios_uuid'', ''u''), (''machine_guid'', ''h'')]"
  have "\<forall>f\<in>set fp_fields. get_str ?a f \<noteq> get_str ?b f \<longrightarrow> ratio (get_str ?a f) (get_str ?b f) \<le> 4 / 5"
    by (simp add: fp_fields_def get_str_def ratio_sample)
  from same_machine_decision [OF this] show ?thesis by (simp add: get_str_def)
qed

end
