(* ===== verification/Enroll.thy ===== *)
theory Enroll
  imports Auth AgentSettings Tags Fingerprint
begin

text \<open>
  Enrolment of machines (\<open>server/app/api/routes/enroll.py\<close>): the token gate with its
  deduplicated record of refused attempts, the search for the machine in the token's
  organisation, creation or update of the machine, and the handler that has the
  certificate signed and spends the token. The decisions of administrators about attempts
  and fingerprint drifts (\<open>enroll_attempts.py\<close>, \<open>drifts.py\<close>) are in the next theory.
\<close>

subsection \<open>State\<close>

record enroll_db =
  en_tokens :: "enroll_token list"
  en_machines :: "machine list"
  en_users :: "user list"
  en_orgs :: "org_row list"
  en_attempts :: "enroll_attempt list"
  en_drifts :: "fingerprint_drift list"
  en_tags :: tag_db
  en_log :: "audit_row list"

text \<open>
  The random ids of the rows an enrolment may add, and the value that a column with
  \<open>default=datetime.now(UTC)\<close> takes when it is not given: the default is evaluated when the
  models are imported, so it is the time the process was started.
\<close>

record en_fresh =
  ef_machine :: uuid
  ef_attempt :: uuid
  ef_drift :: uuid
  ef_started :: time

text \<open>
  \<open>scalar_one_or_none\<close>: \<open>None\<close> is the exception on several rows, which no handler catches.
\<close>

definition one_or_none :: "'a list \<Rightarrow> 'a option option" where
  "one_or_none xs = (case xs of [] \<Rightarrow> Some None | [x] \<Rightarrow> Some (Some x) | _ \<Rightarrow> None)"

definition en_audit ::
  "time \<Rightarrow> string \<Rightarrow> string option \<Rightarrow> string option \<Rightarrow> string option \<Rightarrow> uuid option \<Rightarrow>
   enroll_db \<Rightarrow> enroll_db" where
  "en_audit now action actor target ip mid db =
     db\<lparr>en_log := append_audit now action actor target ip None mid (en_log db)\<rparr>"

subsection \<open>Refused attempts\<close>

definition recent_attempt :: "time \<Rightarrow> string \<Rightarrow> string \<Rightarrow> enroll_attempt \<Rightarrow> bool" where
  "recent_attempt now weighted token_status a \<longleftrightarrow>
     ea_machine_uuid a = weighted \<and> ea_token_status a = token_status \<and> ea_status a = ''pending'' \<and>
     now - hours 24 \<le> ea_created_at a"

definition refresh_attempt ::
  "time \<Rightarrow> string option \<Rightarrow> string option \<Rightarrow> fingerprint \<Rightarrow> enroll_attempt \<Rightarrow> enroll_attempt" where
  "refresh_attempt now hostname ip fp a =
     a\<lparr>ea_hostname := py_or hostname (ea_hostname a), ea_ip := py_or ip (ea_ip a),
       ea_fingerprint := (if fp \<noteq> [] then fp else ea_fingerprint a), ea_created_at := now\<rparr>"

definition new_attempt ::
  "uuid \<Rightarrow> time \<Rightarrow> string \<Rightarrow> string \<Rightarrow> enroll_token option \<Rightarrow> string option \<Rightarrow> fingerprint \<Rightarrow> string option \<Rightarrow>
   uuid option \<Rightarrow> enroll_attempt" where
  "new_attempt aid started token_str token_status token_row hostname fp ip matched =
     \<lparr>ea_id = aid, ea_org_id = map_option et_org_id token_row, ea_token_id = map_option et_id token_row,
      ea_token_status = token_status, ea_token_prefix = take 8 token_str @ ''...'',
      ea_machine_uuid = compute_weighted_id fp, ea_hostname = hostname, ea_ip = ip,
      ea_fingerprint = fp, ea_matched_machine_id = matched, ea_status = ''pending'',
      ea_created_at = started, ea_note = None, ea_decided_by = None, ea_decided_at = None\<rparr>"

definition record_attempts ::
  "uuid \<Rightarrow> time \<Rightarrow> time \<Rightarrow> string \<Rightarrow> string \<Rightarrow> enroll_token option \<Rightarrow> string option \<Rightarrow> fingerprint \<Rightarrow> string option \<Rightarrow>
   machine list \<Rightarrow> enroll_attempt list \<Rightarrow> enroll_attempt list option" where
  "record_attempts aid started now token_str token_status token_row hostname fp ip machines attempts =
     (let weighted = compute_weighted_id fp in
      case (case token_row of
              None \<Rightarrow> Some None
            | Some t \<Rightarrow> map_option (map_option m_id)
                (one_or_none (filter (\<lambda>m. m_org_id m = et_org_id t \<and> m_machine_uuid m = weighted) machines))) of
        None \<Rightarrow> None
      | Some matched \<Rightarrow>
          (case one_or_none (filter (recent_attempt now weighted token_status) attempts) of
             None \<Rightarrow> None
           | Some (Some _) \<Rightarrow>
               Some (update_where (recent_attempt now weighted token_status)
                       (refresh_attempt now hostname ip fp) attempts)
           | Some None \<Rightarrow>
               Some (insert_row (new_attempt aid started token_str token_status token_row hostname fp ip matched)
                       attempts)))"

definition record_enroll_attempt ::
  "uuid \<Rightarrow> time \<Rightarrow> time \<Rightarrow> string \<Rightarrow> string \<Rightarrow> enroll_token option \<Rightarrow> string option \<Rightarrow> fingerprint \<Rightarrow> string option \<Rightarrow>
   enroll_db \<Rightarrow> enroll_db option" where
  "record_enroll_attempt aid started now token_str token_status token_row hostname fp ip db =
     map_option (\<lambda>as. db\<lparr>en_attempts := as\<rparr>)
       (record_attempts aid started now token_str token_status token_row hostname fp ip (en_machines db) (en_attempts db))"

text \<open>A refusal: record the attempt, audit it, commit, answer 401.\<close>

definition refuse ::
  "uuid \<Rightarrow> time \<Rightarrow> time \<Rightarrow> string \<Rightarrow> string \<Rightarrow> enroll_token option \<Rightarrow> string option \<Rightarrow> fingerprint \<Rightarrow> string option \<Rightarrow>
   string \<Rightarrow> string \<Rightarrow> string \<Rightarrow> string \<Rightarrow> enroll_db \<Rightarrow> enroll_db \<Rightarrow> http_error \<times> enroll_db" where
  "refuse aid started now token_str token_status token_row hostname fp ip actor action target detail db0 db =
     (case record_enroll_attempt aid started now token_str token_status token_row hostname fp ip db of
        None \<Rightarrow> (internal_error, db0)
      | Some db1 \<Rightarrow> (HTTPException 401 detail, en_audit now action (Some actor) (Some target) ip None db1))"

subsection \<open>The common part of enrolment\<close>

definition set_token_status :: "token_status \<Rightarrow> uuid \<Rightarrow> enroll_db \<Rightarrow> enroll_db" where
  "set_token_status s tid db =
     db\<lparr>en_tokens := update_where (\<lambda>t. et_id t = tid) (\<lambda>t. t\<lparr>et_status := s\<rparr>) (en_tokens db)\<rparr>"

definition put_machine :: "machine \<Rightarrow> enroll_db \<Rightarrow> enroll_db" where
  "put_machine m db = db\<lparr>en_machines := update_where (\<lambda>r. m_id r = m_id m) (\<lambda>_. m) (en_machines db)\<rparr>"

definition new_machine ::
  "time \<Rightarrow> uuid \<Rightarrow> enroll_token \<Rightarrow> string option \<Rightarrow> fingerprint \<Rightarrow> user list \<Rightarrow> machine" where
  "new_machine now mid t hostname fp users =
     \<lparr>m_id = mid, m_org_id = et_org_id t, m_machine_uuid = compute_weighted_id fp, m_hostname = hostname,
      m_fingerprint = fp, m_status = PENDING, m_is_vm = None, m_enrolled_at = now,
      m_last_seen_at = Some now,
      m_assigned_user_id =
        (if truthy (et_email t)
         then map_option u_id (find (\<lambda>u. u_email u = the (et_email t)) users) else None),
      m_public_ip = None, m_lifecycle = ''new'', m_note = None\<rparr>"

text \<open>Which machine of the organisation the fingerprint belongs to; the outer \<open>None\<close> is the
  exception on several exact matches.\<close>

definition find_machine :: "uuid \<Rightarrow> fingerprint \<Rightarrow> machine list \<Rightarrow> machine option option" where
  "find_machine org fp machines =
     (case one_or_none (filter (\<lambda>m. m_org_id m = org \<and> m_machine_uuid m = compute_weighted_id fp) machines) of
        None \<Rightarrow> None
      | Some (Some m) \<Rightarrow> Some (Some m)
      | Some None \<Rightarrow>
          Some (find (\<lambda>m. is_same_machine fp (m_fingerprint m)) (filter (\<lambda>m. m_org_id m = org) machines)))"

definition drift_reason :: "fingerprint \<Rightarrow> fingerprint \<Rightarrow> string" where
  "drift_reason fp old = (if old \<noteq> [] \<and> is_same_machine fp old then ''other'' else ''os_reinstall'')"

definition note_drift ::
  "uuid \<Rightarrow> time \<Rightarrow> machine \<Rightarrow> fingerprint \<Rightarrow> string \<Rightarrow> string option \<Rightarrow> enroll_db \<Rightarrow> enroll_db option" where
  "note_drift did now m fp actor ip db =
     (if m_machine_uuid m = compute_weighted_id fp then Some db
      else case one_or_none (filter (\<lambda>d. fd_machine_id d = m_id m \<and> fd_status d = ''pending'') (en_drifts db)) of
        None \<Rightarrow> None
      | Some (Some _) \<Rightarrow> Some db
      | Some None \<Rightarrow>
          Some (en_audit now ''fingerprint.drift_detected'' (Some actor) (Some (uuid_str (m_id m))) ip (Some (m_id m))
            (db\<lparr>en_drifts := insert_row
               \<lparr>fd_id = did, fd_machine_id = m_id m, fd_old_fingerprint = m_fingerprint m, fd_new_fingerprint = fp,
                fd_reason = drift_reason fp (m_fingerprint m), fd_status = ''pending'',
                fd_resolved_at = None, fd_resolved_by = None\<rparr> (en_drifts db)\<rparr>)))"

definition reenrolled :: "time \<Rightarrow> string option \<Rightarrow> machine \<Rightarrow> machine" where
  "reenrolled now hostname m =
     m\<lparr>m_hostname := py_or hostname (m_hostname m), m_last_seen_at := Some now,
       m_status := (if m_status m = DECOMMISSIONED then PENDING else ONLINE)\<rparr>"

text \<open>
  \<open>perform_enroll\<close>: the machine, whether it is new, and the token row, in a session that the
  caller still has to commit; on failure the database as committed.
\<close>

definition perform_enroll ::
  "time \<Rightarrow> en_fresh \<Rightarrow> string \<Rightarrow> string option \<Rightarrow> fingerprint \<Rightarrow> string \<Rightarrow> string option \<Rightarrow> enroll_db \<Rightarrow>
   (http_error + machine \<times> bool \<times> enroll_token) \<times> enroll_db" where
  "perform_enroll now fr token_str hostname fp actor ip db =
     (let fail = (\<lambda>(e, db'). (Inl e, db'));
          deny = (\<lambda>label t detail db1. fail (refuse (ef_attempt fr) (ef_started fr) now token_str label (Some t) hostname fp ip actor
                    ''enroll.denied'' (''token:'' @ uuid_str (et_id t) @ '' ('' @ label @ '')'') detail db db1))
      in case find (\<lambda>t. et_token_hash t = hash_token token_str) (en_tokens db) of
        None \<Rightarrow> fail (refuse (ef_attempt fr) (ef_started fr) now token_str ''unknown'' None hostname fp ip actor
                  ''enroll.invalid_token'' (take 16 token_str @ ''...'') ''Token khong ton tai'' db db)
      | Some t \<Rightarrow>
          if et_status t = TREVOKED then deny ''revoked'' t ''Token da bi thu hoi'' db
          else if et_status t = TUSED then deny ''used'' t ''Token da dung'' db
          else if et_expires_at t < now
          then deny ''expired'' (t\<lparr>et_status := TEXPIRED\<rparr>) ''Token het han'' (set_token_status TEXPIRED (et_id t) db)
          else
            (case find_machine (et_org_id t) fp (en_machines db) of
               None \<Rightarrow> (Inl internal_error, db)
             | Some None \<Rightarrow>
                 (let m = new_machine now (ef_machine fr) t hostname fp (en_users db) in
                  (Inr (m, True, t),
                   db\<lparr>en_machines := insert_row m (en_machines db),
                      en_tags := apply_token_tags (ef_machine fr) (et_classification t) (et_purpose_tags t) None (en_tags db)\<rparr>))
             | Some (Some m) \<Rightarrow>
                 (let m' = reenrolled now hostname m in
                  case note_drift (ef_drift fr) now m' fp actor ip (put_machine m' db) of
                    None \<Rightarrow> (Inl internal_error, db)
                  | Some db' \<Rightarrow> (Inr (m', False, t), db'))))"

subsection \<open>The handler\<close>

record enroll_response =
  er_machine_id :: uuid
  er_client_cert_pem :: string
  er_renew_after :: time
  er_is_new_machine :: bool
  er_status :: machine_status
  er_config :: agent_cfg

definition use_token :: "time \<Rightarrow> uuid \<Rightarrow> enroll_token \<Rightarrow> enroll_token" where
  "use_token now mid t = t\<lparr>et_status := TUSED, et_used_at := Some now, et_used_by := Some mid\<rparr>"

text \<open>
  \<open>int(client_cert_valid_days * 0.7)\<close> in double precision: 0.7 is 6305039478318694 / 2 ^ 53, and
  the product is rounded to 53 significant bits, ties to even.
\<close>

function excess_bits :: "nat \<Rightarrow> nat" where
  "excess_bits x = (if x < 2 ^ 53 then 0 else Suc (excess_bits (x div 2)))"
  by pat_completeness auto
termination by (relation "measure (\<lambda>x. x)") auto

declare excess_bits.simps [simp del]

definition round_bits :: "nat \<Rightarrow> nat" where
  "round_bits x =
     (let s = excess_bits x; q = x div 2 ^ s; r = x mod 2 ^ s in
      (if 2 * r > 2 ^ s \<or> 2 * r = 2 ^ s \<and> odd q then q + 1 else q) * 2 ^ s)"

definition renew_days :: "nat \<Rightarrow> nat" where
  "renew_days n = round_bits (n * 6305039478318694) div 2 ^ 53"

definition renew_after :: "env \<Rightarrow> time \<Rightarrow> time" where
  "renew_after e now = now + days (int (renew_days (nat (es_client_cert_valid_days e))))"

text \<open>\<open>sign\<close> is the certificate authority; \<open>None\<close> is its exception, which rolls the session back.\<close>

definition enroll ::
  "(string \<Rightarrow> uuid \<Rightarrow> string option) \<Rightarrow> env \<Rightarrow> config_override option \<Rightarrow> time \<Rightarrow> en_fresh \<Rightarrow> string \<Rightarrow> string \<Rightarrow>
   string option \<Rightarrow> fingerprint \<Rightarrow> string \<Rightarrow> enroll_db \<Rightarrow> (http_error + enroll_response) \<times> enroll_db" where
  "enroll sign e ov now fr ip token_str hostname fp csr_pem db =
     (case perform_enroll now fr token_str hostname fp ''agent:unknown'' (Some ip) db of
        (Inl err, db') \<Rightarrow> (Inl err, db')
      | (Inr (m, is_new, t), db1) \<Rightarrow>
          (case sign csr_pem (m_id m) of
             None \<Rightarrow> (Inl internal_error, db)
           | Some cert \<Rightarrow>
               (let db2 = db1\<lparr>en_tokens := update_where (\<lambda>r. et_id r = et_id t) (use_token now (m_id m)) (en_tokens db1)\<rparr>;
                    db3 = en_audit now (if is_new then ''enroll.success'' else ''enroll.reassigned'')
                            (Some (''agent:'' @ uuid_str (m_id m))) (Some (uuid_str (m_id m))) (Some ip)
                            (Some (m_id m)) db2
                in (Inr \<lparr>er_machine_id = m_id m, er_client_cert_pem = cert, er_renew_after = renew_after e now,
                         er_is_new_machine = is_new, er_status = m_status m,
                         er_config = effective_agent_config e ov\<rparr>, db3))))"

subsection \<open>What a refusal and an acceptance change\<close>

lemma one_or_none_None: "one_or_none xs = None \<longleftrightarrow> 2 \<le> length xs"
  by (cases xs rule: list.exhaust; cases "tl xs") (auto simp: one_or_none_def)

lemma one_or_none_SomeD:
  "one_or_none xs = Some None \<Longrightarrow> xs = []" "one_or_none xs = Some (Some x) \<Longrightarrow> xs = [x]"
  by (auto simp: one_or_none_def split: list.splits)

lemma en_audit_sel [simp]:
  "en_tokens (en_audit now action actor target ip mid db) = en_tokens db"
  "en_machines (en_audit now action actor target ip mid db) = en_machines db"
  "en_users (en_audit now action actor target ip mid db) = en_users db"
  "en_attempts (en_audit now action actor target ip mid db) = en_attempts db"
  "en_drifts (en_audit now action actor target ip mid db) = en_drifts db"
  "en_tags (en_audit now action actor target ip mid db) = en_tags db"
  by (simp_all add: en_audit_def)

lemma refuse_frame:
  assumes "refuse aid started now tok label row hostname fp ip actor action target detail db0 db1 = (e, db')"
    and "en_machines db1 = en_machines db0" "en_tags db1 = en_tags db0" "en_drifts db1 = en_drifts db0"
      "en_users db1 = en_users db0"
  shows "en_machines db' = en_machines db0 \<and> en_tags db' = en_tags db0 \<and> en_drifts db' = en_drifts db0 \<and>
    en_users db' = en_users db0 \<and> (en_tokens db' = en_tokens db0 \<or> en_tokens db' = en_tokens db1)"
  using assms by (auto simp: refuse_def record_enroll_attempt_def split: option.splits)

lemma set_token_status_sel [simp]:
  "en_machines (set_token_status s i db) = en_machines db" "en_tags (set_token_status s i db) = en_tags db"
  "en_drifts (set_token_status s i db) = en_drifts db" "en_users (set_token_status s i db) = en_users db"
  "en_attempts (set_token_status s i db) = en_attempts db" "en_log (set_token_status s i db) = en_log db"
  by (simp_all add: set_token_status_def)

lemma put_machine_sel [simp]:
  "en_tokens (put_machine m db) = en_tokens db" "en_tags (put_machine m db) = en_tags db"
  "en_drifts (put_machine m db) = en_drifts db" "en_users (put_machine m db) = en_users db"
  "en_attempts (put_machine m db) = en_attempts db"
  by (simp_all add: put_machine_def)

lemma note_drift_sel:
  "note_drift did now m fp actor ip db = Some db' \<Longrightarrow>
     en_tokens db' = en_tokens db \<and> en_machines db' = en_machines db \<and> en_tags db' = en_tags db \<and>
     en_users db' = en_users db \<and> en_attempts db' = en_attempts db"
  by (auto simp: note_drift_def split: if_splits option.splits)

lemma perform_enroll_error_frame:
  assumes "perform_enroll now fr tok hostname fp actor ip db = (Inl e, db')"
  shows "en_machines db' = en_machines db \<and> en_tags db' = en_tags db \<and> en_drifts db' = en_drifts db \<and>
    en_users db' = en_users db"
  using assms
  by (auto simp: perform_enroll_def Let_def split: option.splits if_splits prod.splits
      dest!: refuse_frame)

text \<open>The ways \<open>perform_enroll\<close> can succeed.\<close>

lemma perform_enroll_cases:
  assumes "perform_enroll now fr tok hostname fp actor ip db = (Inr (m, is_new, t), db')"
  obtains (created)
      "find (\<lambda>t. et_token_hash t = hash_token tok) (en_tokens db) = Some t"
      "et_status t \<noteq> TREVOKED" "et_status t \<noteq> TUSED" "now \<le> et_expires_at t"
      "is_new" "find_machine (et_org_id t) fp (en_machines db) = Some None"
      "m = new_machine now (ef_machine fr) t hostname fp (en_users db)"
      "db' = db\<lparr>en_machines := insert_row m (en_machines db),
         en_tags := apply_token_tags (ef_machine fr) (et_classification t) (et_purpose_tags t) None (en_tags db)\<rparr>"
  | (known) m0 where
      "find (\<lambda>t. et_token_hash t = hash_token tok) (en_tokens db) = Some t"
      "et_status t \<noteq> TREVOKED" "et_status t \<noteq> TUSED" "now \<le> et_expires_at t"
      "\<not> is_new" "find_machine (et_org_id t) fp (en_machines db) = Some (Some m0)"
      "m = reenrolled now hostname m0"
      "note_drift (ef_drift fr) now m fp actor ip (put_machine m db) = Some db'"
  using assms
  by (auto simp: perform_enroll_def Let_def split: option.splits if_splits prod.splits)

lemma find_machineD:
  "find_machine org fp machines = Some (Some m) \<Longrightarrow>
     m \<in> set machines \<and> m_org_id m = org \<and>
     (m_machine_uuid m = compute_weighted_id fp \<or> is_same_machine fp (m_fingerprint m))"
  by (auto simp: find_machine_def dest!: one_or_none_SomeD find_SomeD split: option.splits)
    (auto simp: filter_eq_Cons_iff)

lemma find_machine_None:
  "find_machine org fp machines = Some None \<Longrightarrow> m \<in> set machines \<Longrightarrow> m_org_id m = org \<Longrightarrow>
     m_machine_uuid m \<noteq> compute_weighted_id fp"
  by (auto simp: find_machine_def filter_empty_conv dest!: one_or_none_SomeD split: option.splits)

lemma not_same_as_empty: "\<not> is_same_machine fp []"
  by (simp add: is_same_machine_def similarity_score_def get_str_def Let_def)

subsection \<open>Deduplication of attempts\<close>

text \<open>No key has two pending attempts in the window of 24 hours before \<open>now\<close>.\<close>

definition recent_unique :: "time \<Rightarrow> enroll_attempt list \<Rightarrow> bool" where
  "recent_unique now as \<longleftrightarrow> (\<forall>w s. length (filter (recent_attempt now w s) as) \<le> 1)"

lemma recent_attempt_later: "recent_attempt now' w s a \<Longrightarrow> now \<le> now' \<Longrightarrow> recent_attempt now w s a"
  by (simp add: recent_attempt_def)

lemma length_filter_le: "(\<And>x. x \<in> set xs \<Longrightarrow> P x \<Longrightarrow> Q x) \<Longrightarrow> length (filter P xs) \<le> length (filter Q xs)"
  by (induction xs) auto

lemma recent_unique_later: "recent_unique now as \<Longrightarrow> now \<le> now' \<Longrightarrow> recent_unique now' as"
  unfolding recent_unique_def using length_filter_le recent_attempt_later le_trans by metis

lemma length_filter_update_where:
  "(\<And>r. r \<in> set rows \<Longrightarrow> Q (if P r then f r else r) \<longleftrightarrow> Q r) \<Longrightarrow>
     length (filter Q (update_where P f rows)) = length (filter Q rows)"
  by (induction rows) (auto simp: update_where_def)

lemma record_attempts_cases:
  assumes "record_attempts aid started now tok label row hostname fp ip ms as = Some as'"
  obtains r where "filter (recent_attempt now (compute_weighted_id fp) label) as = [r]"
      "as' = update_where (recent_attempt now (compute_weighted_id fp) label) (refresh_attempt now hostname ip fp) as"
  | matched where "filter (recent_attempt now (compute_weighted_id fp) label) as = []"
      "as' = insert_row (new_attempt aid started tok label row hostname fp ip matched) as"
  using assms by (auto simp: record_attempts_def Let_def dest!: one_or_none_SomeD split: option.splits)

lemma record_attempts_unique:
  assumes "recent_unique now as" and "started \<le> now"
    and res: "record_attempts aid started now tok label row hostname fp ip ms as = Some as'"
  shows "recent_unique now as'"
  unfolding recent_unique_def
proof (intro allI)
  fix w s
  let ?w = "compute_weighted_id fp"
  have old: "length (filter (recent_attempt now w s) as) \<le> 1" using assms(1) by (simp add: recent_unique_def)
  from res show "length (filter (recent_attempt now w s) as') \<le> 1"
  proof (cases rule: record_attempts_cases)
    case (1 r)
    have "length (filter (recent_attempt now w s) as') = length (filter (recent_attempt now w s) as)"
      unfolding 1(2)
      by (rule length_filter_update_where) (auto simp: recent_attempt_def refresh_attempt_def)
    with old show ?thesis by simp
  next
    case (2 matched)
    show ?thesis
    proof (cases "w = ?w \<and> s = label")
      case True
      with 2 show ?thesis by (simp add: insert_row_def)
    next
      case False
      then have "\<not> recent_attempt now w s (new_attempt aid started tok label row hostname fp ip matched)"
        by (auto simp: recent_attempt_def new_attempt_def)
      with 2 old show ?thesis by (simp add: insert_row_def)
    qed
  qed
qed

lemma record_attempts_recent:
  assumes "now - hours 24 \<le> started" and "recent_unique now as"
    and res: "record_attempts aid started now tok label row hostname fp ip ms as = Some as'"
  shows "length (filter (recent_attempt now (compute_weighted_id fp) label) as') = 1"
  using res
proof (cases rule: record_attempts_cases)
  case (1 r)
  have "length (filter (recent_attempt now (compute_weighted_id fp) label) as') =
      length (filter (recent_attempt now (compute_weighted_id fp) label) as)"
    unfolding 1(2) by (rule length_filter_update_where) (auto simp: recent_attempt_def refresh_attempt_def)
  with 1 show ?thesis by simp
next
  case (2 matched)
  have "recent_attempt now (compute_weighted_id fp) label (new_attempt aid started tok label row hostname fp ip matched)"
    using assms(1) by (simp add: recent_attempt_def new_attempt_def)
  with 2 show ?thesis by (simp add: insert_row_def)
qed

lemma record_attempts_length:
  assumes "record_attempts aid started now tok label row hostname fp ip ms as = Some as'"
  shows "length as' = length as +
    (if filter (recent_attempt now (compute_weighted_id fp) label) as = [] then 1 else 0)"
  using assms by (cases rule: record_attempts_cases) (auto simp: update_where_def insert_row_def)

end
