(* ===== verification/EnrollAdmin.thy ===== *)
theory EnrollAdmin
  imports Enroll
begin

text \<open>
  The administrators' side of enrolment: tokens (\<open>api/routes/tokens.py\<close>: create, bulk create,
  list, revoke, reissue, delete), the decisions about refused attempts
  (\<open>api/routes/enroll_attempts.py\<close>) and about fingerprint drifts (\<open>api/routes/drifts.py\<close>).
  The install command texts are built from the token and the two URLs; of these the Linux
  command and the URL warnings are modelled, the PowerShell payloads are not.
\<close>

subsection \<open>Permission\<close>

definition as_admin ::
  "crypto \<Rightarrow> time \<Rightarrow> string option \<Rightarrow> enroll_db \<Rightarrow>
   (user \<Rightarrow> (http_error + 'a) \<times> enroll_db) \<Rightarrow> (http_error + 'a) \<times> enroll_db" where
  "as_admin x now cred db k =
     (case require_admin x now (en_users db) cred of Inl e \<Rightarrow> (Inl e, db) | Inr admin \<Rightarrow> k admin)"

definition sees :: "enroll_db \<Rightarrow> user \<Rightarrow> uuid \<Rightarrow> bool" where
  "sees db admin org \<longleftrightarrow> org \<in> visible_org_ids (en_orgs db) admin"

definition uuid_of :: "user \<Rightarrow> string option" where
  "uuid_of u = Some (uuid_str (u_id u))"

subsection \<open>Tokens\<close>

record token_request =
  tr_full_name :: "string option"
  tr_department :: "string option"
  tr_position :: "string option"
  tr_email :: "string option"
  tr_phone :: "string option"
  tr_note :: "string option"

definition encrypt_phone :: "crypto \<Rightarrow> settings \<Rightarrow> nat list \<Rightarrow> string \<Rightarrow> string" where
  "encrypt_phone x cfg iv plain = encrypt_aes_gcm x cfg iv plain"

text \<open>The bullets of the masked form are written as stars.\<close>

definition mask_phone :: "crypto \<Rightarrow> settings \<Rightarrow> string option \<Rightarrow> string option" where
  "mask_phone x cfg phone =
     (if \<not> truthy phone then None
      else Some (case decrypt_aes_gcm x cfg (the phone) of
          None \<Rightarrow> ''*** (giai ma loi)''
        | Some plain \<Rightarrow>
            if length plain < 8
            then (if 6 \<le> length plain
                  then take 3 plain @ ''***'' @ drop (length plain - 3) plain else ''***'')
            else take 4 plain @ ''***'' @ drop (length plain - 3) plain))"

definition token_row ::
  "crypto \<Rightarrow> settings \<Rightarrow> uuid \<Rightarrow> string \<Rightarrow> nat list \<Rightarrow> uuid \<Rightarrow> uuid \<Rightarrow> time \<Rightarrow> string option \<Rightarrow>
   string list option \<Rightarrow> token_request \<Rightarrow> enroll_token" where
  "token_row x cfg tid token iv org admin expires classification purpose r =
     \<lparr>et_id = tid, et_token_hash = hash_token token, et_org_id = org, et_email = tr_email r,
      et_expires_at = expires, et_used_at = None, et_used_by = None, et_status = TPENDING,
      et_classification = classification,
      et_purpose_tags = Some (case purpose of None \<Rightarrow> [] | Some ks \<Rightarrow> ks),
      et_created_by = admin, et_full_name = tr_full_name r, et_department = tr_department r,
      et_position = tr_position r,
      et_phone_encrypted =
        (if truthy (tr_phone r) then Some (encrypt_phone x cfg iv (the (tr_phone r))) else None),
      et_note = tr_note r\<rparr>"

text \<open>Insertion under the primary key and the unique digest; \<open>None\<close> is the integrity error.\<close>

definition insert_token :: "enroll_token \<Rightarrow> enroll_token list \<Rightarrow> enroll_token list option" where
  "insert_token r rows =
     (if \<exists>t\<in>set rows. et_id t = et_id r \<or> et_token_hash t = et_token_hash r then None
      else Some (insert_row r rows))"

definition install_command_linux :: "string \<Rightarrow> string \<Rightarrow> string" where
  "install_command_linux token portal_url = ''curl -fsSL '' @ portal_url @ ''/i/'' @ token @ '' | sudo bash''"

definition bad_url :: "string \<Rightarrow> bool" where
  "bad_url url \<longleftrightarrow> url = [] \<or> starts_with ''http://localhost'' url \<or> contains ''127.0.0.1'' url"

text \<open>The two warnings, by the URL they are about.\<close>

definition validate_install_urls :: "string \<Rightarrow> string \<Rightarrow> string list" where
  "validate_install_urls portal_url agent_url =
     (if bad_url portal_url then [''portal_url''] else []) @
     (if bad_url agent_url then [''agent_server_url''] else [])"

record token_response =
  tp_token :: string
  tp_linux :: string
  tp_warnings :: "string list"
  tp_expires_at :: time

definition token_response_for :: "agent_cfg \<Rightarrow> string \<Rightarrow> time \<Rightarrow> token_response" where
  "token_response_for c token expires =
     \<lparr>tp_token = token, tp_linux = install_command_linux token (ac_portal_url c),
      tp_warnings = validate_install_urls (ac_portal_url c) (ac_agent_server_url c),
      tp_expires_at = expires\<rparr>"

text \<open>
  \<open>create_token\<close>: the audit target is \<open>str(row.id)\<close> of the row before it is flushed, when its
  id is still \<open>None\<close>.
\<close>

definition create_token ::
  "crypto \<Rightarrow> settings \<Rightarrow> env \<Rightarrow> config_override option \<Rightarrow> time \<Rightarrow> string \<Rightarrow> uuid \<Rightarrow> nat list \<Rightarrow> nat list \<Rightarrow>
   uuid \<Rightarrow> int \<Rightarrow> string option \<Rightarrow> string list option \<Rightarrow> token_request \<Rightarrow> string option \<Rightarrow> enroll_db \<Rightarrow>
   (http_error + token_response) \<times> enroll_db" where
  "create_token x cfg e ov now ip tid raw iv org ttl_hours classification purpose r cred db =
     as_admin x now cred db (\<lambda>admin.
       if \<not> sees db admin org
       then (Inl (HTTPException 403 ''Khong co quyen sinh token cho to chuc nay''), db)
       else
         (let token = generate_enroll_token raw; expires = now + hours ttl_hours in
          case insert_token (token_row x cfg tid token iv org (u_id admin) expires classification purpose r)
                 (en_tokens db) of
            None \<Rightarrow> (Inl internal_error, db)
          | Some rows \<Rightarrow>
              (Inr (token_response_for (effective_agent_config e ov) token expires),
               en_audit now ''token.create'' (uuid_of admin) (Some ''None'') (Some ip) None
                 (db\<lparr>en_tokens := rows\<rparr>))))"

text \<open>One item of the bulk import with its random values: row id, token bytes, phone iv.\<close>

fun bulk_rows ::
  "crypto \<Rightarrow> settings \<Rightarrow> uuid \<Rightarrow> uuid \<Rightarrow> time \<Rightarrow> string option \<Rightarrow> string list option \<Rightarrow> agent_cfg \<Rightarrow>
   (token_request \<times> uuid \<times> nat list \<times> nat list) list \<Rightarrow> enroll_token list \<Rightarrow>
   (enroll_token list \<times> token_response list) option" where
  "bulk_rows x cfg org admin expires c p ac [] rows = Some (rows, [])"
| "bulk_rows x cfg org admin expires c p ac ((r, tid, raw, iv) # items) rows =
     (let token = generate_enroll_token raw in
      case insert_token (token_row x cfg tid token iv org admin expires c p r) rows of
        None \<Rightarrow> None
      | Some rows' \<Rightarrow>
          map_option (\<lambda>(rs, outs). (rs, token_response_for ac token expires # outs))
            (bulk_rows x cfg org admin expires c p ac items rows'))"

definition create_tokens_bulk ::
  "crypto \<Rightarrow> settings \<Rightarrow> env \<Rightarrow> config_override option \<Rightarrow> time \<Rightarrow> string \<Rightarrow> uuid \<Rightarrow> int \<Rightarrow> string option \<Rightarrow>
   string list option \<Rightarrow> (token_request \<times> uuid \<times> nat list \<times> nat list) list \<Rightarrow> string option \<Rightarrow>
   enroll_db \<Rightarrow> (http_error + token_response list) \<times> enroll_db" where
  "create_tokens_bulk x cfg e ov now ip org ttl_hours classification purpose items cred db =
     as_admin x now cred db (\<lambda>admin.
       if \<not> sees db admin org
       then (Inl (HTTPException 403 ''Khong co quyen sinh token cho to chuc nay''), db)
       else
         case bulk_rows x cfg org (u_id admin) (now + hours ttl_hours) classification purpose
                (effective_agent_config e ov) items (en_tokens db) of
           None \<Rightarrow> (Inl internal_error, db)
         | Some (rows, outs) \<Rightarrow>
             (Inr outs,
              en_audit now ''token.bulk_create'' (uuid_of admin)
                (Some (''org:'' @ uuid_str org @ '':'' @ digits_of (length outs))) (Some ip) None
                (db\<lparr>en_tokens := rows\<rparr>)))"

text \<open>Newest first needs the creation time, which the model does not keep: table order.\<close>

text \<open>\<open>created\<close> is the column \<open>created_at\<close> of the rows, by which the listings are ordered.\<close>

definition list_tokens ::
  "(uuid \<Rightarrow> time) \<Rightarrow> time \<Rightarrow> uuid option \<Rightarrow> nat \<Rightarrow> nat \<Rightarrow> user \<Rightarrow> enroll_db \<Rightarrow> http_error + enroll_token list \<times> nat" where
  "list_tokens created now org limit offset admin db =
     (let q = filter (\<lambda>t. sees db admin (et_org_id t) \<and> now \<le> et_expires_at t \<and>
                 et_status t \<notin> {TEXPIRED, TREVOKED})
               (sort_key (\<lambda>t. - created (et_id t)) (sort_key (\<lambda>t. - et_expires_at t) (en_tokens db)));
          page = (\<lambda>ts. (take limit (drop offset ts), length ts))
      in case org of
           None \<Rightarrow> Inr (page q)
         | Some o' \<Rightarrow> if \<not> sees db admin o'
                      then Inl (HTTPException 403 ''Khong co quyen xem token cua to chuc nay'')
                      else Inr (page (filter (\<lambda>t. et_org_id t = o') q)))"

text \<open>
  The foreign key of \<open>enroll_attempts.token_id\<close> has no delete rule: a token that an attempt
  refers to cannot be deleted.
\<close>

definition token_referenced :: "uuid \<Rightarrow> enroll_db \<Rightarrow> bool" where
  "token_referenced tid db \<longleftrightarrow> (\<exists>a\<in>set (en_attempts db). ea_token_id a = Some tid)"

definition delete_token_row :: "uuid \<Rightarrow> enroll_db \<Rightarrow> enroll_db" where
  "delete_token_row tid db = db\<lparr>en_tokens := delete_where (\<lambda>t. et_id t = tid) (en_tokens db)\<rparr>"

definition revoke_token ::
  "crypto \<Rightarrow> time \<Rightarrow> string \<Rightarrow> uuid \<Rightarrow> string option \<Rightarrow> enroll_db \<Rightarrow> (http_error + unit) \<times> enroll_db" where
  "revoke_token x now ip tid cred db =
     as_admin x now cred db (\<lambda>admin.
       case find (\<lambda>t. et_id t = tid) (en_tokens db) of
         None \<Rightarrow> (Inl (HTTPException 404 ''Token khong ton tai''), db)
       | Some t \<Rightarrow>
           if \<not> sees db admin (et_org_id t)
           then (Inl (HTTPException 403 ''Khong co quyen thu hoi token nay''), db)
           else if et_status t = TUSED
           then (Inl (HTTPException 400 ''Token da dung, khong revoke duoc''), db)
           else if token_referenced tid db then (Inl internal_error, db)
           else (Inr (), delete_token_row tid
                  (en_audit now ''token.revoke'' (uuid_of admin) (Some (uuid_str tid)) (Some ip) None db)))"

definition delete_token ::
  "crypto \<Rightarrow> time \<Rightarrow> string \<Rightarrow> uuid \<Rightarrow> string option \<Rightarrow> enroll_db \<Rightarrow> (http_error + unit) \<times> enroll_db" where
  "delete_token x now ip tid cred db =
     (case require_super_admin x now (en_users db) cred of
        Inl err \<Rightarrow> (Inl err, db)
      | Inr admin \<Rightarrow>
          (case find (\<lambda>t. et_id t = tid) (en_tokens db) of
             None \<Rightarrow> (Inl (HTTPException 404 ''Token khong ton tai''), db)
           | Some t \<Rightarrow>
               if token_referenced tid db
               then (Inl (HTTPException 500 ''Khong xoa duoc token: IntegrityError''), db)
               else (Inr (), delete_token_row tid
                      (en_audit now ''token.delete'' (uuid_of admin) (Some (uuid_str tid)) (Some ip) None db))))"

definition status_text :: "token_status \<Rightarrow> string" where
  "status_text s = (case s of TPENDING \<Rightarrow> ''pending'' | TUSED \<Rightarrow> ''used'' | TREVOKED \<Rightarrow> ''revoked''
     | TEXPIRED \<Rightarrow> ''expired'')"

text \<open>
  \<open>reissue_token\<close>: the note of the old token is written from \<open>new_row.id\<close> before the flush
  that sets it, so it names \<open>None\<close>; the audit target is taken after the flush.
\<close>

definition reissue_token ::
  "crypto \<Rightarrow> env \<Rightarrow> config_override option \<Rightarrow> time \<Rightarrow> string \<Rightarrow> uuid \<Rightarrow> nat list \<Rightarrow> uuid \<Rightarrow> string option \<Rightarrow>
   enroll_db \<Rightarrow> (http_error + token_response) \<times> enroll_db" where
  "reissue_token x e ov now ip tid' raw tid cred db =
     as_admin x now cred db (\<lambda>admin.
       case find (\<lambda>t. et_id t = tid) (en_tokens db) of
         None \<Rightarrow> (Inl (HTTPException 404 ''Token khong ton tai''), db)
       | Some old \<Rightarrow>
           if \<not> sees db admin (et_org_id old)
           then (Inl (HTTPException 403 ''Khong co quyen thao tac token nay''), db)
           else if et_status old \<in> {TUSED, TREVOKED}
           then (Inl (HTTPException 400 (''Token da '' @ status_text (et_status old) @
                   '', khong tai sinh duoc. Sinh token moi.'')), db)
           else
             (let token = generate_enroll_token raw;
                  note = or_truthy (et_note old) [];
                  new_row = old\<lparr>et_id := tid', et_token_hash := hash_token token, et_created_by := u_id admin,
                     et_note := Some (note @ '' [reissue]''), et_expires_at := now + hours 72,
                     et_used_at := None, et_used_by := None, et_status := TPENDING,
                     et_purpose_tags := Some (case et_purpose_tags old of None \<Rightarrow> [] | Some ks \<Rightarrow> ks)\<rparr>
              in case insert_token new_row (en_tokens db) of
                   None \<Rightarrow> (Inl internal_error, db)
                 | Some rows \<Rightarrow>
                     (Inr (token_response_for (effective_agent_config e ov) token (now + hours 72)),
                      en_audit now ''token.reissue'' (uuid_of admin) (Some (uuid_str tid')) (Some ip) None
                        (db\<lparr>en_tokens := update_where (\<lambda>t. et_id t = tid)
                              (\<lambda>t. t\<lparr>et_note := Some (note @ '' [superseded by None]'')\<rparr>) rows\<rparr>))))"

subsection \<open>Attempts\<close>

definition attempt_in_scope :: "uuid \<Rightarrow> user \<Rightarrow> enroll_db \<Rightarrow> http_error + enroll_attempt" where
  "attempt_in_scope aid admin db =
     (case find (\<lambda>a. ea_id a = aid) (en_attempts db) of
        None \<Rightarrow> Inl (HTTPException 404 ''Khong tim thay yeu cau enroll'')
      | Some a \<Rightarrow>
          (case ea_org_id a of
             None \<Rightarrow> if \<not> is_super_admin admin
                     then Inl (HTTPException 403 ''Chi Super Admin xu ly attempt token la'') else Inr a
           | Some org \<Rightarrow> if \<not> sees db admin org
                     then Inl (HTTPException 403 ''Khong co quyen voi yeu cau nay'') else Inr a))"

definition list_attempts :: "user \<Rightarrow> string option \<Rightarrow> nat \<Rightarrow> nat \<Rightarrow> enroll_db \<Rightarrow> enroll_attempt list" where
  "list_attempts admin status_filter limit offset db =
     (let q = filter (\<lambda>a. (is_super_admin admin \<or> (case ea_org_id a of None \<Rightarrow> False | Some org \<Rightarrow> sees db admin org)) \<and>
                (truthy status_filter \<longrightarrow> Some (ea_status a) = status_filter)) (en_attempts db)
      in take limit (drop offset (sort_key (\<lambda>a. - ea_created_at a) q)))"

definition decide_attempt :: "uuid \<Rightarrow> (enroll_attempt \<Rightarrow> enroll_attempt) \<Rightarrow> enroll_db \<Rightarrow> enroll_db" where
  "decide_attempt aid f db = db\<lparr>en_attempts := update_where (\<lambda>a. ea_id a = aid) f (en_attempts db)\<rparr>"

definition approve_attempt ::
  "crypto \<Rightarrow> env \<Rightarrow> config_override option \<Rightarrow> time \<Rightarrow> string \<Rightarrow> uuid \<Rightarrow> nat list \<Rightarrow> string option \<Rightarrow> uuid \<Rightarrow>
   string option \<Rightarrow> enroll_db \<Rightarrow> (http_error + token_response) \<times> enroll_db" where
  "approve_attempt x e ov now ip tid raw note aid cred db =
     as_admin x now cred db (\<lambda>admin.
       case attempt_in_scope aid admin db of
         Inl err \<Rightarrow> (Inl err, db)
       | Inr a \<Rightarrow>
           if ea_status a \<noteq> ''pending'' then (Inl (HTTPException 400 ''Yeu cau da duoc xu ly''), db)
           else
             (case ea_org_id a of
                None \<Rightarrow> (Inl (HTTPException 400 ''Token la khong xac dinh duoc to chuc''), db)
              | Some org \<Rightarrow>
                  (let token = generate_enroll_token raw; expires = now + hours 72;
                       row = \<lparr>et_id = tid, et_token_hash = hash_token token, et_org_id = org, et_email = None,
                              et_expires_at = expires, et_used_at = None, et_used_by = None,
                              et_status = TPENDING, et_classification = None, et_purpose_tags = Some [],
                              et_created_by = u_id admin, et_full_name = None, et_department = None,
                              et_position = None, et_phone_encrypted = None,
                              et_note = Some (''Thay the cho enroll attempt, may '' @ or_truthy (ea_hostname a) ''?'' @
                                '', IP '' @ or_truthy (ea_ip a) ''?'' @ '', token cu '' @ ea_token_status a)\<rparr>
                   in case insert_token row (en_tokens db) of
                        None \<Rightarrow> (Inl internal_error, db)
                      | Some rows \<Rightarrow>
                          (Inr (token_response_for (effective_agent_config e ov) token expires),
                           en_audit now ''enroll_attempt.approve'' (uuid_of admin) (Some (uuid_str aid)) (Some ip) None
                             (decide_attempt aid
                                (\<lambda>b. b\<lparr>ea_status := ''approved'', ea_decided_by := Some (u_id admin),
                                       ea_decided_at := Some now, ea_note := py_or note (ea_note b)\<rparr>)
                                (db\<lparr>en_tokens := rows\<rparr>))))))"

definition reject_note :: "string option \<Rightarrow> string option \<Rightarrow> string" where
  "reject_note note old =
     ''Tu choi: '' @ or_truthy note ''khong ro ly do'' @
     (if truthy old then CHR 0x0A # the old else [])"

definition reject_attempt ::
  "crypto \<Rightarrow> time \<Rightarrow> string \<Rightarrow> string option \<Rightarrow> uuid \<Rightarrow> string option \<Rightarrow> enroll_db \<Rightarrow>
   (http_error + unit) \<times> enroll_db" where
  "reject_attempt x now ip note aid cred db =
     as_admin x now cred db (\<lambda>admin.
       case attempt_in_scope aid admin db of
         Inl err \<Rightarrow> (Inl err, db)
       | Inr a \<Rightarrow>
           if ea_status a \<noteq> ''pending'' then (Inl (HTTPException 400 ''Yeu cau da duoc xu ly''), db)
           else (Inr (),
                 en_audit now ''enroll_attempt.reject'' (uuid_of admin) (Some (uuid_str aid)) (Some ip) None
                   (decide_attempt aid
                      (\<lambda>b. b\<lparr>ea_status := ''rejected'', ea_decided_by := Some (u_id admin),
                             ea_decided_at := Some now, ea_note := Some (reject_note note (ea_note b))\<rparr>) db)))"

subsection \<open>Drifts\<close>

definition list_drifts ::
  "(uuid \<Rightarrow> time) \<Rightarrow> user \<Rightarrow> string option \<Rightarrow> nat \<Rightarrow> nat \<Rightarrow> enroll_db \<Rightarrow> fingerprint_drift list" where
  "list_drifts created u status_filter limit offset db =
     take limit (drop offset
       (filter (\<lambda>d. (\<exists>m\<in>set (en_machines db). m_id m = fd_machine_id d \<and> sees db u (m_org_id m)) \<and>
                    (truthy status_filter \<longrightarrow> Some (fd_status d) = status_filter))
          (sort_key (\<lambda>d. - created (fd_id d)) (en_drifts db))))"

text \<open>\<open>_resolve\<close> for the two decisions \<open>approved\<close> and \<open>rejected\<close>.\<close>

definition resolve_drift ::
  "crypto \<Rightarrow> time \<Rightarrow> string option \<Rightarrow> string \<Rightarrow> uuid \<Rightarrow> string option \<Rightarrow> enroll_db \<Rightarrow>
   (http_error + unit) \<times> enroll_db" where
  "resolve_drift x now ip decision did cred db =
     as_admin x now cred db (\<lambda>admin.
       case find (\<lambda>d. fd_id d = did) (en_drifts db) of
         None \<Rightarrow> (Inl (HTTPException 404 ''Drift khong ton tai''), db)
       | Some d \<Rightarrow>
           (case find (\<lambda>m. m_id m = fd_machine_id d) (en_machines db) of
              None \<Rightarrow> (Inl (HTTPException 404 ''May khong ton tai''), db)
            | Some m \<Rightarrow>
                if \<not> sees db admin (m_org_id m)
                then (Inl (HTTPException 403 ''Khong co quyen xu ly drift nay''), db)
                else if fd_status d \<noteq> ''pending''
                then (Inl (HTTPException 400 (''Drift da duoc xu ly ('' @ fd_status d @ '')'')), db)
                else
                  (let m' = (if decision = ''approved''
                             then m\<lparr>m_fingerprint := fd_new_fingerprint d,
                                    m_machine_uuid := compute_weighted_id (fd_new_fingerprint d)\<rparr>
                             else m);
                       db1 = (put_machine m' db)\<lparr>en_drifts := update_where (\<lambda>r. fd_id r = did)
                                (\<lambda>r. r\<lparr>fd_status := decision, fd_resolved_at := Some now,
                                       fd_resolved_by := Some (u_id admin)\<rparr>) (en_drifts db)\<rparr>
                   in (Inr (), en_audit now (''fingerprint.'' @ decision) (uuid_of admin)
                                 (Some (uuid_str (m_id m))) ip (Some (m_id m)) db1))))"

end
