(* ===== verification/EnrollProps.thy ===== *)
theory EnrollProps
  imports EnrollAdmin
begin

text \<open>
  What enrolment guarantees: the changes any operation may make to the token table (an
  inductive relation), the enrolment subsystem as a step system over all operations of the
  two preceding theories, and the properties of tokens, machines, drifts and attempts.
\<close>

subsection \<open>Changes of the token table\<close>

inductive tok_step :: "string set \<Rightarrow> enroll_token list \<Rightarrow> enroll_token list \<Rightarrow> bool" for new where
  add: "et_token_hash r \<in> new \<Longrightarrow> et_id r \<notin> et_id ` set ts \<Longrightarrow>
     et_token_hash r \<notin> et_token_hash ` set ts \<Longrightarrow> tok_step new ts (insert_row r ts)"
| change: "t \<in> set ts \<Longrightarrow> et_id t = i \<Longrightarrow> et_status t \<noteq> TUSED \<or> (\<forall>r. et_status (f r) = et_status r) \<Longrightarrow>
     (\<And>r. et_id (f r) = et_id r) \<Longrightarrow> (\<And>r. et_token_hash (f r) = et_token_hash r) \<Longrightarrow>
     tok_step new ts (update_where (\<lambda>r. et_id r = i) f ts)"
| remove: "tok_step new ts (delete_where P ts)"

inductive_cases tok_stepE: "tok_step new ts ts'"

definition tok_ok :: "enroll_token list \<Rightarrow> bool" where
  "tok_ok ts \<longleftrightarrow> distinct (map et_id ts) \<and> distinct (map et_token_hash ts)"

definition spent :: "string \<Rightarrow> enroll_token list \<Rightarrow> bool" where
  "spent h ts \<longleftrightarrow> (\<forall>t\<in>set ts. et_token_hash t = h \<longrightarrow> et_status t = TUSED)"

lemma tok_step_ok: "tok_step new ts ts' \<Longrightarrow> tok_ok ts \<Longrightarrow> tok_ok ts'"
proof (induction rule: tok_step.induct)
  case (change t ts i f)
  have "map et_id (update_where (\<lambda>r. et_id r = i) f ts) = map et_id ts"
    "map et_token_hash (update_where (\<lambda>r. et_id r = i) f ts) = map et_token_hash ts"
    using change by (auto simp: update_where_def)
  with change.prems show ?case by (simp add: tok_ok_def)
qed (auto simp: tok_ok_def insert_row_def delete_where_def distinct_map_filter)

text \<open>Only a new row can bring a spent digest back into circulation.\<close>

lemma tok_step_spent: "tok_step new ts ts' \<Longrightarrow> tok_ok ts \<Longrightarrow> spent h ts \<Longrightarrow> h \<notin> new \<Longrightarrow> spent h ts'"
proof (induction rule: tok_step.induct)
  case (change t ts i f)
  show ?case
    unfolding spent_def
  proof (intro ballI impI)
    fix s
    assume s: "s \<in> set (update_where (\<lambda>r. et_id r = i) f ts)" "et_token_hash s = h"
    then show "et_status s = TUSED"
    proof (elim update_whereE)
      fix r
      assume r: "r \<in> set ts" "et_id r = i" "s = f r"
      then have "r = t" using change.hyps(1,2) change.prems(1)
        by (auto simp: tok_ok_def distinct_map dest: inj_onD)
      have "et_status r = TUSED" using change.prems(2) r s(2) change.hyps(5) by (auto simp: spent_def)
      then show ?thesis using change.hyps(3) r(3) \<open>r = t\<close> by auto
    next
      assume "s \<in> set ts" "et_id s \<noteq> i"
      with change.prems(2) s(2) show ?thesis by (simp add: spent_def)
    qed
  qed
qed (auto simp: spent_def)

lemma tok_steps_keep:
  "(tok_step new)\<^sup>*\<^sup>* ts ts' \<Longrightarrow> tok_ok ts \<Longrightarrow> tok_ok ts' \<and> (spent h ts \<and> h \<notin> new \<longrightarrow> spent h ts')"
  by (induction rule: rtranclp_induct) (auto intro: tok_step_ok tok_step_spent)

lemma tok_step_mono: "tok_step new ts ts' \<Longrightarrow> new \<subseteq> new' \<Longrightarrow> tok_step new' ts ts'"
  by (induction rule: tok_step.induct) (auto intro: tok_step.intros)

lemma insert_token_step:
  assumes "insert_token r ts = Some ts'" and "et_token_hash r \<in> new"
  shows "tok_step new ts ts'"
proof -
  have "ts' = insert_row r ts" "et_id r \<notin> et_id ` set ts" "et_token_hash r \<notin> et_token_hash ` set ts"
    using assms(1) by (auto simp: insert_token_def image_iff split: if_splits)
  with assms(2) show ?thesis by (auto intro: tok_step.add)
qed

lemma insert_token_steps:
  "insert_token r ts = Some ts' \<Longrightarrow> et_token_hash r \<in> new \<Longrightarrow> (tok_step new)\<^sup>*\<^sup>* ts ts'"
  by (blast intro: insert_token_step)

lemma token_row_hash [simp]: "et_token_hash (token_row x cfg tid token iv org admin ex c p r) = hash_token token"
  by (simp add: token_row_def)

lemma bulk_rows_steps:
  "bulk_rows x cfg org admin ex c p ac items ts = Some (ts', outs) \<Longrightarrow>
     (\<lambda>(r, tid, raw, iv). hash_token (generate_enroll_token raw)) ` set items \<subseteq> new \<Longrightarrow>
     (tok_step new)\<^sup>*\<^sup>* ts ts'"
proof (induction items arbitrary: ts ts' outs)
  case (Cons item items)
  obtain r tid raw iv where item: "item = (r, tid, raw, iv)" by (cases item) auto
  with Cons.prems obtain ts1 outs1 where
    "insert_token (token_row x cfg tid (generate_enroll_token raw) iv org admin ex c p r) ts = Some ts1"
    "bulk_rows x cfg org admin ex c p ac items ts1 = Some (ts', outs1)"
    by (auto simp: Let_def split: option.splits)
  moreover have "et_token_hash (token_row x cfg tid (generate_enroll_token raw) iv org admin ex c p r) \<in> new"
    using Cons.prems(2) item by (simp add: token_row_def)
  ultimately show ?case using Cons.IH Cons.prems(2) insert_token_step
    by (meson converse_rtranclp_into_rtranclp image_subset_iff list.set_intros(2))
qed simp

subsection \<open>The subsystem\<close>

datatype enroll_event =
    Enroll "string \<Rightarrow> uuid \<Rightarrow> string option" time en_fresh string string "string option" fingerprint string
  | CreateToken time string uuid "nat list" "nat list" uuid int "string option" "string list option" token_request "string option"
  | BulkTokens time string uuid int "string option" "string list option" "(token_request \<times> uuid \<times> nat list \<times> nat list) list" "string option"
  | RevokeToken time string uuid "string option"
  | DeleteToken time string uuid "string option"
  | ReissueToken time string uuid "nat list" uuid "string option"
  | ApproveAttempt time string uuid "nat list" "string option" uuid "string option"
  | RejectAttempt time string "string option" uuid "string option"
  | ResolveDrift time "string option" string uuid "string option"

fun enroll_step ::
  "crypto \<Rightarrow> settings \<Rightarrow> env \<Rightarrow> config_override option \<Rightarrow> enroll_event \<Rightarrow> enroll_db \<Rightarrow> enroll_db" where
  "enroll_step x cfg e ov (Enroll sign now fr ip tok hostname fp csr) db =
     snd (enroll sign e ov now fr ip tok hostname fp csr db)"
| "enroll_step x cfg e ov (CreateToken now ip tid raw iv org ttl c p r cred) db =
     snd (create_token x cfg e ov now ip tid raw iv org ttl c p r cred db)"
| "enroll_step x cfg e ov (BulkTokens now ip org ttl c p items cred) db =
     snd (create_tokens_bulk x cfg e ov now ip org ttl c p items cred db)"
| "enroll_step x cfg e ov (RevokeToken now ip tid cred) db = snd (revoke_token x now ip tid cred db)"
| "enroll_step x cfg e ov (DeleteToken now ip tid cred) db = snd (delete_token x now ip tid cred db)"
| "enroll_step x cfg e ov (ReissueToken now ip tid' raw tid cred) db =
     snd (reissue_token x e ov now ip tid' raw tid cred db)"
| "enroll_step x cfg e ov (ApproveAttempt now ip tid raw note aid cred) db =
     snd (approve_attempt x e ov now ip tid raw note aid cred db)"
| "enroll_step x cfg e ov (RejectAttempt now ip note aid cred) db = snd (reject_attempt x now ip note aid cred db)"
| "enroll_step x cfg e ov (ResolveDrift now ip decision did cred) db =
     snd (resolve_drift x now ip decision did cred db)"

text \<open>The digests of the tokens an operation generates.\<close>

fun new_hashes :: "enroll_event \<Rightarrow> string set" where
  "new_hashes (CreateToken now ip tid raw iv org ttl c p r cred) = {hash_token (generate_enroll_token raw)}"
| "new_hashes (BulkTokens now ip org ttl c p items cred) =
     (\<lambda>(r, tid, raw, iv). hash_token (generate_enroll_token raw)) ` set items"
| "new_hashes (ReissueToken now ip tid' raw tid cred) = {hash_token (generate_enroll_token raw)}"
| "new_hashes (ApproveAttempt now ip tid raw note aid cred) = {hash_token (generate_enroll_token raw)}"
| "new_hashes _ = {}"

lemma expire_step:
  assumes "find P (en_tokens db) = Some t" and "et_status t \<noteq> TUSED"
  shows "tok_step new (en_tokens db) (en_tokens (set_token_status TEXPIRED (et_id t) db))"
  using find_SomeD [OF assms(1)] assms(2)
  by (auto simp: set_token_status_def intro!: tok_step.change)

lemma refuse_tokens:
  "(case refuse aid started now tok label row hostname fp ip actor action target detail db0 db1 of (e, d) \<Rightarrow> (Inl e, d)) = (r, db') \<Longrightarrow>
     en_tokens db' = en_tokens db0 \<or> en_tokens db' = en_tokens db1"
  by (auto simp: refuse_def record_enroll_attempt_def split: option.splits)

lemma perform_enroll_error_tokens:
  assumes "perform_enroll now fr tok hostname fp actor ip db = (Inl e, db')"
  shows "en_tokens db' = en_tokens db \<or>
    (\<exists>t. find (\<lambda>t. et_token_hash t = hash_token tok) (en_tokens db) = Some t \<and> et_status t \<noteq> TUSED \<and>
       en_tokens db' = en_tokens (set_token_status TEXPIRED (et_id t) db))"
proof (cases "find (\<lambda>t. et_token_hash t = hash_token tok) (en_tokens db)")
  case None
  from assms have "en_tokens db' = en_tokens db \<or> en_tokens db' = en_tokens db"
    unfolding perform_enroll_def Let_def None option.case by (rule refuse_tokens)
  then show ?thesis by simp
next
  case (Some t)
  note eq = assms [unfolded perform_enroll_def Let_def Some option.case]
  show ?thesis
  proof (cases "et_status t = TREVOKED \<or> et_status t = TUSED")
    case True
    then have "en_tokens db' = en_tokens db \<or> en_tokens db' = en_tokens db"
      using eq by (cases "et_status t = TREVOKED") (simp_all only: if_True if_False simp_thms, (drule refuse_tokens, simp)+)
    then show ?thesis by simp
  next
    case usable: False
    show ?thesis
    proof (cases "et_expires_at t < now")
      case True
      have "en_tokens db' = en_tokens db \<or>
          en_tokens db' = en_tokens (set_token_status TEXPIRED (et_id t) db)"
        using eq usable True by (simp only: if_True if_False simp_thms de_Morgan_disj) (rule refuse_tokens)
      then show ?thesis using Some usable by auto
    next
      case False
      with eq usable have "db' = db" by (auto split: option.splits)
      then show ?thesis by simp
    qed
  qed
qed

lemma perform_enroll_tokens:
  assumes "perform_enroll now fr tok hostname fp actor ip db = (Inl e, db')"
  shows "(tok_step new)\<^sup>*\<^sup>* (en_tokens db) (en_tokens db')"
  using perform_enroll_error_tokens [OF assms] expire_step by fastforce

lemma perform_enroll_facts:
  assumes "perform_enroll now fr tok hostname fp actor ip db = (Inr (m, is_new, t), db')"
  shows "en_tokens db' = en_tokens db" "t \<in> set (en_tokens db)" "et_token_hash t = hash_token tok"
    "et_status t \<noteq> TUSED" "et_status t \<noteq> TREVOKED" "now \<le> et_expires_at t"
  by (rule perform_enroll_cases [OF assms]; use note_drift_sel find_SomeD in fastforce)+

lemma enroll_tokens: "(tok_step new)\<^sup>*\<^sup>* (en_tokens db) (en_tokens (snd (enroll sign e ov now fr ip tok hostname fp csr db)))"
proof (cases "perform_enroll now fr tok hostname fp ''agent:unknown'' (Some ip) db")
  case (Pair r db1)
  show ?thesis
  proof (cases r)
    case (Inl err)
    with Pair perform_enroll_tokens show ?thesis by (simp add: enroll_def)
  next
    case (Inr mt)
    obtain m is_new t where mt: "mt = (m, is_new, t)" by (cases mt) auto
    have same: "en_tokens db1 = en_tokens db" and t: "t \<in> set (en_tokens db)" "et_status t \<noteq> TUSED"
      using perform_enroll_facts [OF Pair [unfolded Inr mt]] by simp_all
    have "tok_step new (en_tokens db)
        (update_where (\<lambda>r. et_id r = et_id t) (use_token now (m_id m)) (en_tokens db))"
      by (rule tok_step.change [OF t(1)]) (simp_all add: t(2) use_token_def)
    with Pair Inr mt same show ?thesis by (auto simp: enroll_def Let_def split: option.splits)
  qed
qed

lemma reissue_tokens:
  "(tok_step {hash_token (generate_enroll_token raw)})\<^sup>*\<^sup>* (en_tokens db)
     (en_tokens (snd (reissue_token x e ov now ip tid' raw tid cred db)))"
proof -
  let ?new = "{hash_token (generate_enroll_token raw)}"
  have "(tok_step ?new)\<^sup>*\<^sup>* (en_tokens db) (update_where (\<lambda>t. et_id t = tid) (\<lambda>t. t\<lparr>et_note := n\<rparr>) rows)"
    if found: "find (\<lambda>t. et_id t = tid) (en_tokens db) = Some old"
      and ins: "insert_token r (en_tokens db) = Some rows" "et_token_hash r \<in> ?new" for old r rows n
  proof -
    have "old \<in> set rows" "et_id old = tid"
      using find_SomeD [OF found] ins(1) by (auto simp: insert_token_def split: if_splits)
    then have "tok_step ?new rows (update_where (\<lambda>t. et_id t = tid) (\<lambda>t. t\<lparr>et_note := n\<rparr>) rows)"
      by (intro tok_step.change) simp_all
    then show ?thesis using insert_token_step [OF ins] by (meson converse_rtranclp_into_rtranclp r_into_rtranclp)
  qed
  then show ?thesis
    by (simp add: reissue_token_def as_admin_def Let_def split: option.split sum.split)
qed

lemma enroll_step_tokens: "(tok_step (new_hashes ev))\<^sup>*\<^sup>* (en_tokens db) (en_tokens (enroll_step x cfg e ov ev db))"
proof (cases ev)
  case (Enroll sign now fr ip tok hostname fp csr)
  then show ?thesis by (simp add: enroll_tokens)
next
  case (CreateToken now ip tid raw iv org ttl c p r cred)
  then show ?thesis
    by (auto simp: create_token_def as_admin_def Let_def split: option.splits sum.splits intro: insert_token_steps)
next
  case (BulkTokens now ip org ttl c p items cred)
  then show ?thesis
    by (auto simp: create_tokens_bulk_def as_admin_def split: option.splits sum.splits dest: bulk_rows_steps)
next
  case (ReissueToken now ip tid' raw tid cred)
  then show ?thesis by (simp add: reissue_tokens)
next
  case (ApproveAttempt now ip tid raw msg aid cred)
  then show ?thesis
    by (auto simp: approve_attempt_def as_admin_def Let_def decide_attempt_def split: option.splits sum.splits intro: insert_token_steps)
next
  case (RevokeToken now ip tid cred)
  then show ?thesis
    by (auto simp: revoke_token_def as_admin_def delete_token_row_def split: option.splits sum.splits intro: tok_step.remove)
next
  case (DeleteToken now ip tid cred)
  then show ?thesis
    by (auto simp: delete_token_def delete_token_row_def split: option.splits sum.splits intro: tok_step.remove)
next
  case (RejectAttempt now ip msg aid cred)
  then show ?thesis
    by (auto simp: reject_attempt_def as_admin_def decide_attempt_def split: sum.splits)
next
  case (ResolveDrift now ip decision did cred)
  then show ?thesis
    by (auto simp: resolve_drift_def as_admin_def Let_def split: option.splits sum.splits)
qed

interpretation enrolment: step_system "enroll_step x cfg e ov" "\<lambda>ev db. h \<notin> new_hashes ev"
    "\<lambda>db. tok_ok (en_tokens db) \<and> spent h (en_tokens db)" for x cfg e ov h
  by unfold_locales (use tok_steps_keep [OF enroll_step_tokens] in blast)

subsection \<open>Properties\<close>

text \<open>C2: an enrolment token enrols one machine. After a successful enrolment no later enrolment
  with the same token succeeds, whatever enrolments and administrative operations happen in
  between, as long as none of them draws the same random token again.\<close>

theorem enroll_token_single_use:
  assumes "tok_ok (en_tokens db)"
    and "enroll sign e1 ov1 now fr ip tok hostname fp csr db = (Inr r, db1)"
    and "enrolment.admissible x cfg e ov (hash_token tok) es db1"
  shows "\<exists>err. fst (enroll sign' e' ov' now' fr' ip' tok hostname' fp' csr' (run (enroll_step x cfg e ov) es db1)) =
    Inl err"
proof -
  obtain m is_new t db0 where performed:
      "perform_enroll now fr tok hostname fp ''agent:unknown'' (Some ip) db = (Inr (m, is_new, t), db0)"
    and tokens: "en_tokens db1 = update_where (\<lambda>s. et_id s = et_id t) (use_token now (m_id m)) (en_tokens db0)"
    using assms(2) by (auto simp: enroll_def Let_def split: sum.splits prod.splits option.splits)
  note facts = perform_enroll_facts [OF performed]
  have ok: "tok_ok (en_tokens db1)"
    using tok_steps_keep [OF enroll_tokens assms(1), where new = "{}"] assms(2) by (metis snd_conv)
  have "spent (hash_token tok) (en_tokens db1)"
    unfolding spent_def tokens
  proof (intro ballI impI)
    fix s
    assume "s \<in> set (update_where (\<lambda>s. et_id s = et_id t) (use_token now (m_id m)) (en_tokens db0))"
      and h: "et_token_hash s = hash_token tok"
    then show "et_status s = TUSED"
    proof (elim update_whereE)
      assume s: "s \<in> set (en_tokens db0)" "et_id s \<noteq> et_id t"
      have "inj_on et_token_hash (set (en_tokens db))" using assms(1) by (simp add: tok_ok_def distinct_map)
      then have "s = t" by (rule inj_onD) (use s facts(1-3) h in simp_all)
      with s show ?thesis by simp
    qed (simp add: use_token_def)
  qed
  with ok have spent: "spent (hash_token tok) (en_tokens (run (enroll_step x cfg e ov) es db1))"
    using enrolment.run_inv [OF assms(3)] by blast
  show ?thesis
  proof (cases "perform_enroll now' fr' tok hostname' fp' ''agent:unknown'' (Some ip') (run (enroll_step x cfg e ov) es db1)")
    case (Pair res db2)
    show ?thesis
    proof (cases res)
      case (Inr mt)
      obtain m' n' t' where "mt = (m', n', t')" by (cases mt) auto
      note again = perform_enroll_facts [OF Pair [unfolded Inr this]]
      have False using again(2-4) spent unfolding spent_def by blast
      then show ?thesis ..
    qed (use Pair in \<open>simp add: enroll_def\<close>)
  qed
qed

lemma distinct_id_eq:
  "distinct (map m_id ms) \<Longrightarrow> a \<in> set ms \<Longrightarrow> b \<in> set ms \<Longrightarrow> m_id a = m_id b \<Longrightarrow> a = b"
  by (auto simp: distinct_map dest: inj_onD)

text \<open>C8: what a successful enrolment did: the token was pending and in time and is now spent on
  the machine it reports; the machine is in the token's organisation; it is new and pending,
  or it was already there and is now online (pending, if it was decommissioned); no machine
  of another organisation changed.\<close>

theorem enroll_success_effects:
  assumes "distinct (map m_id (en_machines db))"
    and "enroll sign e ov now fr ip tok hostname fp csr db = (Inr r, db')"
  shows "\<exists>t\<in>set (en_tokens db). et_token_hash t = hash_token tok \<and> et_status t \<notin> {TUSED, TREVOKED} \<and>
      now \<le> et_expires_at t \<and>
      (\<exists>t'\<in>set (en_tokens db'). et_id t' = et_id t \<and> et_status t' = TUSED \<and> et_used_by t' = Some (er_machine_id r)) \<and>
      (\<exists>m\<in>set (en_machines db'). m_id m = er_machine_id r \<and> m_org_id m = et_org_id t \<and> m_status m = er_status r \<and>
         (if er_is_new_machine r then m_status m = PENDING \<and> m_id m = ef_machine fr
          else \<exists>m0\<in>set (en_machines db). m_id m0 = m_id m \<and>
                 m_status m = (if m_status m0 = DECOMMISSIONED then PENDING else ONLINE))) \<and>
      (\<forall>m\<in>set (en_machines db). m_org_id m \<noteq> et_org_id t \<longrightarrow> m \<in> set (en_machines db'))"
proof -
  obtain m is_new t db0 cert where performed:
      "perform_enroll now fr tok hostname fp ''agent:unknown'' (Some ip) db = (Inr (m, is_new, t), db0)"
    and tokens: "en_tokens db' = update_where (\<lambda>s. et_id s = et_id t) (use_token now (m_id m)) (en_tokens db0)"
    and machines: "en_machines db' = en_machines db0"
    and resp: "er_machine_id r = m_id m" "er_is_new_machine r = is_new" "er_status r = m_status m"
    using assms(2) by (auto simp: enroll_def Let_def split: sum.splits prod.splits option.splits)
  note facts = perform_enroll_facts [OF performed]
  have "use_token now (m_id m) t \<in> set (en_tokens db')"
    unfolding tokens set_update_where using facts(1,2) by (intro image_eqI [of _ _ t]) simp_all
  then have spent: "\<exists>t'\<in>set (en_tokens db'). et_id t' = et_id t \<and> et_status t' = TUSED \<and>
      et_used_by t' = Some (er_machine_id r)"
    using resp(1) by (intro bexI [of _ "use_token now (m_id m) t"]) (simp_all add: use_token_def)
  have "m \<in> set (en_machines db0) \<and> m_org_id m = et_org_id t \<and>
      (if is_new then m_status m = PENDING \<and> m_id m = ef_machine fr
       else \<exists>m0\<in>set (en_machines db). m_id m0 = m_id m \<and>
              m_status m = (if m_status m0 = DECOMMISSIONED then PENDING else ONLINE)) \<and>
      (\<forall>o'\<in>set (en_machines db). m_org_id o' \<noteq> et_org_id t \<longrightarrow> o' \<in> set (en_machines db0))"
  proof (rule perform_enroll_cases [OF performed])
    assume "is_new" "m = new_machine now (ef_machine fr) t hostname fp (en_users db)"
      "db0 = db\<lparr>en_machines := insert_row m (en_machines db),
         en_tags := apply_token_tags (ef_machine fr) (et_classification t) (et_purpose_tags t) None (en_tags db)\<rparr>"
    then show ?thesis by (simp add: new_machine_def)
  next
    fix m0
    assume known: "\<not> is_new" "find_machine (et_org_id t) fp (en_machines db) = Some (Some m0)"
      "m = reenrolled now hostname m0"
      "note_drift (ef_drift fr) now m fp ''agent:unknown'' (Some ip) (put_machine m db) = Some db0"
    have m0: "m0 \<in> set (en_machines db)" "m_org_id m0 = et_org_id t"
      using find_machineD [OF known(2)] by simp_all
    have same: "m_id m = m_id m0" "m_org_id m = m_org_id m0"
      "m_status m = (if m_status m0 = DECOMMISSIONED then PENDING else ONLINE)"
      by (simp_all add: known(3) reenrolled_def)
    have rows: "en_machines db0 = update_where (\<lambda>r. m_id r = m_id m) (\<lambda>_. m) (en_machines db)"
      using note_drift_sel [OF known(4)] by (simp add: put_machine_def)
    have "m \<in> set (en_machines db0)"
      unfolding rows set_update_where using m0(1) same(1) by (intro image_eqI [of _ _ m0]) simp_all
    moreover have "o' \<in> set (en_machines db0)" if o': "o' \<in> set (en_machines db)" "m_org_id o' \<noteq> et_org_id t" for o'
    proof -
      have "m_id o' \<noteq> m_id m" using distinct_id_eq [OF assms(1) o'(1) m0(1)] o'(2) m0(2) same(1) by auto
      then show ?thesis
        unfolding rows set_update_where using o'(1) by (intro image_eqI [of _ _ o']) simp_all
    qed
    ultimately show ?thesis using known(1) m0 same by auto
  qed
  note m = this
  have "\<exists>m\<in>set (en_machines db'). m_id m = er_machine_id r \<and> m_org_id m = et_org_id t \<and> m_status m = er_status r \<and>
      (if er_is_new_machine r then m_status m = PENDING \<and> m_id m = ef_machine fr
       else \<exists>m0\<in>set (en_machines db). m_id m0 = m_id m \<and>
              m_status m = (if m_status m0 = DECOMMISSIONED then PENDING else ONLINE))"
    by (rule bexI [of _ m]) (use m resp machines in simp_all)
  with m spent facts machines show ?thesis by (intro bexI [of _ t]) auto
qed

text \<open>C13: a refused enrolment, for whatever reason, leaves machines, tags, drifts and users alone
  and spends no token.\<close>

theorem enroll_refusal_frame:
  assumes "enroll sign e ov now fr ip tok hostname fp csr db = (Inl err, db')"
  shows "en_machines db' = en_machines db \<and> en_tags db' = en_tags db \<and> en_drifts db' = en_drifts db \<and>
    en_users db' = en_users db \<and>
    (\<forall>t'\<in>set (en_tokens db'). et_status t' = TUSED \<longrightarrow> t' \<in> set (en_tokens db))"
proof (cases "perform_enroll now fr tok hostname fp ''agent:unknown'' (Some ip) db")
  case (Pair res db1)
  show ?thesis
  proof (cases res)
    case (Inl err')
    with Pair assms have db': "db1 = db'" by (simp add: enroll_def)
    note failed = Pair [unfolded Inl db']
    have "t' \<in> set (en_tokens db)" if "t' \<in> set (en_tokens db')" "et_status t' = TUSED" for t'
      using perform_enroll_error_tokens [OF failed] that
      by (auto simp: set_token_status_def simp del: set_update_where elim!: update_whereE)
    with perform_enroll_error_frame [OF failed] show ?thesis by blast
  next
    case (Inr mt)
    with Pair assms have "db' = db" by (auto simp: enroll_def Let_def split: prod.splits option.splits)
    then show ?thesis by simp
  qed
qed

lemma record_attempts_defined:
  assumes "recent_unique now as"
    and "row = None \<or> (\<exists>t. row = Some t \<and> length (filter (\<lambda>m. m_org_id m = et_org_id t \<and>
        m_machine_uuid m = compute_weighted_id fp) ms) \<le> 1)"
  shows "\<exists>as'. record_attempts aid started now tok label row hostname fp ip ms as = Some as'"
proof -
  have "length (filter (recent_attempt now (compute_weighted_id fp) label) as) \<le> 1"
    using assms(1) by (simp add: recent_unique_def)
  then obtain r where "one_or_none (filter (recent_attempt now (compute_weighted_id fp) label) as) = Some r"
    by (cases "one_or_none (filter (recent_attempt now (compute_weighted_id fp) label) as)")
      (auto simp: one_or_none_None)
  moreover obtain q where "(case row of None \<Rightarrow> Some None | Some t \<Rightarrow> map_option (map_option m_id) (one_or_none
      (filter (\<lambda>m. m_org_id m = et_org_id t \<and> m_machine_uuid m = compute_weighted_id fp) ms))) = Some q"
  proof (cases row)
    case (Some t)
    with assms(2) have "one_or_none (filter (\<lambda>m. m_org_id m = et_org_id t \<and>
        m_machine_uuid m = compute_weighted_id fp) ms) \<noteq> None"
      by (simp add: one_or_none_None)
    with Some that show ?thesis by auto
  qed (use that in simp)
  ultimately show ?thesis by (cases r) (simp_all add: record_attempts_def Let_def)
qed

text \<open>Recording a refused attempt never meets two candidates, now or later: no machine and cause
  ever has two pending attempts in a window of 24 hours. While the process has been up for at
  most 24 hours, exactly one is left in the window, and a repeated attempt adds no row.\<close>

theorem attempts_deduplicated:
  assumes "recent_unique now as" and "started \<le> now"
    and "row = None \<or> (\<exists>t. row = Some t \<and> length (filter (\<lambda>m. m_org_id m = et_org_id t \<and>
        m_machine_uuid m = compute_weighted_id fp) ms) \<le> 1)"
  shows "\<exists>as'. record_attempts aid started now tok label row hostname fp ip ms as = Some as' \<and>
    (\<forall>later\<ge>now. recent_unique later as') \<and>
    (now - hours 24 \<le> started \<longrightarrow> length (filter (recent_attempt now (compute_weighted_id fp) label) as') = 1) \<and>
    length as' = length as +
      (if filter (recent_attempt now (compute_weighted_id fp) label) as = [] then 1 else 0)"
proof -
  obtain as' where as': "record_attempts aid started now tok label row hostname fp ip ms as = Some as'"
    using record_attempts_defined [OF assms(1,3)] by blast
  then show ?thesis
    using recent_unique_later [OF record_attempts_unique [OF assms(1,2) as']]
      record_attempts_recent [OF _ assms(1) as'] record_attempts_length [OF as'] by blast
qed

text \<open>Refused attempts at the times \<open>ts\<close>.\<close>

fun record_all ::
  "uuid \<Rightarrow> time \<Rightarrow> time list \<Rightarrow> string \<Rightarrow> string \<Rightarrow> string option \<Rightarrow> fingerprint \<Rightarrow> string option \<Rightarrow>
   machine list \<Rightarrow> enroll_attempt list \<Rightarrow> enroll_attempt list option" where
  "record_all aid started [] tok label hostname fp ip ms as = Some as"
| "record_all aid started (t # ts) tok label hostname fp ip ms as =
     (case record_attempts aid started t tok label None hostname fp ip ms as of
        None \<Rightarrow> None
      | Some as' \<Rightarrow> record_all (Suc aid) started ts tok label hostname fp ip ms as')"

text \<open>A process that has been up for longer than 24 hours gives a new attempt a creation time that is
  outside the window at once, so each retry of an unknown machine adds another row.\<close>

theorem attempts_pile_up:
  assumes "\<forall>t\<in>set ts. started < t - hours 24"
    and "\<forall>t\<in>set ts. filter (recent_attempt t (compute_weighted_id fp) label) as = []"
  shows "\<exists>as'. record_all aid started ts tok label hostname fp ip ms as = Some as' \<and>
    length as' = length as + length ts"
  using assms
proof (induction ts arbitrary: as aid)
  case (Cons t ts)
  let ?new = "new_attempt aid started tok label None hostname fp ip None"
  have rec: "record_attempts aid started t tok label None hostname fp ip ms as = Some (insert_row ?new as)"
    using Cons.prems by (simp add: record_attempts_def one_or_none_def Let_def)
  have "filter (recent_attempt t' (compute_weighted_id fp) label) (insert_row ?new as) = []" if "t' \<in> set ts" for t'
  proof -
    have "\<not> recent_attempt t' (compute_weighted_id fp) label ?new"
      using Cons.prems(1) that by (auto simp: recent_attempt_def new_attempt_def)
    moreover have "filter (recent_attempt t' (compute_weighted_id fp) label) as = []"
      using Cons.prems(2) that by (meson list.set_intros(2))
    ultimately show ?thesis by (simp add: insert_row_def)
  qed
  with Cons.IH [of "insert_row ?new as" "Suc aid"] Cons.prems rec show ?case by (auto simp: insert_row_def)
qed simp

text \<open>Every drift that enrolment records has the reason \<open>other\<close>: the reason \<open>os_reinstall\<close>, meant
  for a fingerprint that is not close to the stored one, is never given, since a machine that
  is found without an exact match was found by that closeness.\<close>

theorem drift_reason_is_other:
  assumes "enroll sign e ov now fr ip tok hostname fp csr db = (r, db')"
    and "d \<in> set (en_drifts db')" and "d \<notin> set (en_drifts db)"
  shows "fd_reason d = ''other''"
proof (cases "perform_enroll now fr tok hostname fp ''agent:unknown'' (Some ip) db")
  case (Pair res db1)
  show ?thesis
  proof (cases res)
    case (Inl err)
    with Pair assms perform_enroll_error_frame show ?thesis by (fastforce simp: enroll_def)
  next
    case (Inr mt)
    obtain m is_new t where mt: "mt = (m, is_new, t)" by (cases mt) auto
    have in1: "d \<in> set (en_drifts db1)"
      using assms Pair Inr mt by (auto simp: enroll_def Let_def split: option.splits)
    show ?thesis
    proof (rule perform_enroll_cases [OF Pair [unfolded Inr mt]])
      assume "db1 = db\<lparr>en_machines := insert_row m (en_machines db),
         en_tags := apply_token_tags (ef_machine fr) (et_classification t) (et_purpose_tags t) None (en_tags db)\<rparr>"
      with in1 assms(3) show ?thesis by simp
    next
      fix m0
      assume known: "find_machine (et_org_id t) fp (en_machines db) = Some (Some m0)"
        "m = reenrolled now hostname m0"
        "note_drift (ef_drift fr) now m fp ''agent:unknown'' (Some ip) (put_machine m db) = Some db1"
      have same: "m_machine_uuid m = m_machine_uuid m0" "m_fingerprint m = m_fingerprint m0"
        by (simp_all add: known(2) reenrolled_def)
      have "m_machine_uuid m \<noteq> compute_weighted_id fp" "fd_reason d = drift_reason fp (m_fingerprint m)"
        using known(3) in1 assms(3) by (auto simp: note_drift_def split: if_splits option.splits)
      moreover from this find_machineD [OF known(1)] same have "is_same_machine fp (m_fingerprint m)" by simp
      ultimately show ?thesis using not_same_as_empty [of fp] by (auto simp: drift_reason_def)
    qed
  qed
qed

subsection \<open>Witnesses\<close>

definition sample_token :: enroll_token where
  "sample_token = \<lparr>et_id = 3, et_token_hash = hash_token ''t_demo'', et_org_id = 10, et_email = None,
     et_expires_at = 100, et_used_at = None, et_used_by = None, et_status = TPENDING,
     et_classification = Some ''bmnn'', et_purpose_tags = None, et_created_by = 1, et_full_name = None,
     et_department = None, et_position = None, et_phone_encrypted = None, et_note = None\<rparr>"

definition sample_fp :: fingerprint where
  "sample_fp = [(''smbios_uuid'', ''u'')]"

definition sample_machine :: machine where
  "sample_machine = \<lparr>m_id = 9, m_org_id = 10, m_machine_uuid = ''old'', m_hostname = None,
     m_fingerprint = sample_fp, m_status = DECOMMISSIONED, m_is_vm = None, m_enrolled_at = 0,
     m_last_seen_at = None, m_assigned_user_id = None, m_public_ip = None,
     m_lifecycle = ''new'', m_note = None\<rparr>"

definition sample_enroll_db :: "machine list \<Rightarrow> enroll_db" where
  "sample_enroll_db ms = \<lparr>en_tokens = [sample_token], en_machines = ms, en_users = [], en_orgs = [(10, None)],
     en_attempts = [], en_drifts = [], en_tags = sample_tags, en_log = []\<rparr>"

definition sample_ids :: en_fresh where
  "sample_ids = \<lparr>ef_machine = 20, ef_attempt = 21, ef_drift = 22, ef_started = 0\<rparr>"

definition sample_sign :: "string \<Rightarrow> uuid \<Rightarrow> string option" where
  "sample_sign csr mid = Some (''cert:'' @ csr)"

lemma sample_enrolls:
  "\<exists>r. fst (enroll sample_sign sample_env None 50 sample_ids ''ip'' ''t_demo'' None sample_fp ''csr''
     (sample_enroll_db [])) = Inr r"
  by (simp add: enroll_def perform_enroll_def sample_enroll_db_def sample_token_def find_machine_def
      one_or_none_def sample_sign_def Let_def)

lemma sample_weighted: "compute_weighted_id fp \<noteq> ''old''" "''old'' \<noteq> compute_weighted_id fp"
proof -
  have "length (compute_weighted_id fp) \<noteq> length ''old''" by simp
  then show "compute_weighted_id fp \<noteq> ''old''" "''old'' \<noteq> compute_weighted_id fp" by metis+
qed

lemma sample_same: "is_same_machine sample_fp sample_fp"
  by (simp add: is_same_machine_def similarity_score_def sample_fp_def get_str_def fp_fields_def
      weight_def Let_def)

lemma sample_reenrolls:
  "\<exists>r. fst (enroll sample_sign sample_env None 50 sample_ids ''ip'' ''t_demo'' None sample_fp ''csr''
     (sample_enroll_db [sample_machine])) = Inr r"
  "\<exists>d. d \<in> set (en_drifts (snd (enroll sample_sign sample_env None 50 sample_ids ''ip'' ''t_demo'' None
     sample_fp ''csr'' (sample_enroll_db [sample_machine]))))"
  by (simp_all add: enroll_def perform_enroll_def sample_enroll_db_def sample_token_def find_machine_def
      one_or_none_def sample_sign_def Let_def sample_machine_def sample_weighted sample_same
      note_drift_def reenrolled_def put_machine_def update_where_def)

lemma enroll_token_single_use_witness:
  "\<exists>err. fst (enroll sample_sign sample_env None 60 sample_ids ''ip2'' ''t_demo'' None sample_fp ''csr''
     (run (enroll_step sample_crypto sample_cfg sample_env None) [RevokeToken 55 ''ip'' 3 None]
        (snd (enroll sample_sign sample_env None 50 sample_ids ''ip'' ''t_demo'' None sample_fp ''csr''
          (sample_enroll_db []))))) = Inl err"
proof -
  let ?first = "enroll sample_sign sample_env None 50 sample_ids ''ip'' ''t_demo'' None sample_fp ''csr'' (sample_enroll_db [])"
  obtain r where ok: "?first = (Inr r, snd ?first)" using sample_enrolls by (metis prod.collapse)
  have "tok_ok (en_tokens (sample_enroll_db []))" by (simp add: tok_ok_def sample_enroll_db_def)
  then show ?thesis by (rule enroll_token_single_use [OF _ ok]) simp
qed

lemma enroll_success_effects_witness:
  "\<exists>m\<in>set (en_machines (snd (enroll sample_sign sample_env None 50 sample_ids ''ip'' ''t_demo'' None sample_fp
     ''csr'' (sample_enroll_db [sample_machine])))). m_org_id m = 10"
proof -
  let ?first = "enroll sample_sign sample_env None 50 sample_ids ''ip'' ''t_demo'' None sample_fp ''csr''
    (sample_enroll_db [sample_machine])"
  obtain r where ok: "?first = (Inr r, snd ?first)" using sample_reenrolls(1) by (metis prod.collapse)
  have ids: "distinct (map m_id (en_machines (sample_enroll_db [sample_machine])))"
    by (simp add: sample_enroll_db_def)
  from enroll_success_effects [OF ids ok] obtain t m where
    "t \<in> set (en_tokens (sample_enroll_db [sample_machine]))" "m \<in> set (en_machines (snd ?first))"
    "m_org_id m = et_org_id t" by blast
  then show ?thesis by (intro bexI [of _ m]) (simp_all add: sample_enroll_db_def sample_token_def)
qed

lemma enroll_refusal_frame_witness:
  "en_machines (snd (enroll sample_sign sample_env None 200 sample_ids ''ip'' ''t_demo'' None sample_fp ''csr''
     (sample_enroll_db [sample_machine]))) = [sample_machine]"
proof -
  let ?r = "enroll sample_sign sample_env None 200 sample_ids ''ip'' ''t_demo'' None sample_fp ''csr''
    (sample_enroll_db [sample_machine])"
  have "\<exists>err. fst ?r = Inl err"
    by (simp add: enroll_def perform_enroll_def sample_enroll_db_def sample_token_def Let_def
        split: prod.split)
  then obtain err where "?r = (Inl err, snd ?r)" by (metis prod.collapse)
  from enroll_refusal_frame [OF this] show ?thesis by (simp add: sample_enroll_db_def)
qed

lemma attempts_deduplicated_witness:
  "\<exists>as'. record_attempts 7 0 50 ''t_demo'' ''unknown'' None None sample_fp None [] [] = Some as' \<and> length as' = 1 \<and>
     length (filter (recent_attempt 50 (compute_weighted_id sample_fp) ''unknown'') as') = 1"
proof -
  have "recent_unique 50 []" by (simp add: recent_unique_def)
  from attempts_deduplicated [OF this, of 0 None] show ?thesis by fastforce
qed

lemma drift_reason_is_other_witness:
  "\<exists>d\<in>set (en_drifts (snd (enroll sample_sign sample_env None 50 sample_ids ''ip'' ''t_demo'' None sample_fp
     ''csr'' (sample_enroll_db [sample_machine])))). fd_reason d = ''other''"
proof -
  let ?r = "enroll sample_sign sample_env None 50 sample_ids ''ip'' ''t_demo'' None sample_fp ''csr''
    (sample_enroll_db [sample_machine])"
  obtain d where d: "d \<in> set (en_drifts (snd ?r))" using sample_reenrolls(2) by blast
  moreover have "d \<notin> set (en_drifts (sample_enroll_db [sample_machine]))" by (simp add: sample_enroll_db_def)
  ultimately show ?thesis using drift_reason_is_other [OF surjective_pairing] by blast
qed

end
