(* ===== verification/Telegram.thy ===== *)
theory Telegram
  imports Auth
begin

text \<open>
  The Telegram bot that users link their account to: the runtime view of its configuration
  with the five-second cache (\<open>services/telegram_runtime.py\<close>), its administration
  (\<open>api/routes/telegram_bot_admin.py\<close>) and the linking of accounts
  (\<open>api/routes/notifications.py\<close>). The calls to Telegram's servers are parameters.
\<close>

subsection \<open>State\<close>

record bot_row =
  bt_bot_token_encrypted :: "string option"
  bt_bot_username :: "string option"
  bt_webhook_secret :: "string option"
  bt_enabled :: bool
  bt_updated_by :: "uuid option"
  bt_updated_at :: time

record bot_env =
  be_bot_token :: string
  be_bot_username :: string
  be_webhook_secret :: string

record bot_view =
  bv_bot_token :: "string option"
  bv_bot_username :: "string option"
  bv_webhook_secret :: "string option"
  bv_enabled :: bool
  bv_source :: string

record link_entry =
  le_token :: string
  le_user_id :: uuid
  le_expires_at :: time

text \<open>\<open>tg_cache\<close> is the process-wide snapshot with the monotonic clock reading it was made at.\<close>

record tg_state =
  tg_users :: "user list"
  tg_row :: "bot_row option"
  tg_cache :: "(bot_view \<times> int) option"
  tg_links :: "link_entry list"
  tg_log :: "audit_row list"

subsection \<open>The runtime view\<close>

definition is_configured :: "bot_view \<Rightarrow> bool" where
  "is_configured v \<longleftrightarrow> truthy (bv_bot_token v) \<and> truthy (bv_bot_username v)"

definition can_send :: "bot_view \<Rightarrow> bool" where
  "can_send v \<longleftrightarrow> bv_enabled v \<and> truthy (bv_bot_token v)"

definition lstrip_at :: "string \<Rightarrow> string" where
  "lstrip_at s = dropWhile (\<lambda>c. c = CHR ''@'') s"

definition bot_username_clean :: "bot_view \<Rightarrow> string" where
  "bot_username_clean v =
     (if \<not> truthy (bv_bot_username v) then [] else lstrip_at (the (bv_bot_username v)))"

definition invalidate_bot_cache :: "tg_state \<Rightarrow> tg_state" where
  "invalidate_bot_cache s = s\<lparr>tg_cache := None\<rparr>"

definition decrypt_or_none :: "crypto \<Rightarrow> settings \<Rightarrow> string option \<Rightarrow> string option" where
  "decrypt_or_none x cfg v = (case v of None \<Rightarrow> None | Some c \<Rightarrow> decrypt_aes_gcm x cfg c)"

definition or_none :: "string \<Rightarrow> string option" where
  "or_none s = (if s = [] then None else Some s)"

definition read_bot_config :: "crypto \<Rightarrow> settings \<Rightarrow> bot_env \<Rightarrow> bot_row option \<Rightarrow> bot_view" where
  "read_bot_config x cfg e row =
     (case row of
        Some r \<Rightarrow>
          \<lparr>bv_bot_token = decrypt_or_none x cfg (bt_bot_token_encrypted r), bv_bot_username = bt_bot_username r,
           bv_webhook_secret = bt_webhook_secret r, bv_enabled = bt_enabled r, bv_source = ''db''\<rparr>
      | None \<Rightarrow>
          (let token = or_none (be_bot_token e); username = or_none (be_bot_username e);
               secret = or_none (be_webhook_secret e)
           in \<lparr>bv_bot_token = token, bv_bot_username = username, bv_webhook_secret = secret, bv_enabled = True,
               bv_source = (if token \<noteq> None \<or> username \<noteq> None \<or> secret \<noteq> None then ''env'' else ''none'')\<rparr>))"

definition cache_ttl :: int where
  "cache_ttl = 5000000"

definition get_bot_config :: "crypto \<Rightarrow> settings \<Rightarrow> bot_env \<Rightarrow> int \<Rightarrow> tg_state \<Rightarrow> bot_view \<times> tg_state" where
  "get_bot_config x cfg e clk s =
     (case tg_cache s of
        Some (snap, mtime) \<Rightarrow>
          if clk - mtime < cache_ttl then (snap, s)
          else (let v = read_bot_config x cfg e (tg_row s) in (v, s\<lparr>tg_cache := Some (v, clk)\<rparr>))
      | None \<Rightarrow> (let v = read_bot_config x cfg e (tg_row s) in (v, s\<lparr>tg_cache := Some (v, clk)\<rparr>)))"

subsection \<open>Administration\<close>

definition mask :: "string option \<Rightarrow> string option" where
  "mask v =
     (if \<not> truthy v then None
      else let s = the v in if length s \<le> 11 then Some ''***''
           else Some (take 4 s @ ''***'' @ drop (length s - 4) s))"

definition rstrip_slash :: "string \<Rightarrow> string" where
  "rstrip_slash s = rev (dropWhile (\<lambda>c. c = CHR ''/'') (rev s))"

definition callback_url :: "string \<Rightarrow> string" where
  "callback_url agent_server_url =
     (let base = rstrip_slash agent_server_url
      in if base = [] then ''/api/external/telegram/callback'' else base @ ''/api/external/telegram/callback'')"

record bot_out =
  bo_configured :: bool
  bo_bot_username :: "string option"
  bo_bot_token_set :: bool
  bo_bot_token_masked :: "string option"
  bo_webhook_secret_set :: bool
  bo_webhook_secret_masked :: "string option"
  bo_enabled :: bool
  bo_source :: string
  bo_updated_at :: "time option"
  bo_updated_by :: "string option"
  bo_callback_url :: string

text \<open>The response without the two shell snippets.\<close>

definition bot_to_out :: "string \<Rightarrow> bot_row option \<Rightarrow> bot_view \<Rightarrow> bot_out" where
  "bot_to_out url row v =
     (case row of
        None \<Rightarrow>
          \<lparr>bo_configured = is_configured v, bo_bot_username = bv_bot_username v,
           bo_bot_token_set = truthy (bv_bot_token v), bo_bot_token_masked = None,
           bo_webhook_secret_set = truthy (bv_webhook_secret v), bo_webhook_secret_masked = None,
           bo_enabled = bv_enabled v, bo_source = bv_source v, bo_updated_at = None, bo_updated_by = None,
           bo_callback_url = callback_url url\<rparr>
      | Some r \<Rightarrow>
          \<lparr>bo_configured = is_configured v, bo_bot_username = bt_bot_username r,
           bo_bot_token_set = truthy (bv_bot_token v), bo_bot_token_masked = mask (bv_bot_token v),
           bo_webhook_secret_set = truthy (bt_webhook_secret r),
           bo_webhook_secret_masked = mask (bt_webhook_secret r),
           bo_enabled = bt_enabled r, bo_source = bv_source v, bo_updated_at = Some (bt_updated_at r),
           bo_updated_by = map_option uuid_str (bt_updated_by r), bo_callback_url = callback_url url\<rparr>)"

text \<open>
  The body of the update: the outer option says whether the field was sent
  (\<open>model_fields_set\<close>), the inner one is its value, which may be null.
\<close>

record bot_update =
  bu_bot_token :: "string option option"
  bu_bot_username :: "string option option"
  bu_webhook_secret :: "string option option"
  bu_enabled :: "bool option option"

definition get_or_create_bot :: "time \<Rightarrow> bot_row option \<Rightarrow> bot_row" where
  "get_or_create_bot now row =
     (case row of Some r \<Rightarrow> r
      | None \<Rightarrow> \<lparr>bt_bot_token_encrypted = None, bt_bot_username = None, bt_webhook_secret = None,
                 bt_enabled = True, bt_updated_by = None, bt_updated_at = now\<rparr>)"

definition change_bot_token :: "(string \<Rightarrow> string) \<Rightarrow> string option option \<Rightarrow> bot_row \<Rightarrow> bool \<times> bot_row" where
  "change_bot_token seal f r =
     (case f of
        None \<Rightarrow> (False, r)
      | Some v \<Rightarrow>
          if \<not> truthy v
          then (if bt_bot_token_encrypted r \<noteq> None then (True, r\<lparr>bt_bot_token_encrypted := None\<rparr>) else (False, r))
          else (True, r\<lparr>bt_bot_token_encrypted := Some (seal (strip (the v)))\<rparr>))"

definition change_bot_username :: "string option option \<Rightarrow> bot_row \<Rightarrow> bool \<times> bot_row" where
  "change_bot_username f r =
     (case f of
        None \<Rightarrow> (False, r)
      | Some None \<Rightarrow> (False, r)
      | Some (Some v) \<Rightarrow>
          (let cleaned = lstrip_at (strip v)
           in if bt_bot_username r \<noteq> Some cleaned then (True, r\<lparr>bt_bot_username := or_none cleaned\<rparr>)
              else (False, r)))"

definition change_webhook_secret :: "string option option \<Rightarrow> bot_row \<Rightarrow> bool \<times> bot_row" where
  "change_webhook_secret f r =
     (case f of
        None \<Rightarrow> (False, r)
      | Some None \<Rightarrow> (False, r)
      | Some (Some v) \<Rightarrow>
          if v = []
          then (if bt_webhook_secret r \<noteq> None then (True, r\<lparr>bt_webhook_secret := None\<rparr>) else (False, r))
          else if bt_webhook_secret r \<noteq> Some v then (True, r\<lparr>bt_webhook_secret := Some v\<rparr>)
          else (False, r))"

definition change_enabled :: "bool option option \<Rightarrow> bot_row \<Rightarrow> bool \<times> bot_row" where
  "change_enabled f r =
     (case f of
        Some (Some b) \<Rightarrow> if bt_enabled r \<noteq> b then (True, r\<lparr>bt_enabled := b\<rparr>) else (False, r)
      | _ \<Rightarrow> (False, r))"

definition update_bot_config ::
  "crypto \<Rightarrow> settings \<Rightarrow> bot_env \<Rightarrow> string \<Rightarrow> nat list \<Rightarrow> time \<Rightarrow> int \<Rightarrow> http_error + user \<Rightarrow> bot_update \<Rightarrow> tg_state \<Rightarrow>
   (http_error + bot_out) \<times> tg_state" where
  "update_bot_config x cfg e url iv now clk auth b s =
     (case auth of
        Inl err \<Rightarrow> (Inl err, s)
      | Inr admin \<Rightarrow>
          (let r0 = get_or_create_bot now (tg_row s);
               (c1, r1) = change_bot_token (encrypt_aes_gcm x cfg iv) (bu_bot_token b) r0;
               (c2, r2) = change_bot_username (bu_bot_username b) r1;
               (c3, r3) = change_webhook_secret (bu_webhook_secret b) r2;
               (c4, r4) = change_enabled (bu_enabled b) r3;
               changed = (c1 \<or> c2 \<or> c3 \<or> c4);
               row = (if changed then r4\<lparr>bt_updated_by := Some (u_id admin), bt_updated_at := now\<rparr> else r0);
               s1 = s\<lparr>tg_row := Some row\<rparr>;
               s2 = (if changed then invalidate_bot_cache s1 else s1);
               (v, s3) = get_bot_config x cfg e clk s2
           in (Inr (bot_to_out url (Some row) v), s3)))"

definition get_bot_config_endpoint ::
  "crypto \<Rightarrow> settings \<Rightarrow> bot_env \<Rightarrow> string \<Rightarrow> int \<Rightarrow> http_error + user \<Rightarrow> tg_state \<Rightarrow> (http_error + bot_out) \<times> tg_state" where
  "get_bot_config_endpoint x cfg e url clk auth s =
     (case auth of
        Inl err \<Rightarrow> (Inl err, s)
      | Inr _ \<Rightarrow> (let (v, s') = get_bot_config x cfg e clk s in (Inr (bot_to_out url (tg_row s') v), s')))"

definition set_user :: "user \<Rightarrow> tg_state \<Rightarrow> tg_state" where
  "set_user u s = s\<lparr>tg_users := update_where (\<lambda>r. u_id r = u_id u) (\<lambda>_. u) (tg_users s)\<rparr>"

definition unlinked :: "user \<Rightarrow> user" where
  "unlinked u = u\<lparr>u_telegram_chat_id := None, u_telegram_linked_at := None\<rparr>"

text \<open>
  \<open>force_unlink_user\<close> commits the cleared link; the audit entry is appended to the session after
  that commit and the request ends without another one, so the session that is closed discards it.
\<close>

definition force_unlink_user ::
  "time \<Rightarrow> string option \<Rightarrow> http_error + user \<Rightarrow> string \<Rightarrow> tg_state \<Rightarrow> (http_error + unit) \<times> tg_state" where
  "force_unlink_user now ip auth user_id s =
     (case auth of
        Inl err \<Rightarrow> (Inl err, s)
      | Inr admin \<Rightarrow>
          (case parse_uuid user_id of
             None \<Rightarrow> (Inl (HTTPException 422 ''user_id khong hop le''), s)
           | Some uid \<Rightarrow>
               (case find (\<lambda>u. u_id u = uid) (tg_users s) of
                  None \<Rightarrow> (Inl (HTTPException 404 ''User khong ton tai''), s)
                | Some target \<Rightarrow>
                    if \<not> truthy (u_telegram_chat_id target)
                    then (Inl (HTTPException 409 ''User nay chua lien ket Telegram''), s)
                    else
                      (let committed = set_user (unlinked target) s;
                           in_session = committed\<lparr>tg_log := append_audit now ''telegram.force_unlink''
                             (Some (u_email admin)) (Some (''user:'' @ uuid_str (u_id target))) ip None None (tg_log committed)\<rparr>;
                           closed = in_session\<lparr>tg_log := tg_log committed\<rparr>
                       in (Inr (), closed)))))"

subsection \<open>Linking an account\<close>

definition linked_users :: "user list \<Rightarrow> user list" where
  "linked_users us = filter (\<lambda>u. u_telegram_chat_id u \<noteq> None) us"

record link_start =
  ls_bot_url :: string
  ls_linking_token :: string
  ls_expires_at :: time

definition start_telegram_link ::
  "crypto \<Rightarrow> settings \<Rightarrow> bot_env \<Rightarrow> time \<Rightarrow> int \<Rightarrow> string \<Rightarrow> http_error + user \<Rightarrow> tg_state \<Rightarrow>
   (http_error + link_start) \<times> tg_state" where
  "start_telegram_link x cfg e now clk token auth s =
     (case auth of
        Inl err \<Rightarrow> (Inl err, s)
      | Inr u \<Rightarrow>
          (let (v, s1) = get_bot_config x cfg e clk s
           in if \<not> is_configured v
              then (Inl (HTTPException 503 ''Telegram bot chua duoc cau hinh. Lien he Super Admin de thiet lap bot.''), s1)
              else (Inr \<lparr>ls_bot_url = ''https://t.me/'' @ bot_username_clean v @ ''?start='' @ token,
                         ls_linking_token = token, ls_expires_at = now + minutes 5\<rparr>,
                    s1\<lparr>tg_links := delete_where (\<lambda>l. le_token l = token) (tg_links s1) @
                         [\<lparr>le_token = token, le_user_id = u_id u, le_expires_at = now + minutes 5\<rparr>]\<rparr>)))"

definition unlink_telegram :: "http_error + user \<Rightarrow> tg_state \<Rightarrow> (http_error + unit) \<times> tg_state" where
  "unlink_telegram auth s =
     (case auth of Inl err \<Rightarrow> (Inl err, s) | Inr u \<Rightarrow> (Inr (), set_user (unlinked u) s))"

definition telegram_status :: "http_error + user \<Rightarrow> http_error + bool \<times> string option \<times> time option" where
  "telegram_status auth =
     (case auth of Inl err \<Rightarrow> Inl err
      | Inr u \<Rightarrow> Inr (truthy (u_telegram_chat_id u), u_telegram_chat_id u, u_telegram_linked_at u))"

record tg_update =
  up_text :: "string option"
  up_chat_id :: string

definition start_prefix :: string where
  "start_prefix = ''/start ''"

text \<open>The answer is the error text of the response, if any; the chat id of a user is unique.\<close>

definition telegram_callback ::
  "crypto \<Rightarrow> settings \<Rightarrow> bot_env \<Rightarrow> time \<Rightarrow> int \<Rightarrow> string option \<Rightarrow> tg_update \<Rightarrow> tg_state \<Rightarrow>
   (http_error + string option) \<times> tg_state" where
  "telegram_callback x cfg e now clk header upd s =
     (let secret = (case header of None \<Rightarrow> [] | Some h \<Rightarrow> h); (v, s1) = get_bot_config x cfg e clk s
      in if \<not> truthy (bv_webhook_secret v) then (Inl (HTTPException 401 ''Invalid secret''), s1)
         else if \<not> is_ascii secret \<or> \<not> is_ascii (the (bv_webhook_secret v)) then (Inl internal_error, s1)
         else if secret \<noteq> the (bv_webhook_secret v) then (Inl (HTTPException 401 ''Invalid secret''), s1)
         else
           (let txt = strip (case up_text upd of None \<Rightarrow> [] | Some t \<Rightarrow> t)
            in if \<not> starts_with start_prefix txt then (Inr None, s1)
               else
                 (let token = strip (drop 7 txt);
                      s2 = s1\<lparr>tg_links := delete_where (\<lambda>l. le_token l = token) (tg_links s1)\<rparr>
                  in case find (\<lambda>l. le_token l = token) (tg_links s1) of
                       None \<Rightarrow> (Inr (Some ''token invalid or expired''), s2)
                     | Some entry \<Rightarrow>
                         if le_expires_at entry < now then (Inr (Some ''expired''), s2)
                         else (case find (\<lambda>u. u_id u = le_user_id entry) (tg_users s2) of
                             None \<Rightarrow> (Inr (Some ''user not found''), s2)
                           | Some u \<Rightarrow>
                               if \<exists>u'\<in>set (tg_users s2). u_id u' \<noteq> u_id u \<and> u_telegram_chat_id u' = Some (up_chat_id upd)
                               then (Inl internal_error, s2)
                               else (Inr None, set_user (u\<lparr>u_telegram_chat_id := Some (up_chat_id upd),
                                       u_telegram_linked_at := Some now\<rparr>) s2)))))"

subsection \<open>The cache shows the stored configuration\<close>

definition cache_ok :: "crypto \<Rightarrow> settings \<Rightarrow> bot_env \<Rightarrow> tg_state \<Rightarrow> bool" where
  "cache_ok x cfg e s \<longleftrightarrow> (\<forall>v t. tg_cache s = Some (v, t) \<longrightarrow> v = read_bot_config x cfg e (tg_row s))"

lemma get_bot_config_frame:
  assumes "get_bot_config x cfg e clk s = (v, s')"
  shows "tg_users s' = tg_users s \<and> tg_row s' = tg_row s \<and> tg_links s' = tg_links s \<and> tg_log s' = tg_log s"
  using assms by (auto simp: get_bot_config_def Let_def split: option.splits if_splits prod.splits)

lemma get_bot_config_current:
  assumes "get_bot_config x cfg e clk s = (v, s')" "cache_ok x cfg e s"
  shows "v = read_bot_config x cfg e (tg_row s) \<and> cache_ok x cfg e s'"
  using assms by (auto simp: get_bot_config_def cache_ok_def Let_def split: option.splits if_splits prod.splits)

lemma cache_ok_upd [simp]:
  "cache_ok x cfg e (set_user u s) = cache_ok x cfg e s"
  "cache_ok x cfg e (s\<lparr>tg_links := ls\<rparr>) = cache_ok x cfg e s"
  "cache_ok x cfg e (s\<lparr>tg_log := lg\<rparr>) = cache_ok x cfg e s"
  by (simp_all add: cache_ok_def set_user_def)

datatype tg_event =
    Read_config int
  | Update_config string "nat list" time int "http_error + user" bot_update
  | Force_unlink time "string option" "http_error + user" string
  | Start_link time int string "http_error + user"
  | Unlink "http_error + user"
  | Callback time int "string option" tg_update

fun tg_step :: "crypto \<Rightarrow> settings \<Rightarrow> bot_env \<Rightarrow> tg_event \<Rightarrow> tg_state \<Rightarrow> tg_state" where
  "tg_step x cfg e (Read_config clk) s = snd (get_bot_config x cfg e clk s)"
| "tg_step x cfg e (Update_config url iv now clk auth b) s = snd (update_bot_config x cfg e url iv now clk auth b s)"
| "tg_step x cfg e (Force_unlink now ip auth uid) s = snd (force_unlink_user now ip auth uid s)"
| "tg_step x cfg e (Start_link now clk token auth) s = snd (start_telegram_link x cfg e now clk token auth s)"
| "tg_step x cfg e (Unlink auth) s = snd (unlink_telegram auth s)"
| "tg_step x cfg e (Callback now clk header upd) s = snd (telegram_callback x cfg e now clk header upd s)"

text \<open>An update that finds no stored row may leave a blank one behind without emptying the cache.\<close>

fun tg_event_ok :: "tg_event \<Rightarrow> tg_state \<Rightarrow> bool" where
  "tg_event_ok (Update_config url iv now clk auth b) s = (tg_row s \<noteq> None)"
| "tg_event_ok _ s = True"

lemma update_bot_config_cache:
  assumes "tg_row s = Some r" "cache_ok x cfg e s"
  shows "cache_ok x cfg e (snd (update_bot_config x cfg e url iv now clk auth b s))"
proof (cases auth)
  case (Inl err)
  with assms show ?thesis by (simp add: update_bot_config_def)
next
  case (Inr admin)
  obtain c1 r1 where 1: "change_bot_token (encrypt_aes_gcm x cfg iv) (bu_bot_token b) r = (c1, r1)" by fastforce
  obtain c2 r2 where 2: "change_bot_username (bu_bot_username b) r1 = (c2, r2)" by fastforce
  obtain c3 r3 where 3: "change_webhook_secret (bu_webhook_secret b) r2 = (c3, r3)" by fastforce
  obtain c4 r4 where 4: "change_enabled (bu_enabled b) r3 = (c4, r4)" by fastforce
  define changed where "changed = (c1 \<or> c2 \<or> c3 \<or> c4)"
  define row where "row = (if changed then r4\<lparr>bt_updated_by := Some (u_id admin), bt_updated_at := now\<rparr> else r)"
  define s2 where "s2 = (if changed then invalidate_bot_cache (s\<lparr>tg_row := Some row\<rparr>) else s\<lparr>tg_row := Some row\<rparr>)"
  obtain v s3 where g: "get_bot_config x cfg e clk s2 = (v, s3)" by fastforce
  have "s\<lparr>tg_row := Some r\<rparr> = s" using assms(1) by (cases s) simp
  then have "cache_ok x cfg e s2"
    using assms(2) by (simp add: s2_def row_def invalidate_bot_cache_def) (simp add: cache_ok_def)
  then have "cache_ok x cfg e s3" using g get_bot_config_current by blast
  moreover have "update_bot_config x cfg e url iv now clk auth b s = (Inr (bot_to_out url (Some row) v), s3)"
    by (simp only: update_bot_config_def Inr sum.case assms(1) get_or_create_bot_def option.case Let_def 1 2 3 4
        prod.case changed_def [symmetric] row_def [symmetric] s2_def [symmetric] g)
  ultimately show ?thesis by simp
qed

lemma tg_step_cache: "tg_event_ok ev s \<Longrightarrow> cache_ok x cfg e s \<Longrightarrow> cache_ok x cfg e (tg_step x cfg e ev s)"
proof (cases ev)
  case (Read_config clk)
  assume "cache_ok x cfg e s"
  with Read_config show ?thesis
    using get_bot_config_current [of x cfg e clk s] by (metis prod.collapse tg_step.simps(1))
next
  case (Update_config url iv now clk auth b)
  assume "tg_event_ok ev s" "cache_ok x cfg e s"
  with Update_config show ?thesis by (auto intro: update_bot_config_cache)
next
  case (Force_unlink now ip auth uid)
  assume "cache_ok x cfg e s"
  with Force_unlink show ?thesis by (auto simp: force_unlink_user_def Let_def split: sum.splits option.splits)
next
  case (Start_link now clk token auth)
  assume ok: "cache_ok x cfg e s"
  obtain v s1 where g: "get_bot_config x cfg e clk s = (v, s1)" by fastforce
  have "cache_ok x cfg e s1" using get_bot_config_current [OF g ok] by simp
  with Start_link ok g show ?thesis by (simp add: start_telegram_link_def Let_def split: sum.splits)
next
  case (Unlink auth)
  assume "cache_ok x cfg e s"
  with Unlink show ?thesis by (simp add: unlink_telegram_def split: sum.splits)
next
  case (Callback now clk header upd)
  assume ok: "cache_ok x cfg e s"
  obtain v s1 where g: "get_bot_config x cfg e clk s = (v, s1)" by fastforce
  have "cache_ok x cfg e s1" using get_bot_config_current [OF g ok] by simp
  with Callback ok g show ?thesis by (simp add: telegram_callback_def Let_def split: option.splits)
qed

interpretation bot_cache: step_system "tg_step x cfg e" tg_event_ok "cache_ok x cfg e" for x cfg e
  by unfold_locales (rule tg_step_cache)

subsection \<open>Properties\<close>


definition sample_env_bot :: bot_env where
  "sample_env_bot = \<lparr>be_bot_token = ''1:t'', be_bot_username = ''@b'', be_webhook_secret = ''w''\<rparr>"

definition sample_tg :: tg_state where
  "sample_tg = \<lparr>tg_users = [sample_user], tg_row = None, tg_cache = None, tg_links = [], tg_log = []\<rparr>"


definition pending_link :: "string \<Rightarrow> time \<Rightarrow> tg_state \<Rightarrow> uuid \<Rightarrow> bool" where
  "pending_link token now s uid \<longleftrightarrow>
     (\<exists>l. find (\<lambda>l. le_token l = token) (tg_links s) = Some l \<and> le_user_id l = uid \<and> now \<le> le_expires_at l)"

text \<open>The webhook links a chat to an account only when the caller knows the webhook secret and
  the message carries a pending, unexpired linking token of that very account; it changes no other
  account, and every token it was given is spent.\<close>

theorem callback_links_token_owner:
  assumes "telegram_callback x cfg e now clk header upd s = (r, s')" and "u \<in> set (tg_users s')" "u \<notin> set (tg_users s)"
  shows "(\<exists>secret token. header = Some secret \<and> secret \<noteq> [] \<and>
       bv_webhook_secret (fst (get_bot_config x cfg e clk s)) = Some secret \<and>
       up_text upd \<noteq> None \<and> starts_with start_prefix (strip (the (up_text upd))) \<and>
       token = strip (drop 7 (strip (the (up_text upd)))) \<and> pending_link token now s (u_id u) \<and>
       (\<forall>l\<in>set (tg_links s'). le_token l \<noteq> token)) \<and>
     u_telegram_chat_id u = Some (up_chat_id upd) \<and> u_telegram_linked_at u = Some now \<and> r = Inr None"
proof -
  obtain v s1 where g: "get_bot_config x cfg e clk s = (v, s1)" by fastforce
  have s1: "tg_users s1 = tg_users s" "tg_links s1 = tg_links s" using get_bot_config_frame [OF g] by simp_all
  define secret where "secret = (case header of None \<Rightarrow> [] | Some h \<Rightarrow> h)"
  define msg where "msg = strip (case up_text upd of None \<Rightarrow> [] | Some t \<Rightarrow> t)"
  define token where "token = strip (drop 7 msg)"
  define s2 where "s2 = s1\<lparr>tg_links := delete_where (\<lambda>l. le_token l = token) (tg_links s1)\<rparr>"
  have users2: "tg_users s2 = tg_users s" by (simp add: s2_def s1)
  have changed: "tg_users s' \<noteq> tg_users s" using assms(2,3) by auto
  note step = assms(1) [unfolded telegram_callback_def g prod.case Let_def,
      folded secret_def msg_def, folded token_def, folded s2_def]
  from step changed s1 users2 have gates: "truthy (bv_webhook_secret v)" "secret = the (bv_webhook_secret v)"
    "starts_with start_prefix msg"
    by (auto split: if_splits)
  from step changed gates s1(1) users2 obtain l w where l: "find (\<lambda>l. le_token l = token) (tg_links s1) = Some l"
    "now \<le> le_expires_at l" "find (\<lambda>u. u_id u = le_user_id l) (tg_users s2) = Some w" and
    s': "s' = set_user (w\<lparr>u_telegram_chat_id := Some (up_chat_id upd), u_telegram_linked_at := Some now\<rparr>) s2"
    and r: "r = Inr None"
    by (auto split: if_splits option.splits)
  have wid: "u_id w = le_user_id l" using find_SomeD [OF l(3)] by simp
  have "u \<in> set (update_where (\<lambda>r. u_id r = u_id w)
      (\<lambda>_. w\<lparr>u_telegram_chat_id := Some (up_chat_id upd), u_telegram_linked_at := Some now\<rparr>) (tg_users s))"
    using assms(2) by (simp add: s' set_user_def users2 del: set_update_where)
  then have u: "u = w\<lparr>u_telegram_chat_id := Some (up_chat_id upd), u_telegram_linked_at := Some now\<rparr>"
    using assms(3) by (elim update_whereE) simp_all
  have hdr: "header = Some secret" "secret \<noteq> []" "bv_webhook_secret v = Some secret"
    using gates by (cases header; cases "bv_webhook_secret v"; simp add: secret_def)+
  have upd: "up_text upd \<noteq> None"
    using gates(3) by (auto simp: msg_def strip_def lstrip_def starts_with_def start_prefix_def split: option.splits)
  then have msg: "msg = strip (the (up_text upd))" by (auto simp: msg_def)
  have pend: "pending_link token now s (u_id u)" using l s1 wid u by (auto simp: pending_link_def)
  have spent: "\<forall>l\<in>set (tg_links s'). le_token l \<noteq> token" by (simp add: s' set_user_def s2_def)
  show ?thesis using hdr upd gates(3) msg pend spent u r g by (auto simp: token_def)
qed

definition linking_tg :: tg_state where
  "linking_tg = sample_tg\<lparr>tg_links := [\<lparr>le_token = ''tk'', le_user_id = 1, le_expires_at = 9\<rparr>]\<rparr>"

lemma callback_links_token_owner_witness:
  "let u = sample_user\<lparr>u_telegram_chat_id := Some ''77'', u_telegram_linked_at := Some 5\<rparr>;
       s' = snd (telegram_callback sample_crypto sample_cfg sample_env_bot 5 0 (Some ''w'')
              \<lparr>up_text = Some ''/start tk'', up_chat_id = ''77''\<rparr> linking_tg)
   in u \<in> set (tg_users s') \<and> pending_link ''tk'' 5 linking_tg (u_id u) \<and> (\<forall>l\<in>set (tg_links s'). le_token l \<noteq> ''tk'')"
proof -
  let ?upd = "\<lparr>up_text = Some ''/start tk'', up_chat_id = ''77''\<rparr>"
  let ?u = "sample_user\<lparr>u_telegram_chat_id := Some ''77'', u_telegram_linked_at := Some 5\<rparr>"
  let ?r = "telegram_callback sample_crypto sample_cfg sample_env_bot 5 0 (Some ''w'') ?upd linking_tg"
  have msg: "strip ''/start tk'' = ''/start tk''" "strip ''tk'' = ''tk''"
    by (simp_all add: strip_def lstrip_def is_space_def char_eval)
  have new: "?u \<in> set (tg_users (snd ?r))"
    by (simp add: telegram_callback_def get_bot_config_def read_bot_config_def or_none_def sample_env_bot_def
        linking_tg_def sample_tg_def sample_user_def Let_def msg starts_with_def start_prefix_def is_ascii_def
        set_user_def update_where_def delete_where_def char_eval)
  have old: "?u \<notin> set (tg_users linking_tg)" by (simp add: linking_tg_def sample_tg_def sample_user_def)
  show ?thesis
    using callback_links_token_owner [OF prod.collapse [symmetric] new old] new msg by (auto simp: Let_def)
qed

subsection \<open>Where the code departs from its documentation\<close>

text \<open>A successful forced unlink leaves no trace in the audit log.\<close>

lemma force_unlink_not_audited:
  "fst (force_unlink_user now ip auth uid s) = Inr () \<Longrightarrow> tg_log (snd (force_unlink_user now ip auth uid s)) = tg_log s"
  by (auto simp: force_unlink_user_def set_user_def Let_def split: sum.splits option.splits if_splits)

text \<open>An update that changes no field creates the row when it is missing, and the blank row hides the
  environment's configuration: the bot can no longer send.\<close>

lemma empty_update_hides_env_bot:
  assumes "tg_row s = None" "b = \<lparr>bu_bot_token = None, bu_bot_username = None, bu_webhook_secret = None, bu_enabled = None\<rparr>"
  shows "let s' = snd (update_bot_config x cfg e url iv now clk (Inr admin) b s)
         in tg_row s' \<noteq> None \<and> \<not> can_send (read_bot_config x cfg e (tg_row s')) \<and>
            \<not> truthy (bv_webhook_secret (read_bot_config x cfg e (tg_row s')))"
proof -
  obtain v s' where g: "get_bot_config x cfg e clk (s\<lparr>tg_row := Some (get_or_create_bot now None)\<rparr>) = (v, s')" by fastforce
  have "tg_row s' = Some (get_or_create_bot now None)" using get_bot_config_frame [OF g] by simp
  then show ?thesis
    using assms g
    by (simp add: update_bot_config_def change_bot_token_def change_bot_username_def change_webhook_secret_def
        change_enabled_def Let_def read_bot_config_def get_or_create_bot_def can_send_def decrypt_or_none_def)
qed

end
