(* ===== verification/Templates.thy ===== *)
theory Templates
  imports OrgScope Json
begin

text \<open>
  Alert templates (\<open>services/alert_templates.py\<close>, \<open>api/routes/alert_templates_admin.py\<close>) and
  the per-user opt-outs (\<open>services/user_notification_prefs.py\<close>). A template text is a string
  with placeholders \<open>{name}\<close>; it is rendered against a context, the values of which are given
  by the text that \<open>str\<close> makes of them (\<open>None\<close> is Python's None). The lemmas show that rendering
  is the replacement of the placeholders of an unambiguous reading of the text, that it
  reveals allowed variables only, and which states the administrative operations keep.
\<close>

record alert_template =
  tp_code :: string
  tp_name :: string
  tp_description :: "string option"
  tp_category :: string
  tp_default_severity :: string
  tp_title_template :: string
  tp_body_template :: "string option"
  tp_opt_out_controls :: "string list"
  tp_allowed_vars :: "string list"
  tp_default_config :: "(string \<times> json) list"
  tp_enabled :: bool
  tp_updated_by :: "uuid option"
  tp_updated_at :: time

type_synonym render_context = "(string \<times> string option) list"

subsection \<open>Rendering\<close>

text \<open>The characters of \<open>\w\<close>.\<close>

definition is_word :: "char \<Rightarrow> bool" where
  "is_word c \<longleftrightarrow> (let n = code c in
     48 \<le> n \<and> n \<le> 57 \<or> 65 \<le> n \<and> n \<le> 90 \<or> n = 95 \<or> 97 \<le> n \<and> n \<le> 122 \<or>
     n \<in> {170, 178, 179, 181, 185, 186, 188, 189, 190} \<or> 192 \<le> n \<and> n \<noteq> 215 \<and> n \<noteq> 247)"

datatype segment = Lit char | Var string

text \<open>The matches of \<open>\{(\w+)\}\<close> from the left, and the characters between them.\<close>

function segments :: "string \<Rightarrow> segment list" where
  "segments [] = []"
| "segments (c # s) =
     (let w = takeWhile is_word s; r = dropWhile is_word s
      in if c = CHR ''{'' \<and> w \<noteq> [] \<and> r \<noteq> [] \<and> hd r = CHR ''}'' then Var w # segments (tl r)
         else Lit c # segments s)"
  by pat_completeness auto
termination
proof (relation "measure length", goal_cases)
  case (2 c s w r)
  then have "length r \<le> length s" using length_dropWhile_le by simp
  then show ?case by simp
qed auto

definition missing :: "string \<Rightarrow> string" where
  "missing name = ''[MISSING: '' @ name @ '']''"

definition render_var :: "string list \<Rightarrow> render_context \<Rightarrow> string \<Rightarrow> string" where
  "render_var allowed ctx name =
     (if name \<notin> set allowed then missing name
      else case map_of ctx name of Some (Some val) \<Rightarrow> val | _ \<Rightarrow> missing name)"

fun render_segment :: "string list \<Rightarrow> render_context \<Rightarrow> segment \<Rightarrow> string" where
  "render_segment allowed ctx (Lit c) = [c]"
| "render_segment allowed ctx (Var v) = render_var allowed ctx v"

definition render_template :: "string \<Rightarrow> string list \<Rightarrow> render_context \<Rightarrow> string" where
  "render_template txt allowed ctx =
     (if txt = [] then [] else concat (map (render_segment allowed ctx) (segments txt)))"

fun vars_of :: "segment list \<Rightarrow> string list" where
  "vars_of [] = []"
| "vars_of (Lit c # ss) = vars_of ss"
| "vars_of (Var v # ss) = v # vars_of ss"

text \<open>\<open>sorted\<close> on a set of strings.\<close>

fun insort_str :: "string \<Rightarrow> string list \<Rightarrow> string list" where
  "insort_str x [] = [x]"
| "insort_str x (y # ys) = (if str_le x y then x # y # ys else y # insort_str x ys)"

definition sorted_set :: "string list \<Rightarrow> string list" where
  "sorted_set xs = foldr insort_str (remdups xs) []"

definition validate_template_vars :: "string \<Rightarrow> string option \<Rightarrow> string list \<Rightarrow> string list" where
  "validate_template_vars title body allowed =
     (let found = vars_of (segments title) @
                    (if truthy body then vars_of (segments (the body)) else [])
      in sorted_set (filter (\<lambda>v. v \<notin> set allowed) found))"

subsection \<open>Administration of templates\<close>

definition str_pair_le :: "string \<times> string \<Rightarrow> string \<times> string \<Rightarrow> bool" where
  "str_pair_le a b \<longleftrightarrow> (if fst a = fst b then str_le (snd a) (snd b) else str_le (fst a) (fst b))"

fun insort_template :: "alert_template \<Rightarrow> alert_template list \<Rightarrow> alert_template list" where
  "insort_template t [] = [t]"
| "insort_template t (u # us) =
     (if str_pair_le (tp_category t, tp_code t) (tp_category u, tp_code u) then t # u # us
      else u # insort_template t us)"

definition list_templates :: "bool \<Rightarrow> alert_template list \<Rightarrow> alert_template list" where
  "list_templates enabled_only ts =
     foldr insort_template (if enabled_only then filter tp_enabled ts else ts) []"

definition get_template :: "alert_template list \<Rightarrow> string \<Rightarrow> alert_template option" where
  "get_template ts c = find (\<lambda>t. tp_code t = c) ts"

record template_update =
  tu_name :: "string option"
  tu_description :: "string option"
  tu_category :: "string option"
  tu_default_severity :: "string option"
  tu_title_template :: "string option"
  tu_body_template :: "string option"
  tu_opt_out_controls :: "string list option"
  tu_allowed_vars :: "string list option"
  tu_default_config :: "(string \<times> json) list option"
  tu_enabled :: "bool option"

text \<open>The text of a list of strings in a message.\<close>

definition quoted :: "string \<Rightarrow> string" where
  "quoted s = char_of (39 :: nat) # s @ [char_of (39 :: nat)]"

definition str_list :: "string list \<Rightarrow> string" where
  "str_list xs = ''['' @ join '', '' (map quoted xs) @ '']''"

definition allowed_opt_out_controls :: "string list" where
  "allowed_opt_out_controls = [''template'', ''severity'']"

definition or_kept :: "'a option \<Rightarrow> 'a \<Rightarrow> 'a" where
  "or_kept x a = (case x of Some b \<Rightarrow> b | None \<Rightarrow> a)"

definition apply_template_update :: "time \<Rightarrow> uuid \<Rightarrow> template_update \<Rightarrow> alert_template \<Rightarrow> alert_template" where
  "apply_template_update now admin b t =
     t\<lparr>tp_name := or_kept (tu_name b) (tp_name t),
       tp_description := (case tu_description b of None \<Rightarrow> tp_description t | d \<Rightarrow> d),
       tp_category := or_kept (tu_category b) (tp_category t),
       tp_default_severity := or_kept (tu_default_severity b) (tp_default_severity t),
       tp_title_template := or_kept (tu_title_template b) (tp_title_template t),
       tp_body_template := (case tu_body_template b of None \<Rightarrow> tp_body_template t | x \<Rightarrow> x),
       tp_opt_out_controls := or_kept (tu_opt_out_controls b) (tp_opt_out_controls t),
       tp_allowed_vars := or_kept (tu_allowed_vars b) (tp_allowed_vars t),
       tp_default_config := or_kept (tu_default_config b) (tp_default_config t),
       tp_enabled := or_kept (tu_enabled b) (tp_enabled t),
       tp_updated_by := Some admin, tp_updated_at := now\<rparr>"

definition update_template ::
  "time \<Rightarrow> uuid \<Rightarrow> string \<Rightarrow> template_update \<Rightarrow> alert_template list \<Rightarrow>
   (http_error + alert_template option) \<times> alert_template list" where
  "update_template now admin c b ts =
     (case get_template ts c of
        None \<Rightarrow> (Inr None, ts)
      | Some row \<Rightarrow>
          (let bad = (case tu_opt_out_controls b of None \<Rightarrow> []
                      | Some cs \<Rightarrow> sorted_set (filter (\<lambda>x. x \<notin> set allowed_opt_out_controls) cs));
               warnings = validate_template_vars
                 (or_kept (tu_title_template b) (tp_title_template row))
                 (case tu_body_template b of None \<Rightarrow> tp_body_template row | x \<Rightarrow> x)
                 (or_kept (tu_allowed_vars b) (tp_allowed_vars row))
           in if bad \<noteq> [] then (Inl (HTTPException 422 (''opt_out_controls khong hop le: '' @ str_list bad)), ts)
              else if warnings \<noteq> []
              then (Inl (HTTPException 422
                     (''Template dung bien khong khai bao trong allowed_vars: '' @ str_list warnings)), ts)
              else (Inr (Some (apply_template_update now admin b row)),
                    update_where (\<lambda>t. tp_code t = c) (apply_template_update now admin b) ts)))"

definition template_not_found :: http_error where
  "template_not_found = HTTPException 404 ''Template khong ton tai''"

definition update_template_endpoint ::
  "time \<Rightarrow> http_error + user \<Rightarrow> string \<Rightarrow> template_update \<Rightarrow> alert_template list \<Rightarrow>
   (http_error + alert_template) \<times> alert_template list" where
  "update_template_endpoint now auth c b ts =
     (case auth of
        Inl e \<Rightarrow> (Inl e, ts)
      | Inr admin \<Rightarrow>
          (case update_template now (u_id admin) c b ts of
             (Inl e, ts') \<Rightarrow> (Inl e, ts')
           | (Inr None, ts') \<Rightarrow> (Inl template_not_found, ts')
           | (Inr (Some row), ts') \<Rightarrow> (Inr row, ts')))"

definition opt_text :: "string \<Rightarrow> string option" where
  "opt_text s = (if s = [] then None else Some s)"

definition preview_template ::
  "http_error + user \<Rightarrow> string \<Rightarrow> render_context \<Rightarrow> alert_template list \<Rightarrow>
   http_error + string \<times> string option \<times> string list" where
  "preview_template auth c ctx ts =
     (case auth of
        Inl e \<Rightarrow> Inl e
      | Inr _ \<Rightarrow>
          (case get_template ts c of
             None \<Rightarrow> Inl template_not_found
           | Some row \<Rightarrow> Inr (render_template (tp_title_template row) (tp_allowed_vars row) ctx,
                opt_text (render_template (or_kept (tp_body_template row) []) (tp_allowed_vars row) ctx),
                validate_template_vars (tp_title_template row) (tp_body_template row) (tp_allowed_vars row))))"

subsection \<open>Opt-outs of users\<close>

record notification_pref =
  np_user_id :: uuid
  np_template_code :: string
  np_muted :: bool
  np_min_severity :: "string option"
  np_updated_at :: time

record pref_item =
  pi_template_code :: string
  pi_muted :: bool
  pi_min_severity :: "string option"

record pref_out =
  po_template_code :: string
  po_template_name :: string
  po_category :: string
  po_default_severity :: string
  po_opt_out_controls :: "string list"
  po_muted :: bool
  po_min_severity :: "string option"

definition get_pref :: "notification_pref list \<Rightarrow> uuid \<Rightarrow> string \<Rightarrow> notification_pref option" where
  "get_pref ps uid c = find (\<lambda>p. np_user_id p = uid \<and> np_template_code p = c) ps"

definition get_prefs_with_template ::
  "alert_template list \<Rightarrow> notification_pref list \<Rightarrow> uuid \<Rightarrow> pref_out list" where
  "get_prefs_with_template ts ps uid =
     map (\<lambda>t. let p = get_pref ps uid (tp_code t) in
        \<lparr>po_template_code = tp_code t, po_template_name = tp_name t, po_category = tp_category t,
         po_default_severity = tp_default_severity t, po_opt_out_controls = tp_opt_out_controls t,
         po_muted = (case p of Some q \<Rightarrow> np_muted q | None \<Rightarrow> False),
         po_min_severity = (case p of Some q \<Rightarrow> np_min_severity q | None \<Rightarrow> None)\<rparr>)
       (list_templates True ts)"

definition check_pref_item :: "alert_template list \<Rightarrow> pref_item \<Rightarrow> http_error option" where
  "check_pref_item ts i =
     (case get_template ts (pi_template_code i) of
        None \<Rightarrow> Some (HTTPException 404 (''Template khong ton tai: '' @ pi_template_code i))
      | Some t \<Rightarrow>
          if pi_muted i \<and> ''template'' \<notin> set (tp_opt_out_controls t)
          then Some (HTTPException 422 (''Template '' @ quoted (pi_template_code i) @
                 '' khong cho phep mute (opt_out_controls='' @ str_list (sorted_set (tp_opt_out_controls t)) @ '')''))
          else if truthy (pi_min_severity i) \<and> ''severity'' \<notin> set (tp_opt_out_controls t)
          then Some (HTTPException 422 (''Template '' @ quoted (pi_template_code i) @
                 '' khong cho phep chon min_severity (opt_out_controls='' @
                 str_list (sorted_set (tp_opt_out_controls t)) @ '')''))
          else None)"

definition set_pref :: "time \<Rightarrow> pref_item \<Rightarrow> notification_pref \<Rightarrow> notification_pref" where
  "set_pref now i p =
     p\<lparr>np_muted := pi_muted i, np_min_severity := pi_min_severity i, np_updated_at := now\<rparr>"

definition store_pref :: "time \<Rightarrow> uuid \<Rightarrow> pref_item \<Rightarrow> notification_pref list \<Rightarrow> notification_pref list" where
  "store_pref now uid i ps =
     (case get_pref ps uid (pi_template_code i) of
        None \<Rightarrow> insert_row \<lparr>np_user_id = uid, np_template_code = pi_template_code i, np_muted = pi_muted i,
                  np_min_severity = pi_min_severity i, np_updated_at = now\<rparr> ps
      | Some _ \<Rightarrow> update_where (\<lambda>p. np_user_id p = uid \<and> np_template_code p = pi_template_code i)
                    (set_pref now i) ps)"

text \<open>An error ends the request before the commit, so nothing of it is stored.\<close>

fun upsert_items ::
  "time \<Rightarrow> alert_template list \<Rightarrow> uuid \<Rightarrow> pref_item list \<Rightarrow> notification_pref list \<Rightarrow>
   http_error + notification_pref list" where
  "upsert_items now ts uid [] ps = Inr ps"
| "upsert_items now ts uid (i # rest) ps =
     (case check_pref_item ts i of
        Some e \<Rightarrow> Inl e
      | None \<Rightarrow> upsert_items now ts uid rest (store_pref now uid i ps))"

definition upsert_prefs ::
  "time \<Rightarrow> alert_template list \<Rightarrow> uuid \<Rightarrow> pref_item list \<Rightarrow> notification_pref list \<Rightarrow>
   (http_error + pref_out list) \<times> notification_pref list" where
  "upsert_prefs now ts uid items ps =
     (case upsert_items now ts uid items ps of
        Inl e \<Rightarrow> (Inl e, ps)
      | Inr ps' \<Rightarrow> (Inr (get_prefs_with_template ts ps' uid), ps'))"

subsection \<open>Reading a template text\<close>

fun unparse :: "segment \<Rightarrow> string" where
  "unparse (Lit c) = [c]"
| "unparse (Var v) = ''{'' @ v @ ''}''"

definition opens_var :: "char \<Rightarrow> string \<Rightarrow> bool" where
  "opens_var c s \<longleftrightarrow> c = CHR ''{'' \<and> takeWhile is_word s \<noteq> [] \<and> dropWhile is_word s \<noteq> [] \<and>
     hd (dropWhile is_word s) = CHR ''}''"

lemma segments_Cons:
  "segments (c # s) =
     (if opens_var c s then Var (takeWhile is_word s) # segments (tl (dropWhile is_word s))
      else Lit c # segments s)"
  by (simp add: opens_var_def Let_def)

declare segments.simps(2) [simp del]

lemma opens_varD: "opens_var c s \<Longrightarrow> c # s = ''{'' @ takeWhile is_word s @ ''}'' @ tl (dropWhile is_word s)"
  unfolding opens_var_def by (metis append_Cons append_Nil list.collapse takeWhile_dropWhile_id)

lemma segments_induct [case_names Nil Var Lit]:
  assumes "P []"
    and "\<And>c s. opens_var c s \<Longrightarrow> P (tl (dropWhile is_word s)) \<Longrightarrow> P (c # s)"
    and "\<And>c s. \<not> opens_var c s \<Longrightarrow> P s \<Longrightarrow> P (c # s)"
  shows "P s"
proof (induction s rule: segments.induct)
  case (2 c s)
  then show ?case using assms(2,3) [of c s] unfolding opens_var_def by blast
qed (rule assms(1))

text \<open>The reading loses nothing of the text, and what it takes for a variable is one.\<close>

lemma segments_unparse: "concat (map unparse (segments s)) = s"
proof (induction s rule: segments_induct)
  case (Var c s)
  then show ?case using opens_varD [of c s] by (simp add: segments_Cons)
qed (simp_all add: segments_Cons)

lemma segments_vars: "Var v \<in> set (segments s) \<Longrightarrow> v \<noteq> [] \<and> list_all is_word v"
proof (induction s rule: segments_induct)
  case (Var c s)
  then show ?case by (auto simp: segments_Cons opens_var_def list_all_iff dest: set_takeWhileD)
qed (simp_all add: segments_Cons)

lemma set_vars_of: "v \<in> set (vars_of ss) \<longleftrightarrow> Var v \<in> set ss"
  by (induction ss rule: vars_of.induct) auto

lemma set_insort_str: "set (insort_str x xs) = insert x (set xs)"
  by (induction xs) auto

lemma sorted_set_Nil_iff: "sorted_set xs = [] \<longleftrightarrow> xs = []"
proof -
  have "set (foldr insort_str ys []) = set ys" for ys by (induction ys) (simp_all add: set_insort_str)
  then have "set (sorted_set xs) = set xs" by (simp add: sorted_set_def)
  then show ?thesis by (metis set_empty)
qed

lemma validate_template_vars_ok:
  "validate_template_vars title body allowed = [] \<longleftrightarrow>
     (\<forall>v. Var v \<in> set (segments title) \<longrightarrow> v \<in> set allowed) \<and>
     (\<forall>v. Var v \<in> set (segments (or_kept body [])) \<longrightarrow> v \<in> set allowed)"
  by (cases body) (auto simp: validate_template_vars_def sorted_set_Nil_iff filter_empty_conv set_vars_of
      or_kept_def Ball_def)

lemma render_template_segments:
  "render_template txt allowed ctx = concat (map (render_segment allowed ctx) (segments txt))"
  by (simp add: render_template_def)

lemma render_cong:
  assumes "\<And>v. Var v \<in> set (segments txt) \<Longrightarrow> render_var allowed ctx v = render_var allowed' ctx' v"
  shows "render_template txt allowed ctx = render_template txt allowed' ctx'"
proof -
  have "render_segment allowed ctx seg = render_segment allowed' ctx' seg" if "seg \<in> set (segments txt)" for seg
    by (cases seg) (use that assms in auto)
  then have "map (render_segment allowed ctx) (segments txt) = map (render_segment allowed' ctx') (segments txt)"
    by simp
  then show ?thesis by (simp only: render_template_segments)
qed

subsection \<open>States that administration keeps\<close>

definition template_ok :: "alert_template \<Rightarrow> bool" where
  "template_ok t \<longleftrightarrow> set (tp_opt_out_controls t) \<subseteq> set allowed_opt_out_controls \<and>
     validate_template_vars (tp_title_template t) (tp_body_template t) (tp_allowed_vars t) = []"

definition templates_ok :: "alert_template list \<Rightarrow> bool" where
  "templates_ok ts \<longleftrightarrow> distinct (map tp_code ts) \<and> (\<forall>t\<in>set ts. template_ok t)"

definition prefs_ok :: "notification_pref list \<Rightarrow> bool" where
  "prefs_ok ps \<longleftrightarrow> distinct (map (\<lambda>p. (np_user_id p, np_template_code p)) ps)"

interpretation template_code: row_update tp_code "apply_template_update now admin b"
  by unfold_locales (simp add: apply_template_update_def)

lemma get_templateD: "get_template ts c = Some t \<Longrightarrow> t \<in> set ts \<and> tp_code t = c"
  unfolding get_template_def by (drule find_SomeD) simp

lemma get_template_unique:
  "distinct (map tp_code ts) \<Longrightarrow> t \<in> set ts \<Longrightarrow> tp_code t = c \<Longrightarrow> get_template ts c = Some t"
  unfolding get_template_def by (metis find_key)

lemma apply_template_update_ok:
  assumes "template_ok t"
    and "case tu_opt_out_controls b of None \<Rightarrow> True | Some cs \<Rightarrow> set cs \<subseteq> set allowed_opt_out_controls"
    and "validate_template_vars (or_kept (tu_title_template b) (tp_title_template t))
      (case tu_body_template b of None \<Rightarrow> tp_body_template t | x \<Rightarrow> x)
      (or_kept (tu_allowed_vars b) (tp_allowed_vars t)) = []"
  shows "template_ok (apply_template_update now admin b t)"
  using assms by (auto simp: template_ok_def apply_template_update_def or_kept_def split: option.splits)

lemma update_template_success:
  assumes "update_template now admin c b ts = (Inr (Some t'), ts')"
  obtains t where "get_template ts c = Some t" "t' = apply_template_update now admin b t"
    "ts' = update_where (\<lambda>t. tp_code t = c) (apply_template_update now admin b) ts"
    "case tu_opt_out_controls b of None \<Rightarrow> True | Some cs \<Rightarrow> set cs \<subseteq> set allowed_opt_out_controls"
    "validate_template_vars (or_kept (tu_title_template b) (tp_title_template t))
      (case tu_body_template b of None \<Rightarrow> tp_body_template t | x \<Rightarrow> x)
      (or_kept (tu_allowed_vars b) (tp_allowed_vars t)) = []"
proof -
  obtain t where t: "get_template ts c = Some t" using assms by (auto simp: update_template_def split: option.splits)
  then show ?thesis
    using assms that [of t]
    by (auto simp: update_template_def Let_def sorted_set_Nil_iff filter_empty_conv
        split: if_splits option.split_asm)
qed

lemma update_template_other:
  "\<nexists>t'. fst (update_template now admin c b ts) = Inr (Some t') \<Longrightarrow>
     snd (update_template now admin c b ts) = ts"
  by (auto simp: update_template_def Let_def split: option.splits if_splits)

lemma update_template_keeps:
  assumes ok: "templates_ok ts"
  shows "templates_ok (snd (update_template now admin c b ts))"
proof (cases "\<exists>t'. fst (update_template now admin c b ts) = Inr (Some t')")
  case True
  then obtain t' ts' where upd: "update_template now admin c b ts = (Inr (Some t'), ts')" by (metis prod.collapse)
  then obtain t where t: "get_template ts c = Some t" and
    ts': "snd (update_template now admin c b ts) = update_where (\<lambda>t. tp_code t = c) (apply_template_update now admin b) ts"
    and ctl: "case tu_opt_out_controls b of None \<Rightarrow> True | Some cs \<Rightarrow> set cs \<subseteq> set allowed_opt_out_controls"
    and vars: "validate_template_vars (or_kept (tu_title_template b) (tp_title_template t))
      (case tu_body_template b of None \<Rightarrow> tp_body_template t | x \<Rightarrow> x)
      (or_kept (tu_allowed_vars b) (tp_allowed_vars t)) = []"
    using upd by (elim update_template_success) (simp add: upd)
  have "template_ok u" if "u \<in> set (update_where (\<lambda>t. tp_code t = c) (apply_template_update now admin b) ts)" for u
    using that
  proof (cases rule: update_whereE)
    case (1 r)
    then have "r = t" using t get_template_unique [of ts r c] ok by (simp add: templates_ok_def)
    then show ?thesis using 1 apply_template_update_ok ok ctl vars by (auto simp: templates_ok_def)
  qed (use ok in \<open>simp add: templates_ok_def\<close>)
  then show ?thesis
    using ok ts' template_code.distinct_update_where [of ts "\<lambda>t. tp_code t = c" now admin b]
    by (simp add: templates_ok_def del: set_update_where)
next
  case False
  with ok show ?thesis by (simp add: update_template_other)
qed

definition template_step :: "time \<times> uuid \<times> string \<times> template_update \<Rightarrow> alert_template list \<Rightarrow> alert_template list" where
  "template_step e ts = (case e of (now, admin, c, b) \<Rightarrow> snd (update_template now admin c b ts))"

interpretation template_admin: step_system template_step "\<lambda>_ _. True" templates_ok
  by unfold_locales (auto simp: template_step_def update_template_keeps)

lemma template_admissible [simp]: "template_admin.admissible es s"
  by (induction es arbitrary: s) auto

subsection \<open>Storing opt-outs\<close>

definition pref_key :: "notification_pref \<Rightarrow> uuid \<times> string" where
  "pref_key p = (np_user_id p, np_template_code p)"

interpretation pref_key: row_update pref_key "set_pref now i"
  by unfold_locales (simp add: pref_key_def set_pref_def)

lemma pref_pred: "(\<lambda>p. np_user_id p = uid \<and> np_template_code p = c) = (\<lambda>p. pref_key p = (uid, c))"
  by (simp add: pref_key_def)

lemma get_pref_key: "get_pref ps uid c = find (\<lambda>p. pref_key p = (uid, c)) ps"
  by (simp only: get_pref_def pref_pred)

lemma store_pref_other:
  assumes "uid' \<noteq> uid \<or> c \<noteq> pi_template_code i"
  shows "get_pref (store_pref now uid i ps) uid' c = get_pref ps uid' c"
proof (cases "get_pref ps uid (pi_template_code i)")
  case None
  with assms show ?thesis
    by (auto simp: store_pref_def get_pref_key insert_row_def find_append pref_key_def split: option.splits)
next
  case (Some p)
  then have "store_pref now uid i ps = update_where (\<lambda>p. pref_key p = (uid, pi_template_code i)) (set_pref now i) ps"
    by (simp add: store_pref_def pref_pred)
  then show ?thesis using assms by (simp add: get_pref_key pref_key.find_update_where_other)
qed

lemma store_pref_same:
  "\<exists>p. get_pref (store_pref now uid i ps) uid (pi_template_code i) = Some p \<and>
     np_muted p = pi_muted i \<and> np_min_severity p = pi_min_severity i"
proof (cases "get_pref ps uid (pi_template_code i)")
  case None
  then show ?thesis by (simp add: store_pref_def get_pref_key insert_row_def find_append pref_key_def)
next
  case (Some p)
  then have "store_pref now uid i ps = update_where (\<lambda>p. pref_key p = (uid, pi_template_code i)) (set_pref now i) ps"
    by (simp add: store_pref_def pref_pred)
  with Some show ?thesis by (simp add: get_pref_key pref_key.find_update_where set_pref_def)
qed

lemma upsert_items_frame:
  "upsert_items now ts uid items ps = Inr ps' \<Longrightarrow>
     uid' \<noteq> uid \<or> c \<notin> pi_template_code ` set items \<Longrightarrow> get_pref ps' uid' c = get_pref ps uid' c"
  by (induction items arbitrary: ps) (auto simp: store_pref_other split: option.splits)

lemma upsert_items_stored:
  "upsert_items now ts uid items ps = Inr ps' \<Longrightarrow> distinct (map pi_template_code items) \<Longrightarrow> i \<in> set items \<Longrightarrow>
     check_pref_item ts i = None \<and>
     (\<exists>p. get_pref ps' uid (pi_template_code i) = Some p \<and> np_muted p = pi_muted i \<and>
        np_min_severity p = pi_min_severity i)"
proof (induction items arbitrary: ps)
  case (Cons j items)
  then have check: "check_pref_item ts j = None" and rest: "upsert_items now ts uid items (store_pref now uid j ps) = Inr ps'"
    by (auto split: option.splits)
  show ?case
  proof (cases "i = j")
    case True
    have "get_pref ps' uid (pi_template_code j) = get_pref (store_pref now uid j ps) uid (pi_template_code j)"
      using upsert_items_frame [OF rest] Cons.prems(2) by simp
    then show ?thesis using True check store_pref_same by simp
  next
    case False
    then show ?thesis using Cons.IH [OF rest] Cons.prems by simp
  qed
qed simp

lemma check_pref_item_ok:
  "check_pref_item ts i = None \<longleftrightarrow>
     (\<exists>t. get_template ts (pi_template_code i) = Some t \<and>
        (pi_muted i \<longrightarrow> ''template'' \<in> set (tp_opt_out_controls t)) \<and>
        (truthy (pi_min_severity i) \<longrightarrow> ''severity'' \<in> set (tp_opt_out_controls t)))"
  by (auto simp: check_pref_item_def split: option.splits)

subsection \<open>Properties\<close>

definition filled :: "render_context \<Rightarrow> segment \<Rightarrow> string" where
  "filled ctx seg = (case seg of Lit c \<Rightarrow> [c] | Var v \<Rightarrow> the (the (map_of ctx v)))"

lemma render_filled:
  assumes "\<And>v. Var v \<in> set (segments txt) \<Longrightarrow> v \<in> set allowed" "\<forall>v\<in>set allowed. \<exists>x. map_of ctx v = Some (Some x)"
  shows "render_template txt allowed ctx = concat (map (filled ctx) (segments txt))"
proof -
  have "render_segment allowed ctx seg = filled ctx seg" if seg: "seg \<in> set (segments txt)" for seg
  proof (cases seg)
    case (Var v)
    with seg assms show ?thesis by (fastforce simp: filled_def render_var_def)
  qed (simp add: filled_def)
  then have "map (render_segment allowed ctx) (segments txt) = map (filled ctx) (segments txt)" by simp
  then show ?thesis by (simp only: render_template_segments)
qed

text \<open>After any sequence of template updates, rendering a template for a context that has all of
  its allowed variables fills every placeholder: title and body are read into literal characters and
  placeholders without loss, and each placeholder is replaced by its value.\<close>

theorem templates_render_filled:
  assumes "templates_ok ts" and "t \<in> set (run template_step es ts)"
    and "\<forall>v\<in>set (tp_allowed_vars t). \<exists>x. map_of ctx v = Some (Some x)"
    and "txt = tp_title_template t \<or> tp_body_template t = Some txt"
  shows "render_template txt (tp_allowed_vars t) ctx = concat (map (filled ctx) (segments txt)) \<and>
     concat (map unparse (segments txt)) = txt"
proof -
  have "templates_ok (run template_step es ts)" using assms(1) by (simp add: template_admin.run_inv)
  then have "validate_template_vars (tp_title_template t) (tp_body_template t) (tp_allowed_vars t) = []"
    using assms(2) by (simp add: templates_ok_def template_ok_def)
  then have "Var v \<in> set (segments txt) \<Longrightarrow> v \<in> set (tp_allowed_vars t)" for v
    using assms(4) by (auto simp: validate_template_vars_ok or_kept_def)
  then show ?thesis using assms(3) by (simp add: render_filled segments_unparse)
qed

definition sample_template :: alert_template where
  "sample_template = \<lparr>tp_code = ''machine_offline'', tp_name = ''Offline'', tp_description = None,
     tp_category = ''machine'', tp_default_severity = ''warning'', tp_title_template = ''Off: {hostname}'',
     tp_body_template = None, tp_opt_out_controls = [''severity''], tp_allowed_vars = [''hostname''],
     tp_default_config = [], tp_enabled = True, tp_updated_by = None, tp_updated_at = 0\<rparr>"

lemma sample_segments: "segments ''Off: {hostname}'' = map Lit ''Off: '' @ [Var ''hostname'']"
  by (simp add: segments_Cons opens_var_def is_word_def Let_def char_eval)

lemma sample_template_ok: "templates_ok [sample_template]"
  by (auto simp: templates_ok_def template_ok_def sample_template_def allowed_opt_out_controls_def
      validate_template_vars_ok sample_segments or_kept_def)

lemma templates_render_filled_witness:
  "render_template ''Off: {hostname}'' [''hostname''] [(''hostname'', Some ''PC-1'')] = ''Off: PC-1''"
  using templates_render_filled [OF sample_template_ok, of sample_template "[]" "[(''hostname'', Some ''PC-1'')]" "''Off: {hostname}''"]
  by (simp add: sample_template_def sample_segments filled_def)

text \<open>Opt-outs are stored as asked and only where the template allows them; a request with a
  forbidden item stores nothing, and no request touches the opt-outs of another user or of a template
  it does not name.\<close>

theorem opt_outs_respect_templates:
  assumes "upsert_prefs now ts uid items ps = (r, ps')" and "distinct (map pi_template_code items)"
  shows "(\<forall>e. r = Inl e \<longrightarrow> ps' = ps) \<and>
     (\<forall>out. r = Inr out \<longrightarrow> (\<forall>i\<in>set items.
        (\<exists>t. get_template ts (pi_template_code i) = Some t \<and>
           (pi_muted i \<longrightarrow> ''template'' \<in> set (tp_opt_out_controls t)) \<and>
           (truthy (pi_min_severity i) \<longrightarrow> ''severity'' \<in> set (tp_opt_out_controls t))) \<and>
        (\<exists>p. get_pref ps' uid (pi_template_code i) = Some p \<and> np_muted p = pi_muted i \<and>
           np_min_severity p = pi_min_severity i))) \<and>
     (\<forall>uid' c. uid' \<noteq> uid \<or> c \<notin> pi_template_code ` set items \<longrightarrow> get_pref ps' uid' c = get_pref ps uid' c)"
proof (cases "upsert_items now ts uid items ps")
  case (Inl e)
  then show ?thesis using assms(1) by (auto simp: upsert_prefs_def)
next
  case (Inr ps1)
  then have "ps1 = ps'" "r = Inr (get_prefs_with_template ts ps' uid)" using assms(1) by (auto simp: upsert_prefs_def)
  with Inr show ?thesis
    using upsert_items_stored [of now ts uid items ps ps'] upsert_items_frame [of now ts uid items ps ps'] assms(2)
    by (simp add: check_pref_item_ok)
qed

lemma opt_outs_respect_templates_witness:
  "\<exists>p. get_pref (snd (upsert_prefs 5 [sample_template] 1
       [\<lparr>pi_template_code = ''machine_offline'', pi_muted = False, pi_min_severity = Some ''error''\<rparr>] []))
     1 ''machine_offline'' = Some p \<and> np_min_severity p = Some ''error''"
proof -
  let ?items = "[\<lparr>pi_template_code = ''machine_offline'', pi_muted = False, pi_min_severity = Some ''error''\<rparr>]"
  have "upsert_prefs 5 [sample_template] 1 ?items [] =
      (fst (upsert_prefs 5 [sample_template] 1 ?items []), snd (upsert_prefs 5 [sample_template] 1 ?items []))" by simp
  from opt_outs_respect_templates [OF this]
  show ?thesis
    by (auto simp: upsert_prefs_def check_pref_item_def get_template_def sample_template_def)
qed

end
