(* ===== verification/Notifications.thy ===== *)
theory Notifications
  imports Telegram Templates
begin

text \<open>
  Notifications: \<open>services/notifications.py\<close> and the routes of \<open>api/routes/notifications.py\<close>
  over one database session. A session holds what is committed and what it would commit;
  a commit is refused when a constraint of the tables fails (the unique idempotency key, the
  recipient being a user), and a rollback drops everything since the last commit and expires
  the loaded rows, so the rollbacks are counted. Row ids are taken from a supply that never repeats. Redis and Telegram
  are best effort: what they are given is recorded, what Telegram answers is a parameter. The
  emoji of the message texts are left out.
\<close>

subsection \<open>Rows and sessions\<close>

record notification =
  nt_id :: uuid
  nt_recipient_id :: uuid
  nt_sender_id :: "uuid option"
  nt_source :: string
  nt_category :: string
  nt_severity :: string
  nt_title :: string
  nt_body :: "string option"
  nt_link :: "string option"
  nt_entity_type :: "string option"
  nt_entity_id :: "string option"
  nt_api_key_id :: "uuid option"
  nt_idempotency_key :: "string option"
  nt_data :: "json option"
  nt_read_at :: "time option"
  nt_created_at :: time

record notification_delivery =
  nd_id :: uuid
  nd_notification_id :: uuid
  nd_channel :: string
  nd_status :: string
  nd_error :: "string option"
  nd_delivered_at :: "time option"

record alert_rule =
  ar_id :: uuid
  ar_name :: string
  ar_template_code :: string
  ar_org_id :: "uuid option"
  ar_scope_mode :: string
  ar_recipient_mode :: string
  ar_config :: "(string \<times> json) list"
  ar_enabled :: bool
  ar_created_by :: uuid
  ar_created_at :: time

record alert_event =
  ae_id :: nat
  ae_rule_id :: uuid
  ae_template_code :: string
  ae_machine_id :: "uuid option"
  ae_org_id :: "uuid option"
  ae_fingerprint :: string
  ae_severity :: string
  ae_title :: string
  ae_body :: "string option"
  ae_context :: render_context
  ae_recipient_user_ids :: "string list"

record api_key =
  ak_id :: uuid
  ak_key_hash :: string
  ak_scope :: string
  ak_org_id :: "uuid option"
  ak_enabled :: bool
  ak_last_used_at :: "time option"

record alert_db =
  al_orgs :: "organization list"
  al_users :: "user list"
  al_machines :: "machine list"
  al_templates :: "alert_template list"
  al_rules :: "alert_rule list"
  al_prefs :: "notification_pref list"
  al_events :: "alert_event list"
  al_notifs :: "notification list"
  al_deliveries :: "notification_delivery list"
  al_keys :: "api_key list"

record session =
  ss_committed :: alert_db
  ss_work :: alert_db
  ss_supply :: nat
  ss_rollbacks :: nat
  ss_pushed :: "(string \<times> notification list) list"
  ss_telegrams :: "(string \<times> string) list"  \<comment> \<open>chat id and text\<close>
  ss_machine_events :: "(uuid \<times> machine_status \<times> string option) list"

definition constraints_ok :: "alert_db \<Rightarrow> bool" where
  "constraints_ok db \<longleftrightarrow> distinct (List.map_filter nt_idempotency_key (al_notifs db)) \<and>
     (\<forall>n\<in>set (al_notifs db). nt_recipient_id n \<in> u_id ` set (al_users db))"

definition commit :: "session \<Rightarrow> session option" where
  "commit s = (if constraints_ok (ss_work s) then Some (s\<lparr>ss_committed := ss_work s\<rparr>) else None)"

definition rollback :: "session \<Rightarrow> session" where
  "rollback s = s\<lparr>ss_work := ss_committed s, ss_rollbacks := Suc (ss_rollbacks s)\<rparr>"

definition modify :: "(alert_db \<Rightarrow> alert_db) \<Rightarrow> session \<Rightarrow> session" where
  "modify f s = s\<lparr>ss_work := f (ss_work s)\<rparr>"

text \<open>A commit that nothing of the session can make fail.\<close>

definition commit_plain :: "session \<Rightarrow> session" where
  "commit_plain s = (case commit s of Some s' \<Rightarrow> s' | None \<Rightarrow> rollback s)"

subsection \<open>Recipients\<close>

definition channel :: "uuid \<Rightarrow> string" where
  "channel uid = ''notification:user:'' @ uuid_str uid"

definition role_value :: "user_role \<Rightarrow> string" where
  "role_value r = (case r of SUPER_ADMIN \<Rightarrow> ''super_admin'' | ORG_ADMIN \<Rightarrow> ''org_admin'' | VIEWER \<Rightarrow> ''viewer''
     | ADMIN_GLOBAL \<Rightarrow> ''admin_global'' | ADMIN_ORG \<Rightarrow> ''admin_org'')"

definition notify_admin_roles :: "user_role set" where
  "notify_admin_roles = {SUPER_ADMIN, ADMIN_GLOBAL, ORG_ADMIN, ADMIN_ORG}"

definition has_role :: "string option \<Rightarrow> user \<Rightarrow> bool" where
  "has_role role u =
     (case role of None \<Rightarrow> True
      | Some r \<Rightarrow> if r = ''admin'' \<or> r = ''admins'' then u_role u \<in> notify_admin_roles else role_value (u_role u) = r)"

text \<open>\<open>broadcast\<close> adds no condition.\<close>

definition resolve_recipients ::
  "user list \<Rightarrow> uuid list option \<Rightarrow> string option \<Rightarrow> uuid option \<Rightarrow> uuid option \<Rightarrow> uuid list" where
  "resolve_recipients us ids role org excluded =
     remdups (map u_id (filter (\<lambda>u. u_is_active u \<and>
        (case ids of None \<Rightarrow> True | Some xs \<Rightarrow> u_id u \<in> set xs) \<and> has_role role u \<and>
        (case org of None \<Rightarrow> True | Some o' \<Rightarrow> u_org_id u = o') \<and>
        (case excluded of None \<Rightarrow> True | Some x \<Rightarrow> u_id u \<noteq> x)) us))"

subsection \<open>Delivery\<close>

text \<open>\<open>_publish_realtime\<close>: one message per recipient, in the order of first occurrence.\<close>

definition publish_realtime :: "notification list \<Rightarrow> session \<Rightarrow> session" where
  "publish_realtime ns s =
     s\<lparr>ss_pushed := ss_pushed s @
        map (\<lambda>uid. (channel uid, filter (\<lambda>n. nt_recipient_id n = uid) ns)) (dedup (map nt_recipient_id ns))\<rparr>"

datatype tg_reply = Tg_response nat string | Tg_raised string string  \<comment> \<open>type and message of the exception\<close>

definition telegram_text :: "notification \<Rightarrow> string" where
  "telegram_text n =
     ''*'' @ nt_title n @ ''*'' @ [char_of (10 :: nat)] @
     (if truthy (nt_body n) then [char_of (10 :: nat)] @ take 1000 (the (nt_body n)) @ [char_of (10 :: nat)] else []) @
     (if truthy (nt_link n) then [char_of (10 :: nat)] @ the (nt_link n) else [])"

definition settle_delivery :: "time \<Rightarrow> tg_reply \<Rightarrow> notification_delivery \<Rightarrow> notification_delivery" where
  "settle_delivery now reply d =
     (case reply of
        Tg_response c body \<Rightarrow>
          if c = 200 then d\<lparr>nd_status := ''delivered'', nd_delivered_at := Some now\<rparr>
          else d\<lparr>nd_status := ''failed'', nd_error := Some (''HTTP '' @ digits_of c @ '': '' @ take 200 body)\<rparr>
      | Tg_raised ty msg \<Rightarrow> d\<lparr>nd_status := ''failed'', nd_error := Some (take 500 (ty @ '': '' @ msg))\<rparr>)"

definition maybe_deliver_telegram ::
  "(string \<Rightarrow> string \<Rightarrow> string \<Rightarrow> tg_reply) \<Rightarrow> bot_view \<Rightarrow> time \<Rightarrow> notification \<Rightarrow> session \<Rightarrow> session" where
  "maybe_deliver_telegram telegram bv now n s =
     (if \<not> can_send bv then s
      else case find (\<lambda>u. u_id u = nt_recipient_id n) (al_users (ss_work s)) of
        None \<Rightarrow> s
      | Some u \<Rightarrow>
          if \<not> truthy (u_telegram_chat_id u) then s
          else
            (let did = ss_supply s; chat = the (u_telegram_chat_id u);
                 d = \<lparr>nd_id = did, nd_notification_id = nt_id n, nd_channel = ''telegram'', nd_status = ''pending'',
                      nd_error = None, nd_delivered_at = None\<rparr>;
                 s1 = commit_plain (modify (\<lambda>db. db\<lparr>al_deliveries := insert_row d (al_deliveries db)\<rparr>) (s\<lparr>ss_supply := Suc did\<rparr>));
                 reply = telegram (the (bv_bot_token bv)) chat (telegram_text n)
             in commit_plain (modify (\<lambda>db. db\<lparr>al_deliveries :=
                    update_where (\<lambda>r. nd_id r = did) (settle_delivery now reply) (al_deliveries db)\<rparr>)
                  (s1\<lparr>ss_telegrams := ss_telegrams s1 @ [(chat, telegram_text n)]\<rparr>))))"

subsection \<open>Creation\<close>

record notify_spec =
  ns_source :: string
  ns_category :: string
  ns_severity :: string
  ns_title :: string
  ns_body :: "string option"
  ns_link :: "string option"
  ns_entity_type :: "string option"
  ns_entity_id :: "string option"
  ns_sender_id :: "uuid option"
  ns_api_key_id :: "uuid option"
  ns_idempotency_key :: "string option"
  ns_data :: "json option"

definition notification_row :: "time \<Rightarrow> notify_spec \<Rightarrow> uuid \<Rightarrow> uuid \<Rightarrow> notification" where
  "notification_row now p nid rid =
     \<lparr>nt_id = nid, nt_recipient_id = rid, nt_sender_id = ns_sender_id p, nt_source = ns_source p,
      nt_category = ns_category p, nt_severity = ns_severity p, nt_title = take 255 (ns_title p),
      nt_body = ns_body p, nt_link = ns_link p, nt_entity_type = ns_entity_type p, nt_entity_id = ns_entity_id p,
      nt_api_key_id = ns_api_key_id p, nt_idempotency_key = ns_idempotency_key p, nt_data = ns_data p,
      nt_read_at = None, nt_created_at = now\<rparr>"

definition notification_rows :: "time \<Rightarrow> notify_spec \<Rightarrow> nat \<Rightarrow> uuid list \<Rightarrow> notification list" where
  "notification_rows now p base rids =
     map (\<lambda>(i, rid). notification_row now p (base + i) rid) (zip [0..<length rids] rids)"

definition with_key :: "string option \<Rightarrow> alert_db \<Rightarrow> notification list" where
  "with_key key db = filter (\<lambda>n. nt_idempotency_key n = key) (al_notifs db)"

definition create_notification ::
  "(string \<Rightarrow> string \<Rightarrow> string \<Rightarrow> tg_reply) \<Rightarrow> bot_view \<Rightarrow> time \<Rightarrow> uuid list \<Rightarrow> notify_spec \<Rightarrow> session \<Rightarrow>
   (http_error + notification list) \<times> session" where
  "create_notification telegram bv now rids p s =
     (if rids = [] then (Inr [], s)
      else
        let key = ns_idempotency_key p
        in if truthy key \<and> with_key key (ss_work s) \<noteq> [] then (Inr [], s)
           else
             (let rows = notification_rows now p (ss_supply s) rids;
                  s1 = modify (\<lambda>db. db\<lparr>al_notifs := al_notifs db @ rows\<rparr>) (s\<lparr>ss_supply := ss_supply s + length rids\<rparr>)
              in case commit s1 of
                   None \<Rightarrow>
                     (let s2 = rollback s1
                      in if truthy key then (Inr (with_key key (ss_work s2)), s2) else (Inl internal_error, s2))
                 | Some s2 \<Rightarrow>
                     (Inr rows, fold (maybe_deliver_telegram telegram bv now) rows (publish_realtime rows s2))))"

subsection \<open>The mailbox of a user\<close>

definition list_user_notifications ::
  "notification list \<Rightarrow> uuid \<Rightarrow> bool \<Rightarrow> string option \<Rightarrow> nat \<Rightarrow> nat \<Rightarrow> notification list" where
  "list_user_notifications ns uid unread_only category limit offset =
     take limit (drop offset (sort_key (\<lambda>n. - nt_created_at n)
       (filter (\<lambda>n. nt_recipient_id n = uid \<and> (unread_only \<longrightarrow> nt_read_at n = None) \<and>
          (truthy category \<longrightarrow> nt_category n = the category)) ns)))"

definition unread :: "uuid \<Rightarrow> notification \<Rightarrow> bool" where
  "unread uid n \<longleftrightarrow> nt_recipient_id n = uid \<and> nt_read_at n = None"

text \<open>\<open>GROUP BY severity\<close>: one row per severity with its count.\<close>

definition count_unread :: "notification list \<Rightarrow> uuid \<Rightarrow> nat \<times> (string \<times> nat) list" where
  "count_unread ns uid =
     (let mine = filter (unread uid) ns;
          by_sev = map (\<lambda>sev. (sev, length (filter (\<lambda>n. nt_severity n = sev) mine))) (dedup (map nt_severity mine))
      in (sum_list (map snd by_sev), by_sev))"

definition owned :: "uuid \<Rightarrow> uuid \<Rightarrow> notification \<Rightarrow> bool" where
  "owned uid nid n \<longleftrightarrow> nt_id n = nid \<and> nt_recipient_id n = uid"

definition read_at :: "time \<Rightarrow> notification \<Rightarrow> notification" where
  "read_at now n = n\<lparr>nt_read_at := Some now\<rparr>"

definition mark_read :: "time \<Rightarrow> uuid \<Rightarrow> uuid \<Rightarrow> notification list \<Rightarrow> bool \<times> notification list" where
  "mark_read now uid nid ns =
     (case find (owned uid nid) ns of
        None \<Rightarrow> (False, ns)
      | Some _ \<Rightarrow> (True, update_where (owned uid nid) (read_at now) ns))"

definition mark_all_read :: "time \<Rightarrow> uuid \<Rightarrow> string option \<Rightarrow> notification list \<Rightarrow> nat \<times> notification list" where
  "mark_all_read now uid category ns =
     (let hit = (\<lambda>n. unread uid n \<and> (truthy category \<longrightarrow> nt_category n = the category))
      in (length (filter hit ns), update_where hit (read_at now) ns))"

definition delete_notification :: "uuid \<Rightarrow> uuid \<Rightarrow> notification list \<Rightarrow> bool \<times> notification list" where
  "delete_notification uid nid ns =
     (case find (owned uid nid) ns of
        None \<Rightarrow> (False, ns)
      | Some _ \<Rightarrow> (True, delete_where (owned uid nid) ns))"

definition clear_read :: "uuid \<Rightarrow> notification list \<Rightarrow> nat \<times> notification list" where
  "clear_read uid ns =
     (let hit = (\<lambda>n. nt_recipient_id n = uid \<and> nt_read_at n \<noteq> None)
      in (length (filter hit ns), delete_where hit ns))"

subsection \<open>Who is calling\<close>

text \<open>\<open>_current_user_dep\<close> of the notification routes: unlike \<open>get_current_user\<close> it does not ask
  whether the password must be changed first. The subject is compared in the database, which
  rejects a text that is no uuid.\<close>

definition notification_user :: "crypto \<Rightarrow> time \<Rightarrow> user list \<Rightarrow> string option \<Rightarrow> http_error + user" where
  "notification_user x now us cred =
     (case cred of
        None \<Rightarrow> Inl (HTTPException 401 ''Thieu token'')
      | Some tok \<Rightarrow>
          (case decode_token x now tok ''access'' of
             None \<Rightarrow> Inl (HTTPException 401 ''Token khong hop le'')
           | Some c \<Rightarrow>
               (case cl_sub c of
                  None \<Rightarrow> Inl (HTTPException 401 ''User khong ton tai'')
                | Some sub \<Rightarrow>
                    (case parse_uuid sub of
                       None \<Rightarrow> Inl internal_error
                     | Some uid \<Rightarrow>
                         (case find (\<lambda>u. u_id u = uid) us of
                            None \<Rightarrow> Inl (HTTPException 401 ''User khong ton tai'')
                          | Some u \<Rightarrow> if u_is_active u then Inr u
                                      else Inl (HTTPException 401 ''User khong ton tai''))))))"

definition not_found :: http_error where
  "not_found = HTTPException 404 ''Notification khong ton tai''"

definition mark_notification_read ::
  "time \<Rightarrow> http_error + user \<Rightarrow> uuid \<Rightarrow> notification list \<Rightarrow> (http_error + unit) \<times> notification list" where
  "mark_notification_read now auth nid ns =
     (case auth of Inl e \<Rightarrow> (Inl e, ns)
      | Inr u \<Rightarrow> (let (ok, ns') = mark_read now (u_id u) nid ns in (if ok then Inr () else Inl not_found, ns')))"

definition delete_notification_route ::
  "http_error + user \<Rightarrow> uuid \<Rightarrow> notification list \<Rightarrow> (http_error + unit) \<times> notification list" where
  "delete_notification_route auth nid ns =
     (case auth of Inl e \<Rightarrow> (Inl e, ns)
      | Inr u \<Rightarrow> (let (ok, ns') = delete_notification (u_id u) nid ns in (if ok then Inr () else Inl not_found, ns')))"

text \<open>\<open>_extract_bearer\<close> and \<open>_auth_api_key\<close>; the scope of a key is a list of words.\<close>

definition extract_bearer :: "string option \<Rightarrow> string option" where
  "extract_bearer header =
     (let auth = (case header of None \<Rightarrow> [] | Some h \<Rightarrow> h)
      in if starts_with ''bearer '' (lower auth) then Some (strip (drop 7 auth)) else None)"

definition auth_api_key ::
  "time \<Rightarrow> string option \<Rightarrow> string list \<Rightarrow> session \<Rightarrow> (http_error + api_key) \<times> session" where
  "auth_api_key now header required s =
     (case extract_bearer header of
        None \<Rightarrow> (Inl (HTTPException 401 ''Missing Authorization Bearer''), s)
      | Some tok \<Rightarrow>
          if tok = [] then (Inl (HTTPException 401 ''Missing Authorization Bearer''), s)
          else
            (case find (\<lambda>k. ak_key_hash k = sha256_hex tok \<and> ak_enabled k) (al_keys (ss_work s)) of
               None \<Rightarrow> (Inl (HTTPException 401 ''API key khong hop le''), s)
             | Some k \<Rightarrow>
                 if \<not> set required \<subseteq> set (split_ws (ak_scope k))
                 then (Inl (HTTPException 403 ''Thieu scope''), s)
                 else (Inr k, commit_plain (modify (\<lambda>db. db\<lparr>al_keys :=
                        update_where (\<lambda>r. ak_id r = ak_id k) (\<lambda>r. r\<lparr>ak_last_used_at := Some now\<rparr>) (al_keys db)\<rparr>) s))))"

subsection \<open>Sending\<close>

record send_out =
  so_delivered_to :: nat
  so_recipient_ids :: "string list"
  so_notification_ids :: "string list"

record send_body =
  sb_category :: string
  sb_severity :: string
  sb_title :: string
  sb_body :: "string option"
  sb_link :: "string option"
  sb_entity_type :: "string option"
  sb_entity_id :: "string option"
  sb_data :: "json option"

definition spec_of :: "string \<Rightarrow> uuid option \<Rightarrow> uuid option \<Rightarrow> string option \<Rightarrow> send_body \<Rightarrow> notify_spec" where
  "spec_of source sender key_id idem b =
     \<lparr>ns_source = source, ns_category = sb_category b, ns_severity = sb_severity b, ns_title = sb_title b,
      ns_body = sb_body b, ns_link = sb_link b, ns_entity_type = sb_entity_type b, ns_entity_id = sb_entity_id b,
      ns_sender_id = sender, ns_api_key_id = key_id, ns_idempotency_key = idem, ns_data = sb_data b\<rparr>"

record recipient_filter =
  rf_role :: "string option"
  rf_org_id :: "uuid option"
  rf_exclude_user_id :: "uuid option"

definition sent :: "uuid list \<Rightarrow> notification list \<Rightarrow> send_out" where
  "sent rids ns = \<lparr>so_delivered_to = length ns, so_recipient_ids = map uuid_str rids,
     so_notification_ids = map (\<lambda>n. uuid_str (nt_id n)) ns\<rparr>"

definition admin_send_notification ::
  "(string \<Rightarrow> string \<Rightarrow> string \<Rightarrow> tg_reply) \<Rightarrow> bot_view \<Rightarrow> time \<Rightarrow> http_error + user \<Rightarrow> uuid list \<Rightarrow>
   recipient_filter \<Rightarrow> send_body \<Rightarrow> session \<Rightarrow> (http_error + send_out) \<times> session" where
  "admin_send_notification telegram bv now auth ids rf b s =
     (case auth of
        Inl e \<Rightarrow> (Inl e, s)
      | Inr admin \<Rightarrow>
          (let rids = (if ids \<noteq> [] then ids
                       else resolve_recipients (al_users (ss_work s)) None (rf_role rf) (rf_org_id rf) (rf_exclude_user_id rf))
           in if rids = [] then (Inl (HTTPException 400 ''Khong co recipient nao''), s)
              else case create_notification telegram bv now rids (spec_of ''user'' (Some (u_id admin)) None None b) s of
                  (Inl e, s') \<Rightarrow> (Inl e, s')
                | (Inr ns, s') \<Rightarrow> (Inr (sent rids ns), s')))"

definition admin_broadcast ::
  "(string \<Rightarrow> string \<Rightarrow> string \<Rightarrow> tg_reply) \<Rightarrow> bot_view \<Rightarrow> time \<Rightarrow> http_error + user \<Rightarrow> send_body \<Rightarrow> session \<Rightarrow>
   (http_error + send_out) \<times> session" where
  "admin_broadcast telegram bv now auth b s =
     (case auth of
        Inl e \<Rightarrow> (Inl e, s)
      | Inr admin \<Rightarrow>
          (let b' = (if sb_category b = [] then b\<lparr>sb_category := ''system''\<rparr> else b);
               rids = resolve_recipients (al_users (ss_work s)) None None None (Some (u_id admin))
           in case create_notification telegram bv now rids (spec_of ''user'' (Some (u_id admin)) None None b') s of
                (Inl e, s') \<Rightarrow> (Inl e, s')
              | (Inr ns, s') \<Rightarrow> (Inr (sent (map nt_recipient_id ns) ns), s')))"

datatype ext_recipients = To_users "uuid list" | To_role "string option" | To_all | To_unknown string

text \<open>\<open>token_hex\<close> is the random suffix of the generated idempotency key. Text that is no uuid among
  the user ids is an uncaught error before anything is written.\<close>

definition external_send_notification ::
  "(string \<Rightarrow> string \<Rightarrow> string \<Rightarrow> tg_reply) \<Rightarrow> bot_view \<Rightarrow> time \<Rightarrow> string option \<Rightarrow> string option \<Rightarrow> string option \<Rightarrow>
   string \<Rightarrow> ext_recipients \<Rightarrow> send_body \<Rightarrow> session \<Rightarrow> (http_error + send_out) \<times> session" where
  "external_send_notification telegram bv now header x_source x_key token_hex rp b s =
     (case auth_api_key now header [''notify:write''] s of
        (Inl e, s1) \<Rightarrow> (Inl e, s1)
      | (Inr key, s1) \<Rightarrow>
          (let source = (case x_source of Some t \<Rightarrow> t | None \<Rightarrow> ''external'');
               idem = (if truthy x_key then the x_key
                       else source @ ''-'' @ (case sb_entity_id b of Some t \<Rightarrow> t | None \<Rightarrow> []) @ ''-'' @ token_hex);
               us = al_users (ss_work s1)
           in case (case rp of
                  To_users uids \<Rightarrow> Some (case ak_org_id key of
                      None \<Rightarrow> uids
                    | Some org \<Rightarrow> map u_id (filter (\<lambda>u. u_id u \<in> set uids \<and> u_org_id u = org) us))
                | To_role r \<Rightarrow> Some (resolve_recipients us None r (ak_org_id key) None)
                | To_all \<Rightarrow> Some (resolve_recipients us None None (ak_org_id key) None)
                | To_unknown t \<Rightarrow> None) of
                None \<Rightarrow> (Inl (HTTPException 422 ''recipients.type khong hop le''), s1)
              | Some rids \<Rightarrow>
                  if rids = [] then (Inr (sent [] []), s1)
                  else case create_notification telegram bv now rids
                             (spec_of source None (Some (ak_id key)) (Some idem) b) s1 of
                      (Inl e, s2) \<Rightarrow> (Inl e, s2)
                    | (Inr ns, s2) \<Rightarrow> (Inr (sent rids ns), s2)))"

subsection \<open>What a delivery leaves alone\<close>

text \<open>A clean session has nothing uncommitted and satisfies the constraints; two of them agree when
  they differ in the delivery log only.\<close>

definition clean :: "session \<Rightarrow> bool" where
  "clean s \<longleftrightarrow> ss_work s = ss_committed s \<and> constraints_ok (ss_work s)"

definition same_but_deliveries :: "alert_db \<Rightarrow> alert_db \<Rightarrow> bool" where
  "same_but_deliveries db db' \<longleftrightarrow> db' = db\<lparr>al_deliveries := al_deliveries db'\<rparr>"

lemma same_but_deliveries_refl [simp]: "same_but_deliveries db db"
  by (simp add: same_but_deliveries_def)

lemma same_but_deliveries_trans:
  "same_but_deliveries a b \<Longrightarrow> same_but_deliveries b c \<Longrightarrow> same_but_deliveries a c"
  unfolding same_but_deliveries_def by (metis alert_db.surjective alert_db.update_convs(9))

lemma same_but_deliveries_sel:
  "same_but_deliveries a b \<Longrightarrow> al_notifs b = al_notifs a \<and> al_users b = al_users a \<and>
     al_machines b = al_machines a \<and> al_events b = al_events a \<and> al_rules b = al_rules a \<and>
     al_templates b = al_templates a \<and> al_prefs b = al_prefs a \<and> al_orgs b = al_orgs a \<and> al_keys b = al_keys a"
  unfolding same_but_deliveries_def by (cases a; cases b) simp

lemma constraints_ok_deliveries [simp]: "constraints_ok (db\<lparr>al_deliveries := ds\<rparr>) = constraints_ok db"
  by (simp add: constraints_ok_def)

lemma commit_plain_deliveries:
  "clean s \<Longrightarrow> clean (commit_plain (modify (\<lambda>db. db\<lparr>al_deliveries := f (al_deliveries db)\<rparr>) s)) \<and>
     same_but_deliveries (ss_work s) (ss_work (commit_plain (modify (\<lambda>db. db\<lparr>al_deliveries := f (al_deliveries db)\<rparr>) s))) \<and>
     ss_rollbacks (commit_plain (modify (\<lambda>db. db\<lparr>al_deliveries := f (al_deliveries db)\<rparr>) s)) = ss_rollbacks s \<and>
     ss_supply (commit_plain (modify (\<lambda>db. db\<lparr>al_deliveries := f (al_deliveries db)\<rparr>) s)) = ss_supply s \<and>
     ss_machine_events (commit_plain (modify (\<lambda>db. db\<lparr>al_deliveries := f (al_deliveries db)\<rparr>) s)) = ss_machine_events s"
  (is "clean s \<Longrightarrow> ?P")
proof -
  assume c: "clean s"
  let ?db = "ss_work s\<lparr>al_deliveries := f (al_deliveries (ss_work s))\<rparr>"
  have "constraints_ok (ss_work s)" using c unfolding clean_def by blast
  then have ok: "constraints_ok ?db" by simp
  then have "commit_plain (modify (\<lambda>db. db\<lparr>al_deliveries := f (al_deliveries db)\<rparr>) s) = s\<lparr>ss_work := ?db, ss_committed := ?db\<rparr>"
    by (simp add: commit_plain_def commit_def modify_def)
  then show ?P using ok by (simp add: clean_def same_but_deliveries_def)
qed

definition delivers :: "session \<Rightarrow> session \<Rightarrow> bool" where
  "delivers s s' \<longleftrightarrow> clean s' \<and> same_but_deliveries (ss_work s) (ss_work s') \<and>
     ss_rollbacks s' = ss_rollbacks s \<and> ss_supply s \<le> ss_supply s' \<and> ss_machine_events s' = ss_machine_events s"

lemma delivers_trans: "delivers a b \<Longrightarrow> delivers b c \<Longrightarrow> delivers a c"
  by (auto simp: delivers_def intro: same_but_deliveries_trans)

lemma clean_sel_upd [simp]:
  "clean (s\<lparr>ss_supply := n\<rparr>) = clean s" "clean (s\<lparr>ss_telegrams := t\<rparr>) = clean s" "clean (s\<lparr>ss_pushed := q\<rparr>) = clean s"
  by (simp_all add: clean_def)

lemma maybe_deliver_telegram_delivers:
  assumes "clean s"
  shows "delivers s (maybe_deliver_telegram telegram bv now n s)"
proof (cases "can_send bv \<and> (\<exists>u. find (\<lambda>u. u_id u = nt_recipient_id n) (al_users (ss_work s)) = Some u \<and>
    truthy (u_telegram_chat_id u))")
  case False
  then have "maybe_deliver_telegram telegram bv now n s = s"
    by (auto simp: maybe_deliver_telegram_def split: option.splits)
  with assms show ?thesis by (simp add: delivers_def)
next
  case True
  then obtain u where u: "can_send bv" "find (\<lambda>u. u_id u = nt_recipient_id n) (al_users (ss_work s)) = Some u"
    "truthy (u_telegram_chat_id u)" by blast
  define d where "d = \<lparr>nd_id = ss_supply s, nd_notification_id = nt_id n, nd_channel = ''telegram'',
    nd_status = ''pending'', nd_error = None, nd_delivered_at = None\<rparr>"
  define s1 where "s1 = commit_plain (modify (\<lambda>db. db\<lparr>al_deliveries := insert_row d (al_deliveries db)\<rparr>)
    (s\<lparr>ss_supply := Suc (ss_supply s)\<rparr>))"
  define s2 where "s2 = s1\<lparr>ss_telegrams := ss_telegrams s1 @ [(the (u_telegram_chat_id u), telegram_text n)]\<rparr>"
  define r where "r = telegram (the (bv_bot_token bv)) (the (u_telegram_chat_id u)) (telegram_text n)"
  have eq: "maybe_deliver_telegram telegram bv now n s =
      commit_plain (modify (\<lambda>db. db\<lparr>al_deliveries := update_where (\<lambda>r. nd_id r = ss_supply s)
        (settle_delivery now r) (al_deliveries db)\<rparr>) s2)"
    using u by (simp add: maybe_deliver_telegram_def d_def s1_def s2_def r_def Let_def)
  have 1: "delivers s s1"
    using commit_plain_deliveries [of "s\<lparr>ss_supply := Suc (ss_supply s)\<rparr>" "insert_row d"] assms
    by (simp add: delivers_def s1_def)
  then have "delivers s s2" by (simp add: delivers_def s2_def)
  moreover have "delivers s2 (maybe_deliver_telegram telegram bv now n s)"
    unfolding eq using commit_plain_deliveries [of s2] calculation by (simp add: delivers_def)
  ultimately show ?thesis by (rule delivers_trans)
qed

lemma fold_deliver: "clean s \<Longrightarrow> delivers s (fold (maybe_deliver_telegram telegram bv now) ns s)"
proof (induction ns arbitrary: s)
  case (Cons n ns)
  have 1: "delivers s (maybe_deliver_telegram telegram bv now n s)" using Cons.prems by (rule maybe_deliver_telegram_delivers)
  then have "clean (maybe_deliver_telegram telegram bv now n s)" by (simp add: delivers_def)
  then show ?case using delivers_trans [OF 1 Cons.IH] by simp
qed (simp add: delivers_def)

subsection \<open>What a creation stores\<close>

lemma notification_rows_props:
  "length (notification_rows now p k rids) = length rids"
  "map nt_recipient_id (notification_rows now p k rids) = rids"
  "map nt_idempotency_key (notification_rows now p k rids) = replicate (length rids) (ns_idempotency_key p)"
proof -
  have "map nt_recipient_id (notification_rows now p k rids) = map snd (zip [0..<length rids] rids)"
    by (simp add: notification_rows_def notification_row_def case_prod_beta comp_def)
  then show "map nt_recipient_id (notification_rows now p k rids) = rids" by simp
  show "length (notification_rows now p k rids) = length rids" by (simp add: notification_rows_def)
  show "map nt_idempotency_key (notification_rows now p k rids) = replicate (length rids) (ns_idempotency_key p)"
    by (intro nth_equalityI) (simp_all add: notification_rows_def notification_row_def)
qed

lemma map_filter_append: "List.map_filter f (xs @ ys) = List.map_filter f xs @ List.map_filter f ys"
  by (induction xs) (auto simp: List.map_filter_simps split: option.splits)

lemma map_filter_map: "List.map_filter f xs = List.map_filter id (map f xs)"
  by (induction xs) (auto simp: List.map_filter_simps split: option.splits)

lemma keys_of_rows:
  "List.map_filter nt_idempotency_key (notification_rows now p k rids) =
     (case ns_idempotency_key p of None \<Rightarrow> [] | Some y \<Rightarrow> replicate (length rids) y)"
proof -
  have "List.map_filter id (replicate n v) = (case v of None \<Rightarrow> [] | Some y \<Rightarrow> replicate n y)" for n and v :: "string option"
    by (induction n) (auto simp: List.map_filter_simps split: option.splits)
  then show ?thesis by (subst map_filter_map) (simp add: notification_rows_props)
qed

lemma in_keys: "y \<in> set (List.map_filter nt_idempotency_key ns) \<longleftrightarrow> (\<exists>n\<in>set ns. nt_idempotency_key n = Some y)"
  by (induction ns) (auto simp: List.map_filter_simps split: option.splits)

text \<open>Whether the rows of one creation can be stored together.\<close>

lemma constraints_ok_rows:
  assumes "constraints_ok db" "set rids \<subseteq> u_id ` set (al_users db)"
    and "\<forall>y. ns_idempotency_key p = Some y \<longrightarrow> with_key (Some y) db = []"
  shows "constraints_ok (db\<lparr>al_notifs := al_notifs db @ notification_rows now p k rids\<rparr>) \<longleftrightarrow>
     ns_idempotency_key p = None \<or> length rids \<le> 1"
proof -
  have recip: "nt_recipient_id n \<in> set rids" if "n \<in> set (notification_rows now p k rids)" for n
    using that notification_rows_props(2) [of now p k rids] by (metis image_eqI list.set_map)
  have "distinct (replicate n y) \<longleftrightarrow> n \<le> 1" for n and y :: string
    by (cases n; cases "n - 1") auto
  moreover have "y \<notin> set (List.map_filter nt_idempotency_key (al_notifs db))" if "ns_idempotency_key p = Some y" for y
    using assms(3) that by (auto simp: in_keys with_key_def filter_empty_conv)
  ultimately show ?thesis
    using assms(1,2) recip
    by (auto simp: constraints_ok_def map_filter_append keys_of_rows split: option.splits)
qed

lemma create_notification_stores:
  assumes "rids \<noteq> []" "\<not> (truthy (ns_idempotency_key p) \<and> with_key (ns_idempotency_key p) (ss_work s) \<noteq> [])"
    and ok: "constraints_ok ((ss_work s)\<lparr>al_notifs := al_notifs (ss_work s) @ notification_rows now p (ss_supply s) rids\<rparr>)"
  shows "\<exists>s'. create_notification telegram bv now rids p s = (Inr (notification_rows now p (ss_supply s) rids), s') \<and>
     clean s' \<and> same_but_deliveries
       ((ss_work s)\<lparr>al_notifs := al_notifs (ss_work s) @ notification_rows now p (ss_supply s) rids\<rparr>) (ss_work s') \<and>
     ss_rollbacks s' = ss_rollbacks s \<and> ss_machine_events s' = ss_machine_events s \<and> ss_supply s \<le> ss_supply s'"
proof -
  let ?rows = "notification_rows now p (ss_supply s) rids"
  let ?db = "(ss_work s)\<lparr>al_notifs := al_notifs (ss_work s) @ ?rows\<rparr>"
  let ?s1 = "modify (\<lambda>db. db\<lparr>al_notifs := al_notifs db @ ?rows\<rparr>) (s\<lparr>ss_supply := ss_supply s + length rids\<rparr>)"
  let ?s2 = "publish_realtime ?rows (?s1\<lparr>ss_committed := ?db\<rparr>)"
  have commit: "commit ?s1 = Some (?s1\<lparr>ss_committed := ?db\<rparr>)" using ok by (simp add: commit_def modify_def)
  have clean: "clean ?s2" using ok by (simp add: clean_def publish_realtime_def modify_def)
  have eq: "create_notification telegram bv now rids p s = (Inr ?rows, fold (maybe_deliver_telegram telegram bv now) ?rows ?s2)"
    using assms(1,2) commit by (auto simp: create_notification_def Let_def)
  have "ss_work ?s2 = ?db" "ss_rollbacks ?s2 = ss_rollbacks s" "ss_machine_events ?s2 = ss_machine_events s"
    "ss_supply s \<le> ss_supply ?s2"
    by (simp_all add: publish_realtime_def modify_def)
  then show ?thesis using fold_deliver [OF clean, of telegram bv now ?rows] eq by (auto simp: delivers_def)
qed

lemma create_notification_dropped:
  assumes "rids \<noteq> []" "truthy (ns_idempotency_key p)" "with_key (ns_idempotency_key p) (ss_work s) = []"
    and bad: "\<not> constraints_ok ((ss_work s)\<lparr>al_notifs := al_notifs (ss_work s) @ notification_rows now p (ss_supply s) rids\<rparr>)"
  shows "create_notification telegram bv now rids p s =
     (Inr (with_key (ns_idempotency_key p) (ss_committed s)),
      s\<lparr>ss_work := ss_committed s, ss_rollbacks := Suc (ss_rollbacks s), ss_supply := ss_supply s + length rids\<rparr>)"
  using assms by (simp add: create_notification_def commit_def modify_def rollback_def Let_def)

subsection \<open>Properties\<close>

text \<open>A creation for existing users stores one notification per recipient, all with the given
  content, when it carries no idempotency key or has one recipient. With a new key and two or more
  recipients it stores nothing, returns the empty list, and rolls back everything the session had
  not yet committed; with a key that is already known it returns the empty list and changes nothing.\<close>

theorem notification_fanout:
  assumes "constraints_ok (ss_work s)" "rids \<noteq> []" "set rids \<subseteq> u_id ` set (al_users (ss_work s))"
    and "ns_idempotency_key p \<noteq> Some []"
  defines "known \<equiv> (\<exists>n\<in>set (al_notifs (ss_work s)). nt_idempotency_key n = ns_idempotency_key p)"
  shows "(ns_idempotency_key p = None \<or> \<not> known \<and> length rids = 1 \<longrightarrow>
       (\<exists>rows s'. create_notification telegram bv now rids p s = (Inr rows, s') \<and> map nt_recipient_id rows = rids \<and>
          al_notifs (ss_committed s') = al_notifs (ss_work s) @ rows \<and> clean s')) \<and>
     (ns_idempotency_key p \<noteq> None \<and> \<not> known \<and> 2 \<le> length rids \<and>
        al_notifs (ss_committed s) = al_notifs (ss_work s) \<longrightarrow>
       (\<exists>s'. create_notification telegram bv now rids p s = (Inr [], s') \<and> ss_work s' = ss_committed s \<and>
          ss_committed s' = ss_committed s)) \<and>
     (ns_idempotency_key p \<noteq> None \<and> known \<longrightarrow> create_notification telegram bv now rids p s = (Inr [], s))"
proof (intro conjI impI)
  let ?key = "ns_idempotency_key p"
  have known: "known \<longleftrightarrow> with_key ?key (ss_work s) \<noteq> []" by (auto simp: known_def with_key_def filter_empty_conv)
  have truthy: "truthy ?key \<longleftrightarrow> ?key \<noteq> None" using assms(4) by (cases ?key) auto
  have fits: "constraints_ok ((ss_work s)\<lparr>al_notifs := al_notifs (ss_work s) @ notification_rows now p (ss_supply s) rids\<rparr>) \<longleftrightarrow>
      ?key = None \<or> length rids \<le> 1" if "?key \<noteq> None \<longrightarrow> \<not> known"
    using that known by (intro constraints_ok_rows [OF assms(1,3)]) auto
  {
    assume *: "?key = None \<or> \<not> known \<and> length rids = 1"
    then have "\<not> (truthy ?key \<and> with_key ?key (ss_work s) \<noteq> [])" using truthy known by auto
    moreover have "constraints_ok ((ss_work s)\<lparr>al_notifs := al_notifs (ss_work s) @ notification_rows now p (ss_supply s) rids\<rparr>)"
      using fits * by auto
    ultimately obtain s' where s': "clean s'"
      "create_notification telegram bv now rids p s = (Inr (notification_rows now p (ss_supply s) rids), s')"
      "same_but_deliveries ((ss_work s)\<lparr>al_notifs := al_notifs (ss_work s) @ notification_rows now p (ss_supply s) rids\<rparr>) (ss_work s')"
      using create_notification_stores [OF assms(2)] by metis
    then have "al_notifs (ss_committed s') = al_notifs (ss_work s) @ notification_rows now p (ss_supply s) rids"
      using same_but_deliveries_sel [OF s'(3)] unfolding clean_def by simp
    then show "\<exists>rows s'. create_notification telegram bv now rids p s = (Inr rows, s') \<and> map nt_recipient_id rows = rids \<and>
        al_notifs (ss_committed s') = al_notifs (ss_work s) @ rows \<and> clean s'"
      using s'(1,2) notification_rows_props(2) by blast
  next
    assume *: "?key \<noteq> None \<and> \<not> known \<and> 2 \<le> length rids \<and> al_notifs (ss_committed s) = al_notifs (ss_work s)"
    then have "with_key ?key (ss_committed s) = []" using known by (simp add: with_key_def)
    with * show "\<exists>s'. create_notification telegram bv now rids p s = (Inr [], s') \<and> ss_work s' = ss_committed s \<and>
        ss_committed s' = ss_committed s"
      using create_notification_dropped [OF assms(2), of p s now telegram bv] truthy known fits by simp
  next
    assume "?key \<noteq> None \<and> known"
    then show "create_notification telegram bv now rids p s = (Inr [], s)"
      using truthy known assms(2) by (simp add: create_notification_def Let_def)
  }
qed

definition sample_alert_db :: alert_db where
  "sample_alert_db =
     \<lparr>al_orgs = [\<lparr>org_id = 10, org_parent_id = None, org_name = ''O'', org_type = ''don_vi''\<rparr>],
      al_users = [sample_user, sample_user\<lparr>u_id := 2, u_email := ''b@x'', u_role := SUPER_ADMIN\<rparr>],
      al_machines = [], al_templates = [sample_template], al_rules = [], al_prefs = [], al_events = [], al_notifs = [],
      al_deliveries = [], al_keys = []\<rparr>"

definition sample_session :: session where
  "sample_session = \<lparr>ss_committed = sample_alert_db, ss_work = sample_alert_db, ss_supply = 0, ss_rollbacks = 0,
     ss_pushed = [], ss_telegrams = [], ss_machine_events = []\<rparr>"

definition sample_view :: bot_view where
  "sample_view = \<lparr>bv_bot_token = None, bv_bot_username = None, bv_webhook_secret = None, bv_enabled = True, bv_source = ''none''\<rparr>"

definition sample_spec :: "string option \<Rightarrow> notify_spec" where
  "sample_spec key = \<lparr>ns_source = ''system'', ns_category = ''alert'', ns_severity = ''warning'', ns_title = ''T'',
     ns_body = None, ns_link = None, ns_entity_type = None, ns_entity_id = None, ns_sender_id = None,
     ns_api_key_id = None, ns_idempotency_key = key, ns_data = None\<rparr>"

lemma notification_fanout_witness:
  "(\<exists>s'. create_notification (\<lambda>_ _ _. Tg_response 200 []) sample_view 5 [1, 2] (sample_spec (Some ''k'')) sample_session =
       (Inr [], s')) \<and>
   (\<exists>rows s'. create_notification (\<lambda>_ _ _. Tg_response 200 []) sample_view 5 [1, 2] (sample_spec None) sample_session =
       (Inr rows, s') \<and> map nt_recipient_id rows = [1, 2])"
proof -
  have ok: "constraints_ok (ss_work sample_session)"
    by (simp add: sample_session_def sample_alert_db_def constraints_ok_def List.map_filter_simps)
  have ids: "set [1, 2] \<subseteq> u_id ` set (al_users (ss_work sample_session))"
    by (simp add: sample_session_def sample_alert_db_def sample_user_def)
  have none: "al_notifs (ss_work sample_session) = []" "al_notifs (ss_committed sample_session) = []"
    by (simp_all add: sample_session_def sample_alert_db_def)
  show ?thesis
    using notification_fanout [OF ok _ ids, of "sample_spec (Some ''k'')" "\<lambda>_ _ _. Tg_response 200 []" sample_view 5]
      notification_fanout [OF ok _ ids, of "sample_spec None" "\<lambda>_ _ _. Tg_response 200 []" sample_view 5] none
    by (auto simp: sample_spec_def)
qed

text \<open>The operations of a user on the own mailbox.\<close>

datatype mailbox_op = Mark_one time uuid | Mark_all time "string option" | Delete_one uuid | Clear_read

fun mailbox_step :: "uuid \<Rightarrow> mailbox_op \<Rightarrow> notification list \<Rightarrow> notification list" where
  "mailbox_step uid (Mark_one now nid) ns = snd (mark_read now uid nid ns)"
| "mailbox_step uid (Mark_all now category) ns = snd (mark_all_read now uid category ns)"
| "mailbox_step uid (Delete_one nid) ns = snd (delete_notification uid nid ns)"
| "mailbox_step uid Clear_read ns = snd (clear_read uid ns)"

lemma mailbox_step_others:
  "filter (\<lambda>n. nt_recipient_id n \<noteq> uid) (mailbox_step uid op' ns) = filter (\<lambda>n. nt_recipient_id n \<noteq> uid) ns"
proof (cases op')
  case (Mark_one now nid)
  then show ?thesis
    by (auto simp: mark_read_def owned_def read_at_def intro!: filter_update_where split: option.splits)
next
  case (Mark_all now category)
  then show ?thesis
    by (auto simp: mark_all_read_def unread_def read_at_def Let_def intro!: filter_update_where)
next
  case (Delete_one nid)
  then show ?thesis
    by (auto simp: delete_notification_def owned_def intro!: filter_delete_where split: option.splits)
next
  case Clear_read
  then show ?thesis by (auto simp: clear_read_def Let_def intro!: filter_delete_where)
qed

lemma count_unread_total: "fst (count_unread ns uid) = length (filter (unread uid) ns)"
proof -
  have "sum_list (map (\<lambda>v. length (filter (\<lambda>n. nt_severity n = v) xs)) vs) = length (filter (\<lambda>n. nt_severity n \<in> set vs) xs)"
    if "distinct vs" for vs and xs :: "notification list"
    using that
  proof (induction vs)
    case (Cons v vs)
    have "length (filter (\<lambda>n. nt_severity n = v) xs) + length (filter (\<lambda>n. nt_severity n \<in> set vs) xs) =
        length (filter (\<lambda>n. nt_severity n = v \<or> nt_severity n \<in> set vs) xs)"
      using Cons.prems by (induction xs) auto
    with Cons show ?case by simp
  qed simp
  from this [of "dedup (map nt_severity (filter (unread uid) ns))" "filter (unread uid) ns"]
  have "sum_list (map (\<lambda>v. length (filter (\<lambda>n. nt_severity n = v) (filter (unread uid) ns)))
      (dedup (map nt_severity (filter (unread uid) ns)))) =
    length (filter (\<lambda>n. nt_severity n \<in> set (dedup (map nt_severity (filter (unread uid) ns)))) (filter (unread uid) ns))"
    by simp
  also have "filter (\<lambda>n. nt_severity n \<in> set (dedup (map nt_severity (filter (unread uid) ns)))) (filter (unread uid) ns) =
      filter (unread uid) ns"
    by (rule filter_True) auto
  finally show ?thesis by (simp add: count_unread_def Let_def comp_def)
qed

text \<open>Whatever a user does with the own mailbox, the notifications of all other users stay as they
  are, and after marking everything as read the number of unread notifications is zero.\<close>

theorem mailbox_isolated:
  "filter (\<lambda>n. nt_recipient_id n \<noteq> uid) (run (mailbox_step uid) ops ns) = filter (\<lambda>n. nt_recipient_id n \<noteq> uid) ns \<and>
   fst (count_unread (mailbox_step uid (Mark_all now None) (run (mailbox_step uid) ops ns)) uid) = 0"
proof
  show "filter (\<lambda>n. nt_recipient_id n \<noteq> uid) (run (mailbox_step uid) ops ns) = filter (\<lambda>n. nt_recipient_id n \<noteq> uid) ns"
    by (induction ops arbitrary: ns) (simp_all add: mailbox_step_others)
  show "fst (count_unread (mailbox_step uid (Mark_all now None) (run (mailbox_step uid) ops ns)) uid) = 0"
    unfolding count_unread_total
    by (simp add: mark_all_read_def filter_empty_conv unread_def update_where_def read_at_def)
qed

end
