(* ===== verification/AlertEngine.thy ===== *)
theory AlertEngine
  imports Notifications
begin

text \<open>
  The alert pipeline (\<open>services/alert_engine.py\<close>): template, subscriptions, scope, recipients,
  rendering, the event row and the fan-out of notifications, with the administration of the
  subscriptions (\<open>api/routes/alert_rules.py\<close>). The pipeline works in the session of its caller.
  A rollback inside it expires the rows it holds; reading one of them afterwards is an
  uncaught error, as lazy loading is not available to the asynchronous session.
\<close>

subsection \<open>Recipients\<close>

definition org_admin_roles :: "user_role set" where
  "org_admin_roles = {ORG_ADMIN, ADMIN_ORG}"

definition severity_rank :: "string \<Rightarrow> nat" where
  "severity_rank s =
     (if s = ''info'' then 0 else if s = ''success'' then 1 else if s = ''warning'' then 2
      else if s = ''error'' then 3 else if s = ''critical'' then 4 else 0)"

definition org_rows :: "alert_db \<Rightarrow> org_row list" where
  "org_rows db = map (\<lambda>o'. (org_id o', org_parent_id o')) (al_orgs db)"

definition opted_out :: "alert_db \<Rightarrow> alert_template \<Rightarrow> user \<Rightarrow> bool" where
  "opted_out db t u =
     (case get_pref (al_prefs db) (u_id u) (tp_code t) of
        None \<Rightarrow> False
      | Some p \<Rightarrow> np_muted p \<or>
          ''severity'' \<in> set (tp_opt_out_controls t) \<and> truthy (np_min_severity p) \<and>
          severity_rank (the (np_min_severity p)) > severity_rank (tp_default_severity t))"

fun dedup_users :: "uuid list \<Rightarrow> user list \<Rightarrow> user list" where
  "dedup_users seen [] = []"
| "dedup_users seen (u # us) =
     (if u_id u \<in> set seen then dedup_users seen us else u # dedup_users (u_id u # seen) us)"

definition alert_recipients :: "alert_db \<Rightarrow> alert_template \<Rightarrow> uuid list \<Rightarrow> user list" where
  "alert_recipients db t scope_ids =
     (if scope_ids = [] then []
      else
        let org_admins = filter (\<lambda>u. u_is_active u \<and> u_role u \<in> org_admin_roles \<and> u_org_id u \<in> set scope_ids) (al_users db);
            supers = filter (\<lambda>u. u_is_active u \<and> u_role u \<in> super_admin_roles) (al_users db);
            accepted = filter (\<lambda>u. \<not> opted_out db t u) org_admins @ supers
        in dedup_users [] accepted)"

subsection \<open>The pipeline\<close>

definition opt_uuid_str :: "uuid option \<Rightarrow> string" where
  "opt_uuid_str x = (case x of None \<Rightarrow> ''None'' | Some i \<Rightarrow> uuid_str i)"

definition alert_fingerprint :: "time \<Rightarrow> uuid \<Rightarrow> uuid option \<Rightarrow> string \<Rightarrow> string" where
  "alert_fingerprint now rule_id machine_id c =
     sha256_hex (uuid_str rule_id @ '':'' @ opt_uuid_str machine_id @ '':'' @ c @ '':'' @ fmt_date ''-'' (day_of now))"

definition org_name_of :: "alert_db \<Rightarrow> uuid \<Rightarrow> string option" where
  "org_name_of db oid = map_option org_name (find (\<lambda>o'. org_id o' = oid) (al_orgs db))"

text \<open>\<open>datetime.isoformat\<close> of an aware UTC time.\<close>

definition iso_utc :: "time \<Rightarrow> string" where
  "iso_utc t =
     (let us = t mod days 1; sec = us div 1000000
      in fmt_date ''-'' (day_of t) @ ''T'' @ pad_to 2 (sec div 3600) @ '':'' @ pad_to 2 (sec div 60 mod 60) @ '':'' @
         pad_to 2 (sec mod 60) @ (if us mod 1000000 = 0 then [] else ''.'' @ pad_to 6 (us mod 1000000)) @ ''+00:00'')"

definition setdefault :: "string \<Rightarrow> string option \<Rightarrow> render_context \<Rightarrow> render_context" where
  "setdefault k v ctx = (if k \<in> fst ` set ctx then ctx else ctx @ [(k, v)])"

definition alert_context :: "alert_db \<Rightarrow> uuid option \<Rightarrow> uuid option \<Rightarrow> render_context \<Rightarrow> render_context" where
  "alert_context db oid mid ctx =
     (let c1 = setdefault ''org_id'' (map_option uuid_str oid) ctx;
          c2 = (case oid of None \<Rightarrow> c1
                | Some i \<Rightarrow> (case org_name_of db i of None \<Rightarrow> c1
                    | Some n \<Rightarrow> if n = [] then c1 else setdefault ''org_name'' (Some n) c1))
      in case mid of None \<Rightarrow> c2
       | Some i \<Rightarrow>
           (case find (\<lambda>m. m_id m = i) (al_machines db) of None \<Rightarrow> c2
            | Some m \<Rightarrow>
                (let c3 = setdefault ''machine_id'' (Some (uuid_str (m_id m)))
                            (setdefault ''ip'' (m_public_ip m) (setdefault ''hostname'' (m_hostname m) c2))
                 in case m_last_seen_at m of None \<Rightarrow> c3 | Some t \<Rightarrow> setdefault ''last_seen_at'' (Some (iso_utc t)) c3)))"

definition alert_spec :: "alert_event \<Rightarrow> notify_spec" where
  "alert_spec ev =
     \<lparr>ns_source = ''system'', ns_category = ''alert'', ns_severity = ae_severity ev, ns_title = ae_title ev,
      ns_body = ae_body ev, ns_link = map_option (\<lambda>i. ''/machines/'' @ uuid_str i) (ae_machine_id ev),
      ns_entity_type = Some ''alert'', ns_entity_id = Some (digits_of (ae_id ev)), ns_sender_id = None,
      ns_api_key_id = None, ns_idempotency_key = Some (''alert-event:'' @ digits_of (ae_id ev) @ '':all''),
      ns_data = None\<rparr>"

definition deliver_alert ::
  "(string \<Rightarrow> string \<Rightarrow> string \<Rightarrow> tg_reply) \<Rightarrow> bot_view \<Rightarrow> time \<Rightarrow> alert_event \<Rightarrow> user list \<Rightarrow> session \<Rightarrow>
   (http_error + notification list) \<times> session" where
  "deliver_alert telegram bv now ev recipients s =
     (if recipients = [] then (Inr [], s)
      else create_notification telegram bv now (map u_id recipients) (alert_spec ev) s)"

text \<open>The organisations a rule covers, or \<open>None\<close> when it does not concern the organisation \<open>oid\<close>.\<close>

definition rule_scope :: "alert_db \<Rightarrow> alert_rule \<Rightarrow> uuid option \<Rightarrow> uuid list option" where
  "rule_scope db r oid =
     (if ar_scope_mode r \<noteq> ''system''
      then (case ar_org_id r of
              None \<Rightarrow> None
            | Some i \<Rightarrow>
                (let ids = scope_orgs (org_rows db) (Some i) (ar_scope_mode r)
                 in case oid of None \<Rightarrow> None | Some o' \<Rightarrow> if o' \<in> set ids then Some ids else None))
      else Some (scope_orgs (org_rows db) None ''system''))"

definition new_event ::
  "time \<Rightarrow> alert_rule \<Rightarrow> alert_template \<Rightarrow> uuid option \<Rightarrow> uuid option \<Rightarrow> string \<Rightarrow> string option \<Rightarrow> render_context \<Rightarrow>
   user list \<Rightarrow> nat \<Rightarrow> alert_event" where
  "new_event now r t oid mid title body ctx recipients eid =
     \<lparr>ae_id = eid, ae_rule_id = ar_id r, ae_template_code = tp_code t, ae_machine_id = mid, ae_org_id = oid,
      ae_fingerprint = alert_fingerprint now (ar_id r) mid (tp_code t), ae_severity = tp_default_severity t,
      ae_title = title, ae_body = body, ae_context = ctx,
      ae_recipient_user_ids = map (\<lambda>u. uuid_str (u_id u)) recipients\<rparr>"

definition is_dup :: "uuid \<Rightarrow> uuid option \<Rightarrow> string \<Rightarrow> alert_event \<Rightarrow> bool" where
  "is_dup rid mid fp ev \<longleftrightarrow> ae_rule_id ev = rid \<and> ae_machine_id ev = mid \<and> ae_fingerprint ev = fp"

text \<open>The loop over the subscriptions, which were loaded when the session had seen \<open>epoch\<close> rollbacks.\<close>

fun trigger_rules ::
  "(string \<Rightarrow> string \<Rightarrow> string \<Rightarrow> tg_reply) \<Rightarrow> bot_view \<Rightarrow> time \<Rightarrow> nat \<Rightarrow> alert_template \<Rightarrow> uuid option \<Rightarrow> uuid option \<Rightarrow>
   string \<Rightarrow> string option \<Rightarrow> render_context \<Rightarrow> alert_rule list \<Rightarrow> alert_event list \<Rightarrow> session \<Rightarrow>
   (http_error + alert_event list) \<times> session" where
  "trigger_rules telegram bv now epoch t oid mid title body ctx [] evs s = (Inr evs, s)"
| "trigger_rules telegram bv now epoch t oid mid title body ctx (r # rs) evs s =
     (if ss_rollbacks s \<noteq> epoch then (Inl internal_error, s)
      else
        case rule_scope (ss_work s) r oid of
          None \<Rightarrow> trigger_rules telegram bv now epoch t oid mid title body ctx rs evs s
        | Some scope_ids \<Rightarrow>
            if list_ex (is_dup (ar_id r) mid (alert_fingerprint now (ar_id r) mid (tp_code t))) (al_events (ss_work s))
            then trigger_rules telegram bv now epoch t oid mid title body ctx rs evs s
            else
              (let recipients = alert_recipients (ss_work s) t scope_ids;
                   ev = new_event now r t oid mid title body ctx recipients (ss_supply s);
                   s1 = modify (\<lambda>db. db\<lparr>al_events := insert_row ev (al_events db)\<rparr>) (s\<lparr>ss_supply := Suc (ss_supply s)\<rparr>)
               in case deliver_alert telegram bv now ev recipients s1 of
                    (Inl e, s2) \<Rightarrow> (Inl e, s2)
                  | (Inr ns, s2) \<Rightarrow> trigger_rules telegram bv now epoch t oid mid title body ctx rs (evs @ [ev]) s2))"

definition trigger_alert ::
  "(string \<Rightarrow> string \<Rightarrow> string \<Rightarrow> tg_reply) \<Rightarrow> bot_view \<Rightarrow> time \<Rightarrow> string \<Rightarrow> uuid option \<Rightarrow> uuid option \<Rightarrow> render_context \<Rightarrow>
   session \<Rightarrow> (http_error + alert_event list) \<times> session" where
  "trigger_alert telegram bv now c oid mid context_vars s =
     (case get_template (al_templates (ss_work s)) c of
        None \<Rightarrow> (Inr [], s)
      | Some t \<Rightarrow>
          if \<not> tp_enabled t then (Inr [], s)
          else
            (let ctx = alert_context (ss_work s) oid mid context_vars;
                 title = render_template (tp_title_template t) (tp_allowed_vars t) ctx;
                 body = opt_text (render_template (or_kept (tp_body_template t) []) (tp_allowed_vars t) ctx);
                 rules = filter (\<lambda>r. ar_template_code r = c \<and> ar_enabled r) (al_rules (ss_work s))
             in if rules = [] then (Inr [], s)
                else case trigger_rules telegram bv now (ss_rollbacks s) t oid mid title body ctx rules [] s of
                    (Inl e, s') \<Rightarrow> (Inl e, s')
                  | (Inr evs, s') \<Rightarrow>
                      (case commit s' of
                         None \<Rightarrow> (Inl internal_error, rollback s')
                       | Some s'' \<Rightarrow> (Inr evs, s''))))"

subsection \<open>Who is told\<close>

lemma dedup_users_set:
  "u \<in> set (dedup_users seen us) \<Longrightarrow> u \<in> set us \<and> u_id u \<notin> set seen"
  by (induction seen us rule: dedup_users.induct) (auto split: if_splits)

lemma dedup_users_ids: "u_id ` set (dedup_users seen us) = u_id ` set us - set seen"
  by (induction seen us rule: dedup_users.induct) auto

lemma dedup_users_distinct: "distinct (map u_id (dedup_users seen us))"
  by (induction seen us rule: dedup_users.induct) (auto dest: dedup_users_set)

lemma dedup_users_mem:
  assumes "inj_on u_id (set us)"
  shows "set (dedup_users [] us) = set us"
proof
  show "set (dedup_users [] us) \<subseteq> set us" by (auto dest: dedup_users_set)
  show "set us \<subseteq> set (dedup_users [] us)"
  proof
    fix u
    assume u: "u \<in> set us"
    then obtain v where "v \<in> set (dedup_users [] us)" "u_id v = u_id u"
      using dedup_users_ids [of "[]" us] by (metis Diff_empty empty_set image_iff)
    then show "u \<in> set (dedup_users [] us)" using u assms by (metis dedup_users_set inj_onD)
  qed
qed

lemma alert_recipients_users: "set (alert_recipients db t ids) \<subseteq> set (al_users db)"
  by (auto simp: alert_recipients_def Let_def dest!: dedup_users_set)

text \<open>An alert goes to exactly the active super administrators and the active administrators of
  the organisations in scope who have not opted out of the template, each once; opting out has no
  effect for super administrators.\<close>

theorem alert_recipients_exact:
  assumes "distinct (map u_id (al_users db))" and "ids \<noteq> []"
  shows "distinct (map u_id (alert_recipients db t ids)) \<and>
     (u \<in> set (alert_recipients db t ids) \<longleftrightarrow>
        u \<in> set (al_users db) \<and> u_is_active u \<and>
        (u_role u \<in> super_admin_roles \<or>
         u_role u \<in> org_admin_roles \<and> u_org_id u \<in> set ids \<and> \<not> opted_out db t u))"
proof
  show "distinct (map u_id (alert_recipients db t ids))"
    by (simp add: alert_recipients_def Let_def dedup_users_distinct)
  let ?all = "filter (\<lambda>u. \<not> opted_out db t u)
      (filter (\<lambda>u. u_is_active u \<and> u_role u \<in> org_admin_roles \<and> u_org_id u \<in> set ids) (al_users db)) @
      filter (\<lambda>u. u_is_active u \<and> u_role u \<in> super_admin_roles) (al_users db)"
  have "inj_on u_id (set (al_users db))" using assms(1) by (simp add: distinct_map)
  moreover have "set ?all \<subseteq> set (al_users db)" by auto
  ultimately have inj: "inj_on u_id (set ?all)" by (rule inj_on_subset)
  have eq: "alert_recipients db t ids = dedup_users [] ?all" using assms(2) by (simp add: alert_recipients_def)
  show "u \<in> set (alert_recipients db t ids) \<longleftrightarrow>
      u \<in> set (al_users db) \<and> u_is_active u \<and>
      (u_role u \<in> super_admin_roles \<or>
       u_role u \<in> org_admin_roles \<and> u_org_id u \<in> set ids \<and> \<not> opted_out db t u)"
    unfolding eq dedup_users_mem [OF inj] by auto
qed

lemma alert_recipients_exact_witness:
  "sample_user\<lparr>u_id := 2, u_email := ''b@x'', u_role := SUPER_ADMIN\<rparr> \<in> set (alert_recipients sample_alert_db sample_template [77]) \<and>
   sample_user \<notin> set (alert_recipients sample_alert_db sample_template [77]) \<and>
   sample_user \<in> set (alert_recipients sample_alert_db sample_template [10])"
proof -
  have d: "distinct (map u_id (al_users sample_alert_db))" by (simp add: sample_alert_db_def sample_user_def)
  show ?thesis
    using alert_recipients_exact [OF d, of "[77]" sample_template] alert_recipients_exact [OF d, of "[10]" sample_template]
    by (simp add: sample_alert_db_def sample_user_def super_admin_roles_def org_admin_roles_def opted_out_def get_pref_def)
qed

subsection \<open>One delivery\<close>

definition alert_key :: "nat \<Rightarrow> string" where
  "alert_key i = ''alert-event:'' @ digits_of i @ '':all''"

lemma alert_key_inject: "alert_key i = alert_key j \<longleftrightarrow> i = j"
  unfolding alert_key_def by (metis append_same_eq read_digits_of same_append_eq)

text \<open>The keys of events that are still to come are unused.\<close>

definition keys_fresh :: "nat \<Rightarrow> alert_db \<Rightarrow> bool" where
  "keys_fresh k db \<longleftrightarrow> (\<forall>n\<in>set (al_notifs db). \<forall>i\<ge>k. nt_idempotency_key n \<noteq> Some (alert_key i))"

lemma keys_fresh_mono: "keys_fresh k db \<Longrightarrow> k \<le> k' \<Longrightarrow> keys_fresh k' db"
  by (auto simp: keys_fresh_def)

lemma keys_fresh_with_key: "keys_fresh k db \<Longrightarrow> k \<le> i \<Longrightarrow> with_key (Some (alert_key i)) db = []"
  by (auto simp: keys_fresh_def with_key_def filter_empty_conv)

lemma alert_spec_key: "ns_idempotency_key (alert_spec ev) = Some (alert_key (ae_id ev))"
  by (simp add: alert_spec_def alert_key_def)

lemma alert_key_truthy [simp]: "truthy (Some (alert_key i))" "alert_key i \<noteq> []"
  by (simp_all add: alert_key_def)

lemma deliver_alert_one:
  assumes ok: "constraints_ok (ss_work s)" and u: "recipients = [u]" "u \<in> set (al_users (ss_work s))"
    and fresh: "keys_fresh (ae_id ev) (ss_work s)"
  shows "\<exists>ns s'. deliver_alert telegram bv now ev recipients s = (Inr ns, s') \<and> map nt_recipient_id ns = [u_id u] \<and>
     clean s' \<and> same_but_deliveries ((ss_work s)\<lparr>al_notifs := al_notifs (ss_work s) @ ns\<rparr>) (ss_work s') \<and>
     (\<forall>n\<in>set ns. nt_idempotency_key n = Some (alert_key (ae_id ev))) \<and>
     ss_rollbacks s' = ss_rollbacks s \<and> ss_machine_events s' = ss_machine_events s \<and> ss_supply s \<le> ss_supply s'"
proof -
  let ?ns = "notification_rows now (alert_spec ev) (ss_supply s) [u_id u]"
  have fits: "constraints_ok ((ss_work s)\<lparr>al_notifs := al_notifs (ss_work s) @ ?ns\<rparr>)"
    using constraints_ok_rows [OF ok, of "[u_id u]" "alert_spec ev"] u fresh
    by (auto simp: alert_spec_key keys_fresh_with_key)
  have new: "\<not> (truthy (ns_idempotency_key (alert_spec ev)) \<and> with_key (ns_idempotency_key (alert_spec ev)) (ss_work s) \<noteq> [])"
    using fresh by (simp add: alert_spec_key keys_fresh_with_key)
  have "\<forall>n\<in>set ?ns. nt_idempotency_key n = Some (alert_key (ae_id ev))"
    by (simp add: notification_rows_def notification_row_def alert_spec_key)
  then show ?thesis
    using create_notification_stores [OF _ new fits, of telegram bv] notification_rows_props(2) [of now "alert_spec ev" _ "[u_id u]"] u(1)
    unfolding deliver_alert_def by force
qed

lemma deliver_alert_many:
  assumes ok: "constraints_ok (ss_work s)" and two: "2 \<le> length recipients"
    and us: "set recipients \<subseteq> set (al_users (ss_work s))"
    and fresh: "keys_fresh (ae_id ev) (ss_work s)" "keys_fresh (ae_id ev) (ss_committed s)"
  shows "deliver_alert telegram bv now ev recipients s =
     (Inr [], s\<lparr>ss_work := ss_committed s, ss_rollbacks := Suc (ss_rollbacks s), ss_supply := ss_supply s + length recipients\<rparr>)"
proof -
  have ids: "set (map u_id recipients) \<subseteq> u_id ` set (al_users (ss_work s))" using us by auto
  have bad: "\<not> constraints_ok ((ss_work s)\<lparr>al_notifs := al_notifs (ss_work s) @
      notification_rows now (alert_spec ev) (ss_supply s) (map u_id recipients)\<rparr>)"
    using constraints_ok_rows [OF ok ids, of "alert_spec ev"] two fresh by (simp add: alert_spec_key keys_fresh_with_key)
  show ?thesis
    using create_notification_dropped [OF _ _ _ bad, of telegram bv] two fresh
    by (auto simp: deliver_alert_def alert_spec_key keys_fresh_with_key)
qed

definition alert_texts :: "alert_db \<Rightarrow> alert_template \<Rightarrow> uuid option \<Rightarrow> uuid option \<Rightarrow> render_context \<Rightarrow>
    string \<times> string option \<times> render_context" where
  "alert_texts db t oid mid vars =
     (let ctx = alert_context db oid mid vars
      in (render_template (tp_title_template t) (tp_allowed_vars t) ctx,
          opt_text (render_template (or_kept (tp_body_template t) []) (tp_allowed_vars t) ctx), ctx))"

text \<open>One subscription that concerns the trigger and has not fired for it today.\<close>

definition fires_once :: "session \<Rightarrow> time \<Rightarrow> string \<Rightarrow> uuid option \<Rightarrow> uuid option \<Rightarrow> alert_template \<Rightarrow> alert_rule \<Rightarrow>
    uuid list \<Rightarrow> bool" where
  "fires_once s now c oid mid t r ids \<longleftrightarrow>
     get_template (al_templates (ss_work s)) c = Some t \<and> tp_enabled t \<and>
     filter (\<lambda>r. ar_template_code r = c \<and> ar_enabled r) (al_rules (ss_work s)) = [r] \<and>
     rule_scope (ss_work s) r oid = Some ids \<and>
     \<not> list_ex (is_dup (ar_id r) mid (alert_fingerprint now (ar_id r) mid (tp_code t))) (al_events (ss_work s))"

definition session_ok :: "session \<Rightarrow> bool" where
  "session_ok s \<longleftrightarrow> constraints_ok (ss_work s) \<and> constraints_ok (ss_committed s) \<and>
     keys_fresh (ss_supply s) (ss_work s) \<and> keys_fresh (ss_supply s) (ss_committed s)"

definition the_event :: "session \<Rightarrow> time \<Rightarrow> uuid option \<Rightarrow> uuid option \<Rightarrow> render_context \<Rightarrow> alert_template \<Rightarrow> alert_rule \<Rightarrow>
    uuid list \<Rightarrow> alert_event" where
  "the_event s now oid mid vars t r ids =
     (case alert_texts (ss_work s) t oid mid vars of (title, body, ctx) \<Rightarrow>
        new_event now r t oid mid title body ctx (alert_recipients (ss_work s) t ids) (ss_supply s))"

lemma the_event_id [simp]: "ae_id (the_event s now oid mid vars t r ids) = ss_supply s"
  by (simp add: the_event_def alert_texts_def new_event_def Let_def)

text \<open>A trigger with one firing subscription is one delivery.\<close>

lemma trigger_alert_fires:
  fixes vars :: render_context
  assumes "fires_once s now c oid mid t r ids"
  defines "ev \<equiv> the_event s now oid mid vars t r ids"
  shows "trigger_alert telegram bv now c oid mid vars s =
     (case deliver_alert telegram bv now ev (alert_recipients (ss_work s) t ids)
             (modify (\<lambda>db. db\<lparr>al_events := insert_row ev (al_events db)\<rparr>) (s\<lparr>ss_supply := Suc (ss_supply s)\<rparr>)) of
        (Inl e, s2) \<Rightarrow> (Inl e, s2)
      | (Inr ns, s2) \<Rightarrow> (case commit s2 of None \<Rightarrow> (Inl internal_error, rollback s2) | Some s3 \<Rightarrow> (Inr [ev], s3)))"
proof -
  define ctx where "ctx = alert_context (ss_work s) oid mid vars"
  define title where "title = render_template (tp_title_template t) (tp_allowed_vars t) ctx"
  define body where "body = opt_text (render_template (or_kept (tp_body_template t) []) (tp_allowed_vars t) ctx)"
  have ev: "ev = new_event now r t oid mid title body ctx (alert_recipients (ss_work s) t ids) (ss_supply s)"
    by (simp add: ev_def the_event_def alert_texts_def ctx_def title_def body_def Let_def)
  have rules: "trigger_rules telegram bv now (ss_rollbacks s) t oid mid title body ctx [r] [] s =
      (case deliver_alert telegram bv now ev (alert_recipients (ss_work s) t ids)
             (modify (\<lambda>db. db\<lparr>al_events := insert_row ev (al_events db)\<rparr>) (s\<lparr>ss_supply := Suc (ss_supply s)\<rparr>)) of
        (Inl e, s2) \<Rightarrow> (Inl e, s2) | (Inr ns, s2) \<Rightarrow> (Inr [ev], s2))"
    using assms(1) unfolding fires_once_def by (simp add: ev [symmetric] Let_def split: prod.splits sum.splits)
  have "trigger_alert telegram bv now c oid mid vars s =
      (case trigger_rules telegram bv now (ss_rollbacks s) t oid mid title body ctx [r] [] s of
          (Inl e, s') \<Rightarrow> (Inl e, s')
        | (Inr evs, s') \<Rightarrow> (case commit s' of None \<Rightarrow> (Inl internal_error, rollback s') | Some s'' \<Rightarrow> (Inr evs, s'')))"
    using assms(1) by (simp add: fires_once_def trigger_alert_def ctx_def title_def body_def Let_def del: trigger_rules.simps)
  then show ?thesis unfolding rules by (auto split: prod.splits sum.splits)
qed

lemma new_event_session:
  fixes ev :: alert_event
  assumes "session_ok s"
  defines "s1 \<equiv> modify (\<lambda>db. db\<lparr>al_events := insert_row ev (al_events db)\<rparr>) (s\<lparr>ss_supply := Suc (ss_supply s)\<rparr>)"
  shows "constraints_ok (ss_work s1)" "keys_fresh (ss_supply s) (ss_work s1)" "keys_fresh (ss_supply s) (ss_committed s1)"
    "ss_committed s1 = ss_committed s" "al_users (ss_work s1) = al_users (ss_work s)"
    "al_events (ss_work s1) = al_events (ss_work s) @ [ev]" "al_machines (ss_work s1) = al_machines (ss_work s)"
    "ss_rollbacks s1 = ss_rollbacks s" "ss_machine_events s1 = ss_machine_events s"
  using assms by (simp_all add: session_ok_def modify_def constraints_ok_def keys_fresh_def insert_row_def)

lemma trigger_alert_single:
  fixes vars :: render_context
  assumes ok: "session_ok s" and f: "fires_once s now c oid mid t r ids"
    and few: "length (alert_recipients (ss_work s) t ids) \<le> 1"
  defines "ev \<equiv> the_event s now oid mid vars t r ids"
  shows "\<exists>s'. trigger_alert telegram bv now c oid mid vars s = (Inr [ev], s') \<and> clean s' \<and>
     al_events (ss_committed s') = al_events (ss_work s) @ [ev] \<and>
     al_machines (ss_committed s') = al_machines (ss_work s) \<and> ss_rollbacks s' = ss_rollbacks s \<and>
     (\<exists>ns. al_notifs (ss_committed s') = al_notifs (ss_work s) @ ns \<and>
        map nt_recipient_id ns = map u_id (alert_recipients (ss_work s) t ids))"
proof -
  let ?s1 = "modify (\<lambda>db. db\<lparr>al_events := insert_row ev (al_events db)\<rparr>) (s\<lparr>ss_supply := Suc (ss_supply s)\<rparr>)"
  note s1 = new_event_session [OF ok, of ev]
  note fires = trigger_alert_fires [OF f, of telegram bv vars, folded ev_def]
  have notifs: "al_notifs (ss_work ?s1) = al_notifs (ss_work s)" by (simp add: modify_def)
  have id: "ae_id ev = ss_supply s" by (simp add: ev_def)
  show ?thesis
  proof (cases "alert_recipients (ss_work s) t ids")
    case Nil
    have "commit ?s1 = Some (?s1\<lparr>ss_committed := ss_work ?s1\<rparr>)" using s1(1) by (simp add: commit_def)
    then have "trigger_alert telegram bv now c oid mid vars s = (Inr [ev], ?s1\<lparr>ss_committed := ss_work ?s1\<rparr>)"
      using fires Nil by (simp add: deliver_alert_def)
    then show ?thesis using s1 Nil notifs by (auto simp: clean_def)
  next
    case (Cons u us)
    then have u: "alert_recipients (ss_work s) t ids = [u]" using few by (cases us) simp_all
    then have mem: "u \<in> set (al_users (ss_work ?s1))" using alert_recipients_users [of "ss_work s" t ids] s1(5) by simp
    obtain ns s2 where d: "deliver_alert telegram bv now ev [u] ?s1 = (Inr ns, s2)" "map nt_recipient_id ns = [u_id u]"
      "clean s2" "same_but_deliveries ((ss_work ?s1)\<lparr>al_notifs := al_notifs (ss_work ?s1) @ ns\<rparr>) (ss_work s2)"
      "ss_rollbacks s2 = ss_rollbacks ?s1"
      using deliver_alert_one [OF s1(1) refl mem, of ev telegram bv now] s1(2) id by fastforce
    have "constraints_ok (ss_work s2)" using d(3) unfolding clean_def by blast
    then have c: "commit s2 = Some (s2\<lparr>ss_committed := ss_work s2\<rparr>)" by (simp add: commit_def)
    have "trigger_alert telegram bv now c oid mid vars s = (Inr [ev], s2\<lparr>ss_committed := ss_work s2\<rparr>)"
      using fires u d(1) c by simp
    moreover have "clean (s2\<lparr>ss_committed := ss_work s2\<rparr>)" using d(3) by (auto simp: clean_def)
    ultimately show ?thesis
      using same_but_deliveries_sel [OF d(4)] s1 notifs u d(2,5) by auto
  qed
qed

lemma trigger_alert_many:
  assumes ok: "session_ok s" and f: "fires_once s now c oid mid t r ids"
    and many: "2 \<le> length (alert_recipients (ss_work s) t ids)"
  shows "\<exists>s'. trigger_alert telegram bv now c oid mid vars s = (Inr [the_event s now oid mid vars t r ids], s') \<and>
     ss_committed s' = ss_committed s \<and> ss_work s' = ss_committed s \<and> ss_rollbacks s' = Suc (ss_rollbacks s) \<and>
     ss_machine_events s' = ss_machine_events s"
proof -
  let ?ev = "the_event s now oid mid vars t r ids"
  let ?s1 = "modify (\<lambda>db. db\<lparr>al_events := insert_row ?ev (al_events db)\<rparr>) (s\<lparr>ss_supply := Suc (ss_supply s)\<rparr>)"
  note s1 = new_event_session [OF ok, of ?ev]
  have us: "set (alert_recipients (ss_work s) t ids) \<subseteq> set (al_users (ss_work ?s1))"
    using alert_recipients_users s1(5) by simp
  have fr: "keys_fresh (ae_id ?ev) (ss_work ?s1)" "keys_fresh (ae_id ?ev) (ss_committed ?s1)" using s1(2,3) by simp_all
  have "constraints_ok (ss_committed s)" using ok by (simp add: session_ok_def)
  then show ?thesis
    using trigger_alert_fires [OF f, of telegram bv vars] deliver_alert_many [OF s1(1) many us fr, of telegram bv now] s1
    by (simp add: commit_def)
qed

subsection \<open>What a part of the session can become\<close>

text \<open>
  Operations that do not write a part of the database leave in it what it held before or what was
  committed, and what it held before when nothing was rolled back.
\<close>

definition within_versions :: "(alert_db \<Rightarrow> 'a) \<Rightarrow> session \<Rightarrow> session \<Rightarrow> bool" where
  "within_versions f s s' \<longleftrightarrow> ss_rollbacks s \<le> ss_rollbacks s' \<and>
     f (ss_work s') \<in> {f (ss_work s), f (ss_committed s)} \<and>
     f (ss_committed s') \<in> {f (ss_work s), f (ss_committed s)} \<and>
     (ss_rollbacks s' = ss_rollbacks s \<longrightarrow> f (ss_work s') = f (ss_work s))"

lemma within_versions_refl [simp]: "within_versions f s s"
  by (simp add: within_versions_def)

lemma within_versions_trans: "within_versions f a b \<Longrightarrow> within_versions f b c \<Longrightarrow> within_versions f a c"
  by (auto simp: within_versions_def)

lemma within_versions_commit: "commit s = Some s' \<Longrightarrow> within_versions f s s'"
  by (auto simp: commit_def within_versions_def split: if_splits)

lemma within_versions_rollback: "within_versions f s (rollback s)"
  by (simp add: rollback_def within_versions_def)

lemma within_versions_commit_plain: "within_versions f s (commit_plain s)"
  by (auto simp: commit_plain_def within_versions_rollback intro: within_versions_commit split: option.splits)

lemma within_versions_modify: "f (g (ss_work s)) = f (ss_work s) \<Longrightarrow> within_versions f s (modify g s)"
  by (simp add: modify_def within_versions_def)

lemma within_versions_out:
  "within_versions f s (s\<lparr>ss_supply := n\<rparr>)" "within_versions f s (s\<lparr>ss_telegrams := t\<rparr>)"
  "within_versions f s (publish_realtime ns s)"
  by (simp_all add: within_versions_def publish_realtime_def)

lemma within_versions_steps:
  "within_versions f s a \<Longrightarrow> (\<And>db. f (h db) = f db) \<Longrightarrow> within_versions f s (commit_plain (modify h a))"
  "within_versions f s a \<Longrightarrow> within_versions f s (a\<lparr>ss_telegrams := tg\<rparr>)"
  "within_versions f s a \<Longrightarrow> within_versions f s (a\<lparr>ss_supply := n\<rparr>)"
proof -
  assume a: "within_versions f s a" and h: "\<And>db. f (h db) = f db"
  have "within_versions f a (modify h a)" using h by (rule within_versions_modify)
  with a show "within_versions f s (commit_plain (modify h a))"
    using within_versions_trans within_versions_commit_plain by blast
qed (simp_all add: within_versions_def)

lemma maybe_deliver_within:
  assumes f: "\<And>db ds. f (db\<lparr>al_deliveries := ds\<rparr>) = f db"
  shows "within_versions f s (maybe_deliver_telegram telegram bv now n s)"
proof (cases "find (\<lambda>u. u_id u = nt_recipient_id n) (al_users (ss_work s))")
  case None
  then show ?thesis by (simp add: maybe_deliver_telegram_def)
next
  case (Some u)
  show ?thesis
    unfolding maybe_deliver_telegram_def Let_def Some option.case
    by (split if_split, intro conjI impI within_versions_refl, split if_split,
        intro conjI impI within_versions_refl within_versions_steps f)
qed

lemma create_notification_within:
  assumes f: "\<And>db ds. f (db\<lparr>al_deliveries := ds\<rparr>) = f db" "\<And>db ns. f (db\<lparr>al_notifs := ns\<rparr>) = f db"
  shows "within_versions f s (snd (create_notification telegram bv now rids p s))"
proof -
  have fold: "within_versions f a (fold (maybe_deliver_telegram telegram bv now) ns a)" for a ns
    by (induction ns arbitrary: a) (auto intro: within_versions_trans maybe_deliver_within [OF f(1)])
  let ?s1 = "modify (\<lambda>db. db\<lparr>al_notifs := al_notifs db @ notification_rows now p (ss_supply s) rids\<rparr>)
    (s\<lparr>ss_supply := ss_supply s + length rids\<rparr>)"
  have s1: "within_versions f s ?s1"
    by (rule within_versions_trans [OF within_versions_out(1) within_versions_modify]) (rule f(2))
  show ?thesis
  proof (cases "commit ?s1")
    case None
    then show ?thesis
      using within_versions_trans [OF s1 within_versions_rollback] by (simp add: create_notification_def Let_def)
  next
    case (Some s2)
    have s2: "within_versions f s s2" by (rule within_versions_trans [OF s1 within_versions_commit [OF Some]])
    have "within_versions f s (fold (maybe_deliver_telegram telegram bv now) ns (publish_realtime ns s2))" for ns
      by (rule within_versions_trans [OF within_versions_trans [OF s2 within_versions_out(3)] fold])
    with Some show ?thesis by (simp add: create_notification_def Let_def)
  qed
qed

lemma deliver_alert_within:
  assumes "\<And>db ds. f (db\<lparr>al_deliveries := ds\<rparr>) = f db" "\<And>db ns. f (db\<lparr>al_notifs := ns\<rparr>) = f db"
  shows "within_versions f s (snd (deliver_alert telegram bv now ev recipients s))"
  using create_notification_within [OF assms] by (simp add: deliver_alert_def)

lemma trigger_rules_within:
  assumes f: "\<And>db ds. f (db\<lparr>al_deliveries := ds\<rparr>) = f db" "\<And>db ns. f (db\<lparr>al_notifs := ns\<rparr>) = f db"
    "\<And>db es. f (db\<lparr>al_events := es\<rparr>) = f db"
  shows "within_versions f s (snd (trigger_rules telegram bv now epoch t oid mid title body ctx rs evs s))"
proof (induction rs arbitrary: evs s)
  case (Cons r rs)
  show ?case
  proof (cases "ss_rollbacks s \<noteq> epoch \<or> rule_scope (ss_work s) r oid = None \<or>
      list_ex (is_dup (ar_id r) mid (alert_fingerprint now (ar_id r) mid (tp_code t))) (al_events (ss_work s))")
    case True
    with Cons show ?thesis by (auto split: option.splits)
  next
    case False
    then obtain ids where ids: "rule_scope (ss_work s) r oid = Some ids" by auto
    let ?rcp = "alert_recipients (ss_work s) t ids"
    let ?ev = "new_event now r t oid mid title body ctx ?rcp (ss_supply s)"
    let ?s1 = "modify (\<lambda>db. db\<lparr>al_events := insert_row ?ev (al_events db)\<rparr>) (s\<lparr>ss_supply := Suc (ss_supply s)\<rparr>)"
    have s1: "within_versions f s ?s1"
      by (rule within_versions_trans [OF within_versions_out(1) within_versions_modify]) (rule f(3))
    obtain res s2 where d: "deliver_alert telegram bv now ?ev ?rcp ?s1 = (res, s2)" by fastforce
    have "within_versions f s (snd (deliver_alert telegram bv now ?ev ?rcp ?s1))"
      by (rule within_versions_trans [OF s1 deliver_alert_within [OF f(1,2)]])
    then have s2: "within_versions f s s2" by (simp only: d snd_conv)
    show ?thesis
    proof (cases res)
      case (Inl e)
      with d s2 False ids show ?thesis by (simp add: Let_def)
    next
      case (Inr ns)
      then show ?thesis using d s2 False ids within_versions_trans [OF s2 Cons.IH] by (simp add: Let_def)
    qed
  qed
qed simp

lemma trigger_alert_within:
  assumes f: "\<And>db ds. f (db\<lparr>al_deliveries := ds\<rparr>) = f db" "\<And>db ns. f (db\<lparr>al_notifs := ns\<rparr>) = f db"
    "\<And>db es. f (db\<lparr>al_events := es\<rparr>) = f db"
  shows "within_versions f s (snd (trigger_alert telegram bv now c oid mid vars s))"
proof -
  have "within_versions f s (snd (case trigger_rules telegram bv now ep t oid mid title body ctx rs [] s of
        (Inl e, s') \<Rightarrow> (Inl e, s')
      | (Inr evs, s') \<Rightarrow> (case commit s' of None \<Rightarrow> (Inl internal_error, rollback s') | Some s'' \<Rightarrow> (Inr evs, s''))))"
    for ep t title body ctx rs
  proof -
    obtain res s1 where r: "trigger_rules telegram bv now ep t oid mid title body ctx rs [] s = (res, s1)" by fastforce
    have "within_versions f s (snd (trigger_rules telegram bv now ep t oid mid title body ctx rs [] s))"
      by (rule trigger_rules_within [OF f])
    then have s1: "within_versions f s s1" by (simp only: r snd_conv)
    show ?thesis
    proof (cases res)
      case (Inr evs)
      then show ?thesis
        using r within_versions_trans [OF s1 within_versions_rollback] within_versions_trans [OF s1 within_versions_commit]
        by (cases "commit s1") simp_all
    qed (use r s1 in simp)
  qed
  then show ?thesis unfolding trigger_alert_def Let_def by (simp split: option.splits)
qed

subsection \<open>One alert per subscription, machine and day\<close>

definition event_key :: "alert_event \<Rightarrow> uuid \<times> uuid option \<times> string" where
  "event_key ev = (ae_rule_id ev, ae_machine_id ev, ae_fingerprint ev)"

definition events_ok :: "alert_db \<Rightarrow> bool" where
  "events_ok db \<longleftrightarrow> distinct (map event_key (al_events db))"

definition both_ok :: "session \<Rightarrow> bool" where
  "both_ok s \<longleftrightarrow> events_ok (ss_work s) \<and> events_ok (ss_committed s)"

lemma within_versions_both_ok: "within_versions al_events s s' \<Longrightarrow> both_ok s \<Longrightarrow> both_ok s'"
  by (auto simp: within_versions_def both_ok_def events_ok_def)

lemma trigger_rules_events:
  "both_ok s \<Longrightarrow> both_ok (snd (trigger_rules telegram bv now epoch t oid mid title body ctx rs evs s))"
proof (induction rs arbitrary: evs s)
  case (Cons r rs)
  let ?fp = "alert_fingerprint now (ar_id r) mid (tp_code t)"
  show ?case
  proof (cases "ss_rollbacks s \<noteq> epoch \<or> rule_scope (ss_work s) r oid = None \<or>
      list_ex (is_dup (ar_id r) mid ?fp) (al_events (ss_work s))")
    case True
    with Cons show ?thesis by (auto split: option.splits)
  next
    case False
    then obtain ids where ids: "rule_scope (ss_work s) r oid = Some ids" by auto
    let ?rcp = "alert_recipients (ss_work s) t ids"
    let ?ev = "new_event now r t oid mid title body ctx ?rcp (ss_supply s)"
    let ?s1 = "modify (\<lambda>db. db\<lparr>al_events := insert_row ?ev (al_events db)\<rparr>) (s\<lparr>ss_supply := Suc (ss_supply s)\<rparr>)"
    have "event_key ?ev \<notin> event_key ` set (al_events (ss_work s))"
      using False by (auto simp: list_ex_iff is_dup_def event_key_def new_event_def)
    then have "both_ok ?s1"
      using Cons.prems by (simp add: both_ok_def events_ok_def modify_def insert_row_def)
    then have ok2: "both_ok (snd (deliver_alert telegram bv now ?ev ?rcp ?s1))"
      using within_versions_both_ok [OF deliver_alert_within] by simp
    obtain res s2 where d: "deliver_alert telegram bv now ?ev ?rcp ?s1 = (res, s2)" by fastforce
    show ?thesis
    proof (cases res)
      case (Inl e)
      with d ok2 False ids show ?thesis by (simp add: Let_def)
    next
      case (Inr ns)
      have "both_ok s2" using d ok2 by simp
      then show ?thesis using d Inr False ids Cons.IH [of s2] by (simp add: Let_def)
    qed
  qed
qed simp

lemma trigger_alert_events: "both_ok s \<Longrightarrow> both_ok (snd (trigger_alert telegram bv now c oid mid vars s))"
proof -
  assume ok: "both_ok s"
  have "both_ok (snd (case trigger_rules telegram bv now ep t oid mid title body ctx rs [] s of
        (Inl e, s') \<Rightarrow> (Inl e, s')
      | (Inr evs, s') \<Rightarrow> (case commit s' of None \<Rightarrow> (Inl internal_error, rollback s') | Some s'' \<Rightarrow> (Inr evs, s''))))"
    for ep t title body ctx rs
    using trigger_rules_events [OF ok, of telegram bv now ep t oid mid title body ctx rs "[]"]
    by (auto split: prod.splits sum.splits option.splits
        intro: within_versions_both_ok within_versions_commit within_versions_rollback)
  then show ?thesis using ok unfolding trigger_alert_def Let_def by (simp split: option.splits)
qed

text \<open>The triggers of one process, each in the session it is given.\<close>

record trigger =
  tr_now :: time
  tr_code :: string
  tr_org :: "uuid option"
  tr_machine :: "uuid option"
  tr_vars :: render_context

definition run_trigger ::
  "(string \<Rightarrow> string \<Rightarrow> string \<Rightarrow> tg_reply) \<Rightarrow> bot_view \<Rightarrow> trigger \<Rightarrow> session \<Rightarrow> session" where
  "run_trigger telegram bv e s =
     snd (trigger_alert telegram bv (tr_now e) (tr_code e) (tr_org e) (tr_machine e) (tr_vars e) s)"

interpretation triggers: step_system "run_trigger telegram bv" "\<lambda>_ _. True" both_ok for telegram bv
  by unfold_locales (simp add: run_trigger_def trigger_alert_events)

lemma triggers_admissible: "triggers.admissible telegram bv es s"
  by (induction es arbitrary: s) simp_all

lemma distinct_key_filter: "distinct (map f xs) \<Longrightarrow> length (filter (\<lambda>x. f x = k) xs) \<le> 1"
  by (induction xs) (auto simp: filter_empty_conv image_iff)


definition sample_rule :: alert_rule where
  "sample_rule = \<lparr>ar_id = 7, ar_name = ''R'', ar_template_code = ''machine_offline'', ar_org_id = Some 10,
     ar_scope_mode = ''org_only'', ar_recipient_mode = ''org_admins'', ar_config = [], ar_enabled = True,
     ar_created_by = 2, ar_created_at = 0\<rparr>"

definition rule_session :: "user list \<Rightarrow> session" where
  "rule_session us =
     (let db = sample_alert_db\<lparr>al_users := us, al_rules := [sample_rule],
           al_templates := [sample_template\<lparr>tp_code := ''machine_offline'', tp_enabled := True\<rparr>]\<rparr>
      in sample_session\<lparr>ss_committed := db, ss_work := db\<rparr>)"


subsection \<open>What becomes of an alert\<close>

text \<open>A subscription that fires stores its event and one notification for its recipient when it has
  at most one; when it has several, their notifications carry the same unique key, the commit is
  refused, the whole session is rolled back and neither event nor notification is stored, although
  the trigger reports the event.\<close>

theorem alert_delivery_outcome:
  assumes "session_ok s" and "fires_once s now c oid mid t r ids"
  shows "\<exists>s'. trigger_alert telegram bv now c oid mid vars s = (Inr [the_event s now oid mid vars t r ids], s') \<and>
     (if length (alert_recipients (ss_work s) t ids) \<le> 1
      then al_events (ss_committed s') = al_events (ss_work s) @ [the_event s now oid mid vars t r ids] \<and>
        (\<exists>ns. al_notifs (ss_committed s') = al_notifs (ss_work s) @ ns \<and>
           map nt_recipient_id ns = map u_id (alert_recipients (ss_work s) t ids))
      else ss_committed s' = ss_committed s \<and> ss_work s' = ss_committed s)"
  using trigger_alert_single [OF assms, of telegram bv vars] trigger_alert_many [OF assms, of telegram bv vars]
  by (cases "length (alert_recipients (ss_work s) t ids) \<le> 1") auto

lemma alert_delivery_outcome_witness:
  "\<exists>s'. snd (trigger_alert (\<lambda>_ _ _. Tg_response 200 []) sample_view 0 ''machine_offline'' (Some 10) None []
        (rule_session [sample_user, sample_user\<lparr>u_id := 2\<rparr>])) = s' \<and> al_events (ss_committed s') = []"
proof -
  let ?s = "rule_session [sample_user, sample_user\<lparr>u_id := 2\<rparr>]"
  let ?t = "sample_template\<lparr>tp_code := ''machine_offline'', tp_enabled := True\<rparr>"
  have ok: "session_ok ?s"
    by (simp add: rule_session_def sample_session_def sample_alert_db_def session_ok_def constraints_ok_def
        keys_fresh_def Let_def List.map_filter_simps)
  have f: "fires_once ?s 0 ''machine_offline'' (Some 10) None ?t sample_rule [10]"
    by (simp add: fires_once_def rule_session_def sample_session_def sample_alert_db_def sample_rule_def Let_def
        get_template_def rule_scope_def scope_orgs_def)
  have two: "\<not> length (alert_recipients (ss_work ?s) ?t [10]) \<le> 1"
    by (simp add: alert_recipients_def rule_session_def sample_session_def sample_alert_db_def sample_user_def Let_def
        org_admin_roles_def super_admin_roles_def opted_out_def get_pref_def)
  show ?thesis
    using alert_delivery_outcome [OF ok f, of "\<lambda>_ _ _. Tg_response 200 []" sample_view "[]"] two
    by (auto simp: rule_session_def sample_session_def sample_alert_db_def Let_def)
qed

end
