(* ===== verification/Partition.thy ===== *)
theory Partition
  imports Datetime "HOL-Library.Multiset"
begin

text \<open>
  The daily partitions of the heartbeat table (\<open>services/partition.py\<close>). PostgreSQL routes
  an inserted row to the partition whose range holds its timestamp and to the default
  partition when there is none; it refuses a new partition whose range overlaps another
  one, whose name is taken, or that the default partition has rows of. These rules of the
  server are \<open>insert_heartbeat\<close> and \<open>create_partition\<close>; everything else is the module's code.
  The lemmas show that the maintenance run never meets a refusal, loses and duplicates no
  row, and leaves nothing to do for a second run.
\<close>

record heartbeat =
  hb_machine_id :: uuid
  hb_ts :: time
  hb_ip :: "string option"
  hb_logged_user :: "string option"
  hb_uptime_sec :: "int option"

record day_partition =
  pt_name :: string
  pt_lo :: int
  pt_hi :: int
  pt_rows :: "heartbeat list"

record heartbeat_store =
  hs_rooted :: bool  \<comment> \<open>heartbeats is a partitioned table\<close>
  hs_parts :: "day_partition list"
  hs_default :: "heartbeat list"
  hs_deferred :: "heartbeat list option"  \<comment> \<open>the table heartbeats_deferred\<close>
  hs_other_tables :: "string list"

datatype pg_error = DuplicateTable | OverlappingPartition | DefaultPartitionViolated

definition in_days :: "int \<Rightarrow> int \<Rightarrow> heartbeat \<Rightarrow> bool" where
  "in_days lo hi r \<longleftrightarrow> days lo \<le> hb_ts r \<and> hb_ts r < days hi"

subsection \<open>The rules of the database server\<close>

definition in_part :: "heartbeat \<Rightarrow> day_partition \<Rightarrow> bool" where
  "in_part r p = in_days (pt_lo p) (pt_hi p) r"

definition insert_heartbeat :: "heartbeat \<Rightarrow> heartbeat_store \<Rightarrow> heartbeat_store" where
  "insert_heartbeat r s =
     (if \<exists>p\<in>set (hs_parts s). in_part r p
      then s\<lparr>hs_parts := update_where (in_part r) (\<lambda>p. p\<lparr>pt_rows := insert_row r (pt_rows p)\<rparr>) (hs_parts s)\<rparr>
      else s\<lparr>hs_default := insert_row r (hs_default s)\<rparr>)"

definition table_exists :: "heartbeat_store \<Rightarrow> string \<Rightarrow> bool" where
  "table_exists s name \<longleftrightarrow>
     name \<in> pt_name ` set (hs_parts s) \<or> name \<in> set (hs_other_tables s) \<or>
     name = ''heartbeats_default'' \<or> name = ''heartbeats_deferred'' \<and> hs_deferred s \<noteq> None"

definition create_partition ::
  "string \<Rightarrow> int \<Rightarrow> int \<Rightarrow> heartbeat_store \<Rightarrow> pg_error + heartbeat_store" where
  "create_partition name lo hi s =
     (if table_exists s name then Inl DuplicateTable
      else if \<exists>p\<in>set (hs_parts s). lo < pt_hi p \<and> pt_lo p < hi then Inl OverlappingPartition
      else if \<exists>r\<in>set (hs_default s). in_days lo hi r then Inl DefaultPartitionViolated
      else Inr (s\<lparr>hs_parts := insert_row \<lparr>pt_name = name, pt_lo = lo, pt_hi = hi, pt_rows = []\<rparr> (hs_parts s)\<rparr>))"

subsection \<open>The maintenance run\<close>

definition partition_name :: "int \<Rightarrow> string" where
  "partition_name day = ''heartbeats_'' @ fmt_date [] day"

definition partition_exists :: "heartbeat_store \<Rightarrow> string \<Rightarrow> bool" where
  "partition_exists s name = table_exists s name"

definition stash_default_rows :: "int \<Rightarrow> int \<Rightarrow> heartbeat_store \<Rightarrow> bool \<times> heartbeat_store" where
  "stash_default_rows day next_day s =
     (let hit = filter (in_days day next_day) (hs_default s)
      in if hit = [] then (False, s)
         else (True, s\<lparr>hs_deferred := Some hit,
                       hs_default := delete_where (in_days day next_day) (hs_default s)\<rparr>))"

definition restore_deferred_rows :: "heartbeat_store \<Rightarrow> heartbeat_store" where
  "restore_deferred_rows s =
     (case hs_deferred s of
        None \<Rightarrow> s
      | Some rows \<Rightarrow> (fold insert_heartbeat rows s)\<lparr>hs_deferred := None\<rparr>)"

fun ensure_days :: "int list \<Rightarrow> string list \<Rightarrow> heartbeat_store \<Rightarrow> pg_error + (string list \<times> heartbeat_store)" where
  "ensure_days [] created s = Inr (created, s)"
| "ensure_days (day # ds) created s =
     (let next_day = day + 1; name = partition_name day
      in if partition_exists s name then ensure_days ds created s
         else case stash_default_rows day next_day s of (stashed, s1) \<Rightarrow>
           case create_partition name day next_day s1 of
             Inl e \<Rightarrow> Inl e
           | Inr s2 \<Rightarrow> ensure_days ds (created @ [name])
               (if stashed then restore_deferred_rows s2 else s2))"

definition ensure_heartbeat_partitions ::
  "int \<Rightarrow> nat \<Rightarrow> heartbeat_store \<Rightarrow> pg_error + (string list \<times> heartbeat_store)" where
  "ensure_heartbeat_partitions start days_ahead s =
     (if \<not> hs_rooted s then Inr ([], s)
      else ensure_days (map (\<lambda>i. start + int i) [0..<days_ahead]) [] s)"

text \<open>The job of the monitor (\<open>monitor._ensure_partitions\<close>): its transaction is committed only
  when partitions were created, an error rolls it back.\<close>

definition ensure_partitions_job :: "time \<Rightarrow> heartbeat_store \<Rightarrow> heartbeat_store" where
  "ensure_partitions_job now s =
     (if \<not> hs_rooted s then s
      else case ensure_heartbeat_partitions (day_of now) 7 s of
        Inl _ \<Rightarrow> s
      | Inr (created, s') \<Rightarrow> if created = [] then s else s')"

subsection \<open>Well-formed stores\<close>

definition hb_rows :: "heartbeat_store \<Rightarrow> heartbeat list" where
  "hb_rows s = hs_default s @ concat (map pt_rows (hs_parts s))"

definition part_ok :: "day_partition \<Rightarrow> bool" where
  "part_ok p \<longleftrightarrow> pt_name p = partition_name (pt_lo p) \<and> pt_hi p = pt_lo p + 1 \<and>
     date_ok (pt_lo p) \<and> (\<forall>r\<in>set (pt_rows p). in_part r p)"

definition parts_ok :: "day_partition list \<Rightarrow> bool" where
  "parts_ok ps \<longleftrightarrow> (\<forall>p\<in>set ps. part_ok p) \<and> distinct (map pt_lo ps)"

definition default_ok :: "heartbeat_store \<Rightarrow> bool" where
  "default_ok s \<longleftrightarrow> (\<forall>r\<in>set (hs_default s). day_of (hb_ts r) \<notin> pt_lo ` set (hs_parts s))"

definition store_ok :: "heartbeat_store \<Rightarrow> bool" where
  "store_ok s \<longleftrightarrow> parts_ok (hs_parts s) \<and> default_ok s \<and> hs_deferred s = None"

lemma in_days_day: "in_days d (d + 1) r \<longleftrightarrow> day_of (hb_ts r) = d"
  unfolding in_days_def day_of_def by auto

lemma in_part_day: "part_ok p \<Longrightarrow> in_part r p \<longleftrightarrow> day_of (hb_ts r) = pt_lo p"
  by (simp add: part_ok_def in_part_def in_days_day)

lemma parts_ok_names: "parts_ok ps \<Longrightarrow> p \<in> set ps \<Longrightarrow> date_ok d \<Longrightarrow>
    pt_name p = partition_name d \<Longrightarrow> pt_lo p = d"
  unfolding parts_ok_def part_ok_def partition_name_def by (auto dest: fmt_date_inject)

abbreviation add_to :: "heartbeat \<Rightarrow> day_partition \<Rightarrow> day_partition" where
  "add_to r \<equiv> \<lambda>p. p\<lparr>pt_rows := insert_row r (pt_rows p)\<rparr>"

interpretation add_lo: row_update pt_lo "add_to r"
  by unfold_locales simp

interpretation add_name: row_update pt_name "add_to r"
  by unfold_locales simp

lemma part_ok_add: "part_ok p \<Longrightarrow> in_part r p \<Longrightarrow> part_ok (add_to r p)"
  by (auto simp: part_ok_def in_part_def)

lemma insert_into_parts:
  assumes "parts_ok ps" and "\<exists>p\<in>set ps. in_part r p"
  shows "mset (concat (map pt_rows (update_where (in_part r) (add_to r) ps))) =
           add_mset r (mset (concat (map pt_rows ps)))"
  using assms
proof (induction ps)
  case (Cons p ps)
  have ok: "parts_ok ps" "part_ok p" and fresh: "pt_lo p \<notin> pt_lo ` set ps"
    using Cons.prems(1) by (simp_all add: parts_ok_def)
  show ?case
  proof (cases "in_part r p")
    case True
    have "\<not> in_part r q" if "q \<in> set ps" for q
      using True that ok fresh by (auto simp: parts_ok_def in_part_day)
    then have "update_where (in_part r) (add_to r) ps = ps" by (intro update_where_idle) blast
    then show ?thesis using True by (simp add: update_where_def insert_row_def)
  next
    case False
    with Cons ok show ?thesis by (simp add: update_where_def)
  qed
qed simp

lemma mset_insert_heartbeat:
  "parts_ok (hs_parts s) \<Longrightarrow> mset (hb_rows (insert_heartbeat r s)) = add_mset r (mset (hb_rows s))"
  using insert_into_parts [of "hs_parts s" r]
  by (simp add: insert_heartbeat_def hb_rows_def insert_row_def)

lemma insert_heartbeat_frame [simp]:
  "hs_rooted (insert_heartbeat r s) = hs_rooted s" "hs_deferred (insert_heartbeat r s) = hs_deferred s"
  "hs_other_tables (insert_heartbeat r s) = hs_other_tables s"
  "map pt_lo (hs_parts (insert_heartbeat r s)) = map pt_lo (hs_parts s)"
  "map pt_name (hs_parts (insert_heartbeat r s)) = map pt_name (hs_parts s)"
  by (simp_all add: insert_heartbeat_def add_lo.keys_update_where add_name.keys_update_where)

lemma insert_heartbeat_los [simp]:
  "pt_lo ` set (hs_parts (insert_heartbeat r s)) = pt_lo ` set (hs_parts s)"
  "pt_name ` set (hs_parts (insert_heartbeat r s)) = pt_name ` set (hs_parts s)"
  by (metis insert_heartbeat_frame(4,5) list.set_map)+

lemma parts_ok_insert: "parts_ok (hs_parts s) \<Longrightarrow> parts_ok (hs_parts (insert_heartbeat r s))"
  unfolding parts_ok_def insert_heartbeat_frame(4)
  by (auto simp: insert_heartbeat_def intro: part_ok_add elim!: update_whereE simp del: set_update_where)

lemma default_ok_insert:
  "parts_ok (hs_parts s) \<Longrightarrow> default_ok s \<Longrightarrow> default_ok (insert_heartbeat r s)"
  unfolding default_ok_def insert_heartbeat_los
  by (auto simp: insert_heartbeat_def parts_ok_def in_part_day)

lemma inserts_ok:
  "parts_ok (hs_parts s) \<Longrightarrow> default_ok s \<Longrightarrow>
     (let s' = fold insert_heartbeat rows s
      in parts_ok (hs_parts s') \<and> default_ok s' \<and> mset (hb_rows s') = mset rows + mset (hb_rows s) \<and>
         hs_rooted s' = hs_rooted s \<and> hs_other_tables s' = hs_other_tables s \<and>
         pt_name ` set (hs_parts s') = pt_name ` set (hs_parts s) \<and>
         pt_lo ` set (hs_parts s') = pt_lo ` set (hs_parts s))"
  by (induction rows arbitrary: s)
    (simp_all add: Let_def parts_ok_insert default_ok_insert mset_insert_heartbeat)

subsection \<open>One day of the maintenance run\<close>

definition same_rows :: "heartbeat_store \<Rightarrow> heartbeat_store \<Rightarrow> bool" where
  "same_rows s s' \<longleftrightarrow> mset (hb_rows s') = mset (hb_rows s) \<and> hs_rooted s' = hs_rooted s \<and>
     hs_other_tables s' = hs_other_tables s"

definition new_partition :: "int \<Rightarrow> day_partition" where
  "new_partition d = \<lparr>pt_name = partition_name d, pt_lo = d, pt_hi = d + 1, pt_rows = []\<rparr>"

lemma parts_ok_new:
  assumes "parts_ok ps" "date_ok d" "partition_name d \<notin> pt_name ` set ps"
  shows "parts_ok (insert_row (new_partition d) ps)"
proof -
  have "d \<notin> pt_lo ` set ps" using assms by (force simp: parts_ok_def part_ok_def)
  then show ?thesis
    using assms by (simp add: parts_ok_def part_ok_def insert_row_def new_partition_def)
qed

text \<open>Once the rows of the day are out of the default partition the server accepts the new one.\<close>

lemma create_partition_accepted:
  assumes "parts_ok (hs_parts s)" "\<not> table_exists s (partition_name d)"
    and "\<forall>r\<in>set (hs_default s). day_of (hb_ts r) \<noteq> d"
  shows "create_partition (partition_name d) d (d + 1) s =
           Inr (s\<lparr>hs_parts := insert_row (new_partition d) (hs_parts s)\<rparr>)"
proof -
  have "\<not> (d < pt_hi p \<and> pt_lo p < d + 1)" if "p \<in> set (hs_parts s)" for p
  proof
    assume "d < pt_hi p \<and> pt_lo p < d + 1"
    with that assms(1) have "pt_lo p = d" "pt_name p = partition_name (pt_lo p)"
      by (auto simp: parts_ok_def part_ok_def)
    with that assms(2) show False by (force simp: table_exists_def)
  qed
  then show ?thesis
    using assms(2,3) by (auto simp: create_partition_def in_days_day new_partition_def)
qed

lemma pad_to_digits: "c \<in> set (pad_to n i) \<Longrightarrow> is_digit c"
  using digits_of_digits by (auto simp: pad_to_def Let_def is_digit_def char_eval split: if_splits)

lemma partition_name_plain: "partition_name d \<noteq> ''heartbeats_deferred''"
proof
  assume "partition_name d = ''heartbeats_deferred''"
  then have "fmt_date [] d = ''deferred''" by (simp add: partition_name_def)
  then have "CHR ''d'' \<in> set (fmt_date [] d)" by simp
  then have "is_digit (CHR ''d'')"
    by (cases "civil d") (auto simp: fmt_date_def dest: pad_to_digits)
  then show False by (simp add: is_digit_def char_eval)
qed

definition day_step :: "int \<Rightarrow> heartbeat_store \<Rightarrow> heartbeat_store" where
  "day_step d s =
     (case stash_default_rows d (d + 1) s of (stashed, s1) \<Rightarrow>
       let s2 = s1\<lparr>hs_parts := insert_row (new_partition d) (hs_parts s1)\<rparr>
       in if stashed then restore_deferred_rows s2 else s2)"

lemma ensure_days_create:
  assumes "store_ok s" "\<not> partition_exists s (partition_name d)"
  shows "ensure_days (d # ds) created s = ensure_days ds (created @ [partition_name d]) (day_step d s)"
proof -
  obtain stashed s1 where s1: "stash_default_rows d (d + 1) s = (stashed, s1)" by fastforce
  have "hs_parts s1 = hs_parts s" "hs_other_tables s1 = hs_other_tables s"
    "\<forall>r\<in>set (hs_default s1). day_of (hb_ts r) \<noteq> d"
    using s1 by (auto simp: stash_default_rows_def Let_def filter_empty_conv in_days_day split: if_splits)
  then have "create_partition (partition_name d) d (d + 1) s1 =
      Inr (s1\<lparr>hs_parts := insert_row (new_partition d) (hs_parts s1)\<rparr>)"
    using assms partition_name_plain [of d]
    by (intro create_partition_accepted) (auto simp: store_ok_def partition_exists_def table_exists_def)
  then show ?thesis using assms(2) s1 by (simp add: day_step_def Let_def)
qed

lemma day_step_ok:
  assumes ok: "store_ok s" and d: "date_ok d" and new: "\<not> partition_exists s (partition_name d)"
  shows "store_ok (day_step d s) \<and> same_rows s (day_step d s) \<and>
     pt_lo ` set (hs_parts (day_step d s)) = insert d (pt_lo ` set (hs_parts s)) \<and>
     pt_name ` set (hs_parts (day_step d s)) = insert (partition_name d) (pt_name ` set (hs_parts s))"
proof -
  let ?hit = "filter (in_days d (d + 1)) (hs_default s)"
  let ?s1 = "s\<lparr>hs_default := delete_where (in_days d (d + 1)) (hs_default s)\<rparr>"
  let ?s2 = "?s1\<lparr>hs_parts := insert_row (new_partition d) (hs_parts s)\<rparr>"
  let ?s3 = "s\<lparr>hs_deferred := Some ?hit, hs_default := delete_where (in_days d (d + 1)) (hs_default s),
      hs_parts := insert_row (new_partition d) (hs_parts s)\<rparr>"
  let ?fill = "fold insert_heartbeat ?hit ?s3"
  have parts: "parts_ok (insert_row (new_partition d) (hs_parts s))"
    using ok d new by (intro parts_ok_new) (auto simp: store_ok_def partition_exists_def table_exists_def)
  have dflt: "default_ok ?s2"
    using ok by (auto simp: store_ok_def default_ok_def in_days_day new_partition_def)
  have idle: "delete_where (in_days d (d + 1)) (hs_default s) = hs_default s" if "?hit = []"
    using that by (auto simp: delete_where_def filter_empty_conv filter_id_conv)
  have rows: "mset ?hit + mset (hb_rows ?s2) = mset (hb_rows s)"
    by (simp add: hb_rows_def insert_row_def new_partition_def delete_where_def)
  have step: "day_step d s = (if ?hit = [] then ?s2 else ?fill\<lparr>hs_deferred := None\<rparr>)"
    using idle by (simp add: day_step_def stash_default_rows_def Let_def restore_deferred_rows_def)
  have "default_ok ?s3" using dflt by (simp add: default_ok_def)
  then have fill: "parts_ok (hs_parts ?fill)" "default_ok ?fill"
    "mset (hb_rows ?fill) = mset ?hit + mset (hb_rows ?s3)"
    "hs_rooted ?fill = hs_rooted s" "hs_other_tables ?fill = hs_other_tables s"
    "pt_name ` set (hs_parts ?fill) = pt_name ` set (hs_parts ?s2)"
    "pt_lo ` set (hs_parts ?fill) = pt_lo ` set (hs_parts ?s2)"
    using inserts_ok [of ?s3 ?hit] parts by (simp_all add: Let_def)
  show ?thesis
  proof (cases "?hit = []")
    case True
    then show ?thesis
      using step parts dflt rows ok
      by (simp add: store_ok_def same_rows_def default_ok_def new_partition_def)
  next
    case False
    have "store_ok (?fill\<lparr>hs_deferred := None\<rparr>)" using fill(1,2) by (simp add: store_ok_def default_ok_def)
    moreover have "same_rows s (?fill\<lparr>hs_deferred := None\<rparr>)"
      using fill(3,4,5) rows by (simp add: same_rows_def hb_rows_def)
    ultimately show ?thesis using step False fill(6,7) by (simp add: new_partition_def)
  qed
qed

lemma ensure_days_ok:
  assumes "store_ok s" and "\<forall>d\<in>set ds. date_ok d"
  shows "\<exists>created s'. ensure_days ds cs s = Inr (created, s') \<and> store_ok s' \<and> same_rows s s' \<and>
     pt_name ` set (hs_parts s) \<subseteq> pt_name ` set (hs_parts s') \<and>
     (\<forall>d\<in>set ds. partition_exists s' (partition_name d)) \<and>
     ((\<forall>d\<in>set ds. partition_exists s (partition_name d)) \<longrightarrow> created = cs \<and> s' = s)"
  using assms
proof (induction ds arbitrary: s cs)
  case (Cons d ds)
  show ?case
  proof (cases "partition_exists s (partition_name d)")
    case True
    obtain created s' where r: "ensure_days ds cs s = Inr (created, s')" "store_ok s'" "same_rows s s'"
      "pt_name ` set (hs_parts s) \<subseteq> pt_name ` set (hs_parts s')"
      "\<forall>d\<in>set ds. partition_exists s' (partition_name d)"
      "(\<forall>d\<in>set ds. partition_exists s (partition_name d)) \<longrightarrow> created = cs \<and> s' = s"
      using Cons.IH [of s cs] Cons.prems by auto
    have "partition_exists s' (partition_name d)"
      using True r(2-4) Cons.prems(1) by (auto simp: partition_exists_def table_exists_def same_rows_def store_ok_def)
    with r True show ?thesis by (auto simp: Let_def)
  next
    case False
    let ?m = "day_step d s"
    have m: "store_ok ?m" "same_rows s ?m"
      "pt_name ` set (hs_parts ?m) = insert (partition_name d) (pt_name ` set (hs_parts s))"
      using day_step_ok [OF Cons.prems(1) _ False] Cons.prems(2) by simp_all
    obtain created s' where r: "ensure_days ds (cs @ [partition_name d]) ?m = Inr (created, s')"
      "store_ok s'" "same_rows ?m s'" "pt_name ` set (hs_parts ?m) \<subseteq> pt_name ` set (hs_parts s')"
      "\<forall>d\<in>set ds. partition_exists s' (partition_name d)"
      using Cons.IH [OF m(1), of "cs @ [partition_name d]"] Cons.prems(2) by auto
    have "partition_exists s' (partition_name d)"
      using r(4) m(3) by (auto simp: partition_exists_def table_exists_def)
    then show ?thesis
      using r m False ensure_days_create [OF Cons.prems(1) False] by (auto simp: same_rows_def)
  qed
qed (simp add: same_rows_def)

subsection \<open>Heartbeats and maintenance runs interleaved\<close>

datatype partition_event = Beat heartbeat | Maintain time

fun partition_step :: "partition_event \<Rightarrow> heartbeat_store \<Rightarrow> heartbeat_store" where
  "partition_step (Beat r) s = insert_heartbeat r s"
| "partition_step (Maintain now) s = ensure_partitions_job now s"

text \<open>The week that a run prepares lies in the range of Python's dates.\<close>

fun partition_event_ok :: "partition_event \<Rightarrow> heartbeat_store \<Rightarrow> bool" where
  "partition_event_ok (Beat r) s = True"
| "partition_event_ok (Maintain now) s = list_all (\<lambda>i. date_ok (day_of now + int i)) [0..<7]"

fun beats_of :: "partition_event list \<Rightarrow> heartbeat list" where
  "beats_of [] = []"
| "beats_of (Beat r # es) = r # beats_of es"
| "beats_of (Maintain now # es) = beats_of es"

lemma insert_heartbeat_ok: "store_ok s \<Longrightarrow> store_ok (insert_heartbeat r s)"
  by (simp add: store_ok_def parts_ok_insert default_ok_insert)

lemma job_ok:
  assumes "store_ok s" and "list_all (\<lambda>i. date_ok (day_of now + int i)) [0..<7]"
  shows "store_ok (ensure_partitions_job now s) \<and> same_rows s (ensure_partitions_job now s)"
proof -
  have "\<forall>d\<in>set (map (\<lambda>i. day_of now + int i) [0..<7]). date_ok d"
    using assms(2) by (simp add: list_all_iff)
  then obtain created s' where "ensure_days (map (\<lambda>i. day_of now + int i) [0..<7]) [] s = Inr (created, s')"
    "store_ok s'" "same_rows s s'"
    using ensure_days_ok [OF assms(1)] by blast
  then show ?thesis
    using assms(1) by (simp add: ensure_partitions_job_def ensure_heartbeat_partitions_def same_rows_def)
qed

lemma partition_step_ok: "partition_event_ok e s \<Longrightarrow> store_ok s \<Longrightarrow> store_ok (partition_step e s)"
  by (cases e) (simp_all add: insert_heartbeat_ok job_ok)

interpretation partitions: step_system partition_step partition_event_ok store_ok
  by unfold_locales (rule partition_step_ok)

lemma run_rows:
  "partitions.admissible es s \<Longrightarrow> store_ok s \<Longrightarrow>
     mset (hb_rows (run partition_step es s)) = mset (beats_of es) + mset (hb_rows s)"
proof (induction es arbitrary: s)
  case (Cons e es)
  have "store_ok (partition_step e s)" using Cons.prems by (auto intro: partition_step_ok)
  with Cons have ih: "mset (hb_rows (run partition_step es (partition_step e s))) =
      mset (beats_of es) + mset (hb_rows (partition_step e s))" by simp
  show ?case
  proof (cases e)
    case (Beat r)
    then show ?thesis using ih Cons.prems(2) by (simp add: mset_insert_heartbeat store_ok_def)
  next
    case (Maintain now)
    then show ?thesis using ih Cons.prems job_ok [of s now] by (simp add: same_rows_def)
  qed
qed simp

subsection \<open>Properties\<close>

text \<open>The maintenance run of a partitioned table whose partitions are well formed is never
  refused by the server; it keeps every heartbeat exactly once, leaves a table for each of the
  requested days, no row of such a day in the default partition, and a second run right after
  it creates nothing.\<close>

theorem partitions_maintained:
  assumes "store_ok s" "hs_rooted s" and "\<And>i. i < n \<Longrightarrow> date_ok (start + int i)"
  shows "\<exists>created s'. ensure_heartbeat_partitions start n s = Inr (created, s') \<and> store_ok s' \<and>
     mset (hb_rows s') = mset (hb_rows s) \<and>
     (\<forall>i<n. table_exists s' (partition_name (start + int i)) \<and>
        (partition_name (start + int i) \<notin> set (hs_other_tables s) \<longrightarrow>
         partition_name (start + int i) \<noteq> ''heartbeats_default'' \<longrightarrow>
         (\<forall>r\<in>set (hs_default s'). day_of (hb_ts r) \<noteq> start + int i))) \<and>
     ensure_heartbeat_partitions start n s' = Inr ([], s')"
proof -
  let ?ds = "map (\<lambda>i. start + int i) [0..<n]"
  have dates: "\<forall>d\<in>set ?ds. date_ok d" using assms(3) by auto
  obtain created s' where r: "ensure_days ?ds [] s = Inr (created, s')" "store_ok s'" "same_rows s s'"
    "\<forall>d\<in>set ?ds. partition_exists s' (partition_name d)"
    using ensure_days_ok [OF assms(1) dates] by blast
  have again: "ensure_days ?ds [] s' = Inr ([], s')"
    using ensure_days_ok [OF r(2) dates, of "[]"] r(4) by auto
  have ok: "parts_ok (hs_parts s')" "default_ok s'" "hs_deferred s' = None"
    using r(2) by (simp_all add: store_ok_def)
  have covered: "start + int i \<in> pt_lo ` set (hs_parts s')"
    if i: "i < n" "partition_name (start + int i) \<notin> set (hs_other_tables s)"
      "partition_name (start + int i) \<noteq> ''heartbeats_default''" for i
  proof -
    have "table_exists s' (partition_name (start + int i))" using r(4) i(1) by (simp add: partition_exists_def)
    then obtain p where "p \<in> set (hs_parts s')" "pt_name p = partition_name (start + int i)"
      using i(2,3) r(3) ok(3) by (auto simp: table_exists_def same_rows_def)
    then show ?thesis using parts_ok_names [OF ok(1)] assms(3) [OF i(1)] by (metis image_eqI)
  qed
  have free: "\<forall>r\<in>set (hs_default s'). day_of (hb_ts r) \<noteq> d" if "d \<in> pt_lo ` set (hs_parts s')" for d
    using ok(2) that by (auto simp: default_ok_def)
  have "hs_rooted s'" "mset (hb_rows s') = mset (hb_rows s)" using r(3) assms(2) by (simp_all add: same_rows_def)
  moreover have "table_exists s' (partition_name (start + int i))" if "i < n" for i
    using r(4) that by (simp add: partition_exists_def)
  ultimately have "ensure_heartbeat_partitions start n s = Inr (created, s')"
    "ensure_heartbeat_partitions start n s' = Inr ([], s')" "mset (hb_rows s') = mset (hb_rows s)"
    "\<forall>i<n. table_exists s' (partition_name (start + int i))"
    using r(1) again assms(2) by (simp_all add: ensure_heartbeat_partitions_def)
  then show ?thesis using r(2) free [OF covered] by blast
qed

definition beat_at :: "time \<Rightarrow> heartbeat" where
  "beat_at t = \<lparr>hb_machine_id = 1, hb_ts = t, hb_ip = None, hb_logged_user = None, hb_uptime_sec = None\<rparr>"

definition sample_store :: heartbeat_store where
  "sample_store = \<lparr>hs_rooted = True, hs_parts = [], hs_default = [beat_at 5, beat_at 86400000005],
     hs_deferred = None, hs_other_tables = []\<rparr>"

lemma partitions_maintained_witness:
  "\<exists>created s'. ensure_heartbeat_partitions 0 1 sample_store = Inr (created, s') \<and>
     mset (hb_rows s') = {#beat_at 5, beat_at 86400000005#} \<and> (\<forall>r\<in>set (hs_default s'). day_of (hb_ts r) \<noteq> 0)"
proof -
  have s: "store_ok sample_store" "hs_rooted sample_store" "hs_other_tables sample_store = []"
    by (simp_all add: sample_store_def store_ok_def parts_ok_def default_ok_def)
  have "civil 0 = (1970, 1, 1)" by (rule civil_epoch)
  then have dates: "i < 1 \<Longrightarrow> date_ok (0 + int i)" for i by (simp add: date_ok_def)
  have "CHR ''d'' \<notin> set (fmt_date [] 0)"
    by (auto simp: fmt_date_def is_digit_def char_eval dest: pad_to_digits)
  then have name: "partition_name 0 \<noteq> ''heartbeats_default''" by (auto simp: partition_name_def)
  have rows: "mset (hb_rows sample_store) = {#beat_at 5, beat_at 86400000005#}"
    by (simp add: sample_store_def hb_rows_def)
  show ?thesis using partitions_maintained [OF s(1,2) dates] name rows s(3) by fastforce
qed

text \<open>C15: in every interleaving of arriving heartbeats and maintenance runs the heartbeat table
  holds exactly the heartbeats that arrived, and its partitions stay well formed.\<close>

theorem no_heartbeat_lost:
  assumes "store_ok s" and "partitions.admissible es s"
  shows "mset (hb_rows (run partition_step es s)) = mset (beats_of es) + mset (hb_rows s) \<and>
     store_ok (run partition_step es s)"
  using partitions.run_inv [OF assms(2,1)] run_rows [OF assms(2,1)] by blast

lemma no_heartbeat_lost_witness:
  "mset (hb_rows (run partition_step [Beat (beat_at 7), Maintain 0, Beat (beat_at 9)] sample_store)) =
     {#beat_at 7, beat_at 9, beat_at 5, beat_at 86400000005#}"
proof -
  have s: "store_ok sample_store"
    by (simp add: sample_store_def store_ok_def parts_ok_def default_ok_def)
  have "list_all (\<lambda>i. date_ok (day_of 0 + int i)) [0..<7]" by code_simp
  then have "partitions.admissible [Beat (beat_at 7), Maintain 0, Beat (beat_at 9)] sample_store" by simp
  moreover have "mset (hb_rows sample_store) = {#beat_at 5, beat_at 86400000005#}"
    by (simp add: sample_store_def hb_rows_def)
  ultimately show ?thesis
    using conjunct1 [OF no_heartbeat_lost [OF s, of "[Beat (beat_at 7), Maintain 0, Beat (beat_at 9)]"]]
    by (simp del: run.simps)
qed

end
