(* ===== verification/Machines.thy ===== *)
theory Machines
  imports EnrollAdmin Partition
begin

text \<open>
  Machines: the heartbeat of agents (\<open>api/routes/heartbeat.py\<close>), the renewal of certificates
  (\<open>api/routes/renew.py\<close>) and the routes of \<open>api/routes/machines.py\<close>: listing, counts, owner, timeline,
  lifecycle, approval, rejection, tags, assignment, rescan and deletion. The database is that of
  enrolment; with it come the heartbeats, the rows of the other tables that refer to a machine,
  the Redis keys with their expiry times, and the events that were published. The phone numbers
  of users are left out.
\<close>

subsection \<open>State\<close>

record fleet =
  fl_db :: enroll_db
  fl_heartbeats :: "heartbeat list"
  fl_refs :: "(string \<times> uuid) list"  \<comment> \<open>table and machine of each other row that refers to a machine\<close>
  fl_online :: "uuid \<Rightarrow> time option"
  fl_rescan :: "uuid \<Rightarrow> time option"
  fl_published :: "(uuid \<times> machine_status \<times> string option) list"

definition get_machine_row :: "uuid \<Rightarrow> fleet \<Rightarrow> machine option" where
  "get_machine_row mid s = find (\<lambda>m. m_id m = mid) (en_machines (fl_db s))"

definition set_machine :: "machine \<Rightarrow> fleet \<Rightarrow> fleet" where
  "set_machine m s = s\<lparr>fl_db := put_machine m (fl_db s)\<rparr>"

definition fleet_audit ::
  "time \<Rightarrow> string \<Rightarrow> string option \<Rightarrow> string option \<Rightarrow> string option \<Rightarrow> uuid option \<Rightarrow> fleet \<Rightarrow> fleet" where
  "fleet_audit now action actor target ip mid s = s\<lparr>fl_db := en_audit now action actor target ip mid (fl_db s)\<rparr>"

definition live :: "time \<Rightarrow> time option \<Rightarrow> bool" where
  "live now expiry \<longleftrightarrow> (case expiry of None \<Rightarrow> False | Some t \<Rightarrow> now < t)"

definition publish_machine_event :: "machine \<Rightarrow> machine_status \<Rightarrow> fleet \<Rightarrow> fleet" where
  "publish_machine_event m st s = s\<lparr>fl_published := fl_published s @ [(m_id m, st, m_hostname m)]\<rparr>"

subsection \<open>Agents\<close>

record heartbeat_in =
  hi_ip :: "string option"
  hi_logged_user :: "string option"
  hi_uptime_sec :: "int option"

record heartbeat_out =
  ho_server_time :: time
  ho_renew_after :: time
  ho_config :: agent_cfg
  ho_config_hash :: string
  ho_rescan_requested :: bool

text \<open>The row of the machine that a certificate names.\<close>

definition agent_machine :: "http_error + string \<Rightarrow> fleet \<Rightarrow> http_error + machine" where
  "agent_machine cn s =
     (case cn of
        Inl e \<Rightarrow> Inl e
      | Inr txt \<Rightarrow>
          (case parse_uuid txt of
             None \<Rightarrow> Inl (HTTPException 401 ''CN khong hop le'')
           | Some mid \<Rightarrow>
               (case get_machine_row mid s of
                  None \<Rightarrow> Inl (HTTPException 401 ''May khong ton tai'')
                | Some m \<Rightarrow> Inr m)))"

definition seen_status :: "machine_status \<Rightarrow> machine_status" where
  "seen_status st = (if st = DECOMMISSIONED then DECOMMISSIONED else ONLINE)"

definition heartbeat_step ::
  "env \<Rightarrow> config_override option \<Rightarrow> bool \<Rightarrow> time \<Rightarrow> string \<Rightarrow> http_error + string \<Rightarrow> heartbeat_in \<Rightarrow> fleet \<Rightarrow>
   (http_error + heartbeat_out) \<times> fleet" where
  "heartbeat_step e ov redis_up now client_ip cn b s =
     (case agent_machine cn s of
        Inl err \<Rightarrow> (Inl err, s)
      | Inr m \<Rightarrow>
          (let m' = m\<lparr>m_status := seen_status (m_status m), m_last_seen_at := Some now\<rparr>;
               hb = \<lparr>hb_machine_id = m_id m, hb_ts = now, hb_ip = py_or (Some client_ip) (hi_ip b),
                     hb_logged_user = hi_logged_user b, hb_uptime_sec = hi_uptime_sec b\<rparr>;
               s1 = (set_machine m' s)\<lparr>fl_heartbeats := insert_row hb (fl_heartbeats s)\<rparr>;
               rescan = (redis_up \<and> live now (fl_rescan s (m_id m)));
               s2 = (if redis_up
                     then s1\<lparr>fl_online := (fl_online s1)(m_id m := Some (now + seconds (effective_online_ttl_seconds e)))\<rparr>
                     else s1);
               s3 = (if rescan then s2\<lparr>fl_rescan := (fl_rescan s2)(m_id m := None)\<rparr> else s2);
               s4 = (if m_status m \<noteq> ONLINE \<and> m_status m' = ONLINE \<and> redis_up
                     then publish_machine_event m' ONLINE s3 else s3);
               cfg = effective_agent_config e ov
           in (Inr \<lparr>ho_server_time = now, ho_renew_after = renew_after e now, ho_config = cfg,
                    ho_config_hash = compute_agent_config_hash cfg, ho_rescan_requested = rescan\<rparr>, s4)))"

text \<open>\<open>sign\<close> and \<open>revoke\<close> are the certificate authority; the old certificate is revoked only after the new
  one has been signed, and a failure to revoke it is ignored. The result names what was revoked.\<close>

definition renew_certificate ::
  "(string \<Rightarrow> uuid \<Rightarrow> string option) \<Rightarrow> (string \<Rightarrow> bool) \<Rightarrow> env \<Rightarrow> time \<Rightarrow> string option \<Rightarrow> string option \<Rightarrow>
   http_error + string \<Rightarrow> string \<Rightarrow> fleet \<Rightarrow> (http_error + string \<times> time) \<times> string option \<times> fleet" where
  "renew_certificate sign revoke e now ip serial cn csr s =
     (case agent_machine cn s of
        Inl err \<Rightarrow> (Inl err, None, s)
      | Inr m \<Rightarrow>
          (case sign csr (m_id m) of
             None \<Rightarrow> (Inl (HTTPException 502 ''CA ky cert that bai''), None, s)
           | Some cert \<Rightarrow>
               (Inr (cert, renew_after e now),
                (if truthy serial \<and> revoke (the serial) then serial else None),
                fleet_audit now ''cert.renew'' (Some (''agent:'' @ uuid_str (m_id m))) (Some (uuid_str (m_id m))) ip
                  (Some (m_id m)) s)))"

subsection \<open>Reading\<close>

text \<open>\<open>ILIKE\<close> with the pattern characters percent, underscore and backslash.\<close>

fun like_match :: "string \<Rightarrow> string \<Rightarrow> bool" where
  "like_match [] s = (s = [])"
| "like_match (p # ps) s =
     (if p = CHR ''%'' then like_match ps s \<or> (case s of [] \<Rightarrow> False | c # s' \<Rightarrow> like_match (p # ps) s')
      else case s of
          [] \<Rightarrow> False
        | c # s' \<Rightarrow>
            if p = CHR ''_'' then like_match ps s'
            else if p = CHR 0x5C then (case ps of [] \<Rightarrow> False | q # qs \<Rightarrow> q = c \<and> like_match qs s')
            else p = c \<and> like_match ps s')"

definition ilike :: "string \<Rightarrow> string \<Rightarrow> bool" where
  "ilike s pattern = like_match (lower pattern) (lower s)"

definition fleet_sees :: "fleet \<Rightarrow> user \<Rightarrow> uuid \<Rightarrow> bool" where
  "fleet_sees s u org \<longleftrightarrow> sees (fl_db s) u org"

record machine_query =
  mq_org_id :: "uuid option"
  mq_status :: "machine_status option"
  mq_q :: "string option"
  mq_tag :: "string option"
  mq_platform :: "string option"

text \<open>
  \<open>platform_of\<close> is the column of the table of current inventories. The parameter \<open>status\<close> of the
  handler hides the module of that name, so the refusal of a foreign organisation fails itself.
\<close>

definition list_machines ::
  "(uuid \<Rightarrow> string option) \<Rightarrow> http_error + user \<Rightarrow> machine_query \<Rightarrow> nat \<Rightarrow> nat \<Rightarrow> fleet \<Rightarrow>
   http_error + machine list \<times> nat" where
  "list_machines platform_of auth q limit offset s =
     (case auth of
        Inl e \<Rightarrow> Inl e
      | Inr u \<Rightarrow>
          if (case mq_org_id q of None \<Rightarrow> False | Some org \<Rightarrow> \<not> fleet_sees s u org) then Inl internal_error
          else
            (let ms = filter (\<lambda>m. fleet_sees s u (m_org_id m) \<and>
                   (case mq_org_id q of None \<Rightarrow> True | Some org \<Rightarrow> m_org_id m = org) \<and>
                   (case mq_status q of None \<Rightarrow> True | Some st \<Rightarrow> m_status m = st) \<and>
                   (truthy (mq_q q) \<longrightarrow>
                      (let pattern = ''%'' @ the (mq_q q) @ ''%''
                       in (case m_hostname m of None \<Rightarrow> False | Some h \<Rightarrow> ilike h pattern) \<or> ilike (m_machine_uuid m) pattern)) \<and>
                   (truthy (mq_tag q) \<longrightarrow> the (mq_tag q) \<in> tag_key ` set (get_machine_tags (m_id m) (en_tags (fl_db s)))) \<and>
                   (truthy (mq_platform q) \<longrightarrow> platform_of (m_id m) = mq_platform q)) (en_machines (fl_db s))
             in Inr (take limit (drop offset (sort_key (\<lambda>m. - m_enrolled_at m) ms)), length ms)))"

definition machine_stats :: "http_error + user \<Rightarrow> fleet \<Rightarrow> http_error + (machine_status \<times> nat) list \<times> nat" where
  "machine_stats auth s =
     (case auth of
        Inl e \<Rightarrow> Inl e
      | Inr u \<Rightarrow>
          (let ms = filter (\<lambda>m. fleet_sees s u (m_org_id m)) (en_machines (fl_db s))
           in Inr (map (\<lambda>st. (st, length (filter (\<lambda>m. m_status m = st) ms))) (dedup (map m_status ms)), length ms)))"

text \<open>The name of the owner: the assigned user, else the name given with the token.\<close>

definition assigned_name :: "machine \<Rightarrow> enroll_db \<Rightarrow> string option" where
  "assigned_name m db =
     (case (case m_assigned_user_id m of None \<Rightarrow> None
            | Some uid \<Rightarrow> map_option u_full_name (find (\<lambda>u. u_id u = uid) (en_users db))) of
        Some n \<Rightarrow> Some n
      | None \<Rightarrow>
          (case find (\<lambda>t. et_used_by t = Some (m_id m)) (en_tokens db) of
             None \<Rightarrow> None
           | Some t \<Rightarrow> if truthy (et_full_name t) \<or> truthy (et_email t) then et_full_name t else None))"

definition machine_missing :: http_error where
  "machine_missing = HTTPException 404 ''May khong ton tai''"

definition get_machine :: "http_error + user \<Rightarrow> uuid \<Rightarrow> fleet \<Rightarrow> http_error + machine \<times> tag list \<times> string option" where
  "get_machine auth mid s =
     (case auth of
        Inl e \<Rightarrow> Inl e
      | Inr u \<Rightarrow>
          (case get_machine_row mid s of
             None \<Rightarrow> Inl machine_missing
           | Some m \<Rightarrow>
               if \<not> fleet_sees s u (m_org_id m) then Inl (HTTPException 403 ''Khong co quyen xem may nay'')
               else Inr (m, get_machine_tags mid (en_tags (fl_db s)), assigned_name m (fl_db s))))"

subsection \<open>The timeline\<close>

definition session_gap :: time where
  "session_gap = seconds 300"

record boot_session =
  bs_start :: time
  bs_end :: time

definition duration_sec :: "boot_session \<Rightarrow> int" where
  "duration_sec b = (bs_end b - bs_start b) div 1000000"

text \<open>The loop over the heartbeat times, with \<open>start\<close> and \<open>prev\<close>.\<close>

fun session_loop :: "time option \<Rightarrow> time option \<Rightarrow> time list \<Rightarrow> boot_session list" where
  "session_loop start prev [] =
     (case (start, prev) of (Some a, Some b) \<Rightarrow> [\<lparr>bs_start = a, bs_end = b\<rparr>] | _ \<Rightarrow> [])"
| "session_loop start prev (t # ts) =
     (case start of
        None \<Rightarrow> session_loop (Some t) (Some t) ts
      | Some a \<Rightarrow>
          (case prev of
             None \<Rightarrow> session_loop (Some a) (Some t) ts
           | Some b \<Rightarrow>
               if t - b > session_gap then \<lparr>bs_start = a, bs_end = b\<rparr> # session_loop (Some t) (Some t) ts
               else session_loop (Some a) (Some t) ts))"

definition sessions_of :: "time list \<Rightarrow> boot_session list" where
  "sessions_of ts = session_loop None None ts"

record day_usage =
  du_date :: int  \<comment> \<open>the day\<close>
  du_boots :: nat
  du_online_sec :: int

fun add_session :: "boot_session \<Rightarrow> day_usage list \<Rightarrow> day_usage list" where
  "add_session b [] = [\<lparr>du_date = day_of (bs_start b), du_boots = 1, du_online_sec = duration_sec b\<rparr>]"
| "add_session b (d # ds) =
     (if du_date d = day_of (bs_start b)
      then d\<lparr>du_boots := Suc (du_boots d), du_online_sec := du_online_sec d + duration_sec b\<rparr> # ds
      else d # add_session b ds)"

definition daily_usage :: "boot_session list \<Rightarrow> day_usage list" where
  "daily_usage ss = sort_key (\<lambda>d. - du_date d) (fold add_session ss [])"

record timeline =
  tl_total_online_sec :: int
  tl_sessions_count :: nat
  tl_daily :: "day_usage list"
  tl_sessions :: "boot_session list"

definition machine_timeline ::
  "time \<Rightarrow> http_error + user \<Rightarrow> uuid \<Rightarrow> int \<Rightarrow> fleet \<Rightarrow> http_error + timeline" where
  "machine_timeline now auth mid n s =
     (case auth of
        Inl e \<Rightarrow> Inl e
      | Inr u \<Rightarrow>
          (case get_machine_row mid s of
             None \<Rightarrow> Inl machine_missing
           | Some m \<Rightarrow>
               if \<not> fleet_sees s u (m_org_id m) then Inl (HTTPException 403 ''Khong co quyen xem may nay'')
               else
                 (let ts = sort (map hb_ts (filter (\<lambda>h. hb_machine_id h = mid \<and> now - days n \<le> hb_ts h) (fl_heartbeats s)));
                      ss = sessions_of ts
                  in Inr \<lparr>tl_total_online_sec = sum_list (map duration_sec ss), tl_sessions_count = length ss,
                          tl_daily = daily_usage ss, tl_sessions = drop (length ss - 200) ss\<rparr>)))"

subsection \<open>Decisions of administrators\<close>

definition machine_in_scope :: "uuid \<Rightarrow> user \<Rightarrow> fleet \<Rightarrow> http_error + machine" where
  "machine_in_scope mid u s =
     (case get_machine_row mid s of
        None \<Rightarrow> Inl machine_missing
      | Some m \<Rightarrow>
          if \<not> fleet_sees s u (m_org_id m) then Inl (HTTPException 403 ''Khong co quyen thao tac may nay'')
          else Inr m)"

text \<open>The handlers for one machine: \<open>auth\<close> is the outcome of the permission check, and a handler works on
  the machine in scope, in a session that a refusal discards.\<close>

definition on_machine ::
  "http_error + user \<Rightarrow> uuid \<Rightarrow> (user \<Rightarrow> machine \<Rightarrow> (http_error + 'a) \<times> fleet) \<Rightarrow> fleet \<Rightarrow> (http_error + 'a) \<times> fleet" where
  "on_machine auth mid k s =
     (case auth of
        Inl e \<Rightarrow> (Inl e, s)
      | Inr u \<Rightarrow> (case machine_in_scope mid u s of Inl e \<Rightarrow> (Inl e, s) | Inr m \<Rightarrow> k u m))"

definition machine_audit :: "time \<Rightarrow> string \<Rightarrow> user \<Rightarrow> machine \<Rightarrow> string option \<Rightarrow> fleet \<Rightarrow> fleet" where
  "machine_audit now action u m ip = fleet_audit now action (uuid_of u) (Some (uuid_str (m_id m))) ip (Some (m_id m))"

definition lifecycle_values :: "string set" where
  "lifecycle_values = {''new'', ''in_use'', ''in_repair'', ''decommissioned''}"

definition new_note :: "string option \<Rightarrow> machine \<Rightarrow> string option" where
  "new_note n m = (if truthy n then n else m_note m)"

definition update_lifecycle ::
  "time \<Rightarrow> string option \<Rightarrow> http_error + user \<Rightarrow> uuid \<Rightarrow> string \<Rightarrow> string option \<Rightarrow> fleet \<Rightarrow>
   (http_error + string \<times> machine_status) \<times> fleet" where
  "update_lifecycle now ip auth mid lc n s =
     (case auth of
        Inl e \<Rightarrow> (Inl e, s)
      | Inr _ \<Rightarrow>
          if lc \<notin> lifecycle_values then (Inl (HTTPException 422 ''Vong doi khong hop le''), s)
          else on_machine auth mid (\<lambda>u m.
            let m' = m\<lparr>m_status := (if lc = ''decommissioned'' then DECOMMISSIONED else m_status m),
                       m_lifecycle := lc, m_note := new_note n m\<rparr>
            in (Inr (lc, m_status m'), machine_audit now ''machine.lifecycle'' u m ip (set_machine m' s))) s)"

definition approved_status :: "env \<Rightarrow> time \<Rightarrow> machine \<Rightarrow> machine_status" where
  "approved_status e now m =
     (case m_last_seen_at m of
        None \<Rightarrow> OFFLINE
      | Some t \<Rightarrow> if t \<ge> now - seconds (effective_online_ttl_seconds e + 60) then ONLINE else OFFLINE)"

definition approve_machine ::
  "env \<Rightarrow> time \<Rightarrow> string option \<Rightarrow> http_error + user \<Rightarrow> uuid \<Rightarrow> string option \<Rightarrow> fleet \<Rightarrow>
   (http_error + machine_status) \<times> fleet" where
  "approve_machine e now ip auth mid n s =
     on_machine auth mid (\<lambda>u m.
       if m_status m \<noteq> PENDING then (Inl (HTTPException 400 ''May khong o trang thai cho duyet''), s)
       else
         (let m' = m\<lparr>m_status := approved_status e now m, m_lifecycle := ''in_use'', m_note := new_note n m\<rparr>
          in (Inr (m_status m'), machine_audit now ''machine.approve'' u m ip (set_machine m' s)))) s"

definition refusal_note :: "string option \<Rightarrow> machine \<Rightarrow> string" where
  "refusal_note n m =
     ''Tu choi duyet: '' @ or_truthy n ''khong ro ly do'' @
     (if truthy (m_note m) then CHR 0x0A # the (m_note m) else [])"

definition reject_machine ::
  "time \<Rightarrow> string option \<Rightarrow> http_error + user \<Rightarrow> uuid \<Rightarrow> string option \<Rightarrow> fleet \<Rightarrow>
   (http_error + machine_status) \<times> fleet" where
  "reject_machine now ip auth mid n s =
     on_machine auth mid (\<lambda>u m.
       let m' = m\<lparr>m_status := DECOMMISSIONED, m_lifecycle := ''decommissioned'', m_note := Some (refusal_note n m)\<rparr>
       in (Inr DECOMMISSIONED, machine_audit now ''machine.reject'' u m ip (set_machine m' s))) s"

definition set_tags :: "tag_db \<Rightarrow> fleet \<Rightarrow> fleet" where
  "set_tags t s = s\<lparr>fl_db := (fl_db s)\<lparr>en_tags := t\<rparr>\<rparr>"

definition bad_classification :: http_error where
  "bad_classification = HTTPException 422 ''Loai may khong hop le''"

text \<open>The classification and the purposes of one machine; \<open>None\<close> is a refused classification.\<close>

definition write_classification :: "uuid \<Rightarrow> string option \<Rightarrow> uuid \<Rightarrow> tag_db \<Rightarrow> tag_db option" where
  "write_classification mid c actor t =
     (case c of None \<Rightarrow> Some t
      | Some key \<Rightarrow> (case set_machine_classification mid key (Some actor) t of (ok, t') \<Rightarrow> if ok then Some t' else None))"

definition write_purpose :: "uuid \<Rightarrow> string list option \<Rightarrow> uuid \<Rightarrow> tag_db \<Rightarrow> tag_db" where
  "write_purpose mid ks actor t = (case ks of None \<Rightarrow> t | Some keys \<Rightarrow> set_machine_purpose_tags mid keys (Some actor) t)"

definition set_machine_tags_route ::
  "time \<Rightarrow> string option \<Rightarrow> http_error + user \<Rightarrow> uuid \<Rightarrow> string option \<Rightarrow> string list option \<Rightarrow> fleet \<Rightarrow>
   (http_error + tag list) \<times> fleet" where
  "set_machine_tags_route now ip auth mid c ks s =
     on_machine auth mid (\<lambda>u m.
       case write_classification mid c (u_id u) (en_tags (fl_db s)) of
         None \<Rightarrow> (Inl bad_classification, s)
       | Some t1 \<Rightarrow>
           (let t2 = write_purpose mid ks (u_id u) t1;
                s1 = set_tags t2 s;
                s2 = (if c \<noteq> None \<or> ks \<noteq> None then machine_audit now ''machine.tag.set'' u m ip s1 else s1)
            in (Inr (get_machine_tags mid t2), s2))) s"

fun classify_all :: "uuid list \<Rightarrow> string option \<Rightarrow> uuid \<Rightarrow> tag_db \<Rightarrow> tag_db option" where
  "classify_all [] c actor t = Some t"
| "classify_all (mid # mids) c actor t =
     (case write_classification mid c actor t of None \<Rightarrow> None | Some t' \<Rightarrow> classify_all mids c actor t')"

definition set_machine_tags_bulk ::
  "time \<Rightarrow> string option \<Rightarrow> http_error + user \<Rightarrow> uuid list \<Rightarrow> string option \<Rightarrow> string list option \<Rightarrow> fleet \<Rightarrow>
   (http_error + nat) \<times> fleet" where
  "set_machine_tags_bulk now ip auth mids c ks s =
     (case auth of
        Inl e \<Rightarrow> (Inl e, s)
      | Inr u \<Rightarrow>
          (let allowed = map m_id (filter (\<lambda>m. m_id m \<in> set mids \<and> fleet_sees s u (m_org_id m)) (en_machines (fl_db s)))
           in if allowed = [] then (Inl (HTTPException 404 ''Khong co may nao trong pham vi quyen''), s)
              else
                (case classify_all allowed c (u_id u) (en_tags (fl_db s)) of
                   None \<Rightarrow> (Inl bad_classification, s)
                 | Some t \<Rightarrow>
                     (Inr (length allowed),
                      fleet_audit now ''machine.tag.bulk'' (uuid_of u) (Some (''machines:'' @ digits_of (length allowed))) ip None
                        (set_tags (fold (\<lambda>mid. write_purpose mid ks (u_id u)) allowed t) s)))))"

record assign_request =
  aq_existing :: bool  \<comment> \<open>the mode is existing, else new\<close>
  aq_user_id :: "uuid option"
  aq_full_name :: "string option"
  aq_email :: "string option"

definition viewer_row :: "uuid \<Rightarrow> uuid \<Rightarrow> string \<Rightarrow> string \<Rightarrow> user" where
  "viewer_row uid org name email =
     \<lparr>u_id = uid, u_org_id = org, u_full_name = name, u_email = email, u_role = VIEWER, u_password_hash = None,
      u_totp_secret_encrypted = None, u_backup_codes = None, u_is_2fa_enabled = False, u_is_active = True,
      u_last_login_at = None, u_must_change_password = False, u_totp_last_counter = None,
      u_telegram_chat_id = None, u_telegram_linked_at = None\<rparr>"

text \<open>The user who is assigned, and the rows of the users after it.\<close>

definition assignee :: "uuid \<Rightarrow> machine \<Rightarrow> assign_request \<Rightarrow> user list \<Rightarrow> http_error + user \<times> bool \<times> user list" where
  "assignee uid m b us =
     (if aq_existing b
      then (case aq_user_id b of
              None \<Rightarrow> Inl (HTTPException 400 ''mode=existing can user_id'')
            | Some i \<Rightarrow>
                (case find (\<lambda>u. u_id u = i) us of
                   None \<Rightarrow> Inl (HTTPException 404 ''User khong ton tai'')
                 | Some u \<Rightarrow> if u_org_id u \<noteq> m_org_id m
                             then Inl (HTTPException 400 ''User phai thuoc cung to chuc voi may'')
                             else Inr (u, False, us)))
      else if \<not> truthy (aq_full_name b) \<or> \<not> truthy (aq_email b)
      then Inl (HTTPException 400 ''mode=new can full_name va email'')
      else if (\<exists>u\<in>set us. u_email u = the (aq_email b))
      then Inl (HTTPException 409 (''Email '' @ the (aq_email b) @ '' da thuoc ve user khac''))
      else (let u = viewer_row uid (m_org_id m) (the (aq_full_name b)) (the (aq_email b))
            in Inr (u, True, insert_row u us)))"

definition py_bool :: "bool \<Rightarrow> string" where
  "py_bool b = (if b then ''True'' else ''False'')"

definition assign_user ::
  "time \<Rightarrow> uuid \<Rightarrow> string option \<Rightarrow> http_error + user \<Rightarrow> uuid \<Rightarrow> assign_request \<Rightarrow> fleet \<Rightarrow>
   (http_error + user \<times> bool) \<times> fleet" where
  "assign_user now uid ip auth mid b s =
     on_machine auth mid (\<lambda>admin m.
       case assignee uid m b (en_users (fl_db s)) of
         Inl e \<Rightarrow> (Inl e, s)
       | Inr (u, created, us) \<Rightarrow>
           (let s1 = s\<lparr>fl_db := (fl_db s)\<lparr>en_users := us\<rparr>\<rparr>;
                target = take 255 (uuid_str (m_id m) @ ''|new='' @ uuid_str (u_id u) @ ''|email='' @ u_email u @
                           ''|created='' @ py_bool created)
            in (Inr (u, created),
                fleet_audit now ''machine.assign_user'' (uuid_of admin) (Some target) ip (Some (m_id m))
                  (set_machine (m\<lparr>m_assigned_user_id := Some (u_id u)\<rparr>) s1)))) s"

definition unassign_user ::
  "time \<Rightarrow> string option \<Rightarrow> http_error + user \<Rightarrow> uuid \<Rightarrow> fleet \<Rightarrow> (http_error + unit) \<times> fleet" where
  "unassign_user now ip auth mid s =
     on_machine auth mid (\<lambda>admin m.
       case m_assigned_user_id m of
         None \<Rightarrow> (Inl (HTTPException 404 ''May chua gan nguoi dung''), s)
       | Some old \<Rightarrow>
           (Inr (),
            fleet_audit now ''machine.unassign_user'' (uuid_of admin)
              (Some (uuid_str (m_id m) @ ''|old='' @ uuid_str old)) ip (Some (m_id m))
              (set_machine (m\<lparr>m_assigned_user_id := None\<rparr>) s))) s"

definition request_rescan ::
  "bool \<Rightarrow> time \<Rightarrow> string option \<Rightarrow> http_error + user \<Rightarrow> uuid \<Rightarrow> fleet \<Rightarrow> (http_error + unit) \<times> fleet" where
  "request_rescan redis_up now ip auth mid s =
     on_machine auth mid (\<lambda>admin m.
       (Inr (), machine_audit now ''machine.rescan_requested'' admin m ip
          (if redis_up then s\<lparr>fl_rescan := (fl_rescan s)(m_id m := Some (now + seconds 600))\<rparr> else s))) s"

subsection \<open>Deletion\<close>

text \<open>
  The tables whose reference to a machine has no delete rule and which \<open>delete_machine\<close> does not
  clear; of the other tables the rows are deleted or lose the reference.
\<close>

definition blocking_tables :: "string set" where
  "blocking_tables = {''system_devices'', ''system_profile_applications''}"

definition still_referenced :: "uuid \<Rightarrow> fleet \<Rightarrow> bool" where
  "still_referenced mid s \<longleftrightarrow>
     (\<exists>a\<in>set (en_attempts (fl_db s)). ea_matched_machine_id a = Some mid) \<or>
     (\<exists>r\<in>set (fl_refs s). snd r = mid \<and> fst r \<in> blocking_tables)"

definition forget_machine :: "uuid \<Rightarrow> enroll_db \<Rightarrow> enroll_db" where
  "forget_machine mid db =
     db\<lparr>en_tokens := update_where (\<lambda>t. et_used_by t = Some mid) (\<lambda>t. t\<lparr>et_used_by := None\<rparr>) (en_tokens db),
        en_drifts := delete_where (\<lambda>d. fd_machine_id d = mid) (en_drifts db),
        en_tags := (en_tags db)\<lparr>td_machine_tags := delete_where (\<lambda>t. mt_machine_id t = mid) (td_machine_tags (en_tags db))\<rparr>,
        en_log := update_where (\<lambda>r. au_machine_id r = Some mid) (\<lambda>r. r\<lparr>au_machine_id := None\<rparr>) (en_log db)\<rparr>"

definition delete_machine ::
  "time \<Rightarrow> string option \<Rightarrow> http_error + user \<Rightarrow> uuid \<Rightarrow> fleet \<Rightarrow> (http_error + unit) \<times> fleet" where
  "delete_machine now ip auth mid s =
     (case auth of
        Inl e \<Rightarrow> (Inl e, s)
      | Inr admin \<Rightarrow>
          (case get_machine_row mid s of
             None \<Rightarrow> (Inl machine_missing, s)
           | Some m \<Rightarrow>
               if still_referenced mid s then (Inl internal_error, s)
               else
                 (let s1 = s\<lparr>fl_db := forget_machine mid (fl_db s),
                             fl_heartbeats := delete_where (\<lambda>h. hb_machine_id h = mid) (fl_heartbeats s),
                             fl_refs := delete_where (\<lambda>r. snd r = mid) (fl_refs s)\<rparr>;
                      s2 = fleet_audit now ''machine.delete'' (uuid_of admin) (Some (uuid_str mid)) ip None s1
                  in (Inr (), s2\<lparr>fl_db := (fl_db s2)\<lparr>en_machines :=
                        delete_where (\<lambda>r. m_id r = mid) (en_machines (fl_db s2))\<rparr>\<rparr>))))"

subsection \<open>The timeline is the division of the heartbeats at the gaps\<close>

definition span_of :: "time list \<Rightarrow> boot_session" where
  "span_of g = \<lparr>bs_start = hd g, bs_end = last g\<rparr>"

definition unbroken :: "time list \<Rightarrow> bool" where
  "unbroken g \<longleftrightarrow> g \<noteq> [] \<and> successively (\<lambda>a b. b - a \<le> session_gap) g"

definition gap_between :: "time list \<Rightarrow> time list \<Rightarrow> bool" where
  "gap_between g h \<longleftrightarrow> session_gap < hd h - last g"

lemma session_loop_groups:
  "unbroken g \<Longrightarrow>
     \<exists>gs. concat gs = g @ ts \<and> session_loop (Some (hd g)) (Some (last g)) ts = map span_of gs \<and>
       list_all unbroken gs \<and> successively gap_between gs \<and> gs \<noteq> [] \<and> hd (hd gs) = hd g"
proof (induction ts arbitrary: g)
  case Nil
  then show ?case by (intro exI [of _ "[g]"]) (simp add: span_of_def)
next
  case (Cons t ts)
  show ?case
  proof (cases "t - last g > session_gap")
    case True
    have "unbroken [t]" by (simp add: unbroken_def)
    from Cons.IH [OF this] obtain gs where gs: "concat gs = t # ts"
      "session_loop (Some t) (Some t) ts = map span_of gs" "list_all unbroken gs" "successively gap_between gs"
      "gs \<noteq> []" "hd (hd gs) = t" by auto
    have "successively gap_between (g # gs)"
      using gs True by (cases gs) (auto simp: gap_between_def)
    then show ?thesis
      using gs True Cons.prems by (intro exI [of _ "g # gs"]) (simp add: span_of_def)
  next
    case False
    with Cons.prems have "unbroken (g @ [t])"
      by (auto simp: unbroken_def successively_append_iff)
    from Cons.IH [OF this] Cons.prems False show ?thesis by (auto simp: unbroken_def)
  qed
qed

lemma sessions_of_groups:
  "\<exists>gs. concat gs = ts \<and> sessions_of ts = map span_of gs \<and> list_all unbroken gs \<and> successively gap_between gs"
proof (cases ts)
  case Nil
  then show ?thesis by (intro exI [of _ "[]"]) (simp add: sessions_of_def)
next
  case (Cons t us)
  have "unbroken [t]" by (simp add: unbroken_def)
  from session_loop_groups [OF this, of us] show ?thesis
    unfolding sessions_of_def Cons by auto
qed

lemma add_session_sums:
  "sum_list (map du_online_sec (add_session b ds)) = duration_sec b + sum_list (map du_online_sec ds)"
  "sum_list (map du_boots (add_session b ds)) = Suc (sum_list (map du_boots ds))"
  by (induction b ds rule: add_session.induct) auto

lemma fold_add_session_sums:
  "sum_list (map du_online_sec (fold add_session ss ds)) = sum_list (map duration_sec ss) + sum_list (map du_online_sec ds)"
  "sum_list (map du_boots (fold add_session ss ds)) = length ss + sum_list (map du_boots ds)"
  by (induction ss arbitrary: ds) (auto simp: add_session_sums)

lemma sum_list_sort_key:
  fixes f :: "'a \<Rightarrow> 'b::comm_monoid_add"
  shows "sum_list (map f (sort_key k xs)) = sum_list (map f xs)"
  by (simp flip: sum_mset_sum_list)

text \<open>The sessions of a timeline are the pieces into which the heartbeats fall at gaps of more than
  300 seconds: in order, without omission, each unbroken, and separated by such a gap; the daily
  figures add up to the number and the total length of the sessions.\<close>

theorem timeline_sessions:
  "(\<exists>gs. concat gs = ts \<and> sessions_of ts = map span_of gs \<and> list_all unbroken gs \<and> successively gap_between gs) \<and>
   sum_list (map du_online_sec (daily_usage (sessions_of ts))) = sum_list (map duration_sec (sessions_of ts)) \<and>
   sum_list (map du_boots (daily_usage (sessions_of ts))) = length (sessions_of ts)"
  using sessions_of_groups [of ts] by (simp add: daily_usage_def sum_list_sort_key fold_add_session_sums)

subsection \<open>Deleting a machine\<close>

lemma linked_forget:
  assumes "\<And>r. au_prev_hash (f r) = au_prev_hash r \<and> au_content_hash (f r) = au_content_hash r \<and> row_hash (f r) = row_hash r"
  shows "linked prev (map f rs) \<longleftrightarrow> linked prev rs"
  using assms by (induction prev rs rule: linked.induct) auto

lemma chain_ok_forget:
  "chain_ok (update_where P (\<lambda>r. r\<lparr>au_machine_id := x\<rparr>) rs) \<longleftrightarrow> chain_ok rs"
  unfolding chain_ok_def update_where_def by (rule linked_forget) (simp add: row_hash_def)

definition mentions :: "uuid \<Rightarrow> fleet \<Rightarrow> bool" where
  "mentions mid s \<longleftrightarrow>
     mid \<in> m_id ` set (en_machines (fl_db s)) \<or>
     (\<exists>t\<in>set (en_tokens (fl_db s)). et_used_by t = Some mid) \<or>
     (\<exists>a\<in>set (en_attempts (fl_db s)). ea_matched_machine_id a = Some mid) \<or>
     (\<exists>d\<in>set (en_drifts (fl_db s)). fd_machine_id d = mid) \<or>
     (\<exists>t\<in>set (td_machine_tags (en_tags (fl_db s))). mt_machine_id t = mid) \<or>
     (\<exists>r\<in>set (en_log (fl_db s)). au_machine_id r = Some mid) \<or>
     (\<exists>h\<in>set (fl_heartbeats s). hb_machine_id h = mid) \<or> (\<exists>r\<in>set (fl_refs s). snd r = mid)"

lemma delete_machine_cases:
  assumes "delete_machine now ip auth mid s = (res, s')"
  obtains "s' = s" "\<exists>e. res = Inl e"
  | admin m s1 where "auth = Inr admin" "get_machine_row mid s = Some m" "\<not> still_referenced mid s" "res = Inr ()"
      "s1 = s\<lparr>fl_db := forget_machine mid (fl_db s),
         fl_heartbeats := delete_where (\<lambda>h. hb_machine_id h = mid) (fl_heartbeats s),
         fl_refs := delete_where (\<lambda>r. snd r = mid) (fl_refs s)\<rparr>"
      "s' = (fleet_audit now ''machine.delete'' (uuid_of admin) (Some (uuid_str mid)) ip None s1)\<lparr>fl_db :=
         (fl_db (fleet_audit now ''machine.delete'' (uuid_of admin) (Some (uuid_str mid)) ip None s1))\<lparr>en_machines :=
           delete_where (\<lambda>r. m_id r = mid)
             (en_machines (fl_db (fleet_audit now ''machine.delete'' (uuid_of admin) (Some (uuid_str mid)) ip None s1)))\<rparr>\<rparr>"
  using assms by (auto simp: delete_machine_def Let_def split: sum.splits option.splits if_splits)

lemma delete_machine_rows:
  "set (en_machines (fl_db (snd (delete_machine now ip auth mid s)))) \<subseteq> set (en_machines (fl_db s))"
proof -
  obtain res s' where d: "delete_machine now ip auth mid s = (res, s')" by fastforce
  then have "set (en_machines (fl_db s')) \<subseteq> set (en_machines (fl_db s))"
    by (cases rule: delete_machine_cases) (auto simp: fleet_audit_def en_audit_def forget_machine_def)
  with d show ?thesis by simp
qed

text \<open>C18: deleting a machine removes it together with every reference to it and leaves all other machines
  and their heartbeats; the audit log keeps all its entries, gains one, and still verifies although
  its rows are rewritten. A refused deletion changes nothing.\<close>

theorem delete_machine_effects:
  assumes "delete_machine now ip auth mid s = (res, s')"
  shows "case res of
      Inl e \<Rightarrow> s' = s
    | Inr _ \<Rightarrow> \<not> mentions mid s' \<and>
        en_machines (fl_db s') = filter (\<lambda>m. m_id m \<noteq> mid) (en_machines (fl_db s)) \<and>
        fl_heartbeats s' = filter (\<lambda>h. hb_machine_id h \<noteq> mid) (fl_heartbeats s) \<and>
        length (en_log (fl_db s')) = Suc (length (en_log (fl_db s))) \<and>
        (verify_chain (en_log (fl_db s)) = (True, None) \<longrightarrow> verify_chain (en_log (fl_db s')) = (True, None))"
  using assms
proof (cases rule: delete_machine_cases)
  case 1
  then show ?thesis by auto
next
  case (2 admin m s1)
  have log: "en_log (fl_db s') = append_audit now ''machine.delete'' (uuid_of admin) (Some (uuid_str mid)) ip None None
      (update_where (\<lambda>r. au_machine_id r = Some mid) (\<lambda>r. r\<lparr>au_machine_id := None\<rparr>) (en_log (fl_db s)))"
    by (simp add: 2(5,6) fleet_audit_def en_audit_def forget_machine_def)
  have rest: "en_machines (fl_db s') = filter (\<lambda>m. m_id m \<noteq> mid) (en_machines (fl_db s))"
    "fl_heartbeats s' = filter (\<lambda>h. hb_machine_id h \<noteq> mid) (fl_heartbeats s)"
    "fl_refs s' = filter (\<lambda>r. snd r \<noteq> mid) (fl_refs s)"
    "en_drifts (fl_db s') = filter (\<lambda>d. fd_machine_id d \<noteq> mid) (en_drifts (fl_db s))"
    "td_machine_tags (en_tags (fl_db s')) = filter (\<lambda>t. mt_machine_id t \<noteq> mid) (td_machine_tags (en_tags (fl_db s)))"
    "en_attempts (fl_db s') = en_attempts (fl_db s)"
    "en_tokens (fl_db s') = update_where (\<lambda>t. et_used_by t = Some mid) (\<lambda>t. t\<lparr>et_used_by := None\<rparr>) (en_tokens (fl_db s))"
    by (simp_all add: 2(5,6) fleet_audit_def en_audit_def forget_machine_def delete_where_def)
  have attempts: "\<not> (\<exists>a\<in>set (en_attempts (fl_db s)). ea_matched_machine_id a = Some mid)"
    using 2(3) by (simp add: still_referenced_def)
  have "\<not> (\<exists>t\<in>set (en_tokens (fl_db s')). et_used_by t = Some mid)"
    unfolding rest by (auto simp del: set_update_where elim!: update_whereE)
  moreover have "au_machine_id r \<noteq> Some mid" if r: "r \<in> set (en_log (fl_db s'))" for r
  proof -
    from r consider "r \<in> set (update_where (\<lambda>r. au_machine_id r = Some mid) (\<lambda>r. r\<lparr>au_machine_id := None\<rparr>) (en_log (fl_db s)))"
      | "au_machine_id r = None"
      unfolding log append_audit_def set_insert_row by force
    then show ?thesis
    proof cases
      case 1
      then show ?thesis by (rule update_whereE) simp_all
    qed simp
  qed
  ultimately have "\<not> mentions mid s'" using attempts by (auto simp: mentions_def rest(1-6))
  moreover have "length (en_log (fl_db s')) = Suc (length (en_log (fl_db s)))"
    unfolding log by (simp add: append_audit_def insert_row_def)
  moreover have "verify_chain (en_log (fl_db s)) = (True, None) \<longrightarrow> verify_chain (en_log (fl_db s')) = (True, None)"
    unfolding verify_chain_ok log by (simp add: chain_ok_append_audit chain_ok_forget)
  ultimately show ?thesis using 2(4) rest by simp
qed

subsection \<open>Administrators act within their scope\<close>

datatype admin_op =
    Do_lifecycle uuid string "string option"
  | Do_approve env uuid "string option"
  | Do_reject uuid "string option"
  | Do_tags uuid "string option" "string list option"
  | Do_bulk "uuid list" "string option" "string list option"
  | Do_assign uuid uuid assign_request
  | Do_unassign uuid
  | Do_rescan bool uuid

fun admin_step :: "user \<Rightarrow> time \<times> string option \<times> admin_op \<Rightarrow> fleet \<Rightarrow> fleet" where
  "admin_step u (now, ip, Do_lifecycle mid lc n) s = snd (update_lifecycle now ip (Inr u) mid lc n s)"
| "admin_step u (now, ip, Do_approve e mid n) s = snd (approve_machine e now ip (Inr u) mid n s)"
| "admin_step u (now, ip, Do_reject mid n) s = snd (reject_machine now ip (Inr u) mid n s)"
| "admin_step u (now, ip, Do_tags mid c ks) s = snd (set_machine_tags_route now ip (Inr u) mid c ks s)"
| "admin_step u (now, ip, Do_bulk mids c ks) s = snd (set_machine_tags_bulk now ip (Inr u) mids c ks s)"
| "admin_step u (now, ip, Do_assign uid mid b) s = snd (assign_user now uid ip (Inr u) mid b s)"
| "admin_step u (now, ip, Do_unassign mid) s = snd (unassign_user now ip (Inr u) mid s)"
| "admin_step u (now, ip, Do_rescan up mid) s = snd (request_rescan up now ip (Inr u) mid s)"

text \<open>The machines outside the scope of a user, and the tag rows that are not of a machine in scope.\<close>

definition foreign_machines :: "user \<Rightarrow> fleet \<Rightarrow> machine list" where
  "foreign_machines u s = filter (\<lambda>m. \<not> fleet_sees s u (m_org_id m)) (en_machines (fl_db s))"

definition in_scope :: "user \<Rightarrow> fleet \<Rightarrow> uuid \<Rightarrow> bool" where
  "in_scope u s mid \<longleftrightarrow> (\<exists>m\<in>set (en_machines (fl_db s)). m_id m = mid \<and> fleet_sees s u (m_org_id m))"

definition foreign_tags :: "uuid list \<Rightarrow> fleet \<Rightarrow> machine_tag list" where
  "foreign_tags mids s = filter (\<lambda>t. mt_machine_id t \<in> set mids) (td_machine_tags (en_tags (fl_db s)))"

definition machines_keyed :: "fleet \<Rightarrow> bool" where
  "machines_keyed s \<longleftrightarrow> distinct (map m_id (en_machines (fl_db s)))"

text \<open>What a handler may do: write rows of machines in scope, keeping id and organisation, write tag rows
  of machines in scope, and anything outside these tables and the organisations.\<close>

definition acts_within :: "user \<Rightarrow> fleet \<Rightarrow> fleet \<Rightarrow> bool" where
  "acts_within u s s' \<longleftrightarrow>
     en_orgs (fl_db s') = en_orgs (fl_db s) \<and>
     map m_id (en_machines (fl_db s')) = map m_id (en_machines (fl_db s)) \<and>
     map m_org_id (en_machines (fl_db s')) = map m_org_id (en_machines (fl_db s)) \<and>
     foreign_machines u s' = foreign_machines u s \<and> td_tags (en_tags (fl_db s')) = td_tags (en_tags (fl_db s)) \<and>
     (\<forall>mids. (\<forall>mid\<in>set mids. \<not> in_scope u s mid) \<longrightarrow> foreign_tags mids s' = foreign_tags mids s)"

lemma acts_within_refl [simp]: "acts_within u s s"
  by (simp add: acts_within_def)

lemma get_machine_rowD: "get_machine_row mid s = Some m \<Longrightarrow> m \<in> set (en_machines (fl_db s)) \<and> m_id m = mid"
  unfolding get_machine_row_def by (drule find_SomeD) simp

lemma machine_in_scopeD:
  "machine_in_scope mid u s = Inr m \<Longrightarrow> m \<in> set (en_machines (fl_db s)) \<and> m_id m = mid \<and> fleet_sees s u (m_org_id m)"
  by (auto simp: machine_in_scope_def dest: get_machine_rowD split: option.splits if_splits)

lemma machine_by_id:
  "machines_keyed s \<Longrightarrow> m \<in> set (en_machines (fl_db s)) \<Longrightarrow> r \<in> set (en_machines (fl_db s)) \<Longrightarrow> m_id r = m_id m \<Longrightarrow> r = m"
  by (auto simp: machines_keyed_def distinct_map dest: inj_onD)

lemma map_update_machine:
  assumes "\<And>r. r \<in> set rows \<Longrightarrow> P r \<Longrightarrow> f (g r) = f r"
  shows "map f (update_where P g rows) = map f rows"
  using assms by (induction rows) (auto simp: update_where_def)

lemma set_machine_within:
  assumes "machines_keyed s" and "m \<in> set (en_machines (fl_db s))" and "fleet_sees s u (m_org_id m)"
    and "m_id m' = m_id m" and "m_org_id m' = m_org_id m"
  shows "acts_within u s (set_machine m' s)"
proof -
  have only: "r = m" if "r \<in> set (en_machines (fl_db s))" "m_id r = m_id m'" for r
    using machine_by_id [OF assms(1,2) that(1)] that(2) assms(4) by simp
  have sees: "fleet_sees (set_machine m' s) = fleet_sees s"
    by (simp add: fleet_sees_def sees_def set_machine_def put_machine_def fun_eq_iff)
  have "map m_id (en_machines (fl_db (set_machine m' s))) = map m_id (en_machines (fl_db s))"
    unfolding set_machine_def put_machine_def by (simp, rule map_update_machine) (auto dest: only)
  moreover have "map m_org_id (en_machines (fl_db (set_machine m' s))) = map m_org_id (en_machines (fl_db s))"
    unfolding set_machine_def put_machine_def by (simp, rule map_update_machine) (auto dest: only simp: assms(5))
  moreover have "foreign_machines u (set_machine m' s) = foreign_machines u s"
    unfolding foreign_machines_def sees
    by (simp add: set_machine_def put_machine_def, rule filter_update_where) (auto dest: only simp: assms(3,5))
  ultimately show ?thesis
    by (simp add: acts_within_def foreign_tags_def set_machine_def put_machine_def)
qed

text \<open>Two states that agree on what the claim mentions.\<close>

definition same_core :: "fleet \<Rightarrow> fleet \<Rightarrow> bool" where
  "same_core s1 s2 \<longleftrightarrow> en_orgs (fl_db s1) = en_orgs (fl_db s2) \<and> en_machines (fl_db s1) = en_machines (fl_db s2) \<and>
     en_tags (fl_db s1) = en_tags (fl_db s2)"

lemma acts_within_same:
  assumes "same_core s1 s2"
  shows "acts_within u s s1 = acts_within u s s2" "acts_within u s1 s' = acts_within u s2 s'"
proof -
  have sees: "fleet_sees s1 = fleet_sees s2"
    using assms by (simp add: same_core_def fleet_sees_def sees_def fun_eq_iff)
  have "foreign_machines u s1 = foreign_machines u s2" "foreign_tags mids s1 = foreign_tags mids s2"
    "in_scope u s1 = in_scope u s2" for mids
    using assms by (simp_all add: foreign_machines_def foreign_tags_def in_scope_def sees same_core_def fun_eq_iff)
  then show "acts_within u s s1 = acts_within u s s2" "acts_within u s1 s' = acts_within u s2 s'"
    using assms by (simp_all add: acts_within_def same_core_def)
qed

lemma machine_audit_sel [simp]:
  "en_orgs (fl_db (machine_audit now a u m ip s)) = en_orgs (fl_db s)"
  "en_machines (fl_db (machine_audit now a u m ip s)) = en_machines (fl_db s)"
  "en_tags (fl_db (machine_audit now a u m ip s)) = en_tags (fl_db s)"
  "en_orgs (fl_db (fleet_audit now a actor target ip mid s)) = en_orgs (fl_db s)"
  "en_machines (fl_db (fleet_audit now a actor target ip mid s)) = en_machines (fl_db s)"
  "en_tags (fl_db (fleet_audit now a actor target ip mid s)) = en_tags (fl_db s)"
  by (simp_all add: machine_audit_def fleet_audit_def en_audit_def)

lemma acts_within_audit [simp]:
  "acts_within u s (machine_audit now a v m ip s') = acts_within u s s'"
  "acts_within u s (fleet_audit now a actor target ip mid s') = acts_within u s s'"
  by (rule acts_within_same; simp add: same_core_def)+

lemma on_machine_within:
  assumes "\<And>m. m \<in> set (en_machines (fl_db s)) \<Longrightarrow> m_id m = mid \<Longrightarrow> fleet_sees s u (m_org_id m) \<Longrightarrow>
      acts_within u s (snd (k u m))"
  shows "acts_within u s (snd (on_machine (Inr u) mid k s))"
  using assms by (auto simp: on_machine_def dest: machine_in_scopeD split: sum.splits)

text \<open>The tag operations write rows of the given machine only.\<close>

definition tags_of :: "uuid set \<Rightarrow> tag_db \<Rightarrow> machine_tag list" where
  "tags_of X t = filter (\<lambda>r. mt_machine_id r \<in> X) (td_machine_tags t)"

lemma write_classification_others:
  "write_classification mid c actor t = Some t' \<Longrightarrow> mid \<notin> X \<Longrightarrow> tags_of X t' = tags_of X t"
  by (auto simp: write_classification_def set_machine_classification_def tags_of_def insert_row_def new_machine_tag_def
      intro!: filter_delete_where split: option.splits prod.splits if_splits)

lemma add_purpose_tags_others:
  "mid \<notin> X \<Longrightarrow> filter (\<lambda>r. mt_machine_id r \<in> X) (add_purpose_tags mid actor tags ks mts) =
     filter (\<lambda>r. mt_machine_id r \<in> X) mts"
  by (induction mid actor tags ks mts rule: add_purpose_tags.induct)
    (auto simp: insert_row_def new_machine_tag_def split: option.splits)

lemma write_purpose_others: "mid \<notin> X \<Longrightarrow> tags_of X (write_purpose mid ks actor t) = tags_of X t"
  by (auto simp: write_purpose_def set_machine_purpose_tags_def tags_of_def add_purpose_tags_others
      intro!: filter_delete_where split: option.splits)

lemma classify_all_others:
  "classify_all mids c actor t = Some t' \<Longrightarrow> set mids \<inter> X = {} \<Longrightarrow> tags_of X t' = tags_of X t"
proof (induction mids c actor t rule: classify_all.induct)
  case (2 mid mids c actor t)
  then show ?case using write_classification_others [of mid c actor t] by (auto split: option.splits)
qed simp

lemma fold_write_purpose_others:
  "set mids \<inter> X = {} \<Longrightarrow> tags_of X (fold (\<lambda>mid. write_purpose mid ks actor) mids t) = tags_of X t"
  by (induction mids arbitrary: t) (auto simp: write_purpose_others)

lemma write_td_tags:
  "write_classification mid c actor t = Some t' \<Longrightarrow> td_tags t' = td_tags t"
  "td_tags (write_purpose mid ks actor t) = td_tags t"
  "classify_all mids c actor t = Some t' \<Longrightarrow> td_tags t' = td_tags t"
  "td_tags (fold (\<lambda>mid. write_purpose mid ks actor) mids t) = td_tags t"
proof -
  show one: "write_classification mid c actor t = Some t' \<Longrightarrow> td_tags t' = td_tags t" for mid c actor t t'
    by (auto simp: write_classification_def set_machine_classification_def split: option.splits prod.splits if_splits)
  show two: "td_tags (write_purpose mid ks actor t) = td_tags t" for mid ks actor t
    by (simp add: write_purpose_def set_machine_purpose_tags_def split: option.split)
  show "classify_all mids c actor t = Some t' \<Longrightarrow> td_tags t' = td_tags t"
    by (induction mids c actor t rule: classify_all.induct) (auto dest: one split: option.splits)
  show "td_tags (fold (\<lambda>mid. write_purpose mid ks actor) mids t) = td_tags t"
    by (induction mids arbitrary: t) (simp_all add: two)
qed

lemma set_tags_within:
  assumes "td_tags t = td_tags (en_tags (fl_db s))" and "\<And>X. (\<forall>mid\<in>X. \<not> in_scope u s mid) \<Longrightarrow> tags_of X t = tags_of X (en_tags (fl_db s))"
  shows "acts_within u s (set_tags t s)"
  using assms
  by (simp add: acts_within_def foreign_machines_def foreign_tags_def set_tags_def fleet_sees_def sees_def tags_of_def)

lemma fl_db_update_within:
  "acts_within u (s\<lparr>fl_db := (fl_db s)\<lparr>en_users := us\<rparr>\<rparr>) s' = acts_within u s s'"
  by (rule acts_within_same) (simp add: same_core_def)

lemma admin_step_within:
  assumes "machines_keyed s"
  shows "acts_within u s (admin_step u op' s)"
proof -
  obtain now ip op1 where op': "op' = (now, ip, op1)" by (cases op')
  note one = set_machine_within [OF assms]
  show ?thesis
  proof (cases op1)
    case (Do_lifecycle mid lc n)
    then show ?thesis unfolding op'
      by (simp add: update_lifecycle_def Let_def) (intro impI on_machine_within, simp add: one)
  next
    case (Do_approve e mid n)
    then show ?thesis unfolding op'
      by (simp add: approve_machine_def) (rule on_machine_within, simp add: one Let_def)
  next
    case (Do_reject mid n)
    then show ?thesis unfolding op'
      by (simp add: reject_machine_def) (rule on_machine_within, simp add: one Let_def)
  next
    case (Do_tags mid c ks)
    have "acts_within u s (set_tags (write_purpose mid ks (u_id u) t1) s)"
      if m: "m \<in> set (en_machines (fl_db s))" "m_id m = mid" "fleet_sees s u (m_org_id m)"
        and t1: "write_classification mid c (u_id u) (en_tags (fl_db s)) = Some t1" for m t1
    proof (rule set_tags_within, simp add: write_td_tags(2,4) write_td_tags(1) [OF t1])
      fix X
      assume "\<forall>mid\<in>X. \<not> in_scope u s mid"
      with m have "mid \<notin> X" by (auto simp: in_scope_def)
      then show "tags_of X (write_purpose mid ks (u_id u) t1) = tags_of X (en_tags (fl_db s))"
        using write_purpose_others write_classification_others [OF t1] by metis
    qed
    with Do_tags show ?thesis unfolding op'
      by (simp add: set_machine_tags_route_def Let_def) (rule on_machine_within, auto simp: Let_def split: option.split)
  next
    case (Do_bulk mids c ks)
    let ?allowed = "map m_id (filter (\<lambda>m. m_id m \<in> set mids \<and> fleet_sees s u (m_org_id m)) (en_machines (fl_db s)))"
    have "acts_within u s (set_tags (fold (\<lambda>mid. write_purpose mid ks (u_id u)) ?allowed t) s)"
      if t: "classify_all ?allowed c (u_id u) (en_tags (fl_db s)) = Some t" for t
    proof (rule set_tags_within, simp add: write_td_tags(2,4) write_td_tags(3) [OF t])
      fix X
      assume "\<forall>mid\<in>X. \<not> in_scope u s mid"
      then have "set ?allowed \<inter> X = {}" by (auto simp: in_scope_def)
      then show "tags_of X (fold (\<lambda>mid. write_purpose mid ks (u_id u)) ?allowed t) = tags_of X (en_tags (fl_db s))"
        using fold_write_purpose_others classify_all_others [OF t] by metis
    qed
    with Do_bulk show ?thesis unfolding op'
      by (auto simp: set_machine_tags_bulk_def Let_def split: option.split)
  next
    case (Do_assign uid mid b)
    have "acts_within u s (set_machine (m\<lparr>m_assigned_user_id := x\<rparr>) (s\<lparr>fl_db := (fl_db s)\<lparr>en_users := us\<rparr>\<rparr>))"
      if m: "m \<in> set (en_machines (fl_db s))" "fleet_sees s u (m_org_id m)" for m x us
    proof -
      let ?s1 = "s\<lparr>fl_db := (fl_db s)\<lparr>en_users := us\<rparr>\<rparr>"
      have "acts_within u ?s1 (set_machine (m\<lparr>m_assigned_user_id := x\<rparr>) ?s1)"
        by (rule set_machine_within [where m = m]) (use assms m in \<open>simp_all add: machines_keyed_def fleet_sees_def sees_def\<close>)
      then show ?thesis by (simp only: fl_db_update_within)
    qed
    with Do_assign show ?thesis unfolding op'
      by (simp add: assign_user_def Let_def) (rule on_machine_within, auto split: sum.split)
  next
    case (Do_unassign mid)
    then show ?thesis unfolding op'
      by (simp add: unassign_user_def) (rule on_machine_within, auto simp: one split: option.split)
  next
    case (Do_rescan up mid)
    have "acts_within u s (s\<lparr>fl_rescan := f\<rparr>)" for f
      using acts_within_same(1) [of "s\<lparr>fl_rescan := f\<rparr>" s u s] by (simp add: same_core_def)
    with Do_rescan show ?thesis unfolding op'
      by (simp add: request_rescan_def) (rule on_machine_within, simp)
  qed
qed

lemma in_scope_cong:
  assumes "en_orgs (fl_db s') = en_orgs (fl_db s)" "map m_id (en_machines (fl_db s')) = map m_id (en_machines (fl_db s))"
    "map m_org_id (en_machines (fl_db s')) = map m_org_id (en_machines (fl_db s))"
  shows "in_scope u s' = in_scope u s"
proof -
  have ids: "in_scope u t mid \<longleftrightarrow> (\<exists>p\<in>set (zip (map m_id (en_machines (fl_db t))) (map m_org_id (en_machines (fl_db t)))).
      fst p = mid \<and> snd p \<in> visible_org_ids (en_orgs (fl_db t)) u)" for t mid
    by (simp add: zip_map_map zip_same_conv_map in_scope_def fleet_sees_def sees_def)
  show ?thesis by (rule ext) (simp only: ids assms)
qed

lemma acts_within_trans: "acts_within u s1 s2 \<Longrightarrow> acts_within u s2 s3 \<Longrightarrow> acts_within u s1 s3"
  unfolding acts_within_def using in_scope_cong [of s2 s1 u] by simp

lemma acts_within_keyed: "acts_within u s s' \<Longrightarrow> machines_keyed s \<Longrightarrow> machines_keyed s'"
  by (simp add: acts_within_def machines_keyed_def)

interpretation admin_ops: step_system "admin_step u" "\<lambda>_ _. True" "\<lambda>s. machines_keyed s \<and> acts_within u s0 s" for u s0
  by unfold_locales (blast intro: admin_step_within acts_within_trans acts_within_keyed)

lemma admin_ops_admissible: "admin_ops.admissible u es s"
  by (induction es arbitrary: s) simp_all

text \<open>C19: no sequence of lifecycle changes, approvals, rejections, tag changes, assignments and rescans
  by an administrator touches the row or the tags of a machine outside the organisations the
  administrator sees, moves a machine to another organisation, or adds or removes one.\<close>

theorem machine_ops_scoped:
  assumes "distinct (map m_id (en_machines (fl_db s)))" and "m \<in> set (en_machines (fl_db s))"
    and "m_org_id m \<notin> visible_org_ids (en_orgs (fl_db s)) u"
    and "s' = run (admin_step u) ops s"
  shows "m \<in> set (en_machines (fl_db s')) \<and>
     map m_id (en_machines (fl_db s')) = map m_id (en_machines (fl_db s)) \<and>
     map m_org_id (en_machines (fl_db s')) = map m_org_id (en_machines (fl_db s)) \<and>
     get_machine_tag_keys (m_id m) (en_tags (fl_db s')) = get_machine_tag_keys (m_id m) (en_tags (fl_db s))"
proof -
  have keyed: "machines_keyed s" using assms(1) by (simp add: machines_keyed_def)
  then have within: "acts_within u s s'"
    using admin_ops.run_inv [OF admin_ops_admissible, where s = s] assms(4) by simp
  have unseen: "\<not> fleet_sees s u (m_org_id m)" using assms(3) by (simp add: fleet_sees_def sees_def)
  then have "m \<in> set (foreign_machines u s)" using assms(2) by (simp add: foreign_machines_def)
  then have "m \<in> set (foreign_machines u s')" using within by (simp add: acts_within_def)
  moreover have "\<not> in_scope u s (m_id m)"
    using machine_by_id [OF keyed assms(2)] unseen by (auto simp: in_scope_def)
  then have "foreign_tags [m_id m] s' = foreign_tags [m_id m] s" using within by (simp add: acts_within_def)
  then have "get_machine_tags (m_id m) (en_tags (fl_db s')) = get_machine_tags (m_id m) (en_tags (fl_db s))"
    using within by (intro get_machine_tags_cong) (simp_all add: acts_within_def foreign_tags_def)
  ultimately show ?thesis
    using within by (simp add: acts_within_def foreign_machines_def get_machine_tag_keys_def)
qed

definition sample_fleet_machine :: machine where
  "sample_fleet_machine =
     \<lparr>m_id = 20, m_org_id = 10, m_machine_uuid = ''w'', m_hostname = Some ''h'', m_fingerprint = [], m_status = ONLINE,
      m_is_vm = None, m_enrolled_at = 0, m_last_seen_at = Some 0, m_assigned_user_id = None, m_public_ip = None,
      m_lifecycle = ''in_use'', m_note = None\<rparr>"

definition sample_fleet :: "machine list \<Rightarrow> fleet" where
  "sample_fleet ms =
     \<lparr>fl_db = \<lparr>en_tokens = [], en_machines = ms, en_users = [sample_user], en_orgs = [(10, None), (11, None)],
        en_attempts = [], en_drifts = [], en_tags = \<lparr>td_tags = [], td_machine_tags = []\<rparr>, en_log = []\<rparr>,
      fl_heartbeats = [], fl_refs = [], fl_online = (\<lambda>_. None), fl_rescan = (\<lambda>_. None), fl_published = []\<rparr>"

lemma sample_user_scope: "visible_org_ids [(10, None), (11, None)] sample_user = {10}"
proof -
  have "\<not> is_super_admin sample_user" by (simp add: is_super_admin_def sample_user_def super_admin_roles_def)
  then show ?thesis by (simp add: visible_org_ids_def by_parent_eq org_walk.simps) (simp add: sample_user_def)
qed

lemma machine_ops_scoped_witness:
  "sample_fleet_machine\<lparr>m_id := 21, m_org_id := 11\<rparr> \<in>
     set (en_machines (fl_db (run (admin_step sample_user)
       [(5, None, Do_reject 21 None), (6, None, Do_lifecycle 20 ''in_repair'' None)]
       (sample_fleet [sample_fleet_machine, sample_fleet_machine\<lparr>m_id := 21, m_org_id := 11\<rparr>]))))"
proof -
  let ?s = "sample_fleet [sample_fleet_machine, sample_fleet_machine\<lparr>m_id := 21, m_org_id := 11\<rparr>]"
  let ?m = "sample_fleet_machine\<lparr>m_id := 21, m_org_id := 11\<rparr>"
  have "distinct (map m_id (en_machines (fl_db ?s)))" "?m \<in> set (en_machines (fl_db ?s))"
    "m_org_id ?m \<notin> visible_org_ids (en_orgs (fl_db ?s)) sample_user"
    by (simp_all add: sample_fleet_def sample_fleet_machine_def sample_user_scope)
  from machine_ops_scoped [OF this refl] show ?thesis by blast
qed

lemma delete_machine_effects_witness:
  "en_machines (fl_db (snd (delete_machine 5 None (Inr sample_user) 20
      (sample_fleet [sample_fleet_machine, sample_fleet_machine\<lparr>m_id := 21\<rparr>])))) = [sample_fleet_machine\<lparr>m_id := 21\<rparr>]"
proof -
  let ?s = "sample_fleet [sample_fleet_machine, sample_fleet_machine\<lparr>m_id := 21\<rparr>]"
  let ?r = "delete_machine 5 None (Inr sample_user) 20 ?s"
  have ok: "fst ?r = Inr ()"
    by (simp add: delete_machine_def get_machine_row_def still_referenced_def sample_fleet_def sample_fleet_machine_def Let_def)
  have "?r = (Inr (), snd ?r)" using ok by (metis prod.collapse)
  from delete_machine_effects [OF this] show ?thesis by (simp add: sample_fleet_def sample_fleet_machine_def)
qed

end
