(* ===== verification/Monitor.thy ===== *)
theory Monitor
  imports AlertEngine Machines
begin

text \<open>
  The background monitor (\<open>services/monitor.py\<close>): the sweeps that turn silent machines offline and
  lost, the cleaning of enrolment tokens, the scan of the alert rules, and the loop that
  schedules them. The offline sweep and the scan raise alerts in their own session; when the
  session is rolled back inside an alert, the rows they loaded are expired and the next access
  to one raises. A session that is closed drops what it has not committed.
\<close>

subsection \<open>The offline sweep\<close>

definition offline_threshold :: "env \<Rightarrow> time" where
  "offline_threshold e = seconds (effective_online_ttl_seconds e + 60)"

definition unseen_since :: "time \<Rightarrow> machine \<Rightarrow> bool" where
  "unseen_since cutoff m \<longleftrightarrow> (case m_last_seen_at m of None \<Rightarrow> True | Some t \<Rightarrow> t < cutoff)"

definition due_offline :: "time \<Rightarrow> machine \<Rightarrow> bool" where
  "due_offline cutoff m \<longleftrightarrow> m_status m = ONLINE \<and> unseen_since cutoff m"

definition set_status :: "machine_status \<Rightarrow> machine \<Rightarrow> machine" where
  "set_status st m = m\<lparr>m_status := st\<rparr>"

definition display_name :: "machine \<Rightarrow> string" where
  "display_name m = or_truthy (m_hostname m) (take 12 (m_machine_uuid m))"

definition has_rule :: "string \<Rightarrow> alert_db \<Rightarrow> bool" where
  "has_rule c db \<longleftrightarrow> (\<exists>r\<in>set (al_rules db). ar_template_code r = c \<and> ar_enabled r)"

definition close_session :: "session \<Rightarrow> session" where
  "close_session s = s\<lparr>ss_work := ss_committed s\<rparr>"

text \<open>The loop over the rows loaded when the session had seen \<open>epoch\<close> rollbacks; the first component
  tells whether it raised. What the alert raises is caught.\<close>

fun sweep_rows ::
  "(string \<Rightarrow> string \<Rightarrow> string \<Rightarrow> tg_reply) \<Rightarrow> bot_view \<Rightarrow> time \<Rightarrow> nat \<Rightarrow> machine list \<Rightarrow> session \<Rightarrow> bool \<times> session" where
  "sweep_rows telegram bv now epoch [] s = (False, s)"
| "sweep_rows telegram bv now epoch (m # ms) s =
     (if ss_rollbacks s \<noteq> epoch then (True, s)
      else
        let s1 = modify (\<lambda>db. db\<lparr>al_machines := update_where (\<lambda>r. m_id r = m_id m) (set_status OFFLINE) (al_machines db)\<rparr>) s;
            s2 = s1\<lparr>ss_machine_events := ss_machine_events s1 @ [(m_id m, OFFLINE, m_hostname m)]\<rparr>;
            s3 = (if has_rule ''machine_offline'' (ss_work s2)
                  then snd (trigger_alert telegram bv now ''machine_offline'' (Some (m_org_id m)) (Some (m_id m))
                         [(''hostname'', Some (display_name m))] s2)
                  else s2)
        in sweep_rows telegram bv now epoch ms s3)"

definition sweep_offline ::
  "(string \<Rightarrow> string \<Rightarrow> string \<Rightarrow> tg_reply) \<Rightarrow> bot_view \<Rightarrow> env \<Rightarrow> time \<Rightarrow> session \<Rightarrow> bool \<times> session" where
  "sweep_offline telegram bv e now s =
     (let rows = filter (due_offline (now - offline_threshold e)) (al_machines (ss_work s))
      in case sweep_rows telegram bv now (ss_rollbacks s) rows s of
           (True, s') \<Rightarrow> (True, close_session s')
         | (False, s') \<Rightarrow>
             if rows = [] then (False, close_session s')
             else (case commit s' of
                     None \<Rightarrow> (True, close_session s')
                   | Some s'' \<Rightarrow> (False, close_session s'')))"

subsection \<open>The sweep for lost machines, the tokens\<close>

definition due_lost :: "time \<Rightarrow> machine \<Rightarrow> bool" where
  "due_lost cutoff m \<longleftrightarrow> m_status m = OFFLINE \<and> unseen_since cutoff m"

text \<open>\<open>lost_days\<close> is the setting \<open>lost_after_days\<close>; a failure to publish is caught.\<close>

definition sweep_lost :: "int \<Rightarrow> time \<Rightarrow> machine list \<Rightarrow> machine list" where
  "sweep_lost lost_days now ms = update_where (due_lost (now - days lost_days)) (set_status LOST) ms"

definition stale_token :: "time \<Rightarrow> enroll_token \<Rightarrow> bool" where
  "stale_token now t \<longleftrightarrow> et_expires_at t < now \<or> et_status t \<in> {TEXPIRED, TREVOKED}"

text \<open>One \<open>DELETE\<close> for all stale tokens: it is refused as a whole when an attempt refers to one of them, and
  the failure is caught.\<close>

definition cleanup_tokens :: "time \<Rightarrow> enroll_db \<Rightarrow> enroll_db" where
  "cleanup_tokens now db =
     (if \<exists>a\<in>set (en_attempts db). \<exists>t\<in>set (en_tokens db). stale_token now t \<and> ea_token_id a = Some (et_id t) then db
      else db\<lparr>en_tokens := delete_where (stale_token now) (en_tokens db)\<rparr>)"

subsection \<open>The scan of the alert rules\<close>

text \<open>Outside any handler: what an alert raises ends the scan.\<close>

fun alert_machines ::
  "(string \<Rightarrow> string \<Rightarrow> string \<Rightarrow> tg_reply) \<Rightarrow> bot_view \<Rightarrow> time \<Rightarrow> nat \<Rightarrow> string \<Rightarrow> (machine \<Rightarrow> render_context) \<Rightarrow>
   machine list \<Rightarrow> session \<Rightarrow> bool \<times> session" where
  "alert_machines telegram bv now epoch c vars [] s = (False, s)"
| "alert_machines telegram bv now epoch c vars (m # ms) s =
     (if ss_rollbacks s \<noteq> epoch then (True, s)
      else case trigger_alert telegram bv now c (Some (m_org_id m)) (Some (m_id m)) (vars m) s of
          (Inl e, s') \<Rightarrow> (True, s')
        | (Inr evs, s') \<Rightarrow> alert_machines telegram bv now epoch c vars ms s')"

definition machine_new_window :: time where
  "machine_new_window = minutes 30"

definition new_vars :: "machine \<Rightarrow> render_context" where
  "new_vars m = [(''hostname'', Some (display_name m)), (''enrolled_at'', Some (iso_utc (m_enrolled_at m)))]"

definition lost_vars :: "int \<Rightarrow> machine \<Rightarrow> render_context" where
  "lost_vars n m = [(''hostname'', Some (display_name m)), (''threshold_days'', Some (str_int n))]"

text \<open>\<open>py_int\<close> is \<open>int\<close> on a value of the configuration; \<open>None\<close> when it raises.\<close>

definition lost_threshold :: "(json \<Rightarrow> int option) \<Rightarrow> alert_rule \<Rightarrow> int option" where
  "lost_threshold py_int r = (case map_of (ar_config r) ''threshold_days'' of None \<Rightarrow> Some 7 | Some v \<Rightarrow> py_int v)"

fun scan_rules ::
  "(json \<Rightarrow> int option) \<Rightarrow> (string \<Rightarrow> string \<Rightarrow> string \<Rightarrow> tg_reply) \<Rightarrow> bot_view \<Rightarrow> time \<Rightarrow> nat \<Rightarrow> alert_rule list \<Rightarrow> session \<Rightarrow>
   bool \<times> session" where
  "scan_rules py_int telegram bv now epoch [] s = (False, s)"
| "scan_rules py_int telegram bv now epoch (r # rs) s =
     (if ss_rollbacks s \<noteq> epoch then (True, s)
      else case get_template (al_templates (ss_work s)) (ar_template_code r) of
        None \<Rightarrow> scan_rules py_int telegram bv now epoch rs s
      | Some t \<Rightarrow>
          (let ids = scope_orgs (org_rows (ss_work s)) (ar_org_id r) (ar_scope_mode r)
           in if ids = [] then scan_rules py_int telegram bv now epoch rs s
              else
                (let res =
                   (if ar_template_code r = ''machine_new''
                    then alert_machines telegram bv now epoch ''machine_new'' new_vars
                           (filter (\<lambda>m. now - machine_new_window \<le> m_enrolled_at m \<and> m_org_id m \<in> set ids)
                              (al_machines (ss_work s))) s
                    else if ar_template_code r = ''machine_lost''
                    then (case lost_threshold py_int r of
                            None \<Rightarrow> (True, s)
                          | Some n \<Rightarrow>
                              alert_machines telegram bv now epoch ''machine_lost'' (lost_vars n)
                                (filter (\<lambda>m. m_status m = LOST \<and> unseen_since (now - days n) m \<and> m_org_id m \<in> set ids)
                                   (al_machines (ss_work s))) s)
                    else (False, s))
                 in case res of
                      (True, s') \<Rightarrow> (True, s')
                    | (False, s') \<Rightarrow> scan_rules py_int telegram bv now epoch rs s')))"

definition scan_alerts ::
  "(json \<Rightarrow> int option) \<Rightarrow> (string \<Rightarrow> string \<Rightarrow> string \<Rightarrow> tg_reply) \<Rightarrow> bot_view \<Rightarrow> time \<Rightarrow> session \<Rightarrow> bool \<times> session" where
  "scan_alerts py_int telegram bv now s =
     (case scan_rules py_int telegram bv now (ss_rollbacks s) (filter ar_enabled (al_rules (ss_work s))) s of
        (True, s') \<Rightarrow> (True, close_session s')
      | (False, s') \<Rightarrow>
          (case commit s' of None \<Rightarrow> (True, close_session s') | Some s'' \<Rightarrow> (False, close_session s'')))"

subsection \<open>The loop\<close>

datatype job = Partition_check | Alert_scan | Lost_sweep | Token_cleanup | Velociraptor_check | Dfir_worker

definition job_order :: "job list" where
  "job_order = [Partition_check, Alert_scan, Lost_sweep, Token_cleanup, Velociraptor_check, Dfir_worker]"

record monitor_settings =
  ms_velociraptor_sync_interval_seconds :: int
  ms_llm_investigation_interval_seconds :: int

definition interval :: "monitor_settings \<Rightarrow> job \<Rightarrow> int" where
  "interval c j =
     (case j of Partition_check \<Rightarrow> 3600 | Alert_scan \<Rightarrow> 60 | Lost_sweep \<Rightarrow> 3600 | Token_cleanup \<Rightarrow> 3600
      | Velociraptor_check \<Rightarrow> ms_velociraptor_sync_interval_seconds c
      | Dfir_worker \<Rightarrow> ms_llm_investigation_interval_seconds c)"

text \<open>The times at which the jobs ran last; the alert scan starts with the interval of another scan.\<close>

definition first_checks :: "monitor_settings \<Rightarrow> job \<Rightarrow> int" where
  "first_checks c j = (if j = Alert_scan then - 600 else - interval c j)"

text \<open>Only the scan of the alert rules can raise: the other jobs catch everything. A job that raises
  ends the iteration and does not count as done.\<close>

fun run_jobs :: "monitor_settings \<Rightarrow> int \<Rightarrow> bool \<Rightarrow> job list \<Rightarrow> (job \<Rightarrow> int) \<Rightarrow> job list \<times> (job \<Rightarrow> int)" where
  "run_jobs c now scan_raises [] last_run = ([], last_run)"
| "run_jobs c now scan_raises (j # js) last_run =
     (if now - last_run j \<ge> interval c j
      then if j = Alert_scan \<and> scan_raises then ([j], last_run)
           else (case run_jobs c now scan_raises js (last_run(j := now)) of (done_jobs, l) \<Rightarrow> (j # done_jobs, l))
      else run_jobs c now scan_raises js last_run)"

text \<open>One iteration: what the offline sweep raises ends it, too.\<close>

record monitor_tick =
  mk_now :: int
  mk_sweep_raises :: bool
  mk_scan_raises :: bool

definition monitor_iteration :: "monitor_settings \<Rightarrow> monitor_tick \<Rightarrow> (job \<Rightarrow> int) \<Rightarrow> job list \<times> (job \<Rightarrow> int)" where
  "monitor_iteration c k last_run =
     (if mk_sweep_raises k then ([], last_run) else run_jobs c (mk_now k) (mk_scan_raises k) job_order last_run)"

subsection \<open>The offline sweep as a step on the machines\<close>

text \<open>The abstract step: of the machines that are due, those in \<open>X\<close> become offline.\<close>

definition mark_offline :: "time \<Rightarrow> uuid set \<Rightarrow> machine list \<Rightarrow> machine list" where
  "mark_offline cutoff X ms = update_where (\<lambda>m. due_offline cutoff m \<and> m_id m \<in> X) (set_status OFFLINE) ms"

lemma mark_offline_empty [simp]: "mark_offline cutoff {} ms = ms"
  by (simp add: mark_offline_def update_where_def)

lemma set_status_sel [simp]:
  "m_id (set_status st m) = m_id m" "m_status (set_status st m) = st" "m_last_seen_at (set_status st m) = m_last_seen_at m"
  "m_org_id (set_status st m) = m_org_id m"
  by (simp_all add: set_status_def)

lemma set_status_twice [simp]: "set_status a (set_status b m) = set_status a m"
  by (simp add: set_status_def)

lemma mark_offline_insert:
  assumes "distinct (map m_id ms)" and "m \<in> set ms" and "due_offline cutoff m"
  shows "update_where (\<lambda>r. m_id r = m_id m) (set_status OFFLINE) (mark_offline cutoff X ms) = mark_offline cutoff (insert (m_id m) X) ms"
  unfolding mark_offline_def update_where_def map_map
proof (rule map_cong [OF refl])
  fix r
  assume r: "r \<in> set ms"
  have "due_offline cutoff r" if "m_id r = m_id m"
  proof -
    have "r = m" using assms(1,2) r that by (auto simp: distinct_map dest: inj_onD)
    with assms(3) show ?thesis by simp
  qed
  then show "((\<lambda>r. if m_id r = m_id m then set_status OFFLINE r else r) \<circ>
      (\<lambda>r. if due_offline cutoff r \<and> m_id r \<in> X then set_status OFFLINE r else r)) r =
    (if due_offline cutoff r \<and> m_id r \<in> insert (m_id m) X then set_status OFFLINE r else r)"
    by (cases "m_id r = m_id m") simp_all
qed

definition sweep_inv :: "time \<Rightarrow> machine list \<Rightarrow> nat \<Rightarrow> uuid set \<Rightarrow> session \<Rightarrow> bool" where
  "sweep_inv cutoff ms epoch X s \<longleftrightarrow> epoch \<le> ss_rollbacks s \<and>
     (\<exists>Y. al_machines (ss_committed s) = mark_offline cutoff Y ms) \<and>
     (\<exists>Y. al_machines (ss_work s) = mark_offline cutoff Y ms) \<and>
     (ss_rollbacks s = epoch \<longrightarrow> al_machines (ss_work s) = mark_offline cutoff X ms)"

lemma sweep_inv_within:
  assumes "within_versions al_machines s s'" and inv: "sweep_inv cutoff ms epoch X s"
  shows "sweep_inv cutoff ms epoch X s'"
proof -
  have old: "al_machines (ss_committed s') = al_machines (ss_work s) \<or> al_machines (ss_committed s') = al_machines (ss_committed s)"
    "al_machines (ss_work s') = al_machines (ss_work s) \<or> al_machines (ss_work s') = al_machines (ss_committed s)"
    and more: "ss_rollbacks s \<le> ss_rollbacks s'"
      "ss_rollbacks s' = ss_rollbacks s \<longrightarrow> al_machines (ss_work s') = al_machines (ss_work s)"
    using assms(1) by (simp_all add: within_versions_def)
  obtain Y Z where Y: "al_machines (ss_committed s) = mark_offline cutoff Y ms" "al_machines (ss_work s) = mark_offline cutoff Z ms"
    using inv by (auto simp: sweep_inv_def)
  have "\<exists>Y. al_machines (ss_committed s') = mark_offline cutoff Y ms" using old(1) unfolding Y by blast
  moreover have "\<exists>Y. al_machines (ss_work s') = mark_offline cutoff Y ms" using old(2) unfolding Y by blast
  moreover have "epoch \<le> ss_rollbacks s'" using inv more(1) by (simp add: sweep_inv_def)
  moreover have "al_machines (ss_work s') = mark_offline cutoff X ms" if "ss_rollbacks s' = epoch"
  proof -
    have "ss_rollbacks s = epoch" using inv more(1) that by (simp add: sweep_inv_def)
    with inv more(2) that show ?thesis by (simp add: sweep_inv_def)
  qed
  ultimately show ?thesis by (simp add: sweep_inv_def)
qed

lemma sweep_rows_inv:
  assumes "distinct (map m_id ms)"
  shows "set rows \<subseteq> {m \<in> set ms. due_offline cutoff m} \<Longrightarrow> sweep_inv cutoff ms epoch X s \<Longrightarrow>
    sweep_rows telegram bv now epoch rows s = (raised, s') \<Longrightarrow>
    sweep_inv cutoff ms epoch (X \<union> m_id ` set rows) s' \<or> raised \<and> (\<exists>Z. sweep_inv cutoff ms epoch Z s' \<and> epoch < ss_rollbacks s')"
proof (induction rows arbitrary: X s)
  case (Cons m rows)
  show ?case
  proof (cases "ss_rollbacks s = epoch")
    case False
    with Cons.prems have "raised" "s' = s" by simp_all
    moreover have "epoch < ss_rollbacks s" using False Cons.prems(2) by (simp add: sweep_inv_def)
    ultimately show ?thesis using Cons.prems(2) by blast
  next
    case True
    let ?s1 = "modify (\<lambda>db. db\<lparr>al_machines := update_where (\<lambda>r. m_id r = m_id m) (set_status OFFLINE) (al_machines db)\<rparr>) s"
    let ?s2 = "?s1\<lparr>ss_machine_events := ss_machine_events ?s1 @ [(m_id m, OFFLINE, m_hostname m)]\<rparr>"
    let ?s3 = "if has_rule ''machine_offline'' (ss_work ?s2)
      then snd (trigger_alert telegram bv now ''machine_offline'' (Some (m_org_id m)) (Some (m_id m))
             [(''hostname'', Some (display_name m))] ?s2) else ?s2"
    have m: "m \<in> set ms" "due_offline cutoff m" using Cons.prems(1) by auto
    have "al_machines (ss_work ?s2) = mark_offline cutoff (insert (m_id m) X) ms"
      using Cons.prems(2) True mark_offline_insert [OF assms m] by (simp add: sweep_inv_def modify_def)
    then have "sweep_inv cutoff ms epoch (insert (m_id m) X) ?s2"
      using Cons.prems(2) by (auto simp: sweep_inv_def modify_def)
    moreover have "within_versions al_machines ?s2 ?s3"
      using trigger_alert_within [of al_machines] by simp
    ultimately have "sweep_inv cutoff ms epoch (insert (m_id m) X) ?s3" using sweep_inv_within by blast
    moreover have "sweep_rows telegram bv now epoch rows ?s3 = (raised, s')"
      using Cons.prems(3) True by (simp add: Let_def)
    ultimately show ?thesis using Cons.IH [of "insert (m_id m) X" ?s3] Cons.prems(1) by simp
  qed
qed auto

lemma mark_offline_due: "mark_offline cutoff (m_id ` set (filter (due_offline cutoff) ms)) ms = mark_offline cutoff UNIV ms"
  unfolding mark_offline_def update_where_def by (rule map_cong [OF refl]) auto

lemma mark_offline_none: "filter (due_offline cutoff) ms = [] \<Longrightarrow> mark_offline cutoff X ms = ms"
  unfolding mark_offline_def update_where_def filter_empty_conv by (rule map_idI) simp

lemma sweep_offline_cases:
  assumes "sweep_offline telegram bv e now s = (raised, s')"
  defines "rows \<equiv> filter (due_offline (now - offline_threshold e)) (al_machines (ss_work s))"
  obtains s1 where "sweep_rows telegram bv now (ss_rollbacks s) rows s = (True, s1)" "raised" "s' = close_session s1"
  | "rows = []" "\<not> raised" "s' = close_session s"
  | s1 where "sweep_rows telegram bv now (ss_rollbacks s) rows s = (False, s1)" "raised" "s' = close_session s1"
  | s1 s2 where "sweep_rows telegram bv now (ss_rollbacks s) rows s = (False, s1)" "commit s1 = Some s2" "\<not> raised"
      "s' = close_session s2"
proof (cases "sweep_rows telegram bv now (ss_rollbacks s) rows s")
  case (Pair b s1)
  note sw = assms(1) [unfolded sweep_offline_def Let_def, folded rows_def]
  show ?thesis
  proof (cases b)
    case True
    with Pair sw that(1) show ?thesis by simp
  next
    case b: False
    show ?thesis
    proof (cases "rows = []")
      case True
      with Pair have "s1 = s" by simp
      with True b Pair sw that(2) show ?thesis by simp
    next
      case False
      with b Pair sw that(3,4) show ?thesis by (cases "commit s1") simp_all
    qed
  qed
qed

text \<open>One run of the offline sweep refines the step that turns some of the due machines offline and
  changes nothing else of the machines, whatever alerts it raises; when it neither raises nor
  has its session rolled back by an alert, it turns all of them offline.\<close>

theorem sweep_offline_refines:
  assumes "ss_work s = ss_committed s" and "distinct (map m_id (al_machines (ss_committed s)))"
    and "sweep_offline telegram bv e now s = (raised, s')"
  shows "(\<exists>X. al_machines (ss_committed s') = mark_offline (now - offline_threshold e) X (al_machines (ss_committed s))) \<and>
    (\<not> raised \<and> ss_rollbacks s' = ss_rollbacks s \<longrightarrow>
       al_machines (ss_committed s') = mark_offline (now - offline_threshold e) UNIV (al_machines (ss_committed s)))"
proof -
  let ?c = "now - offline_threshold e"
  let ?ms = "al_machines (ss_committed s)"
  let ?rows = "filter (due_offline ?c) ?ms"
  have start: "sweep_inv ?c ?ms (ss_rollbacks s) {} s"
  proof -
    have "\<exists>Y. ?ms = mark_offline ?c Y ?ms" by (rule exI [of _ "{}"]) simp
    then show ?thesis by (simp add: sweep_inv_def assms(1))
  qed
  have rows: "set ?rows \<subseteq> {m \<in> set ?ms. due_offline ?c m}" by simp
  note inv = sweep_rows_inv [OF assms(2) rows start]
  have work: "al_machines (ss_work s) = ?ms" by (simp add: assms(1))
  from assms(3) show ?thesis
  proof (cases rule: sweep_offline_cases)
    case (1 s1)
    with inv [OF 1(1) [unfolded work]] show ?thesis by (auto simp: sweep_inv_def close_session_def)
  next
    case 2
    then have "filter (due_offline ?c) ?ms = []" by (simp add: work)
    with 2 show ?thesis using mark_offline_none [of ?c ?ms] by (auto simp: close_session_def)
  next
    case (3 s1)
    with inv [OF 3(1) [unfolded work]] show ?thesis by (auto simp: sweep_inv_def close_session_def)
  next
    case (4 s1 s2)
    have "sweep_inv ?c ?ms (ss_rollbacks s) (m_id ` set ?rows) s1" using inv [OF 4(1) [unfolded work]] by simp
    moreover have "s2 = s1\<lparr>ss_committed := ss_work s1\<rparr>" using 4(2) by (simp add: commit_def split: if_splits)
    ultimately show ?thesis using 4(4) mark_offline_due [of ?c ?ms] by (auto simp: sweep_inv_def close_session_def)
  qed
qed

subsection \<open>A silent machine\<close>

text \<open>The machines of the fleet as the monitor sees them: heartbeats, the offline step, the lost sweep.\<close>

datatype watch_event = Seen uuid time | Offline_step time "uuid set" | Lost_step int time

fun watch :: "watch_event \<Rightarrow> machine list \<Rightarrow> machine list" where
  "watch (Seen mid t) ms =
     update_where (\<lambda>m. m_id m = mid) (\<lambda>m. m\<lparr>m_status := seen_status (m_status m), m_last_seen_at := Some t\<rparr>) ms"
| "watch (Offline_step cutoff X) ms = mark_offline cutoff X ms"
| "watch (Lost_step n now) ms = sweep_lost n now ms"

definition silent :: "uuid \<Rightarrow> watch_event \<Rightarrow> bool" where
  "silent mid e \<longleftrightarrow> (case e of Seen i t \<Rightarrow> i \<noteq> mid | _ \<Rightarrow> True)"

definition silent_at :: "uuid \<Rightarrow> time \<Rightarrow> machine_status set \<Rightarrow> machine list \<Rightarrow> bool" where
  "silent_at mid t S ms \<longleftrightarrow> (\<forall>m\<in>set ms. m_id m = mid \<longrightarrow> m_last_seen_at m = Some t \<and> m_status m \<in> S)"

lemma watch_silent_at:
  assumes "silent mid e" and "silent_at mid t S ms" and "S \<in> {{ONLINE, OFFLINE, LOST}, {OFFLINE, LOST}, {LOST}}"
  shows "silent_at mid t S (watch e ms)"
  using assms
  by (cases e) (auto simp: silent_def silent_at_def mark_offline_def sweep_lost_def due_offline_def due_lost_def
      simp del: set_update_where elim!: update_whereE)

lemma run_watch_silent_at:
  "list_all (silent mid) es \<Longrightarrow> silent_at mid t S ms \<Longrightarrow>
     S \<in> {{ONLINE, OFFLINE, LOST}, {OFFLINE, LOST}, {LOST}} \<Longrightarrow> silent_at mid t S (run watch es ms)"
  by (induction es arbitrary: ms) (simp_all add: watch_silent_at)

lemma watch_offline:
  "silent_at mid t {ONLINE, OFFLINE, LOST} ms \<Longrightarrow> t < cutoff \<Longrightarrow> mid \<in> X \<Longrightarrow>
     silent_at mid t {OFFLINE, LOST} (watch (Offline_step cutoff X) ms)"
  by (auto simp: silent_at_def mark_offline_def due_offline_def unseen_since_def simp del: set_update_where
      elim!: update_whereE)

lemma watch_lost:
  "silent_at mid t {OFFLINE, LOST} ms \<Longrightarrow> t < now - days n \<Longrightarrow>
     silent_at mid t {LOST} (watch (Lost_step n now) ms)"
  by (auto simp: silent_at_def sweep_lost_def due_lost_def unseen_since_def simp del: set_update_where
      elim!: update_whereE)


text \<open>Once a machine is decommissioned, only a new enrolment changes that: heartbeats, the monitor and
  every decision of administrators other than its deletion keep it so.\<close>

datatype fleet_event =
    Agent_beat env "config_override option" bool time string "http_error + string" heartbeat_in
  | Admin_acts user "time \<times> string option \<times> admin_op"
  | Machine_deleted time "string option" user uuid
  | Offline_swept time "uuid set"
  | Lost_swept int time

fun fleet_step :: "fleet_event \<Rightarrow> fleet \<Rightarrow> fleet" where
  "fleet_step (Agent_beat e ov up now ip cn b) s = snd (heartbeat_step e ov up now ip cn b s)"
| "fleet_step (Admin_acts u a) s = admin_step u a s"
| "fleet_step (Machine_deleted now ip u mid) s = snd (delete_machine now ip (Inr u) mid s)"
| "fleet_step (Offline_swept cutoff X) s =
     s\<lparr>fl_db := (fl_db s)\<lparr>en_machines := mark_offline cutoff X (en_machines (fl_db s))\<rparr>\<rparr>"
| "fleet_step (Lost_swept n now) s = s\<lparr>fl_db := (fl_db s)\<lparr>en_machines := sweep_lost n now (en_machines (fl_db s))\<rparr>\<rparr>"

definition decommissioned :: "uuid \<Rightarrow> fleet \<Rightarrow> bool" where
  "decommissioned mid s \<longleftrightarrow> (\<forall>m\<in>set (en_machines (fl_db s)). m_id m = mid \<longrightarrow> m_status m = DECOMMISSIONED)"

lemma decommissioned_set_machine:
  assumes "decommissioned mid s" and "m_id m' = mid \<longrightarrow> m_status m' = DECOMMISSIONED"
  shows "decommissioned mid (set_machine m' s)"
  using assms unfolding decommissioned_def set_machine_def put_machine_def
  by (auto simp del: set_update_where elim!: update_whereE)

lemma decommissioned_audit [simp]:
  "decommissioned mid (machine_audit now a u m ip s) = decommissioned mid s"
  "decommissioned mid (fleet_audit now a actor target ip i s) = decommissioned mid s"
  "decommissioned mid (set_tags t s) = decommissioned mid s"
  "decommissioned mid (s\<lparr>fl_rescan := f\<rparr>) = decommissioned mid s"
  "decommissioned mid (s\<lparr>fl_online := f\<rparr>) = decommissioned mid s"
  "decommissioned mid (s\<lparr>fl_heartbeats := h\<rparr>) = decommissioned mid s"
  "decommissioned mid (publish_machine_event m st s) = decommissioned mid s"
  "decommissioned mid (s\<lparr>fl_db := (fl_db s)\<lparr>en_users := us\<rparr>\<rparr>) = decommissioned mid s"
  by (simp_all add: decommissioned_def set_tags_def publish_machine_event_def)

lemma on_machine_decommissioned:
  assumes "decommissioned mid s"
    and "\<And>m. m \<in> set (en_machines (fl_db s)) \<Longrightarrow> (m_id m = mid \<longrightarrow> m_status m = DECOMMISSIONED) \<Longrightarrow>
      decommissioned mid (snd (k u m))"
  shows "decommissioned mid (snd (on_machine (Inr u) i k s))"
  using assms by (auto simp: on_machine_def decommissioned_def dest: machine_in_scopeD split: sum.splits)

lemma admin_step_decommissioned:
  assumes "decommissioned mid s"
  shows "decommissioned mid (admin_step u a s)"
proof -
  obtain now ip op1 where a: "a = (now, ip, op1)" by (cases a)
  note one = decommissioned_set_machine [OF assms]
  show ?thesis
  proof (cases op1)
    case (Do_assign uid i b)
    have "decommissioned mid (s\<lparr>fl_db := (fl_db s)\<lparr>en_users := us\<rparr>\<rparr>)" for us using assms by simp
    note new = decommissioned_set_machine [OF this]
    from Do_assign show ?thesis unfolding a
      by (simp add: assign_user_def) (rule on_machine_decommissioned [OF assms],
        auto simp: Let_def assms new split: sum.split)
  next
    case (Do_lifecycle i lc n)
    then show ?thesis unfolding a
      by (simp add: update_lifecycle_def Let_def assms) (intro impI on_machine_decommissioned [OF assms], simp add: one)
  next
    case (Do_bulk mids c ks)
    then show ?thesis unfolding a
      by (auto simp: set_machine_tags_bulk_def Let_def assms split: option.split)
  next
    case (Do_approve e i n)
    then show ?thesis unfolding a
      by (simp add: approve_machine_def) (rule on_machine_decommissioned [OF assms], auto simp: Let_def one assms)
  next
    case (Do_reject i n)
    then show ?thesis unfolding a
      by (simp add: reject_machine_def) (rule on_machine_decommissioned [OF assms], auto simp: Let_def one assms)
  next
    case (Do_tags i c ks)
    then show ?thesis unfolding a
      by (simp add: set_machine_tags_route_def)
        (rule on_machine_decommissioned [OF assms], auto simp: Let_def assms split: option.split)
  next
    case (Do_unassign i)
    then show ?thesis unfolding a
      by (simp add: unassign_user_def)
        (rule on_machine_decommissioned [OF assms], auto simp: one assms split: option.split)
  next
    case (Do_rescan up i)
    then show ?thesis unfolding a
      by (simp add: request_rescan_def) (rule on_machine_decommissioned [OF assms], simp add: assms)
  qed
qed

lemma heartbeat_decommissioned:
  assumes "decommissioned mid s"
  shows "decommissioned mid (snd (heartbeat_step e ov up now ip cn b s))"
proof (cases "agent_machine cn s")
  case (Inr m)
  have m: "m \<in> set (en_machines (fl_db s))"
    using Inr by (auto simp: agent_machine_def dest: get_machine_rowD split: sum.splits option.splits)
  let ?m = "m\<lparr>m_status := seen_status (m_status m), m_last_seen_at := Some now\<rparr>"
  have set: "decommissioned mid (set_machine ?m s)"
    by (rule decommissioned_set_machine [OF assms]) (use assms m in \<open>auto simp: decommissioned_def seen_status_def\<close>)
  then show ?thesis unfolding heartbeat_step_def Inr sum.case Let_def
    by (simp only: snd_conv if_distrib [of "decommissioned mid"] decommissioned_audit set if_cancel)
qed (use assms in \<open>simp add: heartbeat_step_def\<close>)

lemma fleet_step_decommissioned:
  assumes "decommissioned mid s"
  shows "decommissioned mid (fleet_step e s)"
proof (cases e)
  case (Machine_deleted now ip u i)
  then show ?thesis
    using assms delete_machine_rows [of now ip "Inr u" i s] by (auto simp: decommissioned_def)
next
  case (Offline_swept cutoff X)
  with assms show ?thesis
    by (auto simp: decommissioned_def mark_offline_def due_offline_def simp del: set_update_where elim!: update_whereE)
next
  case (Lost_swept n now)
  with assms show ?thesis
    by (auto simp: decommissioned_def sweep_lost_def due_lost_def simp del: set_update_where elim!: update_whereE)
qed (use assms in \<open>simp_all add: admin_step_decommissioned heartbeat_decommissioned\<close>)

interpretation fleet_run: step_system fleet_step "\<lambda>_ _. True" "decommissioned mid" for mid
  by unfold_locales (rule fleet_step_decommissioned)

lemma fleet_run_admissible: "fleet_run.admissible es s"
  by (induction es arbitrary: s) simp_all

text \<open>A decommissioned machine stays decommissioned: no heartbeat, no sweep of the monitor and no
  decision of any administrator brings it back, in any order; only enrolment does.\<close>

theorem decommissioned_stays:
  assumes "\<forall>m\<in>set (en_machines (fl_db s)). m_id m = mid \<longrightarrow> m_status m = DECOMMISSIONED"
    and "m \<in> set (en_machines (fl_db (run fleet_step es s)))" and "m_id m = mid"
  shows "m_status m = DECOMMISSIONED"
proof -
  have "decommissioned mid (run fleet_step es s)"
    using assms(1) fleet_run.run_inv [OF fleet_run_admissible] by (simp add: decommissioned_def)
  with assms(2,3) show ?thesis by (simp add: decommissioned_def)
qed

subsection \<open>An alert with several recipients stalls the sweep\<close>

lemma rule_scope_machines [simp]: "rule_scope (db\<lparr>al_machines := ms\<rparr>) r oid = rule_scope db r oid"
proof -
  have "org_rows (db\<lparr>al_machines := ms\<rparr>) = org_rows db" by (simp add: org_rows_def)
  then show ?thesis by (simp only: rule_scope_def)
qed

lemma fires_once_machines:
  "fires_once s now c oid mid t r ids \<Longrightarrow>
     fires_once ((modify (\<lambda>db. db\<lparr>al_machines := f (al_machines db)\<rparr>) s)\<lparr>ss_machine_events := es\<rparr>) now c oid mid t r ids"
  by (simp add: fires_once_def modify_def)

lemma session_ok_machines:
  "session_ok s \<Longrightarrow> session_ok ((modify (\<lambda>db. db\<lparr>al_machines := f (al_machines db)\<rparr>) s)\<lparr>ss_machine_events := es\<rparr>)"
  by (simp add: session_ok_def modify_def constraints_ok_def keys_fresh_def)

lemma alert_recipients_machines [simp]:
  "alert_recipients (db\<lparr>al_machines := ms\<rparr>) t ids = alert_recipients db t ids"
  by (simp add: alert_recipients_def opted_out_def Let_def)

text \<open>A single silent machine whose offline alert has two recipients or more is never stored as offline:
  the rollback inside the alert takes the new status with it, in this sweep and in every later one.\<close>

theorem offline_sweep_stalls:
  assumes "ss_work s = ss_committed s" and "session_ok s"
    and one: "filter (due_offline (now - offline_threshold e)) (al_machines (ss_work s)) = [m]"
    and f: "fires_once s now ''machine_offline'' (Some (m_org_id m)) (Some (m_id m)) t r ids"
    and many: "2 \<le> length (alert_recipients (ss_work s) t ids)"
  shows "\<exists>s'. sweep_offline telegram bv e now s = (False, s') \<and> ss_committed s' = ss_committed s"
proof -
  let ?mark = "\<lambda>ms. update_where (\<lambda>r. m_id r = m_id m) (set_status OFFLINE) ms"
  let ?s2 = "(modify (\<lambda>db. db\<lparr>al_machines := ?mark (al_machines db)\<rparr>) s)\<lparr>ss_machine_events :=
      ss_machine_events s @ [(m_id m, OFFLINE, m_hostname m)]\<rparr>"
  have rcp: "2 \<le> length (alert_recipients (ss_work ?s2) t ids)" using many by (simp add: modify_def)
  obtain s3 where s3: "trigger_alert telegram bv now ''machine_offline'' (Some (m_org_id m)) (Some (m_id m))
      [(''hostname'', Some (display_name m))] ?s2 = (Inr [the_event ?s2 now (Some (m_org_id m)) (Some (m_id m))
        [(''hostname'', Some (display_name m))] t r ids], s3)"
    "ss_committed s3 = ss_committed ?s2" "ss_work s3 = ss_committed ?s2"
    using trigger_alert_many [OF session_ok_machines [OF assms(2)] fires_once_machines [OF f] rcp] by blast
  have "r \<in> set (filter (\<lambda>r. ar_template_code r = ''machine_offline'' \<and> ar_enabled r) (al_rules (ss_work s)))"
    using f by (simp add: fires_once_def)
  then have rule: "has_rule ''machine_offline'' (ss_work ?s2)" by (auto simp: has_rule_def modify_def)
  have "sweep_rows telegram bv now (ss_rollbacks s) [m] s = (False, s3)"
    using rule s3(1) by (simp add: Let_def modify_def)
  moreover have "ss_committed s3 = ss_committed s" "ss_work s3 = ss_committed s"
    using s3(2,3) by (simp_all add: modify_def)
  moreover have "constraints_ok (ss_committed s)" using assms(2) by (simp add: session_ok_def)
  ultimately show ?thesis
    by (simp add: sweep_offline_def one commit_def close_session_def del: sweep_rows.simps)
qed

subsection \<open>The schedule\<close>

lemma run_jobs_quiet:
  "distinct js \<Longrightarrow> run_jobs c now False js l =
     (filter (\<lambda>j. interval c j \<le> now - l j) js, \<lambda>j. if j \<in> set js \<and> interval c j \<le> now - l j then now else l j)"
proof (induction js arbitrary: l)
  case (Cons j js)
  then have "filter (\<lambda>i. interval c i \<le> now - (l(j := now)) i) js = filter (\<lambda>i. interval c i \<le> now - l i) js"
    by (intro filter_cong) auto
  with Cons show ?case by (auto simp: fun_eq_iff)
qed simp

lemma run_jobs_scan_raises:
  "interval c Alert_scan \<le> now - l Alert_scan \<Longrightarrow> j \<in> set js \<Longrightarrow>
     fst (run_jobs c now True (Partition_check # Alert_scan # js) l) =
       (if interval c Partition_check \<le> now - l Partition_check then [Partition_check, Alert_scan] else [Alert_scan])"
  by simp

definition quiet :: "monitor_tick \<Rightarrow> bool" where
  "quiet k \<longleftrightarrow> \<not> mk_sweep_raises k \<and> \<not> mk_scan_raises k"

definition watch_step :: "monitor_settings \<Rightarrow> monitor_tick \<Rightarrow> (job \<Rightarrow> int) \<Rightarrow> job \<Rightarrow> int" where
  "watch_step c k l = snd (monitor_iteration c k l)"

lemma watch_step_quiet:
  "quiet k \<Longrightarrow> watch_step c k l j = (if interval c j \<le> mk_now k - l j then mk_now k else l j)"
  by (cases j) (simp_all add: watch_step_def monitor_iteration_def quiet_def job_order_def run_jobs_quiet del: run_jobs.simps)

lemma watch_step_scan_raises:
  assumes "mk_scan_raises k" and "interval c Alert_scan \<le> mk_now k - l Alert_scan" and "j \<noteq> Partition_check"
  shows "watch_step c k l j = l j"
  using assms by (cases "mk_sweep_raises k") (simp_all add: watch_step_def monitor_iteration_def job_order_def)

lemma run_watch_step_scan_raises:
  assumes "\<forall>k\<in>set ks. mk_scan_raises k \<and> interval c Alert_scan \<le> mk_now k - l Alert_scan" and "j \<noteq> Partition_check"
  shows "run (watch_step c) ks l j = l j"
  using assms
proof (induction ks arbitrary: l)
  case (Cons k ks)
  then have "watch_step c k l i = l i" if "i \<noteq> Partition_check" for i
    using watch_step_scan_raises that by simp
  with Cons show ?case by simp
qed simp

text \<open>While neither the offline sweep nor the alert scan raises, every job keeps its interval: after
  each iteration the time since its last run is below it. A scan that raises whenever it is due keeps
  every job after it from ever running again.\<close>

theorem monitor_keeps_schedule:
  "(quiet k \<longrightarrow> 0 < interval c j \<longrightarrow> mk_now k - run (watch_step c) (ks @ [k]) l j < interval c j) \<and>
   ((\<forall>k\<in>set ks. mk_scan_raises k \<and> interval c Alert_scan \<le> mk_now k - l Alert_scan) \<longrightarrow> j \<noteq> Partition_check \<longrightarrow>
      run (watch_step c) ks l j = l j)"
  using run_watch_step_scan_raises by (auto simp: watch_step_quiet)

subsection \<open>Instances\<close>

definition watch_session :: "machine list \<Rightarrow> session" where
  "watch_session ms =
     (let db = sample_alert_db\<lparr>al_machines := ms\<rparr> in sample_session\<lparr>ss_committed := db, ss_work := db\<rparr>)"

lemma sweep_offline_refines_witness:
  "al_machines (ss_committed (snd (sweep_offline (\<lambda>_ _ _. Tg_response 200 []) sample_view sample_env (seconds 1000)
      (watch_session [sample_fleet_machine])))) = [sample_fleet_machine\<lparr>m_status := OFFLINE\<rparr>]"
proof -
  let ?s = "watch_session [sample_fleet_machine]"
  let ?r = "sweep_offline (\<lambda>_ _ _. Tg_response 200 []) sample_view sample_env (seconds 1000) ?s"
  have due: "due_offline (seconds 1000 - offline_threshold sample_env) sample_fleet_machine"
    by (simp add: due_offline_def unseen_since_def sample_fleet_machine_def offline_threshold_def sample_env_def
        effective_online_ttl_seconds_def)
  have run: "fst ?r = False \<and> ss_rollbacks (snd ?r) = ss_rollbacks ?s"
    using due by (simp add: sweep_offline_def watch_session_def sample_session_def sample_alert_db_def Let_def has_rule_def
        modify_def commit_def constraints_ok_def close_session_def List.map_filter_simps)
  have start: "ss_work ?s = ss_committed ?s" "distinct (map m_id (al_machines (ss_committed ?s)))"
    by (simp_all add: watch_session_def Let_def)
  have "?r = (fst ?r, snd ?r)" by simp
  from sweep_offline_refines [OF start this] run due show ?thesis
    by (simp add: watch_session_def Let_def mark_offline_def update_where_def set_status_def)
qed


lemma decommissioned_stays_witness:
  "\<exists>m. m \<in> set (en_machines (fl_db (run fleet_step [Lost_swept 1 (days 9)]
      (sample_fleet [sample_fleet_machine\<lparr>m_status := DECOMMISSIONED\<rparr>])))) \<and> m_status m = DECOMMISSIONED"
proof -
  let ?s = "sample_fleet [sample_fleet_machine\<lparr>m_status := DECOMMISSIONED\<rparr>]"
  let ?m = "sample_fleet_machine\<lparr>m_status := DECOMMISSIONED\<rparr>"
  have start: "\<forall>m\<in>set (en_machines (fl_db ?s)). m_id m = 20 \<longrightarrow> m_status m = DECOMMISSIONED"
    by (simp add: sample_fleet_def)
  have m: "?m \<in> set (en_machines (fl_db (run fleet_step [Lost_swept 1 (days 9)] ?s)))" "m_id ?m = 20"
    by (simp_all add: sample_fleet_def sample_fleet_machine_def sweep_lost_def update_where_def due_lost_def)
  from decommissioned_stays [OF start m] m(1) show ?thesis by blast
qed

lemma monitor_keeps_schedule_witness:
  "100 - run (watch_step \<lparr>ms_velociraptor_sync_interval_seconds = 300, ms_llm_investigation_interval_seconds = 30\<rparr>)
     [\<lparr>mk_now = 100, mk_sweep_raises = False, mk_scan_raises = False\<rparr>] (\<lambda>_. 0) Dfir_worker < 30"
  using monitor_keeps_schedule [of "\<lparr>mk_now = 100, mk_sweep_raises = False, mk_scan_raises = False\<rparr>"
      "\<lparr>ms_velociraptor_sync_interval_seconds = 300, ms_llm_investigation_interval_seconds = 30\<rparr>" Dfir_worker "[]" "\<lambda>_. 0"]
  by (simp add: quiet_def interval_def)

end
