(* ===== verification/AlertRules.thy ===== *)
theory AlertRules
  imports AlertEngine
begin

text \<open>
  The subscriptions of the alert engine and their history: the routes of
  \<open>api/routes/alert_rules.py\<close> and \<open>api/routes/alert_events.py\<close>. A request that ends in an error
  ends before its commit, so it leaves the tables as they were.
\<close>

subsection \<open>Requests\<close>

record rule_in =
  ri_name :: string
  ri_template_code :: string
  ri_org_id :: "uuid option"
  ri_scope_mode :: string
  ri_recipient_mode :: string
  ri_config :: "(string \<times> json) list"
  ri_enabled :: bool

record rule_update =
  ru_name :: "string option"
  ru_template_code :: "string option"
  ru_org_id :: "uuid option"
  ru_scope_mode :: "string option"
  ru_recipient_mode :: "string option"
  ru_config :: "(string \<times> json) list option"
  ru_enabled :: "bool option"

text \<open>The dictionary \<open>{**a, **b}\<close>.\<close>

definition dict_merge :: "(string \<times> json) list \<Rightarrow> (string \<times> json) list \<Rightarrow> (string \<times> json) list" where
  "dict_merge a b =
     map (\<lambda>(k, v). (k, or_kept (map_of b k) v)) a @ filter (\<lambda>(k, _). k \<notin> fst ` set a) b"

lemma map_of_dict_merge: "map_of (dict_merge a b) k = (case map_of b k of Some v \<Rightarrow> Some v | None \<Rightarrow> map_of a k)"
proof -
  have first: "map_of (map (\<lambda>(k, v). (k, or_kept (map_of b k) v)) a) k = map_option (or_kept (map_of b k)) (map_of a k)"
    by (induction a) auto
  have second: "map_of (filter (\<lambda>(k, _). k \<notin> K) b) k = (if k \<in> K then None else map_of b k)" for K
    by (induction b) auto
  have key: "(k \<in> fst ` set a) = (map_of a k \<noteq> None)" by (simp add: map_of_eq_None_iff)
  show ?thesis
    unfolding dict_merge_def map_of_append map_add_def first second key
    by (cases "map_of a k"; cases "map_of b k") (simp_all add: or_kept_def)
qed

definition alert_sees :: "alert_db \<Rightarrow> user \<Rightarrow> uuid \<Rightarrow> bool" where
  "alert_sees db admin org \<longleftrightarrow> org \<in> visible_org_ids (org_rows db) admin"

definition shown :: "alert_db \<Rightarrow> user \<Rightarrow> alert_rule \<Rightarrow> bool" where
  "shown db admin r \<longleftrightarrow> (case ar_org_id r of None \<Rightarrow> True | Some org \<Rightarrow> alert_sees db admin org)"

definition can_access :: "alert_db \<Rightarrow> user \<Rightarrow> alert_rule \<Rightarrow> bool" where
  "can_access db admin r \<longleftrightarrow> is_super_admin admin \<or> shown db admin r"

definition rule_not_found :: http_error where
  "rule_not_found = HTTPException 404 ''Rule khong ton tai''"

definition template_missing :: http_error where
  "template_missing = HTTPException 422 ''Template khong ton tai''"

definition find_rule :: "alert_db \<Rightarrow> uuid \<Rightarrow> alert_rule option" where
  "find_rule db rid = find (\<lambda>r. ar_id r = rid) (al_rules db)"

subsection \<open>Routes\<close>

definition list_rules :: "http_error + user \<Rightarrow> nat \<Rightarrow> nat \<Rightarrow> alert_db \<Rightarrow> http_error + alert_rule list \<times> nat" where
  "list_rules auth limit offset db =
     (case auth of
        Inl e \<Rightarrow> Inl e
      | Inr admin \<Rightarrow>
          (let filtered = filter (shown db admin) (sort_key (\<lambda>r. - ar_created_at r) (al_rules db))
           in Inr (take limit (drop offset filtered), length filtered)))"

text \<open>The default of \<open>created_at\<close> is the time the process was started.\<close>

definition create_rule ::
  "time \<Rightarrow> uuid \<Rightarrow> http_error + user \<Rightarrow> rule_in \<Rightarrow> alert_db \<Rightarrow> (http_error + alert_rule) \<times> alert_db" where
  "create_rule started rid auth b db =
     (case auth of
        Inl e \<Rightarrow> (Inl e, db)
      | Inr admin \<Rightarrow>
          (case get_template (al_templates db) (ri_template_code b) of
             None \<Rightarrow> (Inl template_missing, db)
           | Some tpl \<Rightarrow>
               if ri_scope_mode b = ''system'' \<and> \<not> is_super_admin admin
               then (Inl (HTTPException 403 ''Chi Super Admin tao rule pham vi he thong''), db)
               else if ri_scope_mode b \<noteq> ''system'' \<and> ri_org_id b = None
               then (Inl (HTTPException 422 ''scope_mode != system can org_id''), db)
               else if (case ri_org_id b of None \<Rightarrow> False | Some org \<Rightarrow> \<not> alert_sees db admin org)
               then (Inl (HTTPException 403 ''Khong co quyen tao rule cho to chuc nay''), db)
               else
                 (let r = \<lparr>ar_id = rid, ar_name = ri_name b, ar_template_code = ri_template_code b,
                           ar_org_id = ri_org_id b, ar_scope_mode = ri_scope_mode b,
                           ar_recipient_mode = ri_recipient_mode b,
                           ar_config = dict_merge (tp_default_config tpl) (ri_config b),
                           ar_enabled = ri_enabled b, ar_created_by = u_id admin, ar_created_at = started\<rparr>
                  in (Inr r, db\<lparr>al_rules := insert_row r (al_rules db)\<rparr>))))"

text \<open>The assignments of \<open>update_rule\<close> in their order; a refusal discards the earlier ones.\<close>

definition apply_rule_update :: "alert_db \<Rightarrow> user \<Rightarrow> rule_update \<Rightarrow> alert_rule \<Rightarrow> http_error + alert_rule" where
  "apply_rule_update db admin b r =
     (let r1 = r\<lparr>ar_name := or_kept (ru_name b) (ar_name r), ar_enabled := or_kept (ru_enabled b) (ar_enabled r)\<rparr>
      in case (case ru_template_code b of
                 None \<Rightarrow> Inr r1
               | Some c \<Rightarrow>
                   (case get_template (al_templates db) c of
                      None \<Rightarrow> Inl template_missing
                    | Some tpl \<Rightarrow> Inr (r1\<lparr>ar_template_code := c, ar_config := dict_merge (tp_default_config tpl) (ar_config r1)\<rparr>))) of
           Inl e \<Rightarrow> Inl e
         | Inr r2 \<Rightarrow>
             if (case ru_org_id b of None \<Rightarrow> False | Some org \<Rightarrow> \<not> alert_sees db admin org)
             then Inl (HTTPException 403 ''Khong co quyen gan org nay'')
             else
               (let r3 = (case ru_org_id b of None \<Rightarrow> r2 | Some org \<Rightarrow> r2\<lparr>ar_org_id := Some org\<rparr>)
                in if ru_scope_mode b = Some ''system'' \<and> \<not> is_super_admin admin
                   then Inl (HTTPException 403 ''Chi Super Admin set scope system'')
                   else Inr (r3\<lparr>ar_scope_mode := or_kept (ru_scope_mode b) (ar_scope_mode r3),
                                ar_recipient_mode := or_kept (ru_recipient_mode b) (ar_recipient_mode r3),
                                ar_config := or_kept (ru_config b) (ar_config r3)\<rparr>)))"

definition update_rule ::
  "http_error + user \<Rightarrow> uuid \<Rightarrow> rule_update \<Rightarrow> alert_db \<Rightarrow> (http_error + alert_rule) \<times> alert_db" where
  "update_rule auth rid b db =
     (case auth of
        Inl e \<Rightarrow> (Inl e, db)
      | Inr admin \<Rightarrow>
          (case find_rule db rid of
             None \<Rightarrow> (Inl rule_not_found, db)
           | Some r \<Rightarrow>
               if \<not> can_access db admin r then (Inl (HTTPException 403 ''Khong co quyen sua rule nay''), db)
               else
                 (case apply_rule_update db admin b r of
                    Inl e \<Rightarrow> (Inl e, db)
                  | Inr r' \<Rightarrow> (Inr r', db\<lparr>al_rules := update_where (\<lambda>q. ar_id q = rid) (\<lambda>_. r') (al_rules db)\<rparr>))))"

definition delete_rule :: "http_error + user \<Rightarrow> uuid \<Rightarrow> alert_db \<Rightarrow> (http_error + unit) \<times> alert_db" where
  "delete_rule auth rid db =
     (case auth of
        Inl e \<Rightarrow> (Inl e, db)
      | Inr admin \<Rightarrow>
          (case find_rule db rid of
             None \<Rightarrow> (Inl rule_not_found, db)
           | Some r \<Rightarrow>
               if \<not> can_access db admin r then (Inl (HTTPException 403 ''Khong co quyen xoa rule nay''), db)
               else (Inr (), db\<lparr>al_rules := delete_where (\<lambda>q. ar_id q = rid) (al_rules db),
                       al_events := delete_where (\<lambda>ev. ae_rule_id ev = rid) (al_events db)\<rparr>)))"

record rule_test =
  rx_template_code :: string
  rx_title :: string
  rx_body :: "string option"
  rx_recipients :: "(string \<times> string \<times> string \<times> bool) list"
  rx_total_recipients :: nat
  rx_warnings :: "string list"

text \<open>\<open>py_str\<close> is the text that \<open>str\<close> makes of a value of the configuration, \<open>None\<close> for null.\<close>

definition test_rule ::
  "(json \<Rightarrow> string option) \<Rightarrow> http_error + user \<Rightarrow> uuid \<Rightarrow> render_context \<Rightarrow> alert_db \<Rightarrow> http_error + rule_test" where
  "test_rule py_str auth rid context_vars db =
     (case auth of
        Inl e \<Rightarrow> Inl e
      | Inr admin \<Rightarrow>
          (case find_rule db rid of
             None \<Rightarrow> Inl rule_not_found
           | Some r \<Rightarrow>
               if \<not> can_access db admin r then Inl (HTTPException 403 ''Khong co quyen test rule nay'')
               else
                 (case get_template (al_templates db) (ar_template_code r) of
                    None \<Rightarrow> Inl template_missing
                  | Some tpl \<Rightarrow>
                      (let threshold = (case map_of (ar_config r) ''threshold_days'' of None \<Rightarrow> Some ''7'' | Some v \<Rightarrow> py_str v);
                           ctx = setdefault ''threshold_days'' threshold
                                   (setdefault ''org_name'' (Some ''[org test]'')
                                      (setdefault ''hostname'' (Some ''[test]'') context_vars));
                           ids = scope_orgs (org_rows db) (ar_org_id r) (ar_scope_mode r);
                           recipients = alert_recipients db tpl ids
                       in Inr \<lparr>rx_template_code = ar_template_code r,
                               rx_title = render_template (tp_title_template tpl) (tp_allowed_vars tpl) ctx,
                               rx_body = opt_text (render_template (or_kept (tp_body_template tpl) []) (tp_allowed_vars tpl) ctx),
                               rx_recipients = map (\<lambda>u. (uuid_str (u_id u), u_email u, u_full_name u,
                                  truthy (u_telegram_chat_id u))) recipients,
                               rx_total_recipients = length recipients,
                               rx_warnings = validate_template_vars (tp_title_template tpl) (tp_body_template tpl)
                                 (tp_allowed_vars tpl)\<rparr>))))"

definition list_events ::
  "(nat \<Rightarrow> time) \<Rightarrow> http_error + user \<Rightarrow> nat \<Rightarrow> nat \<Rightarrow> alert_db \<Rightarrow> http_error + alert_event list \<times> nat" where
  "list_events created auth limit offset db =
     (case auth of
        Inl e \<Rightarrow> Inl e
      | Inr _ \<Rightarrow>
          Inr (take limit (drop offset (sort_key (\<lambda>ev. - created (ae_id ev)) (al_events db))), length (al_events db)))"

subsection \<open>What an administrator can change\<close>

datatype rule_op =
    Create_rule time uuid rule_in
  | Update_rule uuid rule_update
  | Delete_rule uuid

fun rule_step :: "user \<Rightarrow> rule_op \<Rightarrow> alert_db \<Rightarrow> alert_db" where
  "rule_step admin (Create_rule started rid b) db = snd (create_rule started rid (Inr admin) b db)"
| "rule_step admin (Update_rule rid b) db = snd (update_rule (Inr admin) rid b db)"
| "rule_step admin (Delete_rule rid) db = snd (delete_rule (Inr admin) rid db)"

text \<open>The rules of organisations the administrator does not see.\<close>

definition foreign_rules :: "org_row list \<Rightarrow> user \<Rightarrow> alert_rule list \<Rightarrow> alert_rule list" where
  "foreign_rules rows admin rs =
     filter (\<lambda>r. case ar_org_id r of None \<Rightarrow> False | Some org \<Rightarrow> org \<notin> visible_org_ids rows admin) rs"

definition rules_keyed :: "alert_db \<Rightarrow> bool" where
  "rules_keyed db \<longleftrightarrow> distinct (map ar_id (al_rules db))"

lemma find_rule_unique:
  "rules_keyed db \<Longrightarrow> find_rule db rid = Some r \<Longrightarrow> q \<in> set (al_rules db) \<Longrightarrow> ar_id q = rid \<Longrightarrow> q = r"
  by (auto simp: rules_keyed_def find_rule_def distinct_map dest!: find_SomeD dest: inj_onD)

lemma apply_rule_update_id: "apply_rule_update db admin b r = Inr r' \<Longrightarrow> ar_id r' = ar_id r"
  by (auto simp: apply_rule_update_def Let_def split: option.splits if_splits)

lemma apply_rule_update_org:
  "apply_rule_update db admin b r = Inr r' \<Longrightarrow> can_access db admin r \<Longrightarrow> \<not> is_super_admin admin \<Longrightarrow>
     shown db admin r'"
  by (auto simp: apply_rule_update_def can_access_def shown_def Let_def split: option.splits if_splits)

lemma apply_rule_update_scope:
  "apply_rule_update db admin b r = Inr r' \<Longrightarrow> \<not> is_super_admin admin \<Longrightarrow> ar_scope_mode r' = ''system'' \<Longrightarrow>
     ar_scope_mode r = ''system''"
  by (auto simp: apply_rule_update_def or_kept_def Let_def split: option.splits if_splits)

definition foreign :: "org_row list \<Rightarrow> user \<Rightarrow> alert_rule \<Rightarrow> bool" where
  "foreign rows admin r \<longleftrightarrow> (case ar_org_id r of None \<Rightarrow> False | Some org \<Rightarrow> org \<notin> visible_org_ids rows admin)"

lemma foreign_rules_filter: "foreign_rules rows admin = filter (foreign rows admin)"
  by (rule ext) (simp add: foreign_rules_def foreign_def [abs_def])

lemma shown_not_foreign: "shown db admin r \<Longrightarrow> \<not> foreign (org_rows db) admin r"
  by (auto simp: shown_def foreign_def alert_sees_def split: option.splits)

definition system_rules_from :: "alert_rule list \<Rightarrow> alert_rule list \<Rightarrow> bool" where
  "system_rules_from rs0 rs \<longleftrightarrow> (\<forall>r\<in>set rs. ar_scope_mode r = ''system'' \<longrightarrow>
     (\<exists>q\<in>set rs0. ar_id q = ar_id r \<and> ar_scope_mode q = ''system''))"

definition rule_inv :: "alert_db \<Rightarrow> user \<Rightarrow> alert_db \<Rightarrow> bool" where
  "rule_inv db0 admin db \<longleftrightarrow> rules_keyed db \<and> al_orgs db = al_orgs db0 \<and>
     foreign_rules (org_rows db0) admin (al_rules db) = foreign_rules (org_rows db0) admin (al_rules db0) \<and>
     system_rules_from (al_rules db0) (al_rules db)"

text \<open>New rows have new ids.\<close>

fun rule_ids_new :: "rule_op \<Rightarrow> alert_db \<Rightarrow> bool" where
  "rule_ids_new (Create_rule started rid b) db \<longleftrightarrow> rid \<notin> ar_id ` set (al_rules db)"
| "rule_ids_new _ db \<longleftrightarrow> True"

definition rule_op_ok :: "user \<Rightarrow> rule_op \<Rightarrow> alert_db \<Rightarrow> bool" where
  "rule_op_ok admin e db \<longleftrightarrow> \<not> is_super_admin admin \<and> rule_ids_new e db"

interpretation rule_rows: row_update ar_id "\<lambda>r. if ar_id r = ar_id r' then r' else r" for r'
  by unfold_locales simp

lemma create_rule_inv:
  assumes "rule_inv db0 admin db" and "\<not> is_super_admin admin" and "rid \<notin> ar_id ` set (al_rules db)"
  shows "rule_inv db0 admin (snd (create_rule started rid (Inr admin) b db))"
proof (cases "fst (create_rule started rid (Inr admin) b db)")
  case (Inl e)
  then have "snd (create_rule started rid (Inr admin) b db) = db"
    by (auto simp: create_rule_def Let_def split: option.splits if_splits)
  with assms(1) show ?thesis by simp
next
  case (Inr r)
  then have r: "snd (create_rule started rid (Inr admin) b db) = db\<lparr>al_rules := insert_row r (al_rules db)\<rparr>"
    "ar_id r = rid" "ar_scope_mode r \<noteq> ''system''" "shown db admin r"
    using assms(2) by (auto simp: create_rule_def shown_def Let_def split: option.splits if_splits)
  have "org_rows db = org_rows db0" using assms(1) by (simp add: rule_inv_def org_rows_def)
  then have "\<not> foreign (org_rows db0) admin r" using shown_not_foreign [OF r(4)] by simp
  with assms r show ?thesis
    by (auto simp: rule_inv_def rules_keyed_def insert_row_def foreign_rules_filter system_rules_from_def)
qed

lemma update_rule_inv:
  assumes inv: "rule_inv db0 admin db" and plain: "\<not> is_super_admin admin"
  shows "rule_inv db0 admin (snd (update_rule (Inr admin) rid b db))"
proof (cases "fst (update_rule (Inr admin) rid b db)")
  case (Inl e)
  then have "snd (update_rule (Inr admin) rid b db) = db"
    by (auto simp: update_rule_def split: option.splits if_splits sum.splits)
  with inv show ?thesis by simp
next
  case (Inr r')
  then obtain r where r: "find_rule db rid = Some r" "can_access db admin r" "apply_rule_update db admin b r = Inr r'"
    "snd (update_rule (Inr admin) rid b db) = db\<lparr>al_rules := update_where (\<lambda>q. ar_id q = rid) (\<lambda>_. r') (al_rules db)\<rparr>"
    by (auto simp: update_rule_def split: option.splits if_splits sum.splits)
  have keyed: "rules_keyed db" and rows: "org_rows db = org_rows db0"
    using inv by (simp_all add: rule_inv_def org_rows_def)
  have mem: "r \<in> set (al_rules db)" "ar_id r = rid" using find_SomeD [OF r(1) [unfolded find_rule_def]] by simp_all
  have only: "q = r" if "q \<in> set (al_rules db)" "ar_id q = rid" for q using find_rule_unique [OF keyed r(1) that] .
  have id: "ar_id r' = rid" using apply_rule_update_id [OF r(3)] mem(2) by simp
  let ?rs = "update_where (\<lambda>q. ar_id q = rid) (\<lambda>_. r') (al_rules db)"
  have "map ar_id ?rs = map ar_id (al_rules db)" using id by (simp add: update_where_def)
  moreover have "foreign_rules (org_rows db0) admin ?rs = foreign_rules (org_rows db0) admin (al_rules db)"
    unfolding foreign_rules_filter
  proof (rule filter_update_where)
    fix q
    assume "q \<in> set (al_rules db)" "ar_id q = rid"
    then have "shown db admin q" using only r(2) plain by (auto simp: can_access_def)
    moreover have "shown db admin r'" using apply_rule_update_org [OF r(3,2) plain] .
    ultimately show "\<not> foreign (org_rows db0) admin q \<and> \<not> foreign (org_rows db0) admin r'"
      using shown_not_foreign rows by metis
  qed
  moreover have "system_rules_from (al_rules db0) ?rs"
    unfolding system_rules_from_def
  proof (intro ballI impI)
    fix q
    assume q: "q \<in> set ?rs" "ar_scope_mode q = ''system''"
    have old: "\<exists>q0\<in>set (al_rules db0). ar_id q0 = ar_id p \<and> ar_scope_mode q0 = ''system''"
      if "p \<in> set (al_rules db)" "ar_scope_mode p = ''system''" for p
      using inv that unfolding rule_inv_def system_rules_from_def by blast
    from q(1) consider "q \<in> set (al_rules db)" | "q = r'" by (auto simp: update_where_def split: if_splits)
    then show "\<exists>q0\<in>set (al_rules db0). ar_id q0 = ar_id q \<and> ar_scope_mode q0 = ''system''"
    proof cases
      case 1
      then show ?thesis using old q(2) by blast
    next
      case 2
      then have "ar_scope_mode r = ''system''" using apply_rule_update_scope [OF r(3) plain] q(2) by simp
      then show ?thesis using old [OF mem(1)] 2 id mem(2) by simp
    qed
  qed
  ultimately show ?thesis using inv r(4) by (simp add: rule_inv_def rules_keyed_def)
qed

lemma delete_rule_inv:
  assumes inv: "rule_inv db0 admin db" and plain: "\<not> is_super_admin admin"
  shows "rule_inv db0 admin (snd (delete_rule (Inr admin) rid db))"
proof (cases "fst (delete_rule (Inr admin) rid db)")
  case (Inl e)
  then have "snd (delete_rule (Inr admin) rid db) = db"
    by (auto simp: delete_rule_def split: option.splits if_splits)
  with inv show ?thesis by simp
next
  case (Inr u)
  then obtain r where r: "find_rule db rid = Some r" "can_access db admin r"
    "snd (delete_rule (Inr admin) rid db) = db\<lparr>al_rules := delete_where (\<lambda>q. ar_id q = rid) (al_rules db),
       al_events := delete_where (\<lambda>ev. ae_rule_id ev = rid) (al_events db)\<rparr>"
    by (auto simp: delete_rule_def split: option.splits if_splits)
  have keyed: "rules_keyed db" and rows: "org_rows db = org_rows db0"
    using inv by (simp_all add: rule_inv_def org_rows_def)
  have "foreign_rules (org_rows db0) admin (delete_where (\<lambda>q. ar_id q = rid) (al_rules db)) =
      foreign_rules (org_rows db0) admin (al_rules db)"
    unfolding foreign_rules_filter
  proof (rule filter_delete_where)
    fix q
    assume "q \<in> set (al_rules db)" "ar_id q = rid"
    then have "q = r" by (rule find_rule_unique [OF keyed r(1)])
    then show "\<not> foreign (org_rows db0) admin q"
      using shown_not_foreign r(2) plain rows by (metis can_access_def)
  qed
  moreover have "distinct (map ar_id (delete_where (\<lambda>q. ar_id q = rid) (al_rules db)))"
    using keyed by (simp add: rules_keyed_def delete_where_def distinct_map_filter)
  moreover have "system_rules_from (al_rules db0) (delete_where (\<lambda>q. ar_id q = rid) (al_rules db))"
    using inv by (auto simp: rule_inv_def system_rules_from_def delete_where_def)
  ultimately show ?thesis using inv r(3) by (simp add: rule_inv_def rules_keyed_def)
qed

lemma rule_step_inv:
  "rule_op_ok admin e db \<Longrightarrow> rule_inv db0 admin db \<Longrightarrow> rule_inv db0 admin (rule_step admin e db)"
  by (cases e) (auto simp: rule_op_ok_def create_rule_inv update_rule_inv delete_rule_inv)

interpretation rule_edits: step_system "rule_step admin" "rule_op_ok admin"
    "rule_inv db0 admin" for admin db0
  by unfold_locales (rule rule_step_inv)

text \<open>Whatever an administrator below super administrator does to the subscriptions, those of
  organisations outside the own subtree stay as they are, in their order, and no subscription
  becomes system-wide.\<close>

theorem rule_edits_scoped:
  assumes "rules_keyed db" and "\<not> is_super_admin admin"
    and "rule_edits.admissible admin ops db"
  shows "foreign_rules (org_rows db) admin (al_rules (run (rule_step admin) ops db)) =
      foreign_rules (org_rows db) admin (al_rules db) \<and>
    system_rules_from (al_rules db) (al_rules (run (rule_step admin) ops db))"
proof -
  have "rule_inv db admin db" using assms(1) by (auto simp: rule_inv_def system_rules_from_def)
  then have "rule_inv db admin (run (rule_step admin) ops db)" by (rule rule_edits.run_inv [OF assms(3)])
  then show ?thesis by (simp add: rule_inv_def)
qed

lemma rule_edits_scoped_witness:
  "foreign_rules [(10, None)] sample_user (al_rules (run (rule_step sample_user) [Delete_rule 7, Delete_rule 8]
      (sample_alert_db\<lparr>al_rules := [sample_rule, sample_rule\<lparr>ar_id := 8, ar_org_id := Some 99\<rparr>]\<rparr>))) =
   [sample_rule\<lparr>ar_id := 8, ar_org_id := Some 99\<rparr>]"
proof -
  let ?db = "sample_alert_db\<lparr>al_rules := [sample_rule, sample_rule\<lparr>ar_id := 8, ar_org_id := Some 99\<rparr>]\<rparr>"
  have plain: "\<not> is_super_admin sample_user" by (simp add: is_super_admin_def sample_user_def super_admin_roles_def)
  have keyed: "rules_keyed ?db" by (simp add: rules_keyed_def sample_rule_def)
  have adm: "rule_edits.admissible sample_user [Delete_rule 7, Delete_rule 8] ?db"
    using plain by (simp add: rule_op_ok_def)
  have rows: "org_rows ?db = [(10, None)]" by (simp add: org_rows_def sample_alert_db_def)
  have vis: "visible_org_ids [(10, None)] sample_user = {10}"
    using plain by (simp add: visible_org_ids_def by_parent_eq org_walk.simps) (simp add: sample_user_def)
  show ?thesis
    using rule_edits_scoped [OF keyed plain adm] vis unfolding rows
    by (simp add: foreign_rules_def sample_rule_def)
qed

end
