(* ===== verification/Organisations.thy ===== *)
theory Organisations
  imports Machines
begin

text \<open>
  Organisations: the routes of \<open>api/routes/orgs.py\<close>, that is the tree shown to a user, the creation
  of an organisation and the numbers of machines per organisation. \<open>Machines\<close> keeps the
  organisations as pairs of id and parent; here they are full rows.
\<close>

subsection \<open>State\<close>

record org_db =
  od_orgs :: "organization list"
  od_log :: "audit_row list"

definition org_links :: "organization list \<Rightarrow> org_row list" where
  "org_links os = map (\<lambda>g. (org_id g, org_parent_id g)) os"

definition high_level_types :: "string set" where
  "high_level_types = {''ubnd_xa'', ''so_ban_nganh''}"

definition valid_create_types :: "string set" where
  "valid_create_types = {''ubnd_xa'', ''so_ban_nganh'', ''phong'', ''don_vi''}"

subsection \<open>The tree\<close>

datatype org_node = Org_node (node_id: uuid) (node_parent: "uuid option") (node_name: string) (node_type: string)
  (node_children: "org_node list")

text \<open>
  The children of an organisation among \<open>rows\<close>, in their order. A node is filled in with its children
  down to a depth of \<open>n\<close>; the number of rows is a depth that no path from a root exceeds
  (\<open>org_tree_exact\<close>), so that nothing is cut off.
\<close>

definition rows_below :: "organization list \<Rightarrow> uuid \<Rightarrow> organization list" where
  "rows_below rows p = filter (\<lambda>c. org_parent_id c = Some p) rows"

fun to_node :: "nat \<Rightarrow> organization list \<Rightarrow> organization \<Rightarrow> org_node" where
  "to_node n rows g =
     Org_node (org_id g) (org_parent_id g) (org_name g) (org_type g)
       (case n of 0 \<Rightarrow> [] | Suc k \<Rightarrow> map (to_node k rows) (rows_below rows (org_id g)))"

declare to_node.simps [simp del]

text \<open>A row is a root when its parent is not among the rows.\<close>

definition root_rows :: "organization list \<Rightarrow> organization list" where
  "root_rows rows = filter (\<lambda>g. case org_parent_id g of None \<Rightarrow> True | Some p \<Rightarrow> p \<notin> org_id ` set rows) rows"

definition org_forest :: "organization list \<Rightarrow> org_node list" where
  "org_forest rows = map (to_node (length rows) rows) (root_rows rows)"

definition visible_rows :: "user \<Rightarrow> organization list \<Rightarrow> organization list" where
  "visible_rows u os = filter (\<lambda>g. org_id g \<in> visible_org_ids (org_links os) u) os"

definition list_orgs :: "http_error + user \<Rightarrow> org_db \<Rightarrow> http_error + org_node list" where
  "list_orgs auth db =
     (case auth of
        Inl e \<Rightarrow> Inl e
      | Inr u \<Rightarrow> Inr (org_forest (visible_rows u (sort_key org_name (od_orgs db)))))"

subsection \<open>Creation\<close>

text \<open>\<open>gid\<close> is the random id of the row. The audit row is written before the id is known.\<close>

definition create_org ::
  "time \<Rightarrow> uuid \<Rightarrow> string option \<Rightarrow> http_error + user \<Rightarrow> string \<Rightarrow> string \<Rightarrow> uuid option \<Rightarrow> org_db \<Rightarrow>
   (http_error + org_node) \<times> org_db" where
  "create_org now gid ip auth name type parent db =
     (case auth of
        Inl e \<Rightarrow> (Inl e, db)
      | Inr admin \<Rightarrow>
          if type \<notin> valid_create_types then (Inl (HTTPException 422 ''Loai to chuc khong hop le''), db)
          else if (case parent of None \<Rightarrow> False | Some p \<Rightarrow> p \<notin> visible_org_ids (org_links (od_orgs db)) admin)
          then (Inl (HTTPException 403 ''Khong co quyen tao to chuc duoi cap nay''), db)
          else if \<not> is_super_admin admin \<and> type \<in> high_level_types
          then (Inl (HTTPException 403 ''Chi Super Admin duoc tao UBND cap xa / So ban nganh''), db)
          else if \<not> is_super_admin admin \<and> parent = None
          then (Inl (HTTPException 400 ''Admin to chuc phai chi dinh cap tren''), db)
          else
            (let g = \<lparr>org_id = gid, org_parent_id = parent, org_name = name, org_type = type\<rparr>
             in (Inr (Org_node gid parent name type []),
                 db\<lparr>od_orgs := insert_row g (od_orgs db),
                    od_log := append_audit now ''org.create'' (uuid_of admin) (Some ''None'') ip None None (od_log db)\<rparr>)))"

subsection \<open>Machines per organisation\<close>

record org_stat =
  os_org_id :: uuid
  os_org_name :: string
  os_org_type :: string
  os_total :: nat
  os_personal :: nat
  os_official :: nat
  os_bmnn :: nat
  os_with_agent :: nat
  os_pending :: nat

text \<open>The rows of the join of \<open>machine_tags\<close>, \<open>machines\<close> and \<open>tags\<close> for one organisation and key.\<close>

definition cls_count :: "uuid \<Rightarrow> string \<Rightarrow> fleet \<Rightarrow> nat" where
  "cls_count org key s =
     length (filter (\<lambda>(mt, m, t). mt_machine_id mt = m_id m \<and> mt_tag_id mt = tag_id t \<and> m_org_id m = org \<and>
         tag_key t = key \<and> mt_kind mt = CLASSIFICATION)
       (List.product (td_machine_tags (en_tags (fl_db s)))
          (List.product (en_machines (fl_db s)) (td_tags (en_tags (fl_db s))))))"

definition org_machines :: "uuid \<Rightarrow> fleet \<Rightarrow> machine list" where
  "org_machines org s = filter (\<lambda>m. m_org_id m = org) (en_machines (fl_db s))"

definition org_stat_of :: "fleet \<Rightarrow> organization \<Rightarrow> org_stat" where
  "org_stat_of s g =
     (let ms = org_machines (org_id g) s
      in \<lparr>os_org_id = org_id g, os_org_name = org_name g, os_org_type = org_type g, os_total = length ms,
          os_personal = cls_count (org_id g) ''personal'' s, os_official = cls_count (org_id g) ''official'' s,
          os_bmnn = cls_count (org_id g) ''bmnn'' s,
          os_with_agent = length (filter (\<lambda>m. m_id m \<in> hb_machine_id ` set (fl_heartbeats s)) ms),
          os_pending = length (filter (\<lambda>m. m_status m = PENDING) ms)\<rparr>)"

definition org_stats :: "user \<Rightarrow> organization list \<Rightarrow> fleet \<Rightarrow> org_stat list" where
  "org_stats u os s =
     sort_key os_org_name (map (org_stat_of s) (filter (\<lambda>g. org_machines (org_id g) s \<noteq> []) (visible_rows u os)))"

definition org_machine_stats ::
  "http_error + user \<Rightarrow> nat \<Rightarrow> nat \<Rightarrow> organization list \<Rightarrow> fleet \<Rightarrow> http_error + org_stat list \<times> nat" where
  "org_machine_stats auth limit offset os s =
     (case auth of
        Inl e \<Rightarrow> Inl e
      | Inr u \<Rightarrow>
          if visible_org_ids (org_links os) u = {} then Inl internal_error
          else (let st = org_stats u os s in Inr (take limit (drop offset st), length st)))"

subsection \<open>The tree is complete\<close>

text \<open>\<open>rooted rows x d\<close>: the row \<open>x\<close> is \<open>d\<close> links below a root.\<close>

inductive rooted :: "organization list \<Rightarrow> uuid \<Rightarrow> nat \<Rightarrow> bool" for rows where
  root: "g \<in> set (root_rows rows) \<Longrightarrow> rooted rows (org_id g) 0"
| below: "rooted rows p d \<Longrightarrow> c \<in> set (rows_below rows p) \<Longrightarrow> rooted rows (org_id c) (Suc d)"

lemma set_rows_below: "c \<in> set (rows_below rows p) \<longleftrightarrow> c \<in> set rows \<and> org_parent_id c = Some p"
  by (auto simp: rows_below_def)

lemma rooted_row: "rooted rows x d \<Longrightarrow> x \<in> org_id ` set rows"
  by (induction rule: rooted.induct) (auto simp: root_rows_def set_rows_below)

lemma row_unique:
  "distinct (map org_id rows) \<Longrightarrow> c \<in> set rows \<Longrightarrow> c' \<in> set rows \<Longrightarrow> org_id c = org_id c' \<Longrightarrow> c = c'"
  by (auto simp: distinct_map dest: inj_onD)

lemma rooted_functional:
  assumes "distinct (map org_id rows)"
  shows "rooted rows x d \<Longrightarrow> rooted rows x e \<Longrightarrow> d = e"
proof (induction arbitrary: e rule: rooted.induct)
  case (root g)
  from root(2) show ?case
  proof cases
    case (below p d c)
    then have "c = g" using root(1) row_unique [OF assms] by (auto simp: root_rows_def set_rows_below)
    then show ?thesis using below root(1) rooted_row by (fastforce simp: root_rows_def set_rows_below)
  qed simp
next
  case (below p d c)
  note p = below.hyps and IH = below.IH
  from below.prems show ?case
  proof cases
    case (root g)
    then have "c = g" using p(2) row_unique [OF assms] by (auto simp: root_rows_def set_rows_below)
    then show ?thesis using root p rooted_row by (fastforce simp: root_rows_def set_rows_below)
  next
    case (below p' d' c')
    then have "c' = c" using p(2) row_unique [OF assms] by (auto simp: set_rows_below)
    then have "p' = p" using below p(2) by (auto simp: set_rows_below)
    then show ?thesis using IH [of d'] below(2,3) by simp
  qed
qed

lemma rooted_above: "rooted rows x d \<Longrightarrow> e \<le> d \<Longrightarrow> \<exists>y. rooted rows y e"
  by (induction arbitrary: e rule: rooted.induct) (auto simp: le_Suc_eq intro: rooted.intros)

text \<open>No path from a root is longer than the table.\<close>

lemma rooted_bound:
  assumes "distinct (map org_id rows)" and "rooted rows x d"
  shows "d < length rows"
proof -
  obtain f where f: "\<forall>e\<le>d. rooted rows (f e) e" using rooted_above [OF assms(2)] by metis
  then have "inj_on f {..d}" by (intro inj_onI) (metis atMost_iff rooted_functional [OF assms(1)])
  moreover have "f ` {..d} \<subseteq> org_id ` set rows" using f rooted_row by blast
  ultimately have "card {..d} \<le> card (org_id ` set rows)" by (intro card_inj_on_le) auto
  also have "\<dots> \<le> length rows" using card_image_le [of "set rows" org_id] card_length [of rows] by auto
  finally show ?thesis by simp
qed

fun subnodes :: "org_node \<Rightarrow> org_node list" where
  "subnodes (Org_node i p n t cs) = Org_node i p n t cs # concat (map subnodes cs)"

definition node_ids :: "org_node \<Rightarrow> uuid list" where
  "node_ids nd = map node_id (subnodes nd)"

lemma node_ids_to_node:
  "node_ids (to_node n rows g) = org_id g #
     (case n of 0 \<Rightarrow> [] | Suc k \<Rightarrow> concat (map (\<lambda>c. node_ids (to_node k rows c)) (rows_below rows (org_id g))))"
  by (cases n) (simp_all add: to_node.simps [of _ rows g] node_ids_def map_concat comp_def)

lemma child_rel_links: "(p, x) \<in> child_rel (org_links rows) \<longleftrightarrow> (\<exists>c\<in>set (rows_below rows p). x = org_id c)"
  by (auto simp: child_rel_def org_links_def set_rows_below)

lemma descendants_unfold:
  "descendants (org_links rows) x = insert x (\<Union>c\<in>set (rows_below rows x). descendants (org_links rows) (org_id c))"
proof -
  have "y = x \<or> (\<exists>c\<in>set (rows_below rows x). (org_id c, y) \<in> (child_rel (org_links rows))\<^sup>*)"
    if "(x, y) \<in> (child_rel (org_links rows))\<^sup>*" for y
    using that by (cases rule: converse_rtranclE) (auto simp: child_rel_links)
  moreover have "(x, y) \<in> (child_rel (org_links rows))\<^sup>*"
    if "c \<in> set (rows_below rows x)" "(org_id c, y) \<in> (child_rel (org_links rows))\<^sup>*" for c y
    using that child_rel_links by (blast intro: converse_rtrancl_into_rtrancl)
  ultimately show ?thesis unfolding descendants_def by blast
qed

lemma rooted_descendant:
  assumes "y \<in> descendants (org_links rows) x" and "rooted rows x d"
  shows "\<exists>e\<ge>d. rooted rows y e \<and> (e = d \<longrightarrow> y = x)"
proof -
  from assms(1) have "(x, y) \<in> (child_rel (org_links rows))\<^sup>*" by (simp add: descendants_def)
  then show ?thesis
  proof (induction rule: rtrancl_induct)
    case base
    with assms(2) show ?case by blast
  next
    case (step y z)
    then obtain e c where "d \<le> e" "rooted rows y e" "c \<in> set (rows_below rows y)" "z = org_id c"
      by (auto simp: child_rel_links)
    then show ?case by (intro exI [of _ "Suc e"]) (auto intro: rooted.below)
  qed
qed

lemma single_parent: "distinct (map org_id rows) \<Longrightarrow> single_valued ((child_rel (org_links rows))\<inverse>)"
  by (auto simp: single_valued_def child_rel_links set_rows_below) (metis row_unique option.inject)

lemma distinct_concat_map:
  "distinct xs \<Longrightarrow> (\<And>x. x \<in> set xs \<Longrightarrow> distinct (f x)) \<Longrightarrow>
   (\<And>x y. x \<in> set xs \<Longrightarrow> y \<in> set xs \<Longrightarrow> set (f x) \<inter> set (f y) \<noteq> {} \<Longrightarrow> x = y) \<Longrightarrow>
   distinct (concat (map f xs))"
proof (induction xs)
  case (Cons x xs)
  have "set (f x) \<inter> set (f y) = {}" if "y \<in> set xs" for y
    using Cons.prems(1) Cons.prems(3) [of x y] that by auto
  moreover have "distinct (concat (map f xs))" using Cons by simp
  ultimately show ?case using Cons.prems(2) [of x] by auto
qed simp

text \<open>Two nodes of the same depth with a common descendant are the same.\<close>

lemma rooted_join:
  assumes ids: "distinct (map org_id rows)" and "rooted rows x d" "rooted rows y d"
    and "z \<in> descendants (org_links rows) x" "z \<in> descendants (org_links rows) y"
  shows "x = y"
proof -
  let ?r = "child_rel (org_links rows)"
  have "(z, x) \<in> (?r\<inverse>)\<^sup>*" "(z, y) \<in> (?r\<inverse>)\<^sup>*"
    using assms(4,5) by (simp_all add: descendants_def rtrancl_converse)
  then have "(x, y) \<in> (?r\<inverse>)\<^sup>* \<or> (y, x) \<in> (?r\<inverse>)\<^sup>*"
    using single_valued_confluent [OF single_parent [OF ids]] by blast
  then have "x \<in> descendants (org_links rows) y \<or> y \<in> descendants (org_links rows) x"
    by (auto simp: descendants_def rtrancl_converse)
  then show ?thesis using rooted_descendant assms(2,3) rooted_functional [OF ids] by metis
qed

lemma to_node_ids:
  assumes ids: "distinct (map org_id rows)"
  shows "rooted rows (org_id g) d \<Longrightarrow> length rows \<le> d + n \<Longrightarrow>
    set (node_ids (to_node n rows g)) = descendants (org_links rows) (org_id g) \<and>
    distinct (node_ids (to_node n rows g))"
proof (induction n arbitrary: g d)
  case 0
  then show ?case using rooted_bound [OF ids] by fastforce
next
  case (Suc n)
  let ?cs = "rows_below rows (org_id g)" and ?t = "\<lambda>c. node_ids (to_node n rows c)"
  have child: "rooted rows (org_id c) (Suc d)" if "c \<in> set ?cs" for c using Suc.prems(1) that by (rule rooted.below)
  then have IH: "set (?t c) = descendants (org_links rows) (org_id c)" "distinct (?t c)" if "c \<in> set ?cs" for c
    using Suc.IH [of c "Suc d"] Suc.prems(2) that by simp_all
  have "org_id g \<notin> set (?t c)" if "c \<in> set ?cs" for c
    using rooted_descendant [OF _ child [OF that]] IH(1) [OF that] rooted_functional [OF ids _ Suc.prems(1)]
    by (metis Suc_n_not_le_n)
  moreover have "c = c'" if "c \<in> set ?cs" "c' \<in> set ?cs" "set (?t c) \<inter> set (?t c') \<noteq> {}" for c c'
    using rooted_join [OF ids child [OF that(1)] child [OF that(2)]] that IH(1) row_unique [OF ids, of c c']
    by (auto simp: set_rows_below)
  moreover have "distinct ?cs" using ids by (simp add: rows_below_def distinct_map)
  ultimately have "distinct (org_id g # concat (map ?t ?cs))"
    using IH(2) distinct_concat_map [of ?cs ?t] by auto
  then show ?case using IH(1) by (simp add: node_ids_to_node [of "Suc n" rows g] descendants_unfold [of rows "org_id g"])
qed

lemma to_node_children:
  assumes ids: "distinct (map org_id rows)"
  shows "rooted rows (org_id g) d \<Longrightarrow> length rows \<le> d + n \<Longrightarrow> nd \<in> set (subnodes (to_node n rows g)) \<Longrightarrow>
    map node_id (node_children nd) = map org_id (rows_below rows (node_id nd))"
proof (induction n arbitrary: g d)
  case 0
  then show ?case using rooted_bound [OF ids] by fastforce
next
  case (Suc n)
  let ?cs = "rows_below rows (org_id g)"
  have node: "to_node (Suc n) rows g =
      Org_node (org_id g) (org_parent_id g) (org_name g) (org_type g) (map (to_node n rows) ?cs)"
    by (simp add: to_node.simps)
  have ids_below: "map node_id (map (to_node n rows) ?cs) = map org_id ?cs"
    by (simp add: to_node.simps comp_def)
  from Suc.prems(3) consider "nd = to_node (Suc n) rows g" |
      c where "c \<in> set ?cs" "nd \<in> set (subnodes (to_node n rows c))"
    unfolding node by auto
  then show ?case
  proof cases
    case 1
    with ids_below show ?thesis unfolding node by simp
  next
    case 2
    from Suc.prems(1) 2(1) have "rooted rows (org_id c) (Suc d)" by (rule rooted.below)
    with Suc.IH [of c "Suc d"] Suc.prems(2) 2(2) show ?thesis by simp
  qed
qed

lemma forest_ids:
  assumes "distinct (map org_id rows)"
  shows "set (concat (map node_ids (org_forest rows))) = {x. \<exists>d. rooted rows x d}"
    and "distinct (concat (map node_ids (org_forest rows)))"
proof -
  let ?n = "length rows"
  have root: "rooted rows (org_id g) 0" if "g \<in> set (root_rows rows)" for g using that by (rule rooted.root)
  have tree: "set (node_ids (to_node ?n rows g)) = descendants (org_links rows) (org_id g)"
      "distinct (node_ids (to_node ?n rows g))" if "g \<in> set (root_rows rows)" for g
    using to_node_ids [OF assms root [OF that], of ?n] by simp_all
  have "\<exists>g\<in>set (root_rows rows). x \<in> descendants (org_links rows) (org_id g)" if "rooted rows x d" for x d
    using that
  proof (induction rule: rooted.induct)
    case (below p d c)
    then show ?case by (metis child_rel_links descendants_def rtrancl_into_rtrancl Image_singleton_iff)
  qed (blast intro: self_descendant)
  moreover have "\<exists>d. rooted rows x d" if "g \<in> set (root_rows rows)" "x \<in> descendants (org_links rows) (org_id g)" for x g
    using rooted_descendant [OF that(2) root [OF that(1)]] by blast
  ultimately show "set (concat (map node_ids (org_forest rows))) = {x. \<exists>d. rooted rows x d}"
    by (auto simp: org_forest_def tree)
  have "g = g'" if "g \<in> set (root_rows rows)" "g' \<in> set (root_rows rows)"
      "set (node_ids (to_node ?n rows g)) \<inter> set (node_ids (to_node ?n rows g')) \<noteq> {}" for g g'
    using rooted_join [OF assms root [OF that(1)] root [OF that(2)]] that row_unique [OF assms, of g g']
    by (auto simp: tree root_rows_def)
  moreover have "distinct (root_rows rows)" using assms by (simp add: root_rows_def distinct_map)
  ultimately show "distinct (concat (map node_ids (org_forest rows)))"
    using distinct_concat_map [of "root_rows rows" "\<lambda>g. node_ids (to_node ?n rows g)"] tree(2)
    by (simp add: org_forest_def comp_def)
qed

lemma acyclic_rooted:
  assumes "acyclic (child_rel (org_links rows))" and "g \<in> set rows"
  shows "\<exists>d. rooted rows (org_id g) d"
proof -
  have "child_rel (org_links rows) \<subseteq> (\<lambda>c. (the (org_parent_id c), org_id c)) ` set rows"
    by (clarsimp simp: child_rel_links set_rows_below image_iff) force
  then have "finite (child_rel (org_links rows))" using finite_surj [of "set rows"] by blast
  then have "wf (child_rel (org_links rows))" using assms(1) by (rule finite_acyclic_wf)
  then have "\<forall>c\<in>set rows. org_id c = x \<longrightarrow> (\<exists>d. rooted rows x d)" for x
  proof (induction x rule: wf_induct_rule)
    case (less x)
    show ?case
    proof (intro ballI impI)
      fix c
      assume c: "c \<in> set rows" "org_id c = x"
      show "\<exists>d. rooted rows x d"
      proof (cases "c \<in> set (root_rows rows)")
        case True
        with c show ?thesis by (auto intro: rooted.root)
      next
        case False
        with c obtain q where q: "q \<in> set rows" "org_parent_id c = Some (org_id q)"
          by (auto simp: root_rows_def split: option.splits)
        then have "(org_id q, x) \<in> child_rel (org_links rows)" using c by (auto simp: child_rel_links set_rows_below)
        with less q(1) obtain d where "rooted rows (org_id q) d" by blast
        then show ?thesis using c q(2) rooted.below [of rows "org_id q" d c] by (auto simp: set_rows_below)
      qed
    qed
  qed
  with assms(2) show ?thesis by blast
qed

text \<open>The tree of organisations that a user is shown holds each organisation at most once, the
  children of each node are the visible organisations with that parent in the order of their names, and an
  organisation is shown exactly if its visible ancestors end in a root; when the parent links have
  no cycle these are all the organisations the user may see.\<close>

theorem org_tree_exact:
  assumes ids: "distinct (map org_id (od_orgs db))" and shown: "list_orgs (Inr u) db = Inr forest"
    and vis: "vis = visible_rows u (sort_key org_name (od_orgs db))"
  shows "distinct (concat (map node_ids forest)) \<and>
    set (concat (map node_ids forest)) = {x. \<exists>d. rooted vis x d} \<and>
    (\<forall>nd\<in>set (concat (map subnodes forest)). map node_id (node_children nd) = map org_id (rows_below vis (node_id nd))) \<and>
    sorted (map org_name vis) \<and>
    (acyclic (child_rel (org_links (od_orgs db))) \<longrightarrow>
       set (concat (map node_ids forest)) = visible_org_ids (org_links (od_orgs db)) u \<inter> org_id ` set (od_orgs db))"
proof -
  let ?os = "sort_key org_name (od_orgs db)"
  have links: "set (org_links ?os) = set (org_links (od_orgs db))" by (simp add: org_links_def)
  then have "child_rel (org_links ?os) = child_rel (org_links (od_orgs db))" by (simp add: child_rel_def)
  then have see: "visible_org_ids (org_links ?os) u = visible_org_ids (org_links (od_orgs db)) u"
    by (simp add: visible_org_ids_def org_walk_descendants descendants_def org_links_def image_image)
  have f: "forest = org_forest vis" using shown vis by (simp add: list_orgs_def)
  have "distinct (map org_id ?os)" using ids by (simp add: distinct_map)
  then have ids': "distinct (map org_id vis)" by (simp add: vis visible_rows_def distinct_map_filter)
  have "sorted (map org_name ?os)" by simp
  then have srt: "sorted (map org_name vis)" unfolding vis visible_rows_def by (rule sorted_filter)
  have sub: "set vis = {g \<in> set (od_orgs db). org_id g \<in> visible_org_ids (org_links (od_orgs db)) u}"
    by (auto simp: vis visible_rows_def see)
  have kids: "map node_id (node_children nd) = map org_id (rows_below vis (node_id nd))"
    if "nd \<in> set (concat (map subnodes forest))" for nd
  proof -
    from that obtain g where "g \<in> set (root_rows vis)" "nd \<in> set (subnodes (to_node (length vis) vis g))"
      by (auto simp: f org_forest_def)
    then show ?thesis using to_node_children [OF ids' rooted.root, of g "length vis" nd] by simp
  qed
  have "set (concat (map node_ids forest)) = org_id ` set vis" if ac: "acyclic (child_rel (org_links (od_orgs db)))"
  proof -
    have "child_rel (org_links vis) \<subseteq> child_rel (org_links (od_orgs db))"
      by (rule subrelI) (auto simp: child_rel_def org_links_def sub)
    with ac have "acyclic (child_rel (org_links vis))" by (rule acyclic_subset)
    then have "org_id ` set vis \<subseteq> {x. \<exists>d. rooted vis x d}" using acyclic_rooted by blast
    moreover have "{x. \<exists>d. rooted vis x d} \<subseteq> org_id ` set vis" using rooted_row by blast
    ultimately show ?thesis unfolding f forest_ids(1) [OF ids'] by (rule equalityI [rotated])
  qed
  then have "acyclic (child_rel (org_links (od_orgs db))) \<longrightarrow>
      set (concat (map node_ids forest)) = visible_org_ids (org_links (od_orgs db)) u \<inter> org_id ` set (od_orgs db)"
    unfolding sub by (auto simp: image_iff)
  with kids srt forest_ids [OF ids'] show ?thesis unfolding f by blast
qed

subsection \<open>Creation and visibility\<close>

lemma child_rel_add_org:
  "child_rel (org_links (insert_row \<lparr>org_id = gid, org_parent_id = Some p, org_name = n, org_type = t\<rparr> os)) =
     insert (p, gid) (child_rel (org_links os))"
  by (auto simp: child_rel_def org_links_def insert_row_def)

text \<open>Creating an organisation makes it visible to super administrators and to those who see its
  parent, and to nobody else, and changes nothing else of what anybody sees; an administrator below super
  administrator creates only below an organisation in scope and none of the two high levels.\<close>

theorem create_org_visibility:
  assumes "create_org now gid ip (Inr admin) name type parent db = (Inr nd, db')"
    and "gid \<notin> org_id ` set (od_orgs db)" and "\<forall>g\<in>set (od_orgs db). org_parent_id g \<noteq> Some gid"
    and "u_org_id v \<noteq> gid"
  shows "visible_org_ids (org_links (od_orgs db')) v = visible_org_ids (org_links (od_orgs db)) v \<union>
      (if is_super_admin v \<or> (\<exists>p. parent = Some p \<and> p \<in> visible_org_ids (org_links (od_orgs db)) v) then {gid} else {}) \<and>
    (\<not> is_super_admin admin \<longrightarrow> type \<notin> high_level_types \<and>
       (\<exists>p. parent = Some p \<and> p \<in> visible_org_ids (org_links (od_orgs db)) admin))"
proof -
  let ?g = "\<lparr>org_id = gid, org_parent_id = parent, org_name = name, org_type = type\<rparr>"
  let ?r = "child_rel (org_links (od_orgs db))"
  have new: "od_orgs db' = insert_row ?g (od_orgs db)"
    and admin: "\<not> is_super_admin admin \<longrightarrow> type \<notin> high_level_types \<and>
       (\<exists>p. parent = Some p \<and> p \<in> visible_org_ids (org_links (od_orgs db)) admin)"
    using assms(1) by (auto simp: create_org_def Let_def split: if_splits option.splits)
  have "(gid, z) \<notin> ?r" for z using assms(3) by (auto simp: child_rel_def org_links_def)
  then have leaf: "(gid, y) \<in> ?r\<^sup>* \<Longrightarrow> y = gid" for y by (metis converse_rtranclE)
  have "visible_org_ids (org_links (od_orgs db')) v = visible_org_ids (org_links (od_orgs db)) v \<union>
      (if is_super_admin v \<or> (\<exists>p. parent = Some p \<and> p \<in> visible_org_ids (org_links (od_orgs db)) v) then {gid} else {})"
  proof (cases "is_super_admin v")
    case True
    then show ?thesis by (auto simp: visible_org_ids_def new org_links_def insert_row_def)
  next
    case False
    show ?thesis
    proof (cases parent)
      case None
      then have "child_rel (org_links (od_orgs db')) = ?r"
        by (auto simp: new child_rel_def org_links_def insert_row_def)
      then show ?thesis using False None by (simp add: visible_org_ids_def org_walk_descendants descendants_def)
    next
      case (Some p)
      have "(gid, y) \<in> ?r\<^sup>* \<longleftrightarrow> y = gid" for y using leaf [of y] by blast
      then have "(x, y) \<in> (child_rel (org_links (od_orgs db')))\<^sup>* \<longleftrightarrow> (x, y) \<in> ?r\<^sup>* \<or> (x, p) \<in> ?r\<^sup>* \<and> y = gid" for x y
        unfolding new Some child_rel_add_org rtrancl_insert by simp
      then have "(child_rel (org_links (od_orgs db')))\<^sup>* `` {u_org_id v} =
          ?r\<^sup>* `` {u_org_id v} \<union> (if (u_org_id v, p) \<in> ?r\<^sup>* then {gid} else {})"
        by (simp add: set_eq_iff)
      then show ?thesis using False Some by (simp add: visible_org_ids_def org_walk_descendants descendants_def)
    qed
  qed
  with admin show ?thesis by blast
qed

subsection \<open>The numbers add up\<close>

definition has_class :: "tag_db \<Rightarrow> string \<Rightarrow> machine \<Rightarrow> bool" where
  "has_class db key m \<longleftrightarrow>
     (\<exists>mt\<in>set (td_machine_tags db). mt_machine_id mt = m_id m \<and> mt_kind mt = CLASSIFICATION \<and>
        (\<exists>t\<in>set (td_tags db). tag_id t = mt_tag_id mt \<and> tag_key t = key))"

lemma one_classification_row:
  assumes "tags_ok db" and "mt \<in> set (td_machine_tags db)" "mt' \<in> set (td_machine_tags db)"
    and "mt_kind mt = CLASSIFICATION" "mt_kind mt' = CLASSIFICATION" and "mt_machine_id mt = mt_machine_id mt'"
  shows "mt = mt'"
  using assms by (auto simp: tags_ok_def mtags_ok_def distinct_map inj_on_def)

lemma has_class_unique: "tags_ok db \<Longrightarrow> has_class db k m \<Longrightarrow> has_class db k' m \<Longrightarrow> k = k'"
  unfolding has_class_def using one_classification_row tag_id_unique by (metis tags_ok_def)

lemma cls_count_machines:
  assumes ok: "tags_ok (en_tags (fl_db s))" and ids: "distinct (map m_id (en_machines (fl_db s)))"
  shows "cls_count org key s = length (filter (\<lambda>m. m_org_id m = org \<and> has_class (en_tags (fl_db s)) key m) (en_machines (fl_db s)))"
proof -
  let ?d = "en_tags (fl_db s)" and ?ms = "en_machines (fl_db s)"
  let ?P = "\<lambda>(mt, m, t). mt_machine_id mt = m_id m \<and> mt_tag_id mt = tag_id t \<and> m_org_id m = org \<and>
         tag_key t = key \<and> mt_kind mt = CLASSIFICATION"
  let ?xs = "filter ?P (List.product (td_machine_tags ?d) (List.product ?ms (td_tags ?d)))"
  let ?ys = "filter (\<lambda>m. m_org_id m = org \<and> has_class ?d key m) ?ms"
  have tables: "tag_table_ok (td_tags ?d)" "mtags_ok (td_tags ?d) (td_machine_tags ?d)"
    using ok by (simp_all add: tags_ok_def)
  then have "distinct (td_tags ?d)" "distinct (td_machine_tags ?d)" and ms: "distinct ?ms"
    using ids by (auto simp: tag_table_ok_def mtags_ok_def distinct_map)
  then have xs: "distinct ?xs" by (intro distinct_filter distinct_product)
  have "inj_on (\<lambda>(mt, m, t). m) (set ?xs)"
    using one_classification_row [OF ok] tag_id_unique [OF tables(1)] by (intro inj_onI) (auto, metis)
  then have "card ((\<lambda>(mt, m, t). m) ` set ?xs) = card (set ?xs)" by (rule card_image)
  moreover have "(\<lambda>(mt, m, t). m) ` set ?xs = set ?ys"
  proof (intro equalityI subsetI)
    fix m assume "m \<in> set ?ys"
    then obtain mt t where mt: "mt \<in> set (td_machine_tags ?d)" "mt_machine_id mt = m_id m" "mt_kind mt = CLASSIFICATION"
      and t: "t \<in> set (td_tags ?d)" "tag_id t = mt_tag_id mt" "tag_key t = key"
      unfolding has_class_def by auto
    then have "(mt, m, t) \<in> set ?xs" using \<open>m \<in> set ?ys\<close> by simp
    then show "m \<in> (\<lambda>(mt, m, t). m) ` set ?xs" by (rule rev_image_eqI) simp
  qed (clarsimp simp: has_class_def, metis)
  ultimately have "card (set ?xs) = card (set ?ys)" by (simp only:)
  then have "length ?xs = length ?ys"
    unfolding distinct_card [OF xs] distinct_card [OF distinct_filter [OF ms]] .
  then show ?thesis by (simp only: cls_count_def)
qed

lemma filter_three:
  assumes "\<And>x. x \<in> set xs \<Longrightarrow> P x \<Longrightarrow> A x \<or> B x \<or> C x"
    and "\<And>x. \<not> (A x \<and> B x)" "\<And>x. \<not> (A x \<and> C x)" "\<And>x. \<not> (B x \<and> C x)"
  shows "length (filter P xs) = length (filter (\<lambda>x. P x \<and> A x) xs) + length (filter (\<lambda>x. P x \<and> B x) xs) +
    length (filter (\<lambda>x. P x \<and> C x) xs)"
  using assms(1)
proof (induction xs)
  case (Cons x xs)
  then show ?case using assms(2,3,4) [of x] by auto
qed simp

lemma sum_over_orgs:
  assumes "distinct (map org_id gs)"
  shows "(\<Sum>g\<leftarrow>gs. length (filter (\<lambda>m. m_org_id m = org_id g) ms)) = length (filter (\<lambda>m. m_org_id m \<in> org_id ` set gs) ms)"
  using assms
proof (induction gs)
  case (Cons g gs)
  have "length (filter (\<lambda>m. m_org_id m \<in> org_id ` set (g # gs)) ms) =
      length (filter (\<lambda>m. m_org_id m = org_id g) ms) + length (filter (\<lambda>m. m_org_id m \<in> org_id ` set gs) ms)"
    using Cons.prems by (induction ms) auto
  with Cons show ?case by simp
qed simp

lemma sum_list_filter_zero: "(\<And>x. x \<in> set xs \<Longrightarrow> \<not> P x \<Longrightarrow> f x = (0::nat)) \<Longrightarrow> sum_list (map f (filter P xs)) = sum_list (map f xs)"
  by (induction xs) auto

text \<open>The statistics account for every machine: where each machine has a classification, the three
  classes of an organisation add up to its machines, and the totals of all rows add up to the machines of the
  organisations the user may see.\<close>

theorem org_stats_account:
  assumes "tags_ok (en_tags (fl_db s))" and "distinct (map m_id (en_machines (fl_db s)))"
    and "distinct (map org_id os)" and "\<forall>m\<in>set (en_machines (fl_db s)). m_org_id m \<in> org_id ` set os"
    and classified: "\<forall>m\<in>set (en_machines (fl_db s)). \<exists>key\<in>set classification_keys. has_class (en_tags (fl_db s)) key m"
  shows "(\<forall>st\<in>set (org_stats u os s). os_total st = os_personal st + os_official st + os_bmnn st) \<and>
    sum_list (map os_total (org_stats u os s)) =
      length (filter (\<lambda>m. m_org_id m \<in> visible_org_ids (org_links os) u) (en_machines (fl_db s)))"
proof -
  let ?d = "en_tags (fl_db s)" and ?ms = "en_machines (fl_db s)"
  have "length (org_machines org s) = cls_count org ''personal'' s + cls_count org ''official'' s + cls_count org ''bmnn'' s"
    for org
    unfolding org_machines_def cls_count_machines [OF assms(1,2)]
    by (rule filter_three [where P = "\<lambda>m. m_org_id m = org"])
      (use classified in \<open>force simp: classification_keys_def\<close>,
        (use has_class_unique [OF assms(1)] in \<open>blast dest: has_class_unique [OF assms(1)]\<close>)+)
  then have "\<forall>st\<in>set (org_stats u os s). os_total st = os_personal st + os_official st + os_bmnn st"
    by (auto simp: org_stats_def org_stat_of_def Let_def)
  moreover have "sum_list (map os_total (org_stats u os s)) =
      (\<Sum>g\<leftarrow>visible_rows u os. length (org_machines (org_id g) s))"
    unfolding org_stats_def sum_list_sort_key
    by (simp add: comp_def org_stat_of_def Let_def) (rule sum_list_filter_zero, simp)
  moreover have "\<dots> = length (filter (\<lambda>m. m_org_id m \<in> org_id ` set (visible_rows u os)) ?ms)"
    unfolding org_machines_def
    by (rule sum_over_orgs) (use assms(3) in \<open>simp add: visible_rows_def distinct_map_filter\<close>)
  moreover have "filter (\<lambda>m. m_org_id m \<in> org_id ` set (visible_rows u os)) ?ms =
      filter (\<lambda>m. m_org_id m \<in> visible_org_ids (org_links os) u) ?ms"
    using assms(4) by (intro filter_cong) (auto simp: visible_rows_def)
  ultimately show ?thesis by simp
qed

subsection \<open>Instances\<close>

definition sample_org_db :: org_db where
  "sample_org_db =
     \<lparr>od_orgs = [\<lparr>org_id = 10, org_parent_id = None, org_name = ''A'', org_type = ''ubnd_xa''\<rparr>,
                 \<lparr>org_id = 11, org_parent_id = Some 10, org_name = ''B'', org_type = ''phong''\<rparr>],
      od_log = []\<rparr>"

lemma sample_org_links: "org_links (od_orgs sample_org_db) = [(10, None), (11, Some 10)]"
  by (simp add: sample_org_db_def org_links_def)

lemma sample_not_super: "\<not> is_super_admin sample_user"
  by (simp add: is_super_admin_def sample_user_def super_admin_roles_def)

lemma sample_org_scope: "visible_org_ids [(10, None), (11, Some 10)] sample_user = {10, 11}"
  using sample_not_super
  by (simp add: visible_org_ids_def by_parent_eq org_walk.simps sample_user_def)

lemma org_tree_exact_witness:
  "\<exists>forest. list_orgs (Inr sample_user) sample_org_db = Inr forest \<and> distinct (concat (map node_ids forest)) \<and>
     set (concat (map node_ids forest)) = {10, 11}"
proof -
  obtain forest where f: "list_orgs (Inr sample_user) sample_org_db = Inr forest" by (simp add: list_orgs_def)
  have ids: "distinct (map org_id (od_orgs sample_org_db))" by (simp add: sample_org_db_def)
  have "child_rel [(10, None), (11, Some 10)] = {(10, 11)}" by (auto simp: child_rel_def)
  then have ac: "acyclic (child_rel (org_links (od_orgs sample_org_db)))"
    unfolding sample_org_links by (intro acyclicI_order [where f = "\<lambda>x. - int x"]) simp
  have scope: "visible_org_ids (org_links (od_orgs sample_org_db)) sample_user \<inter> org_id ` set (od_orgs sample_org_db) = {10, 11}"
    by (simp only: sample_org_links sample_org_scope) (auto simp: sample_org_db_def)
  note tree = org_tree_exact [OF ids f refl]
  have "set (concat (map node_ids forest)) = {10, 11}"
    using tree [THEN conjunct2, THEN conjunct2, THEN conjunct2, THEN conjunct2, THEN mp, OF ac] scope by (rule trans)
  with f tree [THEN conjunct1] show ?thesis by (intro exI [of _ forest] conjI)
qed

lemma create_org_visibility_witness:
  "visible_org_ids (org_links (od_orgs (snd (create_org 5 12 None (Inr sample_user) ''C'' ''phong'' (Some 11) sample_org_db))))
     sample_user = {10, 11, 12}"
proof -
  let ?r = "create_org 5 12 None (Inr sample_user) ''C'' ''phong'' (Some 11) sample_org_db"
  have "fst ?r = Inr (Org_node 12 (Some 11) ''C'' ''phong'' [])"
    by (simp add: create_org_def sample_org_links sample_org_scope valid_create_types_def high_level_types_def Let_def)
  then have "?r = (Inr (Org_node 12 (Some 11) ''C'' ''phong'' []), snd ?r)" by (metis prod.collapse)
  from create_org_visibility [OF this, of sample_user] show ?thesis
    by (simp add: sample_org_links sample_org_scope) (auto simp: sample_org_db_def sample_user_def sample_not_super)
qed

definition tagged_fleet :: fleet where
  "tagged_fleet = set_tags
     \<lparr>td_tags = td_tags sample_tags,
      td_machine_tags = [\<lparr>mt_machine_id = 20, mt_tag_id = 1, mt_kind = CLASSIFICATION, mt_set_by = None\<rparr>]\<rparr>
     (sample_fleet [sample_fleet_machine])"

lemma org_stats_account_witness:
  "sum_list (map os_total (org_stats sample_user (od_orgs sample_org_db) tagged_fleet)) = 1"
proof -
  have ok: "tags_ok (en_tags (fl_db tagged_fleet))"
    by (simp add: tagged_fleet_def set_tags_def tags_ok_def tag_table_ok_def mtags_ok_def sample_tags_simps classification_keys_def)
  have ms: "en_machines (fl_db tagged_fleet) = [sample_fleet_machine]"
    by (simp add: tagged_fleet_def set_tags_def sample_fleet_def)
  have "has_class (en_tags (fl_db tagged_fleet)) ''personal'' sample_fleet_machine"
    by (simp add: has_class_def tagged_fleet_def set_tags_def sample_tags_simps sample_fleet_machine_def)
  then have "\<forall>m\<in>set (en_machines (fl_db tagged_fleet)). \<exists>key\<in>set classification_keys. has_class (en_tags (fl_db tagged_fleet)) key m"
    by (simp add: ms classification_keys_def)
  from org_stats_account [OF ok _ _ _ this, of "od_orgs sample_org_db" sample_user] show ?thesis
    by (simp add: ms sample_org_links sample_org_scope) (simp add: sample_fleet_machine_def sample_org_db_def)
qed

end
