(* ===== verification/Accounts.thy ===== *)
theory Accounts
  imports Machines
begin

text \<open>
  Accounts: the routes of \<open>api/routes/users.py\<close>, with which super administrators create, change,
  reset and delete users. They work on the tables of the session component, on the ids of the organisations, and
  on the rows of other tables that refer to a user. The phone numbers of users are left out.
\<close>

subsection \<open>State\<close>

record accounts =
  ac_db :: auth_db
  ac_orgs :: "uuid list"
  ac_refs :: "(string \<times> uuid) list"  \<comment> \<open>table and user of each row whose reference has no delete rule\<close>

definition super_roles :: "user_role list" where
  "super_roles = [SUPER_ADMIN, ADMIN_GLOBAL]"

definition is_super :: "user \<Rightarrow> bool" where
  "is_super u \<longleftrightarrow> u_role u \<in> set super_roles"

definition user_missing :: http_error where
  "user_missing = HTTPException 404 ''Nguoi dung khong ton tai''"

definition account_admin :: "crypto \<Rightarrow> time \<Rightarrow> string option \<Rightarrow> accounts \<Rightarrow> http_error + user" where
  "account_admin x now cred s = require_role super_roles x now (ad_users (ac_db s)) cred"

definition find_user :: "uuid \<Rightarrow> accounts \<Rightarrow> user option" where
  "find_user uid s = find (\<lambda>u. u_id u = uid) (ad_users (ac_db s))"

text \<open>What the handlers for one user have in common: the permission, the row, and the audit.\<close>

definition on_user ::
  "http_error + user \<Rightarrow> uuid \<Rightarrow> accounts \<Rightarrow> (user \<Rightarrow> user \<Rightarrow> (http_error + 'a) \<times> accounts) \<Rightarrow> (http_error + 'a) \<times> accounts" where
  "on_user auth uid s k =
     (case auth of
        Inl e \<Rightarrow> (Inl e, s)
      | Inr admin \<Rightarrow> (case find_user uid s of None \<Rightarrow> (Inl user_missing, s) | Some u \<Rightarrow> k admin u))"

definition user_audit :: "time \<Rightarrow> string \<Rightarrow> user \<Rightarrow> user \<Rightarrow> string option \<Rightarrow> auth_db \<Rightarrow> auth_db" where
  "user_audit now action admin u ip = log_audit now action (uuid_of admin) (Some (uuid_str (u_id u))) ip"

subsection \<open>Operations\<close>

record user_query =
  uq_org_id :: "uuid option"
  uq_role :: "user_role option"
  uq_q :: "string option"
  uq_activated :: "bool option"

text \<open>\<open>created\<close> is the creation column.\<close>

definition list_users ::
  "(uuid \<Rightarrow> time) \<Rightarrow> http_error + user \<Rightarrow> user_query \<Rightarrow> nat \<Rightarrow> nat \<Rightarrow> accounts \<Rightarrow> http_error + user list \<times> nat" where
  "list_users created auth q limit offset s =
     (case auth of
        Inl e \<Rightarrow> Inl e
      | Inr _ \<Rightarrow>
          (let us = filter (\<lambda>u.
                 (case uq_org_id q of None \<Rightarrow> True | Some g \<Rightarrow> u_org_id u = g) \<and>
                 (case uq_role q of None \<Rightarrow> True | Some r \<Rightarrow> u_role u = r) \<and>
                 (case uq_activated q of None \<Rightarrow> True | Some b \<Rightarrow> (u_last_login_at u \<noteq> None) = b) \<and>
                 (truthy (uq_q q) \<longrightarrow>
                    (let pattern = ''%'' @ the (uq_q q) @ ''%'' in ilike (u_full_name u) pattern \<or> ilike (u_email u) pattern)))
               (ad_users (ac_db s))
           in Inr (take limit (drop offset (sort_key (\<lambda>u. - created (u_id u)) us)), length us)))"

record user_request =
  ur_email :: string
  ur_full_name :: string
  ur_role :: user_role
  ur_org_id :: uuid
  ur_password :: string

definition account_row :: "uuid \<Rightarrow> string \<Rightarrow> string \<Rightarrow> user_request \<Rightarrow> user" where
  "account_row uid email h b =
     \<lparr>u_id = uid, u_org_id = ur_org_id b, u_full_name = ur_full_name b, u_email = email, u_role = ur_role b,
      u_password_hash = Some h, u_totp_secret_encrypted = None, u_backup_codes = None, u_is_2fa_enabled = False,
      u_is_active = True, u_last_login_at = None, u_must_change_password = True, u_totp_last_counter = None,
      u_telegram_chat_id = None, u_telegram_linked_at = None\<rparr>"

text \<open>The audit row names the user before the row has been given its id.\<close>

definition create_user ::
  "crypto \<Rightarrow> time \<Rightarrow> uuid \<Rightarrow> string \<Rightarrow> string option \<Rightarrow> string option \<Rightarrow> user_request \<Rightarrow> accounts \<Rightarrow>
   (http_error + user) \<times> accounts" where
  "create_user x now uid salt ip cred b s =
     (case account_admin x now cred s of
        Inl e \<Rightarrow> (Inl e, s)
      | Inr admin \<Rightarrow>
          (let email = lower (strip (ur_email b)) in
           if \<exists>u\<in>set (ad_users (ac_db s)). u_email u = email then (Inl (HTTPException 409 ''Email da ton tai''), s)
           else if ur_org_id b \<notin> set (ac_orgs s) then (Inl (HTTPException 404 ''To chuc khong ton tai''), s)
           else (case hash_password x (ur_password b) salt of
                   None \<Rightarrow> (Inl internal_error, s)
                 | Some h \<Rightarrow>
                     (let u = account_row uid email h b; db = ac_db s in
                      (Inr u, s\<lparr>ac_db := log_audit now ''user.create'' (uuid_of admin) (Some ''None'') ip
                                 (db\<lparr>ad_users := insert_row u (ad_users db)\<rparr>)\<rparr>)))))"

definition get_user :: "http_error + user \<Rightarrow> uuid \<Rightarrow> accounts \<Rightarrow> http_error + user" where
  "get_user auth uid s =
     (case auth of Inl e \<Rightarrow> Inl e | Inr _ \<Rightarrow> (case find_user uid s of None \<Rightarrow> Inl user_missing | Some u \<Rightarrow> Inr u))"

record user_change =
  uc_full_name :: "string option"
  uc_role :: "user_role option"
  uc_org_id :: "uuid option"
  uc_is_active :: "bool option"

definition given :: "'a option \<Rightarrow> 'a \<Rightarrow> 'a" where
  "given v old = (case v of None \<Rightarrow> old | Some new \<Rightarrow> new)"

definition changed_user :: "user_change \<Rightarrow> user \<Rightarrow> user" where
  "changed_user b u =
     u\<lparr>u_org_id := given (uc_org_id b) (u_org_id u), u_full_name := given (uc_full_name b) (u_full_name u),
       u_role := given (uc_role b) (u_role u), u_is_active := given (uc_is_active b) (u_is_active u)\<rparr>"

definition update_user ::
  "crypto \<Rightarrow> time \<Rightarrow> string option \<Rightarrow> string option \<Rightarrow> uuid \<Rightarrow> user_change \<Rightarrow> accounts \<Rightarrow> (http_error + user) \<times> accounts" where
  "update_user x now ip cred uid b s =
     on_user (account_admin x now cred s) uid s (\<lambda>admin u.
       if u_id u = u_id admin \<and> (case uc_role b of None \<Rightarrow> False | Some r \<Rightarrow> r \<notin> set super_roles)
       then (Inl (HTTPException 400 ''Khong the tu ha quyen tai khoan dang dang nhap''), s)
       else if u_id u = u_id admin \<and> uc_is_active b = Some False
       then (Inl (HTTPException 400 ''Khong the tu khoa tai khoan dang dang nhap''), s)
       else if (case uc_org_id b of None \<Rightarrow> False | Some g \<Rightarrow> g \<notin> set (ac_orgs s))
       then (Inl (HTTPException 404 ''To chuc khong ton tai''), s)
       else (Inr (changed_user b u),
             s\<lparr>ac_db := user_audit now ''user.update'' admin u ip (put_user (changed_user b u) (ac_db s))\<rparr>))"

definition reset_password ::
  "crypto \<Rightarrow> time \<Rightarrow> string \<Rightarrow> string option \<Rightarrow> string option \<Rightarrow> uuid \<Rightarrow> string \<Rightarrow> accounts \<Rightarrow> (http_error + unit) \<times> accounts" where
  "reset_password x now salt ip cred uid new_password s =
     on_user (account_admin x now cred s) uid s (\<lambda>admin u.
       case hash_password x new_password salt of
         None \<Rightarrow> (Inl internal_error, s)
       | Some h \<Rightarrow>
           (Inr (), s\<lparr>ac_db := user_audit now ''user.reset_password'' admin u ip
              (revoke_user_refresh_tokens now (u_id u)
                 (put_user (u\<lparr>u_password_hash := Some h, u_must_change_password := True\<rparr>) (ac_db s)))\<rparr>))"

definition reset_2fa ::
  "crypto \<Rightarrow> time \<Rightarrow> string option \<Rightarrow> string option \<Rightarrow> uuid \<Rightarrow> accounts \<Rightarrow> (http_error + unit) \<times> accounts" where
  "reset_2fa x now ip cred uid s =
     on_user (account_admin x now cred s) uid s (\<lambda>admin u.
       (Inr (), s\<lparr>ac_db := user_audit now ''user.reset_2fa'' admin u ip
          (put_user (u\<lparr>u_is_2fa_enabled := False, u_totp_secret_encrypted := None, u_backup_codes := None,
                      u_totp_last_counter := None\<rparr>) (ac_db s))\<rparr>))"

text \<open>
  A row that is referred to cannot be deleted; the references from the refresh tokens have no delete rule
  either. The rows that the tables with a cascade lose are not part of the model.
\<close>

definition user_referenced :: "uuid \<Rightarrow> accounts \<Rightarrow> bool" where
  "user_referenced uid s \<longleftrightarrow>
     (\<exists>t\<in>set (ad_tokens (ac_db s)). rt_user_id t = uid) \<or> (\<exists>r\<in>set (ac_refs s). snd r = uid)"

definition delete_user ::
  "crypto \<Rightarrow> time \<Rightarrow> string option \<Rightarrow> string option \<Rightarrow> uuid \<Rightarrow> accounts \<Rightarrow> (http_error + unit) \<times> accounts" where
  "delete_user x now ip cred uid s =
     on_user (require_super_admin x now (ad_users (ac_db s)) cred) uid s (\<lambda>admin u.
       if u_id u = u_id admin then (Inl (HTTPException 400 ''Khong the tu xoa tai khoan dang dang nhap''), s)
       else if is_super u \<and> filter (\<lambda>v. is_super v \<and> u_id v \<noteq> u_id u \<and> u_is_active v) (ad_users (ac_db s)) = []
       then (Inl (HTTPException 400 ''Khong the xoa Super Admin cuoi cung con hoat dong''), s)
       else if user_referenced (u_id u) s then (Inl internal_error, s)
       else
         (let db = user_audit now ''user.delete'' admin u ip (ac_db s)
          in (Inr (), s\<lparr>ac_db := db\<lparr>ad_users := delete_where (\<lambda>v. u_id v = u_id u) (ad_users db)\<rparr>\<rparr>)))"

subsection \<open>Runs of sessions and account operations\<close>

datatype account_event =
    Session auth_event
  | Create_user time uuid string "string option" "string option" user_request
  | Update_user time "string option" "string option" uuid user_change
  | Reset_password time string "string option" "string option" uuid string
  | Reset_2fa time "string option" "string option" uuid
  | Delete_user time "string option" "string option" uuid

fun account_step :: "crypto \<Rightarrow> settings \<Rightarrow> account_event \<Rightarrow> accounts \<Rightarrow> accounts" where
  "account_step x cfg (Session e) s = s\<lparr>ac_db := auth_step x cfg e (ac_db s)\<rparr>"
| "account_step x cfg (Create_user now uid salt ip cred b) s = snd (create_user x now uid salt ip cred b s)"
| "account_step x cfg (Update_user now ip cred uid b) s = snd (update_user x now ip cred uid b s)"
| "account_step x cfg (Reset_password now salt ip cred uid p) s = snd (reset_password x now salt ip cred uid p s)"
| "account_step x cfg (Reset_2fa now ip cred uid) s = snd (reset_2fa x now ip cred uid s)"
| "account_step x cfg (Delete_user now ip cred uid) s = snd (delete_user x now ip cred uid s)"

text \<open>The ids of new rows are new.\<close>

fun fresh_ids :: "account_event \<Rightarrow> accounts \<Rightarrow> bool" where
  "fresh_ids (Session e) s \<longleftrightarrow> fresh_family e (ac_db s)"
| "fresh_ids (Create_user now uid salt ip cred b) s \<longleftrightarrow> uid \<notin> u_id ` set (ad_users (ac_db s))"
| "fresh_ids _ s \<longleftrightarrow> True"

subsection \<open>Who may administer\<close>

text \<open>The part of the user rows that permissions depend on.\<close>

definition authority :: "user list \<Rightarrow> (uuid \<times> user_role \<times> bool) list" where
  "authority us = map (\<lambda>u. (u_id u, u_role u, u_is_active u)) us"

lemma authority_put:
  assumes "distinct (map u_id (ad_users db))" and "u \<in> set (ad_users db)"
    and "u_id u' = u_id u" "u_role u' = u_role u" "u_is_active u' = u_is_active u"
  shows "authority (ad_users (put_user u' db)) = authority (ad_users db)"
  using assms by (auto simp: authority_def put_user_def update_where_def distinct_map dest: inj_onD)

lemma authority_ids: "authority us = authority us' \<Longrightarrow> map u_id us = map u_id us'"
  unfolding authority_def by (drule arg_cong [where f = "map fst"]) (simp add: comp_def)

lemma second_factor_user:
  "second_factor x cfg now u c = Inr (Some u') \<Longrightarrow> u_id u' = u_id u \<and> u_role u' = u_role u \<and> u_is_active u' = u_is_active u"
  by (auto simp: second_factor_def use_backup_code_def Let_def split: option.splits sum.splits if_splits)

lemma issue_tokens_users: "issue_tokens x cfg now fr f u db = Inr (resp, db') \<Longrightarrow> ad_users db' = ad_users db"
  by (auto simp: issue_tokens_def Let_def split: if_splits)

lemma finish_login_authority:
  assumes "distinct (map u_id (ad_users db))" and "u \<in> set (ad_users db)"
    and "u_id u' = u_id u" "u_role u' = u_role u" "u_is_active u' = u_is_active u"
  shows "authority (ad_users (snd (finish_login x cfg now fr ip u' db))) = authority (ad_users db)"
  using authority_put [OF assms(1,2), of "u'\<lparr>u_last_login_at := Some now\<rparr>"] assms(3-)
  by (auto simp: finish_login_def Let_def split: sum.splits dest!: issue_tokens_users)

lemma login_authority:
  assumes "distinct (map u_id (ad_users db))"
  shows "authority (ad_users (snd (login x cfg now fr ip email pw totp db))) = authority (ad_users db)"
  by (auto simp: login_def Let_def split: option.splits sum.splits
      dest!: find_SomeD second_factor_user intro: finish_login_authority [OF assms])

lemma current_user_row: "get_current_user x now us cred = Inr u \<Longrightarrow> u \<in> set us"
  using find_SomeD [OF get_current_user_found(1)] by simp

lemma resolved_user_row: "resolve_user_from_token x now us cred = Inr u \<Longrightarrow> u \<in> set us \<and> u_is_active u"
  by (auto simp: resolve_user_from_token_def split: option.splits if_splits dest!: find_SomeD)

lemma refresh_users: "ad_users (snd (refresh x cfg now fr tok db)) = ad_users db"
  by (auto simp: refresh_def Let_def revoke_refresh_family_def split: option.splits sum.splits dest!: issue_tokens_users)

lemma logout_users: "ad_users (snd (logout x now body cred db)) = ad_users db"
  by (auto simp: logout_def Let_def split: option.splits sum.splits)

lemma auth_step_authority:
  assumes ids: "distinct (map u_id (ad_users db))"
  shows "authority (ad_users (auth_step x cfg e db)) = authority (ad_users db)"
proof (cases e)
  case (TotpSetup now secret rnd salts iv cred)
  then show ?thesis
    by (auto simp: totp_setup_def Let_def split: option.splits sum.splits dest!: current_user_row
        intro!: authority_put [OF ids])
next
  case (TotpConfirm now fr c cred)
  then show ?thesis
    by (auto simp: totp_confirm_def Let_def split: option.splits sum.splits
        dest!: current_user_row issue_tokens_users intro!: authority_put [OF ids])
next
  case (ChangePassword now salt cur new cred)
  then show ?thesis
    by (auto simp: change_password_def Let_def get_current_user_allow_password_change_def
        revoke_user_refresh_tokens_def split: option.splits sum.splits
        dest!: resolved_user_row intro!: authority_put [OF ids])
next
  case (UpdateProfile now name cred)
  then show ?thesis
    by (auto simp: update_my_profile_def Let_def split: sum.splits dest!: current_user_row
        intro!: authority_put [OF ids])
next
  case (DisableTotp now cur cred)
  then show ?thesis
    by (auto simp: disable_my_totp_def Let_def split: option.splits sum.splits dest!: current_user_row
        intro!: authority_put [OF ids])
qed (simp_all add: login_authority [OF ids] refresh_users logout_users)

lemma account_admin_found:
  assumes "account_admin x now cred s = Inr a \<or> require_super_admin x now (ad_users (ac_db s)) cred = Inr a"
  shows "a \<in> set (ad_users (ac_db s))" "u_is_active a" "is_super a"
proof -
  have "get_current_user x now (ad_users (ac_db s)) cred = Inr a \<and> is_super a"
    using assms
    by (auto simp: account_admin_def require_role_def require_super_admin_def require_roles_def is_super_def
        super_roles_def super_admin_roles_def split: sum.splits if_splits)
  then show "a \<in> set (ad_users (ac_db s))" "u_is_active a" "is_super a"
    using current_user_row get_current_user_found(2) by blast+
qed

definition has_super :: "user list \<Rightarrow> bool" where
  "has_super us \<longleftrightarrow> (\<exists>u\<in>set us. is_super u \<and> u_is_active u)"

definition governed :: "accounts \<Rightarrow> bool" where
  "governed s \<longleftrightarrow> distinct (map u_id (ad_users (ac_db s))) \<and> has_super (ad_users (ac_db s))"

lemma has_super_authority: "has_super us \<longleftrightarrow> (\<exists>(i, r, a)\<in>set (authority us). r \<in> set super_roles \<and> a)"
  by (auto simp: has_super_def authority_def is_super_def)

lemma has_super_put:
  assumes ids: "distinct (map u_id (ad_users db))" and "a \<in> set (ad_users db)" "is_super a" "u_is_active a"
    and u: "u \<in> set (ad_users db)" "u_id u' = u_id u"
    and own: "u_id u = u_id a \<Longrightarrow> is_super u' \<and> u_is_active u'"
  shows "has_super (ad_users (put_user u' db))"
proof (cases "u_id a = u_id u")
  case True
  then have "u' \<in> set (ad_users (put_user u' db))" using u by (auto simp: put_user_def image_iff)
  then show ?thesis using own True by (auto simp: has_super_def)
next
  case False
  then have "a \<in> set (ad_users (put_user u' db))" using assms(2) u(2) by (force simp: put_user_def)
  then show ?thesis using assms(3,4) by (auto simp: has_super_def)
qed

lemma put_ids: "u_id u' = u_id u \<Longrightarrow> map u_id (ad_users (put_user u' db)) = map u_id (ad_users db)"
  by (simp add: put_user_def update_where_def)

lemma find_user_row: "find_user uid s = Some u \<Longrightarrow> u \<in> set (ad_users (ac_db s)) \<and> u_id u = uid"
  unfolding find_user_def by (drule find_SomeD) simp

lemma user_audit_sel [simp]:
  "ad_users (user_audit now act a u ip db) = ad_users db" "ad_tokens (user_audit now act a u ip db) = ad_tokens db"
  by (simp_all add: user_audit_def)

lemma revoke_users [simp]: "ad_users (revoke_user_refresh_tokens now uid db) = ad_users db"
  by (simp add: revoke_user_refresh_tokens_def)

text \<open>What an operation on one user does to the users.\<close>

lemma on_user_governed:
  assumes "governed s"
    and "\<And>a u. a \<in> set (ad_users (ac_db s)) \<Longrightarrow> is_super a \<Longrightarrow> u_is_active a \<Longrightarrow> u \<in> set (ad_users (ac_db s)) \<Longrightarrow>
        governed (snd (k a u))"
    and "auth = account_admin x now cred s \<or> auth = require_super_admin x now (ad_users (ac_db s)) cred"
  shows "governed (snd (on_user auth uid s k))"
proof (cases auth)
  case (Inr a)
  then have "a \<in> set (ad_users (ac_db s))" "u_is_active a" "is_super a"
    using account_admin_found [of x now cred s a] assms(3) by auto
  with Inr assms(1,2) show ?thesis by (auto simp: on_user_def split: option.splits dest!: find_user_row)
qed (simp add: on_user_def assms(1))

lemma changed_user_simps [simp]:
  "u_id (changed_user b u) = u_id u"
  "u_role (changed_user b u) = given (uc_role b) (u_role u)"
  "u_is_active (changed_user b u) = given (uc_is_active b) (u_is_active u)"
  by (simp_all add: changed_user_def)

lemma governed_put:
  assumes "governed s" and "a \<in> set (ad_users (ac_db s))" "is_super a" "u_is_active a"
    and "u \<in> set (ad_users (ac_db s))" "u_id u' = u_id u"
    and "u_id u = u_id a \<Longrightarrow> is_super u' \<and> u_is_active u'"
    and "ad_users (ac_db s') = ad_users (put_user u' (ac_db s))"
  shows "governed s'"
  using assms has_super_put [of "ac_db s" a u u'] put_ids [of u' u "ac_db s"] by (simp add: governed_def)

lemma same_user: "governed s \<Longrightarrow> a \<in> set (ad_users (ac_db s)) \<Longrightarrow> u \<in> set (ad_users (ac_db s)) \<Longrightarrow> u_id u = u_id a \<Longrightarrow> u = a"
  by (auto simp: governed_def distinct_map dest: inj_onD)

lemma on_user_puts:
  assumes g: "governed s"
    and "auth = account_admin x now cred s \<or> auth = require_super_admin x now (ad_users (ac_db s)) cred"
    and k: "\<And>a u. is_super a \<Longrightarrow> u_is_active a \<Longrightarrow> snd (k a u) = s \<or>
        (\<exists>u'. u_id u' = u_id u \<and> (u = a \<longrightarrow> is_super u' \<and> u_is_active u') \<and>
           ad_users (ac_db (snd (k a u))) = ad_users (put_user u' (ac_db s)))"
  shows "governed (snd (on_user auth uid s k))"
proof (rule on_user_governed [OF g _ assms(2)])
  fix a u
  assume a: "a \<in> set (ad_users (ac_db s))" "is_super a" "u_is_active a" and u: "u \<in> set (ad_users (ac_db s))"
  from k [OF a(2,3), of u] show "governed (snd (k a u))"
  proof (elim disjE exE conjE)
    fix u'
    assume "u_id u' = u_id u" "u = a \<longrightarrow> is_super u' \<and> u_is_active u'"
      "ad_users (ac_db (snd (k a u))) = ad_users (put_user u' (ac_db s))"
    then show ?thesis using governed_put [OF g a u, of u'] same_user [OF g a(1) u] by metis
  qed (simp add: g)
qed

lemma account_step_governed:
  assumes "fresh_ids e s" and g: "governed s"
  shows "governed (account_step x cfg e s)"
proof (cases e)
  case (Session ev)
  have same: "authority (ad_users (auth_step x cfg ev (ac_db s))) = authority (ad_users (ac_db s))"
    using g by (intro auth_step_authority) (simp add: governed_def)
  show ?thesis using g authority_ids [OF same] same Session by (simp add: governed_def has_super_authority)
next
  case (Create_user now uid salt ip cred b)
  then show ?thesis using g assms(1)
    by (auto simp: create_user_def governed_def has_super_def Let_def account_row_def insert_row_def
        split: sum.splits option.splits)
next
  case (Update_user now ip cred uid b)
  show ?thesis unfolding Update_user account_step.simps update_user_def
  proof (rule on_user_puts [OF g], rule disjI1 [OF refl], goal_cases)
    case (1 a u)
    show ?case using 1
      by (cases "u = a") (auto simp: is_super_def given_def intro!: exI [of _ "changed_user b u"] split: option.splits)
  qed
next
  case (Reset_password now salt ip cred uid p)
  show ?thesis unfolding Reset_password account_step.simps reset_password_def
  proof (rule on_user_puts [OF g], rule disjI1 [OF refl], goal_cases)
    case (1 a u)
    then show ?case
    proof (cases "hash_password x p salt")
      case (Some h)
      let ?u' = "u\<lparr>u_password_hash := Some h, u_must_change_password := True\<rparr>"
      show ?thesis by (rule disjI2, rule exI [of _ ?u']) (use Some 1 in \<open>auto simp: is_super_def\<close>)
    qed simp
  qed
next
  case (Reset_2fa now ip cred uid)
  show ?thesis unfolding Reset_2fa account_step.simps reset_2fa_def
  proof (rule on_user_puts [OF g], rule disjI1 [OF refl], goal_cases)
    case (1 a u)
    let ?u' = "u\<lparr>u_is_2fa_enabled := False, u_totp_secret_encrypted := None, u_backup_codes := None, u_totp_last_counter := None\<rparr>"
    show ?case by (rule disjI2, rule exI [of _ ?u']) (use 1 in \<open>auto simp: is_super_def\<close>)
  qed
next
  case (Delete_user now ip cred uid)
  show ?thesis unfolding Delete_user account_step.simps delete_user_def
    using g
    by (intro on_user_governed [where x = x and now = now and cred = cred])
      (auto simp: governed_def has_super_def Let_def delete_where_def distinct_map_filter)
qed

interpretation accounts_run: step_system "account_step x cfg" fresh_ids governed for x cfg
  by unfold_locales (rule account_step_governed)

text \<open>C21: an active super administrator always remains: no sequence of logins, other session operations and
  account operations, with whatever credentials, demotes, locks or deletes the last one.\<close>

theorem super_admin_remains:
  assumes "distinct (map u_id (ad_users (ac_db s)))"
    and "u \<in> set (ad_users (ac_db s))" "u_role u \<in> {SUPER_ADMIN, ADMIN_GLOBAL}" "u_is_active u"
    and "accounts_run.admissible x cfg es s"
  shows "\<exists>v\<in>set (ad_users (ac_db (run (account_step x cfg) es s))).
    u_role v \<in> {SUPER_ADMIN, ADMIN_GLOBAL} \<and> u_is_active v"
proof -
  have "governed s" using assms(1-4) by (auto simp: governed_def has_super_def is_super_def super_roles_def)
  with assms(5) have "governed (run (account_step x cfg) es s)" by (rule accounts_run.run_inv)
  then show ?thesis by (simp add: governed_def has_super_def is_super_def super_roles_def)
qed

subsection \<open>Refresh tokens under account operations\<close>

lemma on_user_cases:
  assumes "\<And>a u. auth = Inr a \<Longrightarrow> find_user uid s = Some u \<Longrightarrow> P (snd (k a u))" and "P s"
  shows "P (snd (on_user auth uid s k))"
  using assms by (auto simp: on_user_def split: sum.splits option.splits)

lemma put_user_tokens [simp]: "ad_tokens (put_user u db) = ad_tokens db"
  by (simp add: put_user_def)

lemma account_step_tokens:
  assumes "fresh_ids e s" and "tokens_ok (ad_tokens (ac_db s))"
  shows "token_step\<^sup>*\<^sup>* (ad_tokens (ac_db s)) (ad_tokens (ac_db (account_step x cfg e s)))"
proof (cases e)
  case (Session ev)
  then show ?thesis using assms auth_step_tokens by simp
next
  case (Create_user now uid salt ip cred b)
  then show ?thesis by (simp add: create_user_def Let_def split: sum.splits option.splits)
next
  case (Update_user now ip cred uid b)
  show ?thesis unfolding Update_user account_step.simps update_user_def by (rule on_user_cases) simp_all
next
  case (Reset_password now salt ip cred uid p)
  show ?thesis unfolding Reset_password account_step.simps reset_password_def
    by (rule on_user_cases)
      (auto simp: revoke_user_refresh_tokens_def split: option.splits intro: token_step.revoke)
next
  case (Reset_2fa now ip cred uid)
  show ?thesis unfolding Reset_2fa account_step.simps reset_2fa_def by (rule on_user_cases) simp_all
next
  case (Delete_user now ip cred uid)
  show ?thesis unfolding Delete_user account_step.simps delete_user_def by (rule on_user_cases) (simp_all add: Let_def)
qed

interpretation token_runs: step_system "account_step x cfg" fresh_ids
    "\<lambda>s. tokens_ok (ad_tokens (ac_db s)) \<and> dead h f ex (ad_tokens (ac_db s))" for x cfg h f ex
  by unfold_locales (blast intro: token_steps_ok token_steps_dead account_step_tokens)

text \<open>Resetting a password ends every session of the user: each refresh token issued to the user before
  the reset is refused afterwards, whatever session and account operations follow.\<close>

theorem reset_password_ends_sessions:
  assumes "tokens_ok (ad_tokens (ac_db s))" and "reset_password x now salt ip cred uid pw s = (Inr (), s1)"
    and "row \<in> set (ad_tokens (ac_db s))" "rt_user_id row = uid" "rt_token_hash row = hash_token tok"
    and "accounts_run.admissible x cfg es s1"
  shows "fst (refresh x cfg now' fr' tok (ac_db (run (account_step x cfg) es s1))) = Inl bad_refresh"
proof -
  have tokens: "ad_tokens (ac_db s1) = update_where (\<lambda>r. rt_user_id r = uid \<and> is_live r) (revoke_at now) (ad_tokens (ac_db s))"
    using assms(2)
    by (auto simp: reset_password_def on_user_def revoke_user_refresh_tokens_def
        split: sum.splits option.splits dest!: find_user_row)
  have "token_step\<^sup>*\<^sup>* (ad_tokens (ac_db s)) (ad_tokens (ac_db s1))"
    unfolding tokens by (intro r_into_rtranclp token_step.revoke)
  then have ok: "tokens_ok (ad_tokens (ac_db s1))" using assms(1) by (rule token_steps_ok)
  let ?g = "\<lambda>r. if rt_user_id r = uid \<and> is_live r then revoke_at now r else r"
  have "?g row \<in> set (ad_tokens (ac_db s1))" unfolding tokens set_update_where using assms(3) by (rule imageI)
  moreover have "rt_token_hash (?g row) = hash_token tok \<and> rt_family_id (?g row) = rt_family_id row \<and>
      rt_expires_at (?g row) = rt_expires_at row \<and> \<not> is_live (?g row)"
    using assms(4,5) by simp
  ultimately have "dead (hash_token tok) (rt_family_id row) (rt_expires_at row) (ad_tokens (ac_db s1))"
    unfolding dead_def by blast
  with ok token_runs.run_inv [OF assms(6)]
  have "tokens_ok (ad_tokens (ac_db (run (account_step x cfg) es s1))) \<and>
      dead (hash_token tok) (rt_family_id row) (rt_expires_at row) (ad_tokens (ac_db (run (account_step x cfg) es s1)))"
    by simp
  then show ?thesis using refresh_of_dead(1) [OF _ _ surjective_pairing] by blast
qed

subsection \<open>Deletion\<close>

lemma token_users_update:
  "(\<And>r. rt_user_id (f r) = rt_user_id r) \<Longrightarrow> rt_user_id ` set (update_where P f ts) = rt_user_id ` set ts"
  unfolding set_update_where image_image by (rule image_cong) simp_all

lemma token_step_users: "token_step ts ts' \<Longrightarrow> rt_user_id ` set ts \<subseteq> rt_user_id ` set ts'"
  by (induction rule: token_step.induct)
    (auto simp del: set_update_where simp: token_users_update link_to_def revoke_at_def)

lemma token_steps_users: "token_step\<^sup>*\<^sup>* ts ts' \<Longrightarrow> rt_user_id ` set ts \<subseteq> rt_user_id ` set ts'"
  by (induction rule: rtranclp_induct) (simp, rule subset_trans, assumption, rule token_step_users)

definition user_ids :: "accounts \<Rightarrow> uuid list" where
  "user_ids s = map u_id (ad_users (ac_db s))"

lemma user_ids_put [simp]: "u_id u' = u_id u \<Longrightarrow> map u_id (ad_users (put_user u' db)) = map u_id (ad_users db)"
  by (rule put_ids)

lemma account_step_ids:
  assumes "fresh_ids e s" and ids: "distinct (user_ids s)"
  shows "distinct (user_ids (account_step x cfg e s)) \<and>
    (\<forall>i\<in>set (user_ids s). user_referenced i s \<longrightarrow> i \<in> set (user_ids (account_step x cfg e s)))"
proof (cases e)
  case (Session ev)
  have "authority (ad_users (auth_step x cfg ev (ac_db s))) = authority (ad_users (ac_db s))"
    using ids by (intro auth_step_authority) (simp add: user_ids_def)
  from authority_ids [OF this] have "user_ids (account_step x cfg e s) = user_ids s" by (simp add: Session user_ids_def)
  with ids show ?thesis by simp
next
  case (Create_user now uid salt ip cred b)
  then show ?thesis using assms
    by (auto simp: create_user_def user_ids_def Let_def account_row_def insert_row_def split: sum.splits option.splits)
next
  case (Update_user now ip cred uid b)
  have "user_ids (account_step x cfg e s) = user_ids s"
    unfolding Update_user account_step.simps update_user_def
    by (rule on_user_cases) (simp_all add: user_ids_def put_user_def update_where_def)
  with ids show ?thesis by simp
next
  case (Reset_password now salt ip cred uid p)
  have "user_ids (account_step x cfg e s) = user_ids s"
    unfolding Reset_password account_step.simps reset_password_def
    by (rule on_user_cases) (simp_all add: user_ids_def put_user_def update_where_def split: option.splits)
  with ids show ?thesis by simp
next
  case (Reset_2fa now ip cred uid)
  have "user_ids (account_step x cfg e s) = user_ids s"
    unfolding Reset_2fa account_step.simps reset_2fa_def
    by (rule on_user_cases) (simp_all add: user_ids_def put_user_def update_where_def)
  with ids show ?thesis by simp
next
  case (Delete_user now ip cred uid)
  show ?thesis unfolding Delete_user account_step.simps delete_user_def
    by (rule on_user_cases) (use ids in \<open>auto simp: user_ids_def Let_def delete_where_def distinct_map_filter\<close>)
qed

definition signed_in :: "uuid \<Rightarrow> accounts \<Rightarrow> bool" where
  "signed_in uid s \<longleftrightarrow> distinct (user_ids s) \<and> tokens_ok (ad_tokens (ac_db s)) \<and> uid \<in> set (user_ids s) \<and>
     uid \<in> rt_user_id ` set (ad_tokens (ac_db s))"

lemma account_step_signed_in:
  assumes "fresh_ids e s" and "signed_in uid s"
  shows "signed_in uid (account_step x cfg e s)"
proof -
  have s: "distinct (user_ids s)" "tokens_ok (ad_tokens (ac_db s))" "uid \<in> set (user_ids s)"
      "uid \<in> rt_user_id ` set (ad_tokens (ac_db s))"
    using assms(2) by (simp_all add: signed_in_def)
  then have "user_referenced uid s" by (auto simp: user_referenced_def)
  moreover have steps: "token_step\<^sup>*\<^sup>* (ad_tokens (ac_db s)) (ad_tokens (ac_db (account_step x cfg e s)))"
    using assms(1) s(2) by (rule account_step_tokens)
  ultimately show ?thesis
    using account_step_ids [OF assms(1) s(1), of x cfg] s(3,4) token_steps_ok [OF steps s(2)] token_steps_users [OF steps]
    by (auto simp: signed_in_def)
qed

interpretation signed_in_runs: step_system "account_step x cfg" fresh_ids "signed_in uid" for x cfg uid
  by unfold_locales (rule account_step_signed_in)

text \<open>The rows of refresh tokens are never removed, so a user who has signed in once can never be deleted
  again.\<close>

theorem signed_in_user_undeletable:
  assumes "distinct (map u_id (ad_users (ac_db s)))" and "tokens_ok (ad_tokens (ac_db s))"
    and "u \<in> set (ad_users (ac_db s))" and "t \<in> set (ad_tokens (ac_db s))" "rt_user_id t = u_id u"
    and "accounts_run.admissible x cfg es s" and "s' = run (account_step x cfg) es s"
  shows "u_id u \<in> u_id ` set (ad_users (ac_db s')) \<and> (\<exists>e. delete_user x now ip cred (u_id u) s' = (Inl e, s'))"
proof -
  have "u_id u \<in> rt_user_id ` set (ad_tokens (ac_db s))" using assms(4,5) by (metis imageI)
  then have "signed_in (u_id u) s" using assms(1-3) by (simp add: signed_in_def user_ids_def)
  with assms(6) have "signed_in (u_id u) s'" unfolding assms(7) by (rule signed_in_runs.run_inv)
  then have "user_referenced (u_id u) s'" and ids: "u_id u \<in> u_id ` set (ad_users (ac_db s'))"
    by (auto simp: signed_in_def user_ids_def user_referenced_def)
  then have "\<exists>e. delete_user x now ip cred (u_id u) s' = (Inl e, s')"
    by (auto simp: delete_user_def on_user_def split: sum.splits option.splits dest!: find_user_row)
  with ids show ?thesis by blast
qed

subsection \<open>Instances\<close>

definition super_user :: user where
  "super_user = sample_user\<lparr>u_role := SUPER_ADMIN\<rparr>"

definition sample_accounts :: "refresh_token list \<Rightarrow> accounts" where
  "sample_accounts ts =
     \<lparr>ac_db = \<lparr>ad_users = [super_user, sample_user\<lparr>u_id := 2, u_email := ''b@x''\<rparr>], ad_tokens = ts, ad_log = []\<rparr>,
      ac_orgs = [10], ac_refs = []\<rparr>"

lemma super_admin_remains_witness:
  "\<exists>v\<in>set (ad_users (ac_db (run (account_step sample_crypto sample_cfg)
     [Update_user 9 None (Some sample_access) 1 \<lparr>uc_full_name = None, uc_role = Some VIEWER, uc_org_id = None, uc_is_active = None\<rparr>,
      Delete_user 10 None (Some sample_access) 2] (sample_accounts [])))). u_role v \<in> {SUPER_ADMIN, ADMIN_GLOBAL} \<and> u_is_active v"
  by (rule super_admin_remains [where u = super_user])
    (simp_all add: sample_accounts_def super_user_def sample_user_def)

lemma sample_admin:
  "account_admin sample_crypto now (Some sample_access) (sample_accounts ts) = Inr super_user"
  by (simp add: account_admin_def require_role_def require_roles_def get_current_user_def resolve_user_from_token_def
      decode_token_def sample_crypto_def sample_access_def parse_uuid_def Let_def hex_value_def is_digit_def char_eval
      sample_accounts_def super_user_def sample_user_def super_roles_def)

definition other_row :: refresh_token where
  "other_row = (sample_row None)\<lparr>rt_user_id := 2\<rparr>"

lemma reset_password_ends_sessions_witness:
  "fst (reset_password sample_crypto 9 ''s'' None (Some sample_access) 2 ''new-password'' (sample_accounts [other_row])) = Inr () \<and>
   fst (refresh sample_crypto sample_cfg 10 sample_fresh sample_tok
     (ac_db (snd (reset_password sample_crypto 9 ''s'' None (Some sample_access) 2 ''new-password'' (sample_accounts [other_row]))))) =
     Inl bad_refresh"
proof -
  let ?r = "reset_password sample_crypto 9 ''s'' None (Some sample_access) 2 ''new-password'' (sample_accounts [other_row])"
  have "fst ?r = Inr ()"
    unfolding reset_password_def sample_admin
    by (simp add: on_user_def find_user_def hash_password_def sample_crypto_def sample_accounts_def super_user_def sample_user_def)
  then have ok: "?r = (Inr (), snd ?r)" by (metis prod.collapse)
  have "fst (refresh sample_crypto sample_cfg 10 sample_fresh sample_tok
      (ac_db (run (account_step sample_crypto sample_cfg) [] (snd ?r)))) = Inl bad_refresh"
    by (rule reset_password_ends_sessions [OF _ ok, where row = other_row])
      (simp_all add: sample_accounts_def other_row_def sample_row_def tokens_ok_def is_live_def)
  with ok show ?thesis by (metis fst_conv run.simps(1))
qed

lemma signed_in_user_undeletable_witness:
  "\<exists>e. delete_user sample_crypto 9 None (Some sample_access) 2 (sample_accounts [other_row]) = (Inl e, sample_accounts [other_row])"
  using signed_in_user_undeletable [of "sample_accounts [other_row]" "sample_user\<lparr>u_id := 2, u_email := ''b@x''\<rparr>" other_row
      sample_crypto sample_cfg "[]" _ 9 None "Some sample_access"]
  by (simp add: sample_accounts_def super_user_def other_row_def sample_row_def sample_user_def tokens_ok_def is_live_def)

end
