(* ===== verification/Profiles.thy ===== *)
theory Profiles
  imports Machines
begin

text \<open>
  Security-level profiles of information systems: the first half of \<open>api/routes/system_profiles.py\<close>, that is the
  guards, the profile codes, creation, change, deletion, the approval workflow and the security
  requirements of the level with their review. \<open>ProfileParts\<close> holds the contents of a profile and the
  catalogues.
\<close>

subsection \<open>Rows\<close>

datatype profile_status = SP_DRAFTED | SP_PENDING_REVIEW | SP_APPROVED | SP_IMPLEMENTED | SP_FULFILLED | SP_REJECTED

datatype requirement_status = RQ_PENDING | RQ_REQUESTED | RQ_VERIFIED | RQ_REJECTED

text \<open>\<open>sp_content\<close> holds the descriptive columns by name: description, diagrams, layouts, location, number of accounts,
  data volume and audience. Dates without time are their ISO text.\<close>

record system_profile =
  sp_id :: uuid
  sp_org_id :: uuid
  sp_code :: string
  sp_name :: string
  sp_level :: int
  sp_status :: profile_status
  sp_decision_number :: "string option"
  sp_decision_date :: "time option"
  sp_decision_agency :: "string option"
  sp_document_number :: "string option"
  sp_document_date :: "string option"
  sp_managed_by :: "string option"
  sp_officer_id :: "uuid option"
  sp_reviewed_by :: "uuid option"
  sp_reviewed_at :: "time option"
  sp_review_note :: "string option"
  sp_content :: "string \<Rightarrow> json"
  sp_created_by :: uuid

record device_in =
  di_name :: string
  di_device_code :: "string option"
  di_tag :: "string option"
  di_device_type :: string
  di_ip :: "string option"
  di_model :: "string option"
  di_machine_id :: "uuid option"
  di_sort_order :: int
  di_location :: "string option"
  di_purpose :: "string option"

record party_in =
  pi_role :: string
  pi_name :: string
  pi_mandate_document :: "string option"
  pi_legal_representative :: "string option"
  pi_representative_title :: "string option"
  pi_address :: "string option"
  pi_phone :: "string option"
  pi_email :: "string option"

record application_in =
  ai_name :: string
  ai_machine_id :: "uuid option"
  ai_server_name :: "string option"
  ai_os_name :: "string option"
  ai_role :: "string option"
  ai_url :: "string option"
  ai_note :: "string option"

record ip_range_in =
  ir_zone :: string
  ir_zone_description :: "string option"
  ir_cidr :: string
  ir_ip_kind :: string
  ir_gateway :: "string option"
  ir_note :: "string option"

text \<open>A row of devices, parties, applications or address ranges: the fields of the request under a profile.\<close>

record 'b part =
  pt_id :: uuid
  pt_profile_id :: uuid
  pt_body :: 'b

text \<open>A link from a profile to a machine or to a contact.\<close>

record profile_link =
  pl_profile_id :: uuid
  pl_target_id :: uuid
  pl_note :: "string option"

record level_requirement =
  lr_id :: uuid
  lr_level :: int
  lr_code :: string
  lr_title :: string
  lr_description :: "string option"
  lr_sort_order :: int
  lr_is_active :: bool

record requirement_row =
  rr_id :: uuid
  rr_profile_id :: uuid
  rr_requirement_id :: uuid
  rr_status :: requirement_status
  rr_evidence :: "string option"
  rr_requested_by :: "uuid option"
  rr_requested_at :: "time option"
  rr_reviewed_by :: "uuid option"
  rr_reviewed_at :: "time option"
  rr_review_note :: "string option"

record profile_event =
  pe_profile_id :: uuid
  pe_event :: string
  pe_message :: string
  pe_actor_id :: uuid
  pe_actor_name :: string
  pe_created_at :: time

record device_type =
  dy_id :: uuid
  dy_code :: string
  dy_label :: string
  dy_icon :: "string option"
  dy_sort_order :: int
  dy_is_active :: bool

record officer =
  of_id :: uuid
  of_name :: string
  of_organization :: "string option"
  of_title :: "string option"
  of_phone :: "string option"
  of_email :: "string option"
  of_note :: "string option"
  of_created_by :: uuid

record it_contact =
  ic_id :: uuid
  ic_org_id :: uuid
  ic_kind :: string
  ic_name :: string
  ic_position :: "string option"
  ic_contact_person :: "string option"
  ic_phone :: "string option"
  ic_email :: "string option"
  ic_address :: "string option"
  ic_note :: "string option"
  ic_created_by :: uuid

record profile_db =
  pd_profiles :: "system_profile list"
  pd_devices :: "device_in part list"
  pd_parties :: "party_in part list"
  pd_applications :: "application_in part list"
  pd_ip_ranges :: "ip_range_in part list"
  pd_machines :: "profile_link list"
  pd_contacts :: "profile_link list"
  pd_requirements :: "requirement_row list"
  pd_events :: "profile_event list"
  pd_catalog :: "level_requirement list"
  pd_device_types :: "device_type list"
  pd_officers :: "officer list"
  pd_directory :: "it_contact list"
  pd_fleet :: "machine list"
  pd_orgs :: "org_row list"
  pd_log :: "audit_row list"

subsection \<open>Timeline, audit, response\<close>

definition log_event :: "time \<Rightarrow> uuid \<Rightarrow> string \<Rightarrow> string \<Rightarrow> user \<Rightarrow> profile_db \<Rightarrow> profile_db" where
  "log_event now pid ev msg u db =
     db\<lparr>pd_events := insert_row \<lparr>pe_profile_id = pid, pe_event = ev, pe_message = msg, pe_actor_id = u_id u,
        pe_actor_name = u_full_name u, pe_created_at = now\<rparr> (pd_events db)\<rparr>"

definition profile_audit :: "time \<Rightarrow> string \<Rightarrow> user \<Rightarrow> string \<Rightarrow> string option \<Rightarrow> profile_db \<Rightarrow> profile_db" where
  "profile_audit now action u target ip db =
     db\<lparr>pd_log := append_audit now action (uuid_of u) (Some target) ip None None (pd_log db)\<rparr>"

definition get_profile_row :: "uuid \<Rightarrow> profile_db \<Rightarrow> system_profile option" where
  "get_profile_row pid db = find (\<lambda>p. sp_id p = pid) (pd_profiles db)"

definition put_profile :: "system_profile \<Rightarrow> profile_db \<Rightarrow> profile_db" where
  "put_profile p db = db\<lparr>pd_profiles := update_where (\<lambda>q. sp_id q = sp_id p) (\<lambda>_. p) (pd_profiles db)\<rparr>"

definition requirement_of :: "uuid \<Rightarrow> profile_db \<Rightarrow> level_requirement option" where
  "requirement_of rid db = find (\<lambda>q. lr_id q = rid) (pd_catalog db)"

definition profile_requirements :: "uuid \<Rightarrow> profile_db \<Rightarrow> requirement_row list" where
  "profile_requirements pid db = filter (\<lambda>r. rr_profile_id r = pid) (pd_requirements db)"

definition verified_count :: "uuid \<Rightarrow> profile_db \<Rightarrow> nat" where
  "verified_count pid db = length (filter (\<lambda>r. rr_status r = RQ_VERIFIED) (profile_requirements pid db))"

record profile_detail =
  dl_profile :: system_profile
  dl_devices :: "device_in part list"
  dl_machines :: "profile_link list"
  dl_parties :: "party_in part list"
  dl_applications :: "application_in part list"
  dl_ip_ranges :: "ip_range_in part list"
  dl_contacts :: "profile_link list"
  dl_events :: "profile_event list"
  dl_requirements :: "requirement_row list"
  dl_requirements_total :: nat
  dl_requirements_verified :: nat
  dl_level_compliant :: bool

definition requirement_key :: "profile_db \<Rightarrow> requirement_row \<Rightarrow> int \<times> string" where
  "requirement_key db r =
     (case requirement_of (rr_requirement_id r) db of None \<Rightarrow> (0, []) | Some q \<Rightarrow> (lr_sort_order q, lr_code q))"

definition parts_of :: "uuid \<Rightarrow> 'b part list \<Rightarrow> 'b part list" where
  "parts_of pid rows = filter (\<lambda>r. pt_profile_id r = pid) rows"

definition links_of :: "uuid \<Rightarrow> profile_link list \<Rightarrow> profile_link list" where
  "links_of pid rows = filter (\<lambda>r. pl_profile_id r = pid) rows"

definition to_detail :: "system_profile \<Rightarrow> profile_db \<Rightarrow> profile_detail" where
  "to_detail p db =
     (let pid = sp_id p; reqs = sort_key (requirement_key db) (profile_requirements pid db); v = verified_count pid db
      in \<lparr>dl_profile = p,
          dl_devices = sort_key (\<lambda>d. di_sort_order (pt_body d)) (parts_of pid (pd_devices db)),
          dl_machines = links_of pid (pd_machines db), dl_parties = parts_of pid (pd_parties db),
          dl_applications = parts_of pid (pd_applications db), dl_ip_ranges = parts_of pid (pd_ip_ranges db),
          dl_contacts = links_of pid (pd_contacts db),
          dl_events = sort_key (\<lambda>e. - pe_created_at e) (filter (\<lambda>e. pe_profile_id e = pid) (pd_events db)),
          dl_requirements = reqs, dl_requirements_total = length reqs, dl_requirements_verified = v,
          dl_level_compliant = (reqs \<noteq> [] \<and> v = length reqs)\<rparr>)"

subsection \<open>Guards\<close>

definition frozen_statuses :: "profile_status set" where
  "frozen_statuses = {SP_APPROVED, SP_IMPLEMENTED, SP_FULFILLED}"

definition status_text :: "profile_status \<Rightarrow> string" where
  "status_text st =
     (case st of SP_DRAFTED \<Rightarrow> ''drafted'' | SP_PENDING_REVIEW \<Rightarrow> ''pending_review'' | SP_APPROVED \<Rightarrow> ''approved''
      | SP_IMPLEMENTED \<Rightarrow> ''implemented'' | SP_FULFILLED \<Rightarrow> ''fulfilled'' | SP_REJECTED \<Rightarrow> ''rejected'')"

text \<open>\<open>None\<close> when the contents may be changed.\<close>

definition assert_profile_content_mutable :: "system_profile \<Rightarrow> user \<Rightarrow> http_error option" where
  "assert_profile_content_mutable p u =
     (if is_super_admin u then None
      else if sp_status p \<in> frozen_statuses
      then Some (HTTPException 400 (''Ho so da o trang thai '' @ status_text (sp_status p) @ '' - khong the mutate noi dung ho so''))
      else None)"

definition get_profile_scoped :: "uuid \<Rightarrow> user \<Rightarrow> profile_db \<Rightarrow> http_error + system_profile" where
  "get_profile_scoped pid u db =
     (case get_profile_row pid db of
        None \<Rightarrow> Inl (HTTPException 404 ''Khong tim thay ho so'')
      | Some p \<Rightarrow>
          if \<not> is_super_admin u \<and> sp_org_id p \<notin> visible_org_ids (pd_orgs db) u
          then Inl (HTTPException 403 ''Ho so ngoai pham vi cua ban'') else Inr p)"

definition get_profile_mutable :: "uuid \<Rightarrow> user \<Rightarrow> profile_db \<Rightarrow> http_error + system_profile" where
  "get_profile_mutable pid u db =
     (case get_profile_scoped pid u db of
        Inl e \<Rightarrow> Inl e
      | Inr p \<Rightarrow>
          if \<not> is_super_admin u \<and> sp_org_id p \<noteq> u_org_id u
          then Inl (HTTPException 403 ''Chi duoc sua ho so thuoc don vi cua ban'') else Inr p)"

text \<open>
  The handlers of one profile: permission, profile in scope, and for its contents the guard above. What a
  handler answers is the profile read again after the commit.
\<close>

definition on_profile ::
  "http_error + user \<Rightarrow> uuid \<Rightarrow> profile_db \<Rightarrow> (user \<Rightarrow> system_profile \<Rightarrow> (http_error + 'a) \<times> profile_db) \<Rightarrow>
   (http_error + 'a) \<times> profile_db" where
  "on_profile auth pid db k =
     (case auth of
        Inl e \<Rightarrow> (Inl e, db)
      | Inr u \<Rightarrow> (case get_profile_mutable pid u db of Inl e \<Rightarrow> (Inl e, db) | Inr p \<Rightarrow> k u p))"

definition on_content ::
  "http_error + user \<Rightarrow> uuid \<Rightarrow> profile_db \<Rightarrow> (user \<Rightarrow> system_profile \<Rightarrow> (http_error + 'a) \<times> profile_db) \<Rightarrow>
   (http_error + 'a) \<times> profile_db" where
  "on_content auth pid db k =
     on_profile auth pid db (\<lambda>u p. case assert_profile_content_mutable p u of Some e \<Rightarrow> (Inl e, db) | None \<Rightarrow> k u p)"

definition answer :: "user \<Rightarrow> uuid \<Rightarrow> profile_db \<Rightarrow> (http_error + profile_detail) \<times> profile_db" where
  "answer u pid db =
     (case get_profile_mutable pid u db of Inl e \<Rightarrow> (Inl e, db) | Inr p \<Rightarrow> (Inr (to_detail p db), db))"

subsection \<open>Reading\<close>

record profile_query =
  pq_org_id :: "uuid option"
  pq_level :: "int option"
  pq_status :: "profile_status option"
  pq_q :: "string option"

definition opt_ilike :: "string option \<Rightarrow> string \<Rightarrow> bool" where
  "opt_ilike s pattern = (case s of None \<Rightarrow> False | Some v \<Rightarrow> ilike v pattern)"

text \<open>\<open>updated\<close> is the column of that name.\<close>

definition list_profiles ::
  "(uuid \<Rightarrow> time) \<Rightarrow> http_error + user \<Rightarrow> profile_query \<Rightarrow> nat \<Rightarrow> nat \<Rightarrow> profile_db \<Rightarrow> http_error + system_profile list \<times> nat" where
  "list_profiles updated auth q limit offset db =
     (case auth of
        Inl e \<Rightarrow> Inl e
      | Inr u \<Rightarrow>
          (let vis = visible_org_ids (pd_orgs db) u in
           if \<not> is_super_admin u \<and> (case pq_org_id q of None \<Rightarrow> False | Some g \<Rightarrow> g \<notin> vis)
           then Inl (HTTPException 403 ''Don vi ngoai pham vi cua ban'')
           else
             (let ps = filter (\<lambda>p.
                    (case pq_org_id q of None \<Rightarrow> is_super_admin u \<or> sp_org_id p \<in> vis | Some g \<Rightarrow> sp_org_id p = g) \<and>
                    (case pq_level q of None \<Rightarrow> True | Some l \<Rightarrow> sp_level p = l) \<and>
                    (case pq_status q of None \<Rightarrow> True | Some st \<Rightarrow> sp_status p = st) \<and>
                    (truthy (pq_q q) \<longrightarrow>
                       (let pattern = ''%'' @ the (pq_q q) @ ''%''
                        in ilike (sp_name p) pattern \<or> ilike (sp_code p) pattern \<or> opt_ilike (sp_document_number p) pattern)))
                  (pd_profiles db)
              in Inr (take limit (drop offset (sort_key (\<lambda>p. - updated (sp_id p)) ps)), length ps))))"

definition profile_stats ::
  "http_error + user \<Rightarrow> profile_db \<Rightarrow> http_error + nat \<times> (profile_status \<times> nat) list \<times> (int \<times> nat) list" where
  "profile_stats auth db =
     (case auth of
        Inl e \<Rightarrow> Inl e
      | Inr u \<Rightarrow>
          (let ps = filter (\<lambda>p. is_super_admin u \<or> sp_org_id p \<in> visible_org_ids (pd_orgs db) u) (pd_profiles db)
           in Inr (length ps, map (\<lambda>v. (v, length (filter (\<lambda>p. sp_status p = v) ps))) (dedup (map sp_status ps)),
                   map (\<lambda>v. (v, length (filter (\<lambda>p. sp_level p = v) ps))) (dedup (map sp_level ps)))))"

definition get_profile :: "http_error + user \<Rightarrow> uuid \<Rightarrow> profile_db \<Rightarrow> http_error + profile_detail" where
  "get_profile auth pid db =
     (case auth of
        Inl e \<Rightarrow> Inl e
      | Inr u \<Rightarrow> (case get_profile_scoped pid u db of Inl e \<Rightarrow> Inl e | Inr p \<Rightarrow> Inr (to_detail p db)))"

subsection \<open>Profile codes\<close>

text \<open>\<open>int\<close> on a text: white space around it, a sign, and single underscores between digits are accepted.\<close>

definition int_of_text :: "string \<Rightarrow> int option" where
  "int_of_text s =
     (let t = strip s;
          neg = (t \<noteq> [] \<and> hd t = CHR ''-'');
          body = (if t \<noteq> [] \<and> (hd t = CHR ''-'' \<or> hd t = CHR ''+'') then tl t else t);
          groups = split_on (CHR ''_'') body
      in if \<forall>g\<in>set groups. g \<noteq> [] \<and> (\<forall>c\<in>set g. is_digit c)
         then Some (let n = int (read_digits (concat groups)) in if neg then - n else n)
         else None)"

definition year_of :: "time \<Rightarrow> int" where
  "year_of now = fst (civil (day_of now))"

definition code_prefix :: "time \<Rightarrow> string" where
  "code_prefix now = ''HS-'' @ str_int (year_of now) @ ''-''"

definition org_codes :: "uuid \<Rightarrow> system_profile list \<Rightarrow> string list" where
  "org_codes org ps = map sp_code (filter (\<lambda>p. sp_org_id p = org) ps)"

definition code_numbers :: "string \<Rightarrow> string list \<Rightarrow> int list" where
  "code_numbers prefix codes =
     List.map_filter (\<lambda>c. int_of_text (drop (length prefix) c)) (filter (starts_with prefix) codes)"

definition generate_profile_code :: "time \<Rightarrow> uuid \<Rightarrow> system_profile list \<Rightarrow> string" where
  "generate_profile_code now org ps =
     (let prefix = code_prefix now; seq = fold max (code_numbers prefix (org_codes org ps)) 0
      in prefix @ pad_to 3 (seq + 1))"

text \<open>
  The bounded retry: \<open>others\<close> are the rows that concurrent transactions commit between the reading of the
  codes and the insertion, one list for each attempt. \<open>None\<close> is the error that remains after the last
  attempt.
\<close>

fun insert_with_unique_code ::
  "nat \<Rightarrow> system_profile list list \<Rightarrow> time \<Rightarrow> (string \<Rightarrow> system_profile) \<Rightarrow> system_profile list \<Rightarrow> system_profile option \<times> system_profile list" where
  "insert_with_unique_code 0 others now mk ps = (None, ps)"
| "insert_with_unique_code (Suc n) others now mk ps =
     (let org = sp_org_id (mk []);
          code = generate_profile_code now org ps;
          ps' = ps @ (case others of [] \<Rightarrow> [] | new # _ \<Rightarrow> new)
      in if code \<in> set (org_codes org ps') then insert_with_unique_code n (tl others) now mk ps'
         else (Some (mk code), insert_row (mk code) ps'))"

definition max_attempts :: nat where
  "max_attempts = 5"

subsection \<open>Requirements of the level\<close>

definition pending_row :: "(uuid \<Rightarrow> uuid) \<Rightarrow> uuid \<Rightarrow> level_requirement \<Rightarrow> requirement_row" where
  "pending_row row_id pid q =
     \<lparr>rr_id = row_id (lr_id q), rr_profile_id = pid, rr_requirement_id = lr_id q, rr_status = RQ_PENDING, rr_evidence = None,
      rr_requested_by = None, rr_requested_at = None, rr_reviewed_by = None, rr_reviewed_at = None, rr_review_note = None\<rparr>"

definition level_catalog :: "int \<Rightarrow> profile_db \<Rightarrow> level_requirement list" where
  "level_catalog l db = filter (\<lambda>q. lr_level q = l \<and> lr_is_active q) (pd_catalog db)"

text \<open>\<open>row_id\<close> gives the random ids of the new rows.\<close>

definition sync_profile_requirements :: "(uuid \<Rightarrow> uuid) \<Rightarrow> uuid \<Rightarrow> int \<Rightarrow> profile_db \<Rightarrow> profile_db" where
  "sync_profile_requirements row_id pid l db =
     (let valid = level_catalog l db;
          existing = map rr_requirement_id (profile_requirements pid db);
          kept = delete_where (\<lambda>r. rr_profile_id r = pid \<and> rr_requirement_id r \<notin> lr_id ` set valid) (pd_requirements db)
      in db\<lparr>pd_requirements := kept @ map (pending_row row_id pid) (filter (\<lambda>q. lr_id q \<notin> set existing) valid)\<rparr>)"

subsection \<open>Creation, change, deletion\<close>

record profile_request =
  pr_org_id :: uuid
  pr_name :: string
  pr_level :: int
  pr_description :: "string option"
  pr_diagram_mermaid :: "string option"
  pr_managed_by :: "string option"
  pr_document_number :: "string option"
  pr_document_date :: "string option"
  pr_decision_number :: "string option"
  pr_decision_date :: "time option"
  pr_decision_agency :: "string option"

definition initial_content :: "profile_request \<Rightarrow> string \<Rightarrow> json" where
  "initial_content b =
     (\<lambda>_. JNull)(''description'' := opt_str (pr_description b), ''diagram_mermaid'' := opt_str (pr_diagram_mermaid b),
        ''service_audience'' := JStr ''internal'')"

definition approved_directly :: "user \<Rightarrow> profile_request \<Rightarrow> bool" where
  "approved_directly u b \<longleftrightarrow> is_super_admin u \<and> truthy (pr_decision_number b)"

definition new_profile :: "time \<Rightarrow> uuid \<Rightarrow> user \<Rightarrow> profile_request \<Rightarrow> string \<Rightarrow> system_profile" where
  "new_profile now pid u b c =
     (let ok = approved_directly u b in
      \<lparr>sp_id = pid, sp_org_id = pr_org_id b, sp_code = c, sp_name = strip (pr_name b), sp_level = pr_level b,
       sp_status = (if ok then SP_APPROVED else SP_DRAFTED),
       sp_decision_number = (if ok then pr_decision_number b else None),
       sp_decision_date = (if ok then pr_decision_date b else None),
       sp_decision_agency = (if ok then pr_decision_agency b else None),
       sp_document_number = pr_document_number b, sp_document_date = pr_document_date b, sp_managed_by = pr_managed_by b,
       sp_officer_id = None, sp_reviewed_by = (if ok then Some (u_id u) else None),
       sp_reviewed_at = (if ok then Some now else None), sp_review_note = None, sp_content = initial_content b,
       sp_created_by = u_id u\<rparr>)"

definition created_message :: "profile_request \<Rightarrow> string" where
  "created_message b =
     ''Tao ho so (cap do '' @ str_int (pr_level b) @ '')'' @
     (if truthy (pr_document_number b) then '' - so van ban de nghi '' @ the (pr_document_number b) else [])"

definition create_profile ::
  "system_profile list list \<Rightarrow> (uuid \<Rightarrow> uuid) \<Rightarrow> time \<Rightarrow> uuid \<Rightarrow> string option \<Rightarrow> http_error + user \<Rightarrow> profile_request \<Rightarrow> profile_db \<Rightarrow>
   (http_error + profile_detail) \<times> profile_db" where
  "create_profile others row_id now pid ip auth b db =
     (case auth of
        Inl e \<Rightarrow> (Inl e, db)
      | Inr u \<Rightarrow>
          if \<not> is_super_admin u \<and> u_org_id u \<noteq> pr_org_id b
          then (Inl (HTTPException 403 ''Chi tao ho so cho don vi cua ban''), db)
          else if pr_org_id b \<notin> fst ` set (pd_orgs db) then (Inl internal_error, db)
          else
            (case insert_with_unique_code max_attempts others now (new_profile now pid u b) (pd_profiles db) of
               (None, ps) \<Rightarrow> (Inl internal_error, db\<lparr>pd_profiles := ps\<rparr>)
             | (Some p, ps) \<Rightarrow>
                 (let db1 = profile_audit now ''system_profile.create'' u (uuid_str (pr_org_id b) @ '':'' @ sp_code p) ip
                              (log_event now pid ''created'' (created_message b) u (db\<lparr>pd_profiles := ps\<rparr>));
                      db2 = sync_profile_requirements row_id pid (pr_level b) db1
                  in (Inr (to_detail p db2), db2))))"

record profile_change =
  pc_name :: "string option"
  pc_level :: "int option"
  pc_managed_by :: "string option option"
  pc_document_number :: "string option option"
  pc_document_date :: "string option option"
  pc_content :: "(string \<times> json) list"  \<comment> \<open>the other fields that were sent, in the order of the schema\<close>

definition layout_fields :: "string set" where
  "layout_fields = {''diagram_layout'', ''physical_diagram_layout''}"

definition service_audiences :: "string set" where
  "service_audiences = {''internal'', ''citizens'', ''businesses'', ''mixed''}"

definition field_labels :: "(string \<times> string) list" where
  "field_labels =
     [(''description'', ''Mo ta''), (''diagram_mermaid'', ''So do lo-gic''), (''physical_diagram_mermaid'', ''So do vat ly''),
      (''physical_location'', ''Dia diem lap dat''), (''user_accounts'', ''So luong tai khoan''),
      (''data_volume'', ''Luong du lieu''), (''service_audience'', ''Doi tuong su dung'')]"

definition changed_labels :: "profile_change \<Rightarrow> string list" where
  "changed_labels b =
     (if pc_name b = None then [] else [''Ten he thong'']) @
     List.map_filter (\<lambda>(k, _). map_of field_labels k) (pc_content b) @
     (if pc_managed_by b = None then [] else [''Ten chu quan''])"

definition or_old :: "'a option \<Rightarrow> 'a \<Rightarrow> 'a" where
  "or_old v old = (case v of None \<Rightarrow> old | Some new \<Rightarrow> new)"

definition changed_profile :: "profile_change \<Rightarrow> system_profile \<Rightarrow> system_profile" where
  "changed_profile b p =
     p\<lparr>sp_name := or_old (pc_name b) (sp_name p), sp_level := or_old (pc_level b) (sp_level p),
       sp_managed_by := or_old (pc_managed_by b) (sp_managed_by p),
       sp_document_number := or_old (pc_document_number b) (sp_document_number p),
       sp_document_date := or_old (pc_document_date b) (sp_document_date p),
       sp_content := fold (\<lambda>(k, v) c. c(k := v)) (pc_content b) (sp_content p)\<rparr>"

definition reopened :: "system_profile \<Rightarrow> system_profile" where
  "reopened p = (if sp_status p = SP_REJECTED then p\<lparr>sp_status := SP_DRAFTED, sp_review_note := None\<rparr> else p)"

definition py_str :: "string option \<Rightarrow> string" where
  "py_str v = (case v of None \<Rightarrow> ''None'' | Some t \<Rightarrow> t)"

definition document_message :: "profile_change \<Rightarrow> string" where
  "document_message b =
     ''Cap nhat van ban de nghi - '' @
     join ''; '' ((case pc_document_number b of None \<Rightarrow> [] | Some v \<Rightarrow> [''So van ban: '' @ py_str v]) @
                 (case pc_document_date b of None \<Rightarrow> [] | Some v \<Rightarrow> [''Ngay van ban: '' @ py_str v]))"

definition update_events :: "time \<Rightarrow> user \<Rightarrow> system_profile \<Rightarrow> profile_change \<Rightarrow> profile_db \<Rightarrow> profile_db" where
  "update_events now u p b db =
     (let db1 = (case pc_level b of
                   None \<Rightarrow> db
                 | Some l \<Rightarrow> if l \<noteq> sp_level p
                             then log_event now (sp_id p) ''level_changed''
                                    (''Doi cap do de xuat: '' @ str_int (sp_level p) @ '' -> '' @ str_int l) u db
                             else db);
          db2 = (if pc_document_number b \<noteq> None \<or> pc_document_date b \<noteq> None
                 then log_event now (sp_id p) ''document_updated'' (document_message b) u db1 else db1)
      in if changed_labels b \<noteq> []
         then log_event now (sp_id p) ''updated'' (''Cap nhat ho so: '' @ join '', '' (changed_labels b)) u db2 else db2)"

definition level_changes :: "profile_change \<Rightarrow> system_profile \<Rightarrow> bool" where
  "level_changes b p \<longleftrightarrow> (case pc_level b of None \<Rightarrow> False | Some l \<Rightarrow> l \<noteq> sp_level p)"

definition update_profile ::
  "(uuid \<Rightarrow> uuid) \<Rightarrow> time \<Rightarrow> string option \<Rightarrow> http_error + user \<Rightarrow> uuid \<Rightarrow> profile_change \<Rightarrow> profile_db \<Rightarrow>
   (http_error + profile_detail) \<times> profile_db" where
  "update_profile row_id now ip auth pid b db =
     on_profile auth pid db (\<lambda>u p.
       if sp_status p \<in> frozen_statuses \<and> \<not> is_super_admin u \<and>
          (pc_name b \<noteq> None \<or> pc_level b \<noteq> None \<or> (\<exists>(k, v)\<in>set (pc_content b). k \<notin> layout_fields))
       then (Inl (HTTPException 400 ''Ho so da duoc phe duyet''), db)
       else if \<exists>(k, v)\<in>set (pc_content b). k = ''service_audience'' \<and> v \<notin> JStr ` service_audiences
       then (Inl (HTTPException 400 ''service_audience khong hop le''), db)
       else
         (let p' = reopened (changed_profile b p);
              db1 = profile_audit now ''system_profile.update'' u (uuid_str pid) ip
                      (update_events now u p b (put_profile p' db));
              db2 = (if level_changes b p then sync_profile_requirements row_id pid (sp_level p') db1 else db1)
          in (Inr (to_detail p' db2), db2)))"

text \<open>The rows below a profile go with it.\<close>

definition forget_profile :: "uuid \<Rightarrow> profile_db \<Rightarrow> profile_db" where
  "forget_profile pid db =
     db\<lparr>pd_profiles := delete_where (\<lambda>p. sp_id p = pid) (pd_profiles db),
        pd_devices := delete_where (\<lambda>r. pt_profile_id r = pid) (pd_devices db),
        pd_parties := delete_where (\<lambda>r. pt_profile_id r = pid) (pd_parties db),
        pd_applications := delete_where (\<lambda>r. pt_profile_id r = pid) (pd_applications db),
        pd_ip_ranges := delete_where (\<lambda>r. pt_profile_id r = pid) (pd_ip_ranges db),
        pd_machines := delete_where (\<lambda>r. pl_profile_id r = pid) (pd_machines db),
        pd_contacts := delete_where (\<lambda>r. pl_profile_id r = pid) (pd_contacts db),
        pd_requirements := delete_where (\<lambda>r. rr_profile_id r = pid) (pd_requirements db),
        pd_events := delete_where (\<lambda>e. pe_profile_id e = pid) (pd_events db)\<rparr>"

definition delete_profile ::
  "time \<Rightarrow> string option \<Rightarrow> http_error + user \<Rightarrow> uuid \<Rightarrow> profile_db \<Rightarrow> (http_error + unit) \<times> profile_db" where
  "delete_profile now ip auth pid db =
     on_content auth pid db (\<lambda>u p.
       if \<not> is_super_admin u \<and> sp_status p \<notin> {SP_DRAFTED, SP_REJECTED}
       then (Inl (HTTPException 400 ''Chi xoa duoc ho so chua trinh / bi tu choi''), db)
       else (Inr (), forget_profile pid (profile_audit now ''system_profile.delete'' u
               (uuid_str (sp_org_id p) @ '':'' @ sp_code p) ip db)))"

subsection \<open>The approval workflow\<close>

definition submit_profile ::
  "time \<Rightarrow> string option \<Rightarrow> http_error + user \<Rightarrow> uuid \<Rightarrow> profile_db \<Rightarrow> (http_error + profile_detail) \<times> profile_db" where
  "submit_profile now ip auth pid db =
     on_profile auth pid db (\<lambda>u p.
       if sp_status p \<notin> {SP_DRAFTED, SP_REJECTED} then (Inl (HTTPException 400 ''Ho so da duoc trinh hoac da duyet''), db)
       else
         (let p' = p\<lparr>sp_status := SP_PENDING_REVIEW\<rparr>;
              db' = profile_audit now ''system_profile.submit'' u (uuid_str pid) ip
                      (log_event now pid ''submitted'' ''Trinh ho so de tham dinh'' u (put_profile p' db))
          in (Inr (to_detail p' db'), db')))"

record profile_review =
  pv_approve :: bool  \<comment> \<open>the action is approve, else reject\<close>
  pv_decision_number :: "string option"
  pv_decision_date :: "time option"
  pv_decision_agency :: "string option"
  pv_review_note :: "string option"

definition review_profile ::
  "time \<Rightarrow> string option \<Rightarrow> http_error + user \<Rightarrow> uuid \<Rightarrow> profile_review \<Rightarrow> profile_db \<Rightarrow>
   (http_error + profile_detail) \<times> profile_db" where
  "review_profile now ip auth pid b db =
     on_profile auth pid db (\<lambda>u p.
       if sp_status p \<noteq> SP_PENDING_REVIEW then (Inl (HTTPException 400 ''Chi duyet duoc ho so dang cho duyet''), db)
       else if pv_approve b \<and> \<not> truthy (pv_decision_number b)
       then (Inl (HTTPException 400 ''Phai nhap so quyet dinh phe duyet''), db)
       else if \<not> pv_approve b \<and> (\<not> truthy (pv_review_note b) \<or> strip (the (pv_review_note b)) = [])
       then (Inl (HTTPException 400 ''Phai nhap ly do tu choi''), db)
       else
         (let p1 = (if pv_approve b
                    then p\<lparr>sp_status := SP_APPROVED, sp_decision_number := Some (strip (the (pv_decision_number b))),
                           sp_decision_date := Some (or_old (pv_decision_date b) now),
                           sp_decision_agency := pv_decision_agency b, sp_review_note := pv_review_note b\<rparr>
                    else p\<lparr>sp_status := SP_REJECTED, sp_review_note := Some (strip (the (pv_review_note b)))\<rparr>);
              ev = (if pv_approve b then ''approved'' else ''rejected'');
              msg = (if pv_approve b then ''Phe duyet ho so - quyet dinh '' @ strip (the (pv_decision_number b))
                     else ''Tu choi ho so: '' @ strip (the (pv_review_note b)));
              p' = p1\<lparr>sp_reviewed_by := Some (u_id u), sp_reviewed_at := Some now\<rparr>;
              db' = profile_audit now (if pv_approve b then ''system_profile.approve'' else ''system_profile.reject'') u
                      (uuid_str pid) ip (log_event now pid ev msg u (put_profile p' db))
          in (Inr (to_detail p' db'), db')))"

definition all_verified :: "uuid \<Rightarrow> profile_db \<Rightarrow> bool" where
  "all_verified pid db \<longleftrightarrow>
     profile_requirements pid db \<noteq> [] \<and> (\<forall>r\<in>set (profile_requirements pid db). rr_status r = RQ_VERIFIED)"

definition report_implementation ::
  "time \<Rightarrow> string option \<Rightarrow> http_error + user \<Rightarrow> uuid \<Rightarrow> string option \<Rightarrow> profile_db \<Rightarrow>
   (http_error + profile_detail) \<times> profile_db" where
  "report_implementation now ip auth pid note db =
     on_profile auth pid db (\<lambda>u p.
       if sp_status p \<noteq> SP_APPROVED then (Inl (HTTPException 400 ''Chi khai bao duoc voi ho so da duoc phe duyet''), db)
       else if \<not> is_super_admin u \<and> u_org_id u \<noteq> sp_org_id p
       then (Inl (HTTPException 403 ''Chi don vi cua ho so duoc khai bao trien khai''), db)
       else if profile_requirements pid db = [] \<or> verified_count pid db < length (profile_requirements pid db)
       then (Inl (HTTPException 400 (''Chua dap ung du yeu cau cap do '' @ str_int (sp_level p) @ '' ('' @
                digits_of (verified_count pid db) @ ''/'' @ digits_of (length (profile_requirements pid db)) @
                '' da tham dinh dat)'')), db)
       else
         (let p1 = p\<lparr>sp_status := SP_IMPLEMENTED\<rparr>;
              p' = (if truthy note then p1\<lparr>sp_review_note := Some (strip (the note))\<rparr> else p1);
              impl = (case note of None \<Rightarrow> [] | Some t \<Rightarrow> strip t);
              msg = ''Don vi khai bao da trien khai he thong theo ho so'' @ (if impl = [] then [] else '' - note: '' @ impl)
          in answer u pid (profile_audit now ''system_profile.report_implementation'' u (uuid_str pid) ip
               (log_event now pid ''implementation_reported'' msg u (put_profile p' db)))))"

definition confirm_implementation ::
  "time \<Rightarrow> string option \<Rightarrow> http_error + user \<Rightarrow> uuid \<Rightarrow> string option \<Rightarrow> profile_db \<Rightarrow>
   (http_error + profile_detail) \<times> profile_db" where
  "confirm_implementation now ip auth pid note db =
     on_profile auth pid db (\<lambda>u p.
       if sp_status p \<noteq> SP_IMPLEMENTED
       then (Inl (HTTPException 400 ''Chi xac nhan duoc ho so dang o trang thai da khai bao trien khai''), db)
       else
         (let fulfil = (case note of None \<Rightarrow> [] | Some t \<Rightarrow> strip t);
              p1 = (if truthy note then p\<lparr>sp_review_note := Some fulfil\<rparr> else p);
              p' = p1\<lparr>sp_status := SP_FULFILLED, sp_reviewed_by := Some (u_id u), sp_reviewed_at := Some now\<rparr>;
              msg = ''Xac nhan don vi da dap ung ho so'' @ (if fulfil = [] then [] else '' - review_note: '' @ fulfil)
          in answer u pid (profile_audit now ''system_profile.confirm_implementation'' u (uuid_str pid) ip
               (log_event now pid ''fulfilled'' msg u (put_profile p' db)))))"

subsection \<open>Review of the requirements\<close>

definition get_requirement_row :: "uuid \<Rightarrow> uuid \<Rightarrow> profile_db \<Rightarrow> requirement_row option" where
  "get_requirement_row row pid db = find (\<lambda>r. rr_id r = row \<and> rr_profile_id r = pid) (pd_requirements db)"

definition put_requirement_row :: "requirement_row \<Rightarrow> profile_db \<Rightarrow> profile_db" where
  "put_requirement_row r db =
     db\<lparr>pd_requirements := update_where (\<lambda>q. rr_id q = rr_id r \<and> rr_profile_id q = rr_profile_id r) (\<lambda>_. r) (pd_requirements db)\<rparr>"

definition requirement_title :: "requirement_row \<Rightarrow> profile_db \<Rightarrow> string" where
  "requirement_title r db = (case requirement_of (rr_requirement_id r) db of None \<Rightarrow> [] | Some q \<Rightarrow> lr_title q)"

definition requirement_missing :: http_error where
  "requirement_missing = HTTPException 404 ''Khong tim thay yeu cau trong ho so''"

definition request_requirement_review ::
  "time \<Rightarrow> string option \<Rightarrow> http_error + user \<Rightarrow> uuid \<Rightarrow> uuid \<Rightarrow> string \<Rightarrow> profile_db \<Rightarrow>
   (http_error + profile_detail) \<times> profile_db" where
  "request_requirement_review now ip auth pid row evidence db =
     on_profile auth pid db (\<lambda>u p.
       case get_requirement_row row pid db of
         None \<Rightarrow> (Inl requirement_missing, db)
       | Some r \<Rightarrow>
           if rr_status r \<in> {RQ_REQUESTED, RQ_VERIFIED}
           then (Inl (HTTPException 400 ''Yeu cau dang cho tham dinh hoac da duoc tham dinh dat''), db)
           else
             (let r' = r\<lparr>rr_status := RQ_REQUESTED, rr_evidence := Some (strip evidence), rr_requested_by := Some (u_id u),
                         rr_requested_at := Some now, rr_review_note := None\<rparr>
              in answer u pid (profile_audit now ''system_profile.requirement.request'' u
                   (uuid_str pid @ '':'' @ uuid_str row) ip
                   (log_event now pid ''requirement_requested'' (''Trinh tham dinh yeu cau ATTT: '' @ requirement_title r db) u
                     (put_requirement_row r' db)))))"

definition review_requirement ::
  "time \<Rightarrow> string option \<Rightarrow> http_error + user \<Rightarrow> uuid \<Rightarrow> uuid \<Rightarrow> bool \<Rightarrow> string option \<Rightarrow> profile_db \<Rightarrow>
   (http_error + profile_detail) \<times> profile_db" where
  "review_requirement now ip auth pid row verify note db =
     on_profile auth pid db (\<lambda>u p.
       case get_requirement_row row pid db of
         None \<Rightarrow> (Inl requirement_missing, db)
       | Some r \<Rightarrow>
           if rr_status r \<noteq> RQ_REQUESTED
           then (Inl (HTTPException 400 ''Chi tham dinh duoc yeu cau dang cho tham dinh''), db)
           else
             (let r' = r\<lparr>rr_status := (if verify then RQ_VERIFIED else RQ_REJECTED), rr_reviewed_by := Some (u_id u),
                         rr_reviewed_at := Some now, rr_review_note := note\<rparr>;
                  title = requirement_title r db;
                  ev = (if verify then ''requirement_verified'' else ''requirement_rejected'');
                  msg = (if verify then ''Tham dinh DAT yeu cau ATTT: '' @ title
                         else ''Tham dinh KHONG DAT yeu cau ATTT: '' @ title @
                                (if truthy note then '' - '' @ the note else []))
              in answer u pid (profile_audit now
                   (if verify then ''system_profile.requirement.verify'' else ''system_profile.requirement.reject'') u
                   (uuid_str pid @ '':'' @ uuid_str row) ip
                   (log_event now pid ev msg u (put_requirement_row r' db)))))"

end
