(* ===== verification/ProfileParts.thy ===== *)
theory ProfileParts
  imports Profiles IpAddress
begin

text \<open>
  The contents of a profile (devices, machines, contacts, officer, parties, applications, address ranges): the second
  half of \<open>api/routes/system_profiles.py\<close>, and the catalogues the profiles draw on: security requirements
  (\<open>system_profiles.py\<close>), officers (\<open>officers.py\<close>), contacts (\<open>it_contacts.py\<close>) and device types
  (\<open>device_types.py\<close>).
\<close>

definition bad_request :: "string \<Rightarrow> (http_error + 'a)" where
  "bad_request msg = Inl (HTTPException 400 msg)"

definition not_found :: "string \<Rightarrow> (http_error + 'a)" where
  "not_found msg = Inl (HTTPException 404 msg)"

definition conflict :: "string \<Rightarrow> (http_error + 'a)" where
  "conflict msg = Inl (HTTPException 409 msg)"

text \<open>The timeline entry and the audit row of one operation on a profile.\<close>

definition logged ::
  "time \<Rightarrow> string option \<Rightarrow> user \<Rightarrow> uuid \<Rightarrow> string \<Rightarrow> string \<Rightarrow> string \<Rightarrow> string \<Rightarrow> profile_db \<Rightarrow> profile_db" where
  "logged now ip u pid ev msg action target db =
     profile_audit now action u target ip (log_event now pid ev msg u db)"

definition find_part :: "uuid \<Rightarrow> uuid \<Rightarrow> 'b part list \<Rightarrow> 'b part option" where
  "find_part rid pid rows = find (\<lambda>r. pt_id r = rid \<and> pt_profile_id r = pid) rows"

definition add_part :: "uuid \<Rightarrow> uuid \<Rightarrow> 'b \<Rightarrow> 'b part list \<Rightarrow> 'b part list" where
  "add_part rid pid b rows = insert_row \<lparr>pt_id = rid, pt_profile_id = pid, pt_body = b\<rparr> rows"

definition set_part :: "uuid \<Rightarrow> uuid \<Rightarrow> 'b \<Rightarrow> 'b part list \<Rightarrow> 'b part list" where
  "set_part rid pid b rows = update_where (\<lambda>r. pt_id r = rid \<and> pt_profile_id r = pid) (\<lambda>r. r\<lparr>pt_body := b\<rparr>) rows"

definition drop_part :: "uuid \<Rightarrow> uuid \<Rightarrow> 'b part list \<Rightarrow> 'b part list" where
  "drop_part rid pid rows = delete_where (\<lambda>r. pt_id r = rid \<and> pt_profile_id r = pid) rows"

subsection \<open>Devices\<close>

definition valid_device_type :: "string \<Rightarrow> profile_db \<Rightarrow> bool" where
  "valid_device_type t db \<longleftrightarrow> (\<exists>d\<in>set (pd_device_types db). dy_code d = t \<and> dy_is_active d)"

text \<open>\<open>None\<close> when the machine is of the profile's organisation or none is given.\<close>

definition validate_machine :: "uuid option \<Rightarrow> system_profile \<Rightarrow> profile_db \<Rightarrow> http_error option" where
  "validate_machine mid p db =
     (case mid of
        None \<Rightarrow> None
      | Some i \<Rightarrow>
          (case find (\<lambda>m. m_id m = i) (pd_fleet db) of
             Some m \<Rightarrow> if m_org_id m = sp_org_id p then None
                       else Some (HTTPException 400 ''May khong thuoc don vi cua ho so'')
           | None \<Rightarrow> Some (HTTPException 400 ''May khong thuoc don vi cua ho so'')))"

definition add_device ::
  "time \<Rightarrow> uuid \<Rightarrow> string option \<Rightarrow> http_error + user \<Rightarrow> uuid \<Rightarrow> device_in \<Rightarrow> profile_db \<Rightarrow> (http_error + profile_detail) \<times> profile_db" where
  "add_device now new_id ip auth pid b db =
     on_content auth pid db (\<lambda>u p.
       if \<not> valid_device_type (di_device_type b) db
       then (bad_request (''Loai thiet bi khong hop le: '' @ di_device_type b), db)
       else (case validate_machine (di_machine_id b) p db of
               Some e \<Rightarrow> (Inl e, db)
             | None \<Rightarrow>
                 (let db' = logged now ip u pid ''device_added''
                              (''Them thiet bi: '' @ di_name b @ '' ('' @ di_device_type b @ '')'')
                              ''system_profile.device.add'' (uuid_str pid @ '':'' @ di_name b)
                              (db\<lparr>pd_devices := add_part new_id pid b (pd_devices db)\<rparr>)
                  in (Inr (to_detail p db'), db'))))"

definition update_device ::
  "time \<Rightarrow> string option \<Rightarrow> http_error + user \<Rightarrow> uuid \<Rightarrow> uuid \<Rightarrow> device_in \<Rightarrow> profile_db \<Rightarrow> (http_error + profile_detail) \<times> profile_db" where
  "update_device now ip auth pid did b db =
     on_content auth pid db (\<lambda>u p.
       case find_part did pid (pd_devices db) of
         None \<Rightarrow> (not_found ''Khong tim thay thiet bi'', db)
       | Some d \<Rightarrow>
           if \<not> valid_device_type (di_device_type b) db
           then (bad_request (''Loai thiet bi khong hop le: '' @ di_device_type b), db)
           else (case validate_machine (di_machine_id b) p db of
                   Some e \<Rightarrow> (Inl e, db)
                 | None \<Rightarrow>
                     (let db' = logged now ip u pid ''device_updated'' (''Cap nhat thiet bi: '' @ di_name b)
                                  ''system_profile.device.update'' (uuid_str did)
                                  (db\<lparr>pd_devices := set_part did pid b (pd_devices db)\<rparr>)
                      in (Inr (to_detail p db'), db'))))"

definition delete_device ::
  "time \<Rightarrow> string option \<Rightarrow> http_error + user \<Rightarrow> uuid \<Rightarrow> uuid \<Rightarrow> profile_db \<Rightarrow> (http_error + profile_detail) \<times> profile_db" where
  "delete_device now ip auth pid did db =
     on_content auth pid db (\<lambda>u p.
       case find_part did pid (pd_devices db) of
         None \<Rightarrow> (not_found ''Khong tim thay thiet bi'', db)
       | Some d \<Rightarrow>
           (let db' = logged now ip u pid ''device_removed'' (''Xoa thiet bi: '' @ di_name (pt_body d))
                        ''system_profile.device.delete'' (uuid_str did)
                        (db\<lparr>pd_devices := drop_part did pid (pd_devices db)\<rparr>)
            in (Inr (to_detail p db'), db')))"

subsection \<open>Machines and contacts\<close>

definition linked :: "uuid \<Rightarrow> uuid \<Rightarrow> profile_link list \<Rightarrow> bool" where
  "linked pid t rows \<longleftrightarrow> (\<exists>l\<in>set rows. pl_profile_id l = pid \<and> pl_target_id l = t)"

definition add_link :: "uuid \<Rightarrow> uuid \<Rightarrow> string option \<Rightarrow> profile_link list \<Rightarrow> profile_link list" where
  "add_link pid t note rows = insert_row \<lparr>pl_profile_id = pid, pl_target_id = t, pl_note = note\<rparr> rows"

definition drop_link :: "uuid \<Rightarrow> uuid \<Rightarrow> profile_link list \<Rightarrow> profile_link list" where
  "drop_link pid t rows = delete_where (\<lambda>l. pl_profile_id l = pid \<and> pl_target_id l = t) rows"

definition hostname_or_id :: "uuid \<Rightarrow> profile_db \<Rightarrow> string" where
  "hostname_or_id mid db =
     (case find (\<lambda>m. m_id m = mid) (pd_fleet db) of
        Some m \<Rightarrow> if truthy (m_hostname m) then the (m_hostname m) else uuid_str mid
      | None \<Rightarrow> uuid_str mid)"

definition attach_machine ::
  "time \<Rightarrow> string option \<Rightarrow> http_error + user \<Rightarrow> uuid \<Rightarrow> uuid \<Rightarrow> string option \<Rightarrow> profile_db \<Rightarrow>
   (http_error + profile_detail) \<times> profile_db" where
  "attach_machine now ip auth pid mid note db =
     on_content auth pid db (\<lambda>u p.
       case validate_machine (Some mid) p db of
         Some e \<Rightarrow> (Inl e, db)
       | None \<Rightarrow>
           if linked pid mid (pd_machines db) then (conflict ''May da nam trong ho so'', db)
           else
             (let db' = logged now ip u pid ''machine_attached'' (''Gan may tinh: '' @ hostname_or_id mid db)
                          ''system_profile.machine.attach'' (uuid_str pid @ '':'' @ uuid_str mid)
                          (db\<lparr>pd_machines := add_link pid mid note (pd_machines db)\<rparr>)
              in (Inr (to_detail p db'), db')))"

definition detach_machine ::
  "time \<Rightarrow> string option \<Rightarrow> http_error + user \<Rightarrow> uuid \<Rightarrow> uuid \<Rightarrow> profile_db \<Rightarrow> (http_error + profile_detail) \<times> profile_db" where
  "detach_machine now ip auth pid mid db =
     on_content auth pid db (\<lambda>u p.
       if \<not> linked pid mid (pd_machines db) then (not_found ''May khong nam trong ho so'', db)
       else
         (let db' = logged now ip u pid ''machine_detached'' (''Go may tinh: '' @ hostname_or_id mid db)
                      ''system_profile.machine.detach'' (uuid_str pid @ '':'' @ uuid_str mid)
                      (db\<lparr>pd_machines := drop_link pid mid (pd_machines db)\<rparr>)
          in (Inr (to_detail p db'), db')))"

definition get_contact :: "uuid \<Rightarrow> profile_db \<Rightarrow> it_contact option" where
  "get_contact cid db = find (\<lambda>c. ic_id c = cid) (pd_directory db)"

text \<open>The answer after the second guard.\<close>

definition answer_content :: "user \<Rightarrow> uuid \<Rightarrow> profile_db \<Rightarrow> (http_error + profile_detail) \<times> profile_db" where
  "answer_content u pid db = on_content (Inr u) pid db (\<lambda>u p. (Inr (to_detail p db), db))"

definition attach_contact ::
  "time \<Rightarrow> string option \<Rightarrow> http_error + user \<Rightarrow> uuid \<Rightarrow> uuid \<Rightarrow> string option \<Rightarrow> profile_db \<Rightarrow>
   (http_error + profile_detail) \<times> profile_db" where
  "attach_contact now ip auth pid cid note db =
     on_content auth pid db (\<lambda>u p.
       case get_contact cid db of
         None \<Rightarrow> (bad_request ''Contact khong thuoc don vi cua ho so'', db)
       | Some c \<Rightarrow>
           if ic_org_id c \<noteq> sp_org_id p then (bad_request ''Contact khong thuoc don vi cua ho so'', db)
           else if linked pid cid (pd_contacts db) then (conflict ''Contact da nam trong ho so'', db)
           else answer_content u pid
                  (logged now ip u pid ''contact_attached''
                    (''Gan '' @ (if ic_kind c = ''org'' then ''to chuc van hanh'' else ''chuyen trach cntt'') @ '': '' @ ic_name c)
                    ''system_profile.contact.attach'' (uuid_str pid @ '':'' @ uuid_str cid)
                    (db\<lparr>pd_contacts := add_link pid cid note (pd_contacts db)\<rparr>)))"

definition detach_contact ::
  "time \<Rightarrow> string option \<Rightarrow> http_error + user \<Rightarrow> uuid \<Rightarrow> uuid \<Rightarrow> profile_db \<Rightarrow> (http_error + profile_detail) \<times> profile_db" where
  "detach_contact now ip auth pid cid db =
     on_content auth pid db (\<lambda>u p.
       if \<not> linked pid cid (pd_contacts db) then (not_found ''Contact khong nam trong ho so'', db)
       else answer_content u pid
              (logged now ip u pid ''contact_detached''
                (''Go chuyen trach/to chuc: '' @ (case get_contact cid db of Some c \<Rightarrow> ic_name c | None \<Rightarrow> uuid_str cid))
                ''system_profile.contact.detach'' (uuid_str pid @ '':'' @ uuid_str cid)
                (db\<lparr>pd_contacts := drop_link pid cid (pd_contacts db)\<rparr>)))"

subsection \<open>Officer\<close>

definition get_officer_row :: "uuid \<Rightarrow> profile_db \<Rightarrow> officer option" where
  "get_officer_row oid db = find (\<lambda>f. of_id f = oid) (pd_officers db)"

definition assign_verb :: "uuid \<Rightarrow> system_profile \<Rightarrow> string" where
  "assign_verb oid p =
     (case sp_officer_id p of None \<Rightarrow> ''Chi dinh'' | Some old \<Rightarrow> if old = oid then ''Cap nhat'' else ''Doi'')"

definition assign_officer ::
  "time \<Rightarrow> string option \<Rightarrow> http_error + user \<Rightarrow> uuid \<Rightarrow> uuid \<Rightarrow> profile_db \<Rightarrow> (http_error + profile_detail) \<times> profile_db" where
  "assign_officer now ip auth pid oid db =
     on_profile auth pid db (\<lambda>u p.
       case get_officer_row oid db of
         None \<Rightarrow> (not_found ''Khong tim thay can bo'', db)
       | Some f \<Rightarrow>
           answer u pid
             (logged now ip u pid ''officer_assigned'' (assign_verb oid p @ '' can bo phu trach: '' @ of_name f)
               ''system_profile.officer.assign'' (uuid_str pid @ '':'' @ uuid_str oid)
               (put_profile (p\<lparr>sp_officer_id := Some oid\<rparr>) db)))"

definition unassign_officer ::
  "time \<Rightarrow> string option \<Rightarrow> http_error + user \<Rightarrow> uuid \<Rightarrow> profile_db \<Rightarrow> (http_error + profile_detail) \<times> profile_db" where
  "unassign_officer now ip auth pid db =
     on_profile auth pid db (\<lambda>u p.
       case sp_officer_id p of
         None \<Rightarrow> (not_found ''Ho so chua co can bo phu trach'', db)
       | Some oid \<Rightarrow>
           answer u pid
             (logged now ip u pid ''officer_cleared''
               (''Go can bo phu trach: '' @ (case get_officer_row oid db of Some f \<Rightarrow> of_name f | None \<Rightarrow> uuid_str oid))
               ''system_profile.officer.unassign'' (uuid_str pid) (put_profile (p\<lparr>sp_officer_id := None\<rparr>) db)))"

subsection \<open>Parties\<close>

definition find_party_by_role :: "uuid \<Rightarrow> string \<Rightarrow> party_in part list \<Rightarrow> party_in part option" where
  "find_party_by_role pid role rows = find (\<lambda>r. pt_profile_id r = pid \<and> pi_role (pt_body r) = role) rows"

definition party_label :: "string \<Rightarrow> string \<Rightarrow> string" where
  "party_label owner role = (if role = ''owner'' then owner else ''don vi van hanh'')"

text \<open>\<open>others\<close> are the rows that concurrent requests commit between the check and the insertion; the unique
  constraint on profile and role then refuses the row.\<close>

definition add_party ::
  "party_in part list \<Rightarrow> time \<Rightarrow> uuid \<Rightarrow> string option \<Rightarrow> http_error + user \<Rightarrow> uuid \<Rightarrow> party_in \<Rightarrow> profile_db \<Rightarrow>
   (http_error + profile_detail) \<times> profile_db" where
  "add_party others now new_id ip auth pid b db =
     on_content auth pid db (\<lambda>u p.
       if find_party_by_role pid (pi_role b) (pd_parties db) \<noteq> None
       then (conflict ''Da co ban ghi cho vai tro nay - hay sua thay vi them'', db)
       else
         (let db1 = db\<lparr>pd_parties := pd_parties db @ others\<rparr>
          in if find_party_by_role pid (pi_role b) (pd_parties db1) \<noteq> None
             then (conflict ''Da co ban ghi cho vai tro nay (constraint violation).'', db1)
             else answer_content u pid
                    (logged now ip u pid ''party_added''
                      (''Khai bao '' @ party_label ''don vi chu quan'' (pi_role b) @ '': '' @ pi_name b)
                      ''system_profile.party.add'' (uuid_str pid @ '':'' @ pi_role b)
                      (db1\<lparr>pd_parties := add_part new_id pid b (pd_parties db1)\<rparr>))))"

definition update_party ::
  "time \<Rightarrow> string option \<Rightarrow> http_error + user \<Rightarrow> uuid \<Rightarrow> uuid \<Rightarrow> party_in \<Rightarrow> profile_db \<Rightarrow> (http_error + profile_detail) \<times> profile_db" where
  "update_party now ip auth pid rid b db =
     on_content auth pid db (\<lambda>u p.
       case find_part rid pid (pd_parties db) of
         None \<Rightarrow> (not_found ''Khong tim thay ban ghi'', db)
       | Some r \<Rightarrow>
           if find_party_by_role pid (pi_role b) (drop_part rid pid (pd_parties db)) \<noteq> None then (Inl internal_error, db)
           else answer_content u pid
                  (logged now ip u pid ''party_updated''
                    (''Cap nhat thong tin '' @ party_label ''chu quan'' (pi_role b) @ '': '' @ pi_name b)
                    ''system_profile.party.update'' (uuid_str rid)
                    (db\<lparr>pd_parties := set_part rid pid b (pd_parties db)\<rparr>)))"

definition delete_party ::
  "time \<Rightarrow> string option \<Rightarrow> http_error + user \<Rightarrow> uuid \<Rightarrow> uuid \<Rightarrow> profile_db \<Rightarrow> (http_error + profile_detail) \<times> profile_db" where
  "delete_party now ip auth pid rid db =
     on_content auth pid db (\<lambda>u p.
       case find_part rid pid (pd_parties db) of
         None \<Rightarrow> (not_found ''Khong tim thay ban ghi'', db)
       | Some r \<Rightarrow>
           answer_content u pid
             (logged now ip u pid ''party_removed'' (''Xoa thong tin chu quan/van hanh: '' @ pi_name (pt_body r))
               ''system_profile.party.delete'' (uuid_str rid) (db\<lparr>pd_parties := drop_part rid pid (pd_parties db)\<rparr>)))"

subsection \<open>Applications\<close>

definition add_application ::
  "time \<Rightarrow> uuid \<Rightarrow> string option \<Rightarrow> http_error + user \<Rightarrow> uuid \<Rightarrow> application_in \<Rightarrow> profile_db \<Rightarrow>
   (http_error + profile_detail) \<times> profile_db" where
  "add_application now new_id ip auth pid b db =
     on_content auth pid db (\<lambda>u p.
       case validate_machine (ai_machine_id b) p db of
         Some e \<Rightarrow> (Inl e, db)
       | None \<Rightarrow>
           answer_content u pid
             (logged now ip u pid ''application_added'' (''Khai bao ung dung/dich vu: '' @ ai_name b)
               ''system_profile.application.add'' (uuid_str pid @ '':'' @ ai_name b)
               (db\<lparr>pd_applications := add_part new_id pid b (pd_applications db)\<rparr>)))"

definition update_application ::
  "time \<Rightarrow> string option \<Rightarrow> http_error + user \<Rightarrow> uuid \<Rightarrow> uuid \<Rightarrow> application_in \<Rightarrow> profile_db \<Rightarrow>
   (http_error + profile_detail) \<times> profile_db" where
  "update_application now ip auth pid rid b db =
     on_content auth pid db (\<lambda>u p.
       case find_part rid pid (pd_applications db) of
         None \<Rightarrow> (not_found ''Khong tim thay ung dung'', db)
       | Some r \<Rightarrow>
           (case validate_machine (ai_machine_id b) p db of
              Some e \<Rightarrow> (Inl e, db)
            | None \<Rightarrow>
                answer_content u pid
                  (logged now ip u pid ''application_updated'' (''Cap nhat ung dung/dich vu: '' @ ai_name b)
                    ''system_profile.application.update'' (uuid_str rid)
                    (db\<lparr>pd_applications := set_part rid pid b (pd_applications db)\<rparr>))))"

definition delete_application ::
  "time \<Rightarrow> string option \<Rightarrow> http_error + user \<Rightarrow> uuid \<Rightarrow> uuid \<Rightarrow> profile_db \<Rightarrow> (http_error + profile_detail) \<times> profile_db" where
  "delete_application now ip auth pid rid db =
     on_content auth pid db (\<lambda>u p.
       case find_part rid pid (pd_applications db) of
         None \<Rightarrow> (not_found ''Khong tim thay ung dung'', db)
       | Some r \<Rightarrow>
           answer_content u pid
             (logged now ip u pid ''application_removed'' (''Xoa ung dung/dich vu: '' @ ai_name (pt_body r))
               ''system_profile.application.delete'' (uuid_str rid)
               (db\<lparr>pd_applications := drop_part rid pid (pd_applications db)\<rparr>)))"

subsection \<open>Address ranges\<close>

text \<open>The validators of the request; a failure is answered with 422 after the permission check.\<close>

definition valid_cidr :: "string \<Rightarrow> bool" where
  "valid_cidr s =
     (case read_network s of None \<Rightarrow> False | Some n \<Rightarrow> \<not> (single_address n \<and> CHR ''/'' \<notin> set s))"

definition valid_gateway :: "string option \<Rightarrow> bool" where
  "valid_gateway g \<longleftrightarrow> (truthy g \<longrightarrow> ip_address (the g) \<noteq> None)"

definition same_family :: "ip_range_in \<Rightarrow> bool" where
  "same_family b \<longleftrightarrow>
     (truthy (ir_gateway b) \<longrightarrow>
        (case (read_network (ir_cidr b), ip_address (the (ir_gateway b))) of
           (Some n, Some i) \<Rightarrow> net_version n = ip_version i | _ \<Rightarrow> False))"

definition valid_ip_range :: "ip_range_in \<Rightarrow> bool" where
  "valid_ip_range b \<longleftrightarrow> valid_cidr (ir_cidr b) \<and> valid_gateway (ir_gateway b) \<and> same_family b"

definition checked_range :: "http_error + user \<Rightarrow> ip_range_in \<Rightarrow> http_error + user" where
  "checked_range auth b =
     (case auth of
        Inl e \<Rightarrow> Inl e
      | Inr u \<Rightarrow> if valid_ip_range b then Inr u else Inl (HTTPException 422 ''Unprocessable Entity''))"

definition add_ip_range ::
  "time \<Rightarrow> uuid \<Rightarrow> string option \<Rightarrow> http_error + user \<Rightarrow> uuid \<Rightarrow> ip_range_in \<Rightarrow> profile_db \<Rightarrow>
   (http_error + profile_detail) \<times> profile_db" where
  "add_ip_range now new_id ip auth pid b db =
     on_content (checked_range auth b) pid db (\<lambda>u p.
       answer_content u pid
         (logged now ip u pid ''ip_range_added'' (''Khai bao vung mang '' @ ir_zone b @ '' ('' @ ir_cidr b @ '')'')
           ''system_profile.ip_range.add'' (uuid_str pid @ '':'' @ ir_zone b)
           (db\<lparr>pd_ip_ranges := add_part new_id pid b (pd_ip_ranges db)\<rparr>)))"

definition update_ip_range ::
  "time \<Rightarrow> string option \<Rightarrow> http_error + user \<Rightarrow> uuid \<Rightarrow> uuid \<Rightarrow> ip_range_in \<Rightarrow> profile_db \<Rightarrow>
   (http_error + profile_detail) \<times> profile_db" where
  "update_ip_range now ip auth pid rid b db =
     on_content (checked_range auth b) pid db (\<lambda>u p.
       case find_part rid pid (pd_ip_ranges db) of
         None \<Rightarrow> (not_found ''Khong tim thay dai IP'', db)
       | Some r \<Rightarrow>
           answer_content u pid
             (logged now ip u pid ''ip_range_updated'' (''Cap nhat vung mang '' @ ir_zone b @ '' ('' @ ir_cidr b @ '')'')
               ''system_profile.ip_range.update'' (uuid_str rid)
               (db\<lparr>pd_ip_ranges := set_part rid pid b (pd_ip_ranges db)\<rparr>)))"

definition delete_ip_range ::
  "time \<Rightarrow> string option \<Rightarrow> http_error + user \<Rightarrow> uuid \<Rightarrow> uuid \<Rightarrow> profile_db \<Rightarrow> (http_error + profile_detail) \<times> profile_db" where
  "delete_ip_range now ip auth pid rid db =
     on_content auth pid db (\<lambda>u p.
       case find_part rid pid (pd_ip_ranges db) of
         None \<Rightarrow> (not_found ''Khong tim thay dai IP'', db)
       | Some r \<Rightarrow>
           answer_content u pid
             (logged now ip u pid ''ip_range_removed''
               (''Xoa vung mang '' @ ir_zone (pt_body r) @ '' ('' @ ir_cidr (pt_body r) @ '')'')
               ''system_profile.ip_range.delete'' (uuid_str rid)
               (db\<lparr>pd_ip_ranges := drop_part rid pid (pd_ip_ranges db)\<rparr>)))"

subsection \<open>Catalogue of requirements\<close>

definition list_level_requirements ::
  "http_error + user \<Rightarrow> int option \<Rightarrow> profile_db \<Rightarrow> http_error + level_requirement list" where
  "list_level_requirements auth l db =
     (case auth of
        Inl e \<Rightarrow> Inl e
      | Inr u \<Rightarrow> Inr (sort_key (\<lambda>q. (lr_level q, lr_sort_order q))
                       (filter (\<lambda>q. case l of None \<Rightarrow> True | Some n \<Rightarrow> lr_level q = n) (pd_catalog db))))"

text \<open>\<open>b\<close> is the request under its future id. The check reads the code as it was sent; the unique
  constraint applies to the stripped one.\<close>

definition create_level_requirement ::
  "time \<Rightarrow> string option \<Rightarrow> http_error + user \<Rightarrow> level_requirement \<Rightarrow> profile_db \<Rightarrow> (http_error + level_requirement) \<times> profile_db" where
  "create_level_requirement now ip auth b db =
     (case auth of
        Inl e \<Rightarrow> (Inl e, db)
      | Inr u \<Rightarrow>
          if lr_code b \<in> lr_code ` set (pd_catalog db) then (conflict (''Ma yeu cau '' @ lr_code b @ '' da ton tai''), db)
          else
            (let q = b\<lparr>lr_code := strip (lr_code b), lr_title := strip (lr_title b)\<rparr>
             in if lr_code q \<in> lr_code ` set (pd_catalog db) then (Inl internal_error, db)
                else (Inr q, profile_audit now ''level_requirement.create'' u
                        (''L'' @ str_int (lr_level b) @ '':'' @ lr_code b) ip
                        (db\<lparr>pd_catalog := insert_row q (pd_catalog db)\<rparr>))))"

text \<open>A field that was sent as null is \<open>Some None\<close>; the columns of all but the description refuse it.\<close>

record level_requirement_change =
  qc_title :: "string option option"
  qc_description :: "string option option"
  qc_sort_order :: "int option option"
  qc_is_active :: "bool option option"

definition new_value :: "'a option option \<Rightarrow> 'a \<Rightarrow> 'a" where
  "new_value v old = (case v of Some (Some x) \<Rightarrow> x | _ \<Rightarrow> old)"

definition update_level_requirement ::
  "time \<Rightarrow> string option \<Rightarrow> http_error + user \<Rightarrow> uuid \<Rightarrow> level_requirement_change \<Rightarrow> profile_db \<Rightarrow>
   (http_error + level_requirement) \<times> profile_db" where
  "update_level_requirement now ip auth qid b db =
     (case auth of
        Inl e \<Rightarrow> (Inl e, db)
      | Inr u \<Rightarrow>
          (case requirement_of qid db of
             None \<Rightarrow> (not_found ''Khong tim thay yeu cau'', db)
           | Some q \<Rightarrow>
               if qc_title b = Some None \<or> qc_sort_order b = Some None \<or> qc_is_active b = Some None
               then (Inl internal_error, db)
               else
                 (let q' = q\<lparr>lr_title := new_value (qc_title b) (lr_title q),
                             lr_description := or_old (qc_description b) (lr_description q),
                             lr_sort_order := new_value (qc_sort_order b) (lr_sort_order q),
                             lr_is_active := new_value (qc_is_active b) (lr_is_active q)\<rparr>
                  in (Inr q', profile_audit now ''level_requirement.update'' u (uuid_str qid) ip
                        (db\<lparr>pd_catalog := update_where (\<lambda>r. lr_id r = qid) (\<lambda>_. q') (pd_catalog db)\<rparr>)))))"

definition delete_level_requirement ::
  "time \<Rightarrow> string option \<Rightarrow> http_error + user \<Rightarrow> uuid \<Rightarrow> profile_db \<Rightarrow> (http_error + unit) \<times> profile_db" where
  "delete_level_requirement now ip auth qid db =
     (case auth of
        Inl e \<Rightarrow> (Inl e, db)
      | Inr u \<Rightarrow>
          (case requirement_of qid db of
             None \<Rightarrow> (not_found ''Khong tim thay yeu cau'', db)
           | Some q \<Rightarrow>
               if \<exists>r\<in>set (pd_requirements db). rr_requirement_id r = qid
               then (conflict ''Yeu cau dang duoc dung trong ho so - hay tat bat (is_active=false) thay vi xoa'', db)
               else (Inr (), profile_audit now ''level_requirement.delete'' u (uuid_str qid) ip
                       (db\<lparr>pd_catalog := delete_where (\<lambda>r. lr_id r = qid) (pd_catalog db)\<rparr>))))"

subsection \<open>Officers\<close>

definition officer_out :: "profile_db \<Rightarrow> officer \<Rightarrow> officer \<times> nat" where
  "officer_out db f = (f, length (filter (\<lambda>p. sp_officer_id p = Some (of_id f)) (pd_profiles db)))"

definition list_officers ::
  "http_error + user \<Rightarrow> string option \<Rightarrow> profile_db \<Rightarrow> http_error + (officer \<times> nat) list" where
  "list_officers auth q db =
     (case auth of
        Inl e \<Rightarrow> Inl e
      | Inr u \<Rightarrow>
          Inr (map (officer_out db) (sort_key of_name (filter (\<lambda>f. truthy q \<longrightarrow>
                 (let pattern = ''%'' @ the q @ ''%''
                  in ilike (of_name f) pattern \<or> opt_ilike (of_organization f) pattern \<or> opt_ilike (of_title f) pattern))
                 (pd_officers db)))))"

definition get_officer :: "http_error + user \<Rightarrow> uuid \<Rightarrow> profile_db \<Rightarrow> http_error + officer \<times> nat" where
  "get_officer auth oid db =
     (case auth of
        Inl e \<Rightarrow> Inl e
      | Inr u \<Rightarrow> (case get_officer_row oid db of
                    None \<Rightarrow> not_found ''Khong tim thay can bo'' | Some f \<Rightarrow> Inr (officer_out db f)))"

definition cleaned :: "string option \<Rightarrow> string option" where
  "cleaned v = (case v of None \<Rightarrow> None | Some t \<Rightarrow> if strip t = [] then None else Some (strip t))"

text \<open>\<open>b\<close> holds the fields of the request under the future id. The audit row is written before the row has its id.\<close>

definition create_officer ::
  "time \<Rightarrow> string option \<Rightarrow> http_error + user \<Rightarrow> officer \<Rightarrow> profile_db \<Rightarrow> (http_error + officer \<times> nat) \<times> profile_db" where
  "create_officer now ip auth b db =
     (case auth of
        Inl e \<Rightarrow> (Inl e, db)
      | Inr u \<Rightarrow>
          if strip (of_name b) = [] then (bad_request ''Ten can bo khong duoc de trong'', db)
          else
            (let f = b\<lparr>of_name := strip (of_name b), of_organization := cleaned (of_organization b),
                       of_title := cleaned (of_title b), of_phone := cleaned (of_phone b), of_email := cleaned (of_email b),
                       of_note := cleaned (of_note b), of_created_by := u_id u\<rparr>
             in (Inr (f, 0), profile_audit now ''officer.create'' u (''None:'' @ of_name f) ip
                   (db\<lparr>pd_officers := insert_row f (pd_officers db)\<rparr>))))"

record officer_change =
  oc_name :: "string option option"
  oc_organization :: "string option option"
  oc_title :: "string option option"
  oc_phone :: "string option option"
  oc_email :: "string option option"
  oc_note :: "string option option"

definition changed_officer :: "officer_change \<Rightarrow> officer \<Rightarrow> officer" where
  "changed_officer b f =
     f\<lparr>of_name := (case oc_name b of Some (Some t) \<Rightarrow> strip t | _ \<Rightarrow> of_name f),
       of_organization := or_old (map_option cleaned (oc_organization b)) (of_organization f),
       of_title := or_old (map_option cleaned (oc_title b)) (of_title f),
       of_phone := or_old (map_option cleaned (oc_phone b)) (of_phone f),
       of_email := or_old (map_option cleaned (oc_email b)) (of_email f),
       of_note := or_old (map_option cleaned (oc_note b)) (of_note f)\<rparr>"

definition update_officer ::
  "time \<Rightarrow> string option \<Rightarrow> http_error + user \<Rightarrow> uuid \<Rightarrow> officer_change \<Rightarrow> profile_db \<Rightarrow>
   (http_error + officer \<times> nat) \<times> profile_db" where
  "update_officer now ip auth oid b db =
     (case auth of
        Inl e \<Rightarrow> (Inl e, db)
      | Inr u \<Rightarrow>
          (case get_officer_row oid db of
             None \<Rightarrow> (not_found ''Khong tim thay can bo'', db)
           | Some f \<Rightarrow>
               if (case oc_name b of None \<Rightarrow> False | Some v \<Rightarrow> cleaned v = None)
               then (bad_request ''Ten can bo khong duoc de trong'', db)
               else
                 (let f' = changed_officer b f;
                      db' = profile_audit now ''officer.update'' u (uuid_str oid) ip
                              (db\<lparr>pd_officers := update_where (\<lambda>r. of_id r = oid) (\<lambda>_. f') (pd_officers db)\<rparr>)
                  in (Inr (officer_out db' f'), db'))))"

text \<open>The profiles of the officer lose the reference.\<close>

definition delete_officer ::
  "time \<Rightarrow> string option \<Rightarrow> http_error + user \<Rightarrow> uuid \<Rightarrow> profile_db \<Rightarrow> (http_error + unit) \<times> profile_db" where
  "delete_officer now ip auth oid db =
     (case auth of
        Inl e \<Rightarrow> (Inl e, db)
      | Inr u \<Rightarrow>
          (case get_officer_row oid db of
             None \<Rightarrow> (not_found ''Khong tim thay can bo'', db)
           | Some f \<Rightarrow>
               (Inr (), profile_audit now ''officer.delete'' u (uuid_str oid @ '':'' @ of_name f) ip
                  (db\<lparr>pd_officers := delete_where (\<lambda>r. of_id r = oid) (pd_officers db),
                      pd_profiles := update_where (\<lambda>p. sp_officer_id p = Some oid) (\<lambda>p. p\<lparr>sp_officer_id := None\<rparr>)
                        (pd_profiles db)\<rparr>))))"

subsection \<open>Contacts\<close>

record contact_query =
  cq_org_id :: "uuid option"
  cq_kind :: "string option"
  cq_q :: "string option"

definition contact_out :: "profile_db \<Rightarrow> it_contact \<Rightarrow> it_contact \<times> nat" where
  "contact_out db c = (c, length (filter (\<lambda>l. pl_target_id l = ic_id c) (pd_contacts db)))"

definition list_contacts ::
  "http_error + user \<Rightarrow> contact_query \<Rightarrow> profile_db \<Rightarrow> http_error + (it_contact \<times> nat) list" where
  "list_contacts auth q db =
     (case auth of
        Inl e \<Rightarrow> Inl e
      | Inr u \<Rightarrow>
          (let vis = visible_org_ids (pd_orgs db) u in
           if \<not> is_super_admin u \<and> (case cq_org_id q of None \<Rightarrow> False | Some g \<Rightarrow> g \<notin> vis)
           then Inl (HTTPException 403 ''Don vi ngoai pham vi cua ban'')
           else Inr (map (contact_out db) (sort_key (\<lambda>c. (ic_kind c, ic_name c)) (filter (\<lambda>c.
                  (case cq_org_id q of None \<Rightarrow> is_super_admin u \<or> ic_org_id c \<in> vis | Some g \<Rightarrow> ic_org_id c = g) \<and>
                  (truthy (cq_kind q) \<longrightarrow> ic_kind c = the (cq_kind q)) \<and>
                  (truthy (cq_q q) \<longrightarrow>
                     (let pattern = ''%'' @ the (cq_q q) @ ''%''
                      in ilike (ic_name c) pattern \<or> opt_ilike (ic_contact_person c) pattern)))
                  (pd_directory db))))))"

definition foreign_contact :: "user \<Rightarrow> uuid \<Rightarrow> bool" where
  "foreign_contact u org \<longleftrightarrow> \<not> is_super_admin u \<and> u_org_id u \<noteq> org"

definition create_contact ::
  "time \<Rightarrow> string option \<Rightarrow> http_error + user \<Rightarrow> it_contact \<Rightarrow> profile_db \<Rightarrow> (http_error + it_contact \<times> nat) \<times> profile_db" where
  "create_contact now ip auth b db =
     (case auth of
        Inl e \<Rightarrow> (Inl e, db)
      | Inr u \<Rightarrow>
          if foreign_contact u (ic_org_id b) then (Inl (HTTPException 403 ''Chi them danh ba cho don vi cua ban''), db)
          else if ic_org_id b \<notin> fst ` set (pd_orgs db) then (Inl internal_error, db)
          else
            (let c = b\<lparr>ic_name := strip (ic_name b), ic_created_by := u_id u\<rparr>
             in (Inr (c, 0), profile_audit now ''it_contact.create'' u (uuid_str (ic_org_id b) @ '':'' @ ic_name c) ip
                   (db\<lparr>pd_directory := insert_row c (pd_directory db)\<rparr>))))"

record contact_change =
  cc_name :: "string option option"
  cc_position :: "string option option"
  cc_contact_person :: "string option option"
  cc_phone :: "string option option"
  cc_email :: "string option option"
  cc_address :: "string option option"
  cc_note :: "string option option"

definition changed_contact :: "contact_change \<Rightarrow> it_contact \<Rightarrow> it_contact" where
  "changed_contact b c =
     c\<lparr>ic_name := new_value (cc_name b) (ic_name c), ic_position := or_old (cc_position b) (ic_position c),
       ic_contact_person := or_old (cc_contact_person b) (ic_contact_person c), ic_phone := or_old (cc_phone b) (ic_phone c),
       ic_email := or_old (cc_email b) (ic_email c), ic_address := or_old (cc_address b) (ic_address c),
       ic_note := or_old (cc_note b) (ic_note c)\<rparr>"

definition update_contact ::
  "time \<Rightarrow> string option \<Rightarrow> http_error + user \<Rightarrow> uuid \<Rightarrow> contact_change \<Rightarrow> profile_db \<Rightarrow>
   (http_error + it_contact \<times> nat) \<times> profile_db" where
  "update_contact now ip auth cid b db =
     (case auth of
        Inl e \<Rightarrow> (Inl e, db)
      | Inr u \<Rightarrow>
          (case get_contact cid db of
             None \<Rightarrow> (not_found ''Khong tim thay contact'', db)
           | Some c \<Rightarrow>
               if foreign_contact u (ic_org_id c) then (Inl (HTTPException 403 ''Contact ngoai pham vi cua ban''), db)
               else if cc_name b = Some None then (Inl internal_error, db)
               else
                 (let c' = changed_contact b c;
                      db' = profile_audit now ''it_contact.update'' u (uuid_str cid) ip
                              (db\<lparr>pd_directory := update_where (\<lambda>r. ic_id r = cid) (\<lambda>_. c') (pd_directory db)\<rparr>)
                  in (Inr (contact_out db' c'), db'))))"

text \<open>The links of the contact go with it.\<close>

definition delete_contact ::
  "time \<Rightarrow> string option \<Rightarrow> http_error + user \<Rightarrow> uuid \<Rightarrow> profile_db \<Rightarrow> (http_error + unit) \<times> profile_db" where
  "delete_contact now ip auth cid db =
     (case auth of
        Inl e \<Rightarrow> (Inl e, db)
      | Inr u \<Rightarrow>
          (case get_contact cid db of
             None \<Rightarrow> (not_found ''Khong tim thay contact'', db)
           | Some c \<Rightarrow>
               if foreign_contact u (ic_org_id c) then (Inl (HTTPException 403 ''Contact ngoai pham vi cua ban''), db)
               else (Inr (), profile_audit now ''it_contact.delete'' u (uuid_str (ic_org_id c) @ '':'' @ ic_name c) ip
                       (db\<lparr>pd_directory := delete_where (\<lambda>r. ic_id r = cid) (pd_directory db),
                           pd_contacts := delete_where (\<lambda>l. pl_target_id l = cid) (pd_contacts db)\<rparr>))))"

subsection \<open>Device types\<close>

definition list_device_types :: "http_error + user \<Rightarrow> bool \<Rightarrow> profile_db \<Rightarrow> http_error + device_type list" where
  "list_device_types auth active_only db =
     (case auth of
        Inl e \<Rightarrow> Inl e
      | Inr u \<Rightarrow> Inr (sort_key (\<lambda>d. (dy_sort_order d, dy_code d))
                       (filter (\<lambda>d. active_only \<longrightarrow> dy_is_active d) (pd_device_types db))))"

definition type_code :: "string \<Rightarrow> string" where
  "type_code s = map (\<lambda>c. if c = CHR '' '' then CHR ''_'' else c) (lower (strip s))"

definition create_device_type ::
  "time \<Rightarrow> string option \<Rightarrow> http_error + user \<Rightarrow> device_type \<Rightarrow> profile_db \<Rightarrow> (http_error + device_type) \<times> profile_db" where
  "create_device_type now ip auth b db =
     (case auth of
        Inl e \<Rightarrow> (Inl e, db)
      | Inr u \<Rightarrow>
          (let d = b\<lparr>dy_code := type_code (dy_code b), dy_label := strip (dy_label b)\<rparr>
           in if dy_code d \<in> dy_code ` set (pd_device_types db)
              then (conflict (''Loai thiet bi '' @ dy_code d @ '' da ton tai''), db)
              else (Inr d, profile_audit now ''device_type.create'' u (dy_code d) ip
                      (db\<lparr>pd_device_types := insert_row d (pd_device_types db)\<rparr>))))"

record device_type_change =
  yc_label :: "string option option"
  yc_icon :: "string option option"
  yc_sort_order :: "int option option"
  yc_is_active :: "bool option option"

definition get_device_type :: "uuid \<Rightarrow> profile_db \<Rightarrow> device_type option" where
  "get_device_type tid db = find (\<lambda>d. dy_id d = tid) (pd_device_types db)"

definition update_device_type ::
  "time \<Rightarrow> string option \<Rightarrow> http_error + user \<Rightarrow> uuid \<Rightarrow> device_type_change \<Rightarrow> profile_db \<Rightarrow>
   (http_error + device_type) \<times> profile_db" where
  "update_device_type now ip auth tid b db =
     (case auth of
        Inl e \<Rightarrow> (Inl e, db)
      | Inr u \<Rightarrow>
          (case get_device_type tid db of
             None \<Rightarrow> (not_found ''Khong tim thay loai thiet bi'', db)
           | Some d \<Rightarrow>
               if yc_label b = Some None \<or> yc_sort_order b = Some None \<or> yc_is_active b = Some None
               then (Inl internal_error, db)
               else
                 (let d' = d\<lparr>dy_label := new_value (yc_label b) (dy_label d), dy_icon := or_old (yc_icon b) (dy_icon d),
                             dy_sort_order := new_value (yc_sort_order b) (dy_sort_order d),
                             dy_is_active := new_value (yc_is_active b) (dy_is_active d)\<rparr>
                  in (Inr d', profile_audit now ''device_type.update'' u (uuid_str tid) ip
                        (db\<lparr>pd_device_types := update_where (\<lambda>r. dy_id r = tid) (\<lambda>_. d') (pd_device_types db)\<rparr>)))))"

definition delete_device_type ::
  "time \<Rightarrow> string option \<Rightarrow> http_error + user \<Rightarrow> uuid \<Rightarrow> profile_db \<Rightarrow> (http_error + unit) \<times> profile_db" where
  "delete_device_type now ip auth tid db =
     (case auth of
        Inl e \<Rightarrow> (Inl e, db)
      | Inr u \<Rightarrow>
          (case get_device_type tid db of
             None \<Rightarrow> (not_found ''Khong tim thay loai thiet bi'', db)
           | Some d \<Rightarrow>
               if \<exists>r\<in>set (pd_devices db). di_device_type (pt_body r) = dy_code d
               then (conflict ''Loai thiet bi dang duoc dung trong ho so - hay tat bat (is_active=false) thay vi xoa'', db)
               else (Inr (), profile_audit now ''device_type.delete'' u (uuid_str tid) ip
                       (db\<lparr>pd_device_types := delete_where (\<lambda>r. dy_id r = tid) (pd_device_types db)\<rparr>))))"

end
