(* ===== verification/ProfileEffects.thy ===== *)
theory ProfileEffects
  imports ProfileParts
begin

text \<open>
  The operations of \<open>Profiles\<close> and \<open>ProfileParts\<close> as the steps of one system, and what they do to the rows: every
  operation has one of the few effects of \<open>profile_effect\<close> and \<open>catalog_effect\<close>. \<open>ProfileProps\<close> proves its claims for the
  effects.
\<close>

subsection \<open>The operations\<close>

definition as_role :: "user_role set \<Rightarrow> user \<Rightarrow> http_error + user" where
  "as_role roles u = (if u_role u \<in> roles then Inr u else Inl (HTTPException 403 ''Khong co quyen''))"

abbreviation as_admin :: "user \<Rightarrow> http_error + user" where
  "as_admin \<equiv> as_role admin_roles"

abbreviation as_super :: "user \<Rightarrow> http_error + user" where
  "as_super \<equiv> as_role super_admin_roles"

datatype profile_op =
    Create_profile "uuid \<Rightarrow> uuid" uuid profile_request
  | Update_profile "uuid \<Rightarrow> uuid" uuid profile_change
  | Delete_profile uuid
  | Submit uuid
  | Review uuid profile_review
  | Report uuid "string option"
  | Confirm uuid "string option"
  | Request_requirement uuid uuid string
  | Review_requirement uuid uuid bool "string option"
  | Add_device uuid uuid device_in
  | Update_device uuid uuid device_in
  | Delete_device uuid uuid
  | Attach_machine uuid uuid "string option"
  | Detach_machine uuid uuid
  | Attach_contact uuid uuid "string option"
  | Detach_contact uuid uuid
  | Assign_officer uuid uuid
  | Unassign_officer uuid
  | Add_party uuid uuid party_in
  | Update_party uuid uuid party_in
  | Delete_party uuid uuid
  | Add_application uuid uuid application_in
  | Update_application uuid uuid application_in
  | Delete_application uuid uuid
  | Add_ip_range uuid uuid ip_range_in
  | Update_ip_range uuid uuid ip_range_in
  | Delete_ip_range uuid uuid

datatype catalog_op =
    Create_requirement level_requirement
  | Update_requirement uuid level_requirement_change
  | Delete_requirement uuid
  | Create_officer officer
  | Update_officer uuid officer_change
  | Delete_officer uuid
  | Create_contact it_contact
  | Update_contact uuid contact_change
  | Delete_contact uuid
  | Create_device_type device_type
  | Update_device_type uuid device_type_change
  | Delete_device_type uuid

type_synonym 'o request_of = "time \<times> string option \<times> user \<times> 'o"

fun profile_step :: "profile_op request_of \<Rightarrow> profile_db \<Rightarrow> profile_db" where
  "profile_step (now, ip, u, Create_profile row_id pid b) db = snd (create_profile [] row_id now pid ip (as_admin u) b db)"
| "profile_step (now, ip, u, Update_profile row_id pid b) db = snd (update_profile row_id now ip (as_admin u) pid b db)"
| "profile_step (now, ip, u, Delete_profile pid) db = snd (delete_profile now ip (as_admin u) pid db)"
| "profile_step (now, ip, u, Submit pid) db = snd (submit_profile now ip (as_admin u) pid db)"
| "profile_step (now, ip, u, Review pid b) db = snd (review_profile now ip (as_super u) pid b db)"
| "profile_step (now, ip, u, Report pid note) db = snd (report_implementation now ip (as_admin u) pid note db)"
| "profile_step (now, ip, u, Confirm pid note) db = snd (confirm_implementation now ip (as_super u) pid note db)"
| "profile_step (now, ip, u, Request_requirement pid row ev) db =
     snd (request_requirement_review now ip (as_admin u) pid row ev db)"
| "profile_step (now, ip, u, Review_requirement pid row v note) db =
     snd (review_requirement now ip (as_super u) pid row v note db)"
| "profile_step (now, ip, u, Add_device i pid b) db = snd (add_device now i ip (as_admin u) pid b db)"
| "profile_step (now, ip, u, Update_device pid i b) db = snd (update_device now ip (as_admin u) pid i b db)"
| "profile_step (now, ip, u, Delete_device pid i) db = snd (delete_device now ip (as_admin u) pid i db)"
| "profile_step (now, ip, u, Attach_machine pid i note) db = snd (attach_machine now ip (as_admin u) pid i note db)"
| "profile_step (now, ip, u, Detach_machine pid i) db = snd (detach_machine now ip (as_admin u) pid i db)"
| "profile_step (now, ip, u, Attach_contact pid i note) db = snd (attach_contact now ip (as_admin u) pid i note db)"
| "profile_step (now, ip, u, Detach_contact pid i) db = snd (detach_contact now ip (as_admin u) pid i db)"
| "profile_step (now, ip, u, Assign_officer pid i) db = snd (assign_officer now ip (as_super u) pid i db)"
| "profile_step (now, ip, u, Unassign_officer pid) db = snd (unassign_officer now ip (as_super u) pid db)"
| "profile_step (now, ip, u, Add_party i pid b) db = snd (add_party [] now i ip (as_admin u) pid b db)"
| "profile_step (now, ip, u, Update_party pid i b) db = snd (update_party now ip (as_admin u) pid i b db)"
| "profile_step (now, ip, u, Delete_party pid i) db = snd (delete_party now ip (as_admin u) pid i db)"
| "profile_step (now, ip, u, Add_application i pid b) db = snd (add_application now i ip (as_admin u) pid b db)"
| "profile_step (now, ip, u, Update_application pid i b) db = snd (update_application now ip (as_admin u) pid i b db)"
| "profile_step (now, ip, u, Delete_application pid i) db = snd (delete_application now ip (as_admin u) pid i db)"
| "profile_step (now, ip, u, Add_ip_range i pid b) db = snd (add_ip_range now i ip (as_admin u) pid b db)"
| "profile_step (now, ip, u, Update_ip_range pid i b) db = snd (update_ip_range now ip (as_admin u) pid i b db)"
| "profile_step (now, ip, u, Delete_ip_range pid i) db = snd (delete_ip_range now ip (as_admin u) pid i db)"

fun catalog_step :: "catalog_op request_of \<Rightarrow> profile_db \<Rightarrow> profile_db" where
  "catalog_step (now, ip, u, Create_requirement b) db = snd (create_level_requirement now ip (as_super u) b db)"
| "catalog_step (now, ip, u, Update_requirement i b) db = snd (update_level_requirement now ip (as_super u) i b db)"
| "catalog_step (now, ip, u, Delete_requirement i) db = snd (delete_level_requirement now ip (as_super u) i db)"
| "catalog_step (now, ip, u, Create_officer b) db = snd (create_officer now ip (as_super u) b db)"
| "catalog_step (now, ip, u, Update_officer i b) db = snd (update_officer now ip (as_super u) i b db)"
| "catalog_step (now, ip, u, Delete_officer i) db = snd (delete_officer now ip (as_super u) i db)"
| "catalog_step (now, ip, u, Create_contact b) db = snd (create_contact now ip (as_admin u) b db)"
| "catalog_step (now, ip, u, Update_contact i b) db = snd (update_contact now ip (as_admin u) i b db)"
| "catalog_step (now, ip, u, Delete_contact i) db = snd (delete_contact now ip (as_admin u) i db)"
| "catalog_step (now, ip, u, Create_device_type b) db = snd (create_device_type now ip (as_super u) b db)"
| "catalog_step (now, ip, u, Update_device_type i b) db = snd (update_device_type now ip (as_super u) i b db)"
| "catalog_step (now, ip, u, Delete_device_type i) db = snd (delete_device_type now ip (as_super u) i db)"

type_synonym dossier_event = "profile_op request_of + catalog_op request_of"

fun dossier_step :: "dossier_event \<Rightarrow> profile_db \<Rightarrow> profile_db" where
  "dossier_step (Inl e) db = profile_step e db"
| "dossier_step (Inr e) db = catalog_step e db"

fun event_user :: "dossier_event \<Rightarrow> user" where
  "event_user (Inl e) = fst (snd (snd e))"
| "event_user (Inr e) = fst (snd (snd e))"

text \<open>The permission dependencies are \<open>as_role\<close> after the authentication.\<close>

lemma require_roles_as_role:
  "require_admin x now users cred = (case get_current_user x now users cred of Inl e \<Rightarrow> Inl e | Inr u \<Rightarrow> as_admin u)"
  "require_super_admin x now users cred =
     (case get_current_user x now users cred of
        Inl e \<Rightarrow> Inl e
      | Inr u \<Rightarrow> (case as_super u of Inl _ \<Rightarrow> Inl (HTTPException 403 ''Can quyen Super Admin'') | Inr v \<Rightarrow> Inr v))"
  by (simp_all add: require_admin_def require_super_admin_def require_roles_def as_role_def split: sum.split)

lemma as_role_cases:
  "as_role roles u = Inr v \<Longrightarrow> v = u \<and> u_role u \<in> roles"
  by (simp add: as_role_def split: if_splits)

lemma as_super_Inr: "as_super u = Inr v \<longleftrightarrow> v = u \<and> is_super_admin u"
  by (auto simp: as_role_def is_super_admin_def)

subsection \<open>Effects\<close>

text \<open>The state without the timelines and the audit log.\<close>

definition core :: "profile_db \<Rightarrow> profile_db" where
  "core db = db\<lparr>pd_events := [], pd_log := []\<rparr>"

lemma core_simps [simp]:
  "core (log_event now pid ev msg u db) = core db" "core (profile_audit now a u t ip db) = core db"
  "core (logged now ip u pid ev msg a t db) = core db" "core (core db) = core db"
  by (simp_all add: core_def log_event_def profile_audit_def logged_def)

lemma core_sel:
  "pd_profiles (core db) = pd_profiles db" "pd_devices (core db) = pd_devices db" "pd_parties (core db) = pd_parties db"
  "pd_applications (core db) = pd_applications db" "pd_ip_ranges (core db) = pd_ip_ranges db"
  "pd_machines (core db) = pd_machines db" "pd_contacts (core db) = pd_contacts db"
  "pd_requirements (core db) = pd_requirements db" "pd_catalog (core db) = pd_catalog db"
  "pd_device_types (core db) = pd_device_types db" "pd_officers (core db) = pd_officers db"
  "pd_directory (core db) = pd_directory db" "pd_fleet (core db) = pd_fleet db" "pd_orgs (core db) = pd_orgs db"
  by (simp_all add: core_def)

definition rows_change :: "uuid \<Rightarrow> ('r \<Rightarrow> uuid) \<Rightarrow> ('r \<Rightarrow> bool) \<Rightarrow> 'r list \<Rightarrow> 'r list \<Rightarrow> bool" where
  "rows_change pid key good rows rows' \<longleftrightarrow>
     filter (\<lambda>r. key r \<noteq> pid) rows' = filter (\<lambda>r. key r \<noteq> pid) rows \<and>
     (\<forall>r\<in>set rows'. r \<in> set rows \<or> key r = pid \<and> good r)"

lemma rows_change_refl [simp]: "rows_change pid key good rows rows"
  by (simp add: rows_change_def)

lemma rows_change_part [simp]:
  "rows_change pid pt_profile_id good rows (add_part i pid b rows) \<longleftrightarrow>
     \<lparr>pt_id = i, pt_profile_id = pid, pt_body = b\<rparr> \<in> set rows \<or> good \<lparr>pt_id = i, pt_profile_id = pid, pt_body = b\<rparr>"
  "rows_change pid pt_profile_id good rows (drop_part i pid rows)"
  by (auto simp: rows_change_def add_part_def insert_row_def drop_part_def intro: filter_delete_where)

lemma rows_change_set_part:
  "(\<And>r. pt_body r = b \<Longrightarrow> good r) \<Longrightarrow> rows_change pid pt_profile_id good rows (set_part i pid b rows)"
  by (auto simp: rows_change_def set_part_def intro!: filter_update_where)

lemma rows_change_link:
  "good \<lparr>pl_profile_id = pid, pl_target_id = t, pl_note = n\<rparr> \<Longrightarrow>
     rows_change pid pl_profile_id good rows (add_link pid t n rows)"
  "rows_change pid pl_profile_id good rows (drop_link pid t rows)"
  by (auto simp: rows_change_def add_link_def insert_row_def drop_link_def intro: filter_delete_where)

text \<open>A machine, or contact, of the profile's organisation.\<close>

definition local_machine :: "profile_db \<Rightarrow> uuid \<Rightarrow> uuid option \<Rightarrow> bool" where
  "local_machine db org mid \<longleftrightarrow>
     (case mid of None \<Rightarrow> True
      | Some i \<Rightarrow> (case find (\<lambda>m. m_id m = i) (pd_fleet db) of None \<Rightarrow> False | Some m \<Rightarrow> m_org_id m = org))"

definition local_contact :: "profile_db \<Rightarrow> uuid \<Rightarrow> uuid \<Rightarrow> bool" where
  "local_contact db org cid \<longleftrightarrow> (case get_contact cid db of None \<Rightarrow> False | Some c \<Rightarrow> ic_org_id c = org)"

lemma validate_machine_None: "validate_machine mid p db = None \<longleftrightarrow> local_machine db (sp_org_id p) mid"
  by (simp add: validate_machine_def local_machine_def split: option.split)

text \<open>A change of the contents of one profile, with what may be referred to.\<close>

definition content_change :: "system_profile \<Rightarrow> profile_db \<Rightarrow> profile_db \<Rightarrow> bool" where
  "content_change p db db' \<longleftrightarrow>
     core db' = (core db)\<lparr>pd_devices := pd_devices db', pd_parties := pd_parties db', pd_applications := pd_applications db',
        pd_ip_ranges := pd_ip_ranges db', pd_machines := pd_machines db', pd_contacts := pd_contacts db'\<rparr> \<and>
     rows_change (sp_id p) pt_profile_id (\<lambda>r. local_machine db (sp_org_id p) (di_machine_id (pt_body r)))
       (pd_devices db) (pd_devices db') \<and>
     rows_change (sp_id p) pt_profile_id (\<lambda>r. True) (pd_parties db) (pd_parties db') \<and>
     rows_change (sp_id p) pt_profile_id (\<lambda>r. local_machine db (sp_org_id p) (ai_machine_id (pt_body r)))
       (pd_applications db) (pd_applications db') \<and>
     rows_change (sp_id p) pt_profile_id (\<lambda>r. True) (pd_ip_ranges db) (pd_ip_ranges db') \<and>
     rows_change (sp_id p) pl_profile_id (\<lambda>l. local_machine db (sp_org_id p) (Some (pl_target_id l)))
       (pd_machines db) (pd_machines db') \<and>
     rows_change (sp_id p) pl_profile_id (\<lambda>l. local_contact db (sp_org_id p) (pl_target_id l))
       (pd_contacts db) (pd_contacts db')"

text \<open>The approval workflow as documented at the head of \<open>system_profiles.py\<close>; the flag is the role.\<close>

inductive workflow_edge :: "bool \<Rightarrow> profile_status \<Rightarrow> profile_status \<Rightarrow> bool" where
  submit_draft: "workflow_edge super SP_DRAFTED SP_PENDING_REVIEW"
| submit_again: "workflow_edge super SP_REJECTED SP_PENDING_REVIEW"
| approve: "workflow_edge True SP_PENDING_REVIEW SP_APPROVED"
| reject: "workflow_edge True SP_PENDING_REVIEW SP_REJECTED"
| reopen: "workflow_edge super SP_REJECTED SP_DRAFTED"
| report: "workflow_edge super SP_APPROVED SP_IMPLEMENTED"
| confirm: "workflow_edge True SP_IMPLEMENTED SP_FULFILLED"

inductive_cases workflow_edgeE: "workflow_edge super s t"

definition edge_or_same :: "user \<Rightarrow> system_profile \<Rightarrow> system_profile \<Rightarrow> bool" where
  "edge_or_same u p p' \<longleftrightarrow> sp_status p' = sp_status p \<or> workflow_edge (is_super_admin u) (sp_status p) (sp_status p')"

text \<open>What the approval covers, beside the contents.\<close>

definition decision_of :: "system_profile \<Rightarrow> string option \<times> time option \<times> string option \<times> uuid option" where
  "decision_of p = (sp_decision_number p, sp_decision_date p, sp_decision_agency p, sp_officer_id p)"

definition described :: "system_profile \<Rightarrow> uuid \<times> string \<times> string \<times> int \<times> uuid" where
  "described p = (sp_org_id p, sp_code p, sp_name p, sp_level p, sp_created_by p)"

definition row_change :: "user \<Rightarrow> profile_db \<Rightarrow> system_profile \<Rightarrow> system_profile \<Rightarrow> bool" where
  "row_change u db p p' \<longleftrightarrow>
     sp_id p' = sp_id p \<and> described p' = described p \<and> sp_content p' = sp_content p \<and> edge_or_same u p p' \<and>
     (is_super_admin u \<or> decision_of p' = decision_of p) \<and>
     (sp_status p \<noteq> SP_PENDING_REVIEW \<longrightarrow> sp_decision_number p' = sp_decision_number p) \<and>
     (sp_status p' = SP_APPROVED \<and> sp_status p \<noteq> SP_APPROVED \<longrightarrow> sp_decision_number p' \<noteq> None) \<and>
     (sp_status p' = SP_IMPLEMENTED \<and> sp_status p \<noteq> SP_IMPLEMENTED \<longrightarrow> all_verified (sp_id p) db)"

definition requirement_change :: "user \<Rightarrow> requirement_row \<Rightarrow> requirement_row \<Rightarrow> bool" where
  "requirement_change u r r' \<longleftrightarrow>
     rr_id r' = rr_id r \<and> rr_profile_id r' = rr_profile_id r \<and> rr_requirement_id r' = rr_requirement_id r \<and>
     (rr_status r \<in> {RQ_PENDING, RQ_REJECTED} \<and> rr_status r' = RQ_REQUESTED \<or>
      is_super_admin u \<and> rr_status r = RQ_REQUESTED \<and> rr_status r' \<in> {RQ_VERIFIED, RQ_REJECTED})"

definition edit_refused :: "user \<Rightarrow> system_profile \<Rightarrow> profile_change \<Rightarrow> bool" where
  "edit_refused u p b \<longleftrightarrow>
     sp_status p \<in> frozen_statuses \<and> \<not> is_super_admin u \<and>
     (pc_name b \<noteq> None \<or> pc_level b \<noteq> None \<or> (\<exists>(k, v)\<in>set (pc_content b). k \<notin> layout_fields))"

inductive profile_effect :: "uuid set \<Rightarrow> user \<Rightarrow> profile_db \<Rightarrow> profile_db \<Rightarrow> bool" for N u db where
  idle: "core db' = core db \<Longrightarrow> profile_effect N u db db'"
| content: "get_profile_mutable pid u db = Inr p \<Longrightarrow> assert_profile_content_mutable p u = None \<Longrightarrow> content_change p db db' \<Longrightarrow>
    profile_effect N u db db'"
| row: "get_profile_mutable pid u db = Inr p \<Longrightarrow> row_change u db p p' \<Longrightarrow> core db' = core (put_profile p' db) \<Longrightarrow>
    profile_effect N u db db'"
| edited: "get_profile_mutable pid u db = Inr p \<Longrightarrow> \<not> edit_refused u p b \<Longrightarrow> p' = reopened (changed_profile b p) \<Longrightarrow>
    core db' = core (if level_changes b p then sync_profile_requirements row_id pid (sp_level p') (put_profile p' db)
                     else put_profile p' db) \<Longrightarrow>
    profile_effect N u db db'"
| requirement: "get_profile_mutable pid u db = Inr p \<Longrightarrow> get_requirement_row i pid db = Some r \<Longrightarrow> requirement_change u r r' \<Longrightarrow>
    core db' = core (put_requirement_row r' db) \<Longrightarrow> profile_effect N u db db'"
| created: "sp_id p \<in> N \<Longrightarrow> is_super_admin u \<or> sp_org_id p = u_org_id u \<Longrightarrow>
    sp_status p = SP_DRAFTED \<or> is_super_admin u \<and> sp_status p = SP_APPROVED \<and> sp_decision_number p \<noteq> None \<Longrightarrow>
    core db' = core (sync_profile_requirements row_id (sp_id p) (sp_level p) (db\<lparr>pd_profiles := insert_row p (pd_profiles db)\<rparr>)) \<Longrightarrow>
    profile_effect N u db db'"
| deleted: "get_profile_mutable pid u db = Inr p \<Longrightarrow> is_super_admin u \<or> sp_status p \<in> {SP_DRAFTED, SP_REJECTED} \<Longrightarrow>
    core db' = core (forget_profile pid db) \<Longrightarrow> profile_effect N u db db'"

subsection \<open>Every operation has one of the effects\<close>

lemma mutableD:
  assumes "get_profile_mutable pid u db = Inr p"
  shows "get_profile_row pid db = Some p" "p \<in> set (pd_profiles db)" "sp_id p = pid"
    "is_super_admin u \<or> sp_org_id p = u_org_id u"
proof -
  show row: "get_profile_row pid db = Some p"
    using assms by (auto simp: get_profile_mutable_def get_profile_scoped_def split: option.splits sum.splits if_splits)
  then show "p \<in> set (pd_profiles db)" "sp_id p = pid"
    by (auto simp: get_profile_row_def dest: find_SomeD)
  show "is_super_admin u \<or> sp_org_id p = u_org_id u"
    using assms by (auto simp: get_profile_mutable_def split: sum.splits if_splits)
qed

lemma snd_answer [simp]: "snd (answer u pid db) = db" "snd (answer_content u pid db) = db"
  by (auto simp: answer_def answer_content_def on_content_def on_profile_def split: sum.split option.split)

lemma effect_refl [simp]: "profile_effect N u db db"
  by (rule idle) simp

lemma core_cong:
  assumes "core db1 = core db2"
  shows "pd_devices db1 = pd_devices db2" "pd_parties db1 = pd_parties db2" "pd_applications db1 = pd_applications db2"
    "pd_ip_ranges db1 = pd_ip_ranges db2" "pd_machines db1 = pd_machines db2" "pd_contacts db1 = pd_contacts db2"
    "pd_profiles db1 = pd_profiles db2" "pd_requirements db1 = pd_requirements db2" "pd_catalog db1 = pd_catalog db2"
    "pd_directory db1 = pd_directory db2" "pd_fleet db1 = pd_fleet db2" "pd_orgs db1 = pd_orgs db2"
    "pd_officers db1 = pd_officers db2"
  using assms core_sel by metis+

lemma effect_core:
  assumes "core db1 = core db2" and "profile_effect N u db db2"
  shows "profile_effect N u db db1"
  using assms(2)
proof cases
  case (content pid p)
  from content(3) have "content_change p db db1" by (simp add: content_change_def assms(1) core_cong [OF assms(1)])
  then show ?thesis by (rule profile_effect.content [OF content(1,2)])
qed (use assms(1) in \<open>simp_all add: profile_effect.intros\<close>)

lemma effect_logs [simp]:
  "profile_effect N u db (logged now ip v pid ev msg a t db') = profile_effect N u db db'"
  "profile_effect N u db (profile_audit now a v t ip db') = profile_effect N u db db'"
  "profile_effect N u db (log_event now pid ev msg v db') = profile_effect N u db db'"
  by (rule iffI; erule effect_core [rotated]; simp)+

lemma row_put: "get_profile_mutable pid u db = Inr p \<Longrightarrow> row_change u db p p' \<Longrightarrow> profile_effect N u db (put_profile p' db)"
  by (rule row) simp_all

lemma on_profile_effect:
  assumes "\<And>p. u_role u \<in> roles \<Longrightarrow> get_profile_mutable pid u db = Inr p \<Longrightarrow> profile_effect N u db (snd (k u p))"
  shows "profile_effect N u db (snd (on_profile (as_role roles u) pid db k))"
  using assms by (auto simp: on_profile_def as_role_def split: sum.split)

lemma on_content_effect:
  assumes "\<And>p. get_profile_mutable pid u db = Inr p \<Longrightarrow> assert_profile_content_mutable p u = None \<Longrightarrow>
      profile_effect N u db (snd (k u p))"
  shows "profile_effect N u db (snd (on_content (as_role roles u) pid db k))"
  unfolding on_content_def using assms by (intro on_profile_effect) (auto split: option.split)

lemma content_change_single:
  "rows_change (sp_id p) pt_profile_id (\<lambda>r. local_machine db (sp_org_id p) (di_machine_id (pt_body r))) (pd_devices db) ds \<Longrightarrow>
     content_change p db (db\<lparr>pd_devices := ds\<rparr>)"
  "rows_change (sp_id p) pt_profile_id (\<lambda>r. True) (pd_parties db) ps \<Longrightarrow> content_change p db (db\<lparr>pd_parties := ps\<rparr>)"
  "rows_change (sp_id p) pt_profile_id (\<lambda>r. local_machine db (sp_org_id p) (ai_machine_id (pt_body r))) (pd_applications db) as \<Longrightarrow>
     content_change p db (db\<lparr>pd_applications := as\<rparr>)"
  "rows_change (sp_id p) pt_profile_id (\<lambda>r. True) (pd_ip_ranges db) rs \<Longrightarrow> content_change p db (db\<lparr>pd_ip_ranges := rs\<rparr>)"
  "rows_change (sp_id p) pl_profile_id (\<lambda>l. local_machine db (sp_org_id p) (Some (pl_target_id l))) (pd_machines db) ms \<Longrightarrow>
     content_change p db (db\<lparr>pd_machines := ms\<rparr>)"
  "rows_change (sp_id p) pl_profile_id (\<lambda>l. local_contact db (sp_org_id p) (pl_target_id l)) (pd_contacts db) cs \<Longrightarrow>
     content_change p db (db\<lparr>pd_contacts := cs\<rparr>)"
  by (simp_all add: content_change_def core_def)

lemma content_change_logged [simp]:
  "content_change p db (logged now ip u pid ev msg a t db') = content_change p db db'"
  by (simp add: content_change_def) (simp add: logged_def log_event_def profile_audit_def)

lemmas content_steps = content_change_single rows_change_set_part rows_change_link validate_machine_None

lemma find_partD: "find_part i pid rows = Some r \<Longrightarrow> r \<in> set rows \<and> pt_profile_id r = pid"
  unfolding find_part_def by (drule find_SomeD) simp

lemma device_effects:
  "profile_effect N u db (snd (add_device now i ip (as_role roles u) pid b db))"
  "profile_effect N u db (snd (update_device now ip (as_role roles u) pid i b db))"
  "profile_effect N u db (snd (delete_device now ip (as_role roles u) pid i db))"
  unfolding add_device_def update_device_def delete_device_def
  by (rule on_content_effect;
      auto simp: Let_def content_steps mutableD(3) intro!: profile_effect.content split: option.split)+

lemma link_effects:
  "profile_effect N u db (snd (attach_machine now ip (as_role roles u) pid i note db))"
  "profile_effect N u db (snd (detach_machine now ip (as_role roles u) pid i db))"
  "profile_effect N u db (snd (attach_contact now ip (as_role roles u) pid i note db))"
  "profile_effect N u db (snd (detach_contact now ip (as_role roles u) pid i db))"
  unfolding attach_machine_def detach_machine_def attach_contact_def detach_contact_def
  by (rule on_content_effect;
      auto simp: Let_def content_steps local_contact_def mutableD(3) intro!: profile_effect.content split: option.split)+

lemma party_effects:
  "profile_effect N u db (snd (add_party [] now i ip (as_role roles u) pid b db))"
  "profile_effect N u db (snd (update_party now ip (as_role roles u) pid i b db))"
  "profile_effect N u db (snd (delete_party now ip (as_role roles u) pid i db))"
  unfolding add_party_def update_party_def delete_party_def
  by (rule on_content_effect;
      auto simp: Let_def content_steps mutableD(3) intro!: profile_effect.content split: option.split)+

lemma application_effects:
  "profile_effect N u db (snd (add_application now i ip (as_role roles u) pid b db))"
  "profile_effect N u db (snd (update_application now ip (as_role roles u) pid i b db))"
  "profile_effect N u db (snd (delete_application now ip (as_role roles u) pid i db))"
  unfolding add_application_def update_application_def delete_application_def
  by (rule on_content_effect;
      auto simp: Let_def content_steps mutableD(3) intro!: profile_effect.content split: option.split)+

lemma checked_range_cases:
  "checked_range (as_role roles u) b = as_role roles u \<or> (\<exists>e. checked_range (as_role roles u) b = Inl e)"
  by (simp add: checked_range_def as_role_def)

lemma on_content_Inl: "snd (on_content (Inl e) pid db k) = db"
  by (simp add: on_content_def on_profile_def)

lemma checked_range_effect:
  assumes "\<And>p. get_profile_mutable pid u db = Inr p \<Longrightarrow> assert_profile_content_mutable p u = None \<Longrightarrow>
      profile_effect N u db (snd (k u p))"
  shows "profile_effect N u db (snd (on_content (checked_range (as_role roles u) b) pid db k))"
proof -
  have "profile_effect N u db (snd (on_content (as_role roles u) pid db k))" by (rule on_content_effect) (rule assms)
  then show ?thesis using checked_range_cases [of roles u b] by (auto simp: on_content_Inl)
qed

lemma ip_range_effects:
  "profile_effect N u db (snd (add_ip_range now i ip (as_role roles u) pid b db))"
  "profile_effect N u db (snd (update_ip_range now ip (as_role roles u) pid i b db))"
  "profile_effect N u db (snd (delete_ip_range now ip (as_role roles u) pid i db))"
  unfolding add_ip_range_def update_ip_range_def delete_ip_range_def
  by (rule checked_range_effect on_content_effect;
      auto simp: Let_def content_steps mutableD(3) intro!: profile_effect.content split: option.split)+

lemmas content_effects = device_effects link_effects party_effects application_effects ip_range_effects

text \<open>The workflow.\<close>

lemmas row_change_defs = row_change_def described_def edge_or_same_def decision_of_def

lemma all_verified_count:
  "\<not> (profile_requirements pid db = [] \<or> verified_count pid db < length (profile_requirements pid db)) \<longleftrightarrow> all_verified pid db"
proof -
  have "verified_count pid db < length (profile_requirements pid db) \<longleftrightarrow>
      (\<exists>r\<in>set (profile_requirements pid db). rr_status r \<noteq> RQ_VERIFIED)"
    unfolding verified_count_def using length_filter_less
    by (metis (mono_tags, lifting) filter_True less_irrefl)
  then show ?thesis by (auto simp: all_verified_def)
qed

lemma workflow_effects:
  "profile_effect N u db (snd (submit_profile now ip (as_role roles u) pid db))"
  "profile_effect N u db (snd (review_profile now ip (as_super u) pid rv db))"
  "profile_effect N u db (snd (confirm_implementation now ip (as_super u) pid note db))"
proof -
  show "profile_effect N u db (snd (submit_profile now ip (as_role roles u) pid db))"
    unfolding submit_profile_def
    by (rule on_profile_effect)
      (auto simp: Let_def row_change_defs intro!: row_put workflow_edge.intros)
  show "profile_effect N u db (snd (review_profile now ip (as_super u) pid rv db))"
    unfolding review_profile_def
    by (rule on_profile_effect)
      (auto simp: Let_def row_change_defs is_super_admin_def intro!: row_put workflow_edge.intros)
  show "profile_effect N u db (snd (confirm_implementation now ip (as_super u) pid note db))"
    unfolding confirm_implementation_def
    by (rule on_profile_effect)
      (auto simp: Let_def row_change_defs is_super_admin_def intro!: row_put workflow_edge.intros)
qed

lemma report_effect:
  "profile_effect N u db (snd (report_implementation now ip (as_role roles u) pid note db))"
  unfolding report_implementation_def
  by (rule on_profile_effect)
    (use all_verified_count [of pid db] in
      \<open>auto simp: Let_def row_change_defs mutableD(3) intro!: row_put workflow_edge.intros\<close>)

lemma officer_effects:
  "profile_effect N u db (snd (assign_officer now ip (as_super u) pid i db))"
  "profile_effect N u db (snd (unassign_officer now ip (as_super u) pid db))"
  unfolding assign_officer_def unassign_officer_def
  by (rule on_profile_effect;
      auto simp: row_change_defs is_super_admin_def split: option.split intro!: row_put)+

text \<open>Requirements, creation, change, deletion.\<close>

lemma get_requirement_rowD:
  "get_requirement_row i pid db = Some r \<Longrightarrow> r \<in> set (pd_requirements db) \<and> rr_id r = i \<and> rr_profile_id r = pid"
  unfolding get_requirement_row_def by (drule find_SomeD) simp

lemma requirement_put:
  "get_profile_mutable pid u db = Inr p \<Longrightarrow> get_requirement_row i pid db = Some r \<Longrightarrow> requirement_change u r r' \<Longrightarrow>
     profile_effect N u db (put_requirement_row r' db)"
  by (rule requirement) simp_all

lemma other_requirement_status: "s \<noteq> RQ_REQUESTED \<Longrightarrow> s \<noteq> RQ_VERIFIED \<Longrightarrow> s = RQ_PENDING \<or> s = RQ_REJECTED"
  by (cases s) simp_all

lemma requirement_effects:
  "profile_effect N u db (snd (request_requirement_review now ip (as_role roles u) pid i ev db))"
  "profile_effect N u db (snd (review_requirement now ip (as_super u) pid i v note db))"
  unfolding request_requirement_review_def review_requirement_def
  by (rule on_profile_effect;
      auto simp: Let_def requirement_change_def is_super_admin_def split: option.split intro!: requirement_put
        dest: other_requirement_status)+

lemma core_update:
  "core (put_profile p db) = put_profile p (core db)"
  "core (sync_profile_requirements row_id pid l db) = sync_profile_requirements row_id pid l (core db)"
  "core (forget_profile pid db) = forget_profile pid (core db)"
  "core (put_requirement_row r db) = put_requirement_row r (core db)"
  by (simp_all add: core_def put_profile_def sync_profile_requirements_def level_catalog_def profile_requirements_def
      Let_def forget_profile_def put_requirement_row_def delete_where_def)

lemma core_update_events [simp]: "core (update_events now u p b db) = core db"
  by (simp add: update_events_def Let_def split: option.split)

lemma update_profile_effect:
  "profile_effect N u db (snd (update_profile row_id now ip (as_role roles u) pid b db))"
  unfolding update_profile_def
proof (rule on_profile_effect)
  fix p
  assume p: "get_profile_mutable pid u db = Inr p"
  note id = mutableD(3) [OF p]
  show "profile_effect N u db (snd (if sp_status p \<in> frozen_statuses \<and> \<not> is_super_admin u \<and>
          (pc_name b \<noteq> None \<or> pc_level b \<noteq> None \<or> (\<exists>(k, v)\<in>set (pc_content b). k \<notin> layout_fields))
       then (Inl (HTTPException 400 ''Ho so da duoc phe duyet''), db)
       else if \<exists>(k, v)\<in>set (pc_content b). k = ''service_audience'' \<and> v \<notin> JStr ` service_audiences
       then (Inl (HTTPException 400 ''service_audience khong hop le''), db)
       else
         (let p' = reopened (changed_profile b p);
              db1 = profile_audit now ''system_profile.update'' u (uuid_str pid) ip
                      (update_events now u p b (put_profile p' db));
              db2 = (if level_changes b p then sync_profile_requirements row_id pid (sp_level p') db1 else db1)
          in (Inr (to_detail p' db2), db2))))"
    by (subst (1) if_split, intro conjI impI; simp add: edit_refused_def [symmetric])
      (auto simp: Let_def core_update edit_refused_def intro!: edited [OF p _ refl, where row_id = row_id])
qed

lemma new_profile_sel:
  "sp_id (new_profile now pid u b c) = pid" "sp_level (new_profile now pid u b c) = pr_level b"
  "sp_org_id (new_profile now pid u b c) = pr_org_id b" "sp_code (new_profile now pid u b c) = c"
  by (simp_all add: new_profile_def Let_def)

lemma insert_once:
  "insert_with_unique_code n [] now mk ps = (v, ps') \<Longrightarrow>
     v = None \<and> ps' = ps \<or> (\<exists>c. v = Some (mk c) \<and> ps' = insert_row (mk c) ps)"
  by (induction n) (auto simp: Let_def split: if_splits)

lemma create_profile_effect:
  "profile_effect {pid} u db (snd (create_profile [] row_id now pid ip (as_role roles u) b db))"
proof -
  obtain v ps where ins: "insert_with_unique_code max_attempts [] now (new_profile now pid u b) (pd_profiles db) = (v, ps)"
    by (cases "insert_with_unique_code max_attempts [] now (new_profile now pid u b) (pd_profiles db)")
  from insert_once [OF ins] show ?thesis
  proof
    assume "v = None \<and> ps = pd_profiles db"
    with ins show ?thesis by (auto simp: create_profile_def as_role_def core_def intro!: idle split: sum.split)
  next
    assume "\<exists>c. v = Some (new_profile now pid u b c) \<and> ps = insert_row (new_profile now pid u b c) (pd_profiles db)"
    then obtain c where v: "v = Some (new_profile now pid u b c)" "ps = insert_row (new_profile now pid u b c) (pd_profiles db)"
      by blast
    have status: "sp_status (new_profile now pid u b c) = SP_DRAFTED \<or> is_super_admin u \<and>
        sp_status (new_profile now pid u b c) = SP_APPROVED \<and> sp_decision_number (new_profile now pid u b c) \<noteq> None"
      by (cases "pr_decision_number b") (auto simp: new_profile_def Let_def approved_directly_def)
    show ?thesis
      by (auto simp: create_profile_def as_role_def ins v Let_def core_update new_profile_sel split: sum.split
          intro!: created [OF _ _ status, where row_id = row_id])
  qed
qed

lemma delete_profile_effect:
  "profile_effect N u db (snd (delete_profile now ip (as_role roles u) pid db))"
  unfolding delete_profile_def by (rule on_content_effect) (auto simp: core_update intro!: deleted)

text \<open>The ids a request brings for new profiles.\<close>

fun new_ids :: "profile_op \<Rightarrow> uuid set" where
  "new_ids (Create_profile row_id pid b) = {pid}"
| "new_ids _ = {}"

theorem profile_step_effect: "profile_effect (new_ids op) u db (profile_step (now, ip, u, op) db)"
  by (cases op)
    (simp_all add: content_effects workflow_effects report_effect officer_effects requirement_effects update_profile_effect
      create_profile_effect delete_profile_effect)

subsection \<open>The catalogues\<close>

definition keeps_contacts :: "it_contact list \<Rightarrow> it_contact list \<Rightarrow> bool" where
  "keeps_contacts cs cs' \<longleftrightarrow>
     (\<forall>i c. find (\<lambda>c. ic_id c = i) cs = Some c \<longrightarrow>
        (\<exists>c'. find (\<lambda>c. ic_id c = i) cs' = Some c' \<and> ic_org_id c' = ic_org_id c))"

inductive catalog_effect :: "user \<Rightarrow> profile_db \<Rightarrow> profile_db \<Rightarrow> bool" for u db where
  catalog_idle: "core db' = core db \<Longrightarrow> catalog_effect u db db'"
| catalog: "is_super_admin u \<Longrightarrow>
    core db' = (core db)\<lparr>pd_catalog := qs, pd_officers := fs, pd_device_types := ds\<rparr> \<Longrightarrow> catalog_effect u db db'"
| officer_gone: "is_super_admin u \<Longrightarrow>
    core db' = (core db)\<lparr>pd_officers := fs, pd_profiles := update_where (\<lambda>p. sp_officer_id p = Some oid)
      (\<lambda>p. p\<lparr>sp_officer_id := None\<rparr>) (pd_profiles db)\<rparr> \<Longrightarrow> catalog_effect u db db'"
| directory: "keeps_contacts (pd_directory db) cs \<Longrightarrow> core db' = (core db)\<lparr>pd_directory := cs\<rparr> \<Longrightarrow> catalog_effect u db db'"
| contact_gone: "get_contact cid db = Some c \<Longrightarrow> is_super_admin u \<or> ic_org_id c = u_org_id u \<Longrightarrow>
    core db' = (core db)\<lparr>pd_directory := delete_where (\<lambda>r. ic_id r = cid) (pd_directory db),
      pd_contacts := delete_where (\<lambda>l. pl_target_id l = cid) (pd_contacts db)\<rparr> \<Longrightarrow> catalog_effect u db db'"

lemma catalog_refl [simp]: "catalog_effect u db db"
  by (rule catalog_idle) simp

lemma catalog_audit [simp]: "catalog_effect u db (profile_audit now a v t ip db') = catalog_effect u db db'"
  by (simp add: catalog_effect.simps)

lemma officer_gone_put:
  "is_super_admin u \<Longrightarrow> catalog_effect u db (db\<lparr>pd_officers := fs, pd_profiles := update_where (\<lambda>p. sp_officer_id p = Some oid)
      (\<lambda>p. p\<lparr>sp_officer_id := None\<rparr>) (pd_profiles db)\<rparr>)"
  by (rule officer_gone [where fs = fs and oid = oid]) (simp_all add: core_def)

lemma directory_put: "keeps_contacts (pd_directory db) cs \<Longrightarrow> catalog_effect u db (db\<lparr>pd_directory := cs\<rparr>)"
  by (rule directory [where cs = cs]) (simp_all add: core_def)

lemma as_super_is: "as_super u = Inr v \<Longrightarrow> v = u \<and> is_super_admin u"
  by (simp add: as_super_Inr)

lemma core_catalog:
  "core (db\<lparr>pd_catalog := qs\<rparr>) = (core db)\<lparr>pd_catalog := qs, pd_officers := pd_officers db, pd_device_types := pd_device_types db\<rparr>"
  "core (db\<lparr>pd_officers := fs\<rparr>) = (core db)\<lparr>pd_catalog := pd_catalog db, pd_officers := fs, pd_device_types := pd_device_types db\<rparr>"
  "core (db\<lparr>pd_device_types := ds\<rparr>) = (core db)\<lparr>pd_catalog := pd_catalog db, pd_officers := pd_officers db, pd_device_types := ds\<rparr>"
  by (simp_all add: core_def)

lemma requirement_catalog_effects:
  "catalog_effect u db (snd (create_level_requirement now ip (as_super u) b db))"
  "catalog_effect u db (snd (update_level_requirement now ip (as_super u) i b' db))"
  "catalog_effect u db (snd (delete_level_requirement now ip (as_super u) i db))"
  unfolding create_level_requirement_def update_level_requirement_def delete_level_requirement_def
  by (auto simp: Let_def core_catalog dest!: as_super_is intro!: catalog split: sum.split option.split)

lemma officer_catalog_effects:
  "catalog_effect u db (snd (create_officer now ip (as_super u) f db))"
  "catalog_effect u db (snd (update_officer now ip (as_super u) i f' db))"
  "catalog_effect u db (snd (delete_officer now ip (as_super u) i db))"
proof -
  show "catalog_effect u db (snd (create_officer now ip (as_super u) f db))"
    unfolding create_officer_def
    by (auto simp: Let_def core_catalog dest!: as_super_is intro!: catalog split: sum.split option.split)
  show "catalog_effect u db (snd (update_officer now ip (as_super u) i f' db))"
    unfolding update_officer_def
    by (auto simp: Let_def core_catalog dest!: as_super_is intro!: catalog split: sum.split option.split)
  show "catalog_effect u db (snd (delete_officer now ip (as_super u) i db))"
    unfolding delete_officer_def
    by (auto dest!: as_super_is intro!: officer_gone_put split: sum.split option.split)
qed

lemma type_catalog_effects:
  "catalog_effect u db (snd (create_device_type now ip (as_super u) d db))"
  "catalog_effect u db (snd (update_device_type now ip (as_super u) i d' db))"
  "catalog_effect u db (snd (delete_device_type now ip (as_super u) i db))"
  unfolding create_device_type_def update_device_type_def delete_device_type_def
  by (auto simp: Let_def core_catalog dest!: as_super_is intro!: catalog split: sum.split option.split)

lemma keeps_contacts_insert: "keeps_contacts cs (insert_row c cs)"
  by (simp add: keeps_contacts_def insert_row_def find_append)

lemma keeps_contacts_update:
  assumes "find (\<lambda>c. ic_id c = i) cs = Some c" "ic_id c' = i" "ic_org_id c' = ic_org_id c"
  shows "keeps_contacts cs (update_where (\<lambda>r. ic_id r = i) (\<lambda>_. c') cs)"
proof -
  have "find (\<lambda>c. ic_id c = i) (update_where (\<lambda>r. ic_id r = i) (\<lambda>_. c') cs) = Some c'"
    using assms(1,2) by (induction cs) (auto simp: update_where_def split: if_splits)
  moreover have "find (\<lambda>c. ic_id c = j) (update_where (\<lambda>r. ic_id r = i) (\<lambda>_. c') cs) = find (\<lambda>c. ic_id c = j) cs" if "j \<noteq> i" for j
    using assms(2) that by (induction cs) (auto simp: update_where_def)
  ultimately show ?thesis using assms(1,3) unfolding keeps_contacts_def by (metis option.inject)
qed

lemma contact_effects:
  "catalog_effect u db (snd (create_contact now ip (as_admin u) c db))"
  "catalog_effect u db (snd (update_contact now ip (as_admin u) i c' db))"
  "catalog_effect u db (snd (delete_contact now ip (as_admin u) i db))"
proof -
  show "catalog_effect u db (snd (create_contact now ip (as_admin u) c db))"
    unfolding create_contact_def
    by (auto simp: Let_def keeps_contacts_insert intro!: directory_put split: sum.split)
  show "catalog_effect u db (snd (update_contact now ip (as_admin u) i c' db))"
  proof (cases "get_contact i db")
    case (Some d)
    then have "ic_id d = i" unfolding get_contact_def by (auto dest: find_SomeD)
    with Some have "keeps_contacts (pd_directory db) (update_where (\<lambda>r. ic_id r = i) (\<lambda>_. changed_contact c' d) (pd_directory db))"
      by (intro keeps_contacts_update) (simp_all add: get_contact_def changed_contact_def)
    with Some show ?thesis
      unfolding update_contact_def by (auto simp: Let_def intro!: directory_put split: sum.split)
  qed (simp add: update_contact_def split: sum.split)
  show "catalog_effect u db (snd (delete_contact now ip (as_admin u) i db))"
    unfolding delete_contact_def
    by (auto simp: core_def foreign_contact_def dest!: as_role_cases intro!: contact_gone split: sum.split option.split)
qed

theorem catalog_step_effect: "catalog_effect u db (catalog_step (now, ip, u, op) db)"
  by (cases op)
    (simp_all add: requirement_catalog_effects officer_catalog_effects type_catalog_effects contact_effects)

end
