(* ===== verification/ProfileCodes.thy ===== *)
theory ProfileCodes
  imports ProfileParts
begin

text \<open>
  Exact results of two routines of \<open>api/routes/system_profiles.py\<close>: the profile codes with their bounded retry under
  concurrent creation, and the list of security requirements of a level.
\<close>

subsection \<open>Profile codes\<close>

lemma strip_digits: "(\<And>c. c \<in> set s \<Longrightarrow> is_digit c) \<Longrightarrow> strip s = s"
proof -
  assume digits: "\<And>c. c \<in> set s \<Longrightarrow> is_digit c"
  have plain: "lstrip t = t" if "\<forall>c\<in>set t. is_digit c" for t
    using that by (cases t) (auto simp: lstrip_def is_digit_def is_space_def)
  have "\<forall>c\<in>set s. is_digit c" "\<forall>c\<in>set (rev s). is_digit c" using digits by auto
  then show ?thesis by (simp add: strip_def plain)
qed

lemma split_on_absent: "d \<notin> set s \<Longrightarrow> split_on d s = [s]"
  by (induction s) auto

lemma int_of_digits:
  assumes "s \<noteq> []" and digits: "\<And>c. c \<in> set s \<Longrightarrow> is_digit c"
  shows "int_of_text s = Some (int (read_digits s))"
proof -
  have "\<not> is_digit CHR ''-''" "\<not> is_digit CHR ''+''" "\<not> is_digit CHR ''_''"
    by (simp_all add: is_digit_def char_eval)
  then have "CHR ''_'' \<notin> set s" "hd s \<noteq> CHR ''-''" "hd s \<noteq> CHR ''+''"
    using digits digits [OF hd_in_set [OF assms(1)]] by auto
  then show ?thesis
    using assms(1) digits by (simp add: int_of_text_def Let_def strip_digits [OF digits] split_on_absent)
qed

lemma pad_to_digits_only: "c \<in> set (pad_to k i) \<Longrightarrow> is_digit c"
  by (auto simp: pad_to_def Let_def is_digit_def char_eval dest!: digits_of_digits split: if_splits)

lemma int_of_pad_to: "0 \<le> i \<Longrightarrow> int_of_text (pad_to k i) = Some i"
proof -
  assume i: "0 \<le> i"
  have "pad_to k i \<noteq> []" by (simp add: pad_to_def Let_def)
  from int_of_digits [OF this pad_to_digits_only] show ?thesis
    using i by (simp add: pad_to_def Let_def read_digits_zeros)
qed

lemma fold_max_ge: "(a::int) \<le> fold max xs a" "x \<in> set xs \<Longrightarrow> x \<le> fold max xs a"
proof -
  have le: "a \<le> fold max zs a" for zs and a :: int
    by (induction zs arbitrary: a) (auto intro: order_trans [OF max.cobounded2])
  show "a \<le> fold max xs a" by (rule le)
  show "x \<in> set xs \<Longrightarrow> x \<le> fold max xs a"
  proof (induction xs arbitrary: a)
    case (Cons y ys)
    then show ?case using le [of "max y a" ys] by (auto intro: order_trans [OF max.cobounded1])
  qed simp
qed

lemma generate_profile_code_fresh: "generate_profile_code now org ps \<notin> set (org_codes org ps)"
proof
  let ?codes = "org_codes org ps" and ?prefix = "code_prefix now"
  let ?seq = "fold max (code_numbers ?prefix ?codes) 0"
  have code: "generate_profile_code now org ps = ?prefix @ pad_to 3 (?seq + 1)"
    by (simp add: generate_profile_code_def Let_def)
  have pos: "0 \<le> ?seq" by (rule fold_max_ge)
  assume "generate_profile_code now org ps \<in> set ?codes"
  then have "?seq + 1 \<in> set (code_numbers ?prefix ?codes)"
    using pos int_of_pad_to [of "?seq + 1" 3]
    by (force simp: code code_numbers_def List.map_filter_def image_iff)
  from fold_max_ge(2) [OF this, of 0] show False by simp
qed

lemma insert_with_unique_code_sound:
  "insert_with_unique_code n others now mk ps = (r, ps') \<Longrightarrow> (\<And>c. sp_org_id (mk c) = org) \<Longrightarrow> (\<And>c. sp_code (mk c) = c) \<Longrightarrow>
     \<exists>k. case r of
        None \<Rightarrow> ps' = ps @ concat (take k others) \<and> (0 < n \<longrightarrow> n \<le> length others)
      | Some p \<Rightarrow> ps' = insert_row p (ps @ concat (take k others)) \<and> (\<exists>c. p = mk c) \<and>
          sp_code p \<notin> set (org_codes org (ps @ concat (take k others)))"
proof (induction n arbitrary: others ps)
  case 0
  then show ?case by (intro exI [of _ 0]) auto
next
  case (Suc n)
  let ?code = "generate_profile_code now org ps"
  let ?ps = "ps @ (case others of [] \<Rightarrow> [] | new # _ \<Rightarrow> new)"
  have here: "?ps = ps @ concat (take 1 others)" by (cases others) auto
  show ?case
  proof (cases "?code \<in> set (org_codes org ?ps)")
    case False
    with Suc.prems(1) have "r = Some (mk ?code)" "ps' = insert_row (mk ?code) ?ps"
      using Suc.prems(2) by (auto simp: Let_def)
    with False Suc.prems(3) show ?thesis unfolding here by (intro exI [of _ 1]) auto
  next
    case True
    with generate_profile_code_fresh [of now org ps] have ne: "others \<noteq> []" by (cases others) auto
    from True Suc.prems have "insert_with_unique_code n (tl others) now mk ?ps = (r, ps')" by (simp add: Let_def)
    from Suc.IH [OF this Suc.prems(2,3)] obtain k where
      "case r of
         None \<Rightarrow> ps' = ?ps @ concat (take k (tl others)) \<and> (0 < n \<longrightarrow> n \<le> length (tl others))
       | Some p \<Rightarrow> ps' = insert_row p (?ps @ concat (take k (tl others))) \<and> (\<exists>c. p = mk c) \<and>
           sp_code p \<notin> set (org_codes org (?ps @ concat (take k (tl others))))"
      by blast
    moreover have "?ps @ concat (take k (tl others)) = ps @ concat (take (Suc k) others)"
      using ne by (cases others) auto
    ultimately show ?thesis using ne
      by (intro exI [of _ "Suc k"]) (cases n; cases others; auto split: option.splits)
  qed
qed

lemma pd_profiles_sync: "pd_profiles (sync_profile_requirements row_id pid l db) = pd_profiles db"
  by (simp add: sync_profile_requirements_def Let_def)

text \<open>C26: creating a profile ends with a code: when fewer than five attempts are disturbed by profiles that others commit
  in between, the profile is created, and its code is one that no profile of the organisation had at that moment, those of
  the others included; the codes of the organisation stay pairwise different.\<close>

theorem profile_code_retry:
  assumes "length others < max_attempts" and "is_super_admin u \<or> u_org_id u = pr_org_id b"
    and "pr_org_id b \<in> fst ` set (pd_orgs db)"
  shows "\<exists>d k. fst (create_profile others row_id now pid ip (Inr u) b db) = Inr d \<and>
    pd_profiles (snd (create_profile others row_id now pid ip (Inr u) b db)) =
      insert_row (dl_profile d) (pd_profiles db @ concat (take k others)) \<and>
    sp_org_id (dl_profile d) = pr_org_id b \<and>
    sp_code (dl_profile d) \<notin> set (org_codes (pr_org_id b) (pd_profiles db @ concat (take k others))) \<and>
    (distinct (org_codes (pr_org_id b) (pd_profiles db @ concat (take k others))) \<longrightarrow>
     distinct (org_codes (pr_org_id b) (pd_profiles (snd (create_profile others row_id now pid ip (Inr u) b db)))))"
proof -
  let ?mk = "new_profile now pid u b"
  obtain r ps where ins: "insert_with_unique_code max_attempts others now ?mk (pd_profiles db) = (r, ps)"
    by (cases "insert_with_unique_code max_attempts others now ?mk (pd_profiles db)")
  have mk: "sp_org_id (?mk c) = pr_org_id b" "sp_code (?mk c) = c" for c by (simp_all add: new_profile_def Let_def)
  from insert_with_unique_code_sound [OF ins mk] obtain k where
    "case r of
       None \<Rightarrow> ps = pd_profiles db @ concat (take k others) \<and> (0 < max_attempts \<longrightarrow> max_attempts \<le> length others)
     | Some p \<Rightarrow> ps = insert_row p (pd_profiles db @ concat (take k others)) \<and> (\<exists>c. p = ?mk c) \<and>
         sp_code p \<notin> set (org_codes (pr_org_id b) (pd_profiles db @ concat (take k others)))"
    by blast
  with assms(1) obtain p where r: "r = Some p" "ps = insert_row p (pd_profiles db @ concat (take k others))" "\<exists>c. p = ?mk c"
      "sp_code p \<notin> set (org_codes (pr_org_id b) (pd_profiles db @ concat (take k others)))"
    by (cases r) (auto simp: max_attempts_def)
  have res: "\<exists>db'. create_profile others row_id now pid ip (Inr u) b db = (Inr (to_detail p db'), db') \<and> pd_profiles db' = ps"
    using assms(2,3) ins r(1)
    by (auto simp: create_profile_def Let_def pd_profiles_sync profile_audit_def log_event_def)
  then obtain db' where db': "create_profile others row_id now pid ip (Inr u) b db = (Inr (to_detail p db'), db')" "pd_profiles db' = ps"
    by blast
  have org: "sp_org_id p = pr_org_id b" using r(3) mk(1) by auto
  have "dl_profile (to_detail p db') = p" by (simp add: to_detail_def Let_def)
  with db' r(2,4) org show ?thesis
    by (intro exI [of _ "to_detail p db'"] exI [of _ k]) (auto simp: org_codes_def insert_row_def)
qed

subsection \<open>The requirements of a level\<close>

lemma profile_requirements_sync:
  "profile_requirements pid (sync_profile_requirements row_id pid l db) =
     filter (\<lambda>r. rr_requirement_id r \<in> lr_id ` set (level_catalog l db)) (profile_requirements pid db) @
     map (pending_row row_id pid) (filter (\<lambda>q. lr_id q \<notin> rr_requirement_id ` set (profile_requirements pid db)) (level_catalog l db))"
proof -
  have "filter (\<lambda>r. rr_profile_id r = pid) (delete_where (\<lambda>r. rr_profile_id r = pid \<and> rr_requirement_id r \<notin> V) rows) =
      filter (\<lambda>r. rr_requirement_id r \<in> V) (filter (\<lambda>r. rr_profile_id r = pid) rows)" for V rows
    by (induction rows) (auto simp: delete_where_def)
  moreover have "filter (\<lambda>r. rr_profile_id r = pid) (map (pending_row row_id pid) qs) = map (pending_row row_id pid) qs" for qs
    by (simp add: filter_id_conv pending_row_def)
  ultimately show ?thesis
    by (simp add: profile_requirements_def sync_profile_requirements_def Let_def)
qed

lemma image_split: "f ` {r \<in> R. f r \<in> g ` Q} \<union> g ` {q \<in> Q. g q \<notin> f ` R} = g ` Q"
proof -
  have "f ` {r \<in> R. f r \<in> g ` Q} = f ` R \<inter> g ` Q" by blast
  moreover have "g ` {q \<in> Q. g q \<notin> f ` R} = g ` Q - f ` R" by auto
  ultimately show ?thesis by blast
qed

lemma sync_exact:
  assumes "distinct (map lr_id (pd_catalog db))" "distinct (map rr_requirement_id (profile_requirements pid db))"
  shows "distinct (map rr_requirement_id (profile_requirements pid (sync_profile_requirements row_id pid l db)))"
    "rr_requirement_id ` set (profile_requirements pid (sync_profile_requirements row_id pid l db)) = lr_id ` set (level_catalog l db)"
proof -
  let ?old = "filter (\<lambda>r. rr_requirement_id r \<in> lr_id ` set (level_catalog l db)) (profile_requirements pid db)"
  let ?new = "filter (\<lambda>q. lr_id q \<notin> rr_requirement_id ` set (profile_requirements pid db)) (level_catalog l db)"
  have ids: "map rr_requirement_id (map (pending_row row_id pid) qs) = map lr_id qs" for qs
    by (simp add: pending_row_def)
  have "distinct (map rr_requirement_id ?old)" using assms(2) by (rule distinct_map_filter)
  moreover have "distinct (map lr_id ?new)" using assms(1) by (simp add: level_catalog_def distinct_map_filter)
  ultimately show "distinct (map rr_requirement_id (profile_requirements pid (sync_profile_requirements row_id pid l db)))"
    unfolding profile_requirements_sync map_append ids by (auto, metis imageI)
  show "rr_requirement_id ` set (profile_requirements pid (sync_profile_requirements row_id pid l db)) = lr_id ` set (level_catalog l db)"
  proof -
    have "rr_requirement_id ` set (map (pending_row row_id pid) ?new) = lr_id ` set ?new"
      by (simp add: image_image pending_row_def)
    moreover have "rr_requirement_id ` {r \<in> R. rr_requirement_id r \<in> lr_id ` Q} \<union> lr_id ` {q \<in> Q. lr_id q \<notin> rr_requirement_id ` R} =
        lr_id ` Q" for R Q
      by (rule image_split)
    ultimately show ?thesis unfolding profile_requirements_sync set_append image_Un set_filter by simp
  qed
qed

text \<open>Changing the level of a profile leaves exactly the active requirements of the new level, each once. Rows that
  remain valid keep their review; every other row is new and pending.\<close>

theorem level_requirements_exact:
  assumes "distinct (map lr_id (pd_catalog db))" and "distinct (map rr_requirement_id (profile_requirements pid db))"
    and "get_profile_mutable pid u db = Inr p" and "pc_level b = Some l" "l \<noteq> sp_level p"
    and "update_profile row_id now ip (Inr u) pid b db = (Inr d, db')"
  shows "distinct (map rr_requirement_id (profile_requirements pid db')) \<and>
    rr_requirement_id ` set (profile_requirements pid db') = lr_id ` set (level_catalog l db) \<and>
    (\<forall>r\<in>set (profile_requirements pid db').
       if rr_requirement_id r \<in> rr_requirement_id ` set (profile_requirements pid db)
       then r \<in> set (profile_requirements pid db) else rr_status r = RQ_PENDING)"
proof -
  have "sp_level (reopened (changed_profile b p)) = l"
    using assms(4) by (simp add: reopened_def changed_profile_def or_old_def)
  then obtain db1 where db': "db' = sync_profile_requirements row_id pid l db1" and db1: "pd_requirements db1 = pd_requirements db"
      "pd_catalog db1 = pd_catalog db"
    using assms(3-6)
    by (auto simp: update_profile_def on_profile_def Let_def level_changes_def profile_audit_def update_events_def log_event_def
        put_profile_def split: if_splits)
  have same: "profile_requirements pid db1 = profile_requirements pid db" "level_catalog l db1 = level_catalog l db"
    by (simp_all add: profile_requirements_def level_catalog_def db1)
  have "\<forall>r\<in>set (profile_requirements pid db'). if rr_requirement_id r \<in> rr_requirement_id ` set (profile_requirements pid db)
       then r \<in> set (profile_requirements pid db) else rr_status r = RQ_PENDING"
    unfolding db' profile_requirements_sync same by (auto simp: pending_row_def)
  with sync_exact [of db1 pid row_id l] assms(1,2) show ?thesis
    unfolding db' same db1 by simp
qed

subsection \<open>Witnesses\<close>

definition sample_profile_db :: profile_db where
  "sample_profile_db =
     \<lparr>pd_profiles = [], pd_devices = [], pd_parties = [], pd_applications = [], pd_ip_ranges = [], pd_machines = [],
      pd_contacts = [], pd_requirements = [], pd_events = [],
      pd_catalog = [\<lparr>lr_id = 31, lr_level = 1, lr_code = ''a'', lr_title = ''A'', lr_description = None, lr_sort_order = 0, lr_is_active = True\<rparr>,
        \<lparr>lr_id = 32, lr_level = 2, lr_code = ''b'', lr_title = ''B'', lr_description = None, lr_sort_order = 0, lr_is_active = True\<rparr>],
      pd_device_types = [], pd_officers = [], pd_directory = [], pd_fleet = [], pd_orgs = [(10, None), (11, None)], pd_log = []\<rparr>"

definition sample_request :: profile_request where
  "sample_request =
     \<lparr>pr_org_id = 10, pr_name = ''LAN'', pr_level = 1, pr_description = None, pr_diagram_mermaid = None, pr_managed_by = None,
      pr_document_number = None, pr_document_date = None, pr_decision_number = None, pr_decision_date = None,
      pr_decision_agency = None\<rparr>"

definition sample_profile :: system_profile where
  "sample_profile = new_profile 0 40 sample_user sample_request ''HS-1970-001''"

definition sample_level_change :: profile_change where
  "sample_level_change = \<lparr>pc_name = None, pc_level = Some 2, pc_managed_by = None, pc_document_number = None,
     pc_document_date = None, pc_content = []\<rparr>"

lemma sample_user_sel: "u_org_id sample_user = 10" "\<not> is_super_admin sample_user" "u_role sample_user \<in> admin_roles"
  by (simp_all add: sample_user_def is_super_admin_def super_admin_roles_def admin_roles_def)

lemma sample_profile_sel: "sp_id sample_profile = 40" "sp_org_id sample_profile = 10" "sp_level sample_profile = 1"
    "sp_code sample_profile = ''HS-1970-001''" "sp_status sample_profile = SP_DRAFTED"
  by (simp_all add: sample_profile_def new_profile_def sample_request_def Let_def approved_directly_def)

lemma profile_code_retry_witness:
  "\<exists>d. fst (create_profile [[sample_profile]] (\<lambda>i. i + 100) 0 41 None (Inr sample_user) sample_request sample_profile_db) = Inr d"
proof -
  have "length [[sample_profile]] < max_attempts" by (simp add: max_attempts_def)
  moreover have "is_super_admin sample_user \<or> u_org_id sample_user = pr_org_id sample_request"
    by (simp add: sample_user_sel sample_request_def)
  moreover have "pr_org_id sample_request \<in> fst ` set (pd_orgs sample_profile_db)"
    by (simp add: sample_request_def sample_profile_db_def)
  ultimately show ?thesis
    using profile_code_retry [of "[[sample_profile]]" sample_user sample_request sample_profile_db "\<lambda>i. i + 100" 0 41 None] by blast
qed

lemma level_requirements_exact_witness:
  "rr_requirement_id ` set (profile_requirements 40 (snd (update_profile (\<lambda>i. i + 100) 0 None (Inr sample_user) 40 sample_level_change
     (sample_profile_db\<lparr>pd_profiles := [sample_profile]\<rparr>)))) = {32}"
proof -
  let ?db = "sample_profile_db\<lparr>pd_profiles := [sample_profile]\<rparr>"
  let ?r = "update_profile (\<lambda>i. i + 100) 0 None (Inr sample_user) 40 sample_level_change ?db"
  have mut: "get_profile_mutable 40 sample_user ?db = Inr sample_profile"
    by (simp add: get_profile_mutable_def get_profile_scoped_def get_profile_row_def sample_profile_sel sample_user_sel
        sample_profile_db_def sample_user_scope)
  have "\<exists>d. fst ?r = Inr d"
    by (simp add: update_profile_def on_profile_def mut sample_profile_sel frozen_statuses_def sample_level_change_def Let_def)
  then obtain d where r: "?r = (Inr d, snd ?r)" by (metis prod.collapse)
  have "distinct (map lr_id (pd_catalog ?db))" "profile_requirements 40 ?db = []"
    "level_catalog 2 ?db = [pd_catalog ?db ! 1]" "lr_id (pd_catalog ?db ! 1) = 32"
    by (simp_all add: sample_profile_db_def profile_requirements_def level_catalog_def)
  moreover have "pc_level sample_level_change = Some 2" "2 \<noteq> sp_level sample_profile"
    by (simp_all add: sample_level_change_def sample_profile_sel)
  ultimately show ?thesis using level_requirements_exact [OF _ _ mut _ _ r, of 2] by simp
qed

end
