(* ===== verification/ProfileProps.thy ===== *)
theory ProfileProps
  imports ProfileEffects ProfileCodes
begin

text \<open>
  What holds of the profiles along any run of operations: the approval workflow, the verified requirements behind an
  implemented profile, the organisation of what a profile refers to, what administrators cannot touch, and the exact
  results of the profile codes and of the requirement lists.
\<close>

subsection \<open>Keys\<close>

definition profiles_keyed :: "profile_db \<Rightarrow> bool" where
  "profiles_keyed db \<longleftrightarrow> distinct (map sp_id (pd_profiles db))"

fun event_ids :: "dossier_event \<Rightarrow> uuid set" where
  "event_ids (Inl e) = new_ids (snd (snd (snd e)))"
| "event_ids (Inr e) = {}"

text \<open>The random id of a new profile is not in use, nor are there rows under it.\<close>

definition used_ids :: "profile_db \<Rightarrow> uuid set" where
  "used_ids db = sp_id ` set (pd_profiles db) \<union> rr_profile_id ` set (pd_requirements db) \<union>
     pt_profile_id ` set (pd_devices db) \<union> pt_profile_id ` set (pd_applications db) \<union>
     pl_profile_id ` set (pd_machines db) \<union> pl_profile_id ` set (pd_contacts db)"

definition fresh_event :: "dossier_event \<Rightarrow> profile_db \<Rightarrow> bool" where
  "fresh_event e db \<longleftrightarrow> event_ids e \<inter> used_ids db = {}"

lemma dossier_step_cases:
  obtains "profile_effect (event_ids e) (event_user e) db (dossier_step e db)"
  | "catalog_effect (event_user e) db (dossier_step e db)"
  by (cases e) (auto simp: profile_step_effect catalog_step_effect)

lemma keyed_unique: "profiles_keyed db \<Longrightarrow> p \<in> set (pd_profiles db) \<Longrightarrow> q \<in> set (pd_profiles db) \<Longrightarrow> sp_id p = sp_id q \<Longrightarrow> p = q"
  by (auto simp: profiles_keyed_def distinct_map dest: inj_onD)

lemma get_profile_row_keyed: "profiles_keyed db \<Longrightarrow> p \<in> set (pd_profiles db) \<Longrightarrow> get_profile_row (sp_id p) db = Some p"
  unfolding get_profile_row_def profiles_keyed_def by (rule find_key)

lemma profiles_put:
  "sp_id p' = sp_id p \<Longrightarrow> map sp_id (pd_profiles (put_profile p' db)) = map sp_id (pd_profiles db)"
  by (simp add: put_profile_def update_where_def)

lemma sync_sel [simp]:
  "pd_profiles (sync_profile_requirements row_id pid l db) = pd_profiles db"
  "pd_devices (sync_profile_requirements row_id pid l db) = pd_devices db"
  "pd_parties (sync_profile_requirements row_id pid l db) = pd_parties db"
  "pd_applications (sync_profile_requirements row_id pid l db) = pd_applications db"
  "pd_ip_ranges (sync_profile_requirements row_id pid l db) = pd_ip_ranges db"
  "pd_machines (sync_profile_requirements row_id pid l db) = pd_machines db"
  "pd_contacts (sync_profile_requirements row_id pid l db) = pd_contacts db"
  "pd_directory (sync_profile_requirements row_id pid l db) = pd_directory db"
  "pd_fleet (sync_profile_requirements row_id pid l db) = pd_fleet db"
  "pd_orgs (sync_profile_requirements row_id pid l db) = pd_orgs db"
  by (simp_all add: sync_profile_requirements_def Let_def)

lemma put_profile_sel [simp]:
  "pd_devices (put_profile p db) = pd_devices db" "pd_parties (put_profile p db) = pd_parties db"
  "pd_applications (put_profile p db) = pd_applications db" "pd_ip_ranges (put_profile p db) = pd_ip_ranges db"
  "pd_machines (put_profile p db) = pd_machines db" "pd_contacts (put_profile p db) = pd_contacts db"
  "pd_directory (put_profile p db) = pd_directory db" "pd_fleet (put_profile p db) = pd_fleet db"
  "pd_orgs (put_profile p db) = pd_orgs db" "pd_requirements (put_profile p db) = pd_requirements db"
  "pd_catalog (put_profile p db) = pd_catalog db"
  by (simp_all add: put_profile_def)

lemma put_requirement_sel [simp]:
  "pd_profiles (put_requirement_row r db) = pd_profiles db" "pd_devices (put_requirement_row r db) = pd_devices db"
  "pd_parties (put_requirement_row r db) = pd_parties db" "pd_applications (put_requirement_row r db) = pd_applications db"
  "pd_ip_ranges (put_requirement_row r db) = pd_ip_ranges db" "pd_machines (put_requirement_row r db) = pd_machines db"
  "pd_contacts (put_requirement_row r db) = pd_contacts db" "pd_directory (put_requirement_row r db) = pd_directory db"
  "pd_fleet (put_requirement_row r db) = pd_fleet db" "pd_orgs (put_requirement_row r db) = pd_orgs db"
  by (simp_all add: put_requirement_row_def)

lemma changed_sel [simp]:
  "sp_id (reopened (changed_profile b p)) = sp_id p" "sp_org_id (reopened (changed_profile b p)) = sp_org_id p"
  "sp_code (reopened (changed_profile b p)) = sp_code p" "decision_of (reopened (changed_profile b p)) = decision_of p"
  "sp_decision_number (reopened (changed_profile b p)) = sp_decision_number p"
  by (simp_all add: reopened_def changed_profile_def decision_of_def)

text \<open>What a step does to the list of profiles.\<close>

inductive profiles_effect :: "uuid set \<Rightarrow> user \<Rightarrow> profile_db \<Rightarrow> system_profile list \<Rightarrow> bool" for N u db where
  same: "profiles_effect N u db (pd_profiles db)"
| put: "p \<in> set (pd_profiles db) \<Longrightarrow> is_super_admin u \<or> sp_org_id p = u_org_id u \<Longrightarrow> sp_id p' = sp_id p \<Longrightarrow> sp_org_id p' = sp_org_id p \<Longrightarrow>
    edge_or_same u p p' \<Longrightarrow> (sp_status p' = SP_APPROVED \<and> sp_status p \<noteq> SP_APPROVED \<longrightarrow> sp_decision_number p' \<noteq> None) \<Longrightarrow>
    (sp_status p \<noteq> SP_PENDING_REVIEW \<longrightarrow> sp_decision_number p' = sp_decision_number p) \<Longrightarrow>
    (sp_status p' = SP_IMPLEMENTED \<and> sp_status p \<noteq> SP_IMPLEMENTED \<longrightarrow> all_verified (sp_id p) db) \<Longrightarrow>
    profiles_effect N u db (update_where (\<lambda>q. sp_id q = sp_id p) (\<lambda>_. p') (pd_profiles db))"
| new: "sp_id p \<in> N \<Longrightarrow> is_super_admin u \<or> sp_org_id p = u_org_id u \<Longrightarrow>
    sp_status p = SP_DRAFTED \<or> is_super_admin u \<and> sp_status p = SP_APPROVED \<and> sp_decision_number p \<noteq> None \<Longrightarrow>
    profiles_effect N u db (insert_row p (pd_profiles db))"
| gone: "p \<in> set (pd_profiles db) \<Longrightarrow> is_super_admin u \<or> sp_org_id p = u_org_id u \<and> sp_status p \<in> {SP_DRAFTED, SP_REJECTED} \<Longrightarrow>
    profiles_effect N u db (delete_where (\<lambda>q. sp_id q = sp_id p) (pd_profiles db))"
| unassigned: "is_super_admin u \<Longrightarrow>
    profiles_effect N u db (update_where (\<lambda>p. sp_officer_id p = Some oid) (\<lambda>p. p\<lparr>sp_officer_id := None\<rparr>) (pd_profiles db))"

lemma content_change_sel:
  assumes "content_change p db db'"
  shows "pd_profiles db' = pd_profiles db" "pd_requirements db' = pd_requirements db" "pd_directory db' = pd_directory db"
    "pd_fleet db' = pd_fleet db" "pd_orgs db' = pd_orgs db"
proof -
  from assms have eq: "core db' = (core db)\<lparr>pd_devices := pd_devices db', pd_parties := pd_parties db',
      pd_applications := pd_applications db', pd_ip_ranges := pd_ip_ranges db', pd_machines := pd_machines db',
      pd_contacts := pd_contacts db'\<rparr>"
    by (simp add: content_change_def)
  show "pd_profiles db' = pd_profiles db" "pd_requirements db' = pd_requirements db" "pd_directory db' = pd_directory db"
    "pd_fleet db' = pd_fleet db" "pd_orgs db' = pd_orgs db"
    using arg_cong [OF eq, of pd_profiles] arg_cong [OF eq, of pd_requirements] arg_cong [OF eq, of pd_directory]
      arg_cong [OF eq, of pd_fleet] arg_cong [OF eq, of pd_orgs]
    by (simp_all add: core_sel)
qed

lemma profile_effect_profiles:
  assumes "profile_effect N u db db'"
  shows "profiles_effect N u db (pd_profiles db')"
  using assms
proof cases
  case idle
  then show ?thesis using core_cong(7) [OF idle] by (simp add: same)
next
  case (content pid p)
  then show ?thesis using content_change_sel(1) [OF content(3)] by (simp add: same)
next
  case (row pid p p')
  have "profiles_effect N u db (update_where (\<lambda>q. sp_id q = sp_id p) (\<lambda>_. p') (pd_profiles db))"
    using row(2) mutableD(2,4) [OF row(1)] by (intro put) (auto simp: row_change_def described_def)
  then show ?thesis using core_cong(7) [OF row(3)] row(2) by (simp add: put_profile_def row_change_def)
next
  case (edited pid p b p' row_id)
  have "edge_or_same u p p'"
    by (auto simp: edited(3) edge_or_same_def reopened_def changed_profile_def intro: workflow_edge.reopen)
  moreover have "sp_status p' = SP_APPROVED \<Longrightarrow> sp_status p = SP_APPROVED"
    by (auto simp: edited(3) reopened_def changed_profile_def split: if_splits)
  moreover have "sp_status p' = SP_IMPLEMENTED \<Longrightarrow> sp_status p = SP_IMPLEMENTED"
    by (auto simp: edited(3) reopened_def changed_profile_def split: if_splits)
  ultimately have "profiles_effect N u db (update_where (\<lambda>q. sp_id q = sp_id p) (\<lambda>_. p') (pd_profiles db))"
    using mutableD(2,4) [OF edited(1)] by (intro put) (auto simp: edited(3))
  moreover have "pd_profiles db' = pd_profiles (put_profile p' db)"
    using core_cong(7) [OF edited(4)] by simp
  ultimately show ?thesis by (simp add: put_profile_def edited(3))
next
  case (requirement pid p i r r')
  then show ?thesis using core_cong(7) [OF requirement(4)] by (simp add: same)
next
  case (created p row_id)
  then show ?thesis using core_cong(7) [OF created(4)] by (simp add: new)
next
  case (deleted pid p)
  then show ?thesis using mutableD [OF deleted(1)] gone [of p db u N] core_cong(7) [OF deleted(3)]
    by (auto simp: forget_profile_def)
qed

lemma catalog_effect_profiles:
  "catalog_effect u db db' \<Longrightarrow> profiles_effect N u db (pd_profiles db')"
proof (induction rule: catalog_effect.induct)
  case (catalog_idle db')
  then show ?case using core_cong(7) [OF catalog_idle] by (simp add: profiles_effect.same)
next
  case (officer_gone db' fs oid)
  from arg_cong [OF officer_gone(2), of pd_profiles] show ?case
    using officer_gone(1) by (simp add: core_sel unassigned)
next
  case (catalog db' qs fs ds)
  from arg_cong [OF catalog(2), of pd_profiles] show ?case by (simp add: core_sel profiles_effect.same)
next
  case (directory cs db')
  from arg_cong [OF directory(2), of pd_profiles] show ?case by (simp add: core_sel profiles_effect.same)
next
  case (contact_gone cid c db')
  from arg_cong [OF contact_gone(3), of pd_profiles] show ?case by (simp add: core_sel profiles_effect.same)
qed

lemma dossier_step_profiles: "profiles_effect (event_ids e) (event_user e) db (pd_profiles (dossier_step e db))"
  by (rule dossier_step_cases [of e db]) (auto intro: profile_effect_profiles catalog_effect_profiles)

lemma profiles_effect_keyed:
  assumes "profiles_effect N u db ps" "profiles_keyed db" "N \<inter> sp_id ` set (pd_profiles db) = {}"
  shows "distinct (map sp_id ps)"
  using assms
proof (induction rule: profiles_effect.induct)
  case (put p p')
  have "map sp_id (update_where (\<lambda>q. sp_id q = sp_id p) (\<lambda>_. p') (pd_profiles db)) = map sp_id (pd_profiles db)"
    using put(3) by (simp add: update_where_def)
  with put show ?case by (simp add: profiles_keyed_def)
next
  case (unassigned oid)
  have "map sp_id (update_where (\<lambda>p. sp_officer_id p = Some oid) (\<lambda>p. p\<lparr>sp_officer_id := None\<rparr>) (pd_profiles db)) =
      map sp_id (pd_profiles db)"
    by (simp add: update_where_def)
  with unassigned show ?case by (simp add: profiles_keyed_def)
qed (auto simp: profiles_keyed_def insert_row_def delete_where_def distinct_map_filter)

lemma fresh_ids: "fresh_event e db \<Longrightarrow> event_ids e \<inter> sp_id ` set (pd_profiles db) = {}"
  by (auto simp: fresh_event_def used_ids_def)

interpretation dossier_keys: step_system dossier_step fresh_event profiles_keyed
  by unfold_locales
    (metis profiles_effect_keyed [OF dossier_step_profiles] profiles_keyed_def fresh_ids)

subsection \<open>The workflow\<close>

definition statuses :: "profile_db \<Rightarrow> uuid \<Rightarrow> profile_status option" where
  "statuses db = map_of (map (\<lambda>p. (sp_id p, sp_status p)) (pd_profiles db))"

text \<open>The documented workflow on the statuses alone; the flag tells a super administrator.\<close>

inductive workflow_step :: "bool \<Rightarrow> (uuid \<Rightarrow> profile_status option) \<Rightarrow> (uuid \<Rightarrow> profile_status option) \<Rightarrow> bool" for super s where
  stay: "workflow_step super s s"
| move: "s pid = Some a \<Longrightarrow> workflow_edge super a b \<Longrightarrow> workflow_step super s (s(pid \<mapsto> b))"
| draft: "s pid = None \<Longrightarrow> workflow_step super s (s(pid \<mapsto> SP_DRAFTED))"
| approved_at_once: "s pid = None \<Longrightarrow> super \<Longrightarrow> workflow_step super s (s(pid \<mapsto> SP_APPROVED))"
| withdrawn: "s pid = Some a \<Longrightarrow> super \<or> a \<in> {SP_DRAFTED, SP_REJECTED} \<Longrightarrow> workflow_step super s (s(pid := None))"

lemma statuses_Some: "profiles_keyed db \<Longrightarrow> p \<in> set (pd_profiles db) \<Longrightarrow> statuses db (sp_id p) = Some (sp_status p)"
  unfolding statuses_def profiles_keyed_def by (rule map_of_is_SomeI) (auto simp: comp_def)

lemma status_map_put:
  "p \<in> set ps \<Longrightarrow> sp_id p' = sp_id p \<Longrightarrow>
     map_of (map (\<lambda>p. (sp_id p, sp_status p)) (update_where (\<lambda>q. sp_id q = sp_id p) (\<lambda>_. p') ps)) =
     (map_of (map (\<lambda>p. (sp_id p, sp_status p)) ps))(sp_id p \<mapsto> sp_status p')"
proof -
  have "map_of (map (\<lambda>p. (sp_id p, sp_status p)) (update_where (\<lambda>q. sp_id q = i) (\<lambda>_. p') ps)) j =
      (if j = i \<and> i \<in> sp_id ` set ps then Some (sp_status p') else map_of (map (\<lambda>p. (sp_id p, sp_status p)) ps) j)"
    if "sp_id p' = i" for i j
    using that by (induction ps) (auto simp: update_where_def)
  then show "p \<in> set ps \<Longrightarrow> sp_id p' = sp_id p \<Longrightarrow> ?thesis" by (auto simp: fun_eq_iff)
qed

lemma status_map_drop:
  "map_of (map (\<lambda>p. (sp_id p, sp_status p)) (delete_where (\<lambda>q. sp_id q = i) ps)) =
     (map_of (map (\<lambda>p. (sp_id p, sp_status p)) ps))(i := None)"
  by (induction ps) (auto simp: delete_where_def fun_eq_iff)

lemma profiles_effect_workflow:
  assumes "profiles_effect N u db ps" "profiles_keyed db" "N \<inter> sp_id ` set (pd_profiles db) = {}"
  shows "workflow_step (is_super_admin u) (statuses db) (map_of (map (\<lambda>p. (sp_id p, sp_status p)) ps))"
  using assms
proof (induction rule: profiles_effect.induct)
  case same
  show ?case by (simp add: statuses_def [symmetric] stay)
next
  case (put p p')
  note old = statuses_Some [OF put(9,1)]
  show ?case unfolding status_map_put [OF put(1,3)] statuses_def [symmetric]
  proof (cases "sp_status p' = sp_status p")
    case True
    then have "(statuses db)(sp_id p \<mapsto> sp_status p') = statuses db" using old by (auto simp: fun_eq_iff)
    then show "workflow_step (is_super_admin u) (statuses db) ((statuses db)(sp_id p \<mapsto> sp_status p'))" by (simp add: stay)
  next
    case False
    with put(5) have "workflow_edge (is_super_admin u) (sp_status p) (sp_status p')" by (simp add: edge_or_same_def)
    with old show "workflow_step (is_super_admin u) (statuses db) ((statuses db)(sp_id p \<mapsto> sp_status p'))"
      by (rule workflow_step.move)
  qed
next
  case (new p)
  then have none: "statuses db (sp_id p) = None" by (auto simp: statuses_def map_of_eq_None_iff image_image)
  have "map_of (map (\<lambda>p. (sp_id p, sp_status p)) (insert_row p (pd_profiles db))) = (statuses db)(sp_id p \<mapsto> sp_status p)"
    using none by (auto simp: insert_row_def statuses_def fun_eq_iff map_add_def split: option.split)
  moreover have "workflow_step (is_super_admin u) (statuses db) ((statuses db)(sp_id p \<mapsto> sp_status p))"
    using new(3) none by (auto intro: draft approved_at_once)
  ultimately show ?case by (simp only:)
next
  case (gone p)
  have old: "statuses db (sp_id p) = Some (sp_status p)" by (rule statuses_Some [OF gone(3,1)])
  show ?case unfolding status_map_drop statuses_def [symmetric]
    by (rule withdrawn, rule old) (use gone(2) in auto)
next
  case (unassigned oid)
  have "map (\<lambda>p. (sp_id p, sp_status p)) (update_where (\<lambda>p. sp_officer_id p = Some oid) (\<lambda>p. p\<lparr>sp_officer_id := None\<rparr>) (pd_profiles db)) =
      map (\<lambda>p. (sp_id p, sp_status p)) (pd_profiles db)"
    by (simp add: update_where_def)
  then show ?case by (simp add: statuses_def [symmetric] stay)
qed

text \<open>C22: every operation on profiles and catalogues refines the documented approval workflow. Seen through the
  statuses of the profiles, it changes at most one profile and only along an edge that the role of the user allows: anyone
  with access submits, reopens and reports; only super administrators approve, reject and confirm; a profile starts as a
  draft, or approved when a super administrator creates it with a decision; profiles past the draft are withdrawn by super
  administrators only. Profile ids stay unique.\<close>

theorem profile_workflow_refined:
  assumes "profiles_keyed db" and "fresh_event e db"
  shows "workflow_step (is_super_admin (event_user e)) (statuses db) (statuses (dossier_step e db)) \<and>
    profiles_keyed (dossier_step e db)"
  using profiles_effect_workflow [OF dossier_step_profiles assms(1) fresh_ids [OF assms(2)]]
    dossier_keys.step_inv [OF assms(2,1)]
  by (simp add: statuses_def [of "dossier_step e db"])

subsection \<open>Verified requirements behind an implemented profile\<close>

definition past_implementation :: "system_profile \<Rightarrow> bool" where
  "past_implementation p \<longleftrightarrow> sp_status p \<in> {SP_IMPLEMENTED, SP_FULFILLED}"

definition decided_and_compliant :: "profile_db \<Rightarrow> bool" where
  "decided_and_compliant db \<longleftrightarrow>
     (\<forall>p\<in>set (pd_profiles db).
        (sp_status p \<in> frozen_statuses \<longrightarrow> sp_decision_number p \<noteq> None) \<and>
        (past_implementation p \<longrightarrow> all_verified (sp_id p) db))"

text \<open>The step does not give an implemented profile another level.\<close>

definition keeps_level :: "dossier_event \<Rightarrow> profile_db \<Rightarrow> bool" where
  "keeps_level e db \<longleftrightarrow>
     (\<forall>p\<in>set (pd_profiles db). \<forall>p'\<in>set (pd_profiles (dossier_step e db)).
        sp_id p' = sp_id p \<and> past_implementation p \<longrightarrow> sp_level p' = sp_level p)"

lemma all_verified_cong: "profile_requirements i db' = profile_requirements i db \<Longrightarrow> all_verified i db' = all_verified i db"
  by (simp add: all_verified_def)

lemma requirements_cong: "pd_requirements db' = pd_requirements db \<Longrightarrow> all_verified i db' = all_verified i db"
  by (rule all_verified_cong) (simp add: profile_requirements_def)

lemma filter_other_pending: "i \<noteq> pid \<Longrightarrow> filter (\<lambda>r. rr_profile_id r = i) (map (pending_row row_id pid) qs) = []"
  by (simp add: filter_empty_conv pending_row_def)

lemma sync_other: "i \<noteq> pid \<Longrightarrow> profile_requirements i (sync_profile_requirements row_id pid l db) = profile_requirements i db"
  by (simp add: profile_requirements_def sync_profile_requirements_def Let_def filter_other_pending)
    (rule filter_delete_where, auto)

lemma put_requirement_other:
  "i \<noteq> rr_profile_id r \<Longrightarrow> profile_requirements i (put_requirement_row r db) = profile_requirements i db"
  by (simp add: profile_requirements_def put_requirement_row_def) (rule filter_update_where, auto)

lemma forget_other: "i \<noteq> pid \<Longrightarrow> profile_requirements i (forget_profile pid db) = profile_requirements i db"
  by (simp add: profile_requirements_def forget_profile_def) (rule filter_delete_where, auto)

text \<open>The requirement rows of a compliant profile only change with its level.\<close>

lemma profile_effect_verified:
  assumes "profile_effect N u db db'" and "all_verified i db" and "i \<notin> N" and "i \<in> sp_id ` set (pd_profiles db')"
    and level: "\<And>p p'. p \<in> set (pd_profiles db) \<Longrightarrow> p' \<in> set (pd_profiles db') \<Longrightarrow> sp_id p = i \<Longrightarrow> sp_id p' = i \<Longrightarrow> sp_level p' = sp_level p"
  shows "all_verified i db'"
  using assms(1)
proof cases
  case idle
  show ?thesis using requirements_cong [OF core_cong(8) [OF idle]] assms(2) by simp
next
  case (content pid p)
  show ?thesis using requirements_cong [OF content_change_sel(2) [OF content(3)]] assms(2) by simp
next
  case (row pid p p')
  have "pd_requirements db' = pd_requirements db" using core_cong(8) [OF row(3)] by simp
  from requirements_cong [OF this] assms(2) show ?thesis by simp
next
  case (edited pid p b p' row_id)
  show ?thesis
  proof (cases "level_changes b p")
    case False
    then have "pd_requirements db' = pd_requirements db" using core_cong(8) [OF edited(4)] by simp
    from requirements_cong [OF this] assms(2) show ?thesis by simp
  next
    case True
    then have changed: "sp_level p' \<noteq> sp_level p"
      by (auto simp: edited(3) level_changes_def reopened_def changed_profile_def or_old_def split: option.splits)
    have profs: "pd_profiles db' = pd_profiles (put_profile p' db)"
      using core_cong(7) [OF edited(4)] by simp
    have "p' \<in> set (pd_profiles db')"
      using mutableD(2) [OF edited(1)] by (auto simp: profs put_profile_def edited(3) image_iff)
    with changed level [OF mutableD(2) [OF edited(1)]] have "i \<noteq> sp_id p"
      by (auto simp: edited(3))
    then have "profile_requirements i db' = profile_requirements i db"
      using core_cong(8) [OF edited(4)] True mutableD(3) [OF edited(1)]
        sync_other [of i pid row_id "sp_level p'" "put_profile p' db"]
      by (simp add: profile_requirements_def)
    from all_verified_cong [OF this] assms(2) show ?thesis by simp
  qed
next
  case (requirement pid p j r r')
  have "rr_profile_id r' \<noteq> i"
    using requirement(3) get_requirement_rowD [OF requirement(2)] assms(2)
    by (auto simp: requirement_change_def all_verified_def profile_requirements_def)
  then have "profile_requirements i db' = profile_requirements i db"
    using put_requirement_other [of i r' db] core_cong(8) [OF requirement(4)] by (simp add: profile_requirements_def)
  from all_verified_cong [OF this] assms(2) show ?thesis by simp
next
  case (created p row_id)
  then have "profile_requirements i db' = profile_requirements i db"
    using sync_other [of i "sp_id p" row_id "sp_level p" "db\<lparr>pd_profiles := insert_row p (pd_profiles db)\<rparr>"] assms(3)
      core_cong(8) [OF created(4)]
    by (auto simp: profile_requirements_def)
  from all_verified_cong [OF this] assms(2) show ?thesis by simp
next
  case (deleted pid p)
  have "i \<noteq> pid" using assms(4) core_cong(7) [OF deleted(3)] by (auto simp: forget_profile_def)
  then have "profile_requirements i db' = profile_requirements i db"
    using forget_other [of i pid db] core_cong(8) [OF deleted(3)] by (simp add: profile_requirements_def)
  from all_verified_cong [OF this] assms(2) show ?thesis by simp
qed

lemma catalog_effect_requirements:
  assumes "catalog_effect u db db'"
  shows "pd_requirements db' = pd_requirements db"
  using assms
proof cases
  case catalog_idle
  show ?thesis by (rule core_cong(8) [OF catalog_idle])
next
  case (catalog qs fs ds)
  show ?thesis using arg_cong [OF catalog(2), of pd_requirements] by (simp add: core_sel)
next
  case (officer_gone fs oid)
  show ?thesis using arg_cong [OF officer_gone(2), of pd_requirements] by (simp add: core_sel)
next
  case (directory cs)
  show ?thesis using arg_cong [OF directory(2), of pd_requirements] by (simp add: core_sel)
next
  case (contact_gone cid c)
  show ?thesis using arg_cong [OF contact_gone(3), of pd_requirements] by (simp add: core_sel)
qed

lemma profiles_effect_origin:
  assumes "profiles_effect N u db ps" and "p' \<in> set ps" and "profiles_keyed db"
  obtains p where "p \<in> set (pd_profiles db)" "sp_id p' = sp_id p" "sp_org_id p' = sp_org_id p" "edge_or_same u p p'"
      "sp_status p' = SP_APPROVED \<and> sp_status p \<noteq> SP_APPROVED \<longrightarrow> sp_decision_number p' \<noteq> None"
      "sp_status p \<noteq> SP_PENDING_REVIEW \<longrightarrow> sp_decision_number p' = sp_decision_number p"
      "sp_status p' = SP_IMPLEMENTED \<and> sp_status p \<noteq> SP_IMPLEMENTED \<longrightarrow> all_verified (sp_id p) db"
  | "sp_id p' \<in> N" "is_super_admin u \<or> sp_org_id p' = u_org_id u"
      "sp_status p' = SP_DRAFTED \<or> is_super_admin u \<and> sp_status p' = SP_APPROVED \<and> sp_decision_number p' \<noteq> None"
  using assms(1)
proof cases
  case same
  with assms(2) show ?thesis by (intro that(1) [of p']) (auto simp: edge_or_same_def)
next
  case (put p q)
  from assms(2) [unfolded put(1)] show ?thesis
  proof (rule update_whereE)
    fix r assume "p' = q"
    with put show ?thesis by (intro that(1) [of p]) auto
  next
    assume "p' \<in> set (pd_profiles db)"
    then show ?thesis by (intro that(1) [of p']) (auto simp: edge_or_same_def)
  qed
next
  case (new p)
  then show ?thesis using assms(2) that(1) [of p'] that(2) by (auto simp: edge_or_same_def)
next
  case (gone p)
  with assms(2) show ?thesis by (intro that(1) [of p']) (auto simp: edge_or_same_def)
next
  case (unassigned oid)
  from assms(2) [unfolded unassigned(1)] show ?thesis
  proof (rule update_whereE)
    fix r assume "r \<in> set (pd_profiles db)" "p' = r\<lparr>sp_officer_id := None\<rparr>"
    then show ?thesis by (intro that(1) [of r]) (auto simp: edge_or_same_def)
  next
    assume "p' \<in> set (pd_profiles db)"
    then show ?thesis by (intro that(1) [of p']) (auto simp: edge_or_same_def)
  qed
qed

definition compliance_inv :: "profile_db \<Rightarrow> bool" where
  "compliance_inv db \<longleftrightarrow> profiles_keyed db \<and> decided_and_compliant db"

lemma edge_past_implementation:
  "edge_or_same u p p' \<Longrightarrow> past_implementation p' \<Longrightarrow>
     past_implementation p \<or> sp_status p' = SP_IMPLEMENTED \<and> sp_status p = SP_APPROVED"
  by (auto simp: edge_or_same_def past_implementation_def elim: workflow_edge.cases)

lemma edge_frozen:
  "edge_or_same u p p' \<Longrightarrow> sp_status p' \<in> frozen_statuses \<Longrightarrow>
     sp_status p \<in> frozen_statuses \<or> sp_status p' = SP_APPROVED \<and> sp_status p = SP_PENDING_REVIEW"
  by (auto simp: edge_or_same_def frozen_statuses_def elim: workflow_edge.cases)

lemma dossier_step_verified:
  assumes "profiles_keyed db" "fresh_event e db" "keeps_level e db" "p \<in> set (pd_profiles db)" "past_implementation p"
    "all_verified (sp_id p) db" "sp_id p \<in> sp_id ` set (pd_profiles (dossier_step e db))"
  shows "all_verified (sp_id p) (dossier_step e db)"
proof (rule dossier_step_cases [of e db])
  assume eff: "profile_effect (event_ids e) (event_user e) db (dossier_step e db)"
  show ?thesis
  proof (rule profile_effect_verified [OF eff assms(6) _ assms(7)])
    show "sp_id p \<notin> event_ids e" using fresh_ids [OF assms(2)] assms(4) by auto
  next
    fix q q'
    assume "q \<in> set (pd_profiles db)" "q' \<in> set (pd_profiles (dossier_step e db))" "sp_id q = sp_id p" "sp_id q' = sp_id p"
    moreover from this have "q = p" using keyed_unique [OF assms(1)] assms(4) by blast
    ultimately show "sp_level q' = sp_level q" using assms(3,5) by (auto simp: keeps_level_def)
  qed
next
  assume "catalog_effect (event_user e) db (dossier_step e db)"
  from requirements_cong [OF catalog_effect_requirements [OF this]] assms(6) show ?thesis by simp
qed

text \<open>Reporting changes no requirement: what was verified before the step is verified after it.\<close>

lemma dossier_step_report:
  assumes "profile_effect N u db db'" "profiles_keyed db" "p \<in> set (pd_profiles db)" "p' \<in> set (pd_profiles db')"
    "sp_id p' = sp_id p" "sp_status p = SP_APPROVED" "sp_status p' = SP_IMPLEMENTED"
  shows "pd_requirements db' = pd_requirements db"
  using assms(1)
proof cases
  case idle
  show ?thesis by (rule core_cong(8) [OF idle])
next
  case (content pid q)
  show ?thesis by (rule content_change_sel(2) [OF content(3)])
next
  case (row pid q q')
  show ?thesis using core_cong(8) [OF row(3)] by simp
next
  case (edited pid q b q' row_id)
  have "pd_profiles db' = update_where (\<lambda>r. sp_id r = sp_id q) (\<lambda>_. q') (pd_profiles db)"
    using core_cong(7) [OF edited(4)] by (simp add: put_profile_def edited(3))
  from assms(4) [unfolded this] have False
  proof (rule update_whereE)
    fix r assume "r \<in> set (pd_profiles db)" "sp_id r = sp_id q" "p' = q'"
    with edited(3) assms(3,5) mutableD(2) [OF edited(1)] keyed_unique [OF assms(2), of q p] have "q = p" by auto
    with \<open>p' = q'\<close> edited(3) assms(6,7) show False by (simp add: reopened_def changed_profile_def)
  next
    assume "p' \<in> set (pd_profiles db)"
    with assms keyed_unique [OF assms(2), of p' p] show False by auto
  qed
  then show ?thesis ..
next
  case (requirement pid q j r r')
  have "p' \<in> set (pd_profiles db)" using core_cong(7) [OF requirement(4)] assms(4) by simp
  with assms keyed_unique [OF assms(2), of p' p] show ?thesis by auto
next
  case (created q row_id)
  have "pd_profiles db' = insert_row q (pd_profiles db)" using core_cong(7) [OF created(4)] by simp
  with assms(4) created(3) assms(7) have "p' \<in> set (pd_profiles db)" by auto
  with assms keyed_unique [OF assms(2), of p' p] show ?thesis by auto
next
  case (deleted pid q)
  have "p' \<in> set (pd_profiles db)" using core_cong(7) [OF deleted(3)] assms(4) by (auto simp: forget_profile_def)
  with assms keyed_unique [OF assms(2), of p' p] show ?thesis by auto
qed

lemma dossier_step_compliance:
  assumes fresh: "fresh_event e db" and level: "keeps_level e db" and inv: "compliance_inv db"
  shows "compliance_inv (dossier_step e db)"
proof -
  from inv have keyed: "profiles_keyed db" and ok: "decided_and_compliant db" by (simp_all add: compliance_inv_def)
  have "(sp_status p' \<in> frozen_statuses \<longrightarrow> sp_decision_number p' \<noteq> None) \<and>
      (past_implementation p' \<longrightarrow> all_verified (sp_id p') (dossier_step e db))"
    if p': "p' \<in> set (pd_profiles (dossier_step e db))" for p'
  proof (rule profiles_effect_origin [OF dossier_step_profiles p' keyed])
    fix p
    assume p: "p \<in> set (pd_profiles db)" "sp_id p' = sp_id p" "edge_or_same (event_user e) p p'"
      and number: "sp_status p' = SP_APPROVED \<and> sp_status p \<noteq> SP_APPROVED \<longrightarrow> sp_decision_number p' \<noteq> None"
        "sp_status p \<noteq> SP_PENDING_REVIEW \<longrightarrow> sp_decision_number p' = sp_decision_number p"
      and impl: "sp_status p' = SP_IMPLEMENTED \<and> sp_status p \<noteq> SP_IMPLEMENTED \<longrightarrow> all_verified (sp_id p) db"
    have there: "sp_id p \<in> sp_id ` set (pd_profiles (dossier_step e db))" using p' p(2) [symmetric] by simp
    have "all_verified (sp_id p) (dossier_step e db)" if past: "past_implementation p'"
      using edge_past_implementation [OF p(3) past]
    proof
      assume old: "past_implementation p"
      with ok p(1) have "all_verified (sp_id p) db" by (simp add: decided_and_compliant_def)
      with old show ?thesis by (rule dossier_step_verified [OF keyed fresh level p(1) _ _ there])
    next
      assume new: "sp_status p' = SP_IMPLEMENTED \<and> sp_status p = SP_APPROVED"
      have "pd_requirements (dossier_step e db) = pd_requirements db"
        by (rule dossier_step_cases [of e db])
          (use dossier_step_report [OF _ keyed p(1) p' p(2)] new catalog_effect_requirements in auto)
      from requirements_cong [OF this] new impl show ?thesis by simp
    qed
    moreover have "sp_decision_number p' \<noteq> None" if "sp_status p' \<in> frozen_statuses"
      using edge_frozen [OF p(3) that] number ok p(1) by (auto simp: decided_and_compliant_def frozen_statuses_def)
    ultimately show ?thesis using p(2) by simp
  qed (auto simp: past_implementation_def frozen_statuses_def)
  moreover have "profiles_keyed (dossier_step e db)" by (rule dossier_keys.step_inv [OF fresh keyed])
  ultimately show ?thesis by (simp add: compliance_inv_def decided_and_compliant_def)
qed

interpretation compliance: step_system dossier_step "\<lambda>e db. fresh_event e db \<and> keeps_level e db" compliance_inv
  by unfold_locales (simp add: dossier_step_compliance)

text \<open>C23: along every run of operations in which nobody changes the level of a profile already reported as implemented,
  every implemented or fulfilled profile has a decision number and at least one security requirement, all of them
  verified; every approved profile has a decision number.\<close>

theorem implemented_profiles_compliant:
  assumes "compliance.admissible es db" and "compliance_inv db"
  shows "compliance_inv (run dossier_step es db)"
  using assms by (rule compliance.run_inv)

subsection \<open>What a profile refers to\<close>

text \<open>The rows below a profile refer to machines and contacts of the profile's organisation.\<close>

definition local_rows :: "profile_db \<Rightarrow> system_profile \<Rightarrow> bool" where
  "local_rows db p \<longleftrightarrow>
     (\<forall>r\<in>set (pd_devices db). pt_profile_id r = sp_id p \<longrightarrow> local_machine db (sp_org_id p) (di_machine_id (pt_body r))) \<and>
     (\<forall>r\<in>set (pd_applications db). pt_profile_id r = sp_id p \<longrightarrow> local_machine db (sp_org_id p) (ai_machine_id (pt_body r))) \<and>
     (\<forall>l\<in>set (pd_machines db). pl_profile_id l = sp_id p \<longrightarrow> local_machine db (sp_org_id p) (Some (pl_target_id l))) \<and>
     (\<forall>l\<in>set (pd_contacts db). pl_profile_id l = sp_id p \<longrightarrow> local_contact db (sp_org_id p) (pl_target_id l))"

definition references_local :: "profile_db \<Rightarrow> bool" where
  "references_local db \<longleftrightarrow> profiles_keyed db \<and> (\<forall>p\<in>set (pd_profiles db). local_rows db p)"

definition same_rows :: "profile_db \<Rightarrow> profile_db \<Rightarrow> bool" where
  "same_rows db db' \<longleftrightarrow>
     set (pd_devices db') \<subseteq> set (pd_devices db) \<and> set (pd_applications db') \<subseteq> set (pd_applications db) \<and>
     set (pd_machines db') \<subseteq> set (pd_machines db) \<and>
     (\<forall>l\<in>set (pd_contacts db'). l \<in> set (pd_contacts db) \<and>
        (\<forall>org. local_contact db org (pl_target_id l) \<longrightarrow> local_contact db' org (pl_target_id l))) \<and>
     pd_fleet db' = pd_fleet db"

lemma local_machine_cong:
  assumes "pd_fleet db' = pd_fleet db"
  shows "local_machine db' org mid = local_machine db org mid"
  by (simp only: local_machine_def assms)

lemma local_contact_cong:
  assumes "pd_directory db' = pd_directory db"
  shows "local_contact db' org cid = local_contact db org cid"
  by (simp only: local_contact_def get_contact_def assms)

lemma local_rows_mono:
  "local_rows db p \<Longrightarrow> same_rows db db' \<Longrightarrow> sp_id p' = sp_id p \<Longrightarrow> sp_org_id p' = sp_org_id p \<Longrightarrow> local_rows db' p'"
  by (auto simp: local_rows_def same_rows_def local_machine_cong [of db' db])

lemma same_rows_core: "core db' = core db'' \<Longrightarrow> same_rows db db' = same_rows db db''"
  using core_cong [of db' db''] by (simp add: same_rows_def local_contact_cong [of db' db''])

lemma same_rows_refl [simp]: "same_rows db db"
  by (simp add: same_rows_def)

lemma profile_effect_rows:
  assumes "profile_effect N u db db'"
  shows "same_rows db db' \<or> (\<exists>pid p. get_profile_mutable pid u db = Inr p \<and> assert_profile_content_mutable p u = None \<and>
    content_change p db db')"
  using assms
proof cases
  case idle
  then show ?thesis using same_rows_core [OF idle] by simp
next
  case (content pid p)
  then show ?thesis by blast
next
  case (row pid p p')
  have "same_rows db (put_profile p' db)" by (simp add: same_rows_def local_contact_cong [of "put_profile p' db" db])
  then show ?thesis using same_rows_core [OF row(3)] by simp
next
  case (edited pid p b p' row_id)
  have "same_rows db (put_profile p' db)"
    by (simp add: same_rows_def local_contact_cong [of "put_profile p' db" db])
  moreover have "same_rows db (sync_profile_requirements row_id pid l (put_profile p' db))" for l
    by (simp add: same_rows_def local_contact_cong [of "sync_profile_requirements row_id pid l (put_profile p' db)" db])
  ultimately show ?thesis using same_rows_core [OF edited(4)] by (simp split: if_splits)
next
  case (requirement pid p i r r')
  have "same_rows db (put_requirement_row r' db)"
    by (simp add: same_rows_def local_contact_cong [of "put_requirement_row r' db" db])
  then show ?thesis using same_rows_core [OF requirement(4)] by simp
next
  case (created p row_id)
  let ?db = "sync_profile_requirements row_id (sp_id p) (sp_level p) (db\<lparr>pd_profiles := insert_row p (pd_profiles db)\<rparr>)"
  have "same_rows db ?db" by (simp add: same_rows_def local_contact_cong [of ?db db])
  then show ?thesis using same_rows_core [OF created(4)] by simp
next
  case (deleted pid p)
  have dir: "pd_directory (forget_profile pid db) = pd_directory db" "pd_fleet (forget_profile pid db) = pd_fleet db"
    by (simp_all add: forget_profile_def)
  have "same_rows db (forget_profile pid db)"
    by (auto simp: same_rows_def dir local_contact_cong [OF dir(1)]) (auto simp: forget_profile_def)
  then show ?thesis using same_rows_core [OF deleted(3)] by simp
qed

lemma find_delete_where_other:
  "j \<noteq> i \<Longrightarrow> find (\<lambda>c. key c = j) (delete_where (\<lambda>c. key c = i) rows) = find (\<lambda>c. key c = j) rows"
  by (induction rows) (auto simp: delete_where_def)

lemma catalog_effect_rows:
  assumes "catalog_effect u db db'"
  shows "same_rows db db'"
  using assms
proof cases
  case catalog_idle
  show ?thesis using same_rows_core [OF catalog_idle] by simp
next
  case (catalog ds fs qs)
  let ?db = "db\<lparr>pd_catalog := qs, pd_officers := fs, pd_device_types := ds\<rparr>"
  have "core db' = core ?db" using catalog(2) by (simp add: core_def)
  moreover have "same_rows db ?db" by (simp add: same_rows_def local_contact_cong [of ?db db])
  ultimately show ?thesis using same_rows_core [of db' ?db db] by simp
next
  case (officer_gone oid fs)
  let ?db = "db\<lparr>pd_officers := fs, pd_profiles := update_where (\<lambda>p. sp_officer_id p = Some oid)
      (\<lambda>p. p\<lparr>sp_officer_id := None\<rparr>) (pd_profiles db)\<rparr>"
  have "core db' = core ?db" using officer_gone(2) by (simp add: core_def)
  moreover have "same_rows db ?db" by (simp add: same_rows_def local_contact_cong [of ?db db])
  ultimately show ?thesis using same_rows_core [of db' ?db db] by simp
next
  case (directory cs)
  let ?db = "db\<lparr>pd_directory := cs\<rparr>"
  have "core db' = core ?db" using directory(2) by (simp add: core_def)
  moreover have "same_rows db ?db"
    using directory(1) by (fastforce simp: same_rows_def local_contact_def get_contact_def keeps_contacts_def split: option.splits)
  ultimately show ?thesis using same_rows_core [of db' ?db db] by simp
next
  case (contact_gone cid c)
  let ?db = "db\<lparr>pd_directory := delete_where (\<lambda>r. ic_id r = cid) (pd_directory db),
      pd_contacts := delete_where (\<lambda>l. pl_target_id l = cid) (pd_contacts db)\<rparr>"
  have "core db' = core ?db" using contact_gone(3) by (simp add: core_def)
  moreover have "same_rows db ?db"
    by (auto simp: same_rows_def local_contact_def get_contact_def find_delete_where_other [where key = ic_id])
  ultimately show ?thesis using same_rows_core [of db' ?db db] by simp
qed

lemma content_change_local:
  assumes "content_change q db db'" "profiles_keyed db" "q \<in> set (pd_profiles db)" "p \<in> set (pd_profiles db)" "local_rows db p"
  shows "local_rows db' p"
proof -
  have same: "sp_id q = sp_id p \<Longrightarrow> sp_org_id q = sp_org_id p"
    using keyed_unique [OF assms(2-4)] by simp
  note sel = content_change_sel [OF assms(1)]
  show ?thesis
    using assms(1,5) same
    by (auto simp: local_rows_def local_machine_cong [OF sel(4)] local_contact_cong [OF sel(3)] content_change_def rows_change_def)
qed

lemma unused_key: "set rows' \<subseteq> set rows \<Longrightarrow> i \<notin> key ` set rows \<Longrightarrow> r \<in> set rows' \<Longrightarrow> key r \<noteq> i"
  by blast

lemma unused_local:
  assumes same: "same_rows db db'" and unused: "sp_id p' \<notin> used_ids db"
  shows "local_rows db' p'"
proof -
  have "pt_profile_id r \<noteq> sp_id p'" if "r \<in> set (pd_devices db')" for r
    using same unused by (intro unused_key [OF _ _ that]) (auto simp: same_rows_def used_ids_def)
  moreover have "pt_profile_id r \<noteq> sp_id p'" if "r \<in> set (pd_applications db')" for r
    using same unused by (intro unused_key [OF _ _ that]) (auto simp: same_rows_def used_ids_def)
  moreover have "pl_profile_id l \<noteq> sp_id p'" if "l \<in> set (pd_machines db')" for l
    using same unused by (intro unused_key [OF _ _ that]) (auto simp: same_rows_def used_ids_def)
  moreover have "pl_profile_id l \<noteq> sp_id p'" if "l \<in> set (pd_contacts db')" for l
    using same unused by (intro unused_key [OF _ _ that]) (auto simp: same_rows_def used_ids_def)
  ultimately show ?thesis by (simp add: local_rows_def)
qed

lemma dossier_step_local:
  assumes fresh: "fresh_event e db" and inv: "references_local db"
  shows "references_local (dossier_step e db)"
proof -
  let ?db = "dossier_step e db"
  from inv have keyed: "profiles_keyed db" and loc: "\<And>p. p \<in> set (pd_profiles db) \<Longrightarrow> local_rows db p"
    by (auto simp: references_local_def)
  have rows: "same_rows db ?db \<or> (\<exists>q. q \<in> set (pd_profiles db) \<and> content_change q db ?db)"
  proof (rule dossier_step_cases [of e db])
    assume "profile_effect (event_ids e) (event_user e) db ?db"
    from profile_effect_rows [OF this] show ?thesis using mutableD(2) by blast
  qed (simp add: catalog_effect_rows)
  have "local_rows ?db p'" if p': "p' \<in> set (pd_profiles ?db)" for p'
    using rows
  proof (elim disjE exE conjE)
    assume same: "same_rows db ?db"
    show ?thesis
    proof (rule profiles_effect_origin [OF dossier_step_profiles p' keyed])
      fix p assume "p \<in> set (pd_profiles db)" "sp_id p' = sp_id p" "sp_org_id p' = sp_org_id p"
      with loc same show ?thesis by (blast intro: local_rows_mono)
    next
      assume "sp_id p' \<in> event_ids e"
      with fresh have "sp_id p' \<notin> used_ids db" by (auto simp: fresh_event_def)
      with same show ?thesis by (rule unused_local)
    qed
  next
    fix q assume q: "q \<in> set (pd_profiles db)" "content_change q db ?db"
    then have "p' \<in> set (pd_profiles db)" using p' content_change_sel(1) by simp
    with q keyed loc show ?thesis by (blast intro: content_change_local)
  qed
  with dossier_keys.step_inv [OF fresh keyed] show ?thesis by (simp add: references_local_def)
qed

interpretation locality: step_system dossier_step fresh_event references_local
  by unfold_locales (rule dossier_step_local)

text \<open>Along every run of operations, by anyone, what a profile refers to stays in its organisation: the machines of
  its devices and applications, the attached machines and the attached contacts exist and belong to the organisation of
  the profile.\<close>

theorem profile_references_local:
  assumes "locality.admissible es db" and "references_local db"
  shows "references_local (run dossier_step es db)"
  using assms by (rule locality.run_inv)

subsection \<open>What administrators cannot touch\<close>

record dossier =
  ds_profile :: "system_profile option"
  ds_devices :: "device_in part list"
  ds_parties :: "party_in part list"
  ds_applications :: "application_in part list"
  ds_ip_ranges :: "ip_range_in part list"
  ds_machines :: "profile_link list"
  ds_contacts :: "profile_link list"
  ds_requirements :: "requirement_row list"

definition dossier_of :: "uuid \<Rightarrow> profile_db \<Rightarrow> dossier" where
  "dossier_of pid db =
     \<lparr>ds_profile = get_profile_row pid db, ds_devices = parts_of pid (pd_devices db), ds_parties = parts_of pid (pd_parties db),
      ds_applications = parts_of pid (pd_applications db), ds_ip_ranges = parts_of pid (pd_ip_ranges db),
      ds_machines = links_of pid (pd_machines db), ds_contacts = links_of pid (pd_contacts db),
      ds_requirements = profile_requirements pid db\<rparr>"

lemma dossier_core: "core db1 = core db2 \<Longrightarrow> dossier_of pid db1 = dossier_of pid db2"
  using core_cong [of db1 db2] by (simp add: dossier_of_def get_profile_row_def profile_requirements_def)

lemma filter_sub_eq:
  assumes "filter P xs = filter P ys" "\<And>x. Q x \<Longrightarrow> P x"
  shows "filter Q xs = filter Q ys"
proof -
  have "filter Q zs = filter Q (filter P zs)" for zs using assms(2) by (induction zs) auto
  with assms(1) show ?thesis by metis
qed

lemma rows_change_other:
  "rows_change i pt_profile_id good rows rows' \<Longrightarrow> pid \<noteq> i \<Longrightarrow> parts_of pid rows' = parts_of pid rows"
  unfolding parts_of_def rows_change_def by (rule filter_sub_eq [where P = "\<lambda>r. pt_profile_id r \<noteq> i"]) auto

lemma links_change_other:
  "rows_change i pl_profile_id good' links links' \<Longrightarrow> pid \<noteq> i \<Longrightarrow> links_of pid links' = links_of pid links"
  unfolding links_of_def rows_change_def by (rule filter_sub_eq [where P = "\<lambda>r. pl_profile_id r \<noteq> i"]) auto

lemma get_put_profile:
  "get_profile_row pid (put_profile p' db) =
     (if pid = sp_id p' then map_option (\<lambda>_. p') (get_profile_row pid db) else get_profile_row pid db)"
proof -
  have "find (\<lambda>q. sp_id q = pid) (update_where (\<lambda>q. sp_id q = sp_id p') (\<lambda>_. p') ps) =
      (if pid = sp_id p' then map_option (\<lambda>_. p') (find (\<lambda>q. sp_id q = pid) ps) else find (\<lambda>q. sp_id q = pid) ps)" for ps
    by (induction ps) (auto simp: update_where_def)
  then show ?thesis by (simp add: get_profile_row_def put_profile_def)
qed

lemma dossier_put_other: "pid \<noteq> sp_id p' \<Longrightarrow> dossier_of pid (put_profile p' db) = dossier_of pid db"
  by (simp add: dossier_of_def get_put_profile profile_requirements_def)

lemma dossier_sync_other: "pid \<noteq> i \<Longrightarrow> dossier_of pid (sync_profile_requirements row_id i l db) = dossier_of pid db"
  by (simp add: dossier_of_def get_profile_row_def sync_other)

lemma dossier_requirement_other: "pid \<noteq> rr_profile_id r \<Longrightarrow> dossier_of pid (put_requirement_row r db) = dossier_of pid db"
  by (simp add: dossier_of_def get_profile_row_def put_requirement_other)

lemma dossier_forget_other: "pid \<noteq> i \<Longrightarrow> dossier_of pid (forget_profile i db) = dossier_of pid db"
  by (simp add: dossier_of_def forget_other)
    (auto simp: forget_profile_def get_profile_row_def parts_of_def links_of_def find_delete_where_other [where key = sp_id]
      intro!: filter_delete_where)

lemma dossier_content_other:
  assumes "content_change p db db'" "pid \<noteq> sp_id p"
  shows "dossier_of pid db' = dossier_of pid db"
proof -
  note sel = content_change_sel [OF assms(1)]
  have "pid \<noteq> sp_id p \<Longrightarrow> content_change p db db' \<Longrightarrow> ?thesis"
    unfolding content_change_def
    by (elim conjE, simp add: dossier_of_def get_profile_row_def profile_requirements_def sel, intro conjI;
        (erule rows_change_other links_change_other, assumption))
  with assms show ?thesis by blast
qed

lemma dossier_insert_other: "pid \<noteq> sp_id p \<Longrightarrow> dossier_of pid (db\<lparr>pd_profiles := insert_row p (pd_profiles db)\<rparr>) = dossier_of pid db"
  by (simp add: dossier_of_def get_profile_row_def profile_requirements_def insert_row_def find_append split: option.split)

text \<open>A profile the user may not change stays as it is.\<close>

lemma effect_elsewhere:
  assumes "profile_effect N u db db'" and "pid \<notin> N" and "\<And>p. get_profile_mutable pid u db \<noteq> Inr p"
  shows "dossier_of pid db' = dossier_of pid db"
  using assms(1)
proof cases
  case idle
  then show ?thesis by (rule dossier_core)
next
  case (content i p)
  with assms(3) mutableD(3) show ?thesis by (metis dossier_content_other)
next
  case (row i p p')
  then have "pid \<noteq> sp_id p'" using assms(3) mutableD(3) by (fastforce simp: row_change_def)
  then show ?thesis using dossier_core [OF row(3)] dossier_put_other by simp
next
  case (edited i p b p' row_id)
  then have "pid \<noteq> i" "pid \<noteq> sp_id p'" using assms(3) mutableD(3) by fastforce+
  then show ?thesis using dossier_core [OF edited(4)] by (simp add: dossier_put_other dossier_sync_other split: if_splits)
next
  case (requirement i p j r r')
  then have "pid \<noteq> rr_profile_id r'" using assms(3) get_requirement_rowD [OF requirement(2)]
    by (auto simp: requirement_change_def)
  then show ?thesis using dossier_core [OF requirement(4)] dossier_requirement_other by simp
next
  case (created p row_id)
  then have "pid \<noteq> sp_id p" using assms(2) by auto
  then show ?thesis using dossier_core [OF created(4)] by (simp add: dossier_sync_other dossier_insert_other)
next
  case (deleted i p)
  then have "pid \<noteq> i" using assms(3) by auto
  then show ?thesis using dossier_core [OF deleted(3)] dossier_forget_other by simp
qed

lemma catalog_elsewhere:
  assumes "catalog_effect u db db'" "\<not> is_super_admin u" "get_profile_row pid db = Some p" "sp_org_id p \<noteq> u_org_id u"
    "references_local db"
  shows "dossier_of pid db' = dossier_of pid db"
  using assms(1)
proof cases
  case catalog_idle
  then show ?thesis by (rule dossier_core)
next
  case (directory cs)
  have "core db' = core (db\<lparr>pd_directory := cs\<rparr>)" using directory(2) by (simp add: core_def)
  from dossier_core [OF this] show ?thesis by (simp add: dossier_of_def get_profile_row_def profile_requirements_def)
next
  case (contact_gone cid c)
  let ?db = "db\<lparr>pd_directory := delete_where (\<lambda>r. ic_id r = cid) (pd_directory db),
      pd_contacts := delete_where (\<lambda>l. pl_target_id l = cid) (pd_contacts db)\<rparr>"
  have p: "p \<in> set (pd_profiles db)" "sp_id p = pid"
    using assms(3) by (auto simp: get_profile_row_def dest: find_SomeD)
  then have "\<forall>l\<in>set (pd_contacts db). pl_profile_id l = pid \<longrightarrow> local_contact db (sp_org_id p) (pl_target_id l)"
    using assms(5) by (auto simp: references_local_def local_rows_def)
  then have "\<forall>l\<in>set (pd_contacts db). pl_profile_id l = pid \<longrightarrow> pl_target_id l \<noteq> cid"
    using contact_gone(1,2) assms(2,4) by (auto simp: local_contact_def)
  then have "links_of pid (delete_where (\<lambda>l. pl_target_id l = cid) (pd_contacts db)) = links_of pid (pd_contacts db)"
    unfolding links_of_def by (intro filter_delete_where) auto
  moreover have "core db' = core ?db" using contact_gone(3) by (simp add: core_def)
  ultimately show ?thesis
    using dossier_core [of db' ?db pid] by (simp add: dossier_of_def get_profile_row_def profile_requirements_def)
qed (use assms(2) in simp_all)

text \<open>The user of the event is an administrator of another organisation.\<close>

definition outsider :: "uuid \<Rightarrow> dossier_event \<Rightarrow> bool" where
  "outsider g e \<longleftrightarrow> \<not> is_super_admin (event_user e) \<and> u_org_id (event_user e) \<noteq> g"

definition stands :: "uuid \<Rightarrow> uuid \<Rightarrow> dossier \<Rightarrow> profile_db \<Rightarrow> bool" where
  "stands g pid d db \<longleftrightarrow>
     references_local db \<and> dossier_of pid db = d \<and> (\<exists>p. get_profile_row pid db = Some p \<and> sp_org_id p = g)"

lemma outsider_step:
  assumes "fresh_event e db \<and> outsider g e" and "stands g pid d db"
  shows "stands g pid d (dossier_step e db)"
proof -
  from assms(2) obtain p where p: "get_profile_row pid db = Some p" "sp_org_id p = g" and loc: "references_local db"
    and d: "dossier_of pid db = d"
    by (auto simp: stands_def)
  have same: "dossier_of pid (dossier_step e db) = dossier_of pid db"
  proof (rule dossier_step_cases [of e db])
    assume eff: "profile_effect (event_ids e) (event_user e) db (dossier_step e db)"
    show ?thesis
    proof (rule effect_elsewhere [OF eff])
      have "p \<in> set (pd_profiles db)" "sp_id p = pid" using p(1) by (auto simp: get_profile_row_def dest: find_SomeD)
      then show "pid \<notin> event_ids e" using fresh_ids [of e db] assms(1) by auto
      show "get_profile_mutable pid (event_user e) db \<noteq> Inr q" for q
        using mutableD(1,4) [of pid "event_user e" db q] p assms(1) by (auto simp: outsider_def)
    qed
  next
    assume "catalog_effect (event_user e) db (dossier_step e db)"
    then show ?thesis by (rule catalog_elsewhere) (use p loc assms(1) in \<open>auto simp: outsider_def\<close>)
  qed
  then have "get_profile_row pid (dossier_step e db) = Some p" using p(1) by (simp add: dossier_of_def)
  with same d p(2) dossier_step_local [OF _ loc] assms(1) show ?thesis by (simp add: stands_def)
qed

interpretation outsiders: step_system dossier_step "\<lambda>e db. fresh_event e db \<and> outsider g e" "stands g pid d" for g pid d
  by unfold_locales (rule outsider_step)

text \<open>C24: no run of operations by administrators of other organisations, of organisations above included, changes
  anything of a profile: neither its row, nor what is declared below it, nor its requirements, nor its contacts.\<close>

theorem foreign_profiles_untouched:
  assumes "outsiders.admissible (sp_org_id p) es db" and "references_local db" and "get_profile_row pid db = Some p"
  shows "dossier_of pid (run dossier_step es db) = dossier_of pid db"
  using outsiders.run_inv [OF assms(1), of pid "dossier_of pid db"] assms(2,3) by (simp add: stands_def)

subsection \<open>Decided dossiers\<close>

text \<open>What stays fixed of an approved profile: its description without the drawing of the diagrams, the decision, and
  everything declared below it but the contacts.\<close>

definition drawn_apart :: "(string \<Rightarrow> json) \<Rightarrow> string \<Rightarrow> json" where
  "drawn_apart c k = (if k \<in> layout_fields then JNull else c k)"

definition sealed_row :: "system_profile \<Rightarrow> system_profile \<Rightarrow> bool" where
  "sealed_row p q \<longleftrightarrow> described q = described p \<and> decision_of q = decision_of p \<and> drawn_apart (sp_content q) = drawn_apart (sp_content p)"

definition sealed_rows :: "uuid \<Rightarrow> profile_db \<Rightarrow> dossier" where
  "sealed_rows pid db = (dossier_of pid db)\<lparr>ds_profile := None, ds_contacts := [], ds_requirements := []\<rparr>"

definition sealed :: "uuid \<Rightarrow> system_profile \<Rightarrow> dossier \<Rightarrow> profile_db \<Rightarrow> bool" where
  "sealed pid p d db \<longleftrightarrow>
     profiles_keyed db \<and> sealed_rows pid db = d \<and>
     (\<exists>q. get_profile_row pid db = Some q \<and> sp_status q \<in> frozen_statuses \<and> sealed_row p q)"

lemma sealed_rows_cong: "dossier_of pid db' = dossier_of pid db \<Longrightarrow> sealed_rows pid db' = sealed_rows pid db"
  by (simp add: sealed_rows_def)

lemma layout_content:
  assumes "\<not> (\<exists>(k, v)\<in>set cs. k \<notin> layout_fields)"
  shows "drawn_apart (fold (\<lambda>(k, v) c. c(k := v)) cs c) = drawn_apart c"
  using assms
proof (induction cs arbitrary: c)
  case (Cons kv cs)
  then show ?case by (cases kv) (auto simp: drawn_apart_def fun_eq_iff)
qed simp

lemma edit_of_frozen:
  assumes "\<not> edit_refused u q b" "\<not> is_super_admin u" "sp_status q \<in> frozen_statuses"
  shows "sealed_row q (reopened (changed_profile b q))" "\<not> level_changes b q"
    "sp_status (reopened (changed_profile b q)) = sp_status q"
proof -
  from assms have b: "pc_name b = None" "pc_level b = None" "\<not> (\<exists>(k, v)\<in>set (pc_content b). k \<notin> layout_fields)"
    by (auto simp: edit_refused_def)
  from b layout_content [OF b(3), of "sp_content q"] show "sealed_row q (reopened (changed_profile b q))"
    by (simp add: sealed_row_def described_def decision_of_def reopened_def changed_profile_def or_old_def)
  show "\<not> level_changes b q" using b(2) by (simp add: level_changes_def)
  show "sp_status (reopened (changed_profile b q)) = sp_status q"
    using assms(3) by (auto simp: reopened_def changed_profile_def frozen_statuses_def)
qed

lemma sealed_row_trans: "sealed_row p q \<Longrightarrow> sealed_row q r \<Longrightarrow> sealed_row p r"
  by (simp add: sealed_row_def)

lemma sealed_effect:
  assumes eff: "profile_effect N u db db'" and seal: "sealed pid p d db" and "\<not> is_super_admin u" and "pid \<notin> N"
    and keyed: "profiles_keyed db'"
  shows "sealed pid p d db'"
proof (cases "\<exists>q. get_profile_mutable pid u db = Inr q")
  case False
  then have same: "dossier_of pid db' = dossier_of pid db" by (intro effect_elsewhere [OF eff assms(4)]) auto
  then have "get_profile_row pid db' = get_profile_row pid db" by (simp add: dossier_of_def)
  with sealed_rows_cong [OF same] show ?thesis using seal keyed by (simp add: sealed_def)
next
  case True
  then obtain q where mut: "get_profile_mutable pid u db = Inr q" by blast
  from seal mutableD(1) [OF mut] have frozen: "sp_status q \<in> frozen_statuses" and seal': "sealed_row p q" "sealed_rows pid db = d"
    by (auto simp: sealed_def)
  have same: ?thesis if "dossier_of pid db' = dossier_of pid db"
    using that seal keyed sealed_rows_cong [OF that] by (simp add: sealed_def dossier_of_def)
  from eff show ?thesis
  proof cases
    case idle
    then show ?thesis by (intro same dossier_core)
  next
    case (content i r)
    then have "r \<noteq> q" using frozen assms(3) by (auto simp: assert_profile_content_mutable_def)
    then have "pid \<noteq> sp_id r"
      using keyed_unique [of db r q] seal mutableD(2,3) [OF mut] mutableD(2) [OF content(1)] by (auto simp: sealed_def)
    with content(3) show ?thesis by (intro same dossier_content_other)
  next
    case (row i r r')
    show ?thesis
    proof (cases "i = pid")
      case True
      with row mut have r: "r = q" "sp_id r' = pid" using mutableD(3) [OF mut] by (auto simp: row_change_def)
      have "sealed_row q r'" "sp_status r' \<in> frozen_statuses"
        using row(2) assms(3) frozen
        by (auto simp: r row_change_def sealed_row_def edge_or_same_def frozen_statuses_def elim: workflow_edge.cases)
      moreover have "get_profile_row pid db' = Some r'"
        using dossier_core [OF row(3), of pid] get_put_profile [of pid r' db] mutableD(1) [OF mut] r(2) by (simp add: dossier_of_def)
      moreover have "sealed_rows pid db' = sealed_rows pid db"
        using dossier_core [OF row(3), of pid] by (simp add: sealed_rows_def dossier_of_def)
      ultimately show ?thesis using keyed seal' sealed_row_trans by (auto simp: sealed_def)
    next
      case False
      then have "pid \<noteq> sp_id r'" using row mutableD(3) [OF row(1)] by (auto simp: row_change_def)
      then show ?thesis using dossier_core [OF row(3)] dossier_put_other by (intro same) simp
    qed
  next
    case (edited i r b r' row_id)
    show ?thesis
    proof (cases "i = pid")
      case True
      with edited mut have r: "r = q" "sp_id r' = pid" using mutableD(3) [OF mut] by auto
      note e = edit_of_frozen [OF edited(2) [unfolded r] assms(3) frozen]
      have core: "core db' = core (put_profile r' db)" using edited(4) e(2) by (simp add: r)
      have "get_profile_row pid db' = Some r'"
        using dossier_core [OF core, of pid] get_put_profile [of pid r' db] mutableD(1) [OF mut] r(2) by (simp add: dossier_of_def)
      moreover have "sealed_rows pid db' = sealed_rows pid db"
        using dossier_core [OF core, of pid] by (simp add: sealed_rows_def dossier_of_def)
      moreover have "sealed_row q r'" "sp_status r' \<in> frozen_statuses" using e(1,3) frozen by (simp_all add: edited(3) r)
      ultimately show ?thesis using keyed seal' sealed_row_trans by (auto simp: sealed_def)
    next
      case False
      then have "pid \<noteq> i" "pid \<noteq> sp_id r'" using edited(3) mutableD(3) [OF edited(1)] by auto
      then show ?thesis using dossier_core [OF edited(4)]
        by (intro same) (simp add: dossier_put_other dossier_sync_other split: if_splits)
    qed
  next
    case (requirement i r j a a')
    have "get_profile_row pid db' = get_profile_row pid db" "sealed_rows pid db' = sealed_rows pid db"
      using dossier_core [OF requirement(4), of pid] by (simp_all add: sealed_rows_def dossier_of_def get_profile_row_def)
    then show ?thesis using seal keyed by (simp add: sealed_def)
  next
    case (created r row_id)
    then have "pid \<noteq> sp_id r" using assms(4) by auto
    then show ?thesis using dossier_core [OF created(4)] by (intro same) (simp add: dossier_sync_other dossier_insert_other)
  next
    case (deleted i r)
    have "i \<noteq> pid" using deleted(1,2) mut frozen assms(3) by (auto simp: frozen_statuses_def)
    then show ?thesis using dossier_core [OF deleted(3)] dossier_forget_other by (intro same) simp
  qed
qed

lemma sealed_catalog:
  assumes "catalog_effect u db db'" "sealed pid p d db" "\<not> is_super_admin u"
  shows "sealed pid p d db'"
proof -
  have "get_profile_row pid db' = get_profile_row pid db \<and> sealed_rows pid db' = sealed_rows pid db \<and>
      pd_profiles db' = pd_profiles db"
    using assms(1)
  proof cases
    case catalog_idle
    from dossier_core [OF this] core_cong(7) [OF this] show ?thesis by (simp add: sealed_rows_def get_profile_row_def)
  next
    case (directory cs)
    have "core db' = core (db\<lparr>pd_directory := cs\<rparr>)" using directory(2) by (simp add: core_def)
    from core_cong [OF this] show ?thesis by (simp add: sealed_rows_def dossier_of_def get_profile_row_def)
  next
    case (contact_gone cid c)
    let ?db = "db\<lparr>pd_directory := delete_where (\<lambda>r. ic_id r = cid) (pd_directory db),
        pd_contacts := delete_where (\<lambda>l. pl_target_id l = cid) (pd_contacts db)\<rparr>"
    have "core db' = core ?db" using contact_gone(3) by (simp add: core_def)
    from core_cong [OF this] show ?thesis by (simp add: sealed_rows_def dossier_of_def get_profile_row_def)
  qed (use assms(3) in simp_all)
  with assms(2) show ?thesis by (simp add: sealed_def profiles_keyed_def)
qed

lemma sealed_fresh: "fresh_event e db \<Longrightarrow> sealed pid p d db \<Longrightarrow> pid \<notin> event_ids e"
  using fresh_ids [of e db] by (auto simp: sealed_def get_profile_row_def dest!: find_SomeD)

interpretation sealing: step_system dossier_step "\<lambda>e db. fresh_event e db \<and> \<not> is_super_admin (event_user e)" "sealed pid p d" for pid p d
proof unfold_locales
  fix e db
  assume ok: "fresh_event e db \<and> \<not> is_super_admin (event_user e)" and seal: "sealed pid p d db"
  then have keyed: "profiles_keyed (dossier_step e db)"
    by (intro dossier_keys.step_inv) (auto simp: sealed_def)
  show "sealed pid p d (dossier_step e db)"
  proof (rule dossier_step_cases [of e db])
    assume "profile_effect (event_ids e) (event_user e) db (dossier_step e db)"
    then show ?thesis by (rule sealed_effect [OF _ seal]) (use ok sealed_fresh [OF _ seal] keyed in auto)
  next
    assume "catalog_effect (event_user e) db (dossier_step e db)"
    then show ?thesis by (rule sealed_catalog [OF _ seal]) (use ok in simp)
  qed
qed

text \<open>C25: once a profile is approved, no run of operations by organisation administrators, of whatever organisations,
  changes what was approved: its code, name, level and description (the drawing of the diagrams aside), its decision and
  officer, the devices, parties, applications, address ranges and attached machines. It stays approved or becomes
  implemented.\<close>

theorem approved_dossier_sealed:
  assumes "sealing.admissible es db" and "profiles_keyed db"
    and "get_profile_row pid db = Some p" and "sp_status p \<in> frozen_statuses"
  shows "sealed pid p (sealed_rows pid db) (run dossier_step es db)"
proof (rule sealing.run_inv [OF assms(1)])
  show "sealed pid p (sealed_rows pid db) db" using assms(2-4) by (simp add: sealed_def sealed_row_def)
qed

subsection \<open>Gaps\<close>

definition sample_super :: user where
  "sample_super = sample_user\<lparr>u_role := SUPER_ADMIN\<rparr>"

definition sample_row :: requirement_row where
  "sample_row = \<lparr>rr_id = 50, rr_profile_id = 40, rr_requirement_id = 31, rr_status = RQ_VERIFIED, rr_evidence = None,
     rr_requested_by = None, rr_requested_at = None, rr_reviewed_by = None, rr_reviewed_at = None, rr_review_note = None\<rparr>"

definition sample_contact :: it_contact where
  "sample_contact = \<lparr>ic_id = 60, ic_org_id = 10, ic_kind = ''person'', ic_name = ''A'', ic_position = None,
     ic_contact_person = None, ic_phone = None, ic_email = None, ic_address = None, ic_note = None, ic_created_by = 1\<rparr>"

definition sample_dossier_db :: "profile_status \<Rightarrow> profile_db" where
  "sample_dossier_db st = sample_profile_db\<lparr>pd_profiles := [sample_profile\<lparr>sp_status := st, sp_decision_number := Some ''7''\<rparr>],
     pd_requirements := [sample_row], pd_directory := [sample_contact],
     pd_contacts := [\<lparr>pl_profile_id = 40, pl_target_id = 60, pl_note = None\<rparr>]\<rparr>"

lemma sample_super_sel [simp]: "is_super_admin sample_super" "u_role sample_super \<in> super_admin_roles"
    "u_role sample_super \<in> admin_roles"
  by (simp_all add: sample_super_def is_super_admin_def super_admin_roles_def admin_roles_def)

lemma sample_sel [simp]:
  "pd_profiles (sample_dossier_db st) = [sample_profile\<lparr>sp_status := st, sp_decision_number := Some ''7''\<rparr>]"
  "pd_requirements (sample_dossier_db st) = [sample_row]" "pd_directory (sample_dossier_db st) = [sample_contact]"
  "pd_contacts (sample_dossier_db st) = [\<lparr>pl_profile_id = 40, pl_target_id = 60, pl_note = None\<rparr>]"
  "pd_devices (sample_dossier_db st) = []" "pd_applications (sample_dossier_db st) = []" "pd_machines (sample_dossier_db st) = []"
  "pd_orgs (sample_dossier_db st) = [(10, None), (11, None)]" "pd_catalog (sample_dossier_db st) = pd_catalog sample_profile_db"
  "rr_profile_id sample_row = 40" "rr_status sample_row = RQ_VERIFIED" "rr_requirement_id sample_row = 31"
  "ic_id sample_contact = 60" "ic_org_id sample_contact = 10" "sp_id sample_profile = 40" "sp_org_id sample_profile = 10"
  "sp_level sample_profile = 1"
  by (simp_all add: sample_dossier_db_def sample_row_def sample_contact_def sample_profile_db_def sample_profile_sel)

lemma sample_compliant: "compliance_inv (sample_dossier_db SP_IMPLEMENTED)"
  by (simp add: compliance_inv_def profiles_keyed_def decided_and_compliant_def all_verified_def profile_requirements_def)

text \<open>The excluded level change does break the invariant: a super administrator gives an implemented profile another level
  and confirms it; it is fulfilled with a requirement that nobody has verified.\<close>

theorem relevelled_profile_fulfilled:
  "compliance_inv (sample_dossier_db SP_IMPLEMENTED) \<and>
   (let db' = run dossier_step [Inl (1, None, sample_super, Update_profile (\<lambda>i. i + 100) 40 sample_level_change),
       Inl (2, None, sample_super, Confirm 40 None)] (sample_dossier_db SP_IMPLEMENTED)
    in map sp_status (pd_profiles db') = [SP_FULFILLED] \<and> \<not> all_verified 40 db')"
  by (simp add: sample_compliant Let_def as_role_def update_profile_def on_profile_def get_profile_mutable_def
      get_profile_scoped_def get_profile_row_def sample_level_change_def level_changes_def update_events_def
      profile_audit_def log_event_def put_profile_def reopened_def changed_profile_def or_old_def changed_labels_def
      List.map_filter_def sync_profile_requirements_def level_catalog_def profile_requirements_def delete_where_def update_where_def
      sample_profile_db_def pending_row_def confirm_implementation_def answer_def all_verified_def
      Collect_conv_if Collect_disj_eq conj_disj_distribR)

text \<open>The seal on the attached contacts is incomplete: detaching one from an approved profile is refused, deleting it from
  the directory detaches it.\<close>

theorem contact_deletion_passes_seal:
  "dossier_of 40 (dossier_step (Inl (1, None, sample_user, Detach_contact 40 60)) (sample_dossier_db SP_APPROVED)) =
     dossier_of 40 (sample_dossier_db SP_APPROVED) \<and>
   ds_contacts (dossier_of 40 (sample_dossier_db SP_APPROVED)) \<noteq> [] \<and>
   ds_contacts (dossier_of 40 (dossier_step (Inr (1, None, sample_user, Delete_contact 60)) (sample_dossier_db SP_APPROVED))) = []"
  by (simp add: as_role_def detach_contact_def on_content_def on_profile_def get_profile_mutable_def get_profile_scoped_def
      get_profile_row_def sample_user_sel sample_user_scope assert_profile_content_mutable_def frozen_statuses_def
      delete_contact_def get_contact_def foreign_contact_def profile_audit_def dossier_of_def links_of_def delete_where_def)

subsection \<open>Witnesses\<close>

definition sample_event :: dossier_event where
  "sample_event = Inl (1, None, sample_user, Submit 40)"

lemma sample_fresh [simp]: "fresh_event (Inl (now, ip, u, Submit pid)) db"
  by (simp add: fresh_event_def)

lemma sample_keyed [simp]: "profiles_keyed (sample_dossier_db st)"
  by (simp add: profiles_keyed_def)

lemma sample_refused: "st \<in> frozen_statuses \<Longrightarrow> dossier_step sample_event (sample_dossier_db st) = sample_dossier_db st"
  by (auto simp: sample_event_def submit_profile_def on_profile_def as_role_def get_profile_mutable_def get_profile_scoped_def
      get_profile_row_def sample_user_sel sample_user_scope frozen_statuses_def)

lemma profile_workflow_refined_witness:
  "workflow_step False (statuses (sample_dossier_db SP_DRAFTED)) (statuses (dossier_step sample_event (sample_dossier_db SP_DRAFTED)))"
  using profile_workflow_refined [of "sample_dossier_db SP_DRAFTED" sample_event]
  by (simp add: sample_event_def sample_user_sel)

lemma implemented_profiles_compliant_witness:
  "compliance_inv (run dossier_step [sample_event] (sample_dossier_db SP_IMPLEMENTED))"
proof (rule implemented_profiles_compliant [OF _ sample_compliant])
  have "keeps_level sample_event (sample_dossier_db SP_IMPLEMENTED)"
    by (simp add: keeps_level_def sample_refused frozen_statuses_def)
  then show "compliance.admissible [sample_event] (sample_dossier_db SP_IMPLEMENTED)" by (simp add: sample_event_def)
qed

lemma sample_local: "references_local (sample_dossier_db st)"
  by (simp add: references_local_def local_rows_def local_contact_def get_contact_def)

lemma profile_references_local_witness: "references_local (run dossier_step [sample_event] (sample_dossier_db SP_DRAFTED))"
  by (rule profile_references_local [OF _ sample_local]) (simp add: sample_event_def)

lemma foreign_profiles_untouched_witness:
  "dossier_of 40 (run dossier_step [Inl (1, None, sample_user\<lparr>u_org_id := 11\<rparr>, Submit 40)] (sample_dossier_db SP_DRAFTED)) =
     dossier_of 40 (sample_dossier_db SP_DRAFTED)"
proof (rule foreign_profiles_untouched [OF _ sample_local])
  let ?p = "sample_profile\<lparr>sp_status := SP_DRAFTED, sp_decision_number := Some ''7''\<rparr>"
  have sample_other: "\<not> is_super_admin (sample_user\<lparr>u_org_id := 11\<rparr>)"
    using sample_user_sel(2) by (simp add: is_super_admin_def)
  show "get_profile_row 40 (sample_dossier_db SP_DRAFTED) = Some ?p" by (simp add: get_profile_row_def)
  show "outsiders.admissible (sp_org_id ?p) [Inl (1, None, sample_user\<lparr>u_org_id := 11\<rparr>, Submit 40)] (sample_dossier_db SP_DRAFTED)"
    unfolding outsiders.admissible.simps using sample_other by (simp add: outsider_def)
qed

lemma approved_dossier_sealed_witness:
  "\<exists>q. get_profile_row 40 (run dossier_step [sample_event] (sample_dossier_db SP_APPROVED)) = Some q \<and> sp_decision_number q = Some ''7''"
proof -
  let ?p = "sample_profile\<lparr>sp_status := SP_APPROVED, sp_decision_number := Some ''7''\<rparr>"
  have "sealed 40 ?p (sealed_rows 40 (sample_dossier_db SP_APPROVED)) (run dossier_step [sample_event] (sample_dossier_db SP_APPROVED))"
    by (rule approved_dossier_sealed)
      (simp_all add: sample_event_def sample_user_sel get_profile_row_def frozen_statuses_def)
  then show ?thesis by (auto simp: sealed_def sealed_row_def decision_of_def)
qed

end
