(* ===== verification/Investigation.thy ===== *)
theory Investigation
  imports Monitor
begin

text \<open>
  Investigations of machines with the help of a language model: the state, the queue of jobs for the DeepAgent
  service and its reconciliation, of \<open>services/dfir_investigation.py\<close>. A worker loads rows into its session and
  writes back the columns it changed; what other sessions wrote in the meantime stays in the others. The DeepAgent
  service, the Velociraptor client and the language model are parameters; the prompts, and the severity and the
  number of findings that are read from a report, belong to the answer of the model. Calls of the alert engine are
  recorded, their exceptions are caught by the code.
\<close>

subsection \<open>State\<close>

datatype inv_status = IV_PENDING | IV_RUNNING | IV_COLLECTING | IV_ANALYZING | IV_COMPLETED | IV_FAILED

record flow =
  fw_artifact :: string
  fw_flow_id :: "string option"
  fw_error :: "string option"
  fw_results :: "json option"
  fw_results_error :: "string option"
  fw_cached :: bool

record investigation =
  iv_id :: uuid
  iv_machine_id :: uuid
  iv_client_id :: "string option"
  iv_flow_id :: "string option"
  iv_artifacts :: "string list"
  iv_status :: inv_status
  iv_llm_provider :: "string option"
  iv_llm_model :: "string option"
  iv_input_tokens :: "int option"
  iv_output_tokens :: "int option"
  iv_cost :: "rat option"
  iv_report :: "string option"
  iv_severity :: "string option"
  iv_findings_count :: "int option"
  iv_raw_artifacts :: "flow list option"
  iv_instructions :: "string option"
  iv_orchestrator :: "string option"
  iv_job_id :: "string option"
  iv_polled_at :: "time option"
  iv_hermes_status :: "string option"
  iv_hermes_response :: json
  iv_findings :: "json list option"
  iv_iocs :: "json list option"
  iv_callback_at :: "time option"
  iv_key :: "string option"  \<comment> \<open>the idempotency key of the callback\<close>
  iv_error :: "string option"
  iv_requested_by :: uuid
  iv_started_at :: "time option"
  iv_completed_at :: "time option"
  iv_created_at :: time

record inv_message =
  im_investigation_id :: uuid
  im_role :: string
  im_content :: string
  im_tokens :: "int option"

record llm_config =
  lc_enabled :: bool
  lc_provider :: string
  lc_base_url :: string
  lc_api_key_encrypted :: "string option"
  lc_model :: string
  lc_fallback_model :: "string option"
  lc_system_prompt :: "string option"
  lc_max_tokens :: int
  lc_temperature :: rat
  lc_request_timeout :: int
  lc_max_context_chars :: int
  lc_allow_cloud :: bool
  lc_external_orchestrator :: string
  lc_deepagent_enabled :: bool
  lc_deepagent_url :: "string option"
  lc_service_token_encrypted :: "string option"
  lc_daily_token_budget :: "int option"
  lc_tokens_used_today :: int
  lc_test_status :: "string option"
  lc_test_error :: "string option"
  lc_test_at :: "time option"
  lc_updated_at :: time
  lc_updated_by :: "uuid option"

record velo_link =
  vl_machine_id :: uuid
  vl_client_id :: "string option"
  vl_os_info :: json

record velo_artifact =
  va_name :: string
  va_definition_yaml :: string
  va_enabled :: bool
  va_type :: string
  va_platforms :: "string list"
  va_priority :: int
  va_tier :: int

record artifact_ref =
  rf_name :: string
  rf_description :: string
  rf_tier :: int
  rf_platforms :: "string list"

text \<open>What is sent to DeepAgent (schema \<open>dfir.deepagent.request/1.2\<close>).\<close>

record da_request =
  dr_job :: string
  dr_investigation_id :: uuid
  dr_client_id :: string
  dr_hostname :: string
  dr_platform :: string
  dr_time_from :: time
  dr_time_to :: time
  dr_activity :: string
  dr_base_url :: string
  dr_api_key :: string
  dr_model :: string
  dr_temperature :: rat
  dr_timeout :: int
  dr_max_tokens :: int
  dr_system_prompt :: "string option"
  dr_yaml :: string
  dr_artifacts :: "artifact_ref list"

record dfir =
  df_rows :: "investigation list"
  df_messages :: "inv_message list"
  df_llm :: "llm_config option"
  df_velo :: "string option option"  \<comment> \<open>the row of the Velociraptor configuration: its sealed client configuration\<close>
  df_links :: "velo_link list"
  df_machines :: "machine list"
  df_current :: "(uuid \<times> string option) list"  \<comment> \<open>the platform of each machine in the inventory\<close>
  df_artifacts :: "velo_artifact list"
  df_keys :: "api_key list"
  df_log :: "audit_row list"
  df_alerts :: "trigger list"  \<comment> \<open>the calls of the alert engine\<close>
  df_sent :: "da_request list"  \<comment> \<open>the requests sent to DeepAgent\<close>

text \<open>The settings of the process (\<open>core/config.py\<close>).\<close>

record da_settings =
  dg_enabled :: bool
  dg_url :: string
  dg_token :: string
  dg_timeout :: int
  dg_lookback :: int
  dg_max_jobs :: nat
  dg_max_uncertain :: int
  dg_collect_wait :: int
  dg_orchestrator :: string
  dg_artifacts :: "string list"

definition da_settings_ok :: "da_settings \<Rightarrow> bool" where
  "da_settings_ok g \<longleftrightarrow> 1 \<le> dg_max_jobs g \<and> dg_max_jobs g \<le> 12 \<and> 60 \<le> dg_max_uncertain g"

text \<open>An exception is its class and its message.\<close>

type_synonym py_exc = "string \<times> string"

definition exc_text :: "py_exc \<Rightarrow> string" where
  "exc_text e = fst e @ '': '' @ snd e"

definition llm_error :: "string \<Rightarrow> py_exc" where
  "llm_error m = (''LlmError'', m)"

fun jget :: "string \<Rightarrow> json \<Rightarrow> json option" where
  "jget k (JObj kvs) = map_of kvs k"
| "jget k _ = None"

fun is_object :: "json \<Rightarrow> bool" where
  "is_object (JObj _) = True"
| "is_object _ = False"

subsection \<open>The session of a worker\<close>

definition col :: "'a \<Rightarrow> 'a \<Rightarrow> 'a \<Rightarrow> 'a" where
  "col old new db = (if new = old then db else new)"

text \<open>The columns any operation changes: those that differ from what was loaded are written.\<close>

definition flush_row :: "investigation \<Rightarrow> investigation \<Rightarrow> investigation \<Rightarrow> investigation" where
  "flush_row old new r = r\<lparr>
     iv_flow_id := col (iv_flow_id old) (iv_flow_id new) (iv_flow_id r),
     iv_status := col (iv_status old) (iv_status new) (iv_status r),
     iv_llm_provider := col (iv_llm_provider old) (iv_llm_provider new) (iv_llm_provider r),
     iv_llm_model := col (iv_llm_model old) (iv_llm_model new) (iv_llm_model r),
     iv_input_tokens := col (iv_input_tokens old) (iv_input_tokens new) (iv_input_tokens r),
     iv_output_tokens := col (iv_output_tokens old) (iv_output_tokens new) (iv_output_tokens r),
     iv_cost := col (iv_cost old) (iv_cost new) (iv_cost r),
     iv_report := col (iv_report old) (iv_report new) (iv_report r),
     iv_severity := col (iv_severity old) (iv_severity new) (iv_severity r),
     iv_findings_count := col (iv_findings_count old) (iv_findings_count new) (iv_findings_count r),
     iv_raw_artifacts := col (iv_raw_artifacts old) (iv_raw_artifacts new) (iv_raw_artifacts r),
     iv_job_id := col (iv_job_id old) (iv_job_id new) (iv_job_id r),
     iv_polled_at := col (iv_polled_at old) (iv_polled_at new) (iv_polled_at r),
     iv_hermes_status := col (iv_hermes_status old) (iv_hermes_status new) (iv_hermes_status r),
     iv_hermes_response := col (iv_hermes_response old) (iv_hermes_response new) (iv_hermes_response r),
     iv_findings := col (iv_findings old) (iv_findings new) (iv_findings r),
     iv_iocs := col (iv_iocs old) (iv_iocs new) (iv_iocs r),
     iv_callback_at := col (iv_callback_at old) (iv_callback_at new) (iv_callback_at r),
     iv_key := col (iv_key old) (iv_key new) (iv_key r),
     iv_error := col (iv_error old) (iv_error new) (iv_error r),
     iv_started_at := col (iv_started_at old) (iv_started_at new) (iv_started_at r),
     iv_completed_at := col (iv_completed_at old) (iv_completed_at new) (iv_completed_at r)\<rparr>"

definition commit_row :: "investigation \<Rightarrow> investigation \<Rightarrow> dfir \<Rightarrow> dfir" where
  "commit_row old new db = db\<lparr>df_rows := update_where (\<lambda>r. iv_id r = iv_id old) (flush_row old new) (df_rows db)\<rparr>"

definition fail_row :: "time \<Rightarrow> string \<Rightarrow> investigation \<Rightarrow> investigation" where
  "fail_row now msg iv = iv\<lparr>iv_status := IV_FAILED, iv_error := Some (take 2000 msg), iv_completed_at := Some now\<rparr>"

definition hermes_note :: "string \<Rightarrow> json \<Rightarrow> investigation \<Rightarrow> investigation" where
  "hermes_note st resp iv = iv\<lparr>iv_hermes_status := Some st, iv_hermes_response := resp\<rparr>"

definition reason :: "string \<Rightarrow> json" where
  "reason r = JObj [(''reason'', JStr r)]"

definition get_inv :: "uuid \<Rightarrow> dfir \<Rightarrow> investigation option" where
  "get_inv i db = find (\<lambda>r. iv_id r = i) (df_rows db)"

definition get_df_machine :: "uuid \<Rightarrow> dfir \<Rightarrow> machine option" where
  "get_df_machine i db = find (\<lambda>m. m_id m = i) (df_machines db)"

subsection \<open>Configuration, platforms and artifacts\<close>

definition is_llm_enabled :: "dfir \<Rightarrow> bool" where
  "is_llm_enabled db =
     (case df_llm db of None \<Rightarrow> False | Some c \<Rightarrow> lc_enabled c \<and> lc_base_url c \<noteq> [] \<and> lc_model c \<noteq> [])"

definition decrypt_api_key :: "crypto \<Rightarrow> settings \<Rightarrow> string option \<Rightarrow> string option" where
  "decrypt_api_key x cfg enc = (if \<not> truthy enc then None else decrypt_aes_gcm x cfg (the enc))"

text \<open>\<open>str\<close> of a value that is no text is not the name of a platform.\<close>

definition normalize_platform :: "json option \<Rightarrow> string option" where
  "normalize_platform v =
     (let normalized = (case v of Some (JStr s) \<Rightarrow> lower (strip s) | _ \<Rightarrow> [])
      in if normalized = ''darwin'' then Some ''macos''
         else if normalized \<in> {''windows'', ''linux'', ''macos''} then Some normalized else None)"

definition find_link :: "uuid \<Rightarrow> dfir \<Rightarrow> velo_link option" where
  "find_link mid db = find (\<lambda>l. vl_machine_id l = mid) (df_links db)"

definition resolve_target_platform :: "uuid \<Rightarrow> dfir \<Rightarrow> py_exc + string" where
  "resolve_target_platform mid db =
     (case normalize_platform (case find_link mid db of None \<Rightarrow> None | Some l \<Rightarrow> jget ''system'' (vl_os_info l)) of
        Some p \<Rightarrow> Inr p
      | None \<Rightarrow>
          (case normalize_platform (case map_of (df_current db) mid of
                    Some (Some p) \<Rightarrow> Some (JStr p) | _ \<Rightarrow> None) of
             Some p \<Rightarrow> Inr p
           | None \<Rightarrow> Inl (llm_error ''Khong xac dinh duoc nen tang he dieu hanh cua may dieu tra'')))"

definition known_platforms :: "string list" where
  "known_platforms = [''windows'', ''linux'', ''macos'']"

text \<open>\<open>describe\<close> is the description that the YAML text of an artifact carries, if it parses.\<close>

definition artifact_ref_of :: "(string \<Rightarrow> string option) \<Rightarrow> velo_artifact \<Rightarrow> artifact_ref" where
  "artifact_ref_of describe row =
     (let platforms = (if va_platforms row \<noteq> [] then va_platforms row else [''windows'']);
          valid = filter (\<lambda>p. p \<in> set known_platforms) platforms
      in \<lparr>rf_name = va_name row,
          rf_description = (case describe (va_definition_yaml row) of None \<Rightarrow> [] | Some d \<Rightarrow> take 300 d),
          rf_tier = (if va_tier row = 1 then 1 else 2),
          rf_platforms = (if valid = [] then [''windows''] else valid)\<rparr>)"

definition load_custom_artifact_refs :: "(string \<Rightarrow> string option) \<Rightarrow> string \<Rightarrow> dfir \<Rightarrow> artifact_ref list" where
  "load_custom_artifact_refs describe platform db =
     map (artifact_ref_of describe)
       (take 20 (sort_key (\<lambda>a. - va_priority a) (sort_key va_name
          (filter (\<lambda>a. va_enabled a \<and> va_type a = ''CLIENT'' \<and> platform \<in> set (va_platforms a)) (df_artifacts db)))))"

subsection \<open>Alerts\<close>

definition notify_investigation_result ::
  "time \<Rightarrow> uuid \<Rightarrow> uuid \<Rightarrow> bool \<Rightarrow> string option \<Rightarrow> int option \<Rightarrow> string option \<Rightarrow> string option \<Rightarrow> dfir \<Rightarrow> dfir" where
  "notify_investigation_result now iid mid completed severity findings model err db =
     (let m = get_df_machine mid db;
          ctx = [(''hostname'', (case m of None \<Rightarrow> None | Some m \<Rightarrow> m_hostname m)),
                 (''investigation_id'', Some (uuid_str iid))] @
            (if completed
             then [(''findings_count'', Some (str_int (case findings of None \<Rightarrow> 0 | Some n \<Rightarrow> n))),
                   (''severity'', Some (or_truthy severity ''info'')), (''llm_model'', Some (or_truthy model ''-''))]
             else [(''error'', Some (take 300 (or_truthy err [])))])
      in db\<lparr>df_alerts := df_alerts db @
           [\<lparr>tr_now = now, tr_code = (if completed then ''investigation_completed'' else ''investigation_failed''),
             tr_org = map_option m_org_id m, tr_machine = Some mid, tr_vars = ctx\<rparr>]\<rparr>)"

subsection \<open>Creation\<close>

definition orchestrator_choice :: "da_settings \<Rightarrow> bool option \<Rightarrow> llm_config option \<Rightarrow> string option" where
  "orchestrator_choice g use c =
     (let configured = (let own = (case c of None \<Rightarrow> [] | Some c \<Rightarrow> lc_external_orchestrator c)
                        in if own \<noteq> [] then own else dg_orchestrator g)
      in case use of
           Some True \<Rightarrow> Some (if configured \<noteq> [] then configured else ''hermes'')
         | Some False \<Rightarrow> None
         | None \<Rightarrow> (if configured \<noteq> [] then Some configured else None))"

definition new_investigation ::
  "uuid \<Rightarrow> time \<Rightarrow> uuid \<Rightarrow> string \<Rightarrow> string list \<Rightarrow> string option \<Rightarrow> string option \<Rightarrow> uuid \<Rightarrow> investigation" where
  "new_investigation iid now mid client artifacts instructions orch requester =
     \<lparr>iv_id = iid, iv_machine_id = mid, iv_client_id = Some client, iv_flow_id = None, iv_artifacts = artifacts,
      iv_status = IV_PENDING, iv_llm_provider = None, iv_llm_model = None, iv_input_tokens = None,
      iv_output_tokens = None, iv_cost = None, iv_report = None, iv_severity = None, iv_findings_count = None,
      iv_raw_artifacts = None, iv_instructions = instructions, iv_orchestrator = orch, iv_job_id = None,
      iv_polled_at = None, iv_hermes_status = None, iv_hermes_response = JNull, iv_findings = None, iv_iocs = None,
      iv_callback_at = None, iv_key = None, iv_error = None, iv_requested_by = requester, iv_started_at = None,
      iv_completed_at = None, iv_created_at = now\<rparr>"

definition create_investigation_row ::
  "da_settings \<Rightarrow> time \<Rightarrow> uuid \<Rightarrow> uuid \<Rightarrow> string list option \<Rightarrow> string option \<Rightarrow> uuid \<Rightarrow> bool option \<Rightarrow> dfir \<Rightarrow>
   (py_exc + investigation) \<times> dfir" where
  "create_investigation_row g now iid mid artifacts instructions requester use db =
     (if \<not> is_llm_enabled db then (Inl (llm_error ''LLM chua duoc cau hinh hoac chua bat.''), db)
      else case find_link mid db of
        None \<Rightarrow> (Inl (llm_error ''May chua duoc link voi Velociraptor''), db)
      | Some l \<Rightarrow>
          if \<not> truthy (vl_client_id l) then (Inl (llm_error ''May chua duoc link voi Velociraptor''), db)
          else
            (let arts = (case artifacts of None \<Rightarrow> dg_artifacts g | Some a \<Rightarrow> if a = [] then dg_artifacts g else a);
                 orch = orchestrator_choice g use (df_llm db);
                 iv = new_investigation iid now mid (the (vl_client_id l)) arts instructions orch requester
             in if orch \<notin> {None, Some ''hermes'', Some ''deepagent''}
                then (Inl (llm_error ''external_orchestrator chi ho tro hermes hoac deepagent''), db)
                else (Inr iv, db\<lparr>df_rows := insert_row iv (df_rows db)\<rparr>)))"

subsection \<open>The queue of the DeepAgent service\<close>

definition is_deepagent :: "investigation \<Rightarrow> bool" where
  "is_deepagent iv \<longleftrightarrow> iv_orchestrator iv = Some ''deepagent''"

definition deepagent_in :: "inv_status \<Rightarrow> dfir \<Rightarrow> investigation list" where
  "deepagent_in st db = filter (\<lambda>iv. is_deepagent iv \<and> iv_status iv = st) (df_rows db)"

definition job_name :: "uuid \<Rightarrow> string" where
  "job_name i = ''deepagent-'' @ uuid_str i"

definition reserve :: "investigation \<Rightarrow> investigation" where
  "reserve iv = iv\<lparr>iv_job_id := Some (job_name (iv_id iv))\<rparr>"

definition commit_rows :: "(investigation \<Rightarrow> investigation) \<Rightarrow> investigation list \<Rightarrow> dfir \<Rightarrow> dfir" where
  "commit_rows f rows db = foldl (\<lambda>d iv. commit_row iv (f iv) d) db rows"

definition claim_deepagent_dispatches :: "nat \<Rightarrow> dfir \<Rightarrow> investigation list \<times> dfir" where
  "claim_deepagent_dispatches capacity db =
     (let available = capacity - length (deepagent_in IV_ANALYZING db) in
      if capacity = 0 \<or> available = 0 then ([], db)
      else
        (let rows = take available (sort_key iv_created_at (deepagent_in IV_PENDING db))
         in (map reserve rows, commit_rows reserve rows db)))"

text \<open>What a request to the service returns: an exception of the client, or a status with the JSON of the body.\<close>

datatype http_reply = Raised py_exc | Answer nat "py_exc + json"

definition seconds_since :: "time \<Rightarrow> time option \<Rightarrow> int \<Rightarrow> bool" where
  "seconds_since now t n \<longleftrightarrow> (case t of None \<Rightarrow> False | Some t \<Rightarrow> now - t > seconds n)"

type_synonym worker_result = "(py_exc + unit) \<times> investigation \<times> dfir"

definition done_with :: "investigation \<Rightarrow> investigation \<Rightarrow> dfir \<Rightarrow> worker_result" where
  "done_with old new db = (Inr (), new, commit_row old new db)"

definition raise_with :: "py_exc \<Rightarrow> investigation \<Rightarrow> investigation \<Rightarrow> dfir \<Rightarrow> worker_result" where
  "raise_with e old new db = (Inl e, new, commit_row old new db)"

definition json_or_null :: "json option \<Rightarrow> json" where
  "json_or_null v = (case v of None \<Rightarrow> JNull | Some j \<Rightarrow> j)"

text \<open>The answer to the question for the job. A body that is no object raises before anything is committed.\<close>

definition job_answer :: "time \<Rightarrow> nat \<Rightarrow> py_exc + json \<Rightarrow> investigation \<Rightarrow> dfir \<Rightarrow> worker_result" where
  "job_answer now sc body iv db =
     (let uncertain = (iv_hermes_status iv = Some ''dispatch_uncertain'') in
      if 200 \<le> sc \<and> sc < 300 then
        (if uncertain then
           (let b = (case body of Inl e \<Rightarrow> JObj [] | Inr b \<Rightarrow> b) in
            if \<not> is_object b then (Inl (''AttributeError'', ''get''), iv, db)
            else done_with iv (hermes_note ''dispatched''
                   (JObj [(''job_id'', JStr (or_truthy (iv_job_id iv) [])), (''status'', json_or_null (jget ''status'' b)),
                          (''reconciled'', JBool True)]) iv) db)
         else (Inr (), iv, db))
      else if sc \<noteq> 404 then
        (if uncertain \<and> sc \<in> {400, 401, 403, 422}
         then done_with iv ((fail_row now (''DeepAgent GET /v1/jobs/'' @ or_truthy (iv_job_id iv) [] @ '' returned HTTP '' @
                str_int (int sc) @ '' - terminal'') iv)\<lparr>iv_hermes_status := Some ''reconcile_failed''\<rparr>) db
         else (Inr (), iv, db))
      else done_with iv ((hermes_note ''recovery_required'' (reason ''deepagent_job_missing_after_restart'') iv)
             \<lparr>iv_status := IV_PENDING, iv_job_id := None\<rparr>) db)"

definition state_check_deepagent_job ::
  "da_settings \<Rightarrow> (string \<Rightarrow> http_reply) \<Rightarrow> time \<Rightarrow> investigation \<Rightarrow> dfir \<Rightarrow> worker_result" where
  "state_check_deepagent_job g get now iv db =
     (if \<not> truthy (iv_job_id iv) then
        (if iv_hermes_status iv = Some ''dispatching'' \<and>
            seconds_since now (iv_started_at iv) (max (dg_timeout g * 2) 60)
         then done_with iv ((hermes_note ''recovery_required'' (reason ''deepagent_dispatch_interrupted'') iv)
                \<lparr>iv_status := IV_PENDING\<rparr>) db
         else (Inr (), iv, db))
      else if iv_hermes_status iv = Some ''dispatch_uncertain'' \<and> seconds_since now (iv_started_at iv) (dg_max_uncertain g)
      then done_with iv ((fail_row now (''dispatch_uncertain khong reconcile duoc sau '' @ str_int (dg_max_uncertain g) @ ''s'') iv)
             \<lparr>iv_hermes_status := Some ''reconcile_timeout''\<rparr>) db
      else case get (the (iv_job_id iv)) of
        Raised e \<Rightarrow> (Inr (), iv, db)
      | Answer sc body \<Rightarrow> job_answer now sc body iv db)"

subsection \<open>The dispatch\<close>

definition dispatch_request ::
  "crypto \<Rightarrow> settings \<Rightarrow> da_settings \<Rightarrow> (string \<Rightarrow> string option) \<Rightarrow> time \<Rightarrow> investigation \<Rightarrow> dfir \<Rightarrow> py_exc + da_request" where
  "dispatch_request x cfg g describe now iv db =
     (if \<not> truthy (iv_client_id iv) then Inl (llm_error ''Investigation thieu Velociraptor client_id'')
      else
        let hostname = (case get_df_machine (iv_machine_id iv) db of
                None \<Rightarrow> uuid_str (iv_machine_id iv) | Some m \<Rightarrow> or_truthy (m_hostname m) (uuid_str (iv_machine_id iv)))
        in case resolve_target_platform (iv_machine_id iv) db of
          Inl e \<Rightarrow> Inl e
        | Inr platform \<Rightarrow>
            (if \<not> is_llm_enabled db then Inl (llm_error ''LLM runtime chua duoc cau hinh'')
             else
               let c = the (df_llm db); key = decrypt_api_key x cfg (lc_api_key_encrypted c) in
               if \<not> truthy key then Inl (llm_error ''LLM runtime thieu API key'')
               else if \<not> dg_enabled g \<or> dg_token g = []
               then Inl (llm_error ''DeepAgent chua duoc bat hoac chua co service token'')
               else case df_velo db of
                 None \<Rightarrow> Inl (llm_error ''Chua upload api_client.yaml cho Velociraptor'')
               | Some sealed \<Rightarrow>
                   if \<not> truthy sealed then Inl (llm_error ''Chua upload api_client.yaml cho Velociraptor'')
                   else case decrypt_aes_gcm x cfg (the sealed) of
                     None \<Rightarrow> Inl (''InvalidTag'', [])
                   | Some yaml \<Rightarrow>
                       Inr \<lparr>dr_job = job_name (iv_id iv), dr_investigation_id = iv_id iv, dr_client_id = the (iv_client_id iv),
                            dr_hostname = hostname, dr_platform = platform,
                            dr_time_from = now - hours (dg_lookback g), dr_time_to = now,
                            dr_activity = or_truthy (iv_instructions iv) ''Dieu tra chu dong'',
                            dr_base_url = lc_base_url c, dr_api_key = the key, dr_model = lc_model c,
                            dr_temperature = lc_temperature c, dr_timeout = lc_request_timeout c,
                            dr_max_tokens = lc_max_tokens c, dr_system_prompt = lc_system_prompt c,
                            dr_yaml = yaml, dr_artifacts = load_custom_artifact_refs describe platform db\<rparr>))"

text \<open>The library's description of an error status is left out of the recorded texts.\<close>

definition ambiguous :: "(string \<times> json) list \<Rightarrow> string \<Rightarrow> investigation \<Rightarrow> dfir \<Rightarrow> worker_result" where
  "ambiguous details msg iv db =
     raise_with (''DispatchUncertain'', msg) iv
       (hermes_note ''dispatch_uncertain'' (JObj ((''reason'', JStr ''ambiguous_dispatch_outcome'') # details)) iv) db"

definition dispatch_failed :: "time \<Rightarrow> string \<Rightarrow> string \<Rightarrow> investigation \<Rightarrow> dfir \<Rightarrow> worker_result" where
  "dispatch_failed now err msg iv db =
     raise_with (''DispatchFailed'', msg) iv ((fail_row now err iv)\<lparr>iv_hermes_status := Some ''dispatch_failed''\<rparr>) db"

definition network_errors :: "string list" where
  "network_errors = [''ConnectTimeout'', ''ReadTimeout'', ''WriteTimeout'', ''PoolTimeout'', ''ConnectError'', ''RemoteProtocolError'']"

text \<open>An exception outside the listed classes is ambiguous when the job had been set before it.\<close>

definition other_exception :: "time \<Rightarrow> py_exc \<Rightarrow> investigation \<Rightarrow> dfir \<Rightarrow> worker_result" where
  "other_exception now e iv db =
     (if iv_job_id iv \<noteq> None
      then ambiguous [(''kind'', JStr ''post_request_exception''), (''error'', JStr (take 500 (exc_text e)))] (''Post-POST exception: '' @ fst e) iv db
      else dispatch_failed now (''DeepAgent dispatch: '' @ exc_text e) (''DeepAgent dispatch: '' @ exc_text e) iv db)"

definition after_post :: "time \<Rightarrow> string \<Rightarrow> http_reply \<Rightarrow> investigation \<Rightarrow> dfir \<Rightarrow> worker_result" where
  "after_post now job reply iv db =
     (case reply of
        Raised e \<Rightarrow>
          if fst e \<in> set network_errors
          then ambiguous [(''kind'', JStr ''network''), (''error'', JStr (take 500 (exc_text e)))] (fst e @ '': request co the da toi server.'') iv db
          else other_exception now e iv db
      | Answer sc body \<Rightarrow>
          if \<not> (200 \<le> sc \<and> sc < 300) then
            (if 400 \<le> sc \<and> sc < 500 \<and> sc \<notin> {408, 429}
             then dispatch_failed now (''DeepAgent dispatch 4xx: '' @ str_int (int sc)) (''DeepAgent dispatch 4xx: '' @ str_int (int sc)) iv db
             else ambiguous [(''status_code'', JInt (int sc))] (''HTTP '' @ str_int (int sc) @ '' ambiguous'') iv db)
          else case body of
            Inl e \<Rightarrow> ambiguous [(''kind'', JStr ''response_body_json_decode_failed''), (''error'', JStr (take 500 (exc_text e)))]
              ''Response body khong phai JSON hop le'' iv db
          | Inr b \<Rightarrow>
              if \<not> is_object b then other_exception now (''AttributeError'', ''get'') iv db
              else if jget ''job_id'' b \<noteq> Some (JStr job)
              then dispatch_failed now ''DeepAgent tra ve job ID khong khop investigation'' ''DeepAgent tra ve job ID khong khop investigation'' iv db
              else done_with iv ((hermes_note ''dispatched''
                     (JObj [(''job_id'', JStr job), (''status'', json_or_null (jget ''status'' b))]) iv)\<lparr>iv_job_id := Some job\<rparr>) db)"

definition state_dispatch_deepagent ::
  "crypto \<Rightarrow> settings \<Rightarrow> da_settings \<Rightarrow> (string \<Rightarrow> string option) \<Rightarrow> (da_request \<Rightarrow> http_reply) \<Rightarrow> time \<Rightarrow>
   investigation \<Rightarrow> dfir \<Rightarrow> worker_result" where
  "state_dispatch_deepagent x cfg g describe post now iv db =
     (case dispatch_request x cfg g describe now iv db of
        Inl e \<Rightarrow> (Inl e, iv, db)
      | Inr req \<Rightarrow>
          (let iv1 = iv\<lparr>iv_status := IV_ANALYZING, iv_job_id := Some (job_name (iv_id iv)),
                        iv_hermes_status := Some ''dispatching'', iv_started_at := Some now\<rparr>;
               db1 = (commit_row iv iv1 db)\<lparr>df_sent := df_sent db @ [req]\<rparr>
           in after_post now (job_name (iv_id iv)) (post req) iv1 db1))"

subsection \<open>Collection by the server\<close>

text \<open>
  The Velociraptor client as an investigation uses it: building it, starting the collection of an artifact, the
  status of a flow (running, error) and its results.
\<close>

record velo =
  vq_open :: "py_exc + unit"
  vq_collect :: "string \<Rightarrow> py_exc + string"
  vq_status :: "string \<Rightarrow> py_exc + bool \<times> string option"
  vq_results :: "string \<Rightarrow> string \<Rightarrow> py_exc + json"

definition start_flow :: "velo \<Rightarrow> string \<Rightarrow> flow" where
  "start_flow v art =
     (case vq_collect v art of
        Inr f \<Rightarrow> \<lparr>fw_artifact = art, fw_flow_id = Some f, fw_error = None, fw_results = None, fw_results_error = None,
                  fw_cached = False\<rparr>
      | Inl e \<Rightarrow> \<lparr>fw_artifact = art, fw_flow_id = None, fw_error = Some (exc_text e), fw_results = None,
                  fw_results_error = None, fw_cached = False\<rparr>)"

definition first_flow_id :: "flow list \<Rightarrow> string option" where
  "first_flow_id flows = (case find (\<lambda>f. truthy (fw_flow_id f)) flows of None \<Rightarrow> None | Some f \<Rightarrow> fw_flow_id f)"

definition state_start :: "velo \<Rightarrow> time \<Rightarrow> investigation \<Rightarrow> dfir \<Rightarrow> worker_result" where
  "state_start v now iv db =
     (let iv1 = iv\<lparr>iv_status := IV_RUNNING, iv_started_at := Some now\<rparr>; db1 = commit_row iv iv1 db
      in case vq_open v of
           Inl e \<Rightarrow> raise_with e iv1 (fail_row now (''Velociraptor: '' @ exc_text e) iv1) db1
         | Inr _ \<Rightarrow>
             (let flows = map (start_flow v) (iv_artifacts iv1)
              in done_with iv1 (iv1\<lparr>iv_raw_artifacts := Some flows, iv_flow_id := first_flow_id flows,
                                    iv_status := IV_COLLECTING\<rparr>) db1))"

text \<open>One flow: what becomes of it, and whether it is to be polled again.\<close>

definition truthy_json :: "json option \<Rightarrow> bool" where
  "truthy_json v \<longleftrightarrow> v \<notin> {None, Some JNull, Some (JArr []), Some (JObj []), Some (JStr []), Some (JInt 0), Some (JBool False)}"

definition poll_flow :: "velo \<Rightarrow> flow \<Rightarrow> flow \<times> bool" where
  "poll_flow v f =
     (if \<not> truthy (fw_flow_id f) \<or> fw_cached f \<or> truthy (fw_error f) then (f, False)
      else case vq_status v (the (fw_flow_id f)) of
        Inl e \<Rightarrow> (f, True)
      | Inr (running, err) \<Rightarrow>
          if running then (f, True)
          else
            (let f1 = (if truthy err \<and> \<not> truthy_json (fw_results f) then f\<lparr>fw_error := err\<rparr> else f)
             in ((case vq_results v (the (fw_flow_id f)) (fw_artifact f) of
                    Inr rows \<Rightarrow> f1\<lparr>fw_results := Some rows\<rparr>
                  | Inl e \<Rightarrow> f1\<lparr>fw_results_error := Some (exc_text e)\<rparr>)\<lparr>fw_cached := True\<rparr>, False)))"

text \<open>Formatting with no decimals: to the nearest second, ties to the even one.\<close>

definition round_seconds :: "int \<Rightarrow> int" where
  "round_seconds t =
     (let q = t div seconds 1; r = t mod seconds 1
      in if 2 * r > seconds 1 \<or> (2 * r = seconds 1 \<and> odd q) then q + 1 else q)"

text \<open>
  The flows are changed inside the loaded value of \<open>raw_artifacts\<close>: the session does not see a change of the column,
  so the row in its hands has the results and the row in the database does not.
\<close>

definition collected :: "(flow \<times> bool) list \<Rightarrow> investigation \<Rightarrow> dfir \<Rightarrow> worker_result" where
  "collected polled iv db =
     (let iv1 = iv\<lparr>iv_raw_artifacts := Some (map fst polled)\<rparr>
      in if list_ex snd polled then (Inr (), iv1, db)
         else if truthy (iv_orchestrator iv1)
         then done_with iv1 (iv1\<lparr>iv_status := IV_ANALYZING, iv_hermes_status := Some ''awaiting_external''\<rparr>) db
         else done_with iv1 (iv1\<lparr>iv_status := IV_ANALYZING\<rparr>) db)"

definition state_poll_collect :: "da_settings \<Rightarrow> velo \<Rightarrow> time \<Rightarrow> investigation \<Rightarrow> dfir \<Rightarrow> worker_result" where
  "state_poll_collect g v now iv db =
     (if seconds_since now (iv_started_at iv) (dg_collect_wait g)
      then done_with iv (fail_row now (''Timeout sau '' @ str_int (round_seconds (now - the (iv_started_at iv))) @ ''s cho Velociraptor'') iv) db
      else
        let flows = (case iv_raw_artifacts iv of None \<Rightarrow> [] | Some fs \<Rightarrow> fs) in
        if flows = [] then done_with iv (fail_row now ''Khong co flow nao de poll'' iv) db
        else case vq_open v of
          Inl e \<Rightarrow> raise_with e iv (fail_row now (''Velociraptor poll: '' @ exc_text e) iv) db
        | Inr _ \<Rightarrow>
            collected (map (poll_flow v) flows) iv db)"

subsection \<open>The language model\<close>

text \<open>The answer of a call, the two prompts that were sent, and what is read from the report.\<close>

record llm_answer =
  la_system :: string
  la_user :: string
  la_content :: string
  la_input_tokens :: int
  la_output_tokens :: int
  la_total_tokens :: int
  la_cost :: rat
  la_model :: string
  la_severity :: string
  la_findings :: int

definition llm_errors :: "string list" where
  "llm_errors = [''LlmError'', ''LlmAuthError'', ''LlmTimeoutError'', ''LlmRateLimitError'']"

definition message :: "uuid \<Rightarrow> string \<Rightarrow> string \<Rightarrow> int option \<Rightarrow> inv_message" where
  "message i role content tokens =
     \<lparr>im_investigation_id = i, im_role = role, im_content = content, im_tokens = tokens\<rparr>"

definition add_tokens :: "int \<Rightarrow> dfir \<Rightarrow> dfir" where
  "add_tokens n db = db\<lparr>df_llm := map_option (\<lambda>c. c\<lparr>lc_tokens_used_today := lc_tokens_used_today c + n\<rparr>) (df_llm db)\<rparr>"

definition analysed_row :: "time \<Rightarrow> llm_answer \<Rightarrow> investigation \<Rightarrow> investigation" where
  "analysed_row now a iv = iv\<lparr>iv_report := Some (la_content a), iv_input_tokens := Some (la_input_tokens a),
     iv_output_tokens := Some (la_output_tokens a), iv_cost := Some (la_cost a),
     iv_severity := Some (la_severity a), iv_findings_count := Some (la_findings a),
     iv_status := IV_COMPLETED, iv_completed_at := Some now\<rparr>"

definition after_analysis ::
  "time \<Rightarrow> string \<Rightarrow> py_exc + llm_answer \<Rightarrow> investigation \<Rightarrow> dfir \<Rightarrow> worker_result" where
  "after_analysis now model answer iv db =
     (case answer of
        Inl e \<Rightarrow>
          if fst e \<in> set llm_errors
          then (let iv1 = fail_row now (''LLM: '' @ snd e) iv
                in (Inr (), iv1, notify_investigation_result now (iv_id iv) (iv_machine_id iv) False None None None
                      (Some (snd e)) (commit_row iv iv1 db)))
          else (Inl e, iv, db)
      | Inr a \<Rightarrow>
          (let iv1 = analysed_row now a iv;
               db1 = add_tokens (la_total_tokens a) (commit_row iv iv1 db)
           in (Inr (), iv1, notify_investigation_result now (iv_id iv) (iv_machine_id iv) True (Some (la_severity a))
                 (Some (la_findings a)) (Some model) None
                 (db1\<lparr>df_messages := df_messages db1 @
                    [message (iv_id iv) ''system'' (la_system a) None,
                     message (iv_id iv) ''user'' (la_user a) (Some (la_input_tokens a)),
                     message (iv_id iv) ''assistant'' (la_content a) (Some (la_output_tokens a))]\<rparr>))))"

definition state_analyze ::
  "(investigation \<Rightarrow> dfir \<Rightarrow> py_exc + llm_answer) \<Rightarrow> time \<Rightarrow> investigation \<Rightarrow> dfir \<Rightarrow> worker_result" where
  "state_analyze llm now iv db =
     (if truthy (iv_orchestrator iv) then (Inr (), iv, db)
      else case df_llm db of
        None \<Rightarrow> done_with iv (fail_row now ''LLM config bi xoa giua chung'' iv) db
      | Some c \<Rightarrow>
          (let iv1 = iv\<lparr>iv_llm_provider := Some (lc_provider c), iv_llm_model := Some (lc_model c)\<rparr>;
               db1 = commit_row iv iv1 db
           in after_analysis now (lc_model c) (llm iv1 db1) iv1 db1))"

definition chat_with_llm ::
  "(inv_message list \<Rightarrow> string \<Rightarrow> llm_config \<Rightarrow> py_exc + llm_answer) \<Rightarrow> uuid \<Rightarrow> string \<Rightarrow> dfir \<Rightarrow>
   (py_exc + llm_answer) \<times> dfir" where
  "chat_with_llm llm iid user_message db =
     (case get_inv iid db of
        None \<Rightarrow> (Inl (llm_error ''Investigation khong ton tai''), db)
      | Some iv \<Rightarrow>
          if iv_status iv \<noteq> IV_COMPLETED then (Inl (llm_error ''Investigation chua hoan thanh''), db)
          else if \<not> is_llm_enabled db then (Inl (llm_error ''LLM chua duoc cau hinh''), db)
          else case llm (filter (\<lambda>m. im_investigation_id m = iid) (df_messages db)) user_message (the (df_llm db)) of
            Inl e \<Rightarrow> (Inl e, db)
          | Inr a \<Rightarrow>
              (Inr a, (add_tokens (la_total_tokens a) db)\<lparr>df_messages := df_messages db @
                 [message iid ''user'' user_message (Some (la_input_tokens a)),
                  message iid ''assistant'' (la_content a) (Some (la_output_tokens a))]\<rparr>))"

subsection \<open>The worker\<close>

text \<open>What the worker meets: the clients, and what other sessions do before it comes to a row.\<close>

record world =
  wd_crypto :: crypto
  wd_cfg :: settings
  wd_settings :: da_settings
  wd_describe :: "string \<Rightarrow> string option"
  wd_post :: "da_request \<Rightarrow> http_reply"
  wd_get :: "string \<Rightarrow> http_reply"
  wd_velo :: velo
  wd_llm :: "investigation \<Rightarrow> dfir \<Rightarrow> py_exc + llm_answer"
  wd_others :: "uuid \<Rightarrow> dfir \<Rightarrow> dfir"

definition dispatch_deepagent :: "world \<Rightarrow> time \<Rightarrow> investigation \<Rightarrow> dfir \<Rightarrow> worker_result" where
  "dispatch_deepagent w = state_dispatch_deepagent (wd_crypto w) (wd_cfg w) (wd_settings w) (wd_describe w) (wd_post w)"

definition check_deepagent :: "world \<Rightarrow> time \<Rightarrow> investigation \<Rightarrow> dfir \<Rightarrow> worker_result" where
  "check_deepagent w = state_check_deepagent_job (wd_settings w) (wd_get w)"

definition process_one :: "world \<Rightarrow> time \<Rightarrow> investigation \<Rightarrow> dfir \<Rightarrow> worker_result" where
  "process_one w now iv db =
     (if is_deepagent iv then
        (if iv_status iv = IV_PENDING then dispatch_deepagent w now iv db
         else if iv_status iv = IV_ANALYZING then check_deepagent w now iv db
         else (Inr (), iv, db))
      else case iv_status iv of
        IV_PENDING \<Rightarrow> state_start (wd_velo w) now iv db
      | IV_RUNNING \<Rightarrow> state_poll_collect (wd_settings w) (wd_velo w) now iv db
      | IV_COLLECTING \<Rightarrow> state_poll_collect (wd_settings w) (wd_velo w) now iv db
      | IV_ANALYZING \<Rightarrow> state_analyze (wd_llm w) now iv db
      | _ \<Rightarrow> (Inr (), iv, db))"

text \<open>An exception of the check ends the whole iteration.\<close>

fun reconcile_active :: "world \<Rightarrow> time \<Rightarrow> investigation list \<Rightarrow> dfir \<Rightarrow> (py_exc + unit) \<times> dfir" where
  "reconcile_active w now [] db = (Inr (), db)"
| "reconcile_active w now (iv # ivs) db =
     (case check_deepagent w now iv db of
        (Inl e, _, db') \<Rightarrow> (Inl e, db')
      | (Inr _, _, db') \<Rightarrow> reconcile_active w now ivs db')"

definition mark_failed :: "time \<Rightarrow> py_exc \<Rightarrow> investigation \<Rightarrow> dfir \<Rightarrow> dfir" where
  "mark_failed now e iv db = commit_row iv (fail_row now (exc_text e) iv) db"

text \<open>One claimed row, and one row of the second group; the flag tells whether an error was counted.\<close>

definition dispatch_item :: "world \<Rightarrow> time \<Rightarrow> investigation \<Rightarrow> dfir \<Rightarrow> bool \<times> dfir" where
  "dispatch_item w now iv db =
     (case dispatch_deepagent w now iv (wd_others w (iv_id iv) db) of
        (Inr _, _, db') \<Rightarrow> (False, db')
      | (Inl e, iv', db') \<Rightarrow>
          if fst e = ''DispatchUncertain'' then (False, db')
          else if fst e = ''DispatchFailed''
          then (True, if iv_status iv' \<noteq> IV_FAILED then mark_failed now e iv' db' else db')
          else (True, mark_failed now e iv' db'))"

definition process_item :: "world \<Rightarrow> time \<Rightarrow> investigation \<Rightarrow> dfir \<Rightarrow> bool \<times> dfir" where
  "process_item w now iv db =
     (case process_one w now iv (wd_others w (iv_id iv) db) of
        (Inr _, _, db') \<Rightarrow> (False, db')
      | (Inl e, iv', db') \<Rightarrow> (True, mark_failed now e iv' db'))"

fun work_through :: "(investigation \<Rightarrow> dfir \<Rightarrow> bool \<times> dfir) \<Rightarrow> investigation list \<Rightarrow> dfir \<Rightarrow> dfir" where
  "work_through f [] db = db"
| "work_through f (iv # ivs) db = work_through f ivs (snd (f iv db))"

text \<open>The second group: \<open>external_orchestrator <> 'deepagent'\<close> is not true of a null.\<close>

definition server_side :: "dfir \<Rightarrow> investigation list" where
  "server_side db =
     take 5 (sort_key iv_created_at (filter (\<lambda>iv.
        iv_status iv \<in> {IV_PENDING, IV_RUNNING, IV_COLLECTING, IV_ANALYZING} \<and>
        (case iv_orchestrator iv of None \<Rightarrow> False | Some s \<Rightarrow> s \<noteq> ''deepagent'')) (df_rows db)))"

definition run_pending_investigations :: "world \<Rightarrow> time \<Rightarrow> dfir \<Rightarrow> (py_exc + unit) \<times> dfir" where
  "run_pending_investigations w now db =
     (if \<not> is_llm_enabled db then (Inr (), db)
      else case reconcile_active w now (sort_key iv_created_at (deepagent_in IV_ANALYZING db)) db of
        (Inl e, db1) \<Rightarrow> (Inl e, db1)
      | (Inr _, db1) \<Rightarrow>
          (let (claimed, db2) = claim_deepagent_dispatches (dg_max_jobs (wd_settings w)) db1;
               db3 = work_through (dispatch_item w now) claimed db2
           in (Inr (), work_through (process_item w now) (server_side db3) db3)))"

subsection \<open>Results from outside\<close>

text \<open>What a poller has not been given in the last five minutes; it is marked as taken.\<close>

definition external_due :: "time \<Rightarrow> investigation \<Rightarrow> bool" where
  "external_due now iv \<longleftrightarrow> iv_status iv = IV_ANALYZING \<and> iv_orchestrator iv = Some ''hermes'' \<and>
     (case iv_polled_at iv of None \<Rightarrow> True | Some t \<Rightarrow> t < now - minutes 5)"

definition take_external :: "time \<Rightarrow> investigation \<Rightarrow> investigation" where
  "take_external now iv = iv\<lparr>iv_polled_at := Some now, iv_hermes_status := Some ''claimed''\<rparr>"

definition list_pending_for_external :: "time \<Rightarrow> nat \<Rightarrow> dfir \<Rightarrow> investigation list \<times> dfir" where
  "list_pending_for_external now limit db =
     (let rows = take limit (sort_key iv_created_at (filter (external_due now) (df_rows db)))
      in (map (take_external now) rows, commit_rows (take_external now) rows db))"

definition mark_external_polled :: "time \<Rightarrow> investigation \<Rightarrow> dfir \<Rightarrow> dfir" where
  "mark_external_polled now iv db = commit_row iv (take_external now iv) db"

record external_result =
  xr_report :: "string option"
  xr_severity :: "string option"
  xr_findings_count :: "int option"
  xr_findings :: "json list option"
  xr_iocs :: "json list option"
  xr_provider :: "string option"
  xr_model :: "string option"
  xr_input_tokens :: "int option"
  xr_output_tokens :: "int option"
  xr_cost :: "rat option"
  xr_error :: "string option"
  xr_job_id :: "string option"
  xr_raw :: json

definition severities :: "string list" where
  "severities = [''critical'', ''high'', ''medium'', ''low'', ''info'']"

definition result_severity :: "string option \<Rightarrow> string" where
  "result_severity s = (let v = lower (or_truthy s ''info'') in if v \<in> set severities then v else ''info'')"

definition bound_job :: "external_result \<Rightarrow> investigation \<Rightarrow> investigation" where
  "bound_job b iv = (if truthy (xr_job_id b) then iv\<lparr>iv_job_id := xr_job_id b\<rparr> else iv)"

definition failed_result :: "time \<Rightarrow> string \<Rightarrow> external_result \<Rightarrow> investigation \<Rightarrow> investigation" where
  "failed_result now key b iv =
     (bound_job b (fail_row now (''External ('' @ or_truthy (iv_orchestrator iv) [] @ ''): '' @ or_truthy (xr_error b) [])
        (iv\<lparr>iv_callback_at := Some now\<rparr>)))
       \<lparr>iv_hermes_status := Some ''failed'', iv_hermes_response := xr_raw b, iv_key := Some key\<rparr>"

definition completed_result :: "time \<Rightarrow> string \<Rightarrow> external_result \<Rightarrow> investigation \<Rightarrow> investigation" where
  "completed_result now key b iv =
     (let fs = (case xr_findings b of None \<Rightarrow> [] | Some l \<Rightarrow> l) in
      (bound_job b iv)\<lparr>iv_callback_at := Some now, iv_severity := Some (result_severity (xr_severity b)),
        iv_findings := Some fs, iv_iocs := Some (case xr_iocs b of None \<Rightarrow> [] | Some l \<Rightarrow> l),
        iv_findings_count := Some (case xr_findings_count b of None \<Rightarrow> int (length fs) | Some n \<Rightarrow> n),
        iv_report := xr_report b, iv_llm_provider := Some (or_truthy (xr_provider b) (or_truthy (iv_orchestrator iv) [])),
        iv_llm_model := xr_model b, iv_input_tokens := xr_input_tokens b, iv_output_tokens := xr_output_tokens b,
        iv_cost := xr_cost b, iv_status := IV_COMPLETED, iv_completed_at := Some now,
        iv_hermes_status := Some ''completed'', iv_hermes_response := xr_raw b, iv_key := Some key\<rparr>)"

datatype callback_error = External_not_found | External_conflict string

definition tokens_of :: "external_result \<Rightarrow> int" where
  "tokens_of b = (case xr_input_tokens b of None \<Rightarrow> 0 | Some n \<Rightarrow> n) + (case xr_output_tokens b of None \<Rightarrow> 0 | Some n \<Rightarrow> n)"

definition submit_external_result ::
  "time \<Rightarrow> uuid \<Rightarrow> string option \<Rightarrow> external_result \<Rightarrow> dfir \<Rightarrow> (callback_error + investigation) \<times> dfir" where
  "submit_external_result now iid key b db =
     (case get_inv iid db of
        None \<Rightarrow> (Inl External_not_found, db)
      | Some iv \<Rightarrow>
          if \<not> truthy (iv_orchestrator iv) then (Inl (External_conflict ''khong dung external orchestrator''), db)
          else if \<not> truthy key then (Inl (External_conflict ''Thieu idempotency key cho external callback''), db)
          else if is_deepagent iv \<and> \<not> truthy (iv_job_id iv)
          then (Inl (External_conflict ''chua duoc bind voi DeepAgent job''), db)
          else if iv_status iv \<in> {IV_COMPLETED, IV_FAILED} then
            (if \<not> truthy (iv_key iv) \<or> key \<noteq> iv_key iv
             then (Inl (External_conflict ''da nhan callback voi idempotency key khac''), db)
             else (Inr iv, db))
          else if truthy (iv_job_id iv) \<and> xr_job_id b \<noteq> iv_job_id iv
          then (Inl (External_conflict ''external_job_id khong khop voi job da dispatch''), db)
          else if iv_status iv \<noteq> IV_ANALYZING then (Inl (External_conflict ''chua san sang nhan callback''), db)
          else if truthy (xr_error b) then
            (let new = failed_result now (the key) b iv
             in (Inr new, notify_investigation_result now iid (iv_machine_id iv) False None None None (xr_error b)
                            (commit_row iv new db)))
          else
            (let new = completed_result now (the key) b iv;
                 db1 = commit_row iv new db;
                 db2 = (if tokens_of b > 0 then add_tokens (tokens_of b) db1 else db1)
             in (Inr new, notify_investigation_result now iid (iv_machine_id iv) True (iv_severity new)
                            (iv_findings_count new) (iv_llm_model new) None db2)))"

end
