(* ===== verification/InvestigationApi.thy ===== *)
theory InvestigationApi
  imports Investigation
begin

text \<open>
  The routes on investigations: the configuration of the language model, creation, stopping, deletion, statistics and
  chat for super administrators (\<open>api/routes/llm_dfir.py\<close>), and the interface of outside orchestrators with their
  API keys, heartbeats and results (\<open>api/routes/llm_dfir_external.py\<close>). An id in a path is \<open>None\<close> when its text is no
  uuid. \<open>auth\<close> is the outcome of the dependency that resolves the caller.
\<close>

subsection \<open>The configuration of the language model\<close>

definition default_llm_config :: "time \<Rightarrow> llm_config" where
  "default_llm_config started =
     \<lparr>lc_enabled = False, lc_provider = ''ollama'', lc_base_url = ''http://127.0.0.1:11434/v1'',
      lc_api_key_encrypted = None, lc_model = ''qwen2.5:14b-instruct-q4_K_M'', lc_fallback_model = None,
      lc_system_prompt = None, lc_max_tokens = 64000, lc_temperature = 0, lc_request_timeout = 120,
      lc_max_context_chars = 200000, lc_allow_cloud = False, lc_external_orchestrator = ''deepagent'',
      lc_deepagent_enabled = True, lc_deepagent_url = None, lc_service_token_encrypted = None,
      lc_daily_token_budget = None, lc_tokens_used_today = 0, lc_test_status = None, lc_test_error = None,
      lc_test_at = None, lc_updated_at = started, lc_updated_by = None\<rparr>"

definition get_or_create_config :: "time \<Rightarrow> dfir \<Rightarrow> llm_config \<times> dfir" where
  "get_or_create_config started db =
     (case df_llm db of
        Some c \<Rightarrow> (c, db)
      | None \<Rightarrow> (default_llm_config started, db\<lparr>df_llm := Some (default_llm_config started)\<rparr>))"

definition mask_api_key :: "string option \<Rightarrow> string" where
  "mask_api_key k =
     (if \<not> truthy k then ''(khong dat)''
      else if length (the k) \<le> 8 then ''***''
      else take 4 (the k) @ ''***'' @ drop (length (the k) - 4) (the k))"

text \<open>The answer: the row, with the secrets replaced by a mask and by whether one is set.\<close>

record llm_config_out =
  lo_config :: llm_config
  lo_api_key_masked :: string
  lo_service_token_set :: bool

definition config_to_out :: "crypto \<Rightarrow> settings \<Rightarrow> llm_config \<Rightarrow> llm_config_out" where
  "config_to_out x cfg c =
     \<lparr>lo_config = c\<lparr>lc_api_key_encrypted := None, lc_service_token_encrypted := None, lc_deepagent_enabled := True\<rparr>,
      lo_api_key_masked = mask_api_key (decrypt_api_key x cfg (lc_api_key_encrypted c)),
      lo_service_token_set = truthy (decrypt_api_key x cfg (lc_service_token_encrypted c))\<rparr>"

definition private_markers :: "string list" where
  "private_markers = [''127.0.0.1'', ''localhost'', ''10.'', ''192.168.'', ''172.16.'', ''172.17.'', ''172.18.'', ''172.19.'',
     ''172.2'', ''172.30'', ''172.31'', ''.internal'', ''.local'']"

definition is_private_host :: "string \<Rightarrow> bool" where
  "is_private_host url \<longleftrightarrow> list_ex (\<lambda>m. contains m url) private_markers"

definition get_llm_config ::
  "crypto \<Rightarrow> settings \<Rightarrow> time \<Rightarrow> http_error + user \<Rightarrow> dfir \<Rightarrow> (http_error + llm_config_out) \<times> dfir" where
  "get_llm_config x cfg started auth db =
     (case auth of
        Inl e \<Rightarrow> (Inl e, db)
      | Inr _ \<Rightarrow> (let (c, db1) = get_or_create_config started db in (Inr (config_to_out x cfg c), db1)))"

definition list_llm_models ::
  "(string \<Rightarrow> string option \<Rightarrow> string \<Rightarrow> py_exc + string list) \<Rightarrow> crypto \<Rightarrow> settings \<Rightarrow> time \<Rightarrow> http_error + user \<Rightarrow> dfir \<Rightarrow>
   (http_error + string list) \<times> dfir" where
  "list_llm_models list_models x cfg started auth db =
     (case auth of
        Inl e \<Rightarrow> (Inl e, db)
      | Inr _ \<Rightarrow>
          (let (c, db1) = get_or_create_config started db
           in (case list_models (lc_base_url c) (decrypt_api_key x cfg (lc_api_key_encrypted c)) (lc_model c) of
                 Inl e \<Rightarrow> Inl (HTTPException 502 (''Khong tai duoc danh sach model: '' @ snd e))
               | Inr ms \<Rightarrow> Inr ms, db1)))"

record llm_config_update =
  lu_enabled :: "bool option"
  lu_provider :: "string option"
  lu_base_url :: "string option"
  lu_api_key :: "string option"
  lu_model :: "string option"
  lu_fallback_model :: "string option"
  lu_system_prompt :: "string option"
  lu_max_tokens :: "int option"
  lu_temperature :: "rat option"
  lu_request_timeout :: "int option"
  lu_max_context_chars :: "int option"
  lu_allow_cloud :: "bool option"
  lu_external_orchestrator :: "string option"
  lu_deepagent_enabled :: "bool option"
  lu_deepagent_url :: "string option"
  lu_deepagent_service_token :: "string option"
  lu_daily_token_budget :: "int option"

text \<open>The fields are read one after the other; each may refuse, change the row and add to the recorded changes.\<close>

type_synonym cfg_change = "llm_config \<times> (string \<times> json) list"

definition field :: "'a option \<Rightarrow> ('a \<Rightarrow> cfg_change \<Rightarrow> http_error + cfg_change) \<Rightarrow> http_error + cfg_change \<Rightarrow> http_error + cfg_change" where
  "field v f acc = (case acc of Inl e \<Rightarrow> Inl e | Inr s \<Rightarrow> (case v of None \<Rightarrow> Inr s | Some a \<Rightarrow> f a s))"

definition put_field :: "(llm_config \<Rightarrow> llm_config) \<Rightarrow> cfg_change \<Rightarrow> http_error + cfg_change" where
  "put_field f s = Inr (f (fst s), snd s)"

definition note_field :: "string \<Rightarrow> json \<Rightarrow> (llm_config \<Rightarrow> llm_config) \<Rightarrow> cfg_change \<Rightarrow> http_error + cfg_change" where
  "note_field k v f s = Inr (f (fst s), snd s @ [(k, v)])"

definition refuse :: "string \<Rightarrow> http_error + cfg_change" where
  "refuse msg = Inl (HTTPException 422 msg)"

definition between :: "int \<Rightarrow> int \<Rightarrow> string \<Rightarrow> (int \<Rightarrow> llm_config \<Rightarrow> llm_config) \<Rightarrow> int \<Rightarrow> cfg_change \<Rightarrow> http_error + cfg_change" where
  "between lo hi msg f n s = (if lo \<le> n \<and> n \<le> hi then put_field (f n) s else refuse msg)"

definition or_none :: "string \<Rightarrow> string option" where
  "or_none s = (if s = [] then None else Some s)"

definition is_http_url :: "string \<Rightarrow> bool" where
  "is_http_url url \<longleftrightarrow> starts_with ''http://'' url \<or> starts_with ''https://'' url"

definition set_provider :: "string \<Rightarrow> cfg_change \<Rightarrow> http_error + cfg_change" where
  "set_provider v s =
     (let p = lower (strip v) in
      if p \<notin> {''ollama'', ''openai'', ''localai'', ''vllm'', ''custom'', ''qwen'', ''deepseek''}
      then refuse (''provider khong hop le: '' @ p)
      else note_field ''provider'' (JStr p) (\<lambda>c. c\<lparr>lc_provider := p\<rparr>) s)"

definition set_base_url :: "string \<Rightarrow> cfg_change \<Rightarrow> http_error + cfg_change" where
  "set_base_url v s =
     (let url = rstrip_slash (strip v) in
      if \<not> is_http_url url then refuse ''base_url phai bat dau bang http:// hoac https://''
      else note_field ''base_url'' (JStr url) (\<lambda>c. c\<lparr>lc_base_url := url\<rparr>) s)"

definition set_api_key :: "(string \<Rightarrow> string) \<Rightarrow> string \<Rightarrow> cfg_change \<Rightarrow> http_error + cfg_change" where
  "set_api_key seal v s =
     (if v = [] then note_field ''api_key'' (JStr ''cleared'') (\<lambda>c. c\<lparr>lc_api_key_encrypted := None\<rparr>) s
      else if \<not> lc_allow_cloud (fst s) \<and> \<not> is_private_host (lc_base_url (fst s))
      then Inl (HTTPException 403 ''Khong the dat API key cho endpoint public khi allow_cloud=false.'')
      else note_field ''api_key'' (JStr ''set'') (\<lambda>c. c\<lparr>lc_api_key_encrypted := Some (seal (strip v))\<rparr>) s)"

definition set_model :: "string \<Rightarrow> cfg_change \<Rightarrow> http_error + cfg_change" where
  "set_model v s =
     (if strip v = [] then refuse ''model khong duoc rong''
      else note_field ''model'' (JStr (strip v)) (\<lambda>c. c\<lparr>lc_model := strip v\<rparr>) s)"

definition set_orchestrator :: "string \<Rightarrow> cfg_change \<Rightarrow> http_error + cfg_change" where
  "set_orchestrator v s =
     (let ext = lower (strip v) in
      if ext \<notin> {[], ''hermes'', ''deepagent''} then refuse (''external_orchestrator khong hop le: '' @ ext)
      else note_field ''external_orchestrator'' (JStr ext) (\<lambda>c. c\<lparr>lc_external_orchestrator := ext\<rparr>) s)"

definition set_deepagent_url :: "string \<Rightarrow> cfg_change \<Rightarrow> http_error + cfg_change" where
  "set_deepagent_url v s =
     (let url = rstrip_slash (strip v) in
      if url \<noteq> [] \<and> \<not> is_http_url url then refuse ''deepagent_url phai bat dau bang http:// hoac https://''
      else note_field ''deepagent_url'' (case or_none url of None \<Rightarrow> JNull | Some u \<Rightarrow> JStr u)
             (\<lambda>c. c\<lparr>lc_deepagent_url := or_none url\<rparr>) s)"

definition set_service_token :: "(string \<Rightarrow> string) \<Rightarrow> string \<Rightarrow> cfg_change \<Rightarrow> http_error + cfg_change" where
  "set_service_token seal v s =
     (if strip v \<noteq> []
      then note_field ''deepagent_service_token'' (JStr ''set'') (\<lambda>c. c\<lparr>lc_service_token_encrypted := Some (seal (strip v))\<rparr>) s
      else note_field ''deepagent_service_token'' (JStr ''cleared'') (\<lambda>c. c\<lparr>lc_service_token_encrypted := None\<rparr>) s)"

definition apply_llm_update :: "(string \<Rightarrow> string) \<Rightarrow> (string \<Rightarrow> string) \<Rightarrow> llm_config_update \<Rightarrow> llm_config \<Rightarrow> http_error + cfg_change" where
  "apply_llm_update seal seal' b c =
     field (lu_daily_token_budget b) (\<lambda>n. put_field (\<lambda>c. c\<lparr>lc_daily_token_budget := (if n > 0 then Some n else None)\<rparr>))
    (field (lu_deepagent_service_token b) (set_service_token seal')
    (field (lu_deepagent_url b) set_deepagent_url
    (field (lu_deepagent_enabled b) (\<lambda>v. note_field ''deepagent_enabled'' (JBool v) (\<lambda>c. c\<lparr>lc_deepagent_enabled := v\<rparr>))
    (field (lu_external_orchestrator b) set_orchestrator
    (field (lu_allow_cloud b) (\<lambda>v. note_field ''allow_cloud'' (JBool v) (\<lambda>c. c\<lparr>lc_allow_cloud := v\<rparr>))
    (field (lu_max_context_chars b) (between 1000 1000000 ''max_context_chars phai trong [1000, 1000000]'' (\<lambda>n c. c\<lparr>lc_max_context_chars := n\<rparr>))
    (field (lu_request_timeout b) (between 10 600 ''request_timeout phai trong [10, 600]'' (\<lambda>n c. c\<lparr>lc_request_timeout := n\<rparr>))
    (field (lu_temperature b) (\<lambda>t s. if 0 \<le> t \<and> t \<le> 2 then put_field (\<lambda>c. c\<lparr>lc_temperature := t\<rparr>) s
                                    else refuse ''temperature phai trong [0.0, 2.0]'')
    (field (lu_max_tokens b) (between 64000 128000 ''max_tokens phai trong [64000, 128000]'' (\<lambda>n c. c\<lparr>lc_max_tokens := n\<rparr>))
    (field (lu_system_prompt b) (\<lambda>v. put_field (\<lambda>c. c\<lparr>lc_system_prompt := or_none (strip v)\<rparr>))
    (field (lu_fallback_model b) (\<lambda>v. put_field (\<lambda>c. c\<lparr>lc_fallback_model := or_none (strip v)\<rparr>))
    (field (lu_model b) set_model
    (field (lu_api_key b) (set_api_key seal)
    (field (lu_base_url b) set_base_url
    (field (lu_provider b) set_provider
    (field (lu_enabled b) (\<lambda>v. note_field ''enabled'' (JBool v) (\<lambda>c. c\<lparr>lc_enabled := v\<rparr>))
      (Inr (c, []))))))))))))))))))"

definition update_llm_config ::
  "crypto \<Rightarrow> settings \<Rightarrow> nat list \<Rightarrow> nat list \<Rightarrow> time \<Rightarrow> time \<Rightarrow> string option \<Rightarrow> http_error + user \<Rightarrow> llm_config_update \<Rightarrow> dfir \<Rightarrow>
   (http_error + llm_config_out) \<times> dfir" where
  "update_llm_config x cfg nonce nonce' started now ip auth b db =
     (case auth of
        Inl e \<Rightarrow> (Inl e, db)
      | Inr admin \<Rightarrow>
          (let (c, db1) = get_or_create_config started db in
           case apply_llm_update (encrypt_aes_gcm x cfg nonce) (encrypt_aes_gcm x cfg nonce') b c of
             Inl e \<Rightarrow> (Inl e, db1)
           | Inr (c1, changes) \<Rightarrow>
               (let c2 = c1\<lparr>lc_updated_at := now, lc_updated_by := Some (u_id admin), lc_test_status := Some ''untested''\<rparr>;
                    db2 = db1\<lparr>df_llm := Some c2\<rparr>
                in (Inr (config_to_out x cfg c2),
                    if changes = [] then db2
                    else db2\<lparr>df_log := append_audit now ''llm.config.update'' (Some (uuid_str (u_id admin)))
                           (Some (''llm_config:1:'' @ take 200 (dumps_default (JObj changes)))) ip None None (df_log db2)\<rparr>))))"

definition test_llm_connection ::
  "(llm_config \<Rightarrow> bool \<times> string option) \<Rightarrow> time \<Rightarrow> time \<Rightarrow> http_error + user \<Rightarrow> dfir \<Rightarrow> (http_error + bool \<times> string option) \<times> dfir" where
  "test_llm_connection test started now auth db =
     (case auth of
        Inl e \<Rightarrow> (Inl e, db)
      | Inr _ \<Rightarrow>
          (let (c, db1) = get_or_create_config started db in
           if lc_base_url c = [] \<or> lc_model c = [] then (Inl (HTTPException 422 ''Can base_url + model truoc khi test''), db1)
           else (let (ok, err) = test c
                 in (Inr (ok, err), db1\<lparr>df_llm := Some (c\<lparr>lc_test_status := Some (if ok then ''ok'' else ''error''),
                       lc_test_error := err, lc_test_at := Some now\<rparr>)\<rparr>))))"

subsection \<open>Investigations for super administrators\<close>

definition no_investigation :: http_error where
  "no_investigation = HTTPException 404 ''Investigation khong ton tai''"

definition bad_investigation_id :: http_error where
  "bad_investigation_id = HTTPException 404 ''Investigation ID khong hop le''"

text \<open>What the routes for one investigation have in common.\<close>

definition on_investigation ::
  "http_error + 'u \<Rightarrow> uuid option \<Rightarrow> dfir \<Rightarrow> ('u \<Rightarrow> investigation \<Rightarrow> (http_error + 'a) \<times> dfir) \<Rightarrow> (http_error + 'a) \<times> dfir" where
  "on_investigation auth pid db k =
     (case auth of
        Inl e \<Rightarrow> (Inl e, db)
      | Inr u \<Rightarrow>
          (case pid of
             None \<Rightarrow> (Inl bad_investigation_id, db)
           | Some i \<Rightarrow> (case get_inv i db of None \<Rightarrow> (Inl no_investigation, db) | Some iv \<Rightarrow> k u iv)))"

definition inv_audit :: "time \<Rightarrow> string \<Rightarrow> user \<Rightarrow> string \<Rightarrow> string option \<Rightarrow> dfir \<Rightarrow> dfir" where
  "inv_audit now action admin target ip db =
     db\<lparr>df_log := append_audit now action (Some (uuid_str (u_id admin))) (Some target) ip None None (df_log db)\<rparr>"

definition live_statuses :: "inv_status list" where
  "live_statuses = [IV_PENDING, IV_RUNNING, IV_COLLECTING, IV_ANALYZING]"

definition is_live :: "investigation \<Rightarrow> bool" where
  "is_live iv \<longleftrightarrow> iv_status iv \<in> set live_statuses"

definition live_of :: "uuid \<Rightarrow> dfir \<Rightarrow> investigation list" where
  "live_of mid db = filter (\<lambda>iv. iv_machine_id iv = mid \<and> is_live iv) (df_rows db)"

definition list_investigations ::
  "http_error + user \<Rightarrow> string option \<Rightarrow> (string \<Rightarrow> uuid option) \<Rightarrow> inv_status option \<Rightarrow> string option \<Rightarrow> nat \<Rightarrow> nat \<Rightarrow> dfir \<Rightarrow>
   http_error + investigation list \<times> nat \<times> bool" where
  "list_investigations auth machine parse st severity page limit db =
     (case auth of
        Inl e \<Rightarrow> Inl e
      | Inr _ \<Rightarrow>
          if truthy machine \<and> parse (the machine) = None then Inl (HTTPException 404 ''Machine ID khong hop le'')
          else
            (let rows = filter (\<lambda>iv. (truthy machine \<longrightarrow> parse (the machine) = Some (iv_machine_id iv)) \<and>
                   (case st of None \<Rightarrow> True | Some v \<Rightarrow> iv_status iv = v) \<and>
                   (truthy severity \<longrightarrow> iv_severity iv = severity)) (df_rows db);
                 offset = (page - 1) * limit;
                 shown = take limit (drop offset (sort_key (\<lambda>iv. - iv_created_at iv) rows))
             in Inr (shown, length rows, offset + length shown < length rows)))"

definition create_investigation ::
  "da_settings \<Rightarrow> time \<Rightarrow> uuid \<Rightarrow> string option \<Rightarrow> http_error + user \<Rightarrow> uuid \<Rightarrow> string list option \<Rightarrow> string option \<Rightarrow>
   bool option \<Rightarrow> dfir \<Rightarrow> (http_error + investigation) \<times> dfir" where
  "create_investigation g now iid ip auth mid artifacts instructions use db =
     (case auth of
        Inl e \<Rightarrow> (Inl e, db)
      | Inr admin \<Rightarrow>
          if get_df_machine mid db = None then (Inl (HTTPException 404 ''Machine khong ton tai''), db)
          else if length (live_of mid db) \<ge> 5 then (Inl (HTTPException 429 ''Da co 5 investigation dang chay cho may nay.''), db)
          else case create_investigation_row g now iid mid artifacts instructions (u_id admin) use db of
            (Inl e, db1) \<Rightarrow> (Inl (HTTPException 400 (snd e)), db1)
          | (Inr iv, db1) \<Rightarrow>
              (Inr iv, inv_audit now ''llm.investigate.start'' admin (uuid_str iid @ ''#'' @ uuid_str mid) ip db1))"

definition get_investigation :: "http_error + user \<Rightarrow> uuid option \<Rightarrow> dfir \<Rightarrow> http_error + investigation" where
  "get_investigation auth pid db = fst (on_investigation auth pid db (\<lambda>_ iv. (Inr iv, db)))"

definition get_investigation_messages :: "http_error + user \<Rightarrow> uuid \<Rightarrow> dfir \<Rightarrow> http_error + inv_message list" where
  "get_investigation_messages auth iid db =
     (case auth of Inl e \<Rightarrow> Inl e | Inr _ \<Rightarrow> Inr (filter (\<lambda>m. im_investigation_id m = iid) (df_messages db)))"

text \<open>An exception of the model that is no \<open>LlmError\<close> is answered with 500.\<close>

definition chat_investigation ::
  "(inv_message list \<Rightarrow> string \<Rightarrow> llm_config \<Rightarrow> py_exc + llm_answer) \<Rightarrow> time \<Rightarrow> string option \<Rightarrow> http_error + user \<Rightarrow> uuid \<Rightarrow>
   string \<Rightarrow> dfir \<Rightarrow> (http_error + llm_answer) \<times> dfir" where
  "chat_investigation llm now ip auth iid msg db =
     (case auth of
        Inl e \<Rightarrow> (Inl e, db)
      | Inr admin \<Rightarrow>
          if strip msg = [] then (Inl (HTTPException 422 ''message khong duoc rong''), db)
          else case chat_with_llm llm iid (strip msg) db of
            (Inl e, db1) \<Rightarrow> (Inl (if fst e \<in> set llm_errors then HTTPException 400 (snd e) else internal_error), db1)
          | (Inr a, db1) \<Rightarrow>
              (Inr a, inv_audit now ''llm.investigate.chat'' admin (uuid_str iid @ ''#'' @ str_int (la_input_tokens a)) ip db1))"

definition stop_row :: "time \<Rightarrow> investigation \<Rightarrow> investigation" where
  "stop_row now iv = fail_row now ''Dung boi nguoi dung'' iv"

definition stop_investigation ::
  "time \<Rightarrow> string option \<Rightarrow> http_error + user \<Rightarrow> uuid option \<Rightarrow> dfir \<Rightarrow> (http_error + unit) \<times> dfir" where
  "stop_investigation now ip auth pid db =
     on_investigation auth pid db (\<lambda>admin iv.
       if \<not> is_live iv then (Inl (HTTPException 409 ''Investigation khong o trang thai dung duoc''), db)
       else (Inr (), inv_audit now ''llm.investigate.stop'' admin (uuid_str (iv_id iv)) ip (commit_row iv (stop_row now iv) db)))"

definition delete_investigation ::
  "time \<Rightarrow> string option \<Rightarrow> http_error + user \<Rightarrow> uuid option \<Rightarrow> dfir \<Rightarrow> (http_error + unit) \<times> dfir" where
  "delete_investigation now ip auth pid db =
     on_investigation auth pid db (\<lambda>admin iv.
       if iv_status iv \<in> {IV_RUNNING, IV_COLLECTING, IV_ANALYZING}
       then (Inl (HTTPException 409 ''Khong the xoa investigation dang chay''), db)
       else (Inr (), inv_audit now ''llm.investigate.delete'' admin (uuid_str (iv_id iv)) ip
              (db\<lparr>df_rows := delete_where (\<lambda>r. iv_id r = iv_id iv) (df_rows db),
                 df_messages := delete_where (\<lambda>m. im_investigation_id m = iv_id iv) (df_messages db)\<rparr>)))"

subsection \<open>Statistics\<close>

definition count_by :: "('a \<Rightarrow> 'k) \<Rightarrow> 'a list \<Rightarrow> ('k \<times> nat) list" where
  "count_by f xs = map (\<lambda>k. (k, length (filter (\<lambda>x. f x = k) xs))) (dedup (map f xs))"

definition top_counts :: "nat \<Rightarrow> ('k \<times> nat) list \<Rightarrow> ('k \<times> nat) list" where
  "top_counts n kcs = take n (sort_key (\<lambda>kc. - int (snd kc)) kcs)"

definition is_critical :: "investigation \<Rightarrow> bool" where
  "is_critical iv \<longleftrightarrow> iv_severity iv = Some ''critical''"

definition jtext :: "json option \<Rightarrow> string option" where
  "jtext v = (case v of None \<Rightarrow> None | Some JNull \<Rightarrow> None | Some (JStr s) \<Rightarrow> Some s | Some j \<Rightarrow> Some (dumps_default j))"

record inv_stats =
  iz_total :: nat
  iz_by_status :: "(inv_status \<times> nat) list"
  iz_by_severity :: "(string option \<times> nat) list"
  iz_by_machine :: "(uuid \<times> string option \<times> nat \<times> nat) list"
  iz_recent_24h :: nat
  iz_recent_7d :: nat
  iz_avg_duration :: "rat option"
  iz_daily :: "(int \<times> nat \<times> nat) list"
  iz_findings :: "(string option \<times> string option \<times> nat) list"

definition durations :: "investigation list \<Rightarrow> int list" where
  "durations rows = map (\<lambda>iv. the (iv_completed_at iv) - the (iv_started_at iv))
     (filter (\<lambda>iv. iv_status iv = IV_COMPLETED \<and> iv_started_at iv \<noteq> None \<and> iv_completed_at iv \<noteq> None) rows)"

definition finding_keys :: "investigation list \<Rightarrow> (string option \<times> string option) list" where
  "finding_keys rows = concat (map (\<lambda>iv. map (\<lambda>j. (jtext (jget ''mitre_id'' j), jtext (jget ''title'' j)))
     (case iv_findings iv of None \<Rightarrow> [] | Some js \<Rightarrow> js)) rows)"

definition get_investigation_stats :: "time \<Rightarrow> http_error + user \<Rightarrow> int \<Rightarrow> dfir \<Rightarrow> http_error + inv_stats" where
  "get_investigation_stats now auth ndays db =
     (case auth of
        Inl e \<Rightarrow> Inl e
      | Inr _ \<Rightarrow>
          (let rows = df_rows db;
               recent = filter (\<lambda>iv. iv_created_at iv \<ge> now - days ndays) rows;
               ds = durations rows
           in Inr \<lparr>iz_total = length rows,
                iz_by_status = count_by iv_status rows,
                iz_by_severity = count_by iv_severity (filter (\<lambda>iv. iv_severity iv \<noteq> None) rows),
                iz_by_machine = map (\<lambda>(mid, n). (mid,
                    (case get_df_machine mid db of None \<Rightarrow> None | Some m \<Rightarrow> m_hostname m), n,
                    length (filter (\<lambda>iv. iv_machine_id iv = mid \<and> is_critical iv) rows)))
                  (top_counts 10 (count_by iv_machine_id rows)),
                iz_recent_24h = length (filter (\<lambda>iv. iv_created_at iv \<ge> now - hours 24) rows),
                iz_recent_7d = length (filter (\<lambda>iv. iv_created_at iv \<ge> now - days 7) rows),
                iz_avg_duration = (if ds = [] then None else Some (of_int (sum_list ds) / of_int (seconds 1) / of_nat (length ds))),
                iz_daily = map (\<lambda>(d, n). (d, n, length (filter (\<lambda>iv. day_of (iv_created_at iv) = d \<and> is_critical iv) recent)))
                  (sort_key fst (count_by (\<lambda>iv. day_of (iv_created_at iv)) recent)),
                iz_findings = map (\<lambda>((m, t), n). (m, t, n)) (filter (\<lambda>kc. truthy (fst (fst kc)))
                  (top_counts 10 (count_by id (finding_keys rows))))\<rparr>))"

subsection \<open>Outside orchestrators\<close>

text \<open>One required scope must be held; of several, one is enough. The use of the key is committed.\<close>

definition auth_inv_key :: "time \<Rightarrow> string option \<Rightarrow> string list \<Rightarrow> dfir \<Rightarrow> (http_error + api_key) \<times> dfir" where
  "auth_inv_key now header required db =
     (case extract_bearer header of
        None \<Rightarrow> (Inl (HTTPException 401 ''Missing Authorization Bearer''), db)
      | Some tok \<Rightarrow>
          if tok = [] then (Inl (HTTPException 401 ''Missing Authorization Bearer''), db)
          else
            (case find (\<lambda>k. ak_key_hash k = sha256_hex tok \<and> ak_enabled k) (df_keys db) of
               None \<Rightarrow> (Inl (HTTPException 401 ''API key khong hop le''), db)
             | Some k \<Rightarrow>
                 (let have = set (split_ws (ak_scope k));
                      authorized = (if length required > 1 then have \<inter> set required \<noteq> {} else set required \<subseteq> have)
                  in if \<not> authorized then (Inl (HTTPException 403 ''Thieu scope''), db)
                     else (Inr k, db\<lparr>df_keys := update_where (\<lambda>r. ak_id r = ak_id k)
                             (\<lambda>r. r\<lparr>ak_last_used_at := Some now\<rparr>) (df_keys db)\<rparr>))))"

record inv_heartbeat =
  ih_job_id :: string
  ih_phase :: string
  ih_progress :: int
  ih_step :: "int option"
  ih_total :: "int option"
  ih_message :: "string option"

definition heartbeat_ok :: "inv_heartbeat \<Rightarrow> bool" where
  "heartbeat_ok b \<longleftrightarrow> ih_phase b \<noteq> [] \<and> length (ih_phase b) \<le> 64 \<and> 0 \<le> ih_progress b \<and> ih_progress b \<le> 100 \<and>
     (case ih_step b of None \<Rightarrow> True | Some n \<Rightarrow> 0 \<le> n)"

definition phase_order :: "(string \<times> int) list" where
  "phase_order = [(''dispatching'', 0), (''running'', 1), (''collecting'', 2), (''finalizing'', 3), (''completed'', 4), (''failed'', 4)]"

definition phase_rank :: "int \<Rightarrow> string option \<Rightarrow> int" where
  "phase_rank d p = (case p of None \<Rightarrow> d | Some p \<Rightarrow> (case map_of phase_order p of None \<Rightarrow> d | Some n \<Rightarrow> n))"

text \<open>\<open>previous.get(k, -1) or -1\<close>: a zero counts as minus one.\<close>

definition int_or_minus :: "json option \<Rightarrow> int" where
  "int_or_minus v = (case v of Some (JInt n) \<Rightarrow> (if n = 0 then -1 else n) | _ \<Rightarrow> -1)"

definition progress_before :: "json \<Rightarrow> int \<times> int \<times> int" where
  "progress_before prev =
     (phase_rank (-1) (case jget ''phase'' prev of Some (JStr p) \<Rightarrow> Some p | _ \<Rightarrow> None),
      int_or_minus (jget ''progress_percent'' prev), int_or_minus (jget ''current_step'' prev))"

definition progress_of :: "inv_heartbeat \<Rightarrow> int \<times> int \<times> int" where
  "progress_of b = (phase_rank 1 (Some (ih_phase b)), ih_progress b,
     (case ih_step b of None \<Rightarrow> -1 | Some n \<Rightarrow> if n = 0 then -1 else n))"

fun lex_less :: "int \<times> int \<times> int \<Rightarrow> int \<times> int \<times> int \<Rightarrow> bool" where
  "lex_less (a, b, c) (a', b', c') \<longleftrightarrow> a < a' \<or> a = a' \<and> (b < b' \<or> b = b' \<and> c < c')"

definition progress_json :: "time \<Rightarrow> inv_heartbeat \<Rightarrow> json" where
  "progress_json now b = JObj [(''phase'', JStr (ih_phase b)), (''progress_percent'', JInt (ih_progress b)),
     (''current_step'', (case ih_step b of None \<Rightarrow> JNull | Some n \<Rightarrow> JInt n)),
     (''total_steps'', (case ih_total b of None \<Rightarrow> JNull | Some n \<Rightarrow> JInt n)),
     (''message'', opt_str (ih_message b)), (''updated_at'', JStr (iso_utc now))]"

text \<open>The flag tells whether the heartbeat was accepted.\<close>

definition update_investigation_status ::
  "time \<Rightarrow> string option \<Rightarrow> uuid option \<Rightarrow> inv_heartbeat \<Rightarrow> dfir \<Rightarrow> (http_error + inv_status \<times> bool) \<times> dfir" where
  "update_investigation_status now header pid b db =
     (let (auth, db1) = auth_inv_key now header [''investigation:write''] db in
      on_investigation auth pid db1 (\<lambda>_ iv.
        if \<not> truthy (iv_orchestrator iv) then (Inr (iv_status iv, False), db1)
        else if is_deepagent iv \<and> \<not> truthy (iv_job_id iv) then (Inl (HTTPException 409 ''DeepAgent job chua duoc bind''), db1)
        else if truthy (iv_job_id iv) \<and> iv_job_id iv \<noteq> Some (ih_job_id b)
        then (Inl (HTTPException 409 ''external_job_id khong khop voi job da dispatch''), db1)
        else if iv_status iv \<in> {IV_COMPLETED, IV_FAILED} then (Inr (iv_status iv, False), db1)
        else if ih_progress b < fst (snd (progress_before (iv_hermes_response iv))) \<or>
                lex_less (progress_of b) (progress_before (iv_hermes_response iv))
        then (Inr (iv_status iv, False), db1)
        else
          (let new = (hermes_note (ih_phase b) (progress_json now b) iv)\<lparr>iv_job_id := Some (ih_job_id b)\<rparr>
           in (Inr (iv_status iv, True), commit_row iv new db1))))"

definition list_pending_investigations ::
  "time \<Rightarrow> string option \<Rightarrow> nat \<Rightarrow> dfir \<Rightarrow> (http_error + investigation list) \<times> dfir" where
  "list_pending_investigations now header limit db =
     (case auth_inv_key now header [''investigation:read'', ''investigation:write''] db of
        (Inl e, db1) \<Rightarrow> (Inl e, db1)
      | (Inr _, db1) \<Rightarrow> (let (rows, db2) = list_pending_for_external now limit db1 in (Inr rows, db2)))"

definition submit_investigation_result ::
  "time \<Rightarrow> string option \<Rightarrow> uuid option \<Rightarrow> string option \<Rightarrow> external_result \<Rightarrow> dfir \<Rightarrow> (http_error + investigation) \<times> dfir" where
  "submit_investigation_result now header pid key_header b db =
     (case auth_inv_key now header [''investigation:write''] db of
        (Inl e, db1) \<Rightarrow> (Inl e, db1)
      | (Inr _, db1) \<Rightarrow>
          (case pid of
             None \<Rightarrow> (Inl bad_investigation_id, db1)
           | Some i \<Rightarrow>
               (let key = (if truthy key_header then Some (strip (the key_header)) else None) in
                if \<not> truthy key then (Inl (HTTPException 400 ''Thieu X-Idempotency-Key''), db1)
                else if length (the key) > 255 then (Inl (HTTPException 400 ''X-Idempotency-Key vuot qua 255 ky tu''), db1)
                else case submit_external_result now i key (b\<lparr>xr_severity := Some (or_truthy (xr_severity b) ''info'')\<rparr>) db1 of
                  (Inl External_not_found, db2) \<Rightarrow> (Inl no_investigation, db2)
                | (Inl (External_conflict m), db2) \<Rightarrow> (Inl (HTTPException 409 m), db2)
                | (Inr iv, db2) \<Rightarrow> (Inr iv, db2))))"

definition external_get_investigation ::
  "time \<Rightarrow> string option \<Rightarrow> uuid option \<Rightarrow> dfir \<Rightarrow> (http_error + investigation) \<times> dfir" where
  "external_get_investigation now header pid db =
     (let (auth, db1) = auth_inv_key now header [''investigation:read'', ''investigation:write''] db in
      on_investigation auth pid db1 (\<lambda>_ iv. (Inr iv, db1)))"

end
