(* ===== verification/InvestigationEffects.thy ===== *)
theory InvestigationEffects
  imports InvestigationApi
begin

text \<open>
  What the operations on investigations do to the rows: every row of the table moves along the abstract machine of
  its kind, one committed change after the other, and the rows of other investigations stay as they are.
\<close>

subsection \<open>The abstract machine\<close>

fun may_move :: "bool \<Rightarrow> inv_status \<Rightarrow> inv_status \<Rightarrow> bool" where
  "may_move deepagent IV_COMPLETED _ = False"
| "may_move deepagent IV_FAILED _ = False"
| "may_move deepagent _ IV_FAILED = True"
| "may_move deepagent IV_ANALYZING IV_COMPLETED = True"
| "may_move deepagent IV_PENDING IV_ANALYZING = deepagent"
| "may_move deepagent IV_ANALYZING IV_PENDING = deepagent"
| "may_move deepagent IV_PENDING IV_RUNNING = (\<not> deepagent)"
| "may_move deepagent IV_RUNNING IV_COLLECTING = (\<not> deepagent)"
| "may_move deepagent IV_RUNNING IV_ANALYZING = (\<not> deepagent)"
| "may_move deepagent IV_COLLECTING IV_ANALYZING = (\<not> deepagent)"
| "may_move deepagent s s' = (s = s')"

text \<open>A row as the program leaves it.\<close>

definition row_typed :: "investigation \<Rightarrow> bool" where
  "row_typed r \<longleftrightarrow>
     (iv_completed_at r \<noteq> None \<longleftrightarrow> \<not> is_live r) \<and>
     (iv_status r = IV_FAILED \<longrightarrow> iv_error r \<noteq> None) \<and>
     (iv_status r = IV_COMPLETED \<longrightarrow> iv_severity r \<noteq> None \<and> iv_findings_count r \<noteq> None) \<and>
     (iv_status r = IV_COMPLETED \<and> truthy (iv_orchestrator r) \<longrightarrow>
        the (iv_severity r) \<in> set severities \<and> truthy (iv_key r) \<and> iv_callback_at r \<noteq> None) \<and>
     (is_deepagent r \<longrightarrow> iv_status r \<noteq> IV_RUNNING \<and> iv_status r \<noteq> IV_COLLECTING) \<and>
     (is_deepagent r \<and> iv_status r = IV_ANALYZING \<longrightarrow>
        iv_job_id r = Some (job_name (iv_id r)) \<and> iv_started_at r \<noteq> None)"

definition same_order :: "investigation \<Rightarrow> investigation \<Rightarrow> bool" where
  "same_order r r' \<longleftrightarrow> iv_id r' = iv_id r \<and> iv_machine_id r' = iv_machine_id r \<and> iv_client_id r' = iv_client_id r \<and>
     iv_artifacts r' = iv_artifacts r \<and> iv_instructions r' = iv_instructions r \<and>
     iv_orchestrator r' = iv_orchestrator r \<and> iv_requested_by r' = iv_requested_by r \<and>
     iv_created_at r' = iv_created_at r"

definition row_step :: "investigation \<Rightarrow> investigation \<Rightarrow> bool" where
  "row_step r r' \<longleftrightarrow> same_order r r' \<and> may_move (is_deepagent r) (iv_status r) (iv_status r') \<and>
     (row_typed r \<longrightarrow> row_typed r')"

abbreviation row_moves :: "investigation \<Rightarrow> investigation \<Rightarrow> bool" where
  "row_moves \<equiv> row_step\<^sup>*\<^sup>*"

lemma is_live_simps: "is_live r \<longleftrightarrow> iv_status r \<noteq> IV_COMPLETED \<and> iv_status r \<noteq> IV_FAILED"
  by (cases "iv_status r") (simp_all add: is_live_def live_statuses_def)

lemma may_move_live: "may_move d s s' \<Longrightarrow> s \<noteq> IV_COMPLETED \<and> s \<noteq> IV_FAILED"
  by (induction d s s' rule: may_move.induct) simp_all

lemma may_move_failed [simp]: "may_move d s IV_FAILED \<longleftrightarrow> s \<noteq> IV_COMPLETED \<and> s \<noteq> IV_FAILED"
  by (cases s) simp_all

lemma may_move_same [simp]: "may_move d s s \<longleftrightarrow> s \<noteq> IV_COMPLETED \<and> s \<noteq> IV_FAILED"
  by (cases s) simp_all

lemma row_moves_settled: "row_moves r r' \<Longrightarrow> \<not> is_live r \<Longrightarrow> r' = r"
  by (induction rule: converse_rtranclp_induct)
    (auto simp: row_step_def is_live_simps dest: may_move_live)

lemma row_moves_order: "row_moves r r' \<Longrightarrow> same_order r r'"
  by (induction rule: rtranclp_induct) (auto simp: row_step_def same_order_def)

lemma row_moves_typed: "row_moves r r' \<Longrightarrow> row_typed r \<Longrightarrow> row_typed r'"
  by (induction rule: rtranclp_induct) (auto simp: row_step_def)

lemma row_moves_status:
  "row_moves r r' \<Longrightarrow> (may_move (is_deepagent r))\<^sup>*\<^sup>* (iv_status r) (iv_status r')"
proof (induction rule: rtranclp_induct)
  case (step r' r'')
  have "is_deepagent r' = is_deepagent r"
    using row_moves_order [OF step.hyps(1)] by (simp add: same_order_def is_deepagent_def)
  then show ?case using step by (auto simp: row_step_def intro: rtranclp.rtrancl_into_rtrancl)
qed simp

lemma row_moves_live: "row_moves r r' \<Longrightarrow> is_live r' \<Longrightarrow> is_live r"
  using row_moves_settled by blast

subsection \<open>Committing one row\<close>

lemma flush_sel [simp]:
  "iv_id (flush_row old new r) = iv_id r" "iv_machine_id (flush_row old new r) = iv_machine_id r"
  "iv_client_id (flush_row old new r) = iv_client_id r" "iv_artifacts (flush_row old new r) = iv_artifacts r"
  "iv_instructions (flush_row old new r) = iv_instructions r" "iv_orchestrator (flush_row old new r) = iv_orchestrator r"
  "iv_requested_by (flush_row old new r) = iv_requested_by r" "iv_created_at (flush_row old new r) = iv_created_at r"
  "iv_status (flush_row old new r) = col (iv_status old) (iv_status new) (iv_status r)"
  "iv_raw_artifacts (flush_row old new r) = col (iv_raw_artifacts old) (iv_raw_artifacts new) (iv_raw_artifacts r)"
  by (simp_all add: flush_row_def)

text \<open>The session and the table agree on a row, up to the flows that are changed in place.\<close>

definition agree :: "investigation \<Rightarrow> investigation \<Rightarrow> bool" where
  "agree iv r \<longleftrightarrow> r = iv\<lparr>iv_raw_artifacts := iv_raw_artifacts r\<rparr>"

definition in_sync :: "investigation \<Rightarrow> dfir \<Rightarrow> bool" where
  "in_sync iv db \<longleftrightarrow> (\<forall>r\<in>set (df_rows db). iv_id r = iv_id iv \<longrightarrow> agree iv r)"

lemma agree_refl [simp]: "agree iv iv"
  by (simp add: agree_def)

lemma agree_same [simp]: "iv_raw_artifacts r = iv_raw_artifacts iv \<Longrightarrow> agree iv r \<longleftrightarrow> r = iv"
  by (simp add: agree_def)

lemma flush_agree:
  assumes "agree old r" and "same_order old new"
  shows "agree new (flush_row old new r)"
proof -
  have r: "r = old\<lparr>iv_raw_artifacts := iv_raw_artifacts r\<rparr>" using assms(1) by (simp add: agree_def)
  obtain x where x: "r = old\<lparr>iv_raw_artifacts := x\<rparr>" using r by blast
  show ?thesis
    using assms(2) unfolding agree_def x same_order_def
    by (intro investigation.equality) (simp_all add: flush_row_def col_def)
qed

lemma same_order_refl [simp]: "same_order r r"
  by (simp add: same_order_def)

lemma row_step_agree: "row_step old new \<Longrightarrow> agree old r \<Longrightarrow> agree new r' \<Longrightarrow> row_step r r'"
proof -
  assume a: "row_step old new" "agree old r" "agree new r'"
  obtain x y where "r = old\<lparr>iv_raw_artifacts := x\<rparr>" "r' = new\<lparr>iv_raw_artifacts := y\<rparr>"
    using a(2,3) unfolding agree_def by blast
  then show ?thesis using a(1)
    by (simp add: row_step_def same_order_def is_deepagent_def row_typed_def is_live_def)
qed

text \<open>What an operation on one row does to the table.\<close>

definition advances :: "uuid \<Rightarrow> dfir \<Rightarrow> dfir \<Rightarrow> bool" where
  "advances i db db' \<longleftrightarrow>
     list_all2 (\<lambda>r r'. row_moves r r' \<and> (iv_id r \<noteq> i \<longrightarrow> r' = r)) (df_rows db) (df_rows db')"

definition row_result :: "investigation \<Rightarrow> dfir \<Rightarrow> worker_result \<Rightarrow> bool" where
  "row_result iv db res \<longleftrightarrow> (let (_, iv', db') = res in
     same_order iv iv' \<and> in_sync iv' db' \<and> advances (iv_id iv) db db')"

lemma advances_refl [simp]: "advances i db db"
  by (simp add: advances_def list_all2_refl)

lemma advances_rows: "df_rows db' = df_rows db \<Longrightarrow> advances i db db'"
  by (simp add: advances_def list_all2_refl)

lemma advances_trans: "advances i db db1 \<Longrightarrow> advances i db1 db2 \<Longrightarrow> advances i db db2"
  unfolding advances_def
proof (erule (1) list_all2_trans [rotated], goal_cases)
  case (1 r r1 r2)
  then have "iv_id r1 = iv_id r" using row_moves_order by (auto simp: same_order_def)
  with 1 show ?case by (auto intro: rtranclp_trans)
qed

lemma advances_commit:
  assumes "in_sync old db" and "row_step old new"
  shows "advances (iv_id old) db (commit_row old new db) \<and> in_sync new (commit_row old new db)"
proof -
  have o: "same_order old new" using assms(2) by (simp add: row_step_def)
  have "row_step r (flush_row old new r)" if "r \<in> set (df_rows db)" "iv_id r = iv_id old" for r
  proof -
    have "agree old r" using assms(1) that by (simp add: in_sync_def)
    then show ?thesis using row_step_agree [OF assms(2)] flush_agree [OF _ o] by blast
  qed
  then have "advances (iv_id old) db (commit_row old new db)"
    by (auto simp: advances_def commit_row_def update_where_def list_all2_conv_all_nth)
  moreover have "in_sync new (commit_row old new db)"
    using assms(1) o flush_agree [OF _ o]
    by (auto simp: in_sync_def commit_row_def same_order_def elim!: update_whereE)
  ultimately show ?thesis by simp
qed

subsection \<open>The operations of the worker on one row\<close>

lemma row_result_idle: "in_sync iv db \<Longrightarrow> row_result iv db (x, iv, db)"
  by (simp add: row_result_def)

lemma row_result_done: "in_sync old db \<Longrightarrow> row_step old new \<Longrightarrow> row_result old db (done_with old new db)"
  using advances_commit [of old db new] by (simp add: row_result_def done_with_def row_step_def)

lemma row_result_raise: "in_sync old db \<Longrightarrow> row_step old new \<Longrightarrow> row_result old db (raise_with e old new db)"
  using advances_commit [of old db new] by (simp add: row_result_def raise_with_def row_step_def)

lemma row_result_rows:
  "row_result iv db (x, iv', db') \<Longrightarrow> df_rows db'' = df_rows db' \<Longrightarrow> row_result iv db (y, iv', db'')"
  by (simp add: row_result_def in_sync_def advances_def)

text \<open>One more committed change before.\<close>

lemma row_result_after:
  assumes "in_sync iv db" and "row_step iv iv1" and "df_rows db1 = df_rows (commit_row iv iv1 db)"
    and "in_sync iv1 db1 \<Longrightarrow> row_result iv1 db1 res"
  shows "row_result iv db res"
proof -
  have c: "advances (iv_id iv) db (commit_row iv iv1 db)" "in_sync iv1 (commit_row iv iv1 db)"
    using advances_commit [OF assms(1,2)] by simp_all
  have s: "in_sync iv1 db1" using c(2) assms(3) by (simp add: in_sync_def)
  have a: "advances (iv_id iv) db db1" using c(1) assms(3) by (simp add: advances_def)
  have o: "same_order iv iv1" using assms(2) by (simp add: row_step_def)
  then have "iv_id iv1 = iv_id iv" by (simp add: same_order_def)
  then show ?thesis
    using assms(4) [OF s] a o by (auto simp: row_result_def same_order_def split: prod.splits intro: advances_trans)
qed

lemmas row_step_unfold = row_step_def same_order_def row_typed_def is_deepagent_def is_live_simps

text \<open>Changes that leave the status of a live row, and failures.\<close>

lemma row_step_fail:
  assumes "is_live iv" and "same_order iv new" and "iv_status new = IV_FAILED" and "iv_error new \<noteq> None"
    and "iv_completed_at new \<noteq> None"
  shows "row_step iv new"
  using assms by (simp add: row_step_unfold)

lemma fail_row_sel [simp]:
  "iv_status (fail_row now m iv) = IV_FAILED" "iv_error (fail_row now m iv) = Some (take 2000 m)"
  "iv_completed_at (fail_row now m iv) = Some now" "same_order iv (fail_row now m iv)"
  by (simp_all add: fail_row_def same_order_def)

lemma row_step_fail_row: "is_live iv \<Longrightarrow> row_step iv (fail_row now m iv)"
  by (rule row_step_fail) simp_all

lemma row_step_fail_hermes: "is_live iv \<Longrightarrow> row_step iv ((fail_row now m iv)\<lparr>iv_hermes_status := h\<rparr>)"
  by (rule row_step_fail) (simp_all add: fail_row_def same_order_def)

lemma row_step_note: "is_live iv \<Longrightarrow> row_step iv (hermes_note h resp iv)"
  by (simp add: row_step_unfold hermes_note_def)

lemma job_answer_result:
  "in_sync iv db \<Longrightarrow> is_deepagent iv \<Longrightarrow> iv_status iv = IV_ANALYZING \<Longrightarrow> row_result iv db (job_answer now sc body iv db)"
  unfolding job_answer_def Let_def
  by (simp split: sum.split)
    (auto intro!: row_result_idle row_result_done row_step_note row_step_fail_hermes simp: is_live_simps
      row_step_unfold hermes_note_def)

lemma check_deepagent_result:
  assumes "in_sync iv db" and "is_deepagent iv" and "iv_status iv = IV_ANALYZING"
  shows "row_result iv db (check_deepagent w now iv db)"
  unfolding check_deepagent_def state_check_deepagent_job_def
  using assms job_answer_result [OF assms]
  by (auto intro!: row_result_idle row_result_done row_step_fail_hermes simp: is_live_simps row_step_unfold hermes_note_def
      split: http_reply.split)

lemma ambiguous_result: "in_sync iv db \<Longrightarrow> is_live iv \<Longrightarrow> row_result iv db (ambiguous d m iv db)"
  unfolding ambiguous_def by (rule row_result_raise) (simp_all add: row_step_note)

lemma dispatch_failed_result: "in_sync iv db \<Longrightarrow> is_live iv \<Longrightarrow> row_result iv db (dispatch_failed now e m iv db)"
  unfolding dispatch_failed_def by (rule row_result_raise) (simp_all add: row_step_fail_hermes)

lemma after_post_result:
  assumes "in_sync iv db" and "iv_status iv = IV_ANALYZING" and "iv_job_id iv = Some (job_name (iv_id iv))"
  shows "row_result iv db (after_post now (job_name (iv_id iv)) reply iv db)"
proof -
  have l: "is_live iv" using assms(2) by (simp add: is_live_simps)
  note r = ambiguous_result [OF assms(1) l] dispatch_failed_result [OF assms(1) l]
  have o: "row_result iv db (other_exception now e iv db)" for e
    by (simp add: other_exception_def r)
  have d: "row_step iv ((hermes_note h j iv)\<lparr>iv_job_id := Some (job_name (iv_id iv))\<rparr>)" for h j
    using assms(2,3) by (simp add: row_step_unfold hermes_note_def)
  show ?thesis
    unfolding after_post_def
    by (simp add: r o row_result_done [OF assms(1) d] split: http_reply.split sum.split)
qed

lemma dispatch_deepagent_result:
  assumes "in_sync iv db" and "is_deepagent iv" and "iv_status iv = IV_PENDING"
  shows "row_result iv db (dispatch_deepagent w now iv db)"
proof -
  let ?iv1 = "iv\<lparr>iv_status := IV_ANALYZING, iv_job_id := Some (job_name (iv_id iv)),
                 iv_hermes_status := Some ''dispatching'', iv_started_at := Some now\<rparr>"
  have "row_step iv ?iv1" using assms(2,3) by (simp add: row_step_unfold)
  then have "row_result iv db (after_post now (job_name (iv_id iv)) reply ?iv1 ((commit_row iv ?iv1 db)\<lparr>df_sent := q\<rparr>))" for reply q
  proof (rule row_result_after [OF assms(1)])
    assume "in_sync ?iv1 ((commit_row iv ?iv1 db)\<lparr>df_sent := q\<rparr>)"
    from after_post_result [OF this, of now reply] show "row_result ?iv1 ((commit_row iv ?iv1 db)\<lparr>df_sent := q\<rparr>)
        (after_post now (job_name (iv_id iv)) reply ?iv1 ((commit_row iv ?iv1 db)\<lparr>df_sent := q\<rparr>))" by simp
  qed simp
  then show ?thesis
    unfolding dispatch_deepagent_def state_dispatch_deepagent_def Let_def
    by (simp add: row_result_idle [OF assms(1)] split: sum.split)
qed

lemma in_sync_raw [simp]: "in_sync (iv\<lparr>iv_raw_artifacts := x\<rparr>) db = in_sync iv db"
  by (simp add: in_sync_def agree_def)

lemma row_result_raw: "row_result (iv\<lparr>iv_raw_artifacts := x\<rparr>) db res \<Longrightarrow> row_result iv db res"
  by (auto simp: row_result_def same_order_def)

lemma state_start_result:
  assumes "in_sync iv db" and "\<not> is_deepagent iv" and "iv_status iv = IV_PENDING"
  shows "row_result iv db (state_start v now iv db)"
proof -
  let ?iv1 = "iv\<lparr>iv_status := IV_RUNNING, iv_started_at := Some now\<rparr>"
  have s: "row_step iv ?iv1" using assms(2,3) by (simp add: row_step_unfold)
  have "row_result ?iv1 (commit_row iv ?iv1 db) (case vq_open v of
        Inl e \<Rightarrow> raise_with e ?iv1 (fail_row now (''Velociraptor: '' @ exc_text e) ?iv1) (commit_row iv ?iv1 db)
      | Inr _ \<Rightarrow> (let flows = map (start_flow v) (iv_artifacts ?iv1)
          in done_with ?iv1 (?iv1\<lparr>iv_raw_artifacts := Some flows, iv_flow_id := first_flow_id flows,
                iv_status := IV_COLLECTING\<rparr>) (commit_row iv ?iv1 db)))"
    if "in_sync ?iv1 (commit_row iv ?iv1 db)"
    using assms(2) unfolding Let_def
    by (auto intro!: row_result_raise [OF that] row_result_done [OF that] row_step_fail_row simp: is_live_simps
        row_step_unfold split: sum.split)
  then show ?thesis
    unfolding state_start_def Let_def by (intro row_result_after [OF assms(1) s]) (simp_all add: Let_def)
qed

lemma collected_result:
  assumes "in_sync iv db" and "\<not> is_deepagent iv" and "iv_status iv = IV_RUNNING \<or> iv_status iv = IV_COLLECTING"
  shows "row_result iv db (collected polled iv db)"
proof -
  let ?iv1 = "iv\<lparr>iv_raw_artifacts := Some (map fst polled)\<rparr>"
  have s: "in_sync ?iv1 db" using assms(1) by simp
  have "row_step ?iv1 (?iv1\<lparr>iv_status := IV_ANALYZING, iv_hermes_status := Some ''awaiting_external''\<rparr>)"
    "row_step ?iv1 (?iv1\<lparr>iv_status := IV_ANALYZING\<rparr>)"
    using assms(2,3) by (auto simp: row_step_unfold)
  note r = row_result_done [OF s this(1)] row_result_done [OF s this(2)] row_result_idle [OF s]
  have "row_result ?iv1 db (collected polled iv db)"
    unfolding collected_def Let_def by (simp add: r)
  then show ?thesis by (rule row_result_raw)
qed

lemma state_poll_collect_result:
  assumes "in_sync iv db" and "\<not> is_deepagent iv" and "iv_status iv = IV_RUNNING \<or> iv_status iv = IV_COLLECTING"
  shows "row_result iv db (state_poll_collect g v now iv db)"
proof -
  have l: "is_live iv" using assms(3) by (auto simp: is_live_simps)
  show ?thesis
    unfolding state_poll_collect_def
    using row_result_done [OF assms(1) row_step_fail_row [OF l]] row_result_raise [OF assms(1) row_step_fail_row [OF l]]
      collected_result [OF assms]
    by (simp add: Let_def split: sum.split)
qed

lemma df_rows_notify [simp]: "df_rows (notify_investigation_result now i m c s f l e db) = df_rows db"
  by (simp add: notify_investigation_result_def Let_def)

lemma df_rows_tokens [simp]: "df_rows (add_tokens n db) = df_rows db"
  by (simp add: add_tokens_def)

lemma after_analysis_result:
  assumes "in_sync iv db" and "\<not> truthy (iv_orchestrator iv)" and "iv_status iv = IV_ANALYZING"
  shows "row_result iv db (after_analysis now model answer iv db)"
proof -
  have l: "is_live iv" using assms(3) by (simp add: is_live_simps)
  have "row_step iv (analysed_row now a iv)" for a
    using assms(2,3) by (simp add: row_step_unfold analysed_row_def)
  note fin = row_result_done [OF assms(1), unfolded done_with_def]
  note ok = row_result_rows [OF fin [OF \<open>\<And>a. row_step iv (analysed_row now a iv)\<close>]]
  note fail = row_result_rows [OF fin [OF row_step_fail_row [OF l]]]
  show ?thesis
    unfolding after_analysis_def Let_def
    by (auto split: sum.split intro!: fail ok row_result_idle [OF assms(1)])
qed

lemma state_analyze_result:
  assumes "in_sync iv db" and "\<not> is_deepagent iv" and "iv_status iv = IV_ANALYZING"
  shows "row_result iv db (state_analyze llm now iv db)"
proof (cases "truthy (iv_orchestrator iv)")
  case False
  have l: "is_live iv" using assms(3) by (simp add: is_live_simps)
  have "row_step iv (iv\<lparr>iv_llm_provider := p, iv_llm_model := m\<rparr>)" for p m
    using assms(3) by (simp add: row_step_unfold)
  note s = row_result_after [OF assms(1) this refl]
  show ?thesis
    unfolding state_analyze_def Let_def using False
    by (auto intro!: s after_analysis_result row_result_done [OF assms(1) row_step_fail_row [OF l]] simp: assms(3)
        split: option.split)
qed (simp add: state_analyze_def row_result_idle [OF assms(1)])

lemma process_one_result:
  assumes "in_sync iv db" shows "row_result iv db (process_one w now iv db)"
  unfolding process_one_def
  using dispatch_deepagent_result [OF assms] check_deepagent_result [OF assms] state_start_result [OF assms]
    state_poll_collect_result [OF assms] state_analyze_result [OF assms] row_result_idle [OF assms]
  by (simp split: inv_status.split)

subsection \<open>One row in the hands of the worker\<close>

lemma row_resultD:
  "row_result iv db (x, iv', db') \<Longrightarrow> same_order iv iv' \<and> in_sync iv' db' \<and> advances (iv_id iv) db db'"
  by (simp add: row_result_def)

lemma advances_mark_failed:
  assumes "in_sync iv db" and "is_live iv" shows "advances (iv_id iv) db (mark_failed now e iv db)"
  unfolding mark_failed_def using advances_commit [OF assms(1) row_step_fail_row [OF assms(2)]] by simp

text \<open>A second failure replaces the text of the first.\<close>

lemma flush_fail_twice:
  "agree iv r \<Longrightarrow> flush_row (fail_row now m iv) (fail_row now m' (fail_row now m iv)) (flush_row iv (fail_row now m iv) r) =
     flush_row iv (fail_row now m' iv) r"
  unfolding agree_def
  by (erule ssubst, rule investigation.equality) (simp_all add: flush_row_def fail_row_def col_def)

lemma advances_fail_twice:
  assumes "in_sync iv db" and "is_live iv"
  shows "advances (iv_id iv) db (mark_failed now e (fail_row now m iv) (commit_row iv (fail_row now m iv) db))"
proof -
  have "df_rows (mark_failed now e (fail_row now m iv) (commit_row iv (fail_row now m iv) db)) =
      df_rows (commit_row iv (fail_row now (exc_text e) iv) db)"
    using assms(1) flush_fail_twice
    by (auto simp: mark_failed_def commit_row_def update_where_def in_sync_def fail_row_def [of _ _ iv, THEN arg_cong, of iv_id]
        fail_row_def comp_def)
  then show ?thesis
    using advances_commit [OF assms(1) row_step_fail_row [OF assms(2)], of now "exc_text e"]
    by (simp add: advances_def)
qed

text \<open>What a raising operation leaves behind when the worker marks the row.\<close>

definition marks_ok :: "time \<Rightarrow> investigation \<Rightarrow> dfir \<Rightarrow> worker_result \<Rightarrow> bool" where
  "marks_ok now iv db res \<longleftrightarrow> (case res of
     (Inl e, iv', db') \<Rightarrow> advances (iv_id iv) db (mark_failed now e iv' db')
   | (Inr _, _, db') \<Rightarrow> advances (iv_id iv) db db')"

lemma marks_ok_live:
  assumes "row_result iv db res" and "is_live (fst (snd res))" shows "marks_ok now iv db res"
proof -
  obtain x iv' db' where r: "res = (x, iv', db')" by (cases res) auto
  with assms(1) have d: "same_order iv iv'" "in_sync iv' db'" "advances (iv_id iv) db db'"
    by (simp_all add: row_resultD)
  have "advances (iv_id iv) db' (mark_failed now e iv' db')" for e
    using advances_mark_failed [OF d(2), of now e] assms(2) d(1) by (simp add: r same_order_def)
  then show ?thesis using d(3) by (auto simp: marks_ok_def r split: sum.split intro: advances_trans)
qed

lemma marks_ok_returns: "row_result iv db res \<Longrightarrow> fst res = Inr y \<Longrightarrow> marks_ok now iv db res"
  by (cases res) (simp add: marks_ok_def row_resultD)

lemma marks_ok_raise:
  assumes "in_sync iv db" and "is_live iv"
  shows "marks_ok now iv db (raise_with e iv (fail_row now m iv) db)"
  using advances_fail_twice [OF assms, of now e m] by (simp add: marks_ok_def raise_with_def)

lemma done_with_sel [simp]: "fst (done_with old new db) = Inr ()" "fst (snd (done_with old new db)) = new"
  by (simp_all add: done_with_def)

lemma state_start_marks:
  assumes "in_sync iv db" and "\<not> is_deepagent iv" and "iv_status iv = IV_PENDING"
  shows "marks_ok now iv db (state_start v now iv db)"
proof (cases "vq_open v")
  case (Inr u)
  then have "fst (state_start v now iv db) = Inr ()" by (simp add: state_start_def Let_def)
  with state_start_result [OF assms] show ?thesis by (rule marks_ok_returns)
next
  case (Inl e)
  let ?iv1 = "iv\<lparr>iv_status := IV_RUNNING, iv_started_at := Some now\<rparr>"
  have s: "row_step iv ?iv1" using assms(2,3) by (simp add: row_step_unfold)
  have c: "advances (iv_id iv) db (commit_row iv ?iv1 db)" "in_sync ?iv1 (commit_row iv ?iv1 db)"
    using advances_commit [OF assms(1) s] by simp_all
  have l: "is_live ?iv1" by (simp add: is_live_simps)
  show ?thesis
    using Inl marks_ok_raise [OF c(2) l, of now e "''Velociraptor: '' @ exc_text e"] advances_trans [OF c(1)]
    by (simp add: state_start_def Let_def marks_ok_def raise_with_def)
qed

lemma state_poll_collect_marks:
  assumes "in_sync iv db" and "\<not> is_deepagent iv" and "iv_status iv = IV_RUNNING \<or> iv_status iv = IV_COLLECTING"
  shows "marks_ok now iv db (state_poll_collect g v now iv db)"
proof (cases "fst (state_poll_collect g v now iv db)")
  case (Inr u)
  with state_poll_collect_result [OF assms] show ?thesis by (rule marks_ok_returns)
next
  case (Inl e)
  have l: "is_live iv" using assms(3) by (auto simp: is_live_simps)
  have "\<exists>m. state_poll_collect g v now iv db = raise_with e iv (fail_row now m iv) db"
    using Inl by (auto simp: state_poll_collect_def collected_def Let_def raise_with_def split: if_splits sum.splits)
  then obtain m where "state_poll_collect g v now iv db = raise_with e iv (fail_row now m iv) db" ..
  then show ?thesis using marks_ok_raise [OF assms(1) l, of now e m] by simp
qed

lemma state_analyze_marks:
  assumes "in_sync iv db" and "\<not> is_deepagent iv" and "iv_status iv = IV_ANALYZING"
  shows "marks_ok now iv db (state_analyze llm now iv db)"
proof (cases "fst (state_analyze llm now iv db)")
  case (Inr u)
  with state_analyze_result [OF assms] show ?thesis by (rule marks_ok_returns)
next
  case (Inl e)
  have "is_live (fst (snd (state_analyze llm now iv db)))"
    using Inl assms(3) by (auto simp: state_analyze_def after_analysis_def Let_def is_live_simps split: if_splits option.splits sum.splits)
  with state_analyze_result [OF assms] show ?thesis by (rule marks_ok_live)
qed

lemma check_deepagent_raises: "check_deepagent w now iv db = (Inl e, iv', db') \<Longrightarrow> iv' = iv \<and> db' = db"
  by (auto simp: check_deepagent_def state_check_deepagent_job_def job_answer_def done_with_def Let_def
      split: if_splits http_reply.splits sum.splits)

lemma after_post_raises:
  "after_post now job reply iv db = (Inl e, iv', db') \<Longrightarrow>
     fst e = ''DispatchUncertain'' \<or> fst e = ''DispatchFailed'' \<and> iv_status iv' = IV_FAILED"
  by (auto simp: after_post_def other_exception_def ambiguous_def dispatch_failed_def raise_with_def done_with_def fail_row_def
      split: if_splits http_reply.splits sum.splits)

lemma dispatch_deepagent_raises:
  "dispatch_deepagent w now iv db = (Inl e, iv', db') \<Longrightarrow>
     fst e = ''DispatchUncertain'' \<or> fst e = ''DispatchFailed'' \<and> iv_status iv' = IV_FAILED \<or> iv' = iv \<and> db' = db"
  by (auto simp: dispatch_deepagent_def state_dispatch_deepagent_def Let_def dest: after_post_raises split: sum.splits)

subsection \<open>One iteration of the worker\<close>

text \<open>What an operation does to the whole table.\<close>

definition table_moves :: "dfir \<Rightarrow> dfir \<Rightarrow> bool" where
  "table_moves db db' \<longleftrightarrow> list_all2 row_moves (df_rows db) (df_rows db')"

lemma table_moves_rows: "df_rows db' = df_rows db \<Longrightarrow> table_moves db db'"
  by (simp add: table_moves_def list_all2_refl)

lemma table_moves_trans: "table_moves a b \<Longrightarrow> table_moves b c \<Longrightarrow> table_moves a c"
  unfolding table_moves_def
  by (rule list_all2_trans [of row_moves row_moves row_moves "df_rows a" "df_rows b"]) (auto intro: rtranclp_trans)

lemma advances_moves: "advances i db db' \<Longrightarrow> table_moves db db'"
  unfolding advances_def table_moves_def by (erule list_all2_mono) simp

lemma row_moves_id: "row_moves r r' \<Longrightarrow> iv_id r' = iv_id r"
  using row_moves_order by (simp add: same_order_def)

lemma table_moves_ids: "table_moves db db' \<Longrightarrow> map iv_id (df_rows db') = map iv_id (df_rows db)"
  unfolding table_moves_def list_all2_conv_all_nth by (intro nth_equalityI) (auto dest: row_moves_id)

lemma all2_back: "list_all2 P xs ys \<Longrightarrow> y \<in> set ys \<Longrightarrow> \<exists>x\<in>set xs. P x y"
  by (induction rule: list_all2_induct) auto

lemma all2_on: "list_all2 P xs ys \<Longrightarrow> x \<in> set xs \<Longrightarrow> \<exists>y\<in>set ys. P x y"
  by (induction rule: list_all2_induct) auto

lemma advances_in_sync:
  assumes "advances i db db'" and "iv_id iv \<noteq> i" and "in_sync iv db" shows "in_sync iv db'"
  unfolding in_sync_def
proof (intro ballI impI)
  fix r' assume r': "r' \<in> set (df_rows db')" "iv_id r' = iv_id iv"
  then obtain r where r: "r \<in> set (df_rows db)" "row_moves r r'" "iv_id r \<noteq> i \<longrightarrow> r' = r"
    using assms(1) unfolding advances_def by (blast dest: all2_back)
  have "iv_id r = iv_id r'" using row_moves_id [OF r(2)] by simp
  then have "iv_id r \<noteq> i" "iv_id r = iv_id iv" using r' assms(2) by simp_all
  then show "agree iv r'" using r(1,3) assms(3) by (simp add: in_sync_def)
qed

definition synced :: "investigation list \<Rightarrow> dfir \<Rightarrow> bool" where
  "synced ivs db \<longleftrightarrow> distinct (map iv_id ivs) \<and> (\<forall>iv\<in>set ivs. in_sync iv db)"

lemma synced_Nil [simp]: "synced [] db"
  by (simp add: synced_def)

lemma synced_step:
  assumes "synced (iv # ivs) db" and "advances (iv_id iv) db db'" shows "synced ivs db'"
proof -
  have "in_sync v db'" if "v \<in> set ivs" for v
  proof (rule advances_in_sync [OF assms(2)])
    show "iv_id v \<noteq> iv_id iv" using assms(1) imageI [OF that, of iv_id] by (auto simp: synced_def)
    show "in_sync v db" using assms(1) that by (simp add: synced_def)
  qed
  then show ?thesis using assms(1) by (simp add: synced_def)
qed

definition ids_ok :: "dfir \<Rightarrow> bool" where
  "ids_ok db \<longleftrightarrow> distinct (map iv_id (df_rows db))"

lemma ids_ok_moves: "table_moves db db' \<Longrightarrow> ids_ok db \<Longrightarrow> ids_ok db'"
  by (simp add: ids_ok_def table_moves_ids)

lemma in_sync_row: "ids_ok db \<Longrightarrow> iv \<in> set (df_rows db) \<Longrightarrow> in_sync iv db"
  by (auto simp: ids_ok_def in_sync_def distinct_map inj_on_def)

lemma distinct_ids_sort: "distinct (map iv_id xs) \<Longrightarrow> distinct (map iv_id (take n (sort_key f (filter P xs))))"
  by (simp add: take_map [symmetric] distinct_map inj_on_def distinct_take)

lemma synced_query:
  assumes "ids_ok db" shows "synced (take n (sort_key f (filter P (df_rows db)))) db"
proof -
  have "in_sync iv db" if "iv \<in> set (take n (sort_key f (filter P (df_rows db))))" for iv
    using in_sync_row [OF assms] in_set_takeD [OF that] by simp
  moreover have "distinct (map iv_id (take n (sort_key f (filter P (df_rows db)))))"
    using assms unfolding ids_ok_def by (rule distinct_ids_sort)
  ultimately show ?thesis by (simp only: synced_def) blast
qed

lemma reconcile_active_moves:
  "synced ivs db \<Longrightarrow> \<forall>iv\<in>set ivs. is_deepagent iv \<and> iv_status iv = IV_ANALYZING \<Longrightarrow>
     table_moves db (snd (reconcile_active w now ivs db))"
proof (induction ivs arbitrary: db)
  case (Cons iv ivs)
  obtain x iv' db' where r: "check_deepagent w now iv db = (x, iv', db')" by (cases "check_deepagent w now iv db") auto
  have "row_result iv db (x, iv', db')"
    using check_deepagent_result [of iv db w now] Cons.prems by (simp add: r synced_def)
  then have a: "advances (iv_id iv) db db'" by (simp add: row_resultD)
  show ?case
  proof (cases x)
    case (Inr u)
    then show ?thesis
      using Cons.IH [OF synced_step [OF Cons.prems(1) a]] Cons.prems(2) table_moves_trans [OF advances_moves [OF a]] by (simp add: r)
  qed (simp add: r advances_moves [OF a])
qed (simp add: table_moves_rows)

lemma work_through_moves:
  assumes "\<And>iv db. iv \<in> set ivs \<Longrightarrow> in_sync iv db \<Longrightarrow> advances (iv_id iv) db (snd (f iv db))"
  shows "synced ivs db \<Longrightarrow> table_moves db (work_through f ivs db)"
  using assms
proof (induction ivs arbitrary: db)
  case (Cons iv ivs)
  have a: "advances (iv_id iv) db (snd (f iv db))" using Cons.prems by (simp add: synced_def)
  have "table_moves (snd (f iv db)) (work_through f ivs (snd (f iv db)))"
    using Cons.prems(2) by (intro Cons.IH synced_step [OF Cons.prems(1) a]) simp_all
  then show ?case using table_moves_trans [OF advances_moves [OF a]] by simp
qed (simp add: table_moves_rows)

text \<open>No other session writes while the worker runs.\<close>

definition undisturbed :: "world \<Rightarrow> bool" where
  "undisturbed w \<longleftrightarrow> wd_others w = (\<lambda>_ db. db)"

lemma process_item_advances:
  assumes "undisturbed w" and "in_sync iv db" and "\<not> is_deepagent iv"
  shows "advances (iv_id iv) db (snd (process_item w now iv db))"
proof -
  have "marks_ok now iv db (process_one w now iv db)"
    using assms(3) state_start_marks [OF assms(2,3)] state_poll_collect_marks [OF assms(2,3)] state_analyze_marks [OF assms(2,3)]
    by (simp add: process_one_def marks_ok_def split: inv_status.split)
  then show ?thesis
    using assms(1) by (auto simp: process_item_def marks_ok_def undisturbed_def split: prod.splits sum.splits)
qed

lemma dispatch_item_advances:
  assumes "undisturbed w" and "in_sync iv db" and "is_deepagent iv" and "iv_status iv = IV_PENDING"
  shows "advances (iv_id iv) db (snd (dispatch_item w now iv db))"
proof -
  obtain x iv' db' where r: "dispatch_deepagent w now iv db = (x, iv', db')" by (cases "dispatch_deepagent w now iv db") auto
  have a: "advances (iv_id iv) db db'"
    using dispatch_deepagent_result [OF assms(2,3,4), of w now] by (simp add: r row_resultD)
  show ?thesis
  proof (cases x)
    case (Inl e)
    have "advances (iv_id iv) db (mark_failed now e iv db)"
      using assms(2,4) by (intro advances_mark_failed) (simp_all add: is_live_simps)
    then show ?thesis
      using dispatch_deepagent_raises [of w now iv db e iv' db'] a assms(1) Inl by (auto simp: dispatch_item_def r undisturbed_def)
  qed (use a assms(1) in \<open>simp add: dispatch_item_def r undisturbed_def\<close>)
qed

text \<open>Rows that are changed together.\<close>

lemma commit_rows_simps [simp]:
  "commit_rows f [] db = db" "commit_rows f (iv # ivs) db = commit_rows f ivs (commit_row iv (f iv) db)"
  by (simp_all add: commit_rows_def)

lemma commit_rows_other:
  "in_sync v db \<Longrightarrow> iv_id v \<notin> iv_id ` set ivs \<Longrightarrow> synced ivs db \<Longrightarrow> \<forall>iv\<in>set ivs. row_step iv (f iv) \<Longrightarrow>
     in_sync v (commit_rows f ivs db)"
proof (induction ivs arbitrary: db)
  case (Cons iv ivs)
  have a: "advances (iv_id iv) db (commit_row iv (f iv) db)"
    using Cons.prems(3,4) advances_commit [of iv db "f iv"] by (simp add: synced_def)
  show ?case
    using Cons.prems Cons.IH [OF advances_in_sync [OF a]] synced_step [OF Cons.prems(3) a] by simp
qed simp

lemma commit_rows_result:
  "synced ivs db \<Longrightarrow> \<forall>iv\<in>set ivs. row_step iv (f iv) \<Longrightarrow>
     table_moves db (commit_rows f ivs db) \<and> synced (map f ivs) (commit_rows f ivs db)"
proof (induction ivs arbitrary: db)
  case (Cons iv ivs)
  let ?db = "commit_row iv (f iv) db"
  have a: "advances (iv_id iv) db ?db" and s: "in_sync (f iv) ?db" and id: "iv_id (f iv) = iv_id iv"
    using Cons.prems advances_commit [of iv db "f iv"] by (simp_all add: synced_def row_step_def same_order_def)
  note sy = synced_step [OF Cons.prems(1) a]
  have rest: "table_moves ?db (commit_rows f ivs ?db)" "synced (map f ivs) (commit_rows f ivs ?db)"
    using Cons.IH [OF sy] Cons.prems(2) by simp_all
  have ids: "iv_id ` set (map f ivs) = iv_id ` set ivs"
    using Cons.prems(2) by (simp add: row_step_def same_order_def image_image cong: image_cong)
  have new: "iv_id iv \<notin> iv_id ` set ivs" using Cons.prems(1) by (simp add: synced_def)
  have "in_sync (f iv) (commit_rows f ivs ?db)"
    using commit_rows_other [OF s _ sy] new id Cons.prems(2) by simp
  then show ?case
    using table_moves_trans [OF advances_moves [OF a] rest(1)] rest(2) new ids id by (simp add: synced_def image_image)
qed (simp add: table_moves_rows)

lemma row_step_reserve: "is_deepagent iv \<Longrightarrow> iv_status iv = IV_PENDING \<Longrightarrow> row_step iv (reserve iv)"
  by (simp add: row_step_unfold reserve_def)

lemma deepagent_in_query: "sort_key iv_created_at (deepagent_in st db) =
    take (length (df_rows db)) (sort_key iv_created_at (filter (\<lambda>iv. is_deepagent iv \<and> iv_status iv = st) (df_rows db)))"
  by (simp add: deepagent_in_def)

lemma synced_deepagent: "ids_ok db \<Longrightarrow> synced (take n (sort_key iv_created_at (deepagent_in st db))) db"
  unfolding deepagent_in_def by (rule synced_query)

lemma synced_deepagent_all: "ids_ok db \<Longrightarrow> synced (sort_key iv_created_at (deepagent_in st db)) db"
  using synced_deepagent [of db "length (deepagent_in st db)" st] by simp

lemma claim_result:
  assumes "ids_ok db" and "claim_deepagent_dispatches n db = (claimed, db')"
  shows "table_moves db db' \<and> synced claimed db' \<and> (\<forall>iv\<in>set claimed. is_deepagent iv \<and> iv_status iv = IV_PENDING)"
proof (cases "n = 0 \<or> n - length (deepagent_in IV_ANALYZING db) = 0")
  case True
  then show ?thesis using assms(2) by (auto simp: claim_deepagent_dispatches_def table_moves_rows)
next
  case False
  let ?rows = "take (n - length (deepagent_in IV_ANALYZING db)) (sort_key iv_created_at (deepagent_in IV_PENDING db))"
  have r: "claimed = map reserve ?rows" "db' = commit_rows reserve ?rows db"
    using assms(2) False by (auto simp: claim_deepagent_dispatches_def Let_def)
  have p: "\<forall>iv\<in>set ?rows. is_deepagent iv \<and> iv_status iv = IV_PENDING"
    by (auto dest!: in_set_takeD simp: deepagent_in_def)
  have "table_moves db db' \<and> synced claimed db'"
    unfolding r using p by (intro commit_rows_result synced_deepagent assms(1)) (simp add: row_step_reserve)
  then show ?thesis using p by (auto simp: r(1) reserve_def is_deepagent_def)
qed

lemma tick_moves:
  assumes "undisturbed w" and "ids_ok db"
  shows "table_moves db (snd (run_pending_investigations w now db))"
proof (cases "is_llm_enabled db")
  case True
  obtain x db1 where 1: "reconcile_active w now (sort_key iv_created_at (deepagent_in IV_ANALYZING db)) db = (x, db1)" by fastforce
  have "\<forall>iv\<in>set (sort_key iv_created_at (deepagent_in IV_ANALYZING db)). is_deepagent iv \<and> iv_status iv = IV_ANALYZING"
    by (simp add: deepagent_in_def)
  then have m1: "table_moves db db1"
    using reconcile_active_moves [OF synced_deepagent_all [OF assms(2)], of IV_ANALYZING w now] by (simp add: 1)
  show ?thesis
  proof (cases x)
    case (Inr u)
    obtain claimed db2 where 2: "claim_deepagent_dispatches (dg_max_jobs (wd_settings w)) db1 = (claimed, db2)" by fastforce
    let ?db3 = "work_through (dispatch_item w now) claimed db2"
    have c: "table_moves db1 db2" "synced claimed db2" "\<forall>iv\<in>set claimed. is_deepagent iv \<and> iv_status iv = IV_PENDING"
      using claim_result [OF ids_ok_moves [OF m1 assms(2)] 2] by simp_all
    have m3: "table_moves db2 ?db3"
      using c(3) by (intro work_through_moves c(2)) (auto intro: dispatch_item_advances [OF assms(1)])
    have all: "table_moves db ?db3" by (intro table_moves_trans [OF m1] table_moves_trans [OF c(1)] m3)
    have srv: "synced (server_side ?db3) ?db3"
      unfolding server_side_def by (rule synced_query) (rule ids_ok_moves [OF all assms(2)])
    have "\<forall>iv\<in>set (server_side ?db3). \<not> is_deepagent iv"
      unfolding server_side_def by (auto dest!: in_set_takeD simp: is_deepagent_def)
    then have "table_moves ?db3 (work_through (process_item w now) (server_side ?db3) ?db3)"
      by (intro work_through_moves srv) (auto intro: process_item_advances [OF assms(1)])
    then show ?thesis
      using table_moves_trans [OF all] True by (simp add: run_pending_investigations_def 1 2 Inr Let_def)
  qed (simp add: run_pending_investigations_def 1 True m1)
qed (simp add: run_pending_investigations_def table_moves_rows)

subsection \<open>The routes\<close>

lemma get_invD: "get_inv i db = Some iv \<Longrightarrow> iv \<in> set (df_rows db) \<and> iv_id iv = i"
  unfolding get_inv_def by (drule find_SomeD) simp

lemma commit_moves: "ids_ok db \<Longrightarrow> get_inv i db = Some iv \<Longrightarrow> row_step iv new \<Longrightarrow> table_moves db (commit_row iv new db)"
  using advances_commit [OF in_sync_row, of db iv new] advances_moves by (blast dest: get_invD)

lemma on_investigation_moves:
  assumes "\<And>u i iv. auth = Inr u \<Longrightarrow> get_inv i db = Some iv \<Longrightarrow> table_moves db (snd (k u iv))"
  shows "table_moves db (snd (on_investigation auth pid db k))"
  using assms by (auto simp: on_investigation_def table_moves_rows split: sum.split option.split)

lemma df_rows_audit [simp]: "df_rows (inv_audit now a u t ip db) = df_rows db"
  by (simp add: inv_audit_def)

lemma df_rows_auth [simp]: "df_rows (snd (auth_inv_key now h rs db)) = df_rows db"
  by (auto simp: auth_inv_key_def Let_def split: option.split)

lemma table_moves_audit [simp]: "table_moves db (inv_audit now a u t ip db') = table_moves db db'"
  by (simp add: table_moves_def)

lemma stop_moves: "ids_ok db \<Longrightarrow> table_moves db (snd (stop_investigation now ip auth pid db))"
  unfolding stop_investigation_def
  by (rule on_investigation_moves) (auto intro: commit_moves row_step_fail_row simp: stop_row_def table_moves_rows)

lemma row_step_failed_result:
  assumes "iv_status iv = IV_ANALYZING" and "truthy (iv_job_id iv) \<longrightarrow> xr_job_id b = iv_job_id iv"
  shows "row_step iv (failed_result now key b iv)"
  by (rule row_step_fail) (use assms in \<open>simp_all add: is_live_simps failed_result_def bound_job_def fail_row_def same_order_def\<close>)

lemma result_severity_known: "result_severity s \<in> set severities"
  by (simp add: result_severity_def Let_def severities_def)

lemma row_step_completed_result:
  assumes "iv_status iv = IV_ANALYZING" and "key \<noteq> []"
  shows "row_step iv (completed_result now key b iv)"
  using assms result_severity_known [of "xr_severity b"]
  by (simp add: row_step_unfold completed_result_def bound_job_def Let_def truthy_def)

lemma table_moves_notify [simp]:
  "table_moves db (notify_investigation_result now i m c s f l e db') = table_moves db db'"
  "table_moves db (add_tokens n db') = table_moves db db'"
  by (simp_all add: table_moves_def)

lemma submit_external_moves:
  assumes "ids_ok db" shows "table_moves db (snd (submit_external_result now iid key b db))"
proof (cases "get_inv iid db")
  case (Some iv)
  have 1: "table_moves db (commit_row iv (failed_result now (the key) b iv) db)"
    if "iv_status iv = IV_ANALYZING" "truthy (iv_job_id iv) \<longrightarrow> xr_job_id b = iv_job_id iv"
    by (rule commit_moves [OF assms Some row_step_failed_result [OF that]])
  have 2: "table_moves db (commit_row iv (completed_result now (the key) b iv) db)"
    if "iv_status iv = IV_ANALYZING" "truthy key"
    using that(2) by (intro commit_moves [OF assms Some] row_step_completed_result [OF that(1)])
      (auto simp: truthy_def split: option.splits)
  show ?thesis
    unfolding submit_external_result_def Some Let_def using 1 2 by (simp add: table_moves_rows)
qed (simp add: submit_external_result_def table_moves_rows)

lemma table_moves_start: "df_rows db1 = df_rows db \<Longrightarrow> table_moves db1 db' = table_moves db db'"
  by (simp add: table_moves_def)

lemma auth_inv_key_rows: "auth_inv_key now h rs db = (x, db1) \<Longrightarrow> df_rows db1 = df_rows db"
  using df_rows_auth [of now h rs db] by simp

lemma submit_result_moves:
  assumes "ids_ok db" shows "table_moves db (snd (submit_investigation_result now h pid key b db))"
proof -
  obtain x db1 where a: "auth_inv_key now h [''investigation:write''] db = (x, db1)" by fastforce
  note r = auth_inv_key_rows [OF a]
  have i: "ids_ok db1" using assms r by (simp add: ids_ok_def)
  have "table_moves db (snd (submit_external_result now j k c db1))" for j k c
    using submit_external_moves [OF i] table_moves_start [OF r] by blast
  moreover have "table_moves db db1" using r by (rule table_moves_rows)
  ultimately show ?thesis
    unfolding submit_investigation_result_def a Let_def
    by (auto split: sum.split option.split prod.split callback_error.split) (metis snd_conv)+
qed

lemma row_step_heartbeat:
  assumes "is_live iv" and "is_deepagent iv \<longrightarrow> truthy (iv_job_id iv)" and "truthy (iv_job_id iv) \<longrightarrow> iv_job_id iv = Some (ih_job_id b)"
  shows "row_step iv ((hermes_note h j iv)\<lparr>iv_job_id := Some (ih_job_id b)\<rparr>)"
  using assms by (auto simp: row_step_unfold hermes_note_def)

lemma status_moves:
  assumes "ids_ok db" shows "table_moves db (snd (update_investigation_status now h pid b db))"
proof -
  obtain x db1 where a: "auth_inv_key now h [''investigation:write''] db = (x, db1)" by fastforce
  note r = auth_inv_key_rows [OF a]
  have i: "ids_ok db1" using assms r by (simp add: ids_ok_def)
  have "table_moves db1 (snd (update_investigation_status now h pid b db))"
    unfolding update_investigation_status_def a Let_def prod.case
    by (rule on_investigation_moves)
      (auto intro!: commit_moves [OF i] row_step_heartbeat simp: is_live_simps table_moves_rows)
  then show ?thesis using table_moves_start [OF r] by simp
qed

lemma poll_moves:
  assumes "ids_ok db" shows "table_moves db (snd (list_pending_investigations now h n db))"
proof -
  obtain x db1 where a: "auth_inv_key now h [''investigation:read'', ''investigation:write''] db = (x, db1)" by fastforce
  note r = auth_inv_key_rows [OF a]
  have i: "ids_ok db1" using assms r by (simp add: ids_ok_def)
  let ?rows = "take n (sort_key iv_created_at (filter (external_due now) (df_rows db1)))"
  have "\<forall>iv\<in>set ?rows. row_step iv (take_external now iv)"
    by (auto dest!: in_set_takeD simp: external_due_def row_step_unfold take_external_def)
  then have "table_moves db1 (commit_rows (take_external now) ?rows db1)"
    using commit_rows_result [OF synced_query [OF i]] by blast
  then have "table_moves db (commit_rows (take_external now) ?rows db1)" "table_moves db db1"
    using table_moves_start [OF r] r by (simp_all add: table_moves_rows)
  then show ?thesis
    by (simp add: list_pending_investigations_def a list_pending_for_external_def Let_def split: sum.split)
qed

end
