(* ===== verification/InvestigationProps.thy ===== *)
theory InvestigationProps
  imports InvestigationEffects
begin

text \<open>
  What holds of investigations along any run of the worker, the routes and the outside orchestrators: the abstract
  machine is refined, rows keep their type, settled investigations are final, and a machine has at most five live
  ones.
\<close>

subsection \<open>Runs\<close>

datatype inv_event =
    Inv_work world time
  | Inv_create da_settings time uuid "string option" "http_error + user" uuid "string list option" "string option" "bool option"
  | Inv_stop time "string option" "http_error + user" "uuid option"
  | Inv_delete time "string option" "http_error + user" "uuid option"
  | Inv_heartbeat time "string option" "uuid option" inv_heartbeat
  | Inv_poll time "string option" nat
  | Inv_result time "string option" "uuid option" "string option" external_result
  | Inv_chat "inv_message list \<Rightarrow> string \<Rightarrow> llm_config \<Rightarrow> py_exc + llm_answer" time "string option" "http_error + user" uuid string
  | Inv_configure crypto settings "nat list" "nat list" time time "string option" "http_error + user" llm_config_update
  | Inv_test "llm_config \<Rightarrow> bool \<times> string option" time time "http_error + user"

fun inv_step :: "inv_event \<Rightarrow> dfir \<Rightarrow> dfir" where
  "inv_step (Inv_work w now) db = snd (run_pending_investigations w now db)"
| "inv_step (Inv_create g now iid ip auth mid arts ins use) db = snd (create_investigation g now iid ip auth mid arts ins use db)"
| "inv_step (Inv_stop now ip auth pid) db = snd (stop_investigation now ip auth pid db)"
| "inv_step (Inv_delete now ip auth pid) db = snd (delete_investigation now ip auth pid db)"
| "inv_step (Inv_heartbeat now h pid b) db = snd (update_investigation_status now h pid b db)"
| "inv_step (Inv_poll now h n) db = snd (list_pending_investigations now h n db)"
| "inv_step (Inv_result now h pid key b) db = snd (submit_investigation_result now h pid key b db)"
| "inv_step (Inv_chat llm now ip auth iid m) db = snd (chat_investigation llm now ip auth iid m db)"
| "inv_step (Inv_configure x cfg n n' started now ip auth b) db = snd (update_llm_config x cfg n n' started now ip auth b db)"
| "inv_step (Inv_test t started now auth) db = snd (test_llm_connection t started now auth db)"

text \<open>New ids are new; the worker is alone while it runs.\<close>

fun inv_ok :: "inv_event \<Rightarrow> dfir \<Rightarrow> bool" where
  "inv_ok (Inv_work w now) db \<longleftrightarrow> undisturbed w"
| "inv_ok (Inv_create g now iid ip auth mid arts ins use) db \<longleftrightarrow> iid \<notin> iv_id ` set (df_rows db)"
| "inv_ok _ db \<longleftrightarrow> True"

lemma df_rows_config [simp]:
  "df_rows (snd (get_or_create_config t db)) = df_rows db"
  "df_rows (snd (update_llm_config x cfg n n' t now ip auth b db)) = df_rows db"
  "df_rows (snd (test_llm_connection f t now auth db)) = df_rows db"
  "df_rows (snd (chat_investigation llm now ip auth iid m db)) = df_rows db"
  by (auto simp: get_or_create_config_def update_llm_config_def test_llm_connection_def chat_investigation_def
      chat_with_llm_def Let_def split: option.split sum.split prod.split)

text \<open>The three ways in which an event changes the table.\<close>

definition is_new :: "dfir \<Rightarrow> investigation \<Rightarrow> bool" where
  "is_new db iv \<longleftrightarrow> iv_id iv \<notin> iv_id ` set (df_rows db) \<and> iv_status iv = IV_PENDING \<and> row_typed iv"

inductive table_changes :: "dfir \<Rightarrow> dfir \<Rightarrow> bool" where
  moved: "table_moves db db' \<Longrightarrow> table_changes db db'"
| added: "is_new db iv \<Longrightarrow> df_rows db' = df_rows db @ [iv] \<Longrightarrow> table_changes db db'"
| removed: "get_inv i db = Some iv \<Longrightarrow> iv_status iv \<notin> {IV_RUNNING, IV_COLLECTING, IV_ANALYZING} \<Longrightarrow>
    df_rows db' = delete_where (\<lambda>r. iv_id r = i) (df_rows db) \<Longrightarrow> table_changes db db'"

lemma new_investigation_new:
  "iid \<notin> iv_id ` set (df_rows db) \<Longrightarrow> is_new db (new_investigation iid now mid c arts ins orch u)"
  by (simp add: is_new_def new_investigation_def row_typed_def is_live_simps)

lemma create_row_cases:
  assumes "create_investigation_row g now iid mid arts ins u use db = (res, db')"
  obtains e where "res = Inl e" "db' = db"
  | iv where "res = Inr iv" "df_rows db' = df_rows db @ [iv]" "iv_id iv = iid" "iv_machine_id iv = mid" "iv_status iv = IV_PENDING"
    "iid \<notin> iv_id ` set (df_rows db) \<longrightarrow> is_new db iv"
proof (cases res)
  case (Inl e)
  then show thesis using assms by (intro that(1) [of e]) (auto simp: create_investigation_row_def Let_def split: if_splits option.splits)
next
  case (Inr iv)
  then show thesis
    using assms new_investigation_new
    by (intro that(2) [of iv])
      (auto simp: create_investigation_row_def Let_def insert_row_def new_investigation_def split: if_splits option.splits)
qed

lemma create_changes:
  assumes "iid \<notin> iv_id ` set (df_rows db)"
  shows "table_changes db (snd (create_investigation g now iid ip auth mid arts ins use db))"
proof -
  have same: "table_changes db db" by (simp add: table_changes.moved table_moves_rows)
  have "table_changes db (snd (case create_investigation_row g now iid mid arts ins u use db of
            (Inl e, db1) \<Rightarrow> (Inl (HTTPException 400 (snd e)), db1)
          | (Inr iv, db1) \<Rightarrow> (Inr iv, inv_audit now a adm t ip db1)))" for u a adm t
  proof -
    obtain res db1 where c: "create_investigation_row g now iid mid arts ins u use db = (res, db1)" by fastforce
    show ?thesis
      unfolding c by (cases rule: create_row_cases [OF c]) (use same assms in \<open>auto intro: table_changes.added\<close>)
  qed
  then show ?thesis using same by (simp add: create_investigation_def split: sum.split)
qed

lemma delete_changes: "table_changes db (snd (delete_investigation now ip auth pid db))"
proof -
  have same: "table_changes db db" by (simp add: table_changes.moved table_moves_rows)
  have "table_changes db (inv_audit now a u t ip (db\<lparr>df_rows := delete_where (\<lambda>r. iv_id r = iv_id iv) (df_rows db), df_messages := ms\<rparr>))"
    if "get_inv i db = Some iv" "iv_status iv \<notin> {IV_RUNNING, IV_COLLECTING, IV_ANALYZING}" for i iv a u t ms
    using table_changes.removed [OF that] get_invD [OF that(1)] by simp
  then show ?thesis
    using same by (auto simp: delete_investigation_def on_investigation_def split: sum.split option.split)
qed

lemma inv_step_changes:
  assumes "ids_ok db" and "inv_ok e db" shows "table_changes db (inv_step e db)"
proof (cases e)
  case (Inv_create g now iid ip auth mid arts ins use)
  then show ?thesis using assms(2) by (simp add: create_changes)
next
  case (Inv_delete now ip auth pid)
  then show ?thesis by (simp add: delete_changes)
qed (use assms in \<open>simp_all add: table_changes.moved tick_moves stop_moves status_moves poll_moves submit_result_moves
    table_moves_rows\<close>)

lemma table_changes_ids: "table_changes db db' \<Longrightarrow> ids_ok db \<Longrightarrow> ids_ok db'"
proof (induction rule: table_changes.induct)
  case (moved db db')
  then show ?case by (simp add: ids_ok_moves)
qed (auto simp: ids_ok_def is_new_def delete_where_def intro: distinct_map_filter)

subsection \<open>Rows keep their type\<close>

definition rows_typed :: "dfir \<Rightarrow> bool" where
  "rows_typed db \<longleftrightarrow> ids_ok db \<and> (\<forall>r\<in>set (df_rows db). row_typed r)"

lemma table_changes_typed:
  assumes "table_changes db db'" and "rows_typed db" shows "rows_typed db'"
proof -
  have "\<forall>r\<in>set (df_rows db'). row_typed r"
    using assms
  proof (induction rule: table_changes.induct)
    case (moved db db')
    then show ?case unfolding table_moves_def rows_typed_def by (blast dest: all2_back intro: row_moves_typed)
  qed (auto simp: rows_typed_def is_new_def)
  then show ?thesis using assms table_changes_ids by (simp add: rows_typed_def)
qed

interpretation typed_runs: step_system inv_step inv_ok rows_typed
  by unfold_locales (metis inv_step_changes table_changes_typed rows_typed_def)


subsection \<open>Settled investigations\<close>

definition deletes :: "uuid \<Rightarrow> inv_event \<Rightarrow> bool" where
  "deletes i e \<longleftrightarrow> (case e of Inv_delete _ _ _ pid \<Rightarrow> pid = Some i | _ \<Rightarrow> False)"

definition settled_in :: "investigation \<Rightarrow> dfir \<Rightarrow> bool" where
  "settled_in r db \<longleftrightarrow> ids_ok db \<and> r \<in> set (df_rows db) \<and> \<not> is_live r"

lemma delete_keeps: "pid \<noteq> Some (iv_id r) \<Longrightarrow> r \<in> set (df_rows db) \<Longrightarrow>
    r \<in> set (df_rows (snd (delete_investigation now ip auth pid db)))"
  by (auto simp: delete_investigation_def on_investigation_def dest: get_invD split: sum.split option.split)

lemma create_keeps: "r \<in> set (df_rows db) \<Longrightarrow> r \<in> set (df_rows (snd (create_investigation g now iid ip auth mid arts ins use db)))"
  by (auto simp: create_investigation_def create_investigation_row_def insert_row_def Let_def
      split: sum.split option.split prod.split)

lemma inv_step_settled:
  assumes "inv_ok e db \<and> \<not> deletes (iv_id r) e" and "settled_in r db" shows "settled_in r (inv_step e db)"
proof -
  have c: "table_changes db (inv_step e db)" using assms inv_step_changes by (simp add: settled_in_def)
  have "r \<in> set (df_rows (inv_step e db))"
  proof (cases "table_moves db (inv_step e db)")
    case True
    then show ?thesis
      using assms(2) row_moves_settled unfolding table_moves_def settled_in_def by (metis all2_on)
  next
    case False
    then have "(\<exists>g now iid ip auth mid arts ins use. e = Inv_create g now iid ip auth mid arts ins use) \<or>
        (\<exists>now ip auth pid. e = Inv_delete now ip auth pid)"
      using assms by (cases e) (simp_all add: settled_in_def tick_moves stop_moves status_moves poll_moves submit_result_moves
          table_moves_rows)
    then show ?thesis
      using assms create_keeps delete_keeps by (auto simp: settled_in_def deletes_def)
  qed
  then show ?thesis using assms(2) table_changes_ids [OF c] by (simp add: settled_in_def)
qed

interpretation settled_runs: step_system inv_step "\<lambda>e db. inv_ok e db \<and> \<not> deletes (iv_id r) e" "settled_in r" for r
  by unfold_locales (rule inv_step_settled)


subsection \<open>At most five live investigations of a machine\<close>

lemma filter_le_all2:
  "list_all2 R xs ys \<Longrightarrow> (\<And>x y. R x y \<Longrightarrow> P y \<Longrightarrow> P x) \<Longrightarrow> length (filter P ys) \<le> length (filter P xs)"
  by (induction rule: list_all2_induct) auto

definition five_live :: "dfir \<Rightarrow> bool" where
  "five_live db \<longleftrightarrow> ids_ok db \<and> (\<forall>mid. length (live_of mid db) \<le> 5)"

lemma live_of_moves: "table_moves db db' \<Longrightarrow> length (live_of mid db') \<le> length (live_of mid db)"
  unfolding table_moves_def live_of_def
proof (erule filter_le_all2)
  fix r r' assume "row_moves r r'" "iv_machine_id r' = mid \<and> is_live r'"
  then show "iv_machine_id r = mid \<and> is_live r" using row_moves_order row_moves_live by (auto simp: same_order_def)
qed

lemma live_of_rows: "df_rows db' = df_rows db \<Longrightarrow> live_of mid db' = live_of mid db"
  by (simp add: live_of_def)

lemma create_live:
  assumes "length (live_of mid' db) \<le> 5"
  shows "length (live_of mid' (snd (create_investigation g now iid ip auth mid arts ins use db))) \<le> 5"
proof -
  have "length (live_of mid' (snd (case create_investigation_row g now iid mid arts ins u use db of
            (Inl e, db1) \<Rightarrow> (Inl (HTTPException 400 (snd e)), db1)
          | (Inr iv, db1) \<Rightarrow> (Inr iv, inv_audit now a adm t ip db1)))) \<le> 5" if "\<not> 5 \<le> length (live_of mid db)" for u a adm t
  proof -
    obtain res db1 where c: "create_investigation_row g now iid mid arts ins u use db = (res, db1)" by fastforce
    show ?thesis
      unfolding c by (cases rule: create_row_cases [OF c]) (use assms that in \<open>auto simp: live_of_def\<close>)
  qed
  then show ?thesis using assms by (simp add: create_investigation_def split: sum.split)
qed

lemma delete_live: "length (live_of mid (snd (delete_investigation now ip auth pid db))) \<le> length (live_of mid db)"
proof -
  have "length (filter P (delete_where Q xs)) \<le> length (filter P xs)" for P Q :: "investigation \<Rightarrow> bool" and xs
    by (induction xs) (simp_all add: delete_where_def)
  then show ?thesis
    by (auto simp: delete_investigation_def on_investigation_def live_of_def split: sum.split option.split)
qed

lemma inv_step_five:
  assumes "inv_ok e db" and "five_live db" shows "five_live (inv_step e db)"
proof -
  have ids: "ids_ok (inv_step e db)"
    using assms inv_step_changes table_changes_ids by (auto simp: five_live_def)
  have five: "length (live_of mid db) \<le> 5" for mid using assms(2) by (simp add: five_live_def)
  have "length (live_of mid (inv_step e db)) \<le> 5" for mid
  proof (cases "table_moves db (inv_step e db)")
    case True
    then show ?thesis using assms(2) live_of_moves [OF True, of mid] by (auto simp: five_live_def intro: order_trans)
  next
    case False
    then show ?thesis
      using assms create_live [OF five, of mid] order_trans [OF delete_live [of mid] five [of mid]]
      by (cases e) (simp_all add: five_live_def tick_moves stop_moves status_moves poll_moves submit_result_moves
          table_moves_rows)
  qed
  with ids show ?thesis by (simp add: five_live_def)
qed

interpretation five_runs: step_system inv_step inv_ok five_live
  by unfold_locales (rule inv_step_five)

text \<open>Along every run, a machine never has more than five investigations that are not settled.\<close>

theorem five_live_investigations:
  assumes "five_live db" and "five_runs.admissible es db"
  shows "length (filter (\<lambda>r. iv_machine_id r = mid \<and> iv_status r \<notin> {IV_COMPLETED, IV_FAILED})
      (df_rows (run inv_step es db))) \<le> 5"
proof -
  have "(\<lambda>r. iv_machine_id r = mid \<and> iv_status r \<notin> {IV_COMPLETED, IV_FAILED}) = (\<lambda>r. iv_machine_id r = mid \<and> is_live r)"
    by (auto simp: is_live_simps)
  then show ?thesis using five_runs.run_inv [OF assms(2,1)] by (simp add: five_live_def live_of_def)
qed

subsection \<open>The abstract machine is refined\<close>

type_synonym abs_state = "uuid \<Rightarrow> (bool \<times> inv_status) option"

inductive abs_step :: "abs_state \<Rightarrow> abs_state \<Rightarrow> bool" where
  move: "A i = Some (d, s) \<Longrightarrow> may_move d s s' \<Longrightarrow> abs_step A (A(i \<mapsto> (d, s')))"
| create: "A i = None \<Longrightarrow> abs_step A (A(i \<mapsto> (d, IV_PENDING)))"
| remove: "A i = Some (d, s) \<Longrightarrow> s \<notin> {IV_RUNNING, IV_COLLECTING, IV_ANALYZING} \<Longrightarrow> abs_step A (A(i := None))"

definition abs_of :: "dfir \<Rightarrow> abs_state" where
  "abs_of db i = map_option (\<lambda>r. (is_deepagent r, iv_status r)) (get_inv i db)"

lemma abs_chain: "(may_move d)\<^sup>*\<^sup>* s s' \<Longrightarrow> A i = Some (d, s) \<Longrightarrow> abs_step\<^sup>*\<^sup>* A (A(i \<mapsto> (d, s')))"
proof (induction rule: rtranclp_induct)
  case base
  then show ?case by (simp add: fun_upd_idem)
next
  case (step s' s'')
  have "abs_step (A(i \<mapsto> (d, s'))) ((A(i \<mapsto> (d, s')))(i \<mapsto> (d, s'')))"
    using step.hyps(2) by (intro abs_step.move) simp_all
  then have "abs_step (A(i \<mapsto> (d, s'))) (A(i \<mapsto> (d, s'')))" by (simp only: fun_upd_upd)
  with step.IH [OF step.prems] show ?case by (meson rtranclp.rtrancl_into_rtrancl)
qed

definition abs_follows :: "abs_state \<Rightarrow> abs_state \<Rightarrow> uuid \<Rightarrow> bool" where
  "abs_follows A A' i \<longleftrightarrow>
     A' i = A i \<or> (\<exists>d s s'. A i = Some (d, s) \<and> A' i = Some (d, s') \<and> (may_move d)\<^sup>*\<^sup>* s s')"

lemma abs_moves_on:
  "finite D \<Longrightarrow> (\<And>i. i \<notin> D \<Longrightarrow> A' i = A i) \<Longrightarrow> (\<And>i. abs_follows A A' i) \<Longrightarrow> abs_step\<^sup>*\<^sup>* A A'"
proof (induction D arbitrary: A' rule: finite_induct)
  case empty
  then have "A' = A" by auto
  then show ?case by simp
next
  case (insert x D)
  let ?A = "A'(x := A x)"
  have "abs_step\<^sup>*\<^sup>* A ?A"
    using insert.prems by (intro insert.IH) (auto simp: abs_follows_def)
  moreover have "abs_step\<^sup>*\<^sup>* ?A A'"
  proof (cases "A' x = A x")
    case True
    then have "?A = A'" by auto
    then show ?thesis by simp
  next
    case False
    then obtain d s s' where "?A x = Some (d, s)" "A' x = Some (d, s')" "(may_move d)\<^sup>*\<^sup>* s s'"
      using insert.prems(2) [of x] by (auto simp: abs_follows_def)
    with abs_chain [of d s s' ?A x] show ?thesis by (simp add: fun_upd_idem)
  qed
  ultimately show ?case by simp
qed

lemma table_moves_get:
  assumes "table_moves db db'"
  shows "(get_inv i db = None \<and> get_inv i db' = None) \<or>
     (\<exists>r r'. get_inv i db = Some r \<and> get_inv i db' = Some r' \<and> row_moves r r')"
  using assms unfolding table_moves_def get_inv_def
proof (induction "df_rows db" "df_rows db'" arbitrary: db db' rule: list_all2_induct)
  case Nil
  then show ?case by (metis find.simps(1))
next
  case (Cons r rs r' rs')
  have id: "iv_id r' = iv_id r" using Cons.hyps(1) by (rule row_moves_id)
  have IH: "(find (\<lambda>r. iv_id r = i) rs = None \<and> find (\<lambda>r. iv_id r = i) rs' = None) \<or>
     (\<exists>r r'. find (\<lambda>r. iv_id r = i) rs = Some r \<and> find (\<lambda>r. iv_id r = i) rs' = Some r' \<and> row_moves r r')"
    using Cons.hyps(3) [of "db\<lparr>df_rows := rs\<rparr>" "db'\<lparr>df_rows := rs'\<rparr>"] by simp
  show ?case using IH Cons.hyps(1) id unfolding Cons.hyps(4,5) [symmetric] by simp
qed

lemma table_moves_refine: "table_moves db db' \<Longrightarrow> abs_step\<^sup>*\<^sup>* (abs_of db) (abs_of db')"
proof (rule abs_moves_on [of "iv_id ` set (df_rows db)"])
  assume t: "table_moves db db'"
  show "abs_of db' i = abs_of db i" if "i \<notin> iv_id ` set (df_rows db)" for i
    using table_moves_get [OF t, of i] that get_invD by (force simp: abs_of_def)
  show "abs_follows (abs_of db) (abs_of db') i" for i
  proof (cases "get_inv i db")
    case (Some r)
    then obtain r' where r': "get_inv i db' = Some r'" "row_moves r r'" using table_moves_get [OF t, of i] by auto
    have "is_deepagent r' = is_deepagent r" using row_moves_order [OF r'(2)] by (simp add: same_order_def is_deepagent_def)
    then show ?thesis using row_moves_status [OF r'(2)] by (auto simp: abs_follows_def abs_of_def Some r'(1))
  qed (use table_moves_get [OF t, of i] in \<open>simp add: abs_follows_def abs_of_def\<close>)
qed simp

lemma table_changes_refine: "table_changes db db' \<Longrightarrow> abs_step\<^sup>*\<^sup>* (abs_of db) (abs_of db')"
proof (induction rule: table_changes.induct)
  case (moved db db')
  then show ?case by (rule table_moves_refine)
next
  case (added db iv db')
  have n: "get_inv (iv_id iv) db = None"
    using added.hyps(1) get_invD [of "iv_id iv" db] unfolding is_new_def by (metis imageI not_None_eq)
  have "abs_of db' = (abs_of db)(iv_id iv \<mapsto> (is_deepagent iv, IV_PENDING))"
    using added n by (auto simp: abs_of_def get_inv_def find_append is_new_def fun_eq_iff split: option.split)
  moreover have "abs_of db (iv_id iv) = None" by (simp add: abs_of_def n)
  ultimately show ?case by (metis abs_step.create r_into_rtranclp)
next
  case (removed i db iv db')
  have "find (\<lambda>r. iv_id r = j) (delete_where (\<lambda>r. iv_id r = i) rs) = (if j = i then None else find (\<lambda>r. iv_id r = j) rs)" for j and rs :: "investigation list"
    by (induction rs) (auto simp: delete_where_def)
  then have "abs_of db' = (abs_of db)(i := None)"
    by (auto simp: abs_of_def get_inv_def removed.hyps(3) fun_eq_iff)
  moreover have "abs_of db i = Some (is_deepagent iv, iv_status iv)" by (simp add: abs_of_def removed.hyps(1))
  ultimately show ?case using removed.hyps(2) by (metis abs_step.remove r_into_rtranclp)
qed

interpretation refined_runs: step_system inv_step inv_ok "\<lambda>db. ids_ok db \<and> abs_step\<^sup>*\<^sup>* A (abs_of db)" for A
  by unfold_locales (metis (no_types, lifting) inv_step_changes table_changes_ids table_changes_refine rtranclp_trans)


end
