(* ===== verification/InvestigationQueue.thy ===== *)
theory InvestigationQueue
  imports InvestigationProps
begin

text \<open>
  The queue of DeepAgent jobs and the callbacks: the number of jobs at the service is bounded, an uncertain dispatch
  gives its place back, a result counts once; and where the worker falls short of what its comments say: investigations
  without an orchestrator are never taken up, interrupted dispatches keep their place, collected results are lost.
\<close>

subsection \<open>Counting jobs\<close>

definition is_active :: "investigation \<Rightarrow> bool" where
  "is_active r \<longleftrightarrow> is_deepagent r \<and> iv_status r = IV_ANALYZING"

definition active_jobs :: "dfir \<Rightarrow> nat" where
  "active_jobs db = length (filter is_active (df_rows db))"

lemma deepagent_in_active: "deepagent_in IV_ANALYZING db = filter is_active (df_rows db)"
  by (simp add: deepagent_in_def is_active_def cong: filter_cong)

lemma filter_one_changed:
  "list_all2 (\<lambda>r r'. Q r r' \<and> (iv_id r \<noteq> i \<longrightarrow> r' = r)) xs ys \<Longrightarrow> distinct (map iv_id xs) \<Longrightarrow>
     length (filter P ys) \<le> Suc (length (filter P xs))"
proof (induction rule: list_all2_induct)
  case (Cons x xs y ys)
  show ?case
  proof (cases "iv_id x = i")
    case True
    have "iv_id x \<notin> iv_id ` set xs" using Cons.prems by simp
    then have "\<And>r. r \<in> set xs \<Longrightarrow> iv_id r \<noteq> i" using True by (metis imageI)
    then have "list_all2 (=) xs ys"
      using Cons.hyps(2) by (auto simp: list_all2_conv_all_nth)
    then show ?thesis by (simp add: list_all2_eq [symmetric])
  next
    case False
    then show ?thesis using Cons by auto
  qed
qed simp

lemma row_moves_deepagent: "row_moves r r' \<Longrightarrow> is_deepagent r' = is_deepagent r"
  using row_moves_order by (simp add: same_order_def is_deepagent_def)

lemma advances_active_one: "advances i db db' \<Longrightarrow> ids_ok db \<Longrightarrow> active_jobs db' \<le> Suc (active_jobs db)"
  unfolding advances_def ids_ok_def active_jobs_def by (rule filter_one_changed)

lemma filter_le_all2_on:
  "list_all2 R xs ys \<Longrightarrow> (\<And>x y. x \<in> set xs \<Longrightarrow> R x y \<Longrightarrow> P y \<Longrightarrow> P x) \<Longrightarrow> length (filter P ys) \<le> length (filter P xs)"
  by (induction rule: list_all2_induct) auto

lemma active_agree [simp]: "agree iv r \<Longrightarrow> is_active r = is_active iv"
  unfolding agree_def by (erule ssubst) (simp add: is_active_def is_deepagent_def)

lemma advances_active_le:
  assumes "advances (iv_id iv) db db'" and "in_sync iv db" and "\<not> is_deepagent iv \<or> is_active iv"
  shows "active_jobs db' \<le> active_jobs db"
  unfolding active_jobs_def
proof (rule filter_le_all2_on [OF assms(1) [unfolded advances_def]])
  fix r r' assume r: "r \<in> set (df_rows db)" "row_moves r r' \<and> (iv_id r \<noteq> iv_id iv \<longrightarrow> r' = r)" "is_active r'"
  show "is_active r"
  proof (cases "iv_id r = iv_id iv")
    case True
    then have g: "agree iv r" using assms(2) r(1) by (simp add: in_sync_def)
    then have "is_deepagent r = is_deepagent iv" unfolding agree_def by (erule_tac ssubst) (simp add: is_deepagent_def)
    moreover have "is_active r = is_active iv" using g by simp
    ultimately show ?thesis using assms(3) r(2,3) row_moves_deepagent [of r r'] by (auto simp: is_active_def)
  qed (use r in simp)
qed

lemma active_rows: "df_rows db' = df_rows db \<Longrightarrow> active_jobs db' = active_jobs db"
  by (simp add: active_jobs_def)

lemma is_active_sync: "is_deepagent iv \<and> iv_status iv = IV_ANALYZING \<longleftrightarrow> is_active iv"
  by (simp add: is_active_def)

subsection \<open>The worker keeps the bound\<close>

lemma reconcile_active_jobs:
  "synced ivs db \<Longrightarrow> \<forall>iv\<in>set ivs. is_active iv \<Longrightarrow> active_jobs (snd (reconcile_active w now ivs db)) \<le> active_jobs db"
proof (induction ivs arbitrary: db)
  case (Cons iv ivs)
  obtain x iv' db' where r: "check_deepagent w now iv db = (x, iv', db')" by (cases "check_deepagent w now iv db") auto
  have s: "in_sync iv db" using Cons.prems(1) by (simp add: synced_def)
  have act: "is_active iv" using Cons.prems(2) by simp
  have "row_result iv db (x, iv', db')"
    using check_deepagent_result [OF s, of w now] act by (simp add: r is_active_def)
  then have a: "advances (iv_id iv) db db'" by (simp add: row_resultD)
  have le: "active_jobs db' \<le> active_jobs db" using advances_active_le [OF a s] act by simp
  show ?case
    using Cons.IH [OF synced_step [OF Cons.prems(1) a]] Cons.prems(2) le by (cases x) (auto simp: r)
qed simp

lemma filter_map_le: "\<forall>x\<in>set xs. P (g x) \<longrightarrow> P x \<Longrightarrow> length (filter P (map g xs)) \<le> length (filter P xs)"
  by (induction xs) auto

lemma commit_active:
  assumes "in_sync iv db" and "row_step iv new" and "is_active new \<longrightarrow> is_active iv"
  shows "active_jobs (commit_row iv new db) \<le> active_jobs db"
proof -
  have "is_active (flush_row iv new r) \<longrightarrow> is_active r" if "r \<in> set (df_rows db)" "iv_id r = iv_id iv" for r
  proof -
    have g: "agree iv r" using assms(1) that by (simp add: in_sync_def)
    have "agree new (flush_row iv new r)" using flush_agree [OF g] assms(2) by (simp add: row_step_def)
    then show ?thesis using assms(3) g by simp
  qed
  moreover have rows: "df_rows (commit_row iv new db) =
      map (\<lambda>r. if iv_id r = iv_id iv then flush_row iv new r else r) (df_rows db)"
    by (simp add: commit_row_def update_where_def)
  ultimately show ?thesis unfolding active_jobs_def rows by (intro filter_map_le) auto
qed

lemma commit_rows_active:
  "synced ivs db \<Longrightarrow> \<forall>iv\<in>set ivs. row_step iv (f iv) \<and> (is_active (f iv) \<longrightarrow> is_active iv) \<Longrightarrow>
     active_jobs (commit_rows f ivs db) \<le> active_jobs db"
proof (induction ivs arbitrary: db)
  case (Cons iv ivs)
  have s: "in_sync iv db" using Cons.prems(1) by (simp add: synced_def)
  have st: "row_step iv (f iv)" using Cons.prems(2) by simp
  have a: "advances (iv_id iv) db (commit_row iv (f iv) db)" using advances_commit [OF s st] by simp
  show ?case
    using Cons.IH [OF synced_step [OF Cons.prems(1) a]] Cons.prems(2) commit_active [OF s st] by (simp add: order_trans)
qed simp

lemma is_active_reserve [simp]: "is_active (reserve iv) = is_active iv"
  by (simp add: is_active_def is_deepagent_def reserve_def)

lemma claim_jobs:
  assumes "ids_ok db" and "claim_deepagent_dispatches n db = (claimed, db')"
  shows "active_jobs db' \<le> active_jobs db" and "claimed \<noteq> [] \<longrightarrow> length claimed + active_jobs db \<le> n"
proof -
  let ?rows = "take (n - length (deepagent_in IV_ANALYZING db)) (sort_key iv_created_at (deepagent_in IV_PENDING db))"
  have r: "claimed = [] \<and> db' = db \<or> claimed = map reserve ?rows \<and> db' = commit_rows reserve ?rows db"
    using assms(2) by (auto simp: claim_deepagent_dispatches_def Let_def split: if_splits)
  have p: "\<forall>iv\<in>set ?rows. is_deepagent iv \<and> iv_status iv = IV_PENDING"
    by (auto dest!: in_set_takeD simp: deepagent_in_def)
  have "active_jobs (commit_rows reserve ?rows db) \<le> active_jobs db"
    using p by (intro commit_rows_active synced_deepagent assms(1)) (simp add: row_step_reserve)
  then show "active_jobs db' \<le> active_jobs db" using r by auto
  show "claimed \<noteq> [] \<longrightarrow> length claimed + active_jobs db \<le> n"
    using r by (auto simp: deepagent_in_active active_jobs_def)
qed

lemma dispatch_all_jobs:
  assumes "undisturbed w"
  shows "ids_ok db \<Longrightarrow> synced ivs db \<Longrightarrow> \<forall>iv\<in>set ivs. is_deepagent iv \<and> iv_status iv = IV_PENDING \<Longrightarrow>
     active_jobs (work_through (dispatch_item w now) ivs db) \<le> length ivs + active_jobs db"
proof (induction ivs arbitrary: db)
  case (Cons iv ivs)
  have a: "advances (iv_id iv) db (snd (dispatch_item w now iv db))"
    using Cons.prems by (intro dispatch_item_advances [OF assms]) (simp_all add: synced_def)
  show ?case
    using Cons.IH [OF ids_ok_moves [OF advances_moves [OF a] Cons.prems(1)] synced_step [OF Cons.prems(2) a]]
      Cons.prems(3) advances_active_one [OF a Cons.prems(1)] by simp
qed simp

lemma process_all_jobs:
  assumes "undisturbed w"
  shows "synced ivs db \<Longrightarrow> \<forall>iv\<in>set ivs. \<not> is_deepagent iv \<Longrightarrow>
     active_jobs (work_through (process_item w now) ivs db) \<le> active_jobs db"
proof (induction ivs arbitrary: db)
  case (Cons iv ivs)
  have s: "in_sync iv db" "\<not> is_deepagent iv" using Cons.prems by (simp_all add: synced_def)
  have a: "advances (iv_id iv) db (snd (process_item w now iv db))"
    by (rule process_item_advances [OF assms s])
  show ?case
    using Cons.IH [OF synced_step [OF Cons.prems(1) a]] Cons.prems(2) advances_active_le [OF a s(1)] s(2) by simp
qed simp

lemma tick_jobs:
  assumes "undisturbed w" and "ids_ok db"
  shows "active_jobs (snd (run_pending_investigations w now db)) \<le> max (dg_max_jobs (wd_settings w)) (active_jobs db)"
proof (cases "is_llm_enabled db")
  case True
  let ?act = "sort_key iv_created_at (deepagent_in IV_ANALYZING db)"
  obtain x db1 where 1: "reconcile_active w now ?act db = (x, db1)" by fastforce
  have act: "\<forall>iv\<in>set ?act. is_active iv" by (simp add: deepagent_in_active)
  then have act': "\<forall>iv\<in>set ?act. is_deepagent iv \<and> iv_status iv = IV_ANALYZING" by (simp add: is_active_def)
  have j1: "active_jobs db1 \<le> active_jobs db"
    using reconcile_active_jobs [OF synced_deepagent_all [OF assms(2)] act, of w now] by (simp add: 1)
  have m1: "table_moves db db1"
    using reconcile_active_moves [OF synced_deepagent_all [OF assms(2)] act', of w now] by (simp add: 1)
  note ids1 = ids_ok_moves [OF m1 assms(2)]
  show ?thesis
  proof (cases x)
    case (Inr u)
    obtain claimed db2 where 2: "claim_deepagent_dispatches (dg_max_jobs (wd_settings w)) db1 = (claimed, db2)" by fastforce
    let ?db3 = "work_through (dispatch_item w now) claimed db2"
    have c: "table_moves db1 db2" "synced claimed db2" "\<forall>iv\<in>set claimed. is_deepagent iv \<and> iv_status iv = IV_PENDING"
      using claim_result [OF ids1 2] by simp_all
    note ids2 = ids_ok_moves [OF c(1) ids1]
    have m3: "table_moves db2 ?db3"
      using c(3) by (intro work_through_moves c(2)) (auto intro: dispatch_item_advances [OF assms(1)])
    have j3: "active_jobs ?db3 \<le> length claimed + active_jobs db2" by (rule dispatch_all_jobs [OF assms(1) ids2 c(2,3)])
    have "synced (server_side ?db3) ?db3"
      unfolding server_side_def by (rule synced_query) (rule ids_ok_moves [OF m3 ids2])
    moreover have "\<forall>iv\<in>set (server_side ?db3). \<not> is_deepagent iv"
      unfolding server_side_def by (auto dest!: in_set_takeD simp: is_deepagent_def)
    ultimately have "active_jobs (work_through (process_item w now) (server_side ?db3) ?db3) \<le> active_jobs ?db3"
      by (rule process_all_jobs [OF assms(1)])
    then show ?thesis
      using True claim_jobs [OF ids1 2] j1 j3
      by (cases "claimed = []") (simp_all add: run_pending_investigations_def 1 2 Inr Let_def)
  qed (use True j1 in \<open>simp add: run_pending_investigations_def 1\<close>)
qed (simp add: run_pending_investigations_def)

subsection \<open>Every operation keeps the bound\<close>

lemma commit_got_active:
  "ids_ok db \<Longrightarrow> get_inv i db = Some iv \<Longrightarrow> row_step iv new \<Longrightarrow> is_active new \<longrightarrow> is_active iv \<Longrightarrow>
     active_jobs (commit_row iv new db) \<le> active_jobs db"
  by (intro commit_active in_sync_row) (auto dest: get_invD)

lemma on_investigation_jobs:
  assumes "\<And>u i iv. auth = Inr u \<Longrightarrow> get_inv i db = Some iv \<Longrightarrow> active_jobs (snd (k u iv)) \<le> active_jobs db"
  shows "active_jobs (snd (on_investigation auth pid db k)) \<le> active_jobs db"
  using assms by (auto simp: on_investigation_def split: sum.split option.split)

lemma active_jobs_audit [simp]:
  "active_jobs (inv_audit now a u t ip db) = active_jobs db"
  "active_jobs (notify_investigation_result now i m c s f l e db) = active_jobs db"
  "active_jobs (add_tokens n db) = active_jobs db"
  by (simp_all add: active_jobs_def)

lemma not_active_status: "iv_status r \<noteq> IV_ANALYZING \<Longrightarrow> \<not> is_active r"
  by (simp add: is_active_def)

lemma stop_jobs: "ids_ok db \<Longrightarrow> active_jobs (snd (stop_investigation now ip auth pid db)) \<le> active_jobs db"
  unfolding stop_investigation_def
  by (rule on_investigation_jobs) (auto intro!: commit_got_active row_step_fail_row simp: stop_row_def not_active_status)

lemma delete_jobs: "active_jobs (snd (delete_investigation now ip auth pid db)) \<le> active_jobs db"
proof -
  have "length (filter P (delete_where Q xs)) \<le> length (filter P xs)" for P Q :: "investigation \<Rightarrow> bool" and xs
    by (induction xs) (simp_all add: delete_where_def)
  then show ?thesis
    unfolding delete_investigation_def by (intro on_investigation_jobs) (simp add: active_jobs_def)
qed

lemma create_jobs: "active_jobs (snd (create_investigation g now iid ip auth mid arts ins use db)) \<le> active_jobs db"
proof -
  have "active_jobs (snd (create_investigation_row g now iid mid arts ins u use db)) \<le> active_jobs db" for u
  proof -
    obtain res db1 where c: "create_investigation_row g now iid mid arts ins u use db = (res, db1)" by fastforce
    show ?thesis unfolding c by (cases rule: create_row_cases [OF c]) (auto simp: active_jobs_def is_active_def)
  qed
  then show ?thesis
    by (auto simp: create_investigation_def split: sum.split prod.split) (metis snd_conv)+
qed

lemma auth_jobs: "auth_inv_key now h rs db = (x, db1) \<Longrightarrow> active_jobs db1 = active_jobs db"
  by (rule active_rows) (rule auth_inv_key_rows)

lemma submit_external_jobs:
  assumes "ids_ok db" shows "active_jobs (snd (submit_external_result now iid key b db)) \<le> active_jobs db"
proof (cases "get_inv iid db")
  case (Some iv)
  have 1: "active_jobs (commit_row iv (failed_result now k b iv) db) \<le> active_jobs db"
    if "iv_status iv = IV_ANALYZING" "truthy (iv_job_id iv) \<longrightarrow> xr_job_id b = iv_job_id iv" for k
    by (rule commit_got_active [OF assms Some row_step_failed_result [OF that]])
      (simp add: failed_result_def bound_job_def fail_row_def not_active_status)
  have 2: "active_jobs (commit_row iv (completed_result now (the k) b iv) db) \<le> active_jobs db"
    if "iv_status iv = IV_ANALYZING" "truthy k" for k
    using that(2) by (intro commit_got_active [OF assms Some] row_step_completed_result [OF that(1)])
      (auto simp: truthy_def completed_result_def Let_def not_active_status split: option.splits)
  show ?thesis
    unfolding submit_external_result_def Some Let_def by (auto intro: 1 2)
qed (simp add: submit_external_result_def)

lemma submit_result_jobs:
  assumes "ids_ok db" shows "active_jobs (snd (submit_investigation_result now h pid key b db)) \<le> active_jobs db"
proof -
  obtain x db1 where a: "auth_inv_key now h [''investigation:write''] db = (x, db1)" by fastforce
  have i: "ids_ok db1" using assms auth_inv_key_rows [OF a] by (simp add: ids_ok_def)
  show ?thesis
    unfolding submit_investigation_result_def a Let_def
    using auth_jobs [OF a] submit_external_jobs [OF i]
    by (auto split: sum.split option.split prod.split callback_error.split) (metis snd_conv)+
qed

lemma is_active_heartbeat [simp]: "is_active ((hermes_note h j iv)\<lparr>iv_job_id := k\<rparr>) = is_active iv"
  by (simp add: is_active_def is_deepagent_def hermes_note_def)

lemma status_jobs:
  assumes "ids_ok db" shows "active_jobs (snd (update_investigation_status now h pid b db)) \<le> active_jobs db"
proof -
  obtain x db1 where a: "auth_inv_key now h [''investigation:write''] db = (x, db1)" by fastforce
  have i: "ids_ok db1" using assms auth_inv_key_rows [OF a] by (simp add: ids_ok_def)
  have "active_jobs (snd (update_investigation_status now h pid b db)) \<le> active_jobs db1"
    unfolding update_investigation_status_def a Let_def prod.case
    by (rule on_investigation_jobs)
      (auto intro!: commit_got_active [OF i] row_step_heartbeat simp: is_live_simps)
  then show ?thesis using auth_jobs [OF a] by simp
qed

lemma poll_jobs:
  assumes "ids_ok db" shows "active_jobs (snd (list_pending_investigations now h n db)) \<le> active_jobs db"
proof -
  obtain x db1 where a: "auth_inv_key now h [''investigation:read'', ''investigation:write''] db = (x, db1)" by fastforce
  have i: "ids_ok db1" using assms auth_inv_key_rows [OF a] by (simp add: ids_ok_def)
  let ?rows = "take n (sort_key iv_created_at (filter (external_due now) (df_rows db1)))"
  have "\<forall>iv\<in>set ?rows. row_step iv (take_external now iv) \<and> (is_active (take_external now iv) \<longrightarrow> is_active iv)"
    by (auto dest!: in_set_takeD simp: external_due_def row_step_unfold take_external_def is_active_def)
  then have "active_jobs (commit_rows (take_external now) ?rows db1) \<le> active_jobs db1"
    by (rule commit_rows_active [OF synced_query [OF i]])
  then show ?thesis
    using auth_jobs [OF a]
    by (simp add: list_pending_investigations_def a list_pending_for_external_def Let_def split: sum.split)
qed

definition jobs_bounded :: "nat \<Rightarrow> dfir \<Rightarrow> bool" where
  "jobs_bounded n db \<longleftrightarrow> ids_ok db \<and> active_jobs db \<le> n"

definition within_jobs :: "nat \<Rightarrow> inv_event \<Rightarrow> bool" where
  "within_jobs n e \<longleftrightarrow> (case e of Inv_work w _ \<Rightarrow> dg_max_jobs (wd_settings w) \<le> n | _ \<Rightarrow> True)"

lemma inv_step_jobs:
  assumes "inv_ok e db \<and> within_jobs n e" and "jobs_bounded n db" shows "jobs_bounded n (inv_step e db)"
proof -
  have ids: "ids_ok db" and j: "active_jobs db \<le> n" using assms(2) by (simp_all add: jobs_bounded_def)
  have "active_jobs (inv_step e db) \<le> n"
  proof (cases e)
    case (Inv_work w now)
    then show ?thesis using assms(1) tick_jobs [OF _ ids, of w now] j by (auto simp: within_jobs_def le_max_iff_disj)
  qed (simp_all add: j df_rows_config [THEN active_rows] order_trans [OF stop_jobs [OF ids] j] order_trans [OF delete_jobs j] order_trans [OF create_jobs j]
      order_trans [OF submit_result_jobs [OF ids] j] order_trans [OF status_jobs [OF ids] j] order_trans [OF poll_jobs [OF ids] j])
  then show ?thesis
    using assms(1) inv_step_changes [OF ids] table_changes_ids ids by (auto simp: jobs_bounded_def)
qed

interpretation job_runs: step_system inv_step "\<lambda>e db. inv_ok e db \<and> within_jobs n e" "jobs_bounded n" for n
  by unfold_locales (rule inv_step_jobs)

text \<open>C30: along every run whose workers are configured with at most n places, at most n investigations are at the
  DeepAgent service at any time; in particular never more than the twelve that the settings allow.\<close>

theorem deepagent_capacity_kept:
  assumes "jobs_bounded n db" and "job_runs.admissible n es db"
  shows "length (filter (\<lambda>r. iv_orchestrator r = Some ''deepagent'' \<and> iv_status r = IV_ANALYZING) (df_rows (run inv_step es db))) \<le> n"
proof -
  have "(\<lambda>r. iv_orchestrator r = Some ''deepagent'' \<and> iv_status r = IV_ANALYZING) = is_active"
    by (simp add: is_active_def is_deepagent_def fun_eq_iff)
  then show ?thesis using job_runs.run_inv [OF assms(2,1)] by (simp add: jobs_bounded_def active_jobs_def)
qed

subsection \<open>An uncertain dispatch gives its place back\<close>

text \<open>The service answers requests for jobs with JSON objects, as its interface documents.\<close>

definition job_service :: "(string \<Rightarrow> http_reply) \<Rightarrow> bool" where
  "job_service get \<longleftrightarrow> (\<forall>j. case get j of Answer sc (Inr b) \<Rightarrow> is_object b | _ \<Rightarrow> True)"

lemma check_returns:
  assumes "job_service (wd_get w)" shows "fst (check_deepagent w now iv db) = Inr ()"
proof -
  have "fst (job_answer now sc body iv db) = Inr ()" if "wd_get w j = Answer sc body" for j sc body
    using assms that spec [of _ j] unfolding job_service_def
    by (auto simp: job_answer_def Let_def split: sum.splits http_reply.splits)
  then show ?thesis
    by (auto simp: check_deepagent_def state_check_deepagent_job_def split: http_reply.split)
qed

lemma reconcile_returns: "job_service (wd_get w) \<Longrightarrow> fst (reconcile_active w now ivs db) = Inr ()"
proof (induction ivs arbitrary: db)
  case (Cons iv ivs)
  then show ?case using check_returns [of w now iv db] by (auto split: prod.split)
qed simp

definition gave_up :: "investigation \<Rightarrow> bool" where
  "gave_up r \<longleftrightarrow> iv_status r = IV_FAILED \<and> iv_hermes_status r = Some ''reconcile_timeout''"

definition overdue :: "da_settings \<Rightarrow> time \<Rightarrow> investigation \<Rightarrow> bool" where
  "overdue g now r \<longleftrightarrow> is_active r \<and> iv_hermes_status r = Some ''dispatch_uncertain'' \<and> truthy (iv_job_id r) \<and>
     seconds_since now (iv_started_at r) (dg_max_uncertain g)"

lemma gave_up_agree [simp]: "agree iv r \<Longrightarrow> gave_up r = gave_up iv"
  unfolding agree_def by (erule ssubst) (simp add: gave_up_def)

lemma gave_up_moves: "row_moves r r' \<Longrightarrow> gave_up r \<Longrightarrow> r' = r"
  by (rule row_moves_settled) (auto simp: gave_up_def is_live_simps)

lemma commit_gave_up:
  assumes "in_sync iv db" and "row_step iv new" and "gave_up new" and "r \<in> set (df_rows db)" and "iv_id r = iv_id iv"
  shows "\<exists>r'\<in>set (df_rows (commit_row iv new db)). iv_id r' = iv_id iv \<and> gave_up r'"
proof
  have "agree iv r" using assms(1,4,5) by (simp add: in_sync_def)
  then have "agree new (flush_row iv new r)" using assms(2) by (intro flush_agree) (simp_all add: row_step_def)
  then have "gave_up (flush_row iv new r) = gave_up new" by (rule gave_up_agree)
  then show "iv_id (flush_row iv new r) = iv_id iv \<and> gave_up (flush_row iv new r)" using assms(3,5) by simp
  show "flush_row iv new r \<in> set (df_rows (commit_row iv new db))"
    using assms(4,5) by (auto simp: commit_row_def)
qed

lemma check_overdue:
  assumes "overdue (wd_settings w) now iv" and "in_sync iv db" and "r \<in> set (df_rows db)" and "iv_id r = iv_id iv"
  shows "\<exists>r'\<in>set (df_rows (snd (snd (check_deepagent w now iv db)))). iv_id r' = iv_id iv \<and> gave_up r'"
proof -
  obtain m where c: "check_deepagent w now iv db =
      done_with iv ((fail_row now m iv)\<lparr>iv_hermes_status := Some ''reconcile_timeout''\<rparr>) db"
    using assms(1) by (simp add: overdue_def check_deepagent_def state_check_deepagent_job_def)
  have "row_step iv ((fail_row now m iv)\<lparr>iv_hermes_status := Some ''reconcile_timeout''\<rparr>)"
    using assms(1) by (intro row_step_fail_hermes) (simp add: overdue_def is_active_def is_live_simps)
  then show ?thesis
    unfolding c done_with_def snd_conv by (intro commit_gave_up [OF assms(2) _ _ assms(3,4)]) (simp_all add: gave_up_def fail_row_def)
qed

lemma moved_gave_up:
  "table_moves db db' \<Longrightarrow> \<exists>r\<in>set (df_rows db). iv_id r = i \<and> gave_up r \<Longrightarrow> \<exists>r\<in>set (df_rows db'). iv_id r = i \<and> gave_up r"
  unfolding table_moves_def using gave_up_moves by (metis all2_on)

lemma reconcile_overdue:
  assumes "job_service (wd_get w)"
  shows "synced ivs db \<Longrightarrow> \<forall>v\<in>set ivs. is_active v \<Longrightarrow> iv \<in> set ivs \<Longrightarrow> overdue (wd_settings w) now iv \<Longrightarrow>
     \<exists>r\<in>set (df_rows db). iv_id r = iv_id iv \<Longrightarrow>
     \<exists>r\<in>set (df_rows (snd (reconcile_active w now ivs db))). iv_id r = iv_id iv \<and> gave_up r"
proof (induction ivs arbitrary: db)
  case (Cons v ivs)
  obtain x v' db' where r: "check_deepagent w now v db = (x, v', db')" by (cases "check_deepagent w now v db") auto
  have x: "x = Inr ()" using check_returns [OF assms, of now v db] by (simp add: r)
  have s: "in_sync v db" using Cons.prems(1) by (simp add: synced_def)
  have act: "is_deepagent v" "iv_status v = IV_ANALYZING" using Cons.prems(2) by (simp_all add: is_active_def)
  have a: "advances (iv_id v) db db'" using check_deepagent_result [OF s act, of w now] by (simp add: r row_resultD)
  note sy = synced_step [OF Cons.prems(1) a]
  have acts: "\<forall>u\<in>set ivs. is_deepagent u \<and> iv_status u = IV_ANALYZING" using Cons.prems(2) by (simp add: is_active_def)
  show ?case
  proof (cases "v = iv")
    case True
    have "\<exists>r\<in>set (df_rows db'). iv_id r = iv_id iv \<and> gave_up r"
      using check_overdue [OF Cons.prems(4), of db] s Cons.prems(5) r True by auto
    then show ?thesis
      using moved_gave_up [OF reconcile_active_moves [OF sy acts, of w now]] by (simp add: r x)
  next
    case False
    obtain q where "q \<in> set (df_rows db)" "iv_id q = iv_id iv" using Cons.prems(5) by blast
    then have "\<exists>r\<in>set (df_rows db'). iv_id r = iv_id iv"
      using advances_moves [OF a] row_moves_id unfolding table_moves_def by (metis all2_on)
    then show ?thesis using Cons.IH [OF sy] Cons.prems False by (simp add: r x)
  qed
qed simp

lemma work_claimed_moves:
  assumes "undisturbed w" and "ids_ok db"
  shows "table_moves db (let (claimed, db2) = claim_deepagent_dispatches n db;
           db3 = work_through (dispatch_item w now) claimed db2
       in work_through (process_item w now) (server_side db3) db3)"
proof -
  obtain claimed db2 where 2: "claim_deepagent_dispatches n db = (claimed, db2)" by fastforce
  let ?db3 = "work_through (dispatch_item w now) claimed db2"
  have c: "table_moves db db2" "synced claimed db2" "\<forall>iv\<in>set claimed. is_deepagent iv \<and> iv_status iv = IV_PENDING"
    using claim_result [OF assms(2) 2] by simp_all
  note ids2 = ids_ok_moves [OF c(1) assms(2)]
  have m3: "table_moves db2 ?db3"
    using c(3) by (intro work_through_moves c(2)) (auto intro: dispatch_item_advances [OF assms(1)])
  have "synced (server_side ?db3) ?db3"
    unfolding server_side_def by (rule synced_query) (rule ids_ok_moves [OF m3 ids2])
  moreover have "\<forall>iv\<in>set (server_side ?db3). \<not> is_deepagent iv"
    unfolding server_side_def by (auto dest!: in_set_takeD simp: is_deepagent_def)
  ultimately have "table_moves ?db3 (work_through (process_item w now) (server_side ?db3) ?db3)"
    by (intro work_through_moves) (auto intro: process_item_advances [OF assms(1)])
  then show ?thesis
    unfolding 2 Let_def prod.case by (intro table_moves_trans [OF c(1)] table_moves_trans [OF m3])
qed

text \<open>C31: a dispatch whose outcome stays unknown does not keep its place for ever: the first iteration of the worker
  after the configured age ends the investigation as failed with the status reconcile_timeout, whatever the service
  answers by then, and so frees the place.\<close>

theorem uncertain_dispatch_released:
  assumes "ids_ok db" and "undisturbed w" and "is_llm_enabled db" and "job_service (wd_get w)"
    and "r \<in> set (df_rows db)" and "iv_orchestrator r = Some ''deepagent''" and "iv_status r = IV_ANALYZING"
    and "iv_hermes_status r = Some ''dispatch_uncertain''" and "truthy (iv_job_id r)" and "iv_started_at r = Some t"
    and "now - t > seconds (dg_max_uncertain (wd_settings w))"
  shows "\<exists>r'\<in>set (df_rows (snd (run_pending_investigations w now db))).
     iv_id r' = iv_id r \<and> iv_status r' = IV_FAILED \<and> iv_hermes_status r' = Some ''reconcile_timeout''"
proof -
  let ?act = "sort_key iv_created_at (deepagent_in IV_ANALYZING db)"
  obtain db1 where 1: "reconcile_active w now ?act db = (Inr (), db1)"
    using reconcile_returns [OF assms(4), of now ?act db] by (metis prod.collapse)
  have act: "\<forall>v\<in>set ?act. is_active v" by (simp add: deepagent_in_active)
  then have act': "\<forall>v\<in>set ?act. is_deepagent v \<and> iv_status v = IV_ANALYZING" by (simp add: is_active_def)
  have o: "overdue (wd_settings w) now r"
    using assms(6-11) by (simp add: overdue_def is_active_def is_deepagent_def seconds_since_def)
  have "r \<in> set ?act" using assms(5-7) by (simp add: deepagent_in_active is_active_def is_deepagent_def)
  from reconcile_overdue [OF assms(4) synced_deepagent_all [OF assms(1)] act this o] assms(5)
  have g: "\<exists>q\<in>set (df_rows db1). iv_id q = iv_id r \<and> gave_up q" using 1 by auto
  have m1: "table_moves db db1"
    using reconcile_active_moves [OF synced_deepagent_all [OF assms(1)] act', of w now] by (simp add: 1)
  have "snd (run_pending_investigations w now db) = (let (claimed, db2) = claim_deepagent_dispatches (dg_max_jobs (wd_settings w)) db1;
           db3 = work_through (dispatch_item w now) claimed db2
       in work_through (process_item w now) (server_side db3) db3)"
    using assms(3) by (simp add: run_pending_investigations_def 1 Let_def split: prod.split)
  then show ?thesis
    using moved_gave_up [OF work_claimed_moves [OF assms(2) ids_ok_moves [OF m1 assms(1)]] g] by (simp add: gave_up_def)
qed

subsection \<open>A result counts once\<close>

lemma flush_row_self: "same_order old new \<Longrightarrow> flush_row old new old = new"
  by (rule investigation.equality) (simp_all add: flush_row_def col_def same_order_def)

lemma get_commit:
  assumes "get_inv i db = Some iv" and "same_order iv new" shows "get_inv i (commit_row iv new db) = Some new"
proof -
  have id: "iv_id iv = i" using get_invD [OF assms(1)] by simp
  have "find (\<lambda>r. iv_id r = i) (update_where (\<lambda>r. iv_id r = i) (flush_row iv new) rs) =
      map_option (flush_row iv new) (find (\<lambda>r. iv_id r = i) rs)" for rs
    by (induction rs) (auto simp: update_where_def)
  then show ?thesis
    using assms(1) flush_row_self [OF assms(2)] unfolding get_inv_def commit_row_def by (simp add: id)
qed

lemma get_inv_rows: "df_rows db' = df_rows db \<Longrightarrow> get_inv i db' = get_inv i db"
  by (simp add: get_inv_def)

lemma bound_job_sel [simp]:
  "iv_status (bound_job b iv) = iv_status iv" "iv_orchestrator (bound_job b iv) = iv_orchestrator iv"
  "iv_job_id (bound_job b iv) = (if truthy (xr_job_id b) then xr_job_id b else iv_job_id iv)"
  "same_order r (bound_job b iv) = same_order r iv"
  by (simp_all add: bound_job_def same_order_def)

lemma result_sel:
  "same_order iv (failed_result now k b iv)" "same_order iv (completed_result now k b iv)"
  "iv_status (failed_result now k b iv) = IV_FAILED" "iv_status (completed_result now k b iv) = IV_COMPLETED"
  "iv_key (failed_result now k b iv) = Some k" "iv_key (completed_result now k b iv) = Some k"
  "iv_orchestrator (failed_result now k b iv) = iv_orchestrator iv"
  "iv_orchestrator (completed_result now k b iv) = iv_orchestrator iv"
  "iv_job_id (failed_result now k b iv) = (if truthy (xr_job_id b) then xr_job_id b else iv_job_id iv)"
  "iv_job_id (completed_result now k b iv) = (if truthy (xr_job_id b) then xr_job_id b else iv_job_id iv)"
  by (simp_all add: failed_result_def completed_result_def fail_row_def same_order_def bound_job_def Let_def)

definition holds_result :: "uuid \<Rightarrow> string option \<Rightarrow> investigation \<Rightarrow> dfir \<Rightarrow> bool" where
  "holds_result iid key r db \<longleftrightarrow> get_inv iid db = Some r \<and> iv_status r \<in> {IV_COMPLETED, IV_FAILED} \<and>
     truthy key \<and> iv_key r = key \<and> truthy (iv_orchestrator r) \<and> (is_deepagent r \<longrightarrow> truthy (iv_job_id r))"

lemma accepted_holds:
  assumes "submit_external_result now iid key b db = (Inr r, db1)" shows "holds_result iid key r db1"
proof -
  obtain iv where iv: "get_inv iid db = Some iv" "truthy (iv_orchestrator iv)" "truthy key" "is_deepagent iv \<longrightarrow> truthy (iv_job_id iv)"
    using assms by (auto simp: submit_external_result_def split: option.splits if_splits)
  show ?thesis
  proof (cases "iv_status iv \<in> {IV_COMPLETED, IV_FAILED}")
    case True
    then show ?thesis using assms iv by (auto simp: submit_external_result_def holds_result_def split: if_splits)
  next
    case False
    then have job: "truthy (iv_job_id iv) \<longrightarrow> xr_job_id b = iv_job_id iv"
      using assms iv by (auto simp: submit_external_result_def split: if_splits)
    have r: "(r = failed_result now (the key) b iv \<or> r = completed_result now (the key) b iv) \<and>
        df_rows db1 = df_rows (commit_row iv r db)"
      using assms iv False job by (auto simp: submit_external_result_def Let_def split: if_splits)
    have o: "same_order iv r" using r by (auto simp: result_sel)
    have "get_inv iid db1 = Some r" using r get_commit [OF iv(1) o] get_inv_rows [of db1 "commit_row iv r db" iid] by simp
    moreover have "iv_status r \<in> {IV_COMPLETED, IV_FAILED} \<and> iv_key r = Some (the key) \<and> iv_orchestrator r = iv_orchestrator iv \<and>
        (truthy (iv_job_id iv) \<longrightarrow> iv_job_id r = iv_job_id iv)"
      using r job by (auto simp: result_sel)
    moreover have "key = Some (the key)" using iv(3) by (cases key) (simp_all add: truthy_def)
    ultimately show ?thesis using iv by (auto simp: holds_result_def is_deepagent_def)
  qed
qed

lemma held_result_stays:
  assumes "holds_result iid key r db"
  shows "submit_external_result now iid key b db = (Inr r, db)" and "snd (submit_external_result now iid k b db) = db"
  using assms by (auto simp: holds_result_def submit_external_result_def)

definition deliver :: "uuid \<Rightarrow> time \<times> string option \<times> external_result \<Rightarrow> dfir \<Rightarrow> dfir" where
  "deliver iid d db = (case d of (now, key, b) \<Rightarrow> snd (submit_external_result now iid key b db))"

lemma deliver_held: "holds_result iid key r db \<Longrightarrow> run (deliver iid) ds db = db"
  by (induction ds) (auto simp: deliver_def held_result_stays split: prod.split)

text \<open>C32: a result counts once: after a callback has been accepted, delivering it and any number of others again, with
  the same or another key and body, at any times, comes to the same state as delivering it once (row, tokens of the
  day, alerts), and a retry with the key of the first is answered with the stored row.\<close>

theorem callback_counts_once:
  assumes "submit_external_result now iid key b db = (Inr r, db1)"
  shows "run (deliver iid) ((now, key, b) # retries) db = db1 \<and> submit_external_result now' iid key b' db1 = (Inr r, db1)"
  using accepted_holds [OF assms] assms by (simp add: deliver_def deliver_held held_result_stays)

subsection \<open>Who may report\<close>

definition holds_scope :: "string option \<Rightarrow> string \<Rightarrow> dfir \<Rightarrow> bool" where
  "holds_scope header scope db \<longleftrightarrow> (\<exists>tok k. extract_bearer header = Some tok \<and> k \<in> set (df_keys db) \<and> ak_enabled k \<and>
     ak_key_hash k = sha256_hex tok \<and> scope \<in> set (split_ws (ak_scope k)))"

lemma auth_inv_key_scope: "auth_inv_key now header [scope] db = (Inr k, db1) \<Longrightarrow> holds_scope header scope db"
  by (auto simp: auth_inv_key_def holds_scope_def Let_def dest: find_SomeD split: option.splits if_splits)

lemma auth_inv_key_refused: "auth_inv_key now header rs db = (Inl e, db1) \<Longrightarrow>
    db1 = db \<and> (\<exists>c m. e = HTTPException c m \<and> c \<in> {401, 403})"
  by (auto simp: auth_inv_key_def Let_def split: option.splits if_splits)

text \<open>Nobody reports on an investigation without an enabled API key whose scope includes writing: a heartbeat or a
  result presented without one is refused with 401 or 403 and changes nothing at all.\<close>

theorem reports_need_write_key:
  assumes "\<not> holds_scope header ''investigation:write'' db"
  shows "\<exists>c m. c \<in> {401, 403} \<and> update_investigation_status now header pid hb db = (Inl (HTTPException c m), db) \<and>
     submit_investigation_result now header pid key b db = (Inl (HTTPException c m), db)"
proof -
  obtain res db1 where a: "auth_inv_key now header [''investigation:write''] db = (res, db1)" by fastforce
  then obtain e where e: "res = Inl e" using assms auth_inv_key_scope by (cases res) blast+
  then obtain c m where "db1 = db" "e = HTTPException c m" "c \<in> {401, 403}" using auth_inv_key_refused a by blast
  then show ?thesis
    using a e by (intro exI [of _ c] exI [of _ m])
      (simp add: update_investigation_status_def submit_investigation_result_def on_investigation_def)
qed

end
