(* ===== verification/InvestigationCases.thy ===== *)
theory InvestigationCases
  imports InvestigationQueue
begin

text \<open>
  Concrete investigations: the properties at work on a small table, and the places where the code does not do what its
  comments say: an investigation without an orchestrator is never taken up, an interrupted dispatch keeps its place
  while the service refuses the question for the job, collected results do not reach the table, a worker revives
  an investigation that was stopped under its hands, and the test for private hosts accepts public names.
\<close>

subsection \<open>A small table\<close>

definition sample_iv :: "uuid \<Rightarrow> string option \<Rightarrow> investigation" where
  "sample_iv i orch = new_investigation i 0 50 ''C.1'' [''Generic.Client.Info''] None orch 1"

definition sample_uncertain :: investigation where
  "sample_uncertain = (sample_iv 1 (Some ''deepagent''))\<lparr>iv_status := IV_ANALYZING, iv_job_id := Some (job_name 1),
     iv_hermes_status := Some ''dispatch_uncertain'', iv_started_at := Some 0\<rparr>"

definition sample_stopped :: investigation where
  "sample_stopped = stop_row 5 (sample_iv 2 (Some ''hermes''))"

definition sample_dfir :: "investigation list \<Rightarrow> dfir" where
  "sample_dfir rows = \<lparr>df_rows = rows, df_messages = [],
     df_llm = Some ((default_llm_config 0)\<lparr>lc_enabled := True\<rparr>), df_velo = None, df_links = [], df_machines = [],
     df_current = [], df_artifacts = [], df_keys = [], df_log = [], df_alerts = [], df_sent = []\<rparr>"

definition sample_da :: da_settings where
  "sample_da = \<lparr>dg_enabled = True, dg_url = ''http://da'', dg_token = ''t'', dg_timeout = 30, dg_lookback = 24,
     dg_max_jobs = 2, dg_max_uncertain = 1800, dg_collect_wait = 600, dg_orchestrator = [], dg_artifacts = [''A'']\<rparr>"

definition sample_velo :: velo where
  "sample_velo = \<lparr>vq_open = Inr (), vq_collect = (\<lambda>a. Inr ''F.1''), vq_status = (\<lambda>f. Inr (False, None)),
     vq_results = (\<lambda>f a. Inr (JArr [JStr ''row'']))\<rparr>"

definition sample_world :: "(uuid \<Rightarrow> dfir \<Rightarrow> dfir) \<Rightarrow> world" where
  "sample_world others = \<lparr>wd_crypto = sample_crypto, wd_cfg = sample_cfg, wd_settings = sample_da, wd_describe = (\<lambda>_. None),
     wd_post = (\<lambda>_. Raised (''ConnectError'', [])), wd_get = (\<lambda>_. Raised (''ConnectError'', [])), wd_velo = sample_velo,
     wd_llm = (\<lambda>_ _. Inl (''LlmError'', [])), wd_others = others\<rparr>"

lemmas sample_unfold = sample_iv_def sample_uncertain_def sample_stopped_def sample_dfir_def new_investigation_def
  stop_row_def fail_row_def

definition sample_rows :: dfir where
  "sample_rows = sample_dfir [sample_uncertain, sample_stopped]"

lemma sample_rows_simps [simp]:
  "df_rows sample_rows = [sample_uncertain, sample_stopped]" "df_keys sample_rows = []" "is_llm_enabled sample_rows"
  "iv_id sample_uncertain = 1" "iv_id sample_stopped = 2" "iv_status sample_uncertain = IV_ANALYZING"
  "iv_status sample_stopped = IV_FAILED" "iv_orchestrator sample_uncertain = Some ''deepagent''"
  "iv_hermes_status sample_uncertain = Some ''dispatch_uncertain''" "iv_started_at sample_uncertain = Some 0"
  "iv_job_id sample_uncertain = Some (job_name 1)" "iv_machine_id sample_uncertain = 50" "iv_machine_id sample_stopped = 50"
  "iv_orchestrator sample_stopped = Some ''hermes''"
  by (simp_all add: sample_rows_def sample_unfold is_llm_enabled_def default_llm_config_def)

lemma sample_rows_typed: "rows_typed sample_rows"
  by (simp add: rows_typed_def ids_ok_def row_typed_def is_live_simps is_deepagent_def)
    (simp add: sample_unfold)

lemma sample_ids [simp]: "ids_ok sample_rows"
  by (simp add: ids_ok_def)

subsection \<open>The properties at work\<close>

abbreviation stop_first :: inv_event where
  "stop_first \<equiv> Inv_stop 9 None (Inr sample_user) (Some 1)"



lemma five_live_investigations_witness:
  "length (filter (\<lambda>r. iv_machine_id r = 50 \<and> iv_status r \<notin> {IV_COMPLETED, IV_FAILED})
      (df_rows (run inv_step [stop_first] sample_rows))) \<le> 5"
  by (rule five_live_investigations) (simp_all add: five_runs.admissible.simps five_live_def live_of_def)


lemma deepagent_capacity_kept_witness:
  "length (filter (\<lambda>r. iv_orchestrator r = Some ''deepagent'' \<and> iv_status r = IV_ANALYZING)
      (df_rows (run inv_step [Inv_work (sample_world (\<lambda>_ db. db)) 7] sample_rows))) \<le> 2"
proof (rule deepagent_capacity_kept)
  show "job_runs.admissible 2 [Inv_work (sample_world (\<lambda>_ db. db)) 7] sample_rows"
    unfolding job_runs.admissible.simps by (simp add: within_jobs_def undisturbed_def sample_world_def sample_da_def)
qed (simp add: jobs_bounded_def active_jobs_def is_active_def is_deepagent_def)

lemma uncertain_dispatch_released_witness:
  "\<exists>r'\<in>set (df_rows (snd (run_pending_investigations (sample_world (\<lambda>_ db. db)) (hours 1) sample_rows))).
     iv_id r' = 1 \<and> iv_status r' = IV_FAILED \<and> iv_hermes_status r' = Some ''reconcile_timeout''"
  using uncertain_dispatch_released [of sample_rows "sample_world (\<lambda>_ db. db)" sample_uncertain 0 "hours 1"]
  by (simp add: undisturbed_def sample_world_def sample_da_def job_service_def truthy_def job_name_def)

definition sample_result :: external_result where
  "sample_result = \<lparr>xr_report = Some ''R'', xr_severity = Some ''HIGH'', xr_findings_count = None, xr_findings = None,
     xr_iocs = None, xr_provider = None, xr_model = None, xr_input_tokens = Some 10, xr_output_tokens = None, xr_cost = None,
     xr_error = None, xr_job_id = Some (job_name 1), xr_raw = JNull\<rparr>"

lemma callback_counts_once_witness:
  "\<exists>r db1. submit_external_result 5 1 (Some ''k'') sample_result sample_rows = (Inr r, db1) \<and> iv_severity r = Some ''high'' \<and>
     run (deliver 1) [(5, Some ''k'', sample_result), (6, Some ''k'', sample_result), (7, Some ''j'', sample_result)] sample_rows = db1"
proof -
  have "\<exists>r db1. submit_external_result 5 1 (Some ''k'') sample_result sample_rows = (Inr r, db1) \<and> iv_severity r = Some ''high''"
    by (simp add: submit_external_result_def get_inv_def is_deepagent_def sample_result_def truthy_def completed_result_def
        bound_job_def Let_def job_name_def result_severity_def or_truthy_def severities_def lower_def lower_char_def char_eval)
  then obtain r db1 where r: "submit_external_result 5 1 (Some ''k'') sample_result sample_rows = (Inr r, db1)"
    "iv_severity r = Some ''high''" by blast
  with callback_counts_once [OF r(1), of "[(6, Some ''k'', sample_result), (7, Some ''j'', sample_result)]"] show ?thesis by blast
qed

lemma reports_need_write_key_witness:
  "\<exists>c m. c \<in> {401, 403} \<and> snd (submit_investigation_result 5 (Some ''Bearer x'') (Some 1) (Some ''k'') sample_result sample_rows) = sample_rows \<and>
     fst (submit_investigation_result 5 (Some ''Bearer x'') (Some 1) (Some ''k'') sample_result sample_rows) = Inl (HTTPException c m)"
proof -
  have "\<not> holds_scope (Some ''Bearer x'') ''investigation:write'' sample_rows" by (simp add: holds_scope_def)
  from reports_need_write_key [OF this] show ?thesis by (metis fst_conv snd_conv)
qed

subsection \<open>Investigations without an orchestrator\<close>

lemma advances_keeps: "advances i db db' \<Longrightarrow> r \<in> set (df_rows db) \<Longrightarrow> iv_id r \<noteq> i \<Longrightarrow> r \<in> set (df_rows db')"
  unfolding advances_def by (drule (1) all2_on) auto

lemma reconcile_keeps:
  "synced ivs db \<Longrightarrow> \<forall>iv\<in>set ivs. is_active iv \<Longrightarrow> r \<in> set (df_rows db) \<Longrightarrow> iv_id r \<notin> iv_id ` set ivs \<Longrightarrow>
     r \<in> set (df_rows (snd (reconcile_active w now ivs db)))"
proof (induction ivs arbitrary: db)
  case (Cons iv ivs)
  obtain x iv' db' where c: "check_deepagent w now iv db = (x, iv', db')" by (cases "check_deepagent w now iv db") auto
  have "row_result iv db (x, iv', db')"
    using check_deepagent_result [of iv db w now] Cons.prems(1,2) by (simp add: c synced_def is_active_def)
  then have a: "advances (iv_id iv) db db'" by (simp add: row_resultD)
  have "r \<in> set (df_rows db')" using Cons.prems(3,4) by (intro advances_keeps [OF a]) simp_all
  then have "r \<in> set (df_rows (snd (reconcile_active w now ivs db')))"
    using Cons.IH [OF synced_step [OF Cons.prems(1) a]] Cons.prems(2,4) by simp
  then show ?case using \<open>r \<in> set (df_rows db')\<close> by (cases x) (simp_all add: c)
qed simp

lemma commit_rows_keeps: "r \<in> set (df_rows db) \<Longrightarrow> iv_id r \<notin> iv_id ` set ivs \<Longrightarrow> r \<in> set (df_rows (commit_rows f ivs db))"
proof (induction ivs arbitrary: db)
  case (Cons iv ivs)
  have "r \<in> set (df_rows (commit_row iv (f iv) db))" using Cons.prems by (auto simp: commit_row_def)
  then show ?case using Cons by simp
qed simp

lemma work_through_keeps:
  assumes "\<And>iv db. iv \<in> set ivs \<Longrightarrow> in_sync iv db \<Longrightarrow> advances (iv_id iv) db (snd (f iv db))"
  shows "synced ivs db \<Longrightarrow> r \<in> set (df_rows db) \<Longrightarrow> iv_id r \<notin> iv_id ` set ivs \<Longrightarrow> r \<in> set (df_rows (work_through f ivs db))"
  using assms
proof (induction ivs arbitrary: db)
  case (Cons iv ivs)
  have a: "advances (iv_id iv) db (snd (f iv db))" using Cons.prems by (simp add: synced_def)
  show ?case
    using Cons.IH [OF synced_step [OF Cons.prems(1) a] advances_keeps [OF a]] Cons.prems by simp
qed simp

lemma no_orchestrator_other:
  assumes "ids_ok db" and "r \<in> set (df_rows db)" and "iv_orchestrator r = None"
    and "\<And>iv. iv \<in> set ivs \<Longrightarrow> iv \<in> set (df_rows db) \<and> iv_orchestrator iv \<noteq> None"
  shows "iv_id r \<notin> iv_id ` set ivs"
proof
  assume "iv_id r \<in> iv_id ` set ivs"
  then obtain iv where "iv \<in> set ivs" "iv_id iv = iv_id r" by auto
  then have "iv = r" using assms(1,2,4) unfolding ids_ok_def by (metis distinct_map inj_onD)
  then show False using assms(3,4) \<open>iv \<in> set ivs\<close> by blast
qed

lemma tick_keeps_local:
  assumes "undisturbed w" and "ids_ok db" and "r \<in> set (df_rows db)" and "iv_orchestrator r = None"
  shows "r \<in> set (df_rows (snd (run_pending_investigations w now db)))"
proof (cases "is_llm_enabled db")
  case True
  let ?act = "sort_key iv_created_at (deepagent_in IV_ANALYZING db)"
  obtain x db1 where 1: "reconcile_active w now ?act db = (x, db1)" by fastforce
  have act: "\<forall>v\<in>set ?act. is_active v" by (simp add: deepagent_in_active)
  then have act': "\<forall>v\<in>set ?act. is_deepagent v \<and> iv_status v = IV_ANALYZING" by (simp add: is_active_def)
  have "iv_id r \<notin> iv_id ` set ?act"
    by (rule no_orchestrator_other [OF assms(2-4)]) (auto simp: deepagent_in_def is_deepagent_def)
  then have r1: "r \<in> set (df_rows db1)"
    using reconcile_keeps [OF synced_deepagent_all [OF assms(2)] act assms(3), of w now] by (simp add: 1)
  have ids1: "ids_ok db1"
    using reconcile_active_moves [OF synced_deepagent_all [OF assms(2)] act', of w now] ids_ok_moves assms(2) by (auto simp: 1)
  show ?thesis
  proof (cases x)
    case (Inr u)
    let ?n = "dg_max_jobs (wd_settings w)"
    obtain claimed db2 where 2: "claim_deepagent_dispatches ?n db1 = (claimed, db2)" by fastforce
    let ?rows = "take (?n - length (deepagent_in IV_ANALYZING db1)) (sort_key iv_created_at (deepagent_in IV_PENDING db1))"
    have c: "claimed = [] \<and> db2 = db1 \<or> claimed = map reserve ?rows \<and> db2 = commit_rows reserve ?rows db1"
      using 2 by (auto simp: claim_deepagent_dispatches_def Let_def split: if_splits)
    have o: "iv_id r \<notin> iv_id ` set ?rows"
      by (rule no_orchestrator_other [OF ids1 r1 assms(4)]) (auto dest!: in_set_takeD simp: deepagent_in_def is_deepagent_def)
    then have oc: "iv_id r \<notin> iv_id ` set claimed"
      using c by (elim disjE conjE) (simp_all add: image_image reserve_def)
    have r2: "r \<in> set (df_rows db2)" using c commit_rows_keeps [OF r1 o] r1 by auto
    have cl: "table_moves db1 db2" "synced claimed db2" "\<forall>iv\<in>set claimed. is_deepagent iv \<and> iv_status iv = IV_PENDING"
      using claim_result [OF ids1 2] by simp_all
    let ?db3 = "work_through (dispatch_item w now) claimed db2"
    have r3: "r \<in> set (df_rows ?db3)"
      using cl(3) by (intro work_through_keeps cl(2) r2 oc) (auto intro: dispatch_item_advances [OF assms(1)])
    have "table_moves db2 ?db3"
      using cl(3) by (intro work_through_moves cl(2)) (auto intro: dispatch_item_advances [OF assms(1)])
    then have ids3: "ids_ok ?db3" using ids_ok_moves cl(1) ids1 by blast
    have srv: "synced (server_side ?db3) ?db3" unfolding server_side_def by (rule synced_query [OF ids3])
    have os: "iv_id r \<notin> iv_id ` set (server_side ?db3)"
      by (rule no_orchestrator_other [OF ids3 r3 assms(4)]) (auto dest!: in_set_takeD simp: server_side_def split: option.splits)
    have "\<forall>iv\<in>set (server_side ?db3). \<not> is_deepagent iv"
      unfolding server_side_def by (auto dest!: in_set_takeD simp: is_deepagent_def)
    then have "r \<in> set (df_rows (work_through (process_item w now) (server_side ?db3) ?db3))"
      by (intro work_through_keeps srv r3 os) (auto intro: process_item_advances [OF assms(1)])
    then show ?thesis using True by (simp add: run_pending_investigations_def 1 2 Inr Let_def)
  qed (use True r1 in \<open>simp add: run_pending_investigations_def 1\<close>)
qed (use assms(3) in \<open>simp add: run_pending_investigations_def\<close>)

definition work :: "world \<times> time \<Rightarrow> dfir \<Rightarrow> dfir" where
  "work t db = snd (run_pending_investigations (fst t) (snd t) db)"

interpretation work_runs: step_system work "\<lambda>t _. undisturbed (fst t)"
  "\<lambda>db. ids_ok db \<and> r \<in> set (df_rows db) \<and> iv_orchestrator r = None" for r
  unfolding work_def by unfold_locales (auto intro: tick_keeps_local ids_ok_moves [OF tick_moves])

text \<open>
  An investigation that is meant for the language model of the server (no orchestrator) is never taken up: however
  often the worker runs, its row stays as it was created.
\<close>

theorem unorchestrated_never_started:
  assumes "ids_ok db" and "r \<in> set (df_rows db)" and "iv_orchestrator r = None" and "work_runs.admissible ts db"
  shows "r \<in> set (df_rows (run work ts db))"
  using work_runs.run_inv [OF assms(4)] assms(1-3) by blast

subsection \<open>Dispatches, results and stops that go wrong\<close>

text \<open>
  A worker that dies between the commit of a dispatch and its answer leaves the status \<open>dispatching\<close> with its job; as
  long as the service refuses the question for the job or cannot be reached, nothing ends it, however old it is.
\<close>

theorem interrupted_dispatch_keeps_place:
  assumes "iv_hermes_status iv = Some ''dispatching''" and "truthy (iv_job_id iv)"
    and "case wd_get w (the (iv_job_id iv)) of Raised e \<Rightarrow> True | Answer sc body \<Rightarrow> sc \<in> {401, 403, 408, 429, 500, 503}"
  shows "check_deepagent w now iv db = (Inr (), iv, db)"
  using assms by (auto simp: check_deepagent_def state_check_deepagent_job_def job_answer_def split: http_reply.splits)

text \<open>What is collected stays in the hands of the worker: no poll changes the collected data of any row.\<close>

theorem collected_results_lost:
  "map iv_raw_artifacts (df_rows (snd (snd (state_poll_collect g v now iv db)))) = map iv_raw_artifacts (df_rows db)"
proof -
  have c: "map iv_raw_artifacts (df_rows (commit_row old new db)) = map iv_raw_artifacts (df_rows db)"
    if "iv_raw_artifacts new = iv_raw_artifacts old" for old new
    using that by (simp add: commit_row_def update_where_def col_def)
  show ?thesis
    by (simp add: state_poll_collect_def collected_def done_with_def raise_with_def fail_row_def c Let_def split: sum.split)
qed

text \<open>
  The worker has loaded the row when the user stops it; the write of the worker turns the stopped investigation back
  into one at work, which keeps the error and the time of the stop.
\<close>

definition stopping :: "uuid \<Rightarrow> dfir \<Rightarrow> dfir" where
  "stopping i db = snd (stop_investigation 9 None (Inr sample_user) (Some i) db)"

theorem stale_worker_revives:
  "iv_status (hd (df_rows (stopping 3 (sample_dfir [sample_iv 3 (Some ''hermes'')])))) = IV_FAILED \<and>
   (let r = hd (df_rows (snd (process_item (sample_world stopping) 10 (sample_iv 3 (Some ''hermes''))
              (sample_dfir [sample_iv 3 (Some ''hermes'')]))))
    in iv_status r = IV_COLLECTING \<and> iv_completed_at r = Some 9 \<and> \<not> row_typed r)"
  by (simp add: stopping_def stop_investigation_def on_investigation_def get_inv_def sample_unfold is_live_simps inv_audit_def
      commit_row_def update_where_def flush_row_def col_def process_item_def process_one_def is_deepagent_def sample_world_def
      sample_velo_def state_start_def start_flow_def first_flow_id_def done_with_def row_typed_def Let_def)

text \<open>The test for private hosts looks for the marks anywhere in the address.\<close>

theorem public_host_passes_as_private:
  "is_private_host ''https://api.10.example.com/v1'' \<and> is_private_host ''https://my.localhost.example.com''"
  by (simp add: is_private_host_def private_markers_def starts_with_def)

end
