(* ===== verification/DeepEvidence.thy ===== *)
theory DeepEvidence
  imports DeepCatalog Datetime "HOL-Library.Sublist"
begin

text \<open>
  The DeepAgent service, second part: the values of \<open>models.py\<close>. Time ranges, the check of the expansions of event
  logs a language model asks for, items of evidence and the budget of characters they are cut to. How Pydantic prints
  an instant (\<open>stamp\<close>) and words an error (\<open>shown\<close>) are parameters.
\<close>

subsection \<open>Limits\<close>

definition max_detail_calls :: nat where
  "max_detail_calls = 2"

definition max_tier2_steps :: nat where
  "max_tier2_steps = 2"

definition max_event_log_minutes :: int where
  "max_event_log_minutes = 60"

subsection \<open>Time ranges\<close>

fun is_aware :: "pydatetime \<Rightarrow> bool" where
  "is_aware (Naive _) = False"
| "is_aware (Aware _ _) = True"

definition validate_range :: "pydatetime \<Rightarrow> pydatetime \<Rightarrow> exc + time \<times> time" where
  "validate_range a b =
     (if \<not> is_aware a \<or> \<not> is_aware b then Inl (validation_error ''Khoang thoi gian phai co timezone'')
      else if instant a \<ge> instant b then Inl (validation_error ''time_range.from phai nho hon time_range.to'')
      else if (instant b - instant a) div days 1 > 31
      then Inl (validation_error ''Mot investigation khong duoc vuot qua 31 ngay'')
      else Inr (instant a, instant b))"

text \<open>The comparison of whole days lets a range of nearly 32 days through.\<close>

lemma validate_range_bound: "validate_range a b = Inr (f, t) \<Longrightarrow> f < t \<and> t - f < days 32"
  by (auto simp: validate_range_def split: if_splits)

lemma range_of_nearly_32_days: "validate_range (Aware 0 0) (Aware (days 32 - 1) 0) = Inr (0, days 32 - 1)"
  by (simp add: validate_range_def)

subsection \<open>Expansions of event logs\<close>

record expansion =
  xp_after :: time
  xp_before :: time
  xp_ids :: "string list"
  xp_rationale :: string

text \<open>What is checked: an object, the fields of a dictionary, or a dictionary with fields of other types.\<close>

datatype raw_expansion = Given expansion | Fields pydatetime pydatetime "string list" string | Malformed string

definition validate_window :: "pydatetime \<Rightarrow> pydatetime \<Rightarrow> string list \<Rightarrow> string \<Rightarrow> string + expansion" where
  "validate_window a b ids why =
     (if \<not> is_aware a \<or> \<not> is_aware b then Inl ''Expansion timestamps must have timezone''
      else if instant b - instant a < 0 then Inl ''date_after must be before date_before''
      else if instant b - instant a > minutes max_event_log_minutes then Inl ''Expansion window exceeds 60 minutes''
      else Inr \<lparr>xp_after = instant a, xp_before = instant b, xp_ids = ids, xp_rationale = why\<rparr>)"

definition parse_expansion :: "(string \<Rightarrow> string) \<Rightarrow> raw_expansion \<Rightarrow> string + expansion" where
  "parse_expansion shown e =
     (case e of
        Given x \<Rightarrow> Inr x
      | Malformed m \<Rightarrow> Inl (shown m)
      | Fields a b ids why \<Rightarrow>
          if ids = [] then Inl (shown ''event_ids: List should have at least 1 item after validation'')
          else if why = [] then Inl (shown ''rationale: String should have at least 1 character'')
          else if length why > 500 then Inl (shown ''rationale: String should have at most 500 characters'')
          else (case validate_window a b ids why of Inl m \<Rightarrow> Inl (shown m) | Inr x \<Rightarrow> Inr x))"

text \<open>The label of a text of an error.\<close>

definition rejection_label :: "string \<Rightarrow> string" where
  "rejection_label m =
     (let t = lower m
      in if contains ''60 minutes'' t \<or> contains ''exceeds'' t then ''window_exceeds_60_minutes''
         else if contains ''before'' t \<or> contains ''after'' t then ''window_before_case_range''
         else ''expansion_schema_invalid'')"

definition judge_expansion ::
  "(string \<Rightarrow> string) \<Rightarrow> time \<Rightarrow> time \<Rightarrow> string list \<Rightarrow> string list list \<Rightarrow> raw_expansion \<Rightarrow> string + expansion" where
  "judge_expansion shown f t sampled seen e =
     (case parse_expansion shown e of
        Inl m \<Rightarrow> Inl (rejection_label m)
      | Inr x \<Rightarrow>
          if xp_ids x = [] then Inl ''event_ids_empty''
          else if \<not> set (xp_ids x) \<subseteq> set sampled then Inl ''event_ids_not_in_sample''
          else if xp_after x < f then Inl ''window_before_case_range''
          else if xp_before x > t then Inl ''window_after_case_range''
          else if xp_before x - xp_after x > minutes max_event_log_minutes then Inl ''window_exceeds_60_minutes''
          else if set (xp_ids x) \<in> set ` set seen then Inl ''expansion_duplicate''
          else Inr x)"

fun check_expansions ::
  "(string \<Rightarrow> string) \<Rightarrow> nat \<Rightarrow> time \<Rightarrow> time \<Rightarrow> string list \<Rightarrow> expansion list \<Rightarrow> string list \<Rightarrow> raw_expansion list \<Rightarrow>
   expansion list \<times> string list" where
  "check_expansions shown count f t sampled valid rejected [] = (valid, rejected)"
| "check_expansions shown count f t sampled valid rejected (e # es) =
     (if length valid \<ge> max_detail_calls
      then (valid, rejected @ (if count > max_detail_calls then [''expansion_count_exceeded''] else []))
      else case judge_expansion shown f t sampled (map xp_ids valid) e of
        Inl label \<Rightarrow> check_expansions shown count f t sampled valid (rejected @ [label]) es
      | Inr x \<Rightarrow> check_expansions shown count f t sampled (valid @ [x]) rejected es)"

definition validate_event_log_expansions ::
  "(string \<Rightarrow> string) \<Rightarrow> raw_expansion list \<Rightarrow> time \<Rightarrow> time \<Rightarrow> string list \<Rightarrow> expansion list \<times> string list" where
  "validate_event_log_expansions shown es f t sampled = check_expansions shown (length es) f t sampled [] [] es"

definition expansion_ok :: "time \<Rightarrow> time \<Rightarrow> string list \<Rightarrow> expansion \<Rightarrow> bool" where
  "expansion_ok f t sampled x \<longleftrightarrow> xp_ids x \<noteq> [] \<and> set (xp_ids x) \<subseteq> set sampled \<and> f \<le> xp_after x \<and> xp_before x \<le> t \<and>
     xp_before x - xp_after x \<le> minutes max_event_log_minutes"

definition expansions_ok :: "time \<Rightarrow> time \<Rightarrow> string list \<Rightarrow> expansion list \<Rightarrow> bool" where
  "expansions_ok f t sampled xs \<longleftrightarrow> length xs \<le> max_detail_calls \<and> (\<forall>x\<in>set xs. expansion_ok f t sampled x) \<and>
     distinct (map (\<lambda>x. set (xp_ids x)) xs)"

lemma judge_expansion_ok:
  assumes "judge_expansion shown f t sampled (map xp_ids valid) e = Inr x"
  shows "expansion_ok f t sampled x" and "set (xp_ids x) \<notin> (\<lambda>y. set (xp_ids y)) ` set valid"
  using assms by (auto simp: judge_expansion_def expansion_ok_def image_image split: sum.splits if_splits)

lemma check_expansions_ok:
  "expansions_ok f t sampled valid \<Longrightarrow> expansions_ok f t sampled (fst (check_expansions shown count f t sampled valid rejected es))"
proof (induction shown count f t sampled valid rejected es rule: check_expansions.induct)
  case (1 shown count f t sampled valid rejected)
  then show ?case by simp
next
  case (2 shown count f t sampled valid rejected e es)
  show ?case
  proof (cases "length valid \<ge> max_detail_calls")
    case True
    with "2.prems" show ?thesis by simp
  next
    case False
    show ?thesis
    proof (cases "judge_expansion shown f t sampled (map xp_ids valid) e")
      case (Inl label)
      with "2.IH"(1) [OF False Inl] "2.prems" False show ?thesis by simp
    next
      case (Inr x)
      from judge_expansion_ok [OF Inr] "2.prems" False have "expansions_ok f t sampled (valid @ [x])"
        by (auto simp: expansions_ok_def)
      with "2.IH"(2) [OF False Inr] Inr False show ?thesis by simp
    qed
  qed
qed

lemma validated_expansions_ok: "expansions_ok f t sampled (fst (validate_event_log_expansions shown es f t sampled))"
  unfolding validate_event_log_expansions_def by (rule check_expansions_ok) (simp add: expansions_ok_def)

subsection \<open>Evidence\<close>

record evidence_item =
  ei_id :: string
  ei_tool :: string
  ei_at :: time
  ei_ok :: bool
  ei_data :: json
  ei_pagination :: json
  ei_error :: "string option"
  ei_timeout :: bool

definition dump_item :: "(time \<Rightarrow> string) \<Rightarrow> evidence_item \<Rightarrow> json" where
  "dump_item stamp e =
     JObj [(''evidence_id'', JStr (ei_id e)), (''tool'', JStr (ei_tool e)), (''collected_at'', JStr (stamp (ei_at e))),
           (''ok'', JBool (ei_ok e)), (''data'', ei_data e), (''pagination'', ei_pagination e),
           (''error'', opt_str (ei_error e)), (''timeout'', JBool (ei_timeout e))]"

definition serialize :: "(time \<Rightarrow> string) \<Rightarrow> evidence_item list \<Rightarrow> string" where
  "serialize stamp es = dumps_default (JArr (map (dump_item stamp) es))"

definition fits :: "(time \<Rightarrow> string) \<Rightarrow> int \<Rightarrow> evidence_item list \<Rightarrow> bool" where
  "fits stamp n es \<longleftrightarrow> int (length (serialize stamp es)) \<le> n"

fun py_true :: "json \<Rightarrow> bool" where
  "py_true JNull = False"
| "py_true (JBool b) = b"
| "py_true (JInt n) = (n \<noteq> 0)"
| "py_true (JFloat s) = (s \<notin> {''0.0'', ''-0.0''})"
| "py_true (JStr s) = (s \<noteq> [])"
| "py_true (JArr xs) = (xs \<noteq> [])"
| "py_true (JObj kvs) = (kvs \<noteq> [])"

text \<open>\<open>j.get(k, d)\<close> of a dictionary.\<close>

fun dget :: "string \<Rightarrow> json \<Rightarrow> json \<Rightarrow> json" where
  "dget k d (JObj kvs) = (case map_of kvs k of None \<Rightarrow> d | Some v \<Rightarrow> v)"
| "dget k d _ = d"

fun is_dict :: "json \<Rightarrow> bool" where
  "is_dict (JObj _) = True"
| "is_dict _ = False"

definition cut_data :: "json \<Rightarrow> json" where
  "cut_data preview = JObj [(''truncated'', JBool True), (''preview'', preview)]"

text \<open>\<open>preview[:100] if preview else ""\<close>.\<close>

definition first_100 :: "json \<Rightarrow> exc + json" where
  "first_100 j =
     (if \<not> py_true j then Inr (JStr '''')
      else case j of JStr s \<Rightarrow> Inr (JStr (take 100 s)) | JArr xs \<Rightarrow> Inr (JArr (take 100 xs)) | _ \<Rightarrow> Inl type_error)"

definition cut_or_keep :: "(time \<Rightarrow> string) \<Rightarrow> int \<Rightarrow> evidence_item list \<Rightarrow> string \<Rightarrow> evidence_item \<Rightarrow> evidence_item" where
  "cut_or_keep stamp n bounded what e =
     (let new = e\<lparr>ei_data := cut_data (JStr what)\<rparr> in if fits stamp n (bounded @ [new]) then new else e)"

definition reduce_item :: "(time \<Rightarrow> string) \<Rightarrow> int \<Rightarrow> evidence_item list \<Rightarrow> evidence_item \<Rightarrow> exc + evidence_item" where
  "reduce_item stamp n bounded e =
     (if ei_data e = JNull \<or> fits stamp n (bounded @ [e]) then Inr e
      else if is_dict (ei_data e) \<and> py_true (dget ''truncated'' JNull (ei_data e)) then
        (let preview = dget ''preview'' (JStr '''') (ei_data e); new = e\<lparr>ei_data := cut_data preview\<rparr>
         in if fits stamp n (bounded @ [new]) then Inr new
            else (case first_100 preview of Inl x \<Rightarrow> Inl x | Inr p \<Rightarrow> Inr (e\<lparr>ei_data := cut_data p\<rparr>)))
      else case ei_data e of
        JObj kvs \<Rightarrow> Inr (cut_or_keep stamp n bounded (str_int (int (length kvs)) @ '' fields truncated'') e)
      | JArr xs \<Rightarrow> Inr (cut_or_keep stamp n bounded (str_int (int (length xs)) @ '' rows truncated'') e)
      | _ \<Rightarrow> Inr e)"

fun reduce_items :: "(time \<Rightarrow> string) \<Rightarrow> int \<Rightarrow> evidence_item list \<Rightarrow> evidence_item list \<Rightarrow> exc + evidence_item list" where
  "reduce_items stamp n bounded [] = Inr bounded"
| "reduce_items stamp n bounded (e # es) =
     (case reduce_item stamp n bounded e of Inl x \<Rightarrow> Inl x | Inr e' \<Rightarrow> reduce_items stamp n (bounded @ [e']) es)"

fun only_metadata :: "(time \<Rightarrow> string) \<Rightarrow> int \<Rightarrow> evidence_item list \<Rightarrow> evidence_item list \<Rightarrow> evidence_item list" where
  "only_metadata stamp n result [] = result"
| "only_metadata stamp n result (e # es) =
     (let minimal = e\<lparr>ei_data := cut_data (JStr ''data truncated due to budget'')\<rparr>; bare = e\<lparr>ei_data := JNull\<rparr>
      in if fits stamp n (result @ [minimal]) then only_metadata stamp n (result @ [minimal]) es
         else if fits stamp n (result @ [bare]) then only_metadata stamp n (result @ [bare]) es
         else only_metadata stamp n result es)"

definition fit_evidence_budget :: "(time \<Rightarrow> string) \<Rightarrow> evidence_item list \<Rightarrow> int \<Rightarrow> exc + evidence_item list" where
  "fit_evidence_budget stamp es n =
     (if n \<le> 0 then Inr []
      else if fits stamp n es then Inr es
      else case reduce_items stamp n [] es of
        Inl x \<Rightarrow> Inl x
      | Inr bounded \<Rightarrow> if fits stamp n bounded then Inr bounded else Inr (only_metadata stamp n [] es))"

subsection \<open>What the budget keeps\<close>

text \<open>Everything of an item but its data.\<close>

definition about :: "evidence_item \<Rightarrow> evidence_item" where
  "about e = e\<lparr>ei_data := JNull\<rparr>"

lemma about_data [simp]: "about (e\<lparr>ei_data := d\<rparr>) = about e"
  by (simp add: about_def)

lemma reduce_item_about: "reduce_item stamp n bounded e = Inr e' \<Longrightarrow> about e' = about e"
  by (auto simp: reduce_item_def cut_or_keep_def Let_def split: if_splits sum.splits json.splits)

lemma reduce_items_about:
  "reduce_items stamp n bounded es = Inr r \<Longrightarrow> map about r = map about bounded @ map about es"
proof (induction stamp n bounded es arbitrary: r rule: reduce_items.induct)
  case (1 stamp n bounded)
  then show ?case by simp
next
  case (2 stamp n bounded e es)
  then obtain e' where e': "reduce_item stamp n bounded e = Inr e'" "reduce_items stamp n (bounded @ [e']) es = Inr r"
    by (auto split: sum.splits)
  from "2.IH" [OF e'] reduce_item_about [OF e'(1)] show ?case by simp
qed

lemma only_metadata_about:
  "\<exists>ys. subseq ys (map about es) \<and> map about (only_metadata stamp n result es) = map about result @ ys"
proof (induction stamp n result es rule: only_metadata.induct)
  case (1 stamp n result)
  show ?case by (rule exI [of _ "[]"]) simp
next
  case (2 stamp n result e es)
  define minimal where "minimal = e\<lparr>ei_data := cut_data (JStr ''data truncated due to budget'')\<rparr>"
  define bare where "bare = e\<lparr>ei_data := JNull\<rparr>"
  have same: "about minimal = about e" "about bare = about e" by (simp_all add: minimal_def bare_def)
  consider (m) "fits stamp n (result @ [minimal])" | (b) "\<not> fits stamp n (result @ [minimal])" "fits stamp n (result @ [bare])"
    | (s) "\<not> fits stamp n (result @ [minimal])" "\<not> fits stamp n (result @ [bare])" by blast
  then show ?case
  proof cases
    case m
    from "2.IH"(1) [OF minimal_def bare_def m] obtain ys where ys: "subseq ys (map about es)"
      "map about (only_metadata stamp n (result @ [minimal]) es) = map about (result @ [minimal]) @ ys" by blast
    with m show ?thesis
      by (intro exI [of _ "about e # ys"]) (simp add: Let_def same minimal_def [symmetric])
  next
    case b
    from "2.IH"(2) [OF minimal_def bare_def b] obtain ys where ys: "subseq ys (map about es)"
      "map about (only_metadata stamp n (result @ [bare]) es) = map about (result @ [bare]) @ ys" by blast
    with b show ?thesis
      by (intro exI [of _ "about e # ys"]) (simp add: Let_def same minimal_def [symmetric] bare_def [symmetric])
  next
    case s
    from "2.IH"(3) [OF minimal_def bare_def s] obtain ys where ys: "subseq ys (map about es)"
      "map about (only_metadata stamp n result es) = map about result @ ys" by blast
    with s show ?thesis
      by (intro exI [of _ ys]) (auto simp: Let_def minimal_def [symmetric] bare_def [symmetric])
  qed
qed

lemma only_metadata_fits:
  "result = [] \<or> fits stamp n result \<Longrightarrow> only_metadata stamp n result es = [] \<or> fits stamp n (only_metadata stamp n result es)"
proof (induction stamp n result es rule: only_metadata.induct)
  case (2 stamp n result e es)
  then show ?case by (auto simp: Let_def)
qed simp

lemma serialize_none: "serialize stamp [] = ''[]''"
  by (simp add: serialize_def)

lemma fits_none: "fits stamp n [] \<longleftrightarrow> 2 \<le> n"
  by (simp add: fits_def serialize_none)

lemma budget_fits:
  assumes "fit_evidence_budget stamp es n = Inr r"
  shows "r = [] \<or> fits stamp n r"
  using assms only_metadata_fits [of "[]" stamp n es] by (auto simp: fit_evidence_budget_def split: if_splits sum.splits)

lemma budget_about:
  assumes "fit_evidence_budget stamp es n = Inr r"
  shows "subseq (map about r) (map about es)"
proof -
  have "subseq (map about (only_metadata stamp n [] es)) (map about es)" using only_metadata_about [of es stamp n "[]"] by auto
  moreover have "map about b = map about es" if "reduce_items stamp n [] es = Inr b" for b
    using reduce_items_about [OF that] by simp
  ultimately show ?thesis
    using assms by (auto simp: fit_evidence_budget_def split: if_splits sum.splits)
qed

lemma budget_ids: "fit_evidence_budget stamp es n = Inr r \<Longrightarrow> subseq (map ei_id r) (map ei_id es)"
  using subseq_map [OF budget_about, of stamp es n r ei_id] by (simp add: about_def o_def)

end
