(* ===== verification/DeepBridge.thy ===== *)
theory DeepBridge
  imports DeepEvidence "HOL-Library.AList"
begin

text \<open>
  The DeepAgent service, third part: the adapter of \<open>mcp_client.py\<close> to the MCP bridge of Velociraptor. The bridge is a
  parameter: the tools it offers with the arguments they declare, and the reply to each call, which may depend on how
  many calls came before. The adapter keeps the tools it has loaded; the calls it makes are recorded. \<open>json.loads\<close>
  reads texts beyond the characters of the model and is a parameter too. Events of the log are left out, but not the
  exception that composing one may raise.
\<close>

subsection \<open>Settings of the service\<close>

record deep_settings =
  ds_service_token :: string
  ds_max_jobs :: nat
  ds_backend_url :: string
  ds_backend_key :: string
  ds_llm_model :: string
  ds_org_id :: string
  ds_max_steps :: int
  ds_max_evidence_chars :: int
  ds_max_result_chars :: int

definition deep_settings_ok :: "deep_settings \<Rightarrow> bool" where
  "deep_settings_ok g \<longleftrightarrow> 1 \<le> ds_max_jobs g \<and> ds_max_jobs g \<le> 12"

text \<open>
  The command line and the environment of the bridge are texts of JSON; what \<open>json.loads\<close> makes of a text is a parameter,
  \<open>None\<close> a \<open>JSONDecodeError\<close>.
\<close>

definition json_error :: exc where
  "json_error = raised [''JSONDecodeError'', ''ValueError''] ''''"

fun json_text :: "json \<Rightarrow> string option" where
  "json_text (JStr s) = Some s"
| "json_text _ = None"

definition mcp_args :: "(string \<Rightarrow> json option) \<Rightarrow> string \<Rightarrow> exc + string list" where
  "mcp_args loads text =
     (case loads text of
        None \<Rightarrow> Inl json_error
      | Some (JArr xs) \<Rightarrow>
          if list_all (\<lambda>x. json_text x \<noteq> None) xs then Inr (map (\<lambda>x. the (json_text x)) xs)
          else Inl (raised [''ValueError''] ''DEEPAGENT_MCP_ARGS_JSON phai la JSON array chua chuoi'')
      | Some _ \<Rightarrow> Inl (raised [''ValueError''] ''DEEPAGENT_MCP_ARGS_JSON phai la JSON array chua chuoi''))"

definition mcp_env :: "(string \<Rightarrow> json option) \<Rightarrow> string \<Rightarrow> exc + (string \<times> string) list" where
  "mcp_env loads text =
     (case loads text of
        None \<Rightarrow> Inl json_error
      | Some (JObj kvs) \<Rightarrow>
          if list_all (\<lambda>kv. json_text (snd kv) \<noteq> None) kvs
          then Inr (AList.update ''ENABLE_DANGEROUS_TOOLS'' ''false'' (map (\<lambda>(k, v). (k, the (json_text v))) kvs))
          else Inl (raised [''ValueError''] ''DEEPAGENT_MCP_ENV_JSON phai la JSON object chuoi -> chuoi'')
      | Some _ \<Rightarrow> Inl (raised [''ValueError''] ''DEEPAGENT_MCP_ENV_JSON phai la JSON object chuoi -> chuoi''))"

text \<open>The environment for one job: with the file that holds the configuration of its client.\<close>

definition job_env :: "(string \<Rightarrow> json option) \<Rightarrow> string \<Rightarrow> string \<Rightarrow> exc + (string \<times> string) list" where
  "job_env loads text path =
     (case mcp_env loads text of Inl e \<Rightarrow> Inl e | Inr env \<Rightarrow> Inr (AList.update ''VELOCIRAPTOR_API_CONFIG'' path env))"

text \<open>The bridge never starts with its dangerous tools, whatever the environment is configured to be.\<close>

lemma dangerous_tools_off:
  assumes "job_env loads text path = Inr env"
  shows "map_of env ''ENABLE_DANGEROUS_TOOLS'' = Some ''false''"
  using assms by (auto simp: job_env_def mcp_env_def update_conv' split: sum.splits option.splits json.splits if_splits)

definition or_str :: "string option \<Rightarrow> string \<Rightarrow> string" where
  "or_str a d = (case a of None \<Rightarrow> d | Some s \<Rightarrow> if s = [] then d else s)"

subsection \<open>The bridge\<close>

type_synonym tool_args = "(string \<times> json) list"

record bridge_tool =
  bt_name :: string
  bt_args :: "string list option"  \<comment> \<open>the arguments of its schema\<close>

datatype tool_value = Message tool_value | Parts "string list" | Text string | Value json

datatype tool_reply = Late | Failed exc | Returned tool_value

record bridge =
  br_tools :: "exc + bridge_tool list"
  br_call :: "nat \<Rightarrow> string \<Rightarrow> tool_args \<Rightarrow> tool_reply"
  br_loads :: "string \<Rightarrow> json option"
  br_str :: "json \<Rightarrow> string"  \<comment> \<open>str() of a value that is no text\<close>

record mcp =
  mc_tools :: "bridge_tool list option"
  mc_calls :: "(string \<times> tool_args) list"

definition fresh_mcp :: mcp where
  "fresh_mcp = \<lparr>mc_tools = None, mc_calls = []\<rparr>"

type_synonym 'a asked = "(exc + 'a) \<times> mcp"

definition and_then :: "'a asked \<Rightarrow> ('a \<Rightarrow> mcp \<Rightarrow> 'b asked) \<Rightarrow> 'b asked" where
  "and_then r f = (case r of (Inl e, m) \<Rightarrow> (Inl e, m) | (Inr a, m) \<Rightarrow> f a m)"

definition tool_accepts_argument :: "bridge_tool \<Rightarrow> string \<Rightarrow> bool" where
  "tool_accepts_argument t a \<longleftrightarrow> (case bt_args t of None \<Rightarrow> False | Some names \<Rightarrow> a \<in> set names)"

definition mcp_tool_timeout :: "string \<Rightarrow> exc" where
  "mcp_tool_timeout n = raised [''MCPToolTimeout'', ''TimeoutError'', ''OSError'']
     (''MCP tool call exceeded its configured deadline: '' @ n)"

text \<open>\<open>isoformat()\<close> of an instant in UTC, with \<open>Z\<close> for the offset.\<close>

definition iso_z :: "time \<Rightarrow> string" where
  "iso_z t = fmt_date ''-'' (day_of t) @ ''T'' @ (if t mod 1000000 = 0 then take 8 (fmt_clock t) else fmt_clock t) @ ''Z''"

subsection \<open>Envelopes\<close>

definition jput :: "string \<Rightarrow> json \<Rightarrow> tool_args \<Rightarrow> tool_args" where
  "jput k v kvs = (if k \<in> fst ` set kvs then map (\<lambda>(k', v'). if k' = k then (k, v) else (k', v')) kvs else kvs @ [(k, v)])"

definition enveloped :: "json \<Rightarrow> tool_args" where
  "enveloped j = (case j of
     JObj kvs \<Rightarrow> (if ''ok'' \<in> fst ` set kvs then kvs else [(''ok'', JBool True), (''data'', j)])
   | _ \<Rightarrow> [(''ok'', JBool True), (''data'', j)])"

fun decode_envelope :: "(string \<Rightarrow> json option) \<Rightarrow> tool_value \<Rightarrow> tool_args" where
  "decode_envelope loads (Message v) = decode_envelope loads v"
| "decode_envelope loads (Parts ts) = enveloped (case loads (join [CHR 0x0A] ts) of None \<Rightarrow> JStr (join [CHR 0x0A] ts) | Some j \<Rightarrow> j)"
| "decode_envelope loads (Text s) = enveloped (case loads s of None \<Rightarrow> JStr s | Some j \<Rightarrow> j)"
| "decode_envelope loads (Value j) = enveloped j"

definition pget :: "string \<Rightarrow> tool_args \<Rightarrow> json" where
  "pget k p = (case map_of p k of None \<Rightarrow> JNull | Some v \<Rightarrow> v)"

definition jor :: "json \<Rightarrow> json \<Rightarrow> json" where
  "jor a b = (if py_true a then a else b)"

definition error_of :: "bridge \<Rightarrow> tool_args \<Rightarrow> string \<Rightarrow> exc" where
  "error_of b p d = policy_error (case jor (pget ''error'' p) (JStr d) of JStr s \<Rightarrow> s | j \<Rightarrow> br_str b j)"

subsection \<open>Calls\<close>

definition load_tools :: "bridge \<Rightarrow> mcp \<Rightarrow> bridge_tool list asked" where
  "load_tools b m =
     (case mc_tools m of
        Some ts \<Rightarrow> (Inr ts, m)
      | None \<Rightarrow> (case br_tools b of Inl e \<Rightarrow> (Inl e, m) | Inr ts \<Rightarrow> (Inr ts, m\<lparr>mc_tools := Some ts\<rparr>)))"

definition find_tool :: "string \<Rightarrow> bridge_tool list \<Rightarrow> bridge_tool option" where
  "find_tool n ts = find (\<lambda>t. bt_name t = n) (rev ts)"

definition invoke_tool :: "bridge \<Rightarrow> string \<Rightarrow> string \<Rightarrow> tool_args \<Rightarrow> mcp \<Rightarrow> tool_args asked" where
  "invoke_tool b n logged args m =
     ((case br_call b (length (mc_calls m)) n args of
         Late \<Rightarrow> Inl (mcp_tool_timeout logged)
       | Failed e \<Rightarrow> Inl e
       | Returned v \<Rightarrow> Inr (decode_envelope (br_loads b) v)),
      m\<lparr>mc_calls := mc_calls m @ [(n, args)]\<rparr>)"

definition result_metadata :: "tool_args \<Rightarrow> exc + tool_args" where
  "result_metadata p =
     (let d = pget ''data'' p; cut = (is_dict d \<and> dget ''truncated'' JNull d = JBool True);
          pg = pget ''pagination'' p; pg' = (if is_dict pg then pg else JNull)
      in if cut then
           (case (case dget ''preview'' (JStr '''') d of JStr s \<Rightarrow> Some (length s) | JArr xs \<Rightarrow> Some (length xs)
                  | JObj kvs \<Rightarrow> Some (length kvs) | _ \<Rightarrow> None) of
              None \<Rightarrow> Inl type_error
            | Some n \<Rightarrow> Inr [(''result_chars'', dget ''original_chars'' JNull d), (''result_truncated'', JBool True),
                            (''truncated_preview_chars'', JInt (int n)), (''pagination'', pg')])
         else Inr [(''result_chars'', JInt (int (length (dumps_default d)))), (''result_truncated'', JBool False),
                   (''truncated_preview_chars'', JNull), (''pagination'', pg')])"

text \<open>What is logged of a result is composed before it is returned.\<close>

definition logged_result :: "tool_args \<Rightarrow> mcp \<Rightarrow> tool_args asked" where
  "logged_result p m = (case result_metadata p of Inl e \<Rightarrow> (Inl e, m) | Inr _ \<Rightarrow> (Inr p, m))"

definition need_tool :: "bridge \<Rightarrow> string \<Rightarrow> string \<Rightarrow> mcp \<Rightarrow> bridge_tool asked" where
  "need_tool b n msg m =
     and_then (load_tools b m) (\<lambda>ts m. case find_tool n ts of None \<Rightarrow> (Inl (policy_error msg), m) | Some t \<Rightarrow> (Inr t, m))"

definition ask_logged :: "bridge \<Rightarrow> string \<Rightarrow> string \<Rightarrow> tool_args \<Rightarrow> mcp \<Rightarrow> tool_args asked" where
  "ask_logged b n logged args m = and_then (invoke_tool b n logged args m) logged_result"

text \<open>The rows in an answer of \<open>list_clients\<close>.\<close>

definition client_rows :: "json \<Rightarrow> json" where
  "client_rows d = (if is_dict d
     then jor (dget ''clients'' JNull d) (jor (dget ''items'' JNull d) (jor (dget ''rows'' JNull d) (JArr [d]))) else d)"

definition row_client :: "json \<Rightarrow> json" where
  "row_client r = jor (dget ''client_id'' JNull r) (jor (dget ''ClientId'' JNull r) (dget ''client_id'' JNull r))"

definition no_list_clients :: string where
  "no_list_clients = ''MCP khong cung cap tool list_clients''"

definition verify_target :: "bridge \<Rightarrow> string \<Rightarrow> string option \<Rightarrow> mcp \<Rightarrow> json asked" where
  "verify_target b cid org m =
     and_then (need_tool b ''list_clients'' no_list_clients m) (\<lambda>_ m.
     and_then (ask_logged b ''list_clients'' ''list_clients''
         [(''search'', JStr (''^'' @ cid @ ''$'')), (''limit'', JInt 5), (''org_id'', JStr (or_str org ''''))] m) (\<lambda>p m.
       if \<not> py_true (pget ''ok'' p) then (Inl (error_of b p ''Khong xac minh duoc client''), m)
       else case find (\<lambda>r. is_dict r \<and> row_client r = JStr cid)
                  (case client_rows (pget ''data'' p) of JArr rows \<Rightarrow> rows | _ \<Rightarrow> []) of
              Some r \<Rightarrow> (Inr r, m)
            | None \<Rightarrow> (Inl (policy_error (''client_id '' @ cid @ '' khong ton tai hoac ngoai org duoc cau hinh'')), m)))"

fun insert_name :: "string \<Rightarrow> string list \<Rightarrow> string list" where
  "insert_name n [] = [n]"
| "insert_name n (x # xs) = (if str_le n x then n # x # xs else x # insert_name n xs)"

definition test_connection :: "bridge \<Rightarrow> deep_settings \<Rightarrow> mcp \<Rightarrow> (string list \<times> nat) asked" where
  "test_connection b g m =
     and_then (load_tools b m) (\<lambda>ts m. case find_tool ''list_clients'' ts of
         None \<Rightarrow> (Inl (policy_error no_list_clients), m)
       | Some _ \<Rightarrow>
     and_then (ask_logged b ''list_clients'' ''list_clients''
         [(''search'', JStr ''''), (''limit'', JInt 1), (''org_id'', JStr (ds_org_id g))] m) (\<lambda>p m.
       if \<not> py_true (pget ''ok'' p) then (Inl (error_of b p ''MCP list_clients that bai''), m)
       else (Inr (foldr insert_name (remdups (map bt_name ts)) [],
                  case client_rows (pget ''data'' p) of JArr rows \<Rightarrow> min (length rows) 1 | _ \<Rightarrow> 0), m)))"

subsection \<open>Collection\<close>

definition cut_result :: "deep_settings \<Rightarrow> tool_args \<Rightarrow> tool_args" where
  "cut_result g p =
     (let s = dumps_default (pget ''data'' p)
      in if int (length s) > ds_max_result_chars g
         then jput ''data'' (JObj [(''truncated'', JBool True), (''original_chars'', JInt (int (length s))),
                (''preview'', JStr (py_prefix (ds_max_result_chars g) s))]) p
         else p)"

definition ask_cut :: "bridge \<Rightarrow> deep_settings \<Rightarrow> string \<Rightarrow> string \<Rightarrow> tool_args \<Rightarrow> mcp \<Rightarrow> tool_args asked" where
  "ask_cut b g n logged args m = and_then (invoke_tool b n logged args m) (\<lambda>p m. logged_result (cut_result g p) m)"

definition collect_custom ::
  "bridge \<Rightarrow> deep_settings \<Rightarrow> string \<Rightarrow> string list \<Rightarrow> string \<Rightarrow> string option \<Rightarrow> mcp \<Rightarrow> tool_args asked" where
  "collect_custom b g name custom cid org m =
     (if name \<notin> set custom then (Inl (policy_error (''Custom artifact khong co trong request: '' @ name)), m)
      else and_then (need_tool b ''collect_custom_artifact'' ''MCP khong cung cap tool collect_custom_artifact'' m) (\<lambda>_ m.
        ask_cut b g ''collect_custom_artifact'' name
          [(''client_id'', JStr cid), (''org_id'', JStr (or_str org (ds_org_id g))),
           (''artifact'', JStr (drop (length custom_tool_prefix) name)), (''limit'', JInt 50), (''offset'', JInt 0)] m))"

definition window_args :: "time \<Rightarrow> time \<Rightarrow> tool_args" where
  "window_args f t = [(''DateAfter'', JStr (iso_z f)), (''DateBefore'', JStr (iso_z t))]"

definition collect_args ::
  "bridge_tool \<Rightarrow> tool_policy \<Rightarrow> tool_capability option \<Rightarrow> string \<Rightarrow> string \<Rightarrow> time \<Rightarrow> time \<Rightarrow> int \<Rightarrow> int \<Rightarrow> tool_args" where
  "collect_args tool pol cap cid org f t limit offset =
     (let timed = (pol_timed pol \<or> (case cap of None \<Rightarrow> False | Some c \<Rightarrow> cap_timed c));
          pages = (case cap of None \<Rightarrow> False | Some c \<Rightarrow> cap_paginated c)
      in [(''client_id'', JStr cid), (''org_id'', JStr org)] @
         (if timed \<and> tool_accepts_argument tool ''DateAfter'' \<and> tool_accepts_argument tool ''DateBefore''
          then window_args f t else []) @
         (if pages \<and> tool_accepts_argument tool ''limit'' \<and> tool_accepts_argument tool ''offset''
          then [(''limit'', JInt (min (max limit 1) 50)), (''offset'', JInt (max offset 0))] else []))"

definition collect ::
  "bridge \<Rightarrow> deep_settings \<Rightarrow> string \<Rightarrow> string \<Rightarrow> string option \<Rightarrow> time \<Rightarrow> time \<Rightarrow> int \<Rightarrow> int \<Rightarrow> string list \<Rightarrow> mcp \<Rightarrow>
   tool_args asked" where
  "collect b g name cid org f t limit offset custom m =
     (if starts_with custom_tool_prefix name then collect_custom b g name custom cid org m
      else case map_of windows_tool_policies name of
        None \<Rightarrow> (Inl (policy_error (''Tool bi chan boi allowlist: '' @ name)), m)
      | Some pol \<Rightarrow>
          if name = ''windows_event_logs'' then (Inl (policy_error ''windows_event_logs must be accessed through typed helpers''), m)
          else and_then (need_tool b name (''MCP khong cung cap tool: '' @ name) m) (\<lambda>tool m.
            ask_cut b g name name
              (collect_args tool pol (map_of tool_capabilities name) cid (or_str org (ds_org_id g)) f t limit offset) m))"

subsection \<open>Event logs\<close>

definition row_counts :: "json \<Rightarrow> tool_args" where
  "row_counts d = (if is_dict d
     then [(''rows'', dget ''rows'' (JInt 0) d), (''original_rows'', dget ''original_rows'' (JInt 0) d),
           (''returned_rows'', dget ''returned_rows'' (JInt 0) d), (''truncated'', JBool (py_true (dget ''truncated'' JNull d)))]
     else [(''rows'', JInt 0), (''original_rows'', JInt 0), (''returned_rows'', JInt 0), (''truncated'', JBool False)])"

definition collect_event_log_triage ::
  "bridge \<Rightarrow> deep_settings \<Rightarrow> string \<Rightarrow> string option \<Rightarrow> time \<Rightarrow> time \<Rightarrow> string \<Rightarrow> mcp \<Rightarrow> json asked" where
  "collect_event_log_triage b g cid org f t profile m =
     and_then (need_tool b ''windows_event_logs_triage'' ''MCP khong cung cap tool windows_event_logs_triage'' m) (\<lambda>_ m.
     and_then (ask_logged b ''windows_event_logs_triage'' ''windows_event_logs_triage''
         ([(''client_id'', JStr cid), (''org_id'', JStr (or_str org (ds_org_id g)))] @ window_args f t @
          [(''profile_id'', JStr profile), (''max_rows'', JInt 100), (''fields'', JStr ''EventTime,Computer,Channel,Provider,EventID'')]) m) (\<lambda>p m.
       if \<not> py_true (pget ''ok'' p) then (Inl (error_of b p ''windows_event_logs_triage that bai''), m)
       else (Inr (JObj (row_counts (pget ''data'' p) @ [(''event_ids'', dget ''sampled_event_ids'' (JArr []) (pget ''data'' p))])), m)))"

definition collect_event_log_detail ::
  "bridge \<Rightarrow> deep_settings \<Rightarrow> string \<Rightarrow> string option \<Rightarrow> time \<Rightarrow> time \<Rightarrow> string list \<Rightarrow> string \<Rightarrow> int \<Rightarrow> mcp \<Rightarrow> json asked" where
  "collect_event_log_detail b g cid org f t ids profile max_rows m =
     (if max_rows > 50 then (Inl (policy_error ''collect_event_log_detail enforces a hard cap of 50 rows''), m)
      else if profile \<noteq> [] \<and> ids \<noteq> [] then (Inl (policy_error ''Provide either profile_id or event_ids, not both.''), m)
      else and_then (need_tool b ''windows_event_logs_detail'' ''MCP khong cung cap tool windows_event_logs_detail'' m) (\<lambda>_ m.
        and_then (ask_logged b ''windows_event_logs_detail'' ''windows_event_logs_detail''
            ([(''client_id'', JStr cid), (''org_id'', JStr (or_str org (ds_org_id g)))] @ window_args f t @ [(''max_rows'', JInt max_rows)] @
             (if profile = [] then [] else [(''profile_id'', JStr profile)]) @
             (if ids = [] then [] else [(''event_ids'', JStr (join '','' ids))])) m) (\<lambda>p m.
          if \<not> py_true (pget ''ok'' p) then (Inl (error_of b p ''windows_event_logs_detail that bai''), m)
          else (Inr (JObj (row_counts (pget ''data'' p))), m))))"

subsection \<open>What is called\<close>

text \<open>
  The calls of an operation are those before it and those of a given kind. \<open>asks P m r\<close>: the result \<open>r\<close>, reached from
  \<open>m\<close>, added only calls with \<open>P\<close>.
\<close>

definition asks :: "(string \<times> tool_args \<Rightarrow> bool) \<Rightarrow> mcp \<Rightarrow> 'a asked \<Rightarrow> bool" where
  "asks P m r \<longleftrightarrow> (\<exists>cs. mc_calls (snd r) = mc_calls m @ cs \<and> list_all P cs)"

lemma asks_same [intro]: "mc_calls (snd r) = mc_calls m \<Longrightarrow> asks P m r"
  by (auto simp: asks_def)

lemma asks_then [intro]:
  assumes "asks P m r" and "\<And>a m'. r = (Inr a, m') \<Longrightarrow> asks P m' (f a m')"
  shows "asks P m (and_then r f)"
proof (cases r)
  case (Pair v m')
  show ?thesis
  proof (cases v)
    case (Inl e)
    with assms(1) Pair show ?thesis by (simp add: and_then_def asks_def)
  next
    case (Inr a)
    from assms(1) Pair obtain cs where cs: "mc_calls m' = mc_calls m @ cs" "list_all P cs" by (auto simp: asks_def)
    from assms(2) [of a m'] Pair Inr obtain ds where "mc_calls (snd (f a m')) = mc_calls m' @ ds" "list_all P ds"
      by (auto simp: asks_def)
    with cs show ?thesis by (simp add: and_then_def asks_def Pair Inr)
  qed
qed

lemma asks_load [intro]: "asks P m (load_tools b m)"
  by (rule asks_same) (simp add: load_tools_def split: option.splits sum.splits)

lemma asks_need [intro]: "asks P m (need_tool b n msg m)"
  unfolding need_tool_def by (rule asks_then [OF asks_load]) (auto split: option.splits)

lemma asks_invoke [intro]: "P (n, args) \<Longrightarrow> asks P m (invoke_tool b n logged args m)"
  by (auto simp: asks_def invoke_tool_def)

lemma asks_logged_result [intro]: "asks P m (logged_result p m)"
  by (rule asks_same) (simp add: logged_result_def split: sum.splits)

lemma asks_ask_logged [intro]: "P (n, args) \<Longrightarrow> asks P m (ask_logged b n logged args m)"
  unfolding ask_logged_def by (rule asks_then [OF asks_invoke]) auto

lemma asks_ask_cut [intro]: "P (n, args) \<Longrightarrow> asks P m (ask_cut b g n logged args m)"
  unfolding ask_cut_def by (rule asks_then [OF asks_invoke]) auto

definition known_tool :: "string \<Rightarrow> bool" where
  "known_tool n \<longleftrightarrow> n \<in> fst ` set windows_tool_policies \<and> n \<noteq> ''windows_event_logs'' \<or>
     n \<in> {''collect_custom_artifact'', ''windows_event_logs_triage'', ''windows_event_logs_detail''}"

text \<open>
  A call within the bounds of a case: a tool that only reads, the client and organisation of the case, an artifact that
  the request names, and no instant outside the time range.
\<close>

definition within_case :: "deep_settings \<Rightarrow> case_request \<Rightarrow> string \<times> tool_args \<Rightarrow> bool" where
  "within_case g q c \<longleftrightarrow>
     (let org = or_str (rq_org_id q) (ds_org_id g); args = snd c in
      (fst c = ''list_clients'' \<and> map_of args ''search'' = Some (JStr (''^'' @ rq_client_id q @ ''$'')) \<and>
         map_of args ''org_id'' = Some (JStr org))
    \<or> (known_tool (fst c) \<and> map_of args ''client_id'' = Some (JStr (rq_client_id q)) \<and> map_of args ''org_id'' = Some (JStr org) \<and>
       (fst c = ''collect_custom_artifact'' \<longrightarrow>
          (\<exists>r\<in>set (rq_custom q). map_of args ''artifact'' = Some (JStr (cr_name r)))) \<and>
       (case map_of args ''DateAfter'' of None \<Rightarrow> True | Some v \<Rightarrow> \<exists>t\<ge>rq_from q. v = JStr (iso_z t)) \<and>
       (case map_of args ''DateBefore'' of None \<Rightarrow> True | Some v \<Rightarrow> \<exists>t\<le>rq_to q. v = JStr (iso_z t))))"

text \<open>The organisation the graph passes on.\<close>

definition case_org :: "deep_settings \<Rightarrow> case_request \<Rightarrow> string option" where
  "case_org g q = Some (or_str (rq_org_id q) (ds_org_id g))"

lemma case_org_or: "or_str (case_org g q) (ds_org_id g) = or_str (rq_org_id q) (ds_org_id g)"
  by (simp add: case_org_def or_str_def split: option.splits)

lemma case_org_none: "or_str (case_org g q) '''' = or_str (rq_org_id q) (ds_org_id g)"
  by (simp add: case_org_def or_str_def split: option.splits)

lemma asks_verify: "asks (within_case g q) m (verify_target b (rq_client_id q) (case_org g q) m)"
  unfolding verify_target_def
  by (intro asks_then asks_need asks_ask_logged) (auto simp: within_case_def case_org_none split: option.splits)

lemma asks_collect_custom:
  "asks (within_case g q) m (collect_custom b g name (custom_tool_names q) (rq_client_id q) (case_org g q) m)"
proof (cases "name \<in> set (custom_tool_names q)")
  case True
  then obtain r where r: "r \<in> set (rq_custom q)" "name = custom_tool_prefix @ cr_name r" by (auto simp: custom_tool_names_def)
  show ?thesis
    unfolding collect_custom_def using True r
    by (auto intro!: asks_then asks_need asks_ask_cut simp: within_case_def case_org_or known_tool_def)
next
  case False
  then show ?thesis by (auto simp: collect_custom_def)
qed

lemma collect_args_within:
  assumes "known_tool n" and "n \<noteq> ''collect_custom_artifact''"
  shows "within_case g q (n, collect_args tool pol cap (rq_client_id q) (or_str (rq_org_id q) (ds_org_id g)) (rq_from q) (rq_to q) limit offset)"
  using assms by (auto simp: within_case_def collect_args_def window_args_def Let_def split: option.splits)

lemma asks_collect:
  "asks (within_case g q) m
     (collect b g name (rq_client_id q) (case_org g q) (rq_from q) (rq_to q) limit offset (custom_tool_names q) m)"
proof (cases "starts_with custom_tool_prefix name")
  case True
  then show ?thesis using asks_collect_custom by (simp add: collect_def)
next
  case False
  show ?thesis
  proof (cases "map_of windows_tool_policies name")
    case None
    with False show ?thesis by (auto simp: collect_def)
  next
    case (Some pol)
    have "name \<noteq> ''windows_event_logs'' \<Longrightarrow> known_tool name"
      using map_of_SomeD [OF Some] by (force simp: known_tool_def)
    moreover have "name \<noteq> ''collect_custom_artifact''"
      using map_of_SomeD [OF Some] by (auto simp: windows_tool_policies_def)
    ultimately show ?thesis
      using False Some
      by (auto simp: collect_def case_org_or intro!: asks_then asks_need asks_ask_cut collect_args_within)
  qed
qed

lemma asks_triage:
  "asks (within_case g q) m (collect_event_log_triage b g (rq_client_id q) (case_org g q) (rq_from q) (rq_to q) profile m)"
  unfolding collect_event_log_triage_def
  by (intro asks_then asks_need asks_ask_logged) (auto simp: within_case_def case_org_or known_tool_def window_args_def)

lemma asks_detail:
  assumes "rq_from q \<le> f" and "t \<le> rq_to q"
  shows "asks (within_case g q) m (collect_event_log_detail b g (rq_client_id q) (case_org g q) f t ids profile n m)"
proof -
  have "within_case g q (''windows_event_logs_detail'',
      [(''client_id'', JStr (rq_client_id q)), (''org_id'', JStr (or_str (case_org g q) (ds_org_id g)))] @ window_args f t @
      [(''max_rows'', JInt n)] @ (if profile = [] then [] else [(''profile_id'', JStr profile)]) @
      (if ids = [] then [] else [(''event_ids'', JStr (join '','' ids))]))"
    using assms by (auto simp: within_case_def case_org_or known_tool_def window_args_def)
  then show ?thesis
    unfolding collect_event_log_detail_def
    by (auto intro!: asks_then asks_need asks_ask_logged)
qed

subsection \<open>What is returned\<close>

lemma py_prefix_at_most: "0 \<le> n \<Longrightarrow> int (length (py_prefix n xs)) \<le> n"
  by (simp add: py_prefix_def)

lemma pget_jput [simp]: "pget k (jput k v p) = v"
proof -
  have "map_of (map (\<lambda>(k', v'). if k' = k then (k, v) else (k', v')) p) k = Some v" if "k \<in> fst ` set p"
    using that by (induction p) auto
  moreover have "map_of (p @ [(k, v)]) k = Some v" if "k \<notin> fst ` set p"
    using that by (induction p) auto
  ultimately show ?thesis by (simp add: pget_def jput_def)
qed

end
