(* ===== verification/DeepReport.thy ===== *)
theory DeepReport
  imports DeepBridge
begin

text \<open>
  The DeepAgent service, fourth part: the assessment a language model gives (\<open>models.py\<close>), the check that it cites
  evidence that exists (\<open>validate_assessment_evidence\<close> of \<open>analysis_model.py\<close>), and the report of \<open>report.py\<close>.
\<close>

subsection \<open>Assessments\<close>

record case_finding =
  fi_id :: string
  fi_title :: string
  fi_severity :: string
  fi_confidence :: string
  fi_status :: string
  fi_refs :: "string list"
  fi_evidence :: string
  fi_mitre :: "string option"
  fi_recommendation :: string

record case_ioc =
  io_type :: string
  io_value :: string
  io_ref :: string

record assessment =
  as_severity :: string
  as_confidence :: string
  as_summary :: string
  as_conclusion :: string
  as_findings :: "case_finding list"
  as_iocs :: "case_ioc list"
  as_limitations :: "string list"

definition validate_assessment_evidence :: "assessment \<Rightarrow> evidence_item list \<Rightarrow> assessment" where
  "validate_assessment_evidence a es =
     (let ids = set (map ei_id es)
      in a\<lparr>as_findings := filter (\<lambda>f. fi_refs f \<noteq> [] \<and> set (fi_refs f) \<subseteq> ids) (as_findings a),
           as_iocs := filter (\<lambda>i. io_ref i \<in> ids) (as_iocs a)\<rparr>)"

definition cites :: "string list \<Rightarrow> assessment \<Rightarrow> bool" where
  "cites ids a \<longleftrightarrow> (\<forall>f\<in>set (as_findings a). fi_refs f \<noteq> [] \<and> set (fi_refs f) \<subseteq> set ids) \<and>
     (\<forall>i\<in>set (as_iocs a). io_ref i \<in> set ids)"

lemma validated_cites: "cites (map ei_id es) (validate_assessment_evidence a es)"
  by (simp add: cites_def validate_assessment_evidence_def Let_def)

lemma cites_limitations [simp]: "cites ids (a\<lparr>as_limitations := l\<rparr>) = cites ids a"
  by (simp add: cites_def)

lemma cites_mono: "cites ids a \<Longrightarrow> set ids \<subseteq> set ids' \<Longrightarrow> cites ids' a"
  by (auto simp: cites_def)

subsection \<open>The report\<close>

text \<open>\<open>s.replace(p, r)\<close> for a non-empty \<open>p\<close>: the leftmost occurrences that do not overlap.\<close>

function replace_text :: "string \<Rightarrow> string \<Rightarrow> string \<Rightarrow> string" where
  "replace_text p r s =
     (if p = [] \<or> s = [] then s
      else if starts_with p s then r @ replace_text p r (drop (length p) s)
      else hd s # replace_text p r (tl s))"
  by pat_completeness auto
termination by (relation "measure (\<lambda>(p, r, s). length s)") auto

declare replace_text.simps [simp del]

definition clean_text :: "string \<Rightarrow> string" where
  "clean_text s = replace_text ''<script'' ''&lt;script'' (replace_text [CHR 0x00] [] s)"

definition iso_offset :: "time \<Rightarrow> string" where
  "iso_offset t = butlast (iso_z t) @ ''+00:00''"

definition ticked :: "string \<Rightarrow> string" where
  "ticked s = CHR 0x60 # s @ [CHR 0x60]"

definition count_text :: "nat \<Rightarrow> string" where
  "count_text n = str_int (int n)"

definition evidence_line :: "evidence_item \<Rightarrow> string" where
  "evidence_line e = ''- '' @ ticked (ei_id e) @ '' - '' @ ticked (ei_tool e) @ '' - '' @
     (if ei_ok e then ''thanh cong'' else ''loi: '' @ clean_text (or_str (ei_error e) ''khong ro''))"

definition finding_lines :: "case_finding \<Rightarrow> string list" where
  "finding_lines f =
     [''### '' @ fi_id f @ '' - '' @ clean_text (fi_title f), '''',
      ''- **Phan loai:** '' @ ticked (fi_status f),
      ''- **Muc do:** '' @ ticked (fi_severity f),
      ''- **Do tin cay:** '' @ ticked (fi_confidence f),
      ''- **Bang chung:** '' @ join '', '' (map ticked (fi_refs f)) @ '' - '' @ clean_text (fi_evidence f),
      ''- **MITRE ATT&CK:** '' @ ticked (or_str (fi_mitre f) ''N/A''), '''']"

definition head_lines :: "case_request \<Rightarrow> assessment \<Rightarrow> evidence_item list \<Rightarrow> string list" where
  "head_lines q a es =
     (let good = length (filter ei_ok es); bad = length es - good
      in [''---'', ''schema_version: dfir.report/1.0'', ''---'', '''',
          ''# Bao cao dieu tra may '' @ clean_text (rq_hostname q), '''', ''## 1. Tom tat'', '''', clean_text (as_summary a), '''',
          ''## 2. Pham vi va nguon du lieu'', '''',
          ''- **Client ID:** '' @ ticked (rq_client_id q),
          ''- **Khoang thoi gian:** '' @ ticked (iso_offset (rq_from q)) @ '' den '' @ ticked (iso_offset (rq_to q)),
          ''- **Muc do:** '' @ ticked (as_severity a),
          ''- **Do tin cay:** '' @ ticked (as_confidence a),
          ''- **So phat hien:** '' @ ticked (count_text (length (as_findings a))), '''',
          ''DeepAgent da thuc hien '' @ count_text (length es) @ '' truy van MCP read-only: '' @ count_text good @
            '' thanh cong, '' @ count_text bad @ '' loi.'', ''''])"

definition timeline_line :: "evidence_item \<Rightarrow> string" where
  "timeline_line e = ''- '' @ ticked (iso_offset (ei_at e)) @ '' - '' @ ticked (ei_id e) @ '' - '' @ ticked (ei_tool e) @ '' - '' @
     (if ei_ok e then ''thanh cong'' else ''that bai'')"

definition ioc_line :: "case_ioc \<Rightarrow> string" where
  "ioc_line i = ''- **'' @ io_type i @ '':** '' @ ticked (clean_text (io_value i)) @ '' - nguon '' @ ticked (io_ref i)"

definition recommendations :: "assessment \<Rightarrow> string list" where
  "recommendations a = dedup (map (clean_text \<circ> fi_recommendation) (filter (\<lambda>f. strip (fi_recommendation f) \<noteq> []) (as_findings a)))"

definition none_text :: "string option \<Rightarrow> string" where
  "none_text s = (case s of None \<Rightarrow> ''None'' | Some t \<Rightarrow> t)"

definition failure_text :: "evidence_item \<Rightarrow> string" where
  "failure_text e = ''Truy van '' @ ticked (ei_tool e) @ '' that bai: '' @ none_text (ei_error e)"

definition limitation_texts :: "assessment \<Rightarrow> evidence_item list \<Rightarrow> string list" where
  "limitation_texts a es = as_limitations a @
     map failure_text (filter (\<lambda>e. \<not> ei_ok e) es)"

definition or_line :: "string list \<Rightarrow> string \<Rightarrow> string list" where
  "or_line ls d = (if ls = [] then [d] else ls)"

definition report_lines :: "case_request \<Rightarrow> assessment \<Rightarrow> evidence_item list \<Rightarrow> string list" where
  "report_lines q a es =
     head_lines q a es @ map evidence_line es @
     ['''', ''## 3. Phat hien'', ''''] @
     (if as_findings a = [] then [''Khong co phat hien du bang chung trong pham vi du lieu da thu thap.'']
      else concat (map finding_lines (as_findings a))) @
     [''## 4. IoC'', ''''] @
     or_line (map ioc_line (as_iocs a)) ''Khong trich xuat duoc IoC co nguon bang chung hop le.'' @
     ['''', ''## 5. Dong thoi gian'', ''''] @
     or_line (map timeline_line (sort_key ei_at es)) ''Khong co moc thu thap bang chung trong pham vi dieu tra.'' @
     ['''', ''## 6. Danh gia va ket luan'', '''', clean_text (as_conclusion a), '''', ''## 7. Khuyen nghi'', ''''] @
     or_line (map (\<lambda>r. ''- '' @ r) (recommendations a)) ''- Tiep tuc giam sat va chi mo rong dieu tra khi co chi dau moi.'' @
     ['''', ''## 8. Han che'', ''''] @
     or_line (map (\<lambda>l. ''- '' @ clean_text l) (limitation_texts a es)) ''- Khong ghi nhan han che bo sung ngoai pham vi thoi gian da chi dinh.''"

definition build_markdown_report :: "case_request \<Rightarrow> assessment \<Rightarrow> evidence_item list \<Rightarrow> string" where
  "build_markdown_report q a es = strip (join [CHR 0x0A] (report_lines q a es)) @ [CHR 0x0A]"

subsection \<open>What the report says of the evidence\<close>

lemma every_query_reported:
  assumes "e \<in> set es"
  shows "evidence_line e \<in> set (report_lines q a es)" and "timeline_line e \<in> set (report_lines q a es)"
proof -
  have "evidence_line e \<in> set (map evidence_line es)" using assms by simp
  then show "evidence_line e \<in> set (report_lines q a es)" unfolding report_lines_def set_append by blast
  have "timeline_line e \<in> set (map timeline_line (sort_key ei_at es))" using assms by simp
  then have "timeline_line e \<in> set (or_line (map timeline_line (sort_key ei_at es)) d)" for d
    unfolding or_line_def by (cases "map timeline_line (sort_key ei_at es)") simp_all
  then show "timeline_line e \<in> set (report_lines q a es)" unfolding report_lines_def set_append by blast
qed

lemma every_failure_reported:
  assumes "e \<in> set es" and "\<not> ei_ok e"
  shows "''- '' @ clean_text (failure_text e) \<in> set (report_lines q a es)"
proof -
  have "failure_text e \<in> set (limitation_texts a es)" using assms by (auto simp: limitation_texts_def)
  then have "''- '' @ clean_text (failure_text e) \<in> set (or_line (map (\<lambda>l. ''- '' @ clean_text l) (limitation_texts a es)) d)" for d
    unfolding or_line_def by auto
  then show ?thesis unfolding report_lines_def set_append by blast
qed

text \<open>Only the lower-case spelling of the tag is broken up.\<close>

lemma clean_script: "clean_text ''<script>'' = ''&lt;script>''" "clean_text ''<SCRIPT>'' = ''<SCRIPT>''"
  by (simp_all add: clean_text_def replace_text.simps starts_with_def)

end
