(* ===== verification/DeepGraph.thy ===== *)
theory DeepGraph
  imports DeepReport
begin

text \<open>
  The DeepAgent service, fifth part: the graph of an investigation (\<open>graph.py\<close>). Each node reads and changes the state;
  an exception of a node ends the run. A run takes at most as many steps as the limit given to LangGraph. The language
  model behind the nodes and the clock are parameters; a model returns values that its schema accepts.
\<close>

subsection \<open>State\<close>

record analyst =
  an_name :: string
  an_plan :: "case_request \<Rightarrow> exc + case_plan"
  an_expand :: "case_request \<Rightarrow> string list \<Rightarrow> json \<Rightarrow> exc + raw_expansion list"
  an_tier2 :: "case_request \<Rightarrow> evidence_item list \<Rightarrow> string list \<Rightarrow> exc + plan_step list"
  an_assess :: "case_request \<Rightarrow> evidence_item list \<Rightarrow> exc + assessment"

record deep_world =
  dw_bridge :: bridge
  dw_settings :: deep_settings
  dw_analyst :: analyst
  dw_clock :: "nat \<Rightarrow> time"  \<comment> \<open>when the item with a number is recorded\<close>
  dw_stamp :: "time \<Rightarrow> string"
  dw_shown :: "string \<Rightarrow> string"

record case_state =
  cs_request :: case_request
  cs_metadata :: json
  cs_plan :: "case_plan option"
  cs_index :: nat
  cs_evidence :: "evidence_item list"
  cs_assessment :: "assessment option"
  cs_report :: "string option"
  cs_tier2 :: bool
  cs_limits :: "string list"
  cs_mcp :: mcp

definition start_state :: "case_request \<Rightarrow> mcp \<Rightarrow> case_state" where
  "start_state q m = \<lparr>cs_request = q, cs_metadata = JNull, cs_plan = None, cs_index = 0, cs_evidence = [],
     cs_assessment = None, cs_report = None, cs_tier2 = False, cs_limits = [], cs_mcp = m\<rparr>"

datatype node = Verify_target | Plan | Plan_tier2 | Collect | Assess | Render_report

type_synonym node_result = "(exc + unit) \<times> case_state"

definition budgeted :: "deep_world \<Rightarrow> case_state \<Rightarrow> exc + evidence_item list" where
  "budgeted w s = fit_evidence_budget (dw_stamp w) (cs_evidence s) (ds_max_evidence_chars (dw_settings w))"

definition steps_of :: "case_state \<Rightarrow> plan_step list" where
  "steps_of s = (case cs_plan s of None \<Rightarrow> [] | Some p \<Rightarrow> cp_steps p)"

subsection \<open>Target and plan\<close>

definition verify_node :: "deep_world \<Rightarrow> case_state \<Rightarrow> node_result" where
  "verify_node w s =
     (let q = cs_request s in
      case verify_target (dw_bridge w) (rq_client_id q) (case_org (dw_settings w) q) (cs_mcp s) of
        (Inl e, m) \<Rightarrow> (Inl e, s\<lparr>cs_mcp := m\<rparr>)
      | (Inr md, m) \<Rightarrow> (Inr (), s\<lparr>cs_mcp := m, cs_metadata := md, cs_evidence := [], cs_index := 0, cs_tier2 := False\<rparr>))"

definition initial_triage_max_steps :: int where
  "initial_triage_max_steps = 3"

definition plan_node :: "deep_world \<Rightarrow> case_state \<Rightarrow> node_result" where
  "plan_node w s =
     (let q = cs_request s in
      case an_plan (dw_analyst w) q of
        Inl e \<Rightarrow> (Inl e, s)
      | Inr raw \<Rightarrow>
          (case sanitize_plan raw (min (ds_max_steps (dw_settings w)) initial_triage_max_steps)
                  (initial_custom_tool_names q) (rq_platform q) of
             Inl e \<Rightarrow> (Inl e, s)
           | Inr p \<Rightarrow> (Inr (), s\<lparr>cs_plan := Some p\<rparr>)))"

fun accept_steps :: "string list \<Rightarrow> string list \<Rightarrow> plan_step list \<Rightarrow> plan_step list \<Rightarrow> plan_step list" where
  "accept_steps candidates existing accepted [] = accepted"
| "accept_steps candidates existing accepted (s # ss) =
     (if ps_tool s \<notin> set candidates \<or> ps_tool s \<in> set existing then accept_steps candidates existing accepted ss
      else if length (accepted @ [s]) \<ge> max_tier2_steps then accepted @ [s]
      else accept_steps candidates (ps_tool s # existing) (accepted @ [s]) ss)"

definition plan_tier2_node :: "deep_world \<Rightarrow> case_state \<Rightarrow> node_result" where
  "plan_tier2_node w s =
     (let q = cs_request s; candidates = tier2_custom_tool_names q in
      case budgeted w s of
        Inl e \<Rightarrow> (Inl e, s)
      | Inr evidence \<Rightarrow>
          if candidates = [] then (Inr (), s\<lparr>cs_tier2 := True\<rparr>)
          else case an_tier2 (dw_analyst w) q evidence candidates of
            Inl e \<Rightarrow> (Inr (), s\<lparr>cs_tier2 := True, cs_limits := cs_limits s @ [''tier2_planning_failed'']\<rparr>)
          | Inr proposed \<Rightarrow>
              (let accepted = accept_steps candidates (map ei_tool evidence) [] proposed in
               if accepted = [] then (Inr (), s\<lparr>cs_tier2 := True\<rparr>)
               else case cs_plan s of
                 None \<Rightarrow> (Inl (raised [''KeyError''] ''plan''), s)
               | Some p \<Rightarrow>
                   (case investigation_plan (cp_hypothesis p) (cp_steps p @ accepted) of
                      Inl e \<Rightarrow> (Inl e, s)
                    | Inr p' \<Rightarrow> (Inr (), s\<lparr>cs_plan := Some p', cs_tier2 := True\<rparr>))))"

subsection \<open>Collection\<close>

definition evidence_id :: "nat \<Rightarrow> string" where
  "evidence_id n = ''E-'' @ pad_to 3 (int n)"

definition timeout_error :: string where
  "timeout_error = ''MCP collection timed out.''"

definition failed_envelope_error :: string where
  "failed_envelope_error = ''MCP tool returned a failed envelope.''"

definition safe_collection_error :: "exc \<Rightarrow> string \<times> bool" where
  "safe_collection_error e =
     (if is_a e ''MCPToolTimeout'' then (timeout_error, True)
      else (''MCP collection failed: '' @ exc_name e @ ''.'', False))"

definition failed_item :: "string \<Rightarrow> string \<Rightarrow> time \<Rightarrow> exc \<Rightarrow> evidence_item" where
  "failed_item i tool now e =
     \<lparr>ei_id = i, ei_tool = tool, ei_at = now, ei_ok = False, ei_data = JNull, ei_pagination = JNull,
      ei_error = Some (fst (safe_collection_error e)), ei_timeout = snd (safe_collection_error e)\<rparr>"

definition good_item :: "string \<Rightarrow> string \<Rightarrow> time \<Rightarrow> json \<Rightarrow> evidence_item" where
  "good_item i tool now d =
     \<lparr>ei_id = i, ei_tool = tool, ei_at = now, ei_ok = True, ei_data = d, ei_pagination = JNull, ei_error = None,
      ei_timeout = False\<rparr>"

definition asked_item :: "string \<Rightarrow> string \<Rightarrow> time \<Rightarrow> json asked \<Rightarrow> evidence_item" where
  "asked_item i tool now r = (case fst r of Inl e \<Rightarrow> failed_item i tool now e | Inr d \<Rightarrow> good_item i tool now d)"

text \<open>An item is built from an envelope; pagination that is no dictionary is refused.\<close>

definition envelope_item :: "string \<Rightarrow> string \<Rightarrow> time \<Rightarrow> tool_args \<Rightarrow> evidence_item" where
  "envelope_item i tool now p =
     (let ok = py_true (pget ''ok'' p) in
      if ok \<and> pget ''pagination'' p \<noteq> JNull \<and> \<not> is_dict (pget ''pagination'' p)
      then failed_item i tool now (validation_error ''EvidenceItem.pagination'')
      else \<lparr>ei_id = i, ei_tool = tool, ei_at = now, ei_ok = ok, ei_data = (if ok then pget ''data'' p else JNull),
            ei_pagination = (if ok then pget ''pagination'' p else JNull),
            ei_error = (if ok then None else Some failed_envelope_error), ei_timeout = False\<rparr>)"

definition clock_now :: "deep_world \<Rightarrow> evidence_item list \<Rightarrow> time" where
  "clock_now w es = dw_clock w (length es)"

definition event_id_text :: "bridge \<Rightarrow> json \<Rightarrow> string" where
  "event_id_text b j = (case j of JStr s \<Rightarrow> s | JInt n \<Rightarrow> str_int n | _ \<Rightarrow> br_str b j)"

definition sampled_event_ids :: "bridge \<Rightarrow> json \<Rightarrow> string list" where
  "sampled_event_ids b triage =
     (case dget ''event_ids'' JNull triage of JArr xs \<Rightarrow> map (event_id_text b) (filter py_true xs) | _ \<Rightarrow> [])"

definition plan_expansions :: "deep_world \<Rightarrow> case_request \<Rightarrow> json \<Rightarrow> expansion list \<times> string list" where
  "plan_expansions w q triage =
     (let sampled = sampled_event_ids (dw_bridge w) triage in
      if sampled = [] then ([], [])
      else case an_expand (dw_analyst w) q sampled triage of
        Inl e \<Rightarrow> ([], [])
      | Inr raws \<Rightarrow> validate_event_log_expansions (dw_shown w) raws (rq_from q) (rq_to q) sampled)"

definition ask_detail :: "deep_world \<Rightarrow> case_request \<Rightarrow> expansion \<Rightarrow> mcp \<Rightarrow> json asked" where
  "ask_detail w q x m = collect_event_log_detail (dw_bridge w) (dw_settings w) (rq_client_id q) (case_org (dw_settings w) q)
     (xp_after x) (xp_before x) (xp_ids x) '''' 50 m"

text \<open>The detail calls; \<open>k\<close> numbers their items.\<close>

fun collect_details :: "deep_world \<Rightarrow> case_request \<Rightarrow> nat \<Rightarrow> expansion list \<Rightarrow> evidence_item list \<Rightarrow> mcp \<Rightarrow> evidence_item list \<times> mcp" where
  "collect_details w q k [] es m = (es, m)"
| "collect_details w q k (x # xs) es m =
     (let r = ask_detail w q x m
      in collect_details w q (Suc k) xs (es @ [asked_item (evidence_id k) ''windows_event_logs_detail'' (clock_now w es) r]) (snd r))"

definition collect_event_log :: "deep_world \<Rightarrow> case_state \<Rightarrow> case_state" where
  "collect_event_log w s =
     (let q = cs_request s; i = cs_index s;
          r = collect_event_log_triage (dw_bridge w) (dw_settings w) (rq_client_id q) (case_org (dw_settings w) q)
                (rq_from q) (rq_to q) ''security_core'' (cs_mcp s);
          es = cs_evidence s @ [asked_item (evidence_id (i + 1)) ''windows_event_logs'' (clock_now w (cs_evidence s)) r]
      in case fst r of
           Inl e \<Rightarrow> s\<lparr>cs_evidence := es, cs_index := i + 1, cs_mcp := snd r\<rparr>
         | Inr triage \<Rightarrow>
             (let (xs, rejected) = plan_expansions w q triage;
                  (es', m) = collect_details w q (i + 2) (take max_detail_calls xs) es (snd r)
              in s\<lparr>cs_evidence := es', cs_index := i + 1, cs_mcp := m, cs_limits := cs_limits s @ rejected\<rparr>))"

definition collect_tool :: "deep_world \<Rightarrow> string \<Rightarrow> case_state \<Rightarrow> case_state" where
  "collect_tool w tool s =
     (let q = cs_request s; i = evidence_id (cs_index s + 1); now = clock_now w (cs_evidence s);
          r = collect (dw_bridge w) (dw_settings w) tool (rq_client_id q) (case_org (dw_settings w) q)
                (rq_from q) (rq_to q) 50 0 (custom_tool_names q) (cs_mcp s);
          item = (case fst r of Inl e \<Rightarrow> failed_item i tool now e | Inr p \<Rightarrow> envelope_item i tool now p)
      in s\<lparr>cs_evidence := cs_evidence s @ [item], cs_index := cs_index s + 1, cs_mcp := snd r\<rparr>)"

definition collect_node :: "deep_world \<Rightarrow> case_state \<Rightarrow> node_result" where
  "collect_node w s =
     (case drop (cs_index s) (steps_of s) of
        [] \<Rightarrow> (Inl (raised [''IndexError'', ''LookupError''] ''list index out of range''), s)
      | step # _ \<Rightarrow>
          (Inr (), if ps_tool step = ''windows_event_logs'' then collect_event_log w s else collect_tool w (ps_tool step) s))"

subsection \<open>Assessment and report\<close>

definition assess_node :: "deep_world \<Rightarrow> case_state \<Rightarrow> node_result" where
  "assess_node w s =
     (case budgeted w s of
        Inl e \<Rightarrow> (Inl e, s)
      | Inr evidence \<Rightarrow>
          (case an_assess (dw_analyst w) (cs_request s) evidence of
             Inl e \<Rightarrow> (Inl e, s)
           | Inr a \<Rightarrow>
               (let v = validate_assessment_evidence a evidence
                in (Inr (), s\<lparr>cs_assessment := Some (v\<lparr>as_limitations := as_limitations v @ cs_limits s\<rparr>)\<rparr>))))"

definition render_node :: "deep_world \<Rightarrow> case_state \<Rightarrow> node_result" where
  "render_node w s =
     (case budgeted w s of
        Inl e \<Rightarrow> (Inl e, s)
      | Inr evidence \<Rightarrow>
          (case cs_assessment s of
             None \<Rightarrow> (Inl (raised [''KeyError''] ''assessment''), s)
           | Some a \<Rightarrow> (Inr (), s\<lparr>cs_report := Some (build_markdown_report (cs_request s) a evidence)\<rparr>)))"

subsection \<open>The run\<close>

definition exec_node :: "deep_world \<Rightarrow> node \<Rightarrow> case_state \<Rightarrow> node_result" where
  "exec_node w n s = (case n of
     Verify_target \<Rightarrow> verify_node w s | Plan \<Rightarrow> plan_node w s | Plan_tier2 \<Rightarrow> plan_tier2_node w s
   | Collect \<Rightarrow> collect_node w s | Assess \<Rightarrow> assess_node w s | Render_report \<Rightarrow> render_node w s)"

definition after_collect :: "case_state \<Rightarrow> node" where
  "after_collect s = (if cs_index s < length (steps_of s) then Collect else if cs_tier2 s then Assess else Plan_tier2)"

definition after_tier2_plan :: "case_state \<Rightarrow> node" where
  "after_tier2_plan s = (if cs_index s < length (steps_of s) then Collect else Assess)"

definition next_node :: "node \<Rightarrow> case_state \<Rightarrow> node option" where
  "next_node n s = (case n of
     Verify_target \<Rightarrow> Some Plan | Plan \<Rightarrow> Some Collect | Collect \<Rightarrow> Some (after_collect s)
   | Plan_tier2 \<Rightarrow> Some (after_tier2_plan s) | Assess \<Rightarrow> Some Render_report | Render_report \<Rightarrow> None)"

datatype graph_end = Finished | Stopped exc | Out_of_steps

fun run_graph :: "deep_world \<Rightarrow> nat \<Rightarrow> node \<Rightarrow> case_state \<Rightarrow> graph_end \<times> case_state" where
  "run_graph w 0 n s = (Out_of_steps, s)"
| "run_graph w (Suc k) n s =
     (case exec_node w n s of
        (Inl e, s') \<Rightarrow> (Stopped e, s')
      | (Inr _, s') \<Rightarrow> (case next_node n s' of None \<Rightarrow> (Finished, s') | Some n' \<Rightarrow> run_graph w k n' s'))"

definition investigate :: "deep_world \<Rightarrow> case_request \<Rightarrow> mcp \<Rightarrow> graph_end \<times> case_state" where
  "investigate w q m = run_graph w (nat (ds_max_steps (dw_settings w) + 8)) Verify_target (start_state q m)"

subsection \<open>One step\<close>

lemma accept_steps_props:
  assumes "length accepted < max_tier2_steps" and "distinct (map ps_tool accepted)"
    and "\<forall>s\<in>set accepted. ps_tool s \<in> set candidates" and "ps_tool ` set accepted \<subseteq> set existing"
  shows "length (accept_steps candidates existing accepted ss) \<le> max_tier2_steps \<and>
    distinct (map ps_tool (accept_steps candidates existing accepted ss)) \<and>
    (\<forall>s\<in>set (accept_steps candidates existing accepted ss). ps_tool s \<in> set candidates)"
  using assms
proof (induction candidates existing accepted ss rule: accept_steps.induct)
  case (1 candidates existing accepted)
  then show ?case by simp
next
  case (2 candidates existing accepted s ss)
  show ?case
  proof (cases "ps_tool s \<notin> set candidates \<or> ps_tool s \<in> set existing")
    case True
    then have eq: "accept_steps candidates existing accepted (s # ss) = accept_steps candidates existing accepted ss" by simp
    show ?thesis unfolding eq by (rule "2.IH"(1) [OF True "2.prems"])
  next
    case new: False
    then have grown: "distinct (map ps_tool (accepted @ [s]))" "\<forall>r\<in>set (accepted @ [s]). ps_tool r \<in> set candidates"
      using "2.prems" by auto
    show ?thesis
    proof (cases "length (accepted @ [s]) \<ge> max_tier2_steps")
      case True
      with new have eq: "accept_steps candidates existing accepted (s # ss) = accepted @ [s]" by simp
      have "length (accepted @ [s]) \<le> max_tier2_steps" using "2.prems"(1) by simp
      then show ?thesis unfolding eq using grown by blast
    next
      case False
      with new have eq: "accept_steps candidates existing accepted (s # ss) =
          accept_steps candidates (ps_tool s # existing) (accepted @ [s]) ss" by simp
      have "length (accepted @ [s]) < max_tier2_steps" "ps_tool ` set (accepted @ [s]) \<subseteq> set (ps_tool s # existing)"
        using False "2.prems" by auto
      then show ?thesis unfolding eq using "2.IH"(2) [OF new False _ grown] by blast
    qed
  qed
qed

lemma accepted_steps:
  "length (accept_steps candidates existing [] ss) \<le> 2"
  "s \<in> set (accept_steps candidates existing [] ss) \<Longrightarrow> ps_tool s \<in> set candidates"
  using accept_steps_props [of "[]" candidates existing ss] by (auto simp: max_tier2_steps_def)

text \<open>What each node keeps of the state.\<close>

lemma collect_event_log_sel [simp]:
  "cs_index (collect_event_log w s) = Suc (cs_index s)" "cs_plan (collect_event_log w s) = cs_plan s"
  "cs_tier2 (collect_event_log w s) = cs_tier2 s" "cs_request (collect_event_log w s) = cs_request s"
  by (simp_all add: collect_event_log_def Let_def split: sum.splits prod.splits)

lemma collect_tool_sel [simp]:
  "cs_index (collect_tool w t s) = Suc (cs_index s)" "cs_plan (collect_tool w t s) = cs_plan s"
  "cs_tier2 (collect_tool w t s) = cs_tier2 s" "cs_request (collect_tool w t s) = cs_request s"
  "cs_limits (collect_tool w t s) = cs_limits s"
  by (simp_all add: collect_tool_def Let_def)

lemma collect_node_sel:
  assumes "collect_node w s = (Inr u, s')"
  shows "cs_index s' = Suc (cs_index s)" and "cs_plan s' = cs_plan s" and "cs_tier2 s' = cs_tier2 s"
    and "cs_request s' = cs_request s" and "cs_index s < length (steps_of s)"
  using assms by (auto simp: collect_node_def split: list.splits if_splits) (metis drop_eq_Nil leI list.distinct(1))+

lemma exec_request [simp]: "cs_request (snd (exec_node w n s)) = cs_request s"
  by (cases n) (auto simp: exec_node_def verify_node_def plan_node_def plan_tier2_node_def collect_node_def assess_node_def
      render_node_def Let_def split: sum.splits prod.splits list.splits option.splits if_splits)

end
