(* ===== verification/DeepService.thy ===== *)
theory DeepService
  imports DeepGraph Security
begin

text \<open>
  The DeepAgent service, sixth part: the messages to the backend (\<open>callback.py\<close>), the run of one job (\<open>runner.py\<close>), what
  is told of an error (\<open>observability.py\<close>), and the service with its jobs (\<open>api.py\<close>). The backend is a parameter: a
  state and how it answers a message, so that a model of the server can take its place.
\<close>

subsection \<open>Errors\<close>

definition category_hint :: "string \<Rightarrow> string" where
  "category_hint c =
     (case map_of
        [(''llm_timeout'', ''LLM backend timeout. Kiem tra ket noi toi LLM endpoint va xem xet tang `DEEPAGENT_LLM_TIMEOUT_SECONDS`.''),
         (''llm_unreachable'', ''Khong ket noi duoc toi LLM backend. Kiem tra base_url va network toi LLM server.''),
         (''llm_output_truncated'', ''LLM tra ve output vuot qua max_tokens. Xem xet tang max_tokens trong llm_config hoac rut gon prompt.''),
         (''llm_content_filtered'', ''LLM tu choi tra loi do bo loc noi dung. Kiem tra lai prompt va du lieu dau vao.''),
         (''llm_rate_limited'', ''LLM backend dang rate-limit. Doi mot luc roi retry investigation.''),
         (''llm_bad_request'', ''LLM backend tu choi request (400). Kiem tra prompt co hop le, schema dung va khong vuot context window.''),
         (''llm_forbidden'', ''LLM backend tu choi xac thuc (403). Kiem tra API key trong llm_config.''),
         (''llm_server_error'', ''LLM backend gap loi 5xx. Kiem tra trang thai dich vu upstream.''),
         (''internal'', ''Loi noi bo DeepAgent. Xem log chi tiet trong container `deepagent`.'')] c of
        Some h \<Rightarrow> h | None \<Rightarrow> '''')"

definition hinted :: "string \<Rightarrow> string \<times> string" where
  "hinted c = (c, category_hint c)"

text \<open>The class tests, in their order.\<close>

definition llm_classes :: "(string \<times> string) list" where
  "llm_classes =
     [(''LengthFinishReasonError'', ''llm_output_truncated''), (''ContentFilterFinishReasonError'', ''llm_content_filtered''),
      (''APITimeoutError'', ''llm_timeout''), (''APIConnectionError'', ''llm_unreachable''), (''RateLimitError'', ''llm_rate_limited''),
      (''BadRequestError'', ''llm_bad_request''), (''PermissionDeniedError'', ''llm_forbidden''),
      (''InternalServerError'', ''llm_server_error'')]"

definition status_category :: "int \<Rightarrow> string option" where
  "status_category st =
     (if 500 \<le> st \<and> st \<le> 599 then Some ''llm_server_error'' else if st = 429 then Some ''llm_rate_limited''
      else if st = 401 \<or> st = 403 then Some ''llm_forbidden'' else if 400 \<le> st \<and> st \<le> 499 then Some ''llm_bad_request'' else None)"

definition categorize_error :: "exc \<Rightarrow> string \<times> string" where
  "categorize_error e =
     (case find (\<lambda>(c, _). is_a e c) llm_classes of
        Some (_, cat) \<Rightarrow> hinted cat
      | None \<Rightarrow>
          (case (if is_a e ''APIStatusError'' then Option.bind (ex_status e) status_category else None) of
             Some cat \<Rightarrow> hinted cat
           | None \<Rightarrow>
               if exc_name e = ''MCPToolTimeout'' \<or> contains ''ToolTimeout'' (exc_name e)
               then (''mcp_timeout'', ''Velociraptor MCP timeout. Tool chay qua lau. Xem xet tang DEEPAGENT_MCP_TOOL_TIMEOUT_SECONDS hoac thu hep time range.'')
               else if exc_name e = ''MCPPolicyError''
               then (''mcp_policy'', ''MCP policy violation: tool hoac argument bi chan boi allowlist. Kiem tra catalog Tier 1 / Tier 2.'')
               else if exc_name e = ''ArtifactPushError''
               then (''velociraptor_push'', ''Velociraptor khong nhan artifact Custom.*. Kiem tra artifact definition hop le va push status tren portal admin.'')
               else hinted ''internal''))"

definition safe_http_status :: "exc \<Rightarrow> int option" where
  "safe_http_status e = (case ex_status e of Some st \<Rightarrow> if 400 \<le> st \<and> st \<le> 599 then Some st else None | None \<Rightarrow> None)"

definition safe_error_detail :: "exc \<Rightarrow> string" where
  "safe_error_detail e =
     join '' '' ([''['' @ fst (categorize_error e) @ '']'', snd (categorize_error e)] @
       (case safe_http_status e of None \<Rightarrow> [] | Some st \<Rightarrow> [''[HTTP '' @ str_int st @ '']'']))"

text \<open>Nothing of the text of an error is told.\<close>

lemma safe_error_detail_text: "safe_error_detail (e\<lparr>ex_text := t\<rparr>) = safe_error_detail e"
proof -
  have a: "is_a (e\<lparr>ex_text := t\<rparr>) = is_a e" "exc_name (e\<lparr>ex_text := t\<rparr>) = exc_name e"
    by (auto simp: is_a_def exc_name_def fun_eq_iff)
  have st: "ex_status (e\<lparr>ex_text := t\<rparr>) = ex_status e" by (cases e) simp
  have "categorize_error (e\<lparr>ex_text := t\<rparr>) = categorize_error e" unfolding categorize_error_def a st ..
  then show ?thesis unfolding safe_error_detail_def safe_http_status_def st by simp
qed

subsection \<open>Messages to the backend\<close>

record status_message =
  sm_job_id :: string
  sm_phase :: string
  sm_progress :: int
  sm_step :: "int option"
  sm_total :: "int option"
  sm_message :: "string option"

record callback_payload =
  pl_report :: string
  pl_severity :: string
  pl_findings_count :: int
  pl_findings :: "json list"
  pl_iocs :: "json list"
  pl_provider :: string
  pl_model :: string
  pl_job_id :: string
  pl_error :: "string option"
  pl_raw :: json

datatype post_body = Status_body status_message | Result_body string callback_payload  \<comment> \<open>with its idempotency key\<close>

record post =
  po_url :: string
  po_investigation :: uuid
  po_authorization :: string
  po_body :: post_body

text \<open>The answer of the backend: no answer, or a status and a body.\<close>

datatype post_reply = No_answer exc | Answered nat "exc + json"

type_synonym 's backend = "post \<Rightarrow> 's \<Rightarrow> post_reply \<times> 's"

definition rstrip_slash :: "string \<Rightarrow> string" where
  "rstrip_slash s = rev (dropWhile (\<lambda>c. c = CHR 0x2F) (rev s))"

definition job_callback_url :: "deep_settings \<Rightarrow> uuid \<Rightarrow> string \<Rightarrow> string" where
  "job_callback_url g i what = rstrip_slash (ds_backend_url g) @ ''/api/external/llm-dfir/investigations/'' @ uuid_str i @ ''/'' @ what"

definition no_backend_key :: exc where
  "no_backend_key = raised [''RuntimeError''] ''DEEPAGENT_BACKEND_API_KEY chua duoc cau hinh''"

definition status_error :: "nat \<Rightarrow> exc" where
  "status_error sc = raised [''HTTPStatusError'', ''HTTPError''] (count_text sc)"

definition bearer :: "deep_settings \<Rightarrow> string" where
  "bearer g = ''Bearer '' @ ds_backend_key g"

definition status_post :: "deep_settings \<Rightarrow> uuid \<Rightarrow> status_message \<Rightarrow> post" where
  "status_post g i b = \<lparr>po_url = job_callback_url g i ''status'', po_investigation = i, po_authorization = bearer g,
     po_body = Status_body b\<rparr>"

definition submit_status :: "deep_settings \<Rightarrow> 's backend \<Rightarrow> uuid \<Rightarrow> status_message \<Rightarrow> 's \<Rightarrow> (exc + json) \<times> 's" where
  "submit_status g peer i b s =
     (if ds_backend_key g = [] then (Inl no_backend_key, s)
      else case peer (status_post g i b) s of
        (No_answer e, s') \<Rightarrow> (Inl e, s')
      | (Answered sc body, s') \<Rightarrow> (if 200 \<le> sc \<and> sc < 300 then body else Inl (status_error sc), s'))"

text \<open>One attempt, and the attempts that are left after an error.\<close>

definition attempt_of :: "post_reply \<Rightarrow> exc + json" where
  "attempt_of r = (case r of
     No_answer e \<Rightarrow> Inl e
   | Answered sc body \<Rightarrow>
       if \<not> (200 \<le> sc \<and> sc < 300) then Inl (status_error sc)
       else if sc \<noteq> 200 then Inl (raised [''RuntimeError''] (''Backend result callback returned HTTP '' @ count_text sc))
       else body)"

fun try_posts :: "'s backend \<Rightarrow> nat \<Rightarrow> post \<Rightarrow> exc \<Rightarrow> 's \<Rightarrow> (exc + json) \<times> 's" where
  "try_posts peer 0 p e0 s = (Inl e0, s)"
| "try_posts peer (Suc k) p e0 s =
     (let (r, s') = peer p s
      in case attempt_of r of Inr j \<Rightarrow> (Inr j, s') | Inl e \<Rightarrow> try_posts peer k p e s')"

definition result_post :: "deep_settings \<Rightarrow> uuid \<Rightarrow> callback_payload \<Rightarrow> post" where
  "result_post g i pl = \<lparr>po_url = job_callback_url g i ''result'', po_investigation = i, po_authorization = bearer g,
     po_body = Result_body (pl_job_id pl) pl\<rparr>"

definition submit_result :: "deep_settings \<Rightarrow> 's backend \<Rightarrow> uuid \<Rightarrow> callback_payload \<Rightarrow> 's \<Rightarrow> (exc + json) \<times> 's" where
  "submit_result g peer i pl s =
     (if ds_backend_key g = [] then (Inl no_backend_key, s)
      else try_posts peer 3 (result_post g i pl) (raised [''AssertionError''] '''') s)"

subsection \<open>The run of a job\<close>

definition dump_finding :: "case_finding \<Rightarrow> json" where
  "dump_finding f = JObj [(''id'', JStr (fi_id f)), (''title'', JStr (fi_title f)), (''severity'', JStr (fi_severity f)),
     (''confidence'', JStr (fi_confidence f)), (''status'', JStr (fi_status f)), (''evidence_refs'', JArr (map JStr (fi_refs f))),
     (''evidence'', JStr (fi_evidence f)), (''mitre_id'', opt_str (fi_mitre f)), (''recommendation'', JStr (fi_recommendation f))]"

definition dump_ioc :: "case_ioc \<Rightarrow> json" where
  "dump_ioc i = JObj [(''type'', JStr (io_type i)), (''value'', JStr (io_value i)), (''evidence_ref'', JStr (io_ref i))]"

definition result_payload :: "string \<Rightarrow> string \<Rightarrow> assessment \<Rightarrow> string \<Rightarrow> evidence_item list \<Rightarrow> callback_payload" where
  "result_payload model job a report es =
     \<lparr>pl_report = report, pl_severity = as_severity a, pl_findings_count = int (length (as_findings a)),
      pl_findings = map dump_finding (as_findings a), pl_iocs = map dump_ioc (as_iocs a),
      pl_provider = ''deepagent-langgraph'', pl_model = model, pl_job_id = job, pl_error = None,
      pl_raw = JObj [(''workflow'', JStr ''bounded-langgraph-v1''), (''tools'', JArr (map (\<lambda>e. JStr (ei_tool e)) es)),
        (''evidence_status'', JArr (map (\<lambda>e. JObj [(''evidence_id'', JStr (ei_id e)), (''ok'', JBool (ei_ok e))]) es))]\<rparr>"

definition tell_status :: "deep_settings \<Rightarrow> 's backend \<Rightarrow> uuid \<Rightarrow> string \<Rightarrow> string \<Rightarrow> int \<Rightarrow> int \<Rightarrow> int \<Rightarrow> string \<Rightarrow> 's \<Rightarrow> 's" where
  "tell_status g peer i job phase pct step count msg s =
     snd (submit_status g peer i \<lparr>sm_job_id = job, sm_phase = phase, sm_progress = pct, sm_step = Some step,
        sm_total = Some count, sm_message = Some msg\<rparr> s)"

definition recursion_error :: exc where
  "recursion_error = raised [''GraphRecursionError'', ''RecursionError'', ''RuntimeError''] ''''"

definition run_job :: "deep_world \<Rightarrow> 's backend \<Rightarrow> case_request \<Rightarrow> string \<Rightarrow> mcp \<Rightarrow> 's \<Rightarrow> (exc + callback_payload) \<times> 's" where
  "run_job w peer q job m s =
     (let g = dw_settings w; i = rq_investigation_id q;
          count = min (ds_max_steps g) initial_triage_max_steps + 2;
          s1 = tell_status g peer i job ''running'' 0 0 count ''DeepAgent bat dau dieu tra read-only'' s;
          s2 = tell_status g peer i job ''collecting'' 30 1 count ''Dang thu thap du lieu tu endpoint...'' s1
      in case investigate w q m of
           (Out_of_steps, _) \<Rightarrow> (Inl recursion_error, s2)
         | (Stopped e, _) \<Rightarrow> (Inl e, s2)
         | (Finished, st) \<Rightarrow>
             (let s3 = tell_status g peer i job ''finalizing'' 90 count count ''Da thu thap xong, dang tong hop bao cao'' s2
              in case (cs_assessment st, cs_report st) of
                   (Some a, Some report) \<Rightarrow>
                     (let pl = result_payload (an_name (dw_analyst w)) job a report (cs_evidence st)
                      in case submit_result g peer i pl s3 of (Inl e, s4) \<Rightarrow> (Inl e, s4) | (Inr _, s4) \<Rightarrow> (Inr pl, s4))
                 | _ \<Rightarrow> (Inl (raised [''KeyError''] ''assessment''), s3)))"

subsection \<open>The test of the bridge\<close>

record mcp_test_result =
  mt_ok :: bool
  mt_tools :: "string list"
  mt_sampled :: "nat option"
  mt_error :: "string option"

definition failed_test :: "exc \<Rightarrow> mcp_test_result" where
  "failed_test e = \<lparr>mt_ok = False, mt_tools = [], mt_sampled = None, mt_error = Some (safe_error_detail e)\<rparr>"

subsection \<open>The service\<close>

datatype job_status = J_QUEUED | J_RUNNING | J_COMPLETED | J_FAILED

record deep_job =
  jb_id :: string
  jb_investigation_id :: uuid
  jb_status :: job_status
  jb_error :: "string option"
  jb_created_at :: time
  jb_completed_at :: "time option"

text \<open>The jobs, the tasks that wait for the semaphore in their order, and those that hold it.\<close>

record deep_service =
  sv_jobs :: "deep_job list"
  sv_waiting :: "(string \<times> case_request) list"
  sv_running :: "(string \<times> case_request) list"

definition empty_service :: deep_service where
  "empty_service = \<lparr>sv_jobs = [], sv_waiting = [], sv_running = []\<rparr>"

definition ascii :: "string \<Rightarrow> bool" where
  "ascii s \<longleftrightarrow> list_all (\<lambda>c. code c < 128) s"

text \<open>\<open>hmac.compare_digest\<close> refuses texts beyond ASCII with a \<open>TypeError\<close>.\<close>

definition service_auth :: "deep_settings \<Rightarrow> string option \<Rightarrow> http_error + unit" where
  "service_auth g header =
     (let expected = ''Bearer '' @ ds_service_token g in
      if \<not> truthy header then Inl (HTTPException 401 ''Unauthorized'')
      else if \<not> ascii (the header) \<or> \<not> ascii expected then Inl (HTTPException 500 ''Internal Server Error'')
      else if the header \<noteq> expected then Inl (HTTPException 401 ''Unauthorized'')
      else Inr ())"

text \<open>Every failure of the bridge is an answer; only the token is refused.\<close>

definition test_mcp_connection ::
  "deep_settings \<Rightarrow> string option \<Rightarrow> exc + unit \<Rightarrow> bridge \<Rightarrow> http_error + mcp_test_result" where
  "test_mcp_connection g header prepared b =
     (case service_auth g header of
        Inl e \<Rightarrow> Inl e
      | Inr _ \<Rightarrow> Inr (case prepared of
            Inl e \<Rightarrow> failed_test e
          | Inr _ \<Rightarrow> (case fst (test_connection b g fresh_mcp) of
                Inl e \<Rightarrow> failed_test e
              | Inr (tools, n) \<Rightarrow> \<lparr>mt_ok = True, mt_tools = tools, mt_sampled = Some n, mt_error = None\<rparr>)))"

definition deep_job_id :: "uuid \<Rightarrow> string" where
  "deep_job_id i = ''deepagent-'' @ uuid_str i"

definition create_job :: "deep_settings \<Rightarrow> time \<Rightarrow> string option \<Rightarrow> case_request \<Rightarrow> deep_service \<Rightarrow> (http_error + deep_job) \<times> deep_service" where
  "create_job g now header q sv =
     (case service_auth g header of
        Inl e \<Rightarrow> (Inl e, sv)
      | Inr _ \<Rightarrow>
          (case find (\<lambda>j. jb_investigation_id j = rq_investigation_id q) (sv_jobs sv) of
             Some j \<Rightarrow> (Inr j, sv)
           | None \<Rightarrow>
               (let i = deep_job_id (rq_investigation_id q);
                    j = \<lparr>jb_id = i, jb_investigation_id = rq_investigation_id q, jb_status = J_QUEUED, jb_error = None,
                         jb_created_at = now, jb_completed_at = None\<rparr>
                in (Inr j, sv\<lparr>sv_jobs := sv_jobs sv @ [j], sv_waiting := sv_waiting sv @ [(i, q)]\<rparr>))))"

definition get_job :: "deep_settings \<Rightarrow> string option \<Rightarrow> string \<Rightarrow> deep_service \<Rightarrow> http_error + deep_job" where
  "get_job g header i sv =
     (case service_auth g header of
        Inl e \<Rightarrow> Inl e
      | Inr _ \<Rightarrow> (case find (\<lambda>j. jb_id j = i) (sv_jobs sv) of
          None \<Rightarrow> Inl (HTTPException 404 ''Job khong ton tai'') | Some j \<Rightarrow> Inr j))"

definition set_job :: "string \<Rightarrow> (deep_job \<Rightarrow> deep_job) \<Rightarrow> deep_service \<Rightarrow> deep_service" where
  "set_job i f sv = sv\<lparr>sv_jobs := update_where (\<lambda>j. jb_id j = i) f (sv_jobs sv)\<rparr>"

text \<open>The first waiting task takes a free place of the semaphore.\<close>

definition enter_job :: "deep_settings \<Rightarrow> deep_service \<Rightarrow> deep_service" where
  "enter_job g sv =
     (case sv_waiting sv of
        [] \<Rightarrow> sv
      | (i, q) # rest \<Rightarrow>
          if length (sv_running sv) < ds_max_jobs g
          then set_job i (\<lambda>j. j\<lparr>jb_status := J_RUNNING\<rparr>)
                 (sv\<lparr>sv_waiting := rest, sv_running := sv_running sv @ [(i, q)]\<rparr>)
          else sv)"

definition failure_payload :: "deep_settings \<Rightarrow> case_request \<Rightarrow> string \<Rightarrow> string \<Rightarrow> callback_payload" where
  "failure_payload g q job err =
     \<lparr>pl_report = ''# Dieu tra that bai: '' @ rq_hostname q @ [CHR 0x0A, CHR 0x0A] @
        ''DeepAgent khong the hoan tat truy van. Xem truong loi cua investigation de biet chi tiet van hanh.'' @ [CHR 0x0A],
      pl_severity = ''info'', pl_findings_count = 0, pl_findings = [], pl_iocs = [], pl_provider = ''deepagent-langgraph'',
      pl_model = ds_llm_model g, pl_job_id = job, pl_error = Some err,
      pl_raw = JObj [(''workflow'', JStr ''bounded-langgraph-v1''), (''phase'', JStr ''failed'')]\<rparr>"

text \<open>
  What a task does while it holds the semaphore: writing the configuration of the bridge and setting up the clients may
  fail (\<open>prepared\<close>); a failure of the run is reported to the backend, and a failure of that report is passed over.
\<close>

definition execute_job ::
  "exc + unit \<Rightarrow> deep_world \<Rightarrow> 's backend \<Rightarrow> case_request \<Rightarrow> string \<Rightarrow> 's \<Rightarrow> string option \<times> 's" where
  "execute_job prepared w peer q job s =
     (case (case prepared of Inl e \<Rightarrow> (Inl e, s) | Inr _ \<Rightarrow> run_job w peer q job fresh_mcp s) of
        (Inr _, s') \<Rightarrow> (None, s')
      | (Inl e, s') \<Rightarrow>
          (let err = safe_error_detail e; g = dw_settings w
           in (Some err, snd (submit_result g peer (rq_investigation_id q) (failure_payload g q job err) s'))))"

definition finished_job :: "time \<Rightarrow> string option \<Rightarrow> deep_job \<Rightarrow> deep_job" where
  "finished_job now err j = (case err of
     None \<Rightarrow> j\<lparr>jb_status := J_COMPLETED, jb_completed_at := Some now\<rparr>
   | Some e \<Rightarrow> j\<lparr>jb_status := J_FAILED, jb_error := Some e, jb_completed_at := Some now\<rparr>)"

definition leave_job ::
  "time \<Rightarrow> string \<Rightarrow> exc + unit \<Rightarrow> deep_world \<Rightarrow> 's backend \<Rightarrow> deep_service \<times> 's \<Rightarrow> deep_service \<times> 's" where
  "leave_job now i prepared w peer st =
     (case map_of (sv_running (fst st)) i of
        None \<Rightarrow> st
      | Some q \<Rightarrow>
          (let (err, s') = execute_job prepared w peer q i (snd st)
           in (set_job i (finished_job now err) ((fst st)\<lparr>sv_running := filter (\<lambda>t. fst t \<noteq> i) (sv_running (fst st))\<rparr>), s')))"

end
