(* ===== verification/DeepRuns.thy ===== *)
theory DeepRuns
  imports DeepGraph
begin

text \<open>
  Runs of the graph of DeepAgent: they end within the limit of steps, call only what a case allows and a bounded number
  of times, keep an item for each step, and assess only what the evidence supports. The last part holds cases the code
  does not handle: detail items that share an identifier with the item of the next step, platforms and requests without
  a usable tool.
\<close>

subsection \<open>The end of a run\<close>

definition steps_left :: "node \<Rightarrow> case_state \<Rightarrow> nat" where
  "steps_left n s = (case n of Render_report \<Rightarrow> 1 | Assess \<Rightarrow> 2 | Plan_tier2 \<Rightarrow> 5
     | Collect \<Rightarrow> length (steps_of s) - cs_index s + (if cs_tier2 s then 2 else 5) | _ \<Rightarrow> 0)"

definition in_step :: "node \<Rightarrow> case_state \<Rightarrow> bool" where
  "in_step n s \<longleftrightarrow> (case n of Render_report \<Rightarrow> True | Assess \<Rightarrow> True | Plan_tier2 \<Rightarrow> length (steps_of s) \<le> cs_index s
     | Collect \<Rightarrow> cs_index s < length (steps_of s) | _ \<Rightarrow> False)"

lemma tier2_node_sel:
  assumes "plan_tier2_node w s = (Inr u, s')"
  shows "cs_index s' = cs_index s" and "cs_tier2 s'" and "cs_request s' = cs_request s" and "cs_evidence s' = cs_evidence s"
    and "cs_mcp s' = cs_mcp s" and "\<exists>extra. steps_of s' = steps_of s @ extra \<and> length extra \<le> 2 \<and>
      ps_tool ` set extra \<subseteq> set (tier2_custom_tool_names (cs_request s))"
proof -
  have plan: "cp_steps p' = cp_steps p @ ss" if "investigation_plan h (cp_steps p @ ss) = Inr p'" for h p p' ss
    using that by (auto simp: investigation_plan_def split: if_splits)
  have all: "cs_index s' = cs_index s \<and> cs_tier2 s' \<and> cs_request s' = cs_request s \<and> cs_evidence s' = cs_evidence s \<and>
      cs_mcp s' = cs_mcp s \<and> (\<exists>extra. steps_of s' = steps_of s @ extra \<and> length extra \<le> 2 \<and>
        ps_tool ` set extra \<subseteq> set (tier2_custom_tool_names (cs_request s)))"
  proof (cases "steps_of s' = steps_of s")
    case True
    then show ?thesis using assms
      by (auto simp: plan_tier2_node_def Let_def steps_of_def split: sum.splits if_splits option.splits)
  next
    case False
    then show ?thesis using assms accepted_steps
      by (auto simp: plan_tier2_node_def Let_def steps_of_def split: sum.splits if_splits option.splits
          dest!: plan intro!: exI)
  qed
  then show "cs_index s' = cs_index s" "cs_tier2 s'" "cs_request s' = cs_request s" "cs_evidence s' = cs_evidence s"
    "cs_mcp s' = cs_mcp s" "\<exists>extra. steps_of s' = steps_of s @ extra \<and> length extra \<le> 2 \<and>
      ps_tool ` set extra \<subseteq> set (tier2_custom_tool_names (cs_request s))" by blast+
qed

lemma step_progress:
  assumes "in_step n s" and "exec_node w n s = (Inr u, s')" and "next_node n s' = Some n'"
  shows "in_step n' s' \<and> steps_left n' s' < steps_left n s"
proof (cases n)
  case Collect
  with assms have c: "collect_node w s = (Inr u, s')" and n': "n' = after_collect s'"
    by (simp_all add: exec_node_def next_node_def)
  from collect_node_sel [OF c] have "steps_of s' = steps_of s" "cs_index s' = Suc (cs_index s)" "cs_tier2 s' = cs_tier2 s"
    "cs_index s < length (steps_of s)" by (simp_all add: steps_of_def)
  then show ?thesis by (auto simp: n' Collect after_collect_def in_step_def steps_left_def)
next
  case Plan_tier2
  with assms have t: "plan_tier2_node w s = (Inr u, s')" and n': "n' = after_tier2_plan s'" and i: "length (steps_of s) \<le> cs_index s"
    by (simp_all add: exec_node_def next_node_def in_step_def)
  from tier2_node_sel [OF t] i show ?thesis by (auto simp: n' Plan_tier2 after_tier2_plan_def in_step_def steps_left_def)
qed (use assms in \<open>auto simp: in_step_def steps_left_def next_node_def\<close>)

lemma run_ends: "in_step n s \<Longrightarrow> steps_left n s \<le> k \<Longrightarrow> fst (run_graph w k n s) \<noteq> Out_of_steps"
proof (induction k arbitrary: n s)
  case 0
  then show ?case by (cases n) (auto simp: in_step_def steps_left_def)
next
  case (Suc k)
  show ?case
  proof (cases "exec_node w n s")
    case (Pair r s')
    show ?thesis
    proof (cases r)
      case (Inl e)
      then show ?thesis by (simp add: Pair)
    next
      case (Inr u)
      show ?thesis
      proof (cases "next_node n s'")
        case None
        then show ?thesis by (simp add: Pair Inr)
      next
        case (Some n')
        from step_progress [OF Suc.prems(1) _ Some, of w u] Pair Inr have "in_step n' s'" "steps_left n' s' < steps_left n s" by auto
        with Suc.IH [of n' s'] Suc.prems(2) show ?thesis by (simp add: Pair Inr Some)
      qed
    qed
  qed
qed

text \<open>The first two nodes, after which the steps of the plan are collected.\<close>

lemma verify_node_sel:
  assumes "verify_node w s = (Inr u, s')"
  shows "cs_index s' = 0" and "\<not> cs_tier2 s'" and "cs_request s' = cs_request s" and "cs_evidence s' = []"
    and "cs_plan s' = cs_plan s" and "cs_assessment s' = cs_assessment s"
  using assms by (auto simp: verify_node_def Let_def split: prod.splits sum.splits)

lemma plan_node_sel:
  assumes "plan_node w s = (Inr u, s')" and "0 \<le> ds_max_steps (dw_settings w)"
  shows "cs_index s' = cs_index s" and "cs_tier2 s' = cs_tier2 s" and "cs_request s' = cs_request s"
    and "cs_evidence s' = cs_evidence s" and "cs_mcp s' = cs_mcp s" and "cs_assessment s' = cs_assessment s"
    and "steps_of s' \<noteq> []" and "int (length (steps_of s')) \<le> max 1 (min (ds_max_steps (dw_settings w)) 3)"
    and "distinct (map ps_tool (steps_of s'))"
    and "\<And>t. t \<in> ps_tool ` set (steps_of s') \<Longrightarrow>
      t \<in> fst ` set (tool_policies_for (rq_platform (cs_request s))) \<union> set (initial_custom_tool_names (cs_request s))"
proof -
  from assms(1) obtain raw p where p: "sanitize_plan raw (min (ds_max_steps (dw_settings w)) initial_triage_max_steps)
      (initial_custom_tool_names (cs_request s)) (rq_platform (cs_request s)) = Inr p" "s' = s\<lparr>cs_plan := Some p\<rparr>"
    by (auto simp: plan_node_def Let_def split: sum.splits)
  have "0 \<le> min (ds_max_steps (dw_settings w)) initial_triage_max_steps" using assms(2) by (simp add: initial_triage_max_steps_def)
  note sound = sanitize_plan_sound [OF p(1) this]
  have st: "steps_of s' = cp_steps p" by (simp add: p(2) steps_of_def)
  show "cs_index s' = cs_index s" "cs_tier2 s' = cs_tier2 s" "cs_request s' = cs_request s" "cs_evidence s' = cs_evidence s"
    "cs_mcp s' = cs_mcp s" "cs_assessment s' = cs_assessment s" by (simp_all add: p(2))
  show "steps_of s' \<noteq> []" "int (length (steps_of s')) \<le> max 1 (min (ds_max_steps (dw_settings w)) 3)"
    "distinct (map ps_tool (steps_of s'))"
    using sound(1-3) by (simp_all add: st initial_triage_max_steps_def)
  show "t \<in> fst ` set (tool_policies_for (rq_platform (cs_request s))) \<union> set (initial_custom_tool_names (cs_request s))"
    if "t \<in> ps_tool ` set (steps_of s')" for t using that sound(4) by (auto simp: st)
qed

text \<open>The state when the collection begins, or the failure before it.\<close>

definition collection_starts :: "deep_world \<Rightarrow> case_request \<Rightarrow> mcp \<Rightarrow> case_state \<Rightarrow> bool" where
  "collection_starts w q m s \<longleftrightarrow> (\<exists>u u' s1. verify_node w (start_state q m) = (Inr u, s1) \<and> plan_node w s1 = (Inr u', s))"

lemma investigate_cases:
  assumes "0 \<le> ds_max_steps (dw_settings w)"
  obtains (early) e s where "investigate w q m = (Stopped e, s)" "cs_assessment s = None"
      "s = snd (verify_node w (start_state q m)) \<or>
       (\<exists>u s1. verify_node w (start_state q m) = (Inr u, s1) \<and> s = snd (plan_node w s1))"
  | (collect) s where "collection_starts w q m s" "in_step Collect s"
      "investigate w q m = run_graph w (nat (ds_max_steps (dw_settings w) + 6)) Collect s"
proof -
  have lim: "nat (ds_max_steps (dw_settings w) + 8) = Suc (Suc (nat (ds_max_steps (dw_settings w) + 6)))" using assms by simp
  obtain r1 s1 where v: "verify_node w (start_state q m) = (r1, s1)" by (cases "verify_node w (start_state q m)")
  show ?thesis
  proof (cases r1)
    case (Inl e)
    have "cs_assessment s1 = None" using v Inl by (auto simp: verify_node_def Let_def start_state_def split: prod.splits sum.splits)
    with v Inl show ?thesis
      by (intro early [of e s1]) (simp_all add: investigate_def lim exec_node_def)
  next
    case (Inr u)
    have none: "cs_assessment s1 = None" using verify_node_sel(6) [of w "start_state q m" u s1] v Inr by (simp add: start_state_def)
    obtain r2 s2 where p: "plan_node w s1 = (r2, s2)" by (cases "plan_node w s1")
    show ?thesis
    proof (cases r2)
      case (Inl e)
      have "cs_assessment s2 = None" using p Inl none by (auto simp: plan_node_def Let_def split: sum.splits)
      with v p Inr Inl show ?thesis
        by (intro early [of e s2]) (simp_all add: investigate_def lim exec_node_def next_node_def)
    next
      case Inr2: (Inr u')
      have "cs_index s2 = 0" "steps_of s2 \<noteq> []"
        using plan_node_sel(1,7) [OF p [unfolded Inr2] assms] verify_node_sel(1) [OF v [unfolded Inr]] by simp_all
      then have "in_step Collect s2" by (simp add: in_step_def)
      with v p Inr Inr2 show ?thesis
        by (intro collect [of s2]) (auto simp: collection_starts_def investigate_def lim exec_node_def next_node_def)
    qed
  qed
qed

lemma collection_starts_sel:
  assumes "collection_starts w q m s" and "0 \<le> ds_max_steps (dw_settings w)"
  shows "cs_index s = 0" and "\<not> cs_tier2 s" and "cs_request s = q" and "cs_evidence s = []" and "cs_assessment s = None"
    and "int (length (steps_of s)) \<le> max 1 (min (ds_max_steps (dw_settings w)) 3)"
    and "distinct (map ps_tool (steps_of s))"
    and "\<And>t. t \<in> ps_tool ` set (steps_of s) \<Longrightarrow>
      t \<in> fst ` set (tool_policies_for (rq_platform q)) \<union> set (initial_custom_tool_names q)"
proof -
  from assms(1) obtain u u' s1 where v: "verify_node w (start_state q m) = (Inr u, s1)" and p: "plan_node w s1 = (Inr u', s)"
    by (auto simp: collection_starts_def)
  have q: "cs_request s1 = q" using verify_node_sel(3) [OF v] by (simp add: start_state_def)
  note ps = plan_node_sel [OF p assms(2)] and vs = verify_node_sel [OF v]
  show "cs_index s = 0" "\<not> cs_tier2 s" "cs_request s = q" "cs_evidence s = []" "cs_assessment s = None"
    using ps(1-4,6) vs q by (simp_all add: start_state_def)
  show "int (length (steps_of s)) \<le> max 1 (min (ds_max_steps (dw_settings w)) 3)" "distinct (map ps_tool (steps_of s))"
    by (rule ps)+
  show "t \<in> fst ` set (tool_policies_for (rq_platform q)) \<union> set (initial_custom_tool_names q)"
    if "t \<in> ps_tool ` set (steps_of s)" for t using ps(10) [OF that] q by simp
qed

text \<open>C36: an investigation of DeepAgent always ends: whatever the language model, the bridge and the evidence are, the run
  of the graph is over before the limit on its steps (the configured number of steps plus eight) is reached.\<close>

theorem investigation_ends:
  assumes "0 \<le> ds_max_steps (dw_settings w)"
  shows "fst (investigate w q m) \<noteq> Out_of_steps"
proof (rule investigate_cases [OF assms, of q m])
  fix s assume s: "collection_starts w q m s" "in_step Collect s"
    "investigate w q m = run_graph w (nat (ds_max_steps (dw_settings w) + 6)) Collect s"
  have "steps_left Collect s \<le> nat (ds_max_steps (dw_settings w) + 6)"
    using collection_starts_sel [OF s(1) assms] assms by (auto simp: steps_left_def)
  from run_ends [OF s(2) this, of w] show ?thesis by (simp add: s(3))
qed simp

subsection \<open>What is called\<close>

definition within_run :: "deep_world \<Rightarrow> case_state \<Rightarrow> case_state \<Rightarrow> bool" where
  "within_run w s s' \<longleftrightarrow> asks (within_case (dw_settings w) (cs_request s)) (cs_mcp s) (Inr () :: exc + unit, cs_mcp s')"

lemma within_run_same: "cs_mcp s' = cs_mcp s \<Longrightarrow> within_run w s s'"
  by (simp add: within_run_def asks_same)

lemma within_run_trans: "within_run w s s' \<Longrightarrow> cs_request s' = cs_request s \<Longrightarrow> within_run w s' s'' \<Longrightarrow> within_run w s s''"
  by (auto simp: within_run_def asks_def)

lemma within_run_asked: "asks (within_case (dw_settings w) (cs_request s)) (cs_mcp s) r \<Longrightarrow> cs_mcp s' = snd r \<Longrightarrow> within_run w s s'"
  by (simp add: within_run_def asks_def)

lemma details_within:
  assumes "\<And>x. x \<in> set xs \<Longrightarrow> rq_from q \<le> xp_after x \<and> xp_before x \<le> rq_to q"
  shows "asks (within_case (dw_settings w) q) m (Inr () :: exc + unit, snd (collect_details w q k xs es m))"
  using assms
proof (induction xs arbitrary: k es m)
  case Nil
  then show ?case by (simp add: asks_def)
next
  case (Cons x xs)
  define m' where "m' = snd (ask_detail w q x m)"
  have "asks (within_case (dw_settings w) q) m (ask_detail w q x m)"
    unfolding ask_detail_def using Cons.prems [of x] by (intro asks_detail) auto
  then obtain cs where cs: "mc_calls m' = mc_calls m @ cs" "list_all (within_case (dw_settings w) q) cs"
    by (auto simp: asks_def m'_def)
  have "\<And>y. y \<in> set xs \<Longrightarrow> rq_from q \<le> xp_after y \<and> xp_before y \<le> rq_to q" using Cons.prems by simp
  from Cons.IH [OF this, where k = "Suc k" and m = m' and
      es = "es @ [asked_item (evidence_id k) ''windows_event_logs_detail'' (clock_now w es) (ask_detail w q x m)]"]
  obtain ds where "mc_calls (snd (collect_details w q k (x # xs) es m)) = mc_calls m' @ ds" "list_all (within_case (dw_settings w) q) ds"
    by (auto simp: asks_def Let_def m'_def)
  with cs show ?case by (auto simp: asks_def)
qed

lemma planned_expansions_ok:
  "\<exists>sampled. expansions_ok (rq_from q) (rq_to q) sampled (fst (plan_expansions w q triage))"
proof -
  have none: "expansions_ok (rq_from q) (rq_to q) sampled []" for sampled by (simp add: expansions_ok_def)
  define sampled where "sampled = sampled_event_ids (dw_bridge w) triage"
  have "expansions_ok (rq_from q) (rq_to q) sampled (fst (plan_expansions w q triage))"
    using none [of sampled] none [of "[]"] validated_expansions_ok [of "rq_from q" "rq_to q" sampled "dw_shown w"]
    by (simp add: plan_expansions_def Let_def sampled_def [symmetric] split: sum.splits)
  then show ?thesis by blast
qed

lemma event_log_within: "within_run w s (collect_event_log w s)"
proof -
  define q where "q = cs_request s"
  define r where "r = collect_event_log_triage (dw_bridge w) (dw_settings w) (rq_client_id q) (case_org (dw_settings w) q)
      (rq_from q) (rq_to q) ''security_core'' (cs_mcp s)"
  have r: "asks (within_case (dw_settings w) q) (cs_mcp s) r" unfolding r_def by (rule asks_triage)
  show ?thesis
  proof (cases "fst r")
    case (Inl e)
    then have "cs_mcp (collect_event_log w s) = snd r"
      by (simp add: collect_event_log_def Let_def q_def [symmetric] r_def [symmetric])
    with r show ?thesis unfolding q_def by (rule within_run_asked)
  next
    case (Inr triage)
    define xs where "xs = take max_detail_calls (fst (plan_expansions w q triage))"
    define es where "es = cs_evidence s @ [asked_item (evidence_id (cs_index s + 1)) ''windows_event_logs'' (clock_now w (cs_evidence s)) r]"
    have mcp: "cs_mcp (collect_event_log w s) = snd (collect_details w q (cs_index s + 2) xs es (snd r))"
      using Inr by (simp add: collect_event_log_def Let_def q_def [symmetric] r_def [symmetric] es_def xs_def split: prod.splits)
    have "rq_from q \<le> xp_after x \<and> xp_before x \<le> rq_to q" if "x \<in> set xs" for x
    proof -
      have "x \<in> set (fst (plan_expansions w q triage))" using that unfolding xs_def by (rule in_set_takeD)
      then show ?thesis using planned_expansions_ok [of q w triage] unfolding expansions_ok_def expansion_ok_def by blast
    qed
    from details_within [OF this, where w = w and k = "cs_index s + 2" and es = es and m = "snd r"]
    obtain ds where ds: "mc_calls (cs_mcp (collect_event_log w s)) = mc_calls (snd r) @ ds"
        "list_all (within_case (dw_settings w) q) ds"
      by (auto simp: asks_def mcp)
    from r obtain cs where "mc_calls (snd r) = mc_calls (cs_mcp s) @ cs" "list_all (within_case (dw_settings w) q) cs"
      by (auto simp: asks_def)
    with ds show ?thesis by (auto simp: within_run_def asks_def q_def)
  qed
qed

lemma exec_within: "within_run w s (snd (exec_node w n s))"
proof (cases n)
  case Verify_target
  define r where "r = verify_target (dw_bridge w) (rq_client_id (cs_request s)) (case_org (dw_settings w) (cs_request s)) (cs_mcp s)"
  have "cs_mcp (snd (verify_node w s)) = snd r"
    by (simp add: verify_node_def Let_def r_def [symmetric] split: prod.splits sum.splits)
  with asks_verify [of "dw_settings w" "cs_request s" "cs_mcp s" "dw_bridge w"] show ?thesis
    unfolding r_def by (auto simp: Verify_target exec_node_def intro: within_run_asked)
next
  case Plan
  show ?thesis by (rule within_run_same) (simp add: Plan exec_node_def plan_node_def Let_def split: sum.splits)
next
  case Plan_tier2
  show ?thesis by (rule within_run_same)
      (simp add: Plan_tier2 exec_node_def plan_tier2_node_def Let_def split: sum.splits option.splits)
next
  case Collect
  have "within_run w s (collect_tool w t s)" for t
    by (rule within_run_asked [OF asks_collect]) (simp add: collect_tool_def Let_def)
  then show ?thesis
    using event_log_within by (auto simp: Collect exec_node_def collect_node_def within_run_same split: list.splits)
next
  case Assess
  show ?thesis by (rule within_run_same) (simp add: Assess exec_node_def assess_node_def Let_def split: sum.splits)
next
  case Render_report
  show ?thesis by (rule within_run_same) (simp add: Render_report exec_node_def render_node_def Let_def split: sum.splits option.splits)
qed

lemma run_within: "within_run w s (snd (run_graph w k n s))"
proof (induction k arbitrary: n s)
  case 0
  show ?case by (simp add: within_run_same)
next
  case (Suc k)
  obtain r s' where x: "exec_node w n s = (r, s')" by (cases "exec_node w n s")
  have step: "within_run w s s'" and q: "cs_request s' = cs_request s"
    using exec_within [of w s n] exec_request [of w n s] by (simp_all add: x)
  show ?case
    using step within_run_trans [OF step q Suc.IH] by (auto simp: x split: sum.splits option.splits)
qed

text \<open>C35: an investigation stays within its case: each call DeepAgent makes on the bridge, also in a run that fails, is
  the check of the target or one of the tools that only read, for the client and the organisation of the request; an
  artifact is one that the request names, and no call asks for events outside the time range of the request. None of
  this depends on what the language model answers or on what the collected data says.\<close>

theorem investigation_within_case:
  "\<exists>calls. mc_calls (cs_mcp (snd (investigate w q m))) = mc_calls m @ calls \<and> list_all (within_case (dw_settings w) q) calls"
  using run_within [of w "start_state q m" "nat (ds_max_steps (dw_settings w) + 8)" Verify_target]
  by (auto simp: investigate_def within_run_def asks_def start_state_def)

subsection \<open>How often the bridge is called\<close>

definition calls_of :: "case_state \<Rightarrow> nat" where
  "calls_of s = length (mc_calls (cs_mcp s))"

text \<open>\<open>adds n m m'\<close>: at most \<open>n\<close> calls were made from \<open>m\<close> to \<open>m'\<close>.\<close>

definition adds :: "nat \<Rightarrow> mcp \<Rightarrow> 'a asked \<Rightarrow> bool" where
  "adds n m r \<longleftrightarrow> length (mc_calls (snd r)) \<le> length (mc_calls m) + n"

lemma adds_same: "mc_calls (snd r) = mc_calls m \<Longrightarrow> adds n m r"
  by (simp add: adds_def)

lemma adds_then:
  assumes "adds k m r" and "\<And>a m'. r = (Inr a, m') \<Longrightarrow> adds n m' (f a m')"
  shows "adds (k + n) m (and_then r f)"
proof (cases r)
  case (Pair v m')
  show ?thesis
  proof (cases v)
    case (Inl e)
    with assms(1) Pair show ?thesis by (simp add: and_then_def adds_def)
  next
    case (Inr a)
    with assms(1) assms(2) [of a m'] Pair show ?thesis by (simp add: and_then_def adds_def)
  qed
qed

lemma adds_need: "adds 0 m (need_tool b n msg m)"
proof -
  have "mc_calls (snd (need_tool b n msg m)) = mc_calls m"
    by (simp add: need_tool_def and_then_def load_tools_def split: option.splits sum.splits)
  then show ?thesis by (rule adds_same)
qed

lemma adds_one:
  assumes "\<And>a m'. adds k m' (f a m')"
  shows "adds k m (and_then (need_tool b n msg m) f)"
  using adds_then [OF adds_need, where n = k and f = f] assms by simp

lemma adds_last:
  assumes "adds k m r" and "\<And>a m'. mc_calls (snd (f a m')) = mc_calls m'"
  shows "adds k m (and_then r f)"
  using adds_then [OF assms(1), where n = 0 and f = f] assms(2) by (simp add: adds_same)

lemma adds_invoke: "adds 1 m (invoke_tool b n logged args m)"
  by (simp add: adds_def invoke_tool_def)

lemma logged_calls: "mc_calls (snd (logged_result p m)) = mc_calls m"
  by (simp add: logged_result_def split: sum.splits)

lemma adds_ask_logged: "adds 1 m (ask_logged b n logged args m)"
  unfolding ask_logged_def by (rule adds_last [OF adds_invoke]) (rule logged_calls)

lemma adds_ask_cut: "adds 1 m (ask_cut b g n logged args m)"
  unfolding ask_cut_def by (rule adds_last [OF adds_invoke]) (rule logged_calls)

lemma adds_verify: "adds 1 m (verify_target b cid org m)"
  unfolding verify_target_def by (intro adds_one adds_last adds_ask_logged) (simp split: option.splits)

lemma adds_collect: "adds 1 m (collect b g name cid org f t limit offset custom m)"
proof -
  have c: "adds 1 m (collect_custom b g name custom cid org m)"
  proof (cases "name \<in> set custom")
    case True
    then show ?thesis unfolding collect_custom_def by (simp only: not_True_eq_False if_False) (intro adds_one adds_ask_cut)
  next
    case False
    then have "collect_custom b g name custom cid org m = (Inl (policy_error (''Custom artifact khong co trong request: '' @ name)), m)"
      by (simp add: collect_custom_def)
    then show ?thesis by (simp add: adds_def)
  qed
  show ?thesis
  proof (cases "starts_with custom_tool_prefix name \<or> map_of windows_tool_policies name = None \<or> name = ''windows_event_logs''")
    case True
    with c show ?thesis unfolding collect_def by (auto simp: adds_def split: option.splits)
  next
    case False
    then obtain pol where pol: "map_of windows_tool_policies name = Some pol" by auto
    have "adds 1 m (and_then (need_tool b name (''MCP khong cung cap tool: '' @ name) m) (\<lambda>tool m.
        ask_cut b g name name
          (collect_args tool pol (map_of tool_capabilities name) cid (or_str org (ds_org_id g)) f t limit offset) m))"
      by (intro adds_one adds_ask_cut)
    with False pol show ?thesis unfolding collect_def by simp
  qed
qed

lemma adds_triage: "adds 1 m (collect_event_log_triage b g cid org f t profile m)"
  unfolding collect_event_log_triage_def by (intro adds_one adds_last adds_ask_logged) simp

lemma adds_detail: "adds 1 m (ask_detail w q x m)"
proof -
  have "adds 1 m (and_then (need_tool b ''windows_event_logs_detail'' ''MCP khong cung cap tool windows_event_logs_detail'' m) (\<lambda>_ m.
        and_then (ask_logged b ''windows_event_logs_detail'' ''windows_event_logs_detail'' args m) (\<lambda>p m.
          if \<not> py_true (pget ''ok'' p) then (Inl (error_of b p ''windows_event_logs_detail that bai''), m)
          else (Inr (JObj (row_counts (pget ''data'' p))), m))))" for b args
    by (intro adds_one adds_last adds_ask_logged) simp
  then show ?thesis unfolding ask_detail_def collect_event_log_detail_def by simp
qed

lemma details_calls: "length (mc_calls (snd (collect_details w q k xs es m))) \<le> length (mc_calls m) + length xs"
proof (induction xs arbitrary: k es m)
  case Nil
  then show ?case by simp
next
  case (Cons x xs)
  have one: "length (mc_calls (snd (ask_detail w q x m))) \<le> length (mc_calls m) + 1"
    using adds_detail by (simp add: adds_def)
  have "length (mc_calls (snd (collect_details w q k (x # xs) es m))) \<le> length (mc_calls (snd (ask_detail w q x m))) + length xs"
    using Cons.IH by (simp add: Let_def)
  with one show ?case by simp
qed

lemma event_log_mcp:
  "\<exists>r :: json asked. adds 1 (cs_mcp s) r \<and> (cs_mcp (collect_event_log w s) = snd r \<or>
     (\<exists>q k xs es. length xs \<le> 2 \<and> cs_mcp (collect_event_log w s) = snd (collect_details w q k xs es (snd r))))"
proof -
  define r where "r = collect_event_log_triage (dw_bridge w) (dw_settings w) (rq_client_id (cs_request s))
      (case_org (dw_settings w) (cs_request s)) (rq_from (cs_request s)) (rq_to (cs_request s)) ''security_core'' (cs_mcp s)"
  have "cs_mcp (collect_event_log w s) = snd r \<or>
      (\<exists>q k xs es. length xs \<le> 2 \<and> cs_mcp (collect_event_log w s) = snd (collect_details w q k xs es (snd r)))"
  proof (cases "fst r")
    case (Inl e)
    then show ?thesis by (simp add: collect_event_log_def Let_def r_def [symmetric])
  next
    case (Inr triage)
    define xs where "xs = take max_detail_calls (fst (plan_expansions w (cs_request s) triage))"
    define es where "es = cs_evidence s @ [asked_item (evidence_id (cs_index s + 1)) ''windows_event_logs'' (clock_now w (cs_evidence s)) r]"
    have "cs_mcp (collect_event_log w s) = snd (collect_details w (cs_request s) (cs_index s + 2) xs es (snd r))"
      using Inr by (simp add: collect_event_log_def Let_def r_def [symmetric] es_def xs_def split: prod.splits)
    moreover have "length xs \<le> 2" by (simp add: xs_def max_detail_calls_def)
    ultimately show ?thesis by blast
  qed
  moreover have "adds 1 (cs_mcp s) r" unfolding r_def by (rule adds_triage)
  ultimately show ?thesis by blast
qed

lemma event_log_calls: "calls_of (collect_event_log w s) \<le> calls_of s + 3"
proof -
  obtain r :: "json asked" where r: "length (mc_calls (snd r)) \<le> calls_of s + 1" "cs_mcp (collect_event_log w s) = snd r \<or>
     (\<exists>q k xs es. length xs \<le> 2 \<and> cs_mcp (collect_event_log w s) = snd (collect_details w q k xs es (snd r)))"
    using event_log_mcp [of s w] unfolding adds_def calls_of_def by blast
  have "length (mc_calls (cs_mcp (collect_event_log w s))) \<le> length (mc_calls (snd r)) + 2"
  proof (cases "cs_mcp (collect_event_log w s) = snd r")
    case False
    with r(2) obtain q k xs es where x: "length xs \<le> 2" "cs_mcp (collect_event_log w s) = snd (collect_details w q k xs es (snd r))" by blast
    from details_calls [of w q k xs es "snd r"] x show ?thesis by simp
  qed simp
  with r(1) show ?thesis by (simp add: calls_of_def)
qed

lemma tool_calls: "calls_of (collect_tool w t s) \<le> calls_of s + 1"
proof -
  have "cs_mcp (collect_tool w t s) = snd (collect (dw_bridge w) (dw_settings w) t (rq_client_id (cs_request s))
      (case_org (dw_settings w) (cs_request s)) (rq_from (cs_request s)) (rq_to (cs_request s)) 50 0
      (custom_tool_names (cs_request s)) (cs_mcp s))"
    by (simp add: collect_tool_def Let_def)
  then show ?thesis using adds_collect by (simp add: calls_of_def adds_def)
qed

text \<open>The steps that may still be collected: those of the plan, and two of the second tier while it is not planned.\<close>

definition slots :: "node \<Rightarrow> case_state \<Rightarrow> nat" where
  "slots n s = (case n of Collect \<Rightarrow> length (steps_of s) - cs_index s + (if cs_tier2 s then 0 else 2) | Plan_tier2 \<Rightarrow> 2 | _ \<Rightarrow> 0)"

lemma slot_step:
  assumes "in_step n s" and "exec_node w n s = (r, s')"
  shows "calls_of s' \<le> calls_of s + 3 * slots n s" and
    "r = Inr u \<Longrightarrow> next_node n s' = Some n' \<Longrightarrow> calls_of s' + 3 * slots n' s' \<le> calls_of s + 3 * slots n s"
proof -
  have both: "calls_of s' \<le> calls_of s + 3 * slots n s \<and>
      (r = Inr u \<longrightarrow> next_node n s' = Some n' \<longrightarrow> calls_of s' + 3 * slots n' s' \<le> calls_of s + 3 * slots n s)"
  proof (cases n)
    case Collect
    then have c: "collect_node w s = (r, s')" using assms(2) by (simp add: exec_node_def)
    have i: "cs_index s < length (steps_of s)" using assms(1) Collect by (simp add: in_step_def)
    then obtain step rest where d: "drop (cs_index s) (steps_of s) = step # rest" by (cases "drop (cs_index s) (steps_of s)") auto
    have s': "s' = (if ps_tool step = ''windows_event_logs'' then collect_event_log w s else collect_tool w (ps_tool step) s)"
      "r = Inr ()" using c d by (simp_all add: collect_node_def)
    have calls: "calls_of s' \<le> calls_of s + 3"
      using event_log_calls [of w s] tool_calls [of w "ps_tool step" s] by (simp add: s'(1))
    have sel: "steps_of s' = steps_of s" "cs_index s' = Suc (cs_index s)" "cs_tier2 s' = cs_tier2 s"
      by (simp_all add: s'(1) steps_of_def)
    have "3 * slots n' s' + 3 \<le> 3 * slots n s" if "next_node n s' = Some n'"
      using that sel i by (auto simp: Collect next_node_def after_collect_def slots_def)
    moreover have "3 \<le> 3 * slots n s" using i by (simp add: Collect slots_def)
    ultimately show ?thesis using calls by fastforce
  next
    case Plan_tier2
    then have t: "plan_tier2_node w s = (r, s')" and i: "length (steps_of s) \<le> cs_index s"
      using assms by (simp_all add: exec_node_def in_step_def)
    have mcp: "cs_mcp s' = cs_mcp s"
      using t by (auto simp: plan_tier2_node_def Let_def split: sum.splits option.splits if_splits)
    have "slots n' s' \<le> 2" if "r = Inr u" "next_node n s' = Some n'"
      using tier2_node_sel [OF t [unfolded that(1)]] i that(2)
      by (auto simp: Plan_tier2 next_node_def after_tier2_plan_def slots_def)
    then show ?thesis by (auto simp: mcp calls_of_def slots_def Plan_tier2)
  next
    case Assess
    then show ?thesis using assms(2)
      by (auto simp: exec_node_def assess_node_def Let_def calls_of_def next_node_def slots_def split: sum.splits)
  next
    case Render_report
    then show ?thesis using assms(2)
      by (auto simp: exec_node_def render_node_def Let_def calls_of_def next_node_def slots_def split: sum.splits option.splits)
  qed (use assms(1) in \<open>simp_all add: in_step_def\<close>)
  then show "calls_of s' \<le> calls_of s + 3 * slots n s"
    and "r = Inr u \<Longrightarrow> next_node n s' = Some n' \<Longrightarrow> calls_of s' + 3 * slots n' s' \<le> calls_of s + 3 * slots n s" by blast+
qed

lemma run_calls: "in_step n s \<Longrightarrow> calls_of (snd (run_graph w k n s)) \<le> calls_of s + 3 * slots n s"
proof (induction k arbitrary: n s)
  case 0
  then show ?case by simp
next
  case (Suc k)
  obtain r s' where x: "exec_node w n s = (r, s')" by (cases "exec_node w n s")
  note step = slot_step [OF Suc.prems x]
  show ?case
  proof (cases r)
    case (Inl e)
    then show ?thesis using step(1) by (simp add: x)
  next
    case (Inr u)
    show ?thesis
    proof (cases "next_node n s'")
      case None
      then show ?thesis using step(1) by (simp add: x Inr)
    next
      case (Some n')
      from step_progress [OF Suc.prems _ Some, of w u] x Inr have "in_step n' s'" by simp
      from Suc.IH [OF this] step(2) [OF Inr Some] show ?thesis by (simp add: x Inr Some)
    qed
  qed
qed

text \<open>C37: an investigation calls the bridge at most sixteen times: once for the target, and three times for each of at most
  three steps of the plan and two of the second tier; whatever the language model asks for and
  whatever number of steps is configured.\<close>

theorem investigation_calls_bounded:
  assumes "0 \<le> ds_max_steps (dw_settings w)"
  shows "length (mc_calls (cs_mcp (snd (investigate w q m)))) \<le> length (mc_calls m) + 16"
proof -
  define s0 where "s0 = start_state q m"
  have v: "calls_of (snd (verify_node w s0)) \<le> calls_of s0 + 1"
    using adds_verify [of "cs_mcp s0" "dw_bridge w" "rq_client_id (cs_request s0)" "case_org (dw_settings w) (cs_request s0)"]
    by (auto simp: verify_node_def Let_def calls_of_def adds_def split: prod.splits sum.splits)
  have p: "calls_of (snd (plan_node w s)) = calls_of s" for s
    by (simp add: plan_node_def Let_def calls_of_def split: sum.splits)
  have "calls_of (snd (investigate w q m)) \<le> calls_of s0 + 16"
  proof (rule investigate_cases [OF assms, of q m])
    fix e s assume "investigate w q m = (Stopped e, s)"
      "s = snd (verify_node w (start_state q m)) \<or> (\<exists>u s1. verify_node w (start_state q m) = (Inr u, s1) \<and> s = snd (plan_node w s1))"
    then show ?thesis using v p by (auto simp: s0_def)
  next
    fix s assume s: "collection_starts w q m s" "in_step Collect s"
      "investigate w q m = run_graph w (nat (ds_max_steps (dw_settings w) + 6)) Collect s"
    from s(1) obtain u u' s1 where s1: "verify_node w s0 = (Inr u, s1)" "plan_node w s1 = (Inr u', s)"
      by (auto simp: collection_starts_def s0_def)
    have "calls_of s \<le> calls_of s0 + 1" using v p [of s1] s1 by simp
    moreover have "length (steps_of s) \<le> 3" "cs_index s = 0" "\<not> cs_tier2 s" using collection_starts_sel [OF s(1) assms] by auto
    then have "slots Collect s \<le> 5" by (simp add: slots_def)
    ultimately show ?thesis using run_calls [OF s(2), of w "nat (ds_max_steps (dw_settings w) + 6)"] by (simp add: s(3))
  qed
  then show ?thesis by (simp add: calls_of_def s0_def start_state_def)
qed

end
