(* ===== verification/DeepJobs.thy ===== *)
theory DeepJobs
  imports DeepService DeepRuns
begin

text \<open>
  The jobs of the DeepAgent service: what its tables keep through every sequence of requests, starts and ends of jobs,
  and the life of a job as a refinement of a small machine per investigation.
\<close>

subsection \<open>Events\<close>

datatype service_event = Ask time "string option" case_request | Enter | Leave time string "string option"

text \<open>
  A job that leaves is described by its outcome, which \<open>leave_job\<close> takes from \<open>execute_job\<close>.
\<close>

definition leave_with :: "time \<Rightarrow> string \<Rightarrow> string option \<Rightarrow> deep_service \<Rightarrow> deep_service" where
  "leave_with now i err sv =
     (if i \<in> fst ` set (sv_running sv)
      then set_job i (finished_job now err) (sv\<lparr>sv_running := filter (\<lambda>t. fst t \<noteq> i) (sv_running sv)\<rparr>) else sv)"

lemma leave_job_outcome:
  "\<exists>err. fst (leave_job now i prepared w peer st) = leave_with now i err (fst st)"
proof (cases "map_of (sv_running (fst st)) i")
  case None
  then have "i \<notin> fst ` set (sv_running (fst st))" by (simp add: map_of_eq_None_iff)
  with None show ?thesis by (simp add: leave_job_def leave_with_def)
next
  case (Some q)
  then have "i \<in> fst ` set (sv_running (fst st))" by (metis map_of_eq_None_iff option.distinct(1))
  with Some show ?thesis by (auto simp: leave_job_def leave_with_def split: prod.splits)
qed

definition service_step :: "deep_settings \<Rightarrow> service_event \<Rightarrow> deep_service \<Rightarrow> deep_service" where
  "service_step g e sv = (case e of
     Ask now header q \<Rightarrow> snd (create_job g now header q sv)
   | Enter \<Rightarrow> enter_job g sv
   | Leave now i err \<Rightarrow> leave_with now i err sv)"

definition uuid_event :: "service_event \<Rightarrow> bool" where
  "uuid_event e \<longleftrightarrow> (case e of Ask _ _ q \<Rightarrow> rq_investigation_id q < 16 ^ 32 | _ \<Rightarrow> True)"

subsection \<open>Well-formed tables\<close>

definition ids_with :: "job_status \<Rightarrow> deep_job list \<Rightarrow> string set" where
  "ids_with st js = jb_id ` {j \<in> set js. jb_status j = st}"

definition names_ok :: "deep_job list \<Rightarrow> bool" where
  "names_ok js \<longleftrightarrow> list_all (\<lambda>(a, i). a = deep_job_id i \<and> i < 16 ^ 32) (map (\<lambda>j. (jb_id j, jb_investigation_id j)) js)"

definition service_ok :: "deep_settings \<Rightarrow> deep_service \<Rightarrow> bool" where
  "service_ok g sv \<longleftrightarrow> distinct (map jb_investigation_id (sv_jobs sv)) \<and>
     names_ok (sv_jobs sv) \<and> distinct (map fst (sv_waiting sv @ sv_running sv)) \<and> length (sv_running sv) \<le> ds_max_jobs g \<and>
     fst ` set (sv_waiting sv) = ids_with J_QUEUED (sv_jobs sv) \<and> fst ` set (sv_running sv) = ids_with J_RUNNING (sv_jobs sv)"

lemma deep_job_id_inj: "i < 16 ^ 32 \<Longrightarrow> j < 16 ^ 32 \<Longrightarrow> deep_job_id i = deep_job_id j \<Longrightarrow> i = j"
  by (metis deep_job_id_def option.inject parse_uuid_str same_append_eq)

lemma ids_with_update:
  assumes "\<And>j. jb_id (f j) = jb_id j" and "\<And>j. jb_status (f j) = st"
  shows "ids_with st' (update_where (\<lambda>j. jb_id j = i) f js) =
    (if st' = st then ids_with st js \<union> (if i \<in> jb_id ` set js then {i} else {}) else ids_with st' js - {i})"
proof -
  have "ids_with st' (update_where (\<lambda>j. jb_id j = i) f js) =
      jb_id ` (\<lambda>j. if jb_id j = i then f j else j) ` {j \<in> set js. jb_status (if jb_id j = i then f j else j) = st'}"
    unfolding ids_with_def set_update_where by blast
  also have "\<dots> = jb_id ` {j \<in> set js. (if jb_id j = i then st else jb_status j) = st'}"
    unfolding image_image by (intro image_cong) (auto simp: assms)
  also have "\<dots> = (if st' = st then ids_with st js \<union> (if i \<in> jb_id ` set js then {i} else {}) else ids_with st' js - {i})"
    unfolding ids_with_def by (auto split: if_splits)
  finally show ?thesis .
qed

lemma ids_with_ids: "ids_with st js \<subseteq> jb_id ` set js"
  by (auto simp: ids_with_def)

lemma ids_with_append: "ids_with st (js @ [j]) = ids_with st js \<union> (if jb_status j = st then {jb_id j} else {})"
  by (auto simp: ids_with_def)

lemma names_okD: "names_ok js \<Longrightarrow> j \<in> set js \<Longrightarrow> jb_id j = deep_job_id (jb_investigation_id j) \<and> jb_investigation_id j < 16 ^ 32"
  by (auto simp: names_ok_def list_all_iff)

lemma update_same:
  assumes "\<And>j. jb_investigation_id (f j) = jb_investigation_id j" and "\<And>j. jb_id (f j) = jb_id j"
  shows "map jb_investigation_id (update_where P f js) = map jb_investigation_id js"
    and "names_ok (update_where P f js) = names_ok js"
proof -
  have "map (\<lambda>j. (jb_id j, jb_investigation_id j)) (update_where P f js) = map (\<lambda>j. (jb_id j, jb_investigation_id j)) js"
    by (induction js) (simp_all add: update_where_def assms)
  then show "names_ok (update_where P f js) = names_ok js" unfolding names_ok_def by simp
  show "map jb_investigation_id (update_where P f js) = map jb_investigation_id js"
    by (induction js) (simp_all add: update_where_def assms)
qed

lemma ok_disjoint: "service_ok g sv \<Longrightarrow> ids_with J_QUEUED (sv_jobs sv) \<inter> ids_with J_RUNNING (sv_jobs sv) = {}"
  unfolding service_ok_def by (metis distinct_append map_append set_map)

lemma finished_job_sel [simp]:
  "jb_id (finished_job now err j) = jb_id j" "jb_investigation_id (finished_job now err j) = jb_investigation_id j"
  "jb_status (finished_job now err j) = (if err = None then J_COMPLETED else J_FAILED)"
  by (simp_all add: finished_job_def split: option.splits)

lemma ask_ok:
  assumes "service_ok g sv" and "rq_investigation_id q < 16 ^ 32"
  shows "service_ok g (snd (create_job g now header q sv))"
proof (cases "snd (create_job g now header q sv) = sv")
  case True
  with assms show ?thesis by simp
next
  case False
  define i where "i = deep_job_id (rq_investigation_id q)"
  define j where "j = \<lparr>jb_id = i, jb_investigation_id = rq_investigation_id q, jb_status = J_QUEUED, jb_error = None,
      jb_created_at = now, jb_completed_at = None\<rparr>"
  from False have none: "find (\<lambda>j. jb_investigation_id j = rq_investigation_id q) (sv_jobs sv) = None"
    and new: "snd (create_job g now header q sv) = sv\<lparr>sv_jobs := sv_jobs sv @ [j], sv_waiting := sv_waiting sv @ [(i, q)]\<rparr>"
    by (auto simp: create_job_def i_def j_def Let_def split: sum.splits option.splits)
  have fresh: "rq_investigation_id q \<notin> jb_investigation_id ` set (sv_jobs sv)" using find_NoneD [OF none] by (metis imageE)
  have id: "i \<notin> jb_id ` set (sv_jobs sv)"
  proof
    assume "i \<in> jb_id ` set (sv_jobs sv)"
    then obtain j' where j': "j' \<in> set (sv_jobs sv)" "jb_id j' = i" by auto
    with assms(1) names_okD have "i = deep_job_id (jb_investigation_id j')" "jb_investigation_id j' < 16 ^ 32"
      by (metis service_ok_def)+
    with deep_job_id_inj [OF this(2) assms(2)] have "jb_investigation_id j' = rq_investigation_id q" by (simp add: i_def)
    with fresh j'(1) show False by (metis imageI)
  qed
  have st: "ids_with J_QUEUED (sv_jobs sv @ [j]) = insert i (ids_with J_QUEUED (sv_jobs sv))"
    "ids_with J_RUNNING (sv_jobs sv @ [j]) = ids_with J_RUNNING (sv_jobs sv)"
    by (simp_all add: ids_with_append j_def)
  have w: "i \<notin> fst ` set (sv_waiting sv)" "i \<notin> fst ` set (sv_running sv)"
    using id ids_with_ids assms(1) by (auto simp: service_ok_def)
  have "jb_id j = i" "jb_investigation_id j = rq_investigation_id q" by (simp_all add: j_def)
  then have "names_ok (sv_jobs sv @ [j])" using assms by (simp add: service_ok_def names_ok_def i_def)
  with assms ok_disjoint [OF assms(1)] fresh w st \<open>jb_investigation_id j = rq_investigation_id q\<close> show ?thesis unfolding new by (simp add: service_ok_def)
qed

lemma enter_ok:
  assumes "service_ok g sv"
  shows "service_ok g (enter_job g sv)"
proof (cases "enter_job g sv = sv")
  case True
  with assms show ?thesis by simp
next
  case False
  then obtain i q rest where w: "sv_waiting sv = (i, q) # rest" and room: "length (sv_running sv) < ds_max_jobs g"
    by (auto simp: enter_job_def split: list.splits if_splits)
  define f where "f = (\<lambda>j :: deep_job. j\<lparr>jb_status := J_RUNNING\<rparr>)"
  have f: "\<And>j. jb_id (f j) = jb_id j" "\<And>j. jb_status (f j) = J_RUNNING" "\<And>j. jb_investigation_id (f j) = jb_investigation_id j"
    by (simp_all add: f_def)
  have new: "enter_job g sv = sv\<lparr>sv_jobs := update_where (\<lambda>j. jb_id j = i) f (sv_jobs sv), sv_waiting := rest,
      sv_running := sv_running sv @ [(i, q)]\<rparr>"
    using w room by (simp add: enter_job_def set_job_def f_def)
  have d: "distinct (map fst (sv_waiting sv @ sv_running sv))"
    and sets: "fst ` set (sv_waiting sv) = ids_with J_QUEUED (sv_jobs sv)" "fst ` set (sv_running sv) = ids_with J_RUNNING (sv_jobs sv)"
    using assms unfolding service_ok_def by blast+
  have "i \<in> ids_with J_QUEUED (sv_jobs sv)" using sets(1) w by auto
  then have known: "i \<in> jb_id ` set (sv_jobs sv)" using ids_with_ids by blast
  have q: "ids_with J_QUEUED (update_where (\<lambda>j. jb_id j = i) f (sv_jobs sv)) = fst ` set rest"
    using ids_with_update [of f J_RUNNING J_QUEUED i, OF f(1,2)] d w sets(1) by auto
  have r: "ids_with J_RUNNING (update_where (\<lambda>j. jb_id j = i) f (sv_jobs sv)) = fst ` set (sv_running sv @ [(i, q)])"
    using ids_with_update [of f J_RUNNING J_RUNNING i, OF f(1,2)] known sets(2) by auto
  have "distinct (map fst (rest @ sv_running sv @ [(i, q)]))" using d w by auto
  then show ?thesis
    using assms ok_disjoint [OF assms] room q r update_same [of f, OF f(3,1)] unfolding new service_ok_def by simp
qed

lemma leave_ok:
  assumes "service_ok g sv"
  shows "service_ok g (leave_with now i err sv)"
proof (cases "i \<in> fst ` set (sv_running sv)")
  case False
  with assms show ?thesis by (simp add: leave_with_def)
next
  case True
  define f where "f = finished_job now err"
  define st where "st = (if err = None then J_COMPLETED else J_FAILED)"
  have f: "\<And>j. jb_id (f j) = jb_id j" "\<And>j. jb_status (f j) = st" "\<And>j. jb_investigation_id (f j) = jb_investigation_id j"
    by (simp_all add: f_def st_def)
  have new: "leave_with now i err sv = sv\<lparr>sv_jobs := update_where (\<lambda>j. jb_id j = i) f (sv_jobs sv),
      sv_running := filter (\<lambda>t. fst t \<noteq> i) (sv_running sv)\<rparr>"
    using True by (simp add: leave_with_def set_job_def f_def)
  have sets: "fst ` set (sv_waiting sv) = ids_with J_QUEUED (sv_jobs sv)" "fst ` set (sv_running sv) = ids_with J_RUNNING (sv_jobs sv)"
    and d: "distinct (map fst (sv_waiting sv @ sv_running sv))" and room: "length (sv_running sv) \<le> ds_max_jobs g"
    using assms unfolding service_ok_def by blast+
  have "i \<notin> fst ` set (sv_waiting sv)" using True d by auto
  then have q: "ids_with J_QUEUED (update_where (\<lambda>j. jb_id j = i) f (sv_jobs sv)) = fst ` set (sv_waiting sv)"
    using ids_with_update [of f st J_QUEUED i, OF f(1,2)] sets(1) by (auto simp: st_def)
  have r: "ids_with J_RUNNING (update_where (\<lambda>j. jb_id j = i) f (sv_jobs sv)) = fst ` set (filter (\<lambda>t. fst t \<noteq> i) (sv_running sv))"
    using ids_with_update [of f st J_RUNNING i, OF f(1,2)] sets(2) by (auto simp: st_def)
  have "distinct (map fst (sv_waiting sv @ filter (\<lambda>t. fst t \<noteq> i) (sv_running sv)))" "length (filter (\<lambda>t. fst t \<noteq> i) (sv_running sv)) \<le> ds_max_jobs g"
    using d le_trans [OF length_filter_le room, of "\<lambda>t. fst t \<noteq> i"] by (auto simp: distinct_map_filter)
  then show ?thesis
    using assms ok_disjoint [OF assms] q r update_same [of f, OF f(3,1)] unfolding new service_ok_def by simp
qed

interpretation service_runs: step_system "service_step g" "\<lambda>e _. uuid_event e" "service_ok g" for g
proof
  show "uuid_event e \<Longrightarrow> service_ok g sv \<Longrightarrow> service_ok g (service_step g e sv)" for e sv
    using ask_ok enter_ok leave_ok by (cases e) (simp_all add: service_step_def uuid_event_def)
qed

lemma empty_ok: "service_ok g empty_service"
  by (simp add: service_ok_def empty_service_def ids_with_def names_ok_def)


subsection \<open>The life of a job\<close>

definition status_view :: "deep_service \<Rightarrow> uuid \<Rightarrow> job_status option" where
  "status_view sv i = map_option jb_status (find (\<lambda>j. jb_investigation_id j = i) (sv_jobs sv))"

text \<open>An investigation has no job, then one that is queued, runs and ends; at most \<open>n\<close> run.\<close>

inductive job_moves :: "nat \<Rightarrow> (uuid \<Rightarrow> job_status option) \<Rightarrow> (uuid \<Rightarrow> job_status option) \<Rightarrow> bool" for n where
  submitted: "v i = None \<Longrightarrow> job_moves n v (v(i := Some J_QUEUED))"
| started: "v i = Some J_QUEUED \<Longrightarrow> card {k. v k = Some J_RUNNING} < n \<Longrightarrow> job_moves n v (v(i := Some J_RUNNING))"
| ended: "v i = Some J_RUNNING \<Longrightarrow> st \<in> {J_COMPLETED, J_FAILED} \<Longrightarrow> job_moves n v (v(i := Some st))"

lemma view_of:
  assumes "service_ok g sv" and "j \<in> set (sv_jobs sv)"
  shows "status_view sv (jb_investigation_id j) = Some (jb_status j)"
  using find_key [of jb_investigation_id "sv_jobs sv" j] assms by (simp add: status_view_def service_ok_def)

lemma viewD: "status_view sv i = Some st \<Longrightarrow> \<exists>j\<in>set (sv_jobs sv). jb_investigation_id j = i \<and> jb_status j = st"
  by (auto simp: status_view_def dest: find_SomeD)

lemma running_view:
  assumes "service_ok g sv"
  shows "card {k. status_view sv k = Some J_RUNNING} \<le> length (sv_running sv)"
proof -
  have img: "deep_job_id ` {k. status_view sv k = Some J_RUNNING} \<subseteq> fst ` set (sv_running sv)"
  proof
    fix x assume "x \<in> deep_job_id ` {k. status_view sv k = Some J_RUNNING}"
    then obtain j where j: "j \<in> set (sv_jobs sv)" "jb_status j = J_RUNNING" "x = deep_job_id (jb_investigation_id j)"
      using viewD by blast
    then have "x = jb_id j" using assms names_okD by (metis service_ok_def)
    with j(1,2) have "x \<in> ids_with J_RUNNING (sv_jobs sv)" unfolding ids_with_def by blast
    then show "x \<in> fst ` set (sv_running sv)" using assms by (simp add: service_ok_def)
  qed
  have "k < 16 ^ 32" if "status_view sv k = Some J_RUNNING" for k
    using viewD [OF that] assms names_okD by (metis service_ok_def)
  then have "inj_on deep_job_id {k. status_view sv k = Some J_RUNNING}" by (intro inj_onI deep_job_id_inj) auto
  with img have "card {k. status_view sv k = Some J_RUNNING} \<le> card (fst ` set (sv_running sv))"
    by (intro card_inj_on_le) auto
  also have "\<dots> \<le> length (sv_running sv)" by (metis card_image_le card_length finite_set le_trans)
  finally show ?thesis .
qed

text \<open>Changing the job with one name changes the view at one investigation.\<close>

lemma view_update:
  assumes "service_ok g sv" and "j \<in> set (sv_jobs sv)" and "jobs = update_where (\<lambda>k. jb_id k = jb_id j) f (sv_jobs sv)"
    and "\<And>k. jb_investigation_id (f k) = jb_investigation_id k" and "\<And>k. jb_status (f k) = st" and "sv_jobs sv' = jobs"
  shows "status_view sv' = (status_view sv)(jb_investigation_id j := Some st)"
proof
  fix i
  have names: "jb_id k = jb_id j \<longleftrightarrow> jb_investigation_id k = jb_investigation_id j" if "k \<in> set (sv_jobs sv)" for k
    using names_okD [of "sv_jobs sv"] that assms(1,2) deep_job_id_inj unfolding service_ok_def by metis
  show "status_view sv' i = ((status_view sv)(jb_investigation_id j := Some st)) i"
  proof (cases "i = jb_investigation_id j")
    case True
    have "find (\<lambda>k. jb_investigation_id k = i) jobs = map_option f (find (\<lambda>k. jb_investigation_id k = i) (sv_jobs sv))"
      unfolding assms(3) using assms(4) names True by (intro row_update.find_update_where) (auto simp: row_update_def)
    moreover have "find (\<lambda>k. jb_investigation_id k = i) (sv_jobs sv) = Some j"
      using find_key [of jb_investigation_id "sv_jobs sv" j] assms(1,2) True by (simp add: service_ok_def)
    ultimately show ?thesis using True by (simp add: status_view_def assms(5,6))
  next
    case False
    have "find (\<lambda>k. jb_investigation_id k = i) jobs = find (\<lambda>k. jb_investigation_id k = i) (sv_jobs sv)"
      unfolding assms(3) using assms(4) names False by (intro row_update.find_update_where_other) (auto simp: row_update_def)
    then show ?thesis using False by (simp add: status_view_def assms(6))
  qed
qed

lemma job_of_id:
  assumes "service_ok g sv" and "i \<in> ids_with st (sv_jobs sv)"
  obtains j where "j \<in> set (sv_jobs sv)" "jb_id j = i" "jb_status j = st" "status_view sv (jb_investigation_id j) = Some st"
  using assms view_of by (auto simp: ids_with_def)

lemma step_moves:
  assumes "service_ok g sv" and "uuid_event e"
  shows "status_view (service_step g e sv) = status_view sv \<or> job_moves (ds_max_jobs g) (status_view sv) (status_view (service_step g e sv))"
proof (cases e)
  case (Ask now header q)
  show ?thesis
  proof (cases "snd (create_job g now header q sv) = sv")
    case True
    then show ?thesis by (simp add: Ask service_step_def)
  next
    case False
    then have none: "find (\<lambda>j. jb_investigation_id j = rq_investigation_id q) (sv_jobs sv) = None"
      and new: "status_view (snd (create_job g now header q sv)) = (status_view sv)(rq_investigation_id q := Some J_QUEUED)"
      by (auto simp: create_job_def Let_def status_view_def find_append fun_eq_iff split: sum.splits option.splits)
    have "status_view sv (rq_investigation_id q) = None" by (simp add: status_view_def none)
    then show ?thesis by (simp add: Ask service_step_def new submitted)
  qed
next
  case Enter
  show ?thesis
  proof (cases "enter_job g sv = sv")
    case True
    then show ?thesis by (simp add: Enter service_step_def)
  next
    case False
    then obtain i q rest where w: "sv_waiting sv = (i, q) # rest" and room: "length (sv_running sv) < ds_max_jobs g"
      by (auto simp: enter_job_def split: list.splits if_splits)
    have "fst ` set (sv_waiting sv) = ids_with J_QUEUED (sv_jobs sv)" using assms(1) by (simp add: service_ok_def)
    then have "i \<in> ids_with J_QUEUED (sv_jobs sv)" using w by auto
    then obtain j where j: "j \<in> set (sv_jobs sv)" "jb_id j = i" "status_view sv (jb_investigation_id j) = Some J_QUEUED"
      by (rule job_of_id [OF assms(1)])
    have "status_view (enter_job g sv) = (status_view sv)(jb_investigation_id j := Some J_RUNNING)"
      by (rule view_update [OF assms(1) j(1), where f = "\<lambda>j. j\<lparr>jb_status := J_RUNNING\<rparr>", OF refl])
        (use w room j(2) in \<open>simp_all add: enter_job_def set_job_def\<close>)
    moreover have "card {k. status_view sv k = Some J_RUNNING} < ds_max_jobs g" using running_view [OF assms(1)] room by simp
    ultimately show ?thesis using started [of "status_view sv" "jb_investigation_id j", OF j(3)] by (simp add: Enter service_step_def)
  qed
next
  case (Leave now i err)
  show ?thesis
  proof (cases "i \<in> fst ` set (sv_running sv)")
    case False
    then show ?thesis by (simp add: Leave service_step_def leave_with_def)
  next
    case True
    have "fst ` set (sv_running sv) = ids_with J_RUNNING (sv_jobs sv)" using assms(1) by (simp add: service_ok_def)
    then have "i \<in> ids_with J_RUNNING (sv_jobs sv)" using True by simp
    then obtain j where j: "j \<in> set (sv_jobs sv)" "jb_id j = i" "status_view sv (jb_investigation_id j) = Some J_RUNNING"
      by (rule job_of_id [OF assms(1)])
    have "status_view (leave_with now i err sv) =
        (status_view sv)(jb_investigation_id j := Some (if err = None then J_COMPLETED else J_FAILED))"
      by (rule view_update [OF assms(1) j(1), where f = "finished_job now err", OF refl])
        (use True j(2) in \<open>simp_all add: leave_with_def set_job_def\<close>)
    then show ?thesis using ended [of "status_view sv" "jb_investigation_id j", OF j(3)] by (simp add: Leave service_step_def)
  qed
qed

text \<open>C40: the service implements a machine with one state per investigation: whatever requests come, in whatever order tasks
  start and end, each investigation goes from no job over one that is queued and one that runs to one that is completed
  or failed, never back and never to a second job, and a job starts only while fewer run than the settings allow.\<close>

theorem job_lifecycle_refined:
  assumes "list_all uuid_event es"
  shows "(job_moves (ds_max_jobs g))\<^sup>*\<^sup>* (\<lambda>_. None) (status_view (run (service_step g) es empty_service))"
proof -
  have "(job_moves (ds_max_jobs g))\<^sup>*\<^sup>* (status_view sv) (status_view (run (service_step g) es sv))"
    if "service_ok g sv" "list_all uuid_event es" for sv
    using that
  proof (induction es arbitrary: sv)
    case Nil
    then show ?case by simp
  next
    case (Cons e es)
    then have "uuid_event e" by simp
    have ok: "service_ok g (service_step g e sv)" by (rule service_runs.step_inv [OF \<open>uuid_event e\<close> Cons.prems(1)])
    have "(job_moves (ds_max_jobs g))\<^sup>*\<^sup>* (status_view sv) (status_view (service_step g e sv))"
      using step_moves [OF Cons.prems(1) \<open>uuid_event e\<close>] by auto
    also have "(job_moves (ds_max_jobs g))\<^sup>*\<^sup>* (status_view (service_step g e sv)) (status_view (run (service_step g) (e # es) sv))"
      using Cons.IH [OF ok] Cons.prems(2) by simp
    finally show ?case .
  qed
  moreover have "status_view empty_service = (\<lambda>_. None)" by (simp add: status_view_def empty_service_def fun_eq_iff)
  ultimately show ?thesis using empty_ok assms by metis
qed

end
