(* ===== verification/DeepServer.thy ===== *)
theory DeepServer
  imports DeepJobs InvestigationQueue
begin

text \<open>
  DeepAgent and the server together: the model of the server's routes takes the place of the backend that a job reports
  to, with a network that may lose a message or its answer. What a job reports as done is done at the server; what the
  server has accepted stays; what it never hears of it does not notice.
\<close>

subsection \<open>What a job may rely on\<close>

text \<open>A message about the progress of a job.\<close>

definition tells :: "deep_settings \<Rightarrow> 's backend \<Rightarrow> uuid \<Rightarrow> string \<Rightarrow> 's \<Rightarrow> 's \<Rightarrow> bool" where
  "tells g peer i job s s' \<longleftrightarrow> (\<exists>phase pct step n msg. s' = tell_status g peer i job phase pct step n msg s)"

text \<open>A property \<open>Q\<close> of the backend that the messages of a job about investigation \<open>i\<close> keep.\<close>

locale job_backend =
  fixes g :: deep_settings and peer :: "'s backend" and i :: uuid and Q :: "'s \<Rightarrow> bool"
  assumes status_keeps: "Q s \<Longrightarrow> Q (snd (peer (status_post g i b) s))"
begin

lemma submit_status_keeps: "Q s \<Longrightarrow> Q (snd (submit_status g peer i b s))"
  using status_keeps [of s b] by (auto simp: submit_status_def split: prod.splits post_reply.splits)

lemma tell_keeps: "Q s \<Longrightarrow> Q (tell_status g peer i job phase pct step total_steps msg s)"
  unfolding tell_status_def by (rule submit_status_keeps)

lemma tells_keep: "tells g peer i job s s' \<Longrightarrow> Q s \<Longrightarrow> Q s'"
  unfolding tells_def using tell_keeps by blast

end

locale result_backend = job_backend g peer i Q
  for g :: deep_settings and peer :: "'s backend" and i :: uuid and Q :: "'s \<Rightarrow> bool" +
  fixes pl :: callback_payload
  assumes result_keeps: "Q s \<Longrightarrow> Q (snd (peer (result_post g i pl) s))"
begin

lemma tries_keep: "Q s \<Longrightarrow> Q (snd (try_posts peer k (result_post g i pl) e s))"
proof (induction k arbitrary: e s)
  case 0
  then show ?case by simp
next
  case (Suc k)
  obtain r s' where x: "peer (result_post g i pl) s = (r, s')" by (cases "peer (result_post g i pl) s")
  with result_keeps [OF Suc.prems] have "Q s'" by simp
  with Suc.IH show ?case by (simp add: x split: sum.splits)
qed

lemma submit_result_keeps: "Q s \<Longrightarrow> Q (snd (submit_result g peer i pl s))"
  using tries_keep by (simp add: submit_result_def)

text \<open>A report that succeeded was answered with 200, from a state with the property.\<close>

lemma tries_answered:
  "Q s \<Longrightarrow> try_posts peer k (result_post g i pl) e s = (Inr j, s') \<Longrightarrow>
     \<exists>s1. Q s1 \<and> peer (result_post g i pl) s1 = (Answered 200 (Inr j), s')"
proof (induction k arbitrary: e s)
  case 0
  then show ?case by simp
next
  case (Suc k)
  obtain r s1 where x: "peer (result_post g i pl) s = (r, s1)" by (cases "peer (result_post g i pl) s")
  with result_keeps [OF Suc.prems(1)] have q: "Q s1" by simp
  show ?case
  proof (cases "attempt_of r")
    case (Inl e')
    with Suc.prems(2) x have "try_posts peer k (result_post g i pl) e' s1 = (Inr j, s')" by simp
    then show ?thesis using Suc.IH [OF q] by blast
  next
    case (Inr j')
    with Suc.prems(2) x have "j' = j" "s1 = s'" by simp_all
    with Inr have "r = Answered 200 (Inr j)" by (auto simp: attempt_of_def split: post_reply.splits if_splits)
    with x Suc.prems(1) \<open>s1 = s'\<close> show ?thesis by auto
  qed
qed

lemma submit_result_answered:
  "Q s \<Longrightarrow> submit_result g peer i pl s = (Inr j, s') \<Longrightarrow> \<exists>s1. Q s1 \<and> peer (result_post g i pl) s1 = (Answered 200 (Inr j), s')"
  using tries_answered by (auto simp: submit_result_def split: if_splits)

end

locale any_result_backend = job_backend +
  assumes any_keeps: "Q s \<Longrightarrow> Q (snd (peer (result_post g i pl) s))"

sublocale any_result_backend \<subseteq> each: result_backend g peer i Q pl for pl
  by unfold_locales (rule any_keeps)

context any_result_backend
begin

lemma run_job_keeps:
  assumes "g = dw_settings w" and "i = rq_investigation_id q" and "Q s"
  shows "Q (snd (run_job w peer q job m s))"
proof -
  obtain out st where out: "investigate w q m = (out, st)" by (cases "investigate w q m")
  have told: "Q (tell_status g peer i job p x a b c (tell_status g peer i job p' x' a' b' c' s))" for p x a b c p' x' a' b' c'
    by (intro tell_keeps assms(3))
  show ?thesis
    using told tell_keeps [OF told] each.submit_result_keeps [OF tell_keeps [OF told]]
    by (auto simp: run_job_def Let_def out assms(1,2) [symmetric] split: graph_end.splits option.splits prod.splits sum.splits)
      (metis snd_conv)+
qed

lemma execute_keeps:
  assumes "g = dw_settings w" and "i = rq_investigation_id q" and "Q s"
  shows "Q (snd (execute_job prepared w peer q job s))"
proof -
  obtain r s' where x: "(case prepared of Inl e \<Rightarrow> (Inl e, s) | Inr _ \<Rightarrow> run_job w peer q job fresh_mcp s) = (r, s')"
    by (cases "(case prepared of Inl e \<Rightarrow> (Inl e, s) | Inr _ \<Rightarrow> run_job w peer q job fresh_mcp s)")
  have "Q s'" using run_job_keeps [OF assms, of job fresh_mcp] assms(3) x by (auto split: sum.splits)
  then show ?thesis
    using each.submit_result_keeps [of s'] by (simp add: execute_job_def x Let_def assms(1,2) [symmetric] split: sum.splits)
qed

end

subsection \<open>The server as the backend\<close>

datatype delivery = Arrives | Answer_lost | Never_arrives

text \<open>When each message arrives and what becomes of it.\<close>

record server_link =
  sl_clock :: "nat \<Rightarrow> time"
  sl_delivery :: "nat \<Rightarrow> delivery"

definition heard :: "status_message \<Rightarrow> inv_heartbeat" where
  "heard b = \<lparr>ih_job_id = sm_job_id b, ih_phase = sm_phase b, ih_progress = sm_progress b, ih_step = sm_step b,
     ih_total = sm_total b, ih_message = sm_message b\<rparr>"

definition received :: "callback_payload \<Rightarrow> external_result" where
  "received pl = \<lparr>xr_report = Some (pl_report pl), xr_severity = Some (pl_severity pl),
     xr_findings_count = Some (pl_findings_count pl), xr_findings = Some (pl_findings pl), xr_iocs = Some (pl_iocs pl),
     xr_provider = Some (pl_provider pl), xr_model = Some (pl_model pl), xr_input_tokens = None, xr_output_tokens = None,
     xr_cost = None, xr_error = pl_error pl, xr_job_id = Some (pl_job_id pl), xr_raw = pl_raw pl\<rparr>"

fun reply_of :: "http_error + 'a \<Rightarrow> post_reply" where
  "reply_of (Inl (HTTPException c m)) = Answered c (Inr JNull)"
| "reply_of (Inr _) = Answered 200 (Inr JNull)"

definition server_answer :: "time \<Rightarrow> post \<Rightarrow> dfir \<Rightarrow> post_reply \<times> dfir" where
  "server_answer now p db =
     (case po_body p of
        Status_body b \<Rightarrow> apfst reply_of
          (update_investigation_status now (Some (po_authorization p)) (Some (po_investigation p)) (heard b) db)
      | Result_body key pl \<Rightarrow> apfst reply_of
          (submit_investigation_result now (Some (po_authorization p)) (Some (po_investigation p)) (Some key) (received pl) db))"

definition server_peer :: "server_link \<Rightarrow> (dfir \<times> nat) backend" where
  "server_peer l p s =
     (if sl_delivery l (snd s) = Never_arrives then (No_answer (raised [''ConnectError''] ''''), (fst s, Suc (snd s)))
      else let (r, db) = server_answer (sl_clock l (snd s)) p (fst s)
           in (if sl_delivery l (snd s) = Answer_lost then No_answer (raised [''ReadTimeout''] '''') else r, (db, Suc (snd s))))"

lemma server_peer_state:
  "fst (snd (server_peer l p s)) = fst s \<or> fst (snd (server_peer l p s)) = snd (server_answer (sl_clock l (snd s)) p (fst s))"
  by (simp add: server_peer_def Let_def split: prod.splits)

lemma server_peer_200:
  "server_peer l p s = (Answered 200 (Inr j), s') \<Longrightarrow> \<exists>j' db. server_answer (sl_clock l (snd s)) p (fst s) = (Answered 200 (Inr j'), db) \<and> fst s' = db"
  by (auto simp: server_peer_def Let_def split: prod.splits if_splits)

lemma auth_rows: "df_rows (snd (auth_inv_key now h rs db)) = df_rows db"
  by (auto simp: auth_inv_key_def Let_def split: option.splits)

text \<open>A heartbeat leaves the status and the report of each investigation, and settled ones altogether.\<close>

definition same_result :: "investigation option \<Rightarrow> investigation option \<Rightarrow> bool" where
  "same_result r r' \<longleftrightarrow> (case (r, r') of
     (Some a, Some b) \<Rightarrow> iv_status b = iv_status a \<and> iv_report b = iv_report a \<and> (iv_status a \<in> {IV_COMPLETED, IV_FAILED} \<longrightarrow> b = a)
   | (None, None) \<Rightarrow> True | _ \<Rightarrow> False)"

lemma same_result_refl [simp]: "same_result r r"
  by (simp add: same_result_def split: option.splits)

lemma heartbeat_result:
  "same_result (get_inv i db) (get_inv i (snd (update_investigation_status now h (Some i) b db)))"
proof -
  obtain auth db1 where a: "auth_inv_key now h [''investigation:write''] db = (auth, db1)" by (cases "auth_inv_key now h [''investigation:write''] db")
  have same: "get_inv i db1 = get_inv i db" using auth_rows [of now h "[''investigation:write'']" db] by (intro get_inv_rows) (simp add: a)
  show ?thesis
  proof (cases auth)
    case (Inl e)
    then show ?thesis by (simp add: update_investigation_status_def a on_investigation_def same)
  next
    case (Inr k)
    show ?thesis
    proof (cases "get_inv i db1")
      case None
      then show ?thesis using same by (simp add: update_investigation_status_def a Inr on_investigation_def)
    next
      case (Some iv)
      define new where "new = (hermes_note (ih_phase b) (progress_json now b) iv)\<lparr>iv_job_id := Some (ih_job_id b)\<rparr>"
      have o: "same_order iv new" by (simp add: new_def hermes_note_def same_order_def)
      have "snd (update_investigation_status now h (Some i) b db) = db1 \<or>
          (snd (update_investigation_status now h (Some i) b db) = commit_row iv new db1 \<and> iv_status iv \<notin> {IV_COMPLETED, IV_FAILED})"
        by (simp add: update_investigation_status_def a Inr on_investigation_def Some new_def Let_def)
      then show ?thesis
      proof
        assume "snd (update_investigation_status now h (Some i) b db) = db1"
        then show ?thesis by (simp add: same)
      next
        assume c: "snd (update_investigation_status now h (Some i) b db) = commit_row iv new db1 \<and> iv_status iv \<notin> {IV_COMPLETED, IV_FAILED}"
        then have "get_inv i (snd (update_investigation_status now h (Some i) b db)) = Some new"
          using get_commit [OF Some o] by simp
        moreover have "iv_status new = iv_status iv" "iv_report new = iv_report iv" by (simp_all add: new_def hermes_note_def)
        moreover have "get_inv i db = Some iv" using same Some by simp
        ultimately show ?thesis using c by (simp add: same_result_def)
      qed
    qed
  qed
qed

text \<open>The route of results changes the row only through the service.\<close>

definition with_severity :: "external_result \<Rightarrow> external_result" where
  "with_severity b = b\<lparr>xr_severity := Some (or_truthy (xr_severity b) ''info'')\<rparr>"

lemma route_result:
  obtains (refused) e db1 where "get_inv i db1 = get_inv i db" "submit_investigation_result now h (Some i) key b db = (Inl e, db1)"
  | (passed) k r db1 db2 where "get_inv i db1 = get_inv i db" "submit_external_result now i (Some k) (with_severity b) db1 = (r, db2)"
      "snd (submit_investigation_result now h (Some i) key b db) = db2"
      "\<And>iv. fst (submit_investigation_result now h (Some i) key b db) = Inr iv \<Longrightarrow> r = Inr iv"
proof -
  obtain auth db1 where a: "auth_inv_key now h [''investigation:write''] db = (auth, db1)" by (cases "auth_inv_key now h [''investigation:write''] db")
  have same: "get_inv i db1 = get_inv i db" using auth_rows [of now h "[''investigation:write'']" db] by (intro get_inv_rows) (simp add: a)
  define k where "k = (if truthy key then Some (strip (the key)) else None)"
  have route: "submit_investigation_result now h (Some i) key b db =
      (case auth of Inl e \<Rightarrow> (Inl e, db1)
       | Inr _ \<Rightarrow>
           if \<not> truthy k then (Inl (HTTPException 400 ''Thieu X-Idempotency-Key''), db1)
           else if length (the k) > 255 then (Inl (HTTPException 400 ''X-Idempotency-Key vuot qua 255 ky tu''), db1)
           else case submit_external_result now i k (with_severity b) db1 of
             (Inl External_not_found, db2) \<Rightarrow> (Inl no_investigation, db2)
           | (Inl (External_conflict m), db2) \<Rightarrow> (Inl (HTTPException 409 m), db2)
           | (Inr iv, db2) \<Rightarrow> (Inr iv, db2))"
    unfolding submit_investigation_result_def a k_def Let_def with_severity_def prod.case option.case ..
  show ?thesis
  proof (cases "(\<exists>e. auth = Inl e) \<or> \<not> truthy k \<or> length (the k) > 255")
    case True
    then have "\<exists>e. submit_investigation_result now h (Some i) key b db = (Inl e, db1)"
      unfolding route by (auto split: sum.splits)
    with refused same show ?thesis by blast
  next
    case False
    then obtain u k' where ok: "auth = Inr u" "k = Some k'" by (cases auth; cases k) auto
    obtain r db2 where s: "submit_external_result now i (Some k') (with_severity b) db1 = (r, db2)"
      by (cases "submit_external_result now i (Some k') (with_severity b) db1")
    have "submit_investigation_result now h (Some i) key b db =
        (case (r, db2) of (Inl External_not_found, db2) \<Rightarrow> (Inl no_investigation, db2)
         | (Inl (External_conflict m), db2) \<Rightarrow> (Inl (HTTPException 409 m), db2) | (Inr iv, db2) \<Rightarrow> (Inr iv, db2))"
      unfolding route using False ok s by simp
    then show ?thesis
      by (intro passed [OF same s]) (auto split: sum.splits callback_error.splits)
  qed
qed

text \<open>What a settled row keeps, and what a report makes of a row that waits.\<close>

lemma route_keeps_held:
  assumes "holds_result i key r db"
  shows "holds_result i key r (snd (submit_investigation_result now h (Some i) k b db))"
proof (rule route_result [of i db now h k b])
  fix e db1 assume "get_inv i db1 = get_inv i db" "submit_investigation_result now h (Some i) k b db = (Inl e, db1)"
  with assms show ?thesis by (simp add: holds_result_def)
next
  fix k' r' db1 db2 assume x: "get_inv i db1 = get_inv i db" "submit_external_result now i (Some k') (with_severity b) db1 = (r', db2)"
    "snd (submit_investigation_result now h (Some i) k b db) = db2"
  then have held: "holds_result i key r db1" using assms by (simp add: holds_result_def)
  have "db2 = db1" using held_result_stays(2) [OF held, of now "Some k'" "with_severity b"] x(2) by simp
  with held x(3) show ?thesis by simp
qed

lemma heartbeat_keeps_held:
  assumes "holds_result i key r db"
  shows "holds_result i key r (snd (update_investigation_status now h (Some i) b db))"
  using assms heartbeat_result [of i db now h b] by (auto simp: holds_result_def same_result_def split: option.splits)

interpretation held: any_result_backend g "server_peer l" i "\<lambda>s. holds_result i key r (fst s)" for g l i key r
proof
  show "holds_result i key r (fst (snd (server_peer l (status_post g i b) s)))" if "holds_result i key r (fst s)" for s b
    using server_peer_state [of l "status_post g i b" s] that heartbeat_keeps_held
    by (auto simp: server_answer_def status_post_def)
  show "holds_result i key r (fst (snd (server_peer l (result_post g i pl) s)))" if "holds_result i key r (fst s)" for s pl
    using server_peer_state [of l "result_post g i pl" s] that route_keeps_held
    by (auto simp: server_answer_def result_post_def)
qed

text \<open>A row that waits for the report of a payload, or has it.\<close>

definition awaits :: "uuid \<Rightarrow> callback_payload \<Rightarrow> dfir \<Rightarrow> bool" where
  "awaits i pl db \<longleftrightarrow> (\<exists>iv. get_inv i db = Some iv \<and>
     (iv_status iv = IV_ANALYZING \<or> iv_status iv = IV_COMPLETED \<and> iv_report iv = Some (pl_report pl)))"

lemma report_of_completed: "iv_report (completed_result now k b iv) = xr_report b"
  by (simp add: completed_result_def bound_job_def Let_def)

lemma service_report:
  assumes "get_inv i db = Some iv" and "iv_status iv = IV_ANALYZING" and "xr_error b = None"
    and "submit_external_result now i (Some k) b db = (r, db')"
  shows "(\<exists>c. r = Inl c \<and> db' = db) \<or> (\<exists>iv'. r = Inr iv' \<and> get_inv i db' = Some iv' \<and> iv_status iv' = IV_COMPLETED \<and> iv_report iv' = xr_report b)"
proof -
  define new where "new = completed_result now k b iv"
  have "(\<exists>c. r = Inl c \<and> db' = db) \<or> (r = Inr new \<and> df_rows db' = df_rows (commit_row iv new db))"
    using assms by (auto simp: submit_external_result_def new_def Let_def split: if_splits)
  moreover have "get_inv i db' = Some new" if "df_rows db' = df_rows (commit_row iv new db)"
    using get_commit [OF assms(1), of new] get_inv_rows [OF that, of i] result_sel(2) by (simp add: new_def)
  ultimately show ?thesis using result_sel(4) [of now k b iv] report_of_completed [of now k b iv] by (auto simp: new_def)
qed

lemma service_completed:
  assumes "get_inv i db = Some iv" and "iv_status iv = IV_COMPLETED" and "submit_external_result now i k b db = (r, db')"
  shows "db' = db \<and> (\<forall>iv'. r = Inr iv' \<longrightarrow> iv' = iv)"
  using assms by (auto simp: submit_external_result_def split: if_splits)

lemma route_awaits:
  assumes "awaits i pl db" and "pl_error pl = None"
  shows "awaits i pl (snd (submit_investigation_result now h (Some i) k (received pl) db))"
    and "fst (submit_investigation_result now h (Some i) k (received pl) db) = Inr iv' \<Longrightarrow>
      \<exists>r. get_inv i (snd (submit_investigation_result now h (Some i) k (received pl) db)) = Some r \<and>
        iv_status r = IV_COMPLETED \<and> iv_report r = Some (pl_report pl)"
proof -
  have b: "xr_error (with_severity (received pl)) = None" "xr_report (with_severity (received pl)) = Some (pl_report pl)"
    by (simp_all add: with_severity_def received_def assms(2))
  have all: "awaits i pl (snd (submit_investigation_result now h (Some i) k (received pl) db)) \<and>
      (\<forall>iv'. fst (submit_investigation_result now h (Some i) k (received pl) db) = Inr iv' \<longrightarrow>
        (\<exists>r. get_inv i (snd (submit_investigation_result now h (Some i) k (received pl) db)) = Some r \<and>
          iv_status r = IV_COMPLETED \<and> iv_report r = Some (pl_report pl)))"
  proof (rule route_result [of i db now h k "received pl"])
    fix e db1 assume "get_inv i db1 = get_inv i db" "submit_investigation_result now h (Some i) k (received pl) db = (Inl e, db1)"
    with assms(1) show ?thesis by (simp add: awaits_def)
  next
    fix k' r db1 db2
    assume x: "get_inv i db1 = get_inv i db" "submit_external_result now i (Some k') (with_severity (received pl)) db1 = (r, db2)"
      "snd (submit_investigation_result now h (Some i) k (received pl) db) = db2"
      "\<And>iv. fst (submit_investigation_result now h (Some i) k (received pl) db) = Inr iv \<Longrightarrow> r = Inr iv"
    from assms(1) x(1) obtain iv where iv: "get_inv i db1 = Some iv"
      "iv_status iv = IV_ANALYZING \<or> iv_status iv = IV_COMPLETED \<and> iv_report iv = Some (pl_report pl)" by (auto simp: awaits_def)
    show ?thesis
    proof (cases "iv_status iv = IV_ANALYZING")
      case True
      from service_report [OF iv(1) True b(1) x(2)] b(2) x(1,3,4) assms(1) iv True show ?thesis
        by (auto simp: awaits_def)
    next
      case False
      with iv have fin: "iv_status iv = IV_COMPLETED" by simp
      from service_completed [OF iv(1) fin x(2)] iv False x(3) show ?thesis by (auto simp: awaits_def)
    qed
  qed
  then show "awaits i pl (snd (submit_investigation_result now h (Some i) k (received pl) db))"
    and "fst (submit_investigation_result now h (Some i) k (received pl) db) = Inr iv' \<Longrightarrow>
      \<exists>r. get_inv i (snd (submit_investigation_result now h (Some i) k (received pl) db)) = Some r \<and>
        iv_status r = IV_COMPLETED \<and> iv_report r = Some (pl_report pl)" by blast+
qed

lemma heartbeat_awaits:
  "awaits i pl db \<Longrightarrow> awaits i pl (snd (update_investigation_status now h (Some i) b db))"
  using heartbeat_result [of i db now h b] by (auto simp: awaits_def same_result_def split: option.splits)

interpretation waiting: result_backend g "server_peer l" i "\<lambda>s. pl_error pl = None \<and> awaits i pl (fst s)" pl for g l i pl
proof
  show "pl_error pl = None \<and> awaits i pl (fst (snd (server_peer l (status_post g i b) s)))"
    if "pl_error pl = None \<and> awaits i pl (fst s)" for s b
    using server_peer_state [of l "status_post g i b" s] that heartbeat_awaits
    by (auto simp: server_answer_def status_post_def)
  show "pl_error pl = None \<and> awaits i pl (fst (snd (server_peer l (result_post g i pl) s)))"
    if "pl_error pl = None \<and> awaits i pl (fst s)" for s
    using server_peer_state [of l "result_post g i pl" s] that route_awaits(1)
    by (auto simp: server_answer_def result_post_def)
qed

text \<open>A run that succeeds: the graph has finished, and the last message was answered with 200.\<close>

lemma run_job_done:
  assumes "run_job w peer q job m s = (Inr pl, s')"
  obtains st a report s1 s2 s3 j where "investigate w q m = (Finished, st)" "cs_report st = Some report"
    "pl = result_payload (an_name (dw_analyst w)) job a report (cs_evidence st)"
    "tells (dw_settings w) peer (rq_investigation_id q) job s s1" "tells (dw_settings w) peer (rq_investigation_id q) job s1 s2"
    "tells (dw_settings w) peer (rq_investigation_id q) job s2 s3"
    "submit_result (dw_settings w) peer (rq_investigation_id q) pl s3 = (Inr j, s')"
proof -
  define n where "n = min (ds_max_steps (dw_settings w)) initial_triage_max_steps + 2"
  define say where "say = tell_status (dw_settings w) peer (rq_investigation_id q) job"
  define s1 where "s1 = say ''running'' 0 0 n ''DeepAgent bat dau dieu tra read-only'' s"
  define s2 where "s2 = say ''collecting'' 30 1 n ''Dang thu thap du lieu tu endpoint...'' s1"
  define s3 where "s3 = say ''finalizing'' 90 n n ''Da thu thap xong, dang tong hop bao cao'' s2"
  obtain out st where out: "investigate w q m = (out, st)" by (cases "investigate w q m")
  note run = assms [unfolded run_job_def Let_def out prod.case, folded n_def say_def, folded s1_def, folded s2_def, folded s3_def]
  have f: "out = Finished" using run by (cases out) simp_all
  obtain a report where a: "cs_assessment st = Some a" "cs_report st = Some report"
    using run f by (auto split: option.splits)
  have "\<exists>j. submit_result (dw_settings w) peer (rq_investigation_id q) (result_payload (an_name (dw_analyst w)) job a report (cs_evidence st)) s3 = (Inr j, s')
      \<and> pl = result_payload (an_name (dw_analyst w)) job a report (cs_evidence st)"
    using run f a by (auto split: prod.splits sum.splits)
  moreover have "tells (dw_settings w) peer (rq_investigation_id q) job s s1" "tells (dw_settings w) peer (rq_investigation_id q) job s1 s2"
      "tells (dw_settings w) peer (rq_investigation_id q) job s2 s3"
    unfolding s1_def s2_def s3_def say_def tells_def by blast+
  ultimately show ?thesis using that out f a(2) by blast
qed

text \<open>C33: what DeepAgent counts as done is done at the server: when a job is marked completed, then, whatever messages and
  answers the network lost on the way, the graph has finished and the investigation that waited for it is completed in
  the server's table, with exactly the report of that run.\<close>

theorem completed_job_delivered:
  assumes "execute_job prepared w (server_peer l) q job (db, n) = (None, (db', n'))"
    and "get_inv (rq_investigation_id q) db = Some iv" and "iv_status iv = IV_ANALYZING"
  shows "\<exists>st r. investigate w q fresh_mcp = (Finished, st) \<and> get_inv (rq_investigation_id q) db' = Some r \<and>
    iv_status r = IV_COMPLETED \<and> iv_report r = cs_report st"
proof -
  define i where "i = rq_investigation_id q"
  define g where "g = dw_settings w"
  from assms(1) obtain pl where run: "run_job w (server_peer l) q job fresh_mcp (db, n) = (Inr pl, (db', n'))"
    by (auto simp: execute_job_def Let_def split: prod.splits sum.splits)
  from run_job_done [OF run] obtain st a report s1' s2 s3 j where x: "investigate w q fresh_mcp = (Finished, st)" "cs_report st = Some report"
    "pl = result_payload (an_name (dw_analyst w)) job a report (cs_evidence st)"
    "submit_result g (server_peer l) i pl s3 = (Inr j, (db', n'))"
    and told: "tells g (server_peer l) i job (db, n) s1'" "tells g (server_peer l) i job s1' s2" "tells g (server_peer l) i job s2 s3"
    unfolding g_def i_def by metis
  have pl: "pl_error pl = None" "pl_report pl = report" by (simp_all add: x(3) result_payload_def)
  have "pl_error pl = None \<and> awaits i pl (fst (db, n))" using assms(2,3) pl by (simp add: awaits_def i_def)
  then have "pl_error pl = None \<and> awaits i pl (fst s3)"
    by (intro waiting.tells_keep [OF told(3)] waiting.tells_keep [OF told(2)] waiting.tells_keep [OF told(1)])
  from waiting.submit_result_answered [OF this x(4)] obtain s1 where s1: "awaits i pl (fst s1)"
    "server_peer l (result_post g i pl) s1 = (Answered 200 (Inr j), (db', n'))" by blast
  from server_peer_200 [OF s1(2)] obtain j' where ans: "server_answer (sl_clock l (snd s1)) (result_post g i pl) (fst s1) = (Answered 200 (Inr j'), db')"
    by auto
  define out where "out = submit_investigation_result (sl_clock l (snd s1)) (Some (bearer g)) (Some i) (Some (pl_job_id pl)) (received pl) (fst s1)"
  have r: "reply_of (fst out) = Answered 200 (Inr j')" "snd out = db'" using ans by (simp_all add: server_answer_def result_post_def out_def apfst_def map_prod_def split: prod.splits)
  have "\<exists>iv'. fst out = Inr iv'"
  proof (cases "fst out")
    case (Inl e)
    obtain c m where e: "e = HTTPException c m" by (cases e)
    with Inl r(1) have "c = 200" by simp
    moreover have "c \<noteq> 200"
      using Inl e unfolding out_def submit_investigation_result_def auth_inv_key_def bad_investigation_id_def no_investigation_def
      by (auto simp: Let_def split: option.splits if_splits sum.splits prod.splits callback_error.splits)
    ultimately show ?thesis by simp
  qed blast
  then obtain iv' where "fst out = Inr iv'" by blast
  from route_awaits(2) [OF s1(1) pl(1) this [unfolded out_def]] r(2) have "\<exists>r. get_inv i db' = Some r \<and> iv_status r = IV_COMPLETED \<and> iv_report r = Some report"
    by (simp add: out_def pl(2))
  then show ?thesis using x(1,2) by (auto simp: i_def)
qed

text \<open>C34: a report counts once across the two services: once the server has stored a result for an investigation, whatever
  DeepAgent still sends about it (the rest of its retries after an answer was lost, its report of failure after that,
  a whole second run of the job) leaves the stored investigation as it is.\<close>

theorem stored_result_final:
  assumes "submit_external_result now (rq_investigation_id q) key b db = (Inr r, db1)"
  shows "get_inv (rq_investigation_id q) (fst (snd (execute_job prepared w (server_peer l) q job (db1, n)))) = Some r"
proof -
  have "holds_result (rq_investigation_id q) key r (fst (db1, n))" using accepted_holds [OF assms] by simp
  from held.execute_keeps [OF refl refl this, of prepared w l job] show ?thesis by (simp add: holds_result_def)
qed

subsection \<open>What is not noticed\<close>

definition job_status_text :: "job_status \<Rightarrow> string" where
  "job_status_text st = (case st of J_QUEUED \<Rightarrow> ''queued'' | J_RUNNING \<Rightarrow> ''running'' | J_COMPLETED \<Rightarrow> ''completed'' | J_FAILED \<Rightarrow> ''failed'')"

definition job_body :: "deep_job \<Rightarrow> json" where
  "job_body j = JObj [(''job_id'', JStr (jb_id j)), (''status'', JStr (job_status_text (jb_status j))), (''error'', opt_str (jb_error j))]"

text \<open>The question of the server for a job, answered by the service.\<close>

definition service_get :: "deep_settings \<Rightarrow> string \<Rightarrow> deep_service \<Rightarrow> string \<Rightarrow> http_reply" where
  "service_get g token sv i =
     (case get_job g (Some (''Bearer '' @ token)) i sv of
        Inl (HTTPException c m) \<Rightarrow> Answer c (Inr JNull)
      | Inr j \<Rightarrow> Answer 200 (Inr (job_body j)))"

text \<open>
  The reconciliation of the server does not read the status of a job: a job that failed and whose reports were all lost
  leaves its investigation waiting, in a place of the queue, at every check from then on.
\<close>

lemma failed_job_unnoticed:
  assumes "iv_job_id iv = Some (jb_id j)" and "jb_id j \<noteq> []" and "iv_hermes_status iv \<noteq> Some ''dispatch_uncertain''"
    and "get_job g (Some (''Bearer '' @ token)) (jb_id j) sv = Inr j" and "jb_status j = J_FAILED"
  shows "state_check_deepagent_job da (service_get g token sv) now iv db = (Inr (), iv, db)"
  using assms by (simp add: state_check_deepagent_job_def service_get_def job_answer_def)

end
