(* ===== verification/DeepResults.thy ===== *)
theory DeepResults
  imports DeepRuns
begin

text \<open>
  What an investigation of DeepAgent that ends well has found: each step of the plan left an item of evidence, the
  assessment cites items that were shown to the model, the report is the one of that assessment and those items. Then
  the cases the code does not handle.
\<close>

subsection \<open>Evidence of each step\<close>

definition covered :: "case_state \<Rightarrow> bool" where
  "covered s \<longleftrightarrow> cs_index s \<le> length (steps_of s) \<and> ps_tool ` set (take (cs_index s) (steps_of s)) \<subseteq> ei_tool ` set (cs_evidence s)"

definition ready :: "deep_world \<Rightarrow> node \<Rightarrow> case_state \<Rightarrow> bool" where
  "ready w n s \<longleftrightarrow> covered s \<and> (case n of
     Collect \<Rightarrow> cs_index s < length (steps_of s)
   | Plan_tier2 \<Rightarrow> cs_index s = length (steps_of s)
   | Assess \<Rightarrow> cs_index s = length (steps_of s)
   | Render_report \<Rightarrow> cs_index s = length (steps_of s) \<and>
       (\<exists>a es. cs_assessment s = Some a \<and> budgeted w s = Inr es \<and> cites (map ei_id es) a)
   | _ \<Rightarrow> False)"

lemma asked_item_tool [simp]: "ei_tool (asked_item i t now r) = t"
  by (simp add: asked_item_def failed_item_def good_item_def split: sum.splits)

lemma envelope_item_tool [simp]: "ei_tool (envelope_item i t now p) = t"
  by (simp add: envelope_item_def failed_item_def Let_def)

lemma asked_item_id [simp]: "ei_id (asked_item i t now r) = i"
  by (simp add: asked_item_def failed_item_def good_item_def split: sum.splits)

lemma envelope_item_id [simp]: "ei_id (envelope_item i t now p) = i"
  by (simp add: envelope_item_def failed_item_def Let_def)

lemma collect_details_grows: "\<exists>new. fst (collect_details w q k xs es m) = es @ new"
  by (induction w q k xs es m rule: collect_details.induct) (auto simp: Let_def)

lemma event_log_evidence:
  "\<exists>item new. cs_evidence (collect_event_log w s) = cs_evidence s @ item # new \<and> ei_tool item = ''windows_event_logs'' \<and>
     ei_id item = evidence_id (Suc (cs_index s))"
proof -
  define r where "r = collect_event_log_triage (dw_bridge w) (dw_settings w) (rq_client_id (cs_request s))
      (case_org (dw_settings w) (cs_request s)) (rq_from (cs_request s)) (rq_to (cs_request s)) ''security_core'' (cs_mcp s)"
  define item where "item = asked_item (evidence_id (cs_index s + 1)) ''windows_event_logs'' (clock_now w (cs_evidence s)) r"
  have "\<exists>new. cs_evidence (collect_event_log w s) = cs_evidence s @ item # new"
  proof (cases "fst r")
    case (Inl e)
    then show ?thesis by (simp add: collect_event_log_def Let_def r_def [symmetric] item_def)
  next
    case (Inr triage)
    define xs where "xs = take max_detail_calls (fst (plan_expansions w (cs_request s) triage))"
    have "cs_evidence (collect_event_log w s) =
        fst (collect_details w (cs_request s) (cs_index s + 2) xs (cs_evidence s @ [item]) (snd r))"
      using Inr by (simp add: collect_event_log_def Let_def r_def [symmetric] item_def xs_def split: prod.splits)
    then show ?thesis using collect_details_grows [of w "cs_request s" "cs_index s + 2" xs "cs_evidence s @ [item]" "snd r"] by auto
  qed
  then show ?thesis by (auto simp: item_def)
qed

lemma tool_evidence:
  "\<exists>item. cs_evidence (collect_tool w t s) = cs_evidence s @ [item] \<and> ei_tool item = t \<and> ei_id item = evidence_id (Suc (cs_index s))"
proof -
  define r where "r = collect (dw_bridge w) (dw_settings w) t (rq_client_id (cs_request s)) (case_org (dw_settings w) (cs_request s))
      (rq_from (cs_request s)) (rq_to (cs_request s)) 50 0 (custom_tool_names (cs_request s)) (cs_mcp s)"
  define item where "item = (case fst r of Inl e \<Rightarrow> failed_item (evidence_id (Suc (cs_index s))) t (clock_now w (cs_evidence s)) e
      | Inr p \<Rightarrow> envelope_item (evidence_id (Suc (cs_index s))) t (clock_now w (cs_evidence s)) p)"
  have "cs_evidence (collect_tool w t s) = cs_evidence s @ [item]"
    by (simp add: collect_tool_def Let_def r_def [symmetric] item_def)
  moreover have "ei_tool item = t" "ei_id item = evidence_id (Suc (cs_index s))"
    by (cases "fst r"; simp add: item_def failed_item_def)+
  ultimately show ?thesis by blast
qed

lemma collect_covered:
  assumes "collect_node w s = (Inr u, s')" and "covered s"
  shows "covered s'"
proof -
  note sel = collect_node_sel [OF assms(1)]
  from sel(5) obtain step rest where d: "drop (cs_index s) (steps_of s) = step # rest" by (cases "drop (cs_index s) (steps_of s)") auto
  have nth: "steps_of s ! cs_index s = step" using d sel(5) by (metis Cons_nth_drop_Suc list.inject)
  have "\<exists>item new. cs_evidence s' = cs_evidence s @ item # new \<and> ei_tool item = ps_tool step"
    using assms(1) d event_log_evidence [of w s] tool_evidence [of w "ps_tool step" s]
    by (auto simp: collect_node_def split: if_splits)
  then have "ei_tool ` set (cs_evidence s) \<subseteq> ei_tool ` set (cs_evidence s')" "ps_tool step \<in> ei_tool ` set (cs_evidence s')" by auto
  moreover have "steps_of s' = steps_of s" using sel(2) by (simp add: steps_of_def)
  moreover have "take (Suc (cs_index s)) (steps_of s) = take (cs_index s) (steps_of s) @ [step]"
    using sel(5) nth by (simp add: take_Suc_conv_app_nth)
  ultimately show ?thesis using assms(2) sel(1,5) by (auto simp: covered_def)
qed

lemma ready_step:
  assumes "ready w n s" and "exec_node w n s = (Inr u, s')" and "next_node n s' = Some n'"
  shows "ready w n' s'"
proof (cases n)
  case Collect
  with assms have c: "collect_node w s = (Inr u, s')" and n': "n' = after_collect s'" and r: "covered s"
    by (simp_all add: exec_node_def next_node_def ready_def)
  have cov: "covered s'" by (rule collect_covered [OF c r])
  have "cs_index s' \<le> length (steps_of s')" using cov by (simp add: covered_def)
  with cov show ?thesis by (auto simp: n' after_collect_def ready_def)
next
  case Plan_tier2
  with assms have t: "plan_tier2_node w s = (Inr u, s')" and n': "n' = after_tier2_plan s'"
    and i: "cs_index s = length (steps_of s)" and r: "covered s"
    by (simp_all add: exec_node_def next_node_def ready_def)
  note sel = tier2_node_sel [OF t]
  from sel(6) obtain extra where "steps_of s' = steps_of s @ extra" by blast
  with sel i r show ?thesis by (auto simp: n' after_tier2_plan_def ready_def covered_def)
next
  case Assess
  with assms have a: "assess_node w s = (Inr u, s')" and n': "n' = Render_report" and i: "cs_index s = length (steps_of s)" and r: "covered s"
    by (simp_all add: exec_node_def next_node_def ready_def)
  then obtain es a0 where es: "budgeted w s = Inr es" and s': "s' = s\<lparr>cs_assessment :=
      Some ((validate_assessment_evidence a0 es)\<lparr>as_limitations := as_limitations (validate_assessment_evidence a0 es) @ cs_limits s\<rparr>)\<rparr>"
    by (auto simp: assess_node_def Let_def split: sum.splits)
  have "budgeted w s' = Inr es" using es by (simp add: s' budgeted_def)
  moreover have "steps_of s' = steps_of s" "covered s'" using r by (simp_all add: s' steps_of_def covered_def)
  ultimately show ?thesis using i validated_cites [of es a0] by (simp add: n' ready_def s')
next
  case Render_report
  with assms(3) show ?thesis by (simp add: next_node_def)
qed (use assms(1) in \<open>simp_all add: ready_def\<close>)

definition found :: "deep_world \<Rightarrow> case_state \<Rightarrow> bool" where
  "found w s \<longleftrightarrow> ps_tool ` set (steps_of s) \<subseteq> ei_tool ` set (cs_evidence s) \<and>
     (\<exists>a es. cs_assessment s = Some a \<and> budgeted w s = Inr es \<and> cites (map ei_id es) a \<and>
        cs_report s = Some (build_markdown_report (cs_request s) a es))"

lemma ready_end:
  assumes "ready w Render_report s" and "exec_node w Render_report s = (Inr u, s')"
  shows "found w s'"
proof -
  from assms(1) obtain a es where a: "cs_assessment s = Some a" "budgeted w s = Inr es" "cites (map ei_id es) a"
    "covered s" "cs_index s = length (steps_of s)" by (auto simp: ready_def)
  with assms(2) have s': "s' = s\<lparr>cs_report := Some (build_markdown_report (cs_request s) a es)\<rparr>"
    by (simp add: exec_node_def render_node_def)
  have "budgeted w s' = budgeted w s" "steps_of s' = steps_of s" by (simp_all add: s' budgeted_def steps_of_def)
  with a show ?thesis by (auto simp: found_def s' covered_def)
qed

lemma run_found: "ready w n s \<Longrightarrow> run_graph w k n s = (Finished, s') \<Longrightarrow> found w s'"
proof (induction k arbitrary: n s)
  case 0
  then show ?case by simp
next
  case (Suc k)
  obtain r s1 where x: "exec_node w n s = (r, s1)" by (cases "exec_node w n s")
  with Suc.prems(2) obtain u where r: "r = Inr u" by (cases r) auto
  show ?case
  proof (cases "next_node n s1")
    case None
    then have "n = Render_report" by (cases n) (simp_all add: next_node_def)
    moreover have "s1 = s'" using Suc.prems(2) x r None by simp
    ultimately show ?thesis using ready_end Suc.prems(1) x r by simp
  next
    case (Some n')
    with Suc.prems(2) x r have "run_graph w k n' s1 = (Finished, s')" by simp
    with Suc.IH ready_step [OF Suc.prems(1) _ Some, of u] x r show ?thesis by simp
  qed
qed

lemma run_request: "cs_request (snd (run_graph w k n s)) = cs_request s"
proof (induction k arbitrary: n s)
  case (Suc k)
  obtain r s1 where x: "exec_node w n s = (r, s1)" by (cases "exec_node w n s")
  have "cs_request s1 = cs_request s" using exec_request [of w n s] by (simp add: x)
  with Suc show ?case by (auto simp: x split: sum.splits option.splits)
qed simp

lemma investigate_found:
  assumes "0 \<le> ds_max_steps (dw_settings w)" and "investigate w q m = (Finished, s)"
  shows "found w s" and "cs_request s = q"
proof -
  show "cs_request s = q"
    using run_request [of w "nat (ds_max_steps (dw_settings w) + 8)" Verify_target "start_state q m"] assms(2)
    by (simp add: investigate_def start_state_def)
  show "found w s"
  proof (rule investigate_cases [OF assms(1), of q m])
    fix e s0 assume "investigate w q m = (Stopped e, s0)"
    with assms(2) show ?thesis by simp
  next
    fix s0 assume s0: "collection_starts w q m s0" "in_step Collect s0"
      "investigate w q m = run_graph w (nat (ds_max_steps (dw_settings w) + 6)) Collect s0"
    have "ready w Collect s0" using collection_starts_sel [OF s0(1) assms(1)] s0(2) by (simp add: ready_def covered_def in_step_def)
    with run_found s0(3) assms(2) show ?thesis by metis
  qed
qed

text \<open>C38: an investigation that ends well hides nothing and invents nothing: every step of its plan, those of the second
  tier included, left an item of evidence with its tool, a failed call too; each finding and each indicator of the
  assessment cites items that the model was shown; and the report is the one of that assessment and those items.\<close>

theorem investigation_grounded:
  assumes "0 \<le> ds_max_steps (dw_settings w)" and "investigate w q m = (Finished, s)"
  shows "ps_tool ` set (steps_of s) \<subseteq> ei_tool ` set (cs_evidence s) \<and>
    (\<exists>a es. cs_assessment s = Some a \<and> fit_evidence_budget (dw_stamp w) (cs_evidence s) (ds_max_evidence_chars (dw_settings w)) = Inr es \<and>
      (\<forall>f\<in>set (as_findings a). fi_refs f \<noteq> [] \<and> set (fi_refs f) \<subseteq> ei_id ` set es) \<and>
      (\<forall>i\<in>set (as_iocs a). io_ref i \<in> ei_id ` set es) \<and>
      cs_report s = Some (build_markdown_report q a es))"
  using investigate_found [OF assms] by (auto simp: found_def budgeted_def cites_def)

text \<open>The evidence that the model and the report see fits its budget of characters (two for the empty list) and is a
  part of what was collected, in its order: an item that is kept keeps everything but its data, so no identifier,
  tool, outcome or error is changed by the cut.\<close>

theorem evidence_fits_budget:
  assumes "fit_evidence_budget stamp es n = Inr r"
  shows "int (length (serialize stamp r)) \<le> max 2 n" and "subseq (map about r) (map about es)"
proof -
  show "int (length (serialize stamp r)) \<le> max 2 n"
    using budget_fits [OF assms] by (auto simp: fits_def serialize_none)
  show "subseq (map about r) (map about es)" by (rule budget_about [OF assms])
qed

text \<open>No first-tier artifact of a plan is one that the code does not name: whatever tiers and platforms the backend
  writes into a request, the artifacts that a first plan may contain are among the fixed ones for the platform; and
  when the request declares a tier, only those that it declares in that tier and for that platform.\<close>

theorem plan_within_whitelist:
  assumes "sanitize_plan plan limit (initial_custom_tool_names q) (rq_platform q) = Inr p" and "0 \<le> limit" and "s \<in> set (cp_steps p)"
  shows "ps_tool s \<in> fst ` set (tool_policies_for (rq_platform q)) \<union> set (tier1_custom_tools (rq_platform q))"
    and "has_tier_n q TIER1 \<Longrightarrow> ps_tool s \<notin> fst ` set (tool_policies_for (rq_platform q)) \<Longrightarrow>
      \<exists>r\<in>set (rq_custom q). ps_tool s = custom_tool_prefix @ cr_name r \<and> cr_tier r = TIER1 \<and> rq_platform q \<in> set (cr_platforms r)"
  using sanitize_plan_sound(4) [OF assms] initial_names_hardcoded [of q] initial_names_of_ref [of q "ps_tool s"] by auto

subsection \<open>What is not handled\<close>

text \<open>There is no tool for macOS, so such an investigation always fails.\<close>

lemma macos_never_investigated:
  assumes "rq_platform q = MACOS"
  shows "fst (investigate w q m) \<noteq> Finished"
proof -
  have none: "initial_custom_tool_names q = []"
    using initial_names_hardcoded [of q] assms by (simp add: tier1_custom_tools_def)
  have "\<exists>e. fst (plan_node w s) = Inl e" if "cs_request s = q" for s
    using that by (auto simp: plan_node_def Let_def none assms sanitize_plan_macos split: sum.splits)
  moreover have "cs_request (snd (verify_node w (start_state q m))) = q"
    using exec_request [of w Verify_target "start_state q m"] by (simp add: exec_node_def start_state_def)
  ultimately obtain e where e: "fst (plan_node w (snd (verify_node w (start_state q m)))) = Inl e" by blast
  show ?thesis
  proof (cases "nat (ds_max_steps (dw_settings w) + 8)")
    case 0
    then show ?thesis by (simp add: investigate_def)
  next
    case (Suc k)
    with e show ?thesis
      by (cases k) (auto simp: investigate_def exec_node_def next_node_def split: prod.splits sum.splits)
  qed
qed

text \<open>
  A request without first-tier artifacts is planned with the fixed ones, but the adapter takes only artifacts that the
  request names: such a step always fails, without a call.
\<close>

lemma fallback_artifact_refused:
  assumes "t \<in> set (tier1_custom_tools p)" and "t \<notin> set custom"
  shows "collect b g t cid org f t' limit offset custom m = (Inl (policy_error (''Custom artifact khong co trong request: '' @ t)), m)"
  using assms by (auto simp: collect_def collect_custom_def tier1_custom_tools_def custom_tool_prefix_def starts_with_def split: platform.splits)

text \<open>Items may be dropped from the evidence although the budget is not zero.\<close>

definition sample_item :: evidence_item where
  "sample_item = good_item ''E-001'' ''windows_pslist'' 0 (JArr [])"

lemma item_dropped: "fit_evidence_budget (\<lambda>_. '''') [sample_item] 20 = Inr []"
  by code_simp

text \<open>
  The items of detail calls are numbered on from the item of their step, and so are those of the next step: two items
  of one investigation share an identifier.
\<close>

definition sample_bridge :: bridge where
  "sample_bridge = \<lparr>br_tools = Inr (map (\<lambda>n. \<lparr>bt_name = n, bt_args = None\<rparr>)
       [''list_clients'', ''windows_event_logs_triage'', ''windows_event_logs_detail'', ''windows_pslist'']),
     br_call = (\<lambda>_ n _. Returned (Value (JObj [(''ok'', JBool True), (''data'',
        if n = ''list_clients'' then JArr [JObj [(''client_id'', JStr ''C.1'')]]
        else if n = ''windows_event_logs_triage'' then JObj [(''sampled_event_ids'', JArr [JStr ''4624''])]
        else JNull)]))),
     br_loads = (\<lambda>_. None), br_str = (\<lambda>_. '''')\<rparr>"

definition sample_deep_settings :: deep_settings where
  "sample_deep_settings = \<lparr>ds_service_token = ''t'', ds_max_jobs = 1, ds_backend_url = ''http://b/'', ds_backend_key = ''k'',
     ds_llm_model = ''m'', ds_org_id = '''', ds_max_steps = 3, ds_max_evidence_chars = 120000, ds_max_result_chars = 30000\<rparr>"

definition sample_finding :: case_finding where
  "sample_finding = \<lparr>fi_id = ''F-001'', fi_title = ''T'', fi_severity = ''low'', fi_confidence = ''low'', fi_status = ''observed'',
     fi_refs = [''E-002''], fi_evidence = ''x'', fi_mitre = None, fi_recommendation = ''r''\<rparr>"

definition sample_analyst :: analyst where
  "sample_analyst = \<lparr>an_name = ''m'',
     an_plan = (\<lambda>_. Inr \<lparr>cp_hypothesis = ''h'', cp_steps = [\<lparr>ps_tool = ''windows_event_logs'', ps_rationale = ''r''\<rparr>,
       \<lparr>ps_tool = ''windows_pslist'', ps_rationale = ''r''\<rparr>]\<rparr>),
     an_expand = (\<lambda>_ _ _. Inr [Fields (Aware 10 0) (Aware 20 0) [''4624''] ''r'']),
     an_tier2 = (\<lambda>_ _ _. Inr []),
     an_assess = (\<lambda>_ _. Inr \<lparr>as_severity = ''low'', as_confidence = ''low'', as_summary = ''s'', as_conclusion = ''c'',
       as_findings = [sample_finding], as_iocs = [], as_limitations = []\<rparr>)\<rparr>"

definition sample_deep_world :: deep_world where
  "sample_deep_world = \<lparr>dw_bridge = sample_bridge, dw_settings = sample_deep_settings, dw_analyst = sample_analyst,
     dw_clock = (\<lambda>_. 0), dw_stamp = (\<lambda>_. ''''), dw_shown = (\<lambda>m. m)\<rparr>"

definition sample_request :: case_request where
  "sample_request = \<lparr>rq_investigation_id = 1, rq_client_id = ''C.1'', rq_hostname = ''pc'', rq_platform = WINDOWS, rq_from = 0,
     rq_to = 100, rq_activity = ''a'', rq_org_id = None,
     rq_llm = \<lparr>lr_base_url = '''', lr_api_key = '''', lr_model = ''m'', lr_system_prompt = None\<rparr>, rq_yaml = '''', rq_custom = []\<rparr>"

lemma item_ids_shared:
  "map ei_id (cs_evidence (snd (run_graph sample_deep_world 4 Verify_target (start_state sample_request fresh_mcp)))) =
     [''E-001'', ''E-002'', ''E-002'']"
  by code_simp

subsection \<open>A run\<close>

text \<open>One step whose call is late: the failure is an item, the finding that cites it stays.\<close>

definition late_bridge :: bridge where
  "late_bridge = sample_bridge\<lparr>br_call := (\<lambda>k n args. if n = ''windows_pslist'' then Late else br_call sample_bridge k n args)\<rparr>"

definition late_analyst :: analyst where
  "late_analyst = sample_analyst\<lparr>an_plan := (\<lambda>_. Inr \<lparr>cp_hypothesis = ''h'', cp_steps = [\<lparr>ps_tool = ''windows_pslist'', ps_rationale = ''r''\<rparr>]\<rparr>),
     an_assess := (\<lambda>_ _. Inr \<lparr>as_severity = ''low'', as_confidence = ''low'', as_summary = ''s'', as_conclusion = ''c'',
       as_findings = [sample_finding\<lparr>fi_refs := [''E-001'']\<rparr>, sample_finding], as_iocs = [], as_limitations = []\<rparr>)\<rparr>"

definition late_world :: deep_world where
  "late_world = sample_deep_world\<lparr>dw_bridge := late_bridge, dw_analyst := late_analyst\<rparr>"

definition late_item :: evidence_item where
  "late_item = failed_item ''E-001'' ''windows_pslist'' 0 (mcp_tool_timeout ''windows_pslist'')"

definition late_collected :: "case_state \<Rightarrow> bool" where
  "late_collected s \<longleftrightarrow> cs_request s = sample_request \<and> cs_evidence s = [late_item] \<and> cs_index s = 1 \<and> \<not> cs_tier2 s \<and>
     steps_of s = [\<lparr>ps_tool = ''windows_pslist'', ps_rationale = ''r''\<rparr>] \<and> cs_limits s = []"

lemma late_sel:
  "dw_settings late_world = sample_deep_settings" "an_tier2 (dw_analyst late_world) q es names = Inr []"
  "\<exists>a. an_assess (dw_analyst late_world) q es = Inr a" "ds_max_steps sample_deep_settings = 3"
  by (simp_all add: late_world_def sample_deep_world_def late_analyst_def sample_analyst_def sample_deep_settings_def)

lemma late_start:
  "fst (verify_node late_world (start_state sample_request fresh_mcp)) = Inr ()"
  "fst (plan_node late_world (snd (verify_node late_world (start_state sample_request fresh_mcp)))) = Inr ()"
  "fst (collect_node late_world (snd (plan_node late_world (snd (verify_node late_world (start_state sample_request fresh_mcp)))))) = Inr ()"
  "late_collected (snd (collect_node late_world (snd (plan_node late_world (snd (verify_node late_world (start_state sample_request fresh_mcp)))))))"
  by code_simp+

lemma late_item_fits: "fits (\<lambda>_. '''') 120000 [late_item]"
  by code_simp

lemma late_budget: "cs_evidence s = [late_item] \<Longrightarrow> budgeted late_world s = Inr [late_item]"
  using late_item_fits
  by (simp add: budgeted_def fit_evidence_budget_def late_world_def sample_deep_world_def sample_deep_settings_def)

lemma run_step:
  "fst (exec_node w n s) = Inr u \<Longrightarrow> next_node n (snd (exec_node w n s)) = Some n' \<Longrightarrow>
     run_graph w (Suc k) n s = run_graph w k n' (snd (exec_node w n s))"
  by (cases "exec_node w n s") simp

lemma run_last: "fst (exec_node w Render_report s) = Inr u \<Longrightarrow> fst (run_graph w (Suc k) Render_report s) = Finished"
  by (cases "exec_node w Render_report s") (simp add: next_node_def)

lemma late_rest: "late_collected s \<Longrightarrow> fst (run_graph late_world (Suc (Suc (Suc k))) Plan_tier2 s) = Finished"
proof -
  assume s: "late_collected s"
  have names: "tier2_custom_tool_names sample_request \<noteq> []"
    by (simp add: tier2_custom_tool_names_def has_tier_n_def sample_request_def tier2_custom_tools_def)
  define s1 where "s1 = s\<lparr>cs_tier2 := True\<rparr>"
  have t: "exec_node late_world Plan_tier2 s = (Inr (), s1)"
    using s names late_budget [of s]
    by (simp add: exec_node_def plan_tier2_node_def late_collected_def Let_def late_sel s1_def)
  have b: "budgeted late_world s1 = Inr [late_item]" using s late_budget [of s1] by (simp add: late_collected_def s1_def)
  define s2 where "s2 = snd (assess_node late_world s1)"
  obtain a0 where a0: "an_assess (dw_analyst late_world) (cs_request s1) [late_item] = Inr a0" using late_sel(3) by blast
  have a: "assess_node late_world s1 = (Inr (), s2)" and s2: "cs_assessment s2 \<noteq> None" "cs_evidence s2 = [late_item]"
    using s by (simp_all add: s2_def assess_node_def b a0 Let_def) (simp add: s1_def late_collected_def)
  have r: "fst (render_node late_world s2) = Inr ()"
    using s2 late_budget [of s2] by (auto simp: render_node_def)
  have "next_node Plan_tier2 s1 = Some Assess"
    using s by (simp add: next_node_def after_tier2_plan_def late_collected_def steps_of_def s1_def)
  then have "run_graph late_world (Suc (Suc (Suc k))) Plan_tier2 s = run_graph late_world (Suc (Suc k)) Assess s1"
    using run_step [of late_world Plan_tier2 s "()" Assess "Suc (Suc k)"] by (simp add: t)
  also have "\<dots> = run_graph late_world (Suc k) Render_report s2"
    using run_step [of late_world Assess s1 "()" Render_report "Suc k"] a by (simp add: exec_node_def next_node_def)
  finally show ?thesis using run_last [of late_world s2 "()" k] r by (simp add: exec_node_def)
qed

lemma late_run: "fst (investigate late_world sample_request fresh_mcp) = Finished"
proof -
  define s0 where "s0 = start_state sample_request fresh_mcp"
  define s1 where "s1 = snd (verify_node late_world s0)"
  define s2 where "s2 = snd (plan_node late_world s1)"
  define s3 where "s3 = snd (collect_node late_world s2)"
  note start = late_start [folded s0_def, folded s1_def, folded s2_def, folded s3_def]
  have lim: "nat (ds_max_steps (dw_settings late_world) + 8) = Suc (Suc (Suc (Suc (Suc (Suc 5)))))"
    by (simp add: late_sel)
  have n: "next_node Collect s3 = Some Plan_tier2"
    using start(4) by (simp add: next_node_def after_collect_def late_collected_def)
  have "investigate late_world sample_request fresh_mcp = run_graph late_world (Suc (Suc (Suc (Suc (Suc (Suc 5)))))) Verify_target s0"
    by (simp only: investigate_def lim s0_def)
  also have "\<dots> = run_graph late_world (Suc (Suc (Suc (Suc (Suc 5))))) Plan s1"
    using run_step [of late_world Verify_target s0 "()" Plan] start(1) by (simp only: exec_node_def node.case next_node_def s1_def)
  also have "\<dots> = run_graph late_world (Suc (Suc (Suc (Suc 5)))) Collect s2"
    using run_step [of late_world Plan s1 "()" Collect] start(2) by (simp only: exec_node_def node.case next_node_def s2_def)
  also have "\<dots> = run_graph late_world (Suc (Suc (Suc 5))) Plan_tier2 s3"
    using run_step [of late_world Collect s2 "()" Plan_tier2] start(3) n by (simp only: exec_node_def node.case s3_def)
  finally show ?thesis by (simp only: late_rest [OF start(4)])
qed

text \<open>The hypotheses of the properties hold at the samples.\<close>

lemma investigation_ends_witness: "fst (investigate sample_deep_world sample_request fresh_mcp) \<noteq> Out_of_steps"
  by (rule investigation_ends) (simp add: sample_deep_world_def sample_deep_settings_def)

lemma investigation_grounded_witness:
  "ps_tool ` set (steps_of (snd (investigate late_world sample_request fresh_mcp)))
     \<subseteq> ei_tool ` set (cs_evidence (snd (investigate late_world sample_request fresh_mcp)))"
  by (rule investigation_grounded [of late_world sample_request fresh_mcp, THEN conjunct1])
    (simp_all add: late_run prod_eq_iff late_sel)

lemma evidence_fits_budget_witness:
  "int (length (serialize (\<lambda>_. '''') [])) \<le> 20 \<and> subseq [] (map about [sample_item])"
  using evidence_fits_budget [OF item_dropped] by simp

end
