(* ===== verification/DeepCases.thy ===== *)
theory DeepCases
  imports DeepServer DeepResults InvestigationCases
begin

text \<open>
  Concrete jobs of DeepAgent: the properties of its plans, its service and its reports at work on small inputs.
\<close>

subsection \<open>A network that loses the first messages\<close>

definition sample_link :: server_link where
  "sample_link = \<lparr>sl_clock = int, sl_delivery = (\<lambda>n. if n < 3 then Never_arrives else Arrives)\<rparr>"

definition sample_key :: api_key where
  "sample_key = \<lparr>ak_id = 7, ak_key_hash = sha256_hex ''k'', ak_scope = ''investigation:write'', ak_org_id = None,
     ak_enabled = True, ak_last_used_at = None\<rparr>"

definition keyed_rows :: dfir where
  "keyed_rows = sample_rows\<lparr>df_keys := [sample_key]\<rparr>"

lemma lost_message:
  "ds_backend_key g \<noteq> [] \<Longrightarrow> n < 3 \<Longrightarrow>
     tell_status g (server_peer sample_link) i job phase pct step steps msg (db, n) = (db, Suc n)"
  by (simp add: tell_status_def submit_status_def server_peer_def sample_link_def)

lemma sample_texts:
  "extract_bearer (Some ''Bearer k'') = Some ''k''" "split_ws ''investigation:write'' = [''investigation:write'']"
  "strip (job_name 1) = job_name 1" "length (job_name 1) = 46" "job_name 1 \<noteq> []"
  by code_simp+

lemma sample_auth:
  "auth_inv_key now (Some ''Bearer k'') [''investigation:write''] keyed_rows =
     (Inr sample_key, sample_rows\<lparr>df_keys := [sample_key\<lparr>ak_last_used_at := Some now\<rparr>]\<rparr>)"
  by (simp add: auth_inv_key_def sample_texts keyed_rows_def sample_key_def update_where_def)

lemma sample_report_accepted:
  assumes "pl_error pl = None" and "pl_job_id pl = job_name 1"
  shows "\<exists>iv. fst (submit_investigation_result now (Some ''Bearer k'') (Some 1) (Some (job_name 1)) (received pl) keyed_rows) = Inr iv"
  using assms
  by (simp add: submit_investigation_result_def sample_auth sample_texts Let_def submit_external_result_def get_inv_def
      received_def is_deepagent_def truthy_def del: One_nat_def)


text \<open>A job whose three messages about its progress are lost, and whose report arrives.\<close>

lemma sample_job_done:
  "\<exists>st'. execute_job (Inr ()) late_world (server_peer sample_link) sample_request (job_name 1) (keyed_rows, 0) = (None, st')"
proof -
  obtain st where out: "investigate late_world sample_request fresh_mcp = (Finished, st)"
    using late_run by (cases "investigate late_world sample_request fresh_mcp") simp
  from investigate_found(1) [OF _ out] obtain a report where a: "cs_assessment st = Some a" "cs_report st = Some report"
    by (auto simp: found_def late_sel)
  have g: "ds_backend_key sample_deep_settings = ''k''" "rq_investigation_id sample_request = 1"
    by (simp_all add: sample_deep_settings_def sample_request_def)
  define pl where "pl = result_payload (an_name (dw_analyst late_world)) (job_name 1) a report (cs_evidence st)"
  define post where "post = result_post sample_deep_settings 1 pl"
  have "pl_error pl = None" "pl_job_id pl = job_name 1" by (simp_all add: pl_def result_payload_def)
  from sample_report_accepted [OF this, of 3] obtain iv where
    iv: "fst (submit_investigation_result 3 (Some ''Bearer k'') (Some 1) (Some (job_name 1)) (received pl) keyed_rows) = Inr iv" ..
  have "fst (server_peer sample_link post (keyed_rows, 3)) = Answered 200 (Inr JNull)"
    using iv \<open>pl_job_id pl = job_name 1\<close>
    by (auto simp add: server_peer_def sample_link_def server_answer_def post_def result_post_def bearer_def g Let_def
        apfst_def map_prod_def simp del: One_nat_def split: prod.splits)
  then have "\<exists>st'. submit_result sample_deep_settings (server_peer sample_link) 1 pl (keyed_rows, 3) = (Inr JNull, st')"
    by (cases "server_peer sample_link post (keyed_rows, 3)")
      (simp add: submit_result_def g post_def numeral_3_eq_3 attempt_of_def)
  then show ?thesis
    by (auto simp: execute_job_def run_job_def Let_def out a late_sel g lost_message pl_def numeral_3_eq_3)
qed

lemma keyed_row: "get_inv 1 keyed_rows = Some sample_uncertain"
  by (simp add: get_inv_def keyed_rows_def)

lemma completed_job_delivered_witness:
  "\<exists>st r db. investigate late_world sample_request fresh_mcp = (Finished, st) \<and> get_inv 1 db = Some r \<and>
     iv_status r = IV_COMPLETED \<and> iv_report r = cs_report st"
proof -
  have "rq_investigation_id sample_request = 1" by (simp add: sample_request_def)
  moreover obtain db' n' where "execute_job (Inr ()) late_world (server_peer sample_link) sample_request (job_name 1) (keyed_rows, 0) =
      (None, (db', n'))" using sample_job_done by auto
  ultimately show ?thesis using completed_job_delivered keyed_row sample_rows_simps(6) by metis
qed

lemma stored_result_final_witness:
  "\<exists>r db. submit_external_result 5 1 (Some ''k'') sample_result sample_rows = (Inr r, db) \<and>
     get_inv 1 (fst (snd (execute_job (Inr ()) late_world (server_peer sample_link) sample_request ''again'' (db, 0)))) = Some r"
proof -
  have q: "rq_investigation_id sample_request = 1" by (simp add: sample_request_def)
  obtain r db where r: "submit_external_result 5 1 (Some ''k'') sample_result sample_rows = (Inr r, db)"
    using callback_counts_once_witness by blast
  with stored_result_final [of 5 sample_request "Some ''k''" sample_result sample_rows r db] show ?thesis by (auto simp: q)
qed

subsection \<open>Plans, calls and jobs\<close>

lemma investigation_calls_bounded_witness:
  "length (mc_calls (cs_mcp (snd (investigate sample_deep_world sample_request fresh_mcp)))) \<le> 16"
  using investigation_calls_bounded [of sample_deep_world sample_request fresh_mcp]
  by (simp add: sample_deep_world_def sample_deep_settings_def fresh_mcp_def)

definition sample_plan :: case_plan where
  "sample_plan = \<lparr>cp_hypothesis = ''h'', cp_steps = [\<lparr>ps_tool = ''windows_pslist'', ps_rationale = ''r''\<rparr>,
     \<lparr>ps_tool = ''windows_shell'', ps_rationale = ''r''\<rparr>]\<rparr>"

lemma sample_plan_kept:
  "sanitize_plan sample_plan 3 (initial_custom_tool_names sample_request) WINDOWS =
     Inr \<lparr>cp_hypothesis = ''h'', cp_steps = [\<lparr>ps_tool = ''windows_pslist'', ps_rationale = ''r''\<rparr>]\<rparr>"
  by code_simp

lemma plan_within_whitelist_witness:
  "''windows_pslist'' \<in> fst ` set (tool_policies_for WINDOWS) \<union> set (tier1_custom_tools WINDOWS)"
proof -
  have p: "rq_platform sample_request = WINDOWS" by (simp add: sample_request_def)
  show ?thesis
    using plan_within_whitelist(1) [of sample_plan 3 sample_request, unfolded p, OF sample_plan_kept] by simp
qed

definition sample_events :: "service_event list" where
  "sample_events = [Ask 0 (Some ''Bearer t'') sample_request, Enter, Leave 5 (deep_job_id 1) None]"

lemma sample_events_ok: "list_all uuid_event sample_events"
  by (simp add: sample_events_def uuid_event_def sample_request_def)


lemma job_lifecycle_refined_witness:
  "(job_moves 1)\<^sup>*\<^sup>* (\<lambda>_. None) (status_view (run (service_step sample_deep_settings) sample_events empty_service))"
  using job_lifecycle_refined [OF sample_events_ok, of sample_deep_settings] by (simp add: sample_deep_settings_def)
end
