(* ===== verification/Spec2Isabelle.thy ===== *)
theory Spec2Isabelle
  imports ClientIp EnrollProps Monitor AlertRules Organisations Accounts ProfileProps InvestigationCases DeepCases
begin

text \<open>
  The asset inventory: a shallow embedding of the FastAPI application under \<open>src/server/app\<close> and of the DeepAgent service
  under \<open>src/deepagent\<close>, and the theorems that make them correct.

  The program. Agents on the machines of an organisation enrol with a token, report by heartbeats and receive their
  configuration; people use a portal through the same API. The routes (\<open>api/routes/*.py\<close>) resolve the caller
  (\<open>api/deps.py\<close>), read and change the rows of a PostgreSQL database (\<open>db/models.py\<close>), append to a hash-chained
  audit log (\<open>core/audit.py\<close>) and call services (\<open>services/*.py\<close>). A background loop (\<open>services/monitor.py\<close>) turns
  silent machines offline, cleans up, creates partitions and raises alerts, which the alert engine turns into
  notifications for users, mail, webhooks and Telegram. A worker moves investigations of machines on, by itself or by
  the DeepAgent service, which questions the machine through a bridge to Velociraptor, lets a language model assess what
  it found and reports back.

  Conventions. A table is the list of its rows in insertion order, a row a record; identifiers are natural numbers
  that the database hands out; every operation takes the state it reads and returns the outcome (\<open>Inl\<close> a failure
  with its HTTP status, \<open>Inr\<close> the answer) and the new state. A session of SQLAlchemy is modelled by what the code
  commits: a failure before the commit returns the old state, one after a commit keeps what was committed, also where
  that is a flaw of the code. Strings are lists of code points below 256, so the Vietnamese texts of messages are
  spelled without diacritics or left out where no code reads them. Clock readings, random bytes, bcrypt, PyJWT,
  AES-GCM, pyotp, the certificate authority, Redis and HTTP clients are parameters; the hypotheses about them are the
  documented ones (a decrypted ciphertext is the plaintext, a digest separates texts) and each theorem that has one
  has a witness with a concrete instance. \<open>hashlib.sha256\<close>, \<open>json.dumps\<close>, \<open>ipaddress\<close>, \<open>datetime\<close> and \<open>difflib\<close> are
  modelled themselves. An operation is atomic; where the code has a race that the database decides (unique
  constraints, a row changed by another session), the operation takes what the other session did as a parameter.
  A column default \<open>datetime.now(UTC)\<close> that the code evaluates once at import is the start time of the process.

  The theories, with what they model and what their lemmas show:

  \<^item> \<open>Prelude\<close>: failures, Python strings, truth values and \<open>None\<close>, tables (\<open>update_where\<close>, lookups, paging); the
    locales \<open>step_system\<close> (an invariant kept by each operation is kept by every run of operations) and \<open>row_update\<close> (an
    update of rows that keeps their key), which the components interpret.
  \<^item> \<open>Json\<close>, \<open>Sha256\<close>, \<open>Datetime\<close>, \<open>IpAddress\<close>: the parts of the standard library the code calls.
  \<^item> \<open>AuditLog\<close> (\<open>core/audit.py\<close>): the canonical payload, \<open>append_audit\<close>, \<open>verify_chain\<close>. What is appended
    verifies, an edited row is detected, a truncated log is not.
  \<^item> \<open>Model\<close>: the rows and enumerations of \<open>db/models.py\<close> that several components share.
  \<^item> \<open>OrgScope\<close> (\<open>services/org_scope.py\<close>, \<open>deps.py\<close>): the walks over the organisation tree end, cyclic parent
    links included, and reach exactly the descendants, each once.
  \<^item> \<open>ClientIp\<close> (\<open>core/client_ip.py\<close>): headers of untrusted peers are ignored and the forwarded chain of trusted
    proxies cannot be spoofed from outside the trusted networks.
  \<^item> \<open>Security\<close>, \<open>Auth\<close> (\<open>core/security.py\<close>, \<open>api/routes/auth.py\<close>, \<open>api/deps.py\<close>): passwords, tokens, TOTP with its
    replay counter, login, refresh with rotation, logout, change of password. Refresh tokens and codes work once, the
    kinds of token are not exchangeable, a changed password ends the sessions.
  \<^item> \<open>AgentSettings\<close>: the effective configuration of agents and its bounds.
  \<^item> \<open>Tags\<close>, \<open>Fingerprint\<close>: machine tags keep their constraints; weighted identifiers and similarity.
  \<^item> \<open>Enroll\<close>, \<open>EnrollAdmin\<close>, \<open>EnrollProps\<close> (\<open>routes/enroll.py\<close>, \<open>tokens.py\<close>, \<open>enroll_attempts.py\<close>, \<open>drifts.py\<close>): the
    token gate, enrolment of new, known and drifting machines, the administrators' side; a token enrols one machine,
    a refusal leaves everything but the attempt unchanged.
  \<^item> \<open>Partition\<close> (\<open>services/partition.py\<close>): daily partitions under PostgreSQL's rules; no heartbeat is lost.
  \<^item> \<open>Templates\<close>, \<open>Notifications\<close>, \<open>Telegram\<close>, \<open>AlertEngine\<close>, \<open>AlertRules\<close>: alert templates, opt-outs, the mailbox of
    users and its deliveries, the bot with its cached view, the alert pipeline and the subscriptions.
  \<^item> \<open>Machines\<close> (\<open>routes/machines.py\<close>, \<open>heartbeat.py\<close>, \<open>renew.py\<close>), \<open>Monitor\<close> (\<open>services/monitor.py\<close>,
    \<open>realtime.py\<close>): the state machine of machine status; silent machines are lost, decommissioned ones stay, the loop
    keeps its schedule as long as no job raises.
  \<^item> \<open>Organisations\<close>, \<open>Accounts\<close> (\<open>routes/orgs.py\<close>, \<open>users.py\<close>): the tree shown, visibility of what is created; an
    active super administrator remains.
  \<^item> \<open>Profiles\<close>, \<open>ProfileParts\<close>, \<open>ProfileEffects\<close>, \<open>ProfileCodes\<close>, \<open>ProfileProps\<close> (\<open>routes/system_profiles.py\<close>,
    \<open>officers.py\<close>, \<open>it_contacts.py\<close>, \<open>device_types.py\<close>): security-level profiles, their approval workflow as a refinement
    of a transition table, their contents and catalogues, what approval seals and what passes the seal, the codes
    with their retry.

  \<^item> \<open>Investigation\<close>, \<open>InvestigationApi\<close> (\<open>services/dfir_investigation.py\<close>, \<open>routes/llm_dfir.py\<close>,
    \<open>routes/llm_dfir_external.py\<close>): investigations of machines, the worker that moves them on, the three orchestrators
    (DeepAgent, an outside one, the local language model), the routes of users and of outside workers. A worker keeps
    the rows it loaded in its session; what other sessions do between two commits is a function of the world
    (\<open>wd_others\<close>). \<open>InvestigationEffects\<close>, \<open>InvestigationProps\<close>, \<open>InvestigationQueue\<close>: every operation refines a state
    machine of statuses, a settled investigation stays, the capacity of DeepAgent is kept, an uncertain dispatch is
    released, a result counts once. \<open>InvestigationCases\<close>: samples, and the places where the code does not do what its
    comments say.
  \<^item> \<open>DeepCatalog\<close>, \<open>DeepEvidence\<close>, \<open>DeepBridge\<close>, \<open>DeepReport\<close>, \<open>DeepGraph\<close>, \<open>DeepService\<close> (\<open>src/deepagent/deepagent\<close>): the
    DeepAgent service: its catalogue of tools, the validation of plans and time windows, the budget of evidence, the
    adapter of the Velociraptor bridge, the report, the graph of nodes, and the jobs with their callbacks. The language
    model and the bridge are parameters that may answer anything, fail or be late. \<open>DeepRuns\<close>, \<open>DeepResults\<close>: an
    investigation ends, makes at most sixteen calls, each within its case, and reports what it collected. \<open>DeepJobs\<close>: the
    job table and the life of a job. \<open>DeepServer\<close>: both services together; the server model of \<open>InvestigationApi\<close> is the
    backend of a job behind a network that may lose messages and answers; what is done at DeepAgent is done at the
    server. \<open>DeepCases\<close>: samples.

  Bounds and fuel. The retry of profile codes makes at most five attempts and the report of a job at most three, as the
  code does. The graph of DeepAgent is run with LangGraph's recursion limit of the code, the configured steps and eight,
  as fuel: running out is the error of the library, and it is proved that no investigation runs out. Every other loop is
  structural or carries its termination proof (the walk over the organisation tree by the set of unvisited nodes), so
  every other operation is total and no fuel is needed. Proofs never evaluate the digest.

  Not modelled: the validation of request bodies by Pydantic beyond the bounds the handlers rely on, the joined
  display columns of listings, generated files (installers, Word and Excel reports), migrations and seeds, the portal
  and the agents, prompts, the log lines of DeepAgent, and the client side of Velociraptor and of language models,
  whose behaviour is that of a service; the manifest lists each with its reason.
\<close>

end
